(* ===== verification/Prelude.thy ===== *)
theory Prelude
  imports Main "HOL-Library.Char_ord" "HOL-Library.Sublist"
begin

section \<open>Prelude: the effect monad, tables and strings\<close>

text \<open>
  What every component of the development shares.
  \<^item> The effect type \<open>('e, 's, 'a) M\<close>: a Python function that may read and write the
    state \<open>'s\<close> and raise an exception \<open>'e\<close>. The state reached when the exception was raised
    is kept, as Python keeps it: only \<open>transaction.atomic\<close> rolls anything back.
  \<^item> The locale \<open>frame\<close>: a reflexive and transitive relation between the state before and
    after. Its lemmas push such a relation through every combinator once; the components
    interpret it.
  \<^item> Partial-correctness triples \<open>hoare P m Q E\<close>, with one postcondition for a normal return
    and one for an exception.
  \<^item> Database tables as association lists from primary keys to rows, in insertion order.
  \<^item> The pieces of Python's \<open>str\<close> the source uses.
\<close>

named_theorems monad_simps \<open>one-step unfolding of the combinators on a state\<close>
named_theorems table_simps \<open>lookups after a table operation\<close>

subsection \<open>The effect monad\<close>

type_synonym ('e, 's, 'a) M = "'s \<Rightarrow> ('e + 'a) \<times> 's"

definition returnM :: "'a \<Rightarrow> ('e, 's, 'a) M" where
  "returnM a = (\<lambda>w. (Inr a, w))"

definition raiseM :: "'e \<Rightarrow> ('e, 's, 'a) M" where
  "raiseM e = (\<lambda>w. (Inl e, w))"

definition bindM :: "('e, 's, 'a) M \<Rightarrow> ('a \<Rightarrow> ('e, 's, 'b) M) \<Rightarrow> ('e, 's, 'b) M" where
  "bindM m f = (\<lambda>w. case m w of (Inl e, w') \<Rightarrow> (Inl e, w') | (Inr a, w') \<Rightarrow> f a w')"

definition getM :: "('s \<Rightarrow> 'a) \<Rightarrow> ('e, 's, 'a) M" where
  "getM f = (\<lambda>w. (Inr (f w), w))"

definition modM :: "('s \<Rightarrow> 's) \<Rightarrow> ('e, 's, unit) M" where
  "modM f = (\<lambda>w. (Inr (), f w))"

text \<open>\<open>try: m except Exception as exc: h exc\<close>.\<close>

definition tryM :: "('e, 's, 'a) M \<Rightarrow> ('e \<Rightarrow> ('e, 's, 'a) M) \<Rightarrow> ('e, 's, 'a) M" where
  "tryM m h = (\<lambda>w. case m w of (Inl e, w') \<Rightarrow> h e w' | (Inr a, w') \<Rightarrow> (Inr a, w'))"

text \<open>\<open>try: m finally: c\<close>; an exception of the clean-up replaces the pending outcome.\<close>

definition finallyM :: "('e, 's, 'a) M \<Rightarrow> ('e, 's, unit) M \<Rightarrow> ('e, 's, 'a) M" where
  "finallyM m c = (\<lambda>w. case m w of (r, w') \<Rightarrow>
     (case c w' of (Inl e, w'') \<Rightarrow> (Inl e, w'') | (Inr _, w'') \<Rightarrow> (r, w'')))"

definition whenM :: "bool \<Rightarrow> ('e, 's, unit) M \<Rightarrow> ('e, 's, unit) M" where
  "whenM b m = (if b then m else returnM ())"

text \<open>A block of statements, and a \<open>for\<close> loop over a list that is already in memory.\<close>

fun seqM :: "('e, 's, unit) M list \<Rightarrow> ('e, 's, unit) M" where
  "seqM [] = returnM ()"
| "seqM (m # ms) = bindM m (\<lambda>_. seqM ms)"

fun forM :: "'a list \<Rightarrow> ('a \<Rightarrow> ('e, 's, unit) M) \<Rightarrow> ('e, 's, unit) M" where
  "forM [] f = returnM ()"
| "forM (x # xs) f = bindM (f x) (\<lambda>_. forM xs f)"

text \<open>A list comprehension whose element expression has effects.\<close>

fun mapM :: "('a \<Rightarrow> ('e, 's, 'b) M) \<Rightarrow> 'a list \<Rightarrow> ('e, 's, 'b list) M" where
  "mapM f [] = returnM []"
| "mapM f (x # xs) = bindM (f x) (\<lambda>y. bindM (mapM f xs) (\<lambda>ys. returnM (y # ys)))"

text \<open>The exception class \<open>e\<close> for a missing value (\<open>objects.get\<close>, a dict lookup).\<close>

definition optionM :: "'e \<Rightarrow> 'a option \<Rightarrow> ('e, 's, 'a) M" where
  "optionM e x = (case x of None \<Rightarrow> raiseM e | Some a \<Rightarrow> returnM a)"

lemma returnM_apply [simp, monad_simps]: "returnM a w = (Inr a, w)"
  by (simp add: returnM_def)

lemma raiseM_apply [simp, monad_simps]: "raiseM e w = (Inl e, w)"
  by (simp add: raiseM_def)

lemma getM_apply [simp, monad_simps]: "getM f w = (Inr (f w), w)"
  by (simp add: getM_def)

lemma modM_apply [simp, monad_simps]: "modM f w = (Inr (), f w)"
  by (simp add: modM_def)

lemma bindM_apply [monad_simps]:
  "bindM m f w = (case m w of (Inl e, w') \<Rightarrow> (Inl e, w') | (Inr a, w') \<Rightarrow> f a w')"
  by (simp add: bindM_def)

lemma tryM_apply [monad_simps]:
  "tryM m h w = (case m w of (Inl e, w') \<Rightarrow> h e w' | (Inr a, w') \<Rightarrow> (Inr a, w'))"
  by (simp add: tryM_def)

lemma finallyM_apply [monad_simps]:
  "finallyM m c w = (case m w of (r, w') \<Rightarrow>
     (case c w' of (Inl e, w'') \<Rightarrow> (Inl e, w'') | (Inr _, w'') \<Rightarrow> (r, w'')))"
  by (simp add: finallyM_def)

lemma whenM_simps [simp, monad_simps]: "whenM True m = m" "whenM False m = returnM ()"
  by (simp_all add: whenM_def)

lemma optionM_simps [simp, monad_simps]: "optionM e None = raiseM e" "optionM e (Some a) = returnM a"
  by (simp_all add: optionM_def)

lemma bindM_return [simp]: "bindM (returnM a) f = f a"
  by (rule ext) (simp add: bindM_def)

lemma bindM_raise [simp]: "bindM (raiseM e) f = raiseM e"
  by (rule ext) (simp add: bindM_def)

lemma bindM_getM_apply [simp, monad_simps]: "bindM (getM g) f w = f (g w) w"
  by (simp add: bindM_def)

lemma bindM_modM_apply [simp, monad_simps]: "bindM (modM g) f w = f () (g w)"
  by (simp add: bindM_def)

lemma if_bindM: "bindM (if b then m else n) f = (if b then bindM m f else bindM n f)"
  by simp

lemma bindM_assoc: "bindM (bindM m f) g = bindM m (\<lambda>x. bindM (f x) g)"
  by (rule ext) (auto simp: bindM_def split: prod.splits sum.splits)

lemma bindM_InrE:
  assumes "bindM m f w = (Inr b, w')"
  obtains a w1 where "m w = (Inr a, w1)" and "f a w1 = (Inr b, w')"
  using assms by (auto simp: bindM_def split: prod.splits sum.splits)

text \<open>Whether a run returned normally, and what it returned.\<close>

definition returned :: "('e + 'a) \<times> 's \<Rightarrow> bool" where
  "returned r = (case fst r of Inl _ \<Rightarrow> False | Inr _ \<Rightarrow> True)"

lemma returned_simps [simp]: "returned (Inr a, w)" "\<not> returned (Inl e, w)"
  by (simp_all add: returned_def)

subsection \<open>Frames: relations every step keeps\<close>

definition keeps :: "('s \<Rightarrow> 's \<Rightarrow> bool) \<Rightarrow> ('e, 's, 'a) M \<Rightarrow> bool" where
  "keeps R m \<longleftrightarrow> (\<forall>w. R w (snd (m w)))"

lemma keepsD: "keeps R m \<Longrightarrow> m w = (r, w') \<Longrightarrow> R w w'"
  by (metis keeps_def snd_conv)

lemma keepsD2: "keeps R m \<Longrightarrow> R w (snd (m w))"
  by (simp add: keeps_def)

lemma keeps_case_prod: "(\<And>a b. keeps R (f a b)) \<Longrightarrow> keeps R (case p of (a, b) \<Rightarrow> f a b)"
  by (cases p) simp

locale frame =
  fixes R :: "'s \<Rightarrow> 's \<Rightarrow> bool"
  assumes R_refl: "R w w"
    and R_trans: "R w w' \<Longrightarrow> R w' w'' \<Longrightarrow> R w w''"
begin

lemma keeps_return: "keeps R (returnM a)"
  by (simp add: keeps_def R_refl)

lemma keeps_raise: "keeps R (raiseM e)"
  by (simp add: keeps_def R_refl)

lemma keeps_get: "keeps R (getM f)"
  by (simp add: keeps_def R_refl)

lemma keeps_mod: "(\<And>w. R w (f w)) \<Longrightarrow> keeps R (modM f)"
  by (simp add: keeps_def)

lemma keeps_option: "keeps R (optionM e x)"
  by (cases x) (simp_all add: keeps_return keeps_raise)

lemma keeps_bind:
  assumes "keeps R m" and "\<And>a. keeps R (f a)"
  shows "keeps R (bindM m f)"
  unfolding keeps_def
proof
  fix w
  obtain r w' where m: "m w = (r, w')" by fastforce
  then have 1: "R w w'" using assms(1) by (rule keepsD [rotated])
  show "R w (snd (bindM m f w))"
    using m 1 assms(2) by (cases r) (auto simp: bindM_def keeps_def intro: R_trans)
qed

lemma keeps_try:
  assumes "keeps R m" and "\<And>e. keeps R (h e)"
  shows "keeps R (tryM m h)"
  unfolding keeps_def
proof
  fix w
  obtain r w' where m: "m w = (r, w')" by fastforce
  then have 1: "R w w'" using assms(1) by (rule keepsD [rotated])
  show "R w (snd (tryM m h w))"
    using m 1 assms(2) by (cases r) (auto simp: tryM_def keeps_def intro: R_trans)
qed

lemma keeps_finally:
  assumes "keeps R m" and "keeps R c"
  shows "keeps R (finallyM m c)"
  unfolding keeps_def
proof
  fix w
  obtain r w' where m: "m w = (r, w')" by fastforce
  obtain r2 w2 where c: "c w' = (r2, w2)" by fastforce
  have "R w w'" and "R w' w2"
    using m c assms by (auto dest: keepsD)
  then show "R w (snd (finallyM m c w))"
    using m c by (cases r2) (auto simp: finallyM_def intro: R_trans)
qed

lemma keeps_when: "keeps R m \<Longrightarrow> keeps R (whenM b m)"
  by (cases b) (simp_all add: keeps_return)

lemma keeps_seq: "(\<And>m. m \<in> set ms \<Longrightarrow> keeps R m) \<Longrightarrow> keeps R (seqM ms)"
  by (induction ms) (auto intro!: keeps_bind keeps_return)

lemma keeps_seq_Nil: "keeps R (seqM [])"
  by (simp add: keeps_return)

lemma keeps_seq_Cons: "keeps R m \<Longrightarrow> keeps R (seqM ms) \<Longrightarrow> keeps R (seqM (m # ms))"
  by (simp add: keeps_bind)

lemma keeps_for: "(\<And>x. keeps R (f x)) \<Longrightarrow> keeps R (forM xs f)"
  by (induction xs) (auto intro!: keeps_bind keeps_return)

lemma keeps_map: "(\<And>x. keeps R (f x)) \<Longrightarrow> keeps R (mapM f xs)"
  by (induction xs) (auto intro!: keeps_bind keeps_return)

lemma keeps_if: "keeps R m \<Longrightarrow> keeps R n \<Longrightarrow> keeps R (if b then m else n)"
  by simp

lemma keeps_case_option:
  "keeps R n \<Longrightarrow> (\<And>a. keeps R (f a)) \<Longrightarrow> keeps R (case x of None \<Rightarrow> n | Some a \<Rightarrow> f a)"
  by (cases x) simp_all

lemma keeps_let: "(\<And>x. keeps R (f x)) \<Longrightarrow> keeps R (let x = a in f x)"
  by simp

lemmas keeps_basic = keeps_return keeps_raise keeps_get keeps_option

lemmas keeps_rules = keeps_return keeps_raise keeps_get keeps_option keeps_bind keeps_try
  keeps_finally keeps_when keeps_seq_Nil keeps_seq_Cons keeps_for keeps_map keeps_if
  keeps_case_option keeps_let

end

subsection \<open>Triples with an exceptional postcondition\<close>

definition hoare ::
  "('s \<Rightarrow> bool) \<Rightarrow> ('e, 's, 'a) M \<Rightarrow> ('a \<Rightarrow> 's \<Rightarrow> bool) \<Rightarrow> ('e \<Rightarrow> 's \<Rightarrow> bool) \<Rightarrow> bool" where
  "hoare P m Q E \<longleftrightarrow>
     (\<forall>w. P w \<longrightarrow> (case m w of (Inr a, w') \<Rightarrow> Q a w' | (Inl e, w') \<Rightarrow> E e w'))"

lemma hoareI:
  "(\<And>w. P w \<Longrightarrow> case m w of (Inr a, w') \<Rightarrow> Q a w' | (Inl e, w') \<Rightarrow> E e w') \<Longrightarrow> hoare P m Q E"
  by (simp add: hoare_def)

lemma hoareD_ok: "hoare P m Q E \<Longrightarrow> P w \<Longrightarrow> m w = (Inr a, w') \<Longrightarrow> Q a w'"
  by (force simp: hoare_def)

lemma hoareD_exn: "hoare P m Q E \<Longrightarrow> P w \<Longrightarrow> m w = (Inl e, w') \<Longrightarrow> E e w'"
  by (force simp: hoare_def)

lemma hoare_weaken:
  assumes "hoare P' m Q' E'"
    and "\<And>w. P w \<Longrightarrow> P' w"
    and "\<And>a w. Q' a w \<Longrightarrow> Q a w"
    and "\<And>e w. E' e w \<Longrightarrow> E e w"
  shows "hoare P m Q E"
proof (rule hoareI)
  fix w
  assume "P w"
  then have "P' w" by (rule assms(2))
  with assms(1) have "case m w of (Inr a, w') \<Rightarrow> Q' a w' | (Inl e, w') \<Rightarrow> E' e w'"
    by (simp add: hoare_def)
  then show "case m w of (Inr a, w') \<Rightarrow> Q a w' | (Inl e, w') \<Rightarrow> E e w'"
    using assms(3,4) by (auto split: prod.splits sum.splits)
qed

lemma hoare_return: "(\<And>w. P w \<Longrightarrow> Q a w) \<Longrightarrow> hoare P (returnM a) Q E"
  by (simp add: hoare_def)

lemma hoare_raise: "(\<And>w. P w \<Longrightarrow> E e w) \<Longrightarrow> hoare P (raiseM e) Q E"
  by (simp add: hoare_def)

lemma hoare_get: "(\<And>w. P w \<Longrightarrow> Q (f w) w) \<Longrightarrow> hoare P (getM f) Q E"
  by (simp add: hoare_def)

lemma hoare_mod: "(\<And>w. P w \<Longrightarrow> Q () (f w)) \<Longrightarrow> hoare P (modM f) Q E"
  by (simp add: hoare_def)

lemma hoare_bind:
  assumes "hoare P m S E" and "\<And>a. hoare (S a) (f a) Q E"
  shows "hoare P (bindM m f) Q E"
proof (rule hoareI)
  fix w
  assume P: "P w"
  obtain r w' where m: "m w = (r, w')" by fastforce
  show "case bindM m f w of (Inr a, w') \<Rightarrow> Q a w' | (Inl e, w') \<Rightarrow> E e w'"
  proof (cases r)
    case (Inl e)
    with m P assms(1) show ?thesis by (auto simp: bindM_def dest: hoareD_exn)
  next
    case (Inr a)
    with m P assms(1) have "S a w'" by (auto dest: hoareD_ok)
    with assms(2) [of a] Inr m show ?thesis by (simp add: bindM_def hoare_def)
  qed
qed

lemma hoare_try:
  assumes "hoare P m Q S" and "\<And>e. hoare (S e) (h e) Q E"
  shows "hoare P (tryM m h) Q E"
proof (rule hoareI)
  fix w
  assume P: "P w"
  obtain r w' where m: "m w = (r, w')" by fastforce
  show "case tryM m h w of (Inr a, w') \<Rightarrow> Q a w' | (Inl e, w') \<Rightarrow> E e w'"
  proof (cases r)
    case (Inl e)
    with m P assms(1) have "S e w'" by (auto dest: hoareD_exn)
    with assms(2) [of e] Inl m show ?thesis by (simp add: tryM_def hoare_def)
  next
    case (Inr a)
    with m P assms(1) show ?thesis by (auto simp: tryM_def dest: hoareD_ok)
  qed
qed

lemma hoare_for:
  assumes "\<And>x. x \<in> set xs \<Longrightarrow> hoare I (f x) (\<lambda>_. I) E"
  shows "hoare I (forM xs f) (\<lambda>_. I) E"
  using assms by (induction xs) (auto intro!: hoare_return hoare_bind)

subsection \<open>Tables\<close>

type_synonym 'r table = "(nat \<times> 'r) list"

definition row_get :: "nat \<Rightarrow> 'r table \<Rightarrow> 'r option" where
  "row_get k t = map_of t k"

definition row_mod :: "nat \<Rightarrow> ('r \<Rightarrow> 'r) \<Rightarrow> 'r table \<Rightarrow> 'r table" where
  "row_mod k f t = map (\<lambda>(k', r). if k' = k then (k', f r) else (k', r)) t"

definition row_del :: "nat \<Rightarrow> 'r table \<Rightarrow> 'r table" where
  "row_del k t = filter (\<lambda>(k', r). k' \<noteq> k) t"

definition row_add :: "nat \<Rightarrow> 'r \<Rightarrow> 'r table \<Rightarrow> 'r table" where
  "row_add k r t = t @ [(k, r)]"

text \<open>\<open>QuerySet.filter\<close>: the rows a predicate selects, with their keys, in table order.\<close>

definition rows_where :: "('r \<Rightarrow> bool) \<Rightarrow> 'r table \<Rightarrow> (nat \<times> 'r) list" where
  "rows_where p t = filter (\<lambda>(k, r). p r) t"

locale row_store =
  fixes get :: "nat \<Rightarrow> 't \<Rightarrow> 'r option"
    and md :: "nat \<Rightarrow> ('r \<Rightarrow> 'r) \<Rightarrow> 't \<Rightarrow> 't"
    and del :: "nat \<Rightarrow> 't \<Rightarrow> 't"
    and add :: "nat \<Rightarrow> 'r \<Rightarrow> 't \<Rightarrow> 't"
  assumes get_md: "get k (md k' f t) = (if k = k' then map_option f (get k t) else get k t)"
    and get_del: "get k (del k' t) = (if k = k' then None else get k t)"
    and get_add: "get k' t = None \<Longrightarrow> get k (add k' r t) = (if k = k' then Some r else get k t)"
begin

lemma get_md_same: "get k t = Some r \<Longrightarrow> get k (md k f t) = Some (f r)"
  by (simp add: get_md)

lemma get_md_other: "k \<noteq> k' \<Longrightarrow> get k (md k' f t) = get k t"
  by (simp add: get_md)

lemma md_keeps_rows: "(get k (md k' f t) = None) = (get k t = None)"
  by (simp add: get_md)

lemma add_then_get: "get k t = None \<Longrightarrow> get k (add k r t) = Some r"
  by (simp add: get_add)

lemma del_then_get: "get k (del k t) = None"
  by (simp add: get_del)

lemma add_keeps: "get k' t = None \<Longrightarrow> get k t = Some x \<Longrightarrow> get k (add k' r t) = Some x"
  by (auto simp: get_add)

end

lemma map_of_row_mod:
  "map_of (row_mod k f t) k' = (if k' = k then map_option f (map_of t k') else map_of t k')"
  by (induction t) (auto simp: row_mod_def)

lemma map_of_row_del: "map_of (row_del k t) k' = (if k' = k then None else map_of t k')"
  by (induction t) (auto simp: row_del_def)

interpretation tbl: row_store row_get row_mod row_del row_add
proof unfold_locales
  fix k k' :: nat and f :: "'r \<Rightarrow> 'r" and r :: 'r and t :: "'r table"
  show "row_get k (row_mod k' f t) = (if k = k' then map_option f (row_get k t) else row_get k t)"
    by (simp add: row_get_def map_of_row_mod)
  show "row_get k (row_del k' t) = (if k = k' then None else row_get k t)"
    by (simp add: row_get_def map_of_row_del)
  show "row_get k' t = None \<Longrightarrow>
      row_get k (row_add k' r t) = (if k = k' then Some r else row_get k t)"
    by (simp add: row_get_def row_add_def map_add_def split: option.splits)
qed

declare tbl.get_md [table_simps] tbl.get_del [table_simps]

lemma row_get_Nil [simp]: "row_get k [] = None"
  by (simp add: row_get_def)

lemma row_get_Cons [simp]: "row_get k ((k', r) # t) = (if k = k' then Some r else row_get k t)"
  by (simp add: row_get_def)

lemma row_get_append: "row_get k (t @ t') = (case row_get k t of None \<Rightarrow> row_get k t' | Some r \<Rightarrow> Some r)"
  by (simp add: row_get_def map_add_def split: option.splits)

lemma row_get_add_Some: "row_get k t = Some r \<Longrightarrow> row_get k (row_add k' r' t) = Some r"
  by (simp add: row_add_def row_get_append)

lemma row_get_SomeD: "row_get k t = Some r \<Longrightarrow> (k, r) \<in> set t"
  by (simp add: row_get_def map_of_SomeD)

lemma rows_where_iff: "(k, r) \<in> set (rows_where p t) \<longleftrightarrow> (k, r) \<in> set t \<and> p r"
  by (auto simp: rows_where_def)

lemma row_mod_memE:
  assumes "(k', r') \<in> set (row_mod k f t)"
  obtains r where "(k', r) \<in> set t" and "r' = (if k' = k then f r else r)"
  using assms by (auto simp: row_mod_def split: if_splits)

lemma keys_row_mod [simp]: "map fst (row_mod k f t) = map fst t"
  by (induction t) (auto simp: row_mod_def)

lemma keys_row_del: "map fst (row_del k t) = filter (\<lambda>k'. k' \<noteq> k) (map fst t)"
  by (induction t) (auto simp: row_del_def)

lemma distinct_row_del: "distinct (map fst t) \<Longrightarrow> distinct (map fst (row_del k t))"
  by (simp add: keys_row_del)

subsection \<open>Strings\<close>

definition digit :: "nat \<Rightarrow> char" where
  "digit n = char_of (48 + n)"

fun show_nat :: "nat \<Rightarrow> string" where
  "show_nat n = (if n < 10 then [digit n] else show_nat (n div 10) @ [digit (n mod 10)])"

declare show_nat.simps [simp del]

definition show_int :: "int \<Rightarrow> string" where
  "show_int i = (if i < 0 then ''-'' @ show_nat (nat (- i)) else show_nat (nat i))"

definition lower_char :: "char \<Rightarrow> char" where
  "lower_char c = (let n = (of_char c :: nat) in if 65 \<le> n \<and> n \<le> 90 then char_of (n + 32) else c)"

definition lower :: "string \<Rightarrow> string" where
  "lower s = map lower_char s"

text \<open>\<open>s.partition(c)\<close> for a one-character separator: the text before the first \<open>c\<close>, whether
  there is one, and the text after it.\<close>

definition partition_at :: "char \<Rightarrow> string \<Rightarrow> string \<times> bool \<times> string" where
  "partition_at c s = (takeWhile (\<lambda>x. x \<noteq> c) s, c \<in> set s, tl (dropWhile (\<lambda>x. x \<noteq> c) s))"

text \<open>\<open>s.split(c)\<close>: never empty; a string without \<open>c\<close> is its own only part.\<close>

fun split_on :: "char \<Rightarrow> string \<Rightarrow> string list" where
  "split_on c [] = [[]]"
| "split_on c (x # xs) =
     (if x = c then [] # split_on c xs
      else (case split_on c xs of [] \<Rightarrow> [[x]] | p # ps \<Rightarrow> (x # p) # ps))"

definition join_with :: "string \<Rightarrow> string list \<Rightarrow> string" where
  "join_with sep ps = (case ps of [] \<Rightarrow> '''' | p # qs \<Rightarrow> p @ concat (map (\<lambda>q. sep @ q) qs))"

definition is_digit :: "char \<Rightarrow> bool" where
  "is_digit c = (let n = (of_char c :: nat) in 48 \<le> n \<and> n \<le> 57)"

definition is_alpha :: "char \<Rightarrow> bool" where
  "is_alpha c = (let n = (of_char c :: nat) in (65 \<le> n \<and> n \<le> 90) \<or> (97 \<le> n \<and> n \<le> 122))"

lemma show_nat_nonempty [simp]: "show_nat n \<noteq> []"
  by (subst show_nat.simps) simp

lemma split_on_nonempty [simp]: "split_on c s \<noteq> []"
  by (induction s) (auto split: list.splits)

lemma split_on_no_sep: "p \<in> set (split_on c s) \<Longrightarrow> c \<notin> set p"
proof (induction s arbitrary: p)
  case Nil
  then show ?case by simp
next
  case (Cons x xs)
  then show ?case by (cases "split_on c xs") (auto split: if_splits)
qed

lemma join_split_on: "join_with [c] (split_on c s) = s"
proof (induction s)
  case Nil
  then show ?case by (simp add: join_with_def)
next
  case (Cons x xs)
  obtain p ps where ps: "split_on c xs = p # ps" by (meson list.exhaust split_on_nonempty)
  with Cons.IH have "p @ concat (map ((@) [c]) ps) = xs" by (simp add: join_with_def)
  with ps show ?case by (simp add: join_with_def)
qed

lemma partition_at_append:
  "c \<in> set s \<Longrightarrow> fst (partition_at c s) @ [c] @ snd (snd (partition_at c s)) = s"
  by (induction s) (auto simp: partition_at_def)

lemma digit_is_digit: "n < 10 \<Longrightarrow> is_digit (digit n)"
  by (simp add: is_digit_def digit_def of_char_of)

lemma show_nat_digits: "c \<in> set (show_nat n) \<Longrightarrow> is_digit c"
proof (induction n rule: show_nat.induct)
  case (1 n)
  show ?case
  proof (cases "n < 10")
    case True
    with "1.prems" show ?thesis by (subst (asm) show_nat.simps) (simp add: digit_is_digit)
  next
    case False
    with "1.prems" have "c = digit (n mod 10) \<or> c \<in> set (show_nat (n div 10))"
      by (subst (asm) show_nat.simps) simp
    then show ?thesis using "1.IH" [OF False] by (auto simp: digit_is_digit)
  qed
qed

lemma digit_inj: "m < 10 \<Longrightarrow> n < 10 \<Longrightarrow> digit m = digit n \<Longrightarrow> m = n"
proof -
  assume a: "m < 10" "n < 10" "digit m = digit n"
  then have "(of_char (digit m) :: nat) = of_char (digit n)" by simp
  with a(1,2) show "m = n" by (simp add: digit_def of_char_of)
qed

lemma show_nat_length: "length (show_nat n) \<ge> 1"
  by (simp add: Suc_leI)

lemma show_nat_inj: "show_nat m = show_nat n \<Longrightarrow> m = n"
proof (induction m arbitrary: n rule: show_nat.induct)
  case (1 m)
  have m: "show_nat m = (if m < 10 then [digit m] else show_nat (m div 10) @ [digit (m mod 10)])"
    by (subst show_nat.simps) simp
  have n: "show_nat n = (if n < 10 then [digit n] else show_nat (n div 10) @ [digit (n mod 10)])"
    by (subst show_nat.simps) simp
  show ?case
  proof (cases "m < 10"; cases "n < 10")
    assume "m < 10" "n < 10"
    with m n "1.prems" show ?thesis by (simp add: digit_inj)
  next
    assume "m < 10" "\<not> n < 10"
    with m n "1.prems" show ?thesis by simp
  next
    assume "\<not> m < 10" "n < 10"
    with m n "1.prems" show ?thesis using show_nat_nonempty [of "m div 10"] by auto
  next
    assume a: "\<not> m < 10" "\<not> n < 10"
    with m n "1.prems" have "show_nat (m div 10) = show_nat (n div 10)"
      and d: "digit (m mod 10) = digit (n mod 10)" by simp_all
    then have "m div 10 = n div 10" using "1.IH" a(1) by blast
    moreover have "m mod 10 = n mod 10" using d by (rule digit_inj [rotated 2]) simp_all
    ultimately show ?thesis by (metis div_mult_mod_eq)
  qed
qed

lemma show_int_inj: "show_int a = show_int b \<Longrightarrow> a = b"
proof -
  have "CHR ''-'' \<notin> set (show_nat n)" for n using show_nat_digits [of "CHR ''-''" n] by (auto simp: is_digit_def)
  then show "show_int a = show_int b \<Longrightarrow> a = b"
    unfolding show_int_def by (auto split: if_splits dest!: show_nat_inj) (metis list.set_intros(1))+
qed

end
