(* ===== verification/Errors.thy ===== *)
theory Errors
  imports Prelude
begin

section \<open>Errors: JSON values, exception classes and the API error envelope\<close>

text \<open>
  The exceptions the backend raises, as values. \<open>api_class\<close> has one constructor per subclass of
  \<open>NodePilotAPIException\<close> (\<open>backend/apps/common/exceptions.py\<close> and the subclasses that the
  scheduler, \<open>migrate_vm\<close>, IPAM, image uploads and templates declare); \<open>exn\<close> adds the exceptions that never reach the API
  envelope (Django's, Python's and the domain's own). \<open>str_exn\<close> is \<open>str(exc)\<close>, which the job
  and VM rows record, and \<open>nodepilot_exception_handler\<close> is the envelope itself.
\<close>

subsection \<open>JSON values\<close>

datatype json =
    JNull
  | JBool bool
  | JInt int
  | JStr string
  | JArr "json list"
  | JObj "(string \<times> json) list"

definition jget :: "string \<Rightarrow> json \<Rightarrow> json option" where
  "jget k j = (case j of JObj kvs \<Rightarrow> map_of kvs k | _ \<Rightarrow> None)"

text \<open>\<open>bool(x)\<close>: what Python's truth test makes of a JSON value.\<close>

definition truthy :: "json \<Rightarrow> bool" where
  "truthy j = (case j of JNull \<Rightarrow> False | JBool b \<Rightarrow> b | JInt i \<Rightarrow> i \<noteq> 0 | JStr s \<Rightarrow> s \<noteq> ''''
     | JArr xs \<Rightarrow> xs \<noteq> [] | JObj kvs \<Rightarrow> kvs \<noteq> [])"

text \<open>\<open>d.get(k, default)\<close> where the code goes on to use the value as a string.\<close>

definition jget_str :: "string \<Rightarrow> json \<Rightarrow> string \<Rightarrow> string" where
  "jget_str k j d = (case jget k j of Some (JStr s) \<Rightarrow> s | _ \<Rightarrow> d)"

definition jget_int :: "string \<Rightarrow> json \<Rightarrow> int \<Rightarrow> int" where
  "jget_int k j d = (case jget k j of Some (JInt i) \<Rightarrow> i | _ \<Rightarrow> d)"

text \<open>\<open>{**a, **b}\<close>: the second dict wins.\<close>

definition dict_merge :: "(string \<times> json) list \<Rightarrow> (string \<times> json) list \<Rightarrow> (string \<times> json) list" where
  "dict_merge a b = filter (\<lambda>kv. fst kv \<notin> fst ` set b) a @ b"

definition jstrs :: "string list \<Rightarrow> json" where
  "jstrs ss = JArr (map JStr ss)"

definition jopt_int :: "nat option \<Rightarrow> json" where
  "jopt_int x = (case x of None \<Rightarrow> JNull | Some n \<Rightarrow> JInt (int n))"

subsection \<open>Exception classes\<close>

datatype api_class =
    NodePilotAPIException "string option"
  | ValidationFailed
  | ResourceLocked
  | QuotaExceeded
  | PermissionDeniedError
  | AgentUnavailable
  | AgentOperationFailed
  | AgentVersionUnsupported
  | InvalidStateTransition
  | StorageCapabilityUnsupported
  | NoSchedulableNode
  | MigrationNotImplemented
  | NoAvailableIPAddress
  | InvalidReservation
  | UploadOutOfOrder
  | UploadSizeMismatch
  | ChecksumMismatch
  | TemplateImageNotReady

fun code_name :: "api_class \<Rightarrow> string" where
  "code_name (NodePilotAPIException c) =
     (case c of None \<Rightarrow> ''ERROR'' | Some s \<Rightarrow> if s = '''' then ''ERROR'' else s)"
| "code_name ValidationFailed = ''VALIDATION_FAILED''"
| "code_name ResourceLocked = ''RESOURCE_LOCKED''"
| "code_name QuotaExceeded = ''QUOTA_EXCEEDED''"
| "code_name PermissionDeniedError = ''PERMISSION_DENIED''"
| "code_name AgentUnavailable = ''AGENT_UNAVAILABLE''"
| "code_name AgentOperationFailed = ''AGENT_OPERATION_FAILED''"
| "code_name AgentVersionUnsupported = ''AGENT_VERSION_UNSUPPORTED''"
| "code_name InvalidStateTransition = ''INVALID_STATE_TRANSITION''"
| "code_name StorageCapabilityUnsupported = ''STORAGE_CAPABILITY_UNSUPPORTED''"
| "code_name NoSchedulableNode = ''NO_SCHEDULABLE_NODE''"
| "code_name MigrationNotImplemented = ''MIGRATION_NOT_IMPLEMENTED''"
| "code_name NoAvailableIPAddress = ''NO_AVAILABLE_IP_ADDRESS''"
| "code_name InvalidReservation = ''INVALID_IP_RESERVATION''"
| "code_name UploadOutOfOrder = ''UPLOAD_CHUNK_OUT_OF_ORDER''"
| "code_name UploadSizeMismatch = ''UPLOAD_SIZE_MISMATCH''"
| "code_name ChecksumMismatch = ''CHECKSUM_MISMATCH''"
| "code_name TemplateImageNotReady = ''TEMPLATE_IMAGE_NOT_READY''"

fun status_code :: "api_class \<Rightarrow> nat" where
  "status_code (NodePilotAPIException c) = 400"
| "status_code ValidationFailed = 400"
| "status_code ResourceLocked = 409"
| "status_code QuotaExceeded = 402"
| "status_code PermissionDeniedError = 403"
| "status_code AgentUnavailable = 503"
| "status_code AgentOperationFailed = 502"
| "status_code AgentVersionUnsupported = 409"
| "status_code InvalidStateTransition = 409"
| "status_code StorageCapabilityUnsupported = 409"
| "status_code NoSchedulableNode = 409"
| "status_code MigrationNotImplemented = 501"
| "status_code NoAvailableIPAddress = 409"
| "status_code InvalidReservation = 409"
| "status_code UploadOutOfOrder = 409"
| "status_code UploadSizeMismatch = 400"
| "status_code ChecksumMismatch = 400"
| "status_code TemplateImageNotReady = 409"

fun default_detail :: "api_class \<Rightarrow> string" where
  "default_detail (NodePilotAPIException c) = ''A server error occurred.''"
| "default_detail ValidationFailed = ''The request could not be validated.''"
| "default_detail ResourceLocked = ''The resource is currently locked by another operation.''"
| "default_detail QuotaExceeded =
     ''This operation would exceed the organization's resource quota.''"
| "default_detail PermissionDeniedError = ''You do not have permission to perform this action.''"
| "default_detail AgentUnavailable = ''The node agent is not currently connected.''"
| "default_detail AgentOperationFailed =
     ''The node agent reported an error executing the operation.''"
| "default_detail AgentVersionUnsupported =
     ''The agent's protocol version is not compatible with this controller.''"
| "default_detail InvalidStateTransition =
     ''The requested operation is not valid for the resource's current state.''"
| "default_detail StorageCapabilityUnsupported =
     ''The storage backend does not support this operation.''"
| "default_detail NoSchedulableNode =
     ''No online node has enough free capacity for this VM.''"
| "default_detail MigrationNotImplemented =
     ''Live migration execution is not yet implemented.''"
| "default_detail NoAvailableIPAddress =
     ''No available IP address in the requested subnet/pool.''"
| "default_detail InvalidReservation = ''A server error occurred.''"
| "default_detail UploadOutOfOrder =
     ''Chunk index does not match the next expected chunk for this upload session.''"
| "default_detail UploadSizeMismatch =
     ''The uploaded bytes do not match the declared total size.''"
| "default_detail ChecksumMismatch =
     ''The computed checksum does not match the expected checksum.''"
| "default_detail TemplateImageNotReady = ''A server error occurred.''"

text \<open>
  \<open>ApiExn c m d\<close> is an instance of the API class \<open>c\<close> with detail \<open>m\<close> and details \<open>d\<close>.
  \<open>DrfExn s c m\<close> is one of the framework's own API exceptions (status, default code, detail).
\<close>

datatype exn =
    ApiExn api_class string json
  | DrfExn nat string string
  | JobCancelled string
  | LockAcquisitionError string
  | DoesNotExist string
  | IntegrityError string
  | DatabaseError string
  | TypeError string
  | ValueError string
  | AttributeError string
  | KeyError string
  | UnsafeWebhookHostError string
  | ProtectedError string
  | OtherError string

text \<open>\<open>NodePilotAPIException.__init__(message, details, code_name)\<close>.\<close>

definition mk_api :: "api_class \<Rightarrow> string option \<Rightarrow> json option \<Rightarrow> exn" where
  "mk_api c m d = ApiExn c
     (case m of None \<Rightarrow> default_detail c | Some s \<Rightarrow> if s = '''' then default_detail c else s)
     (case d of None \<Rightarrow> JObj [] | Some j \<Rightarrow> if truthy j then j else JObj [])"

abbreviation api_exn :: "api_class \<Rightarrow> string \<Rightarrow> exn" where
  "api_exn c m \<equiv> mk_api c (Some m) None"

abbreviation quoted :: "string \<Rightarrow> string" where
  "quoted s \<equiv> [CHR 0x27] @ s @ [CHR 0x27]"

fun str_exn :: "exn \<Rightarrow> string" where
  "str_exn (ApiExn c m d) = m"
| "str_exn (DrfExn s c m) = m"
| "str_exn (JobCancelled m) = m"
| "str_exn (LockAcquisitionError k) = ''Could not acquire lock for '' @ quoted k @ '': resource is busy''"
| "str_exn (DoesNotExist m) = m @ '' matching query does not exist.''"
| "str_exn (IntegrityError m) = m"
| "str_exn (DatabaseError m) = m"
| "str_exn (TypeError m) = m"
| "str_exn (ValueError m) = m"
| "str_exn (AttributeError m) = m"
| "str_exn (KeyError m) = quoted m"
| "str_exn (UnsafeWebhookHostError m) = m"
| "str_exn (ProtectedError m) = m"
| "str_exn (OtherError m) = m"

definition is_lock_error :: "exn \<Rightarrow> bool" where
  "is_lock_error e = (case e of LockAcquisitionError _ \<Rightarrow> True | _ \<Rightarrow> False)"

definition is_job_cancelled :: "exn \<Rightarrow> bool" where
  "is_job_cancelled e = (case e of JobCancelled _ \<Rightarrow> True | _ \<Rightarrow> False)"

subsection \<open>The API error envelope\<close>

text \<open>
  \<open>nodepilot_exception_handler\<close>: \<open>None\<close> when Django REST framework has no response for the
  exception, which then surfaces as an unhandled server error.
\<close>

definition envelope :: "string \<Rightarrow> string \<Rightarrow> json \<Rightarrow> json" where
  "envelope code msg details =
     JObj [(''error'', JObj [(''code'', JStr code), (''message'', JStr msg), (''details'', details)])]"

definition nodepilot_exception_handler :: "exn \<Rightarrow> (nat \<times> json) option" where
  "nodepilot_exception_handler e = (case e of
     ApiExn c m d \<Rightarrow> Some (status_code c, envelope (code_name c) m d)
   | DrfExn s c m \<Rightarrow> Some (s, envelope c m (JObj []))
   | _ \<Rightarrow> None)"

lemma mk_api_not_lock [simp]: "\<not> is_lock_error (mk_api c m d)"
  by (simp add: is_lock_error_def mk_api_def)

lemma mk_api_not_cancelled [simp]: "\<not> is_job_cancelled (mk_api c m d)"
  by (simp add: is_job_cancelled_def mk_api_def)

lemma is_lock_error_simps [simp]:
  "is_lock_error (LockAcquisitionError k)" "\<not> is_lock_error (ApiExn c m d)"
  "\<not> is_lock_error (JobCancelled m)" "\<not> is_lock_error (DoesNotExist m)"
  by (simp_all add: is_lock_error_def)

lemma is_job_cancelled_simps [simp]:
  "is_job_cancelled (JobCancelled m)" "\<not> is_job_cancelled (ApiExn c m' d)"
  "\<not> is_job_cancelled (LockAcquisitionError m)" "\<not> is_job_cancelled (DoesNotExist m)"
  by (simp_all add: is_job_cancelled_def)

text \<open>Every API class answers with a client or server error status and a code of its own.\<close>

lemma status_code_range: "400 \<le> status_code c \<and> status_code c < 600"
  by (cases c) simp_all

lemma code_name_nonempty: "code_name c \<noteq> ''''"
  by (cases c) (auto split: option.splits)

end
