(* ===== verification/Models.thy ===== *)
theory Models
  imports Errors
begin

section \<open>Models: the rows of the database and the state of the world\<close>

text \<open>
  The Django models of \<open>backend/apps/*/models.py\<close>: an enumeration is a datatype with a
  \<open>show\<close> function for its stored value, a model is a record that extends
  \<open>nodepilot_model\<close> (\<open>backend/apps/common/models.py\<close>), a foreign key is the primary key of the
  row it points to, a nullable column is an option. \<open>db\<close> is everything a
  \<open>transaction.atomic\<close> block rolls back: the tables, and the Celery calls that
  \<open>transaction.on_commit\<close> has registered. \<open>world\<close> adds what a rollback does not touch: Redis,
  the clock, the channel layer's messages, the environment and the running task's own variables.
  Times are milliseconds.
\<close>

subsection \<open>Enumerations\<close>

datatype JobType =
    VM_CREATE | VM_START | VM_STOP | VM_SHUTDOWN | VM_REBOOT | VM_RESET | VM_PAUSE | VM_RESUME
  | VM_DELETE | VM_CLONE | VM_MIGRATE
  | DISK_CREATE | DISK_DELETE | DISK_RESIZE | DISK_ATTACH | DISK_DETACH
  | NIC_ATTACH | NIC_DETACH | NETWORK_CREATE | NETWORK_DELETE
  | SNAPSHOT_CREATE | SNAPSHOT_DELETE | SNAPSHOT_ROLLBACK
  | BACKUP_CREATE | BACKUP_RESTORE | IMAGE_IMPORT | WEBHOOK_DELIVERY | STORAGE_POOL_CREATE

fun show_JobType :: "JobType \<Rightarrow> string" where
  "show_JobType VM_CREATE = ''VM_CREATE''"
| "show_JobType VM_START = ''VM_START''"
| "show_JobType VM_STOP = ''VM_STOP''"
| "show_JobType VM_SHUTDOWN = ''VM_SHUTDOWN''"
| "show_JobType VM_REBOOT = ''VM_REBOOT''"
| "show_JobType VM_RESET = ''VM_RESET''"
| "show_JobType VM_PAUSE = ''VM_PAUSE''"
| "show_JobType VM_RESUME = ''VM_RESUME''"
| "show_JobType VM_DELETE = ''VM_DELETE''"
| "show_JobType VM_CLONE = ''VM_CLONE''"
| "show_JobType VM_MIGRATE = ''VM_MIGRATE''"
| "show_JobType DISK_CREATE = ''DISK_CREATE''"
| "show_JobType DISK_DELETE = ''DISK_DELETE''"
| "show_JobType DISK_RESIZE = ''DISK_RESIZE''"
| "show_JobType DISK_ATTACH = ''DISK_ATTACH''"
| "show_JobType DISK_DETACH = ''DISK_DETACH''"
| "show_JobType NIC_ATTACH = ''NIC_ATTACH''"
| "show_JobType NIC_DETACH = ''NIC_DETACH''"
| "show_JobType NETWORK_CREATE = ''NETWORK_CREATE''"
| "show_JobType NETWORK_DELETE = ''NETWORK_DELETE''"
| "show_JobType SNAPSHOT_CREATE = ''SNAPSHOT_CREATE''"
| "show_JobType SNAPSHOT_DELETE = ''SNAPSHOT_DELETE''"
| "show_JobType SNAPSHOT_ROLLBACK = ''SNAPSHOT_ROLLBACK''"
| "show_JobType BACKUP_CREATE = ''BACKUP_CREATE''"
| "show_JobType BACKUP_RESTORE = ''BACKUP_RESTORE''"
| "show_JobType IMAGE_IMPORT = ''IMAGE_IMPORT''"
| "show_JobType WEBHOOK_DELIVERY = ''WEBHOOK_DELIVERY''"
| "show_JobType STORAGE_POOL_CREATE = ''STORAGE_POOL_CREATE''"

datatype JobStatus = JS_QUEUED | JS_RUNNING | JS_SUCCESS | JS_FAILED | JS_CANCELING | JS_CANCELED

fun show_JobStatus :: "JobStatus \<Rightarrow> string" where
  "show_JobStatus JS_QUEUED = ''QUEUED''"
| "show_JobStatus JS_RUNNING = ''RUNNING''"
| "show_JobStatus JS_SUCCESS = ''SUCCESS''"
| "show_JobStatus JS_FAILED = ''FAILED''"
| "show_JobStatus JS_CANCELING = ''CANCELING''"
| "show_JobStatus JS_CANCELED = ''CANCELED''"

datatype VMStatus =
    VS_CREATING | VS_STOPPED | VS_RUNNING | VS_PAUSED | VS_SUSPENDED | VS_MIGRATING
  | VS_ERROR | VS_DELETING | VS_UNKNOWN

fun show_VMStatus :: "VMStatus \<Rightarrow> string" where
  "show_VMStatus VS_CREATING = ''CREATING''"
| "show_VMStatus VS_STOPPED = ''STOPPED''"
| "show_VMStatus VS_RUNNING = ''RUNNING''"
| "show_VMStatus VS_PAUSED = ''PAUSED''"
| "show_VMStatus VS_SUSPENDED = ''SUSPENDED''"
| "show_VMStatus VS_MIGRATING = ''MIGRATING''"
| "show_VMStatus VS_ERROR = ''ERROR''"
| "show_VMStatus VS_DELETING = ''DELETING''"
| "show_VMStatus VS_UNKNOWN = ''UNKNOWN''"

datatype ProvisioningState =
    PS_REQUESTED | PS_ALLOCATING | PS_DISK_CREATED | PS_NETWORK_CREATED | PS_DOMAIN_CREATED
  | PS_CLOUD_INIT_ATTACHED | PS_STARTED | PS_READY | PS_ERROR

fun show_ProvisioningState :: "ProvisioningState \<Rightarrow> string" where
  "show_ProvisioningState PS_REQUESTED = ''REQUESTED''"
| "show_ProvisioningState PS_ALLOCATING = ''ALLOCATING''"
| "show_ProvisioningState PS_DISK_CREATED = ''DISK_CREATED''"
| "show_ProvisioningState PS_NETWORK_CREATED = ''NETWORK_CREATED''"
| "show_ProvisioningState PS_DOMAIN_CREATED = ''DOMAIN_CREATED''"
| "show_ProvisioningState PS_CLOUD_INIT_ATTACHED = ''CLOUD_INIT_ATTACHED''"
| "show_ProvisioningState PS_STARTED = ''STARTED''"
| "show_ProvisioningState PS_READY = ''READY''"
| "show_ProvisioningState PS_ERROR = ''ERROR''"

definition PROVISIONING_ORDER :: "ProvisioningState list" where
  "PROVISIONING_ORDER = [PS_REQUESTED, PS_ALLOCATING, PS_DISK_CREATED, PS_NETWORK_CREATED,
     PS_DOMAIN_CREATED, PS_CLOUD_INIT_ATTACHED, PS_STARTED, PS_READY]"

datatype FirmwareType = BIOS | UEFI

fun show_FirmwareType :: "FirmwareType \<Rightarrow> string" where
  "show_FirmwareType BIOS = ''BIOS''"
| "show_FirmwareType UEFI = ''UEFI''"

datatype DiskBus = DB_VIRTIO | DB_VIRTIO_SCSI | DB_SATA | DB_IDE

fun show_DiskBus :: "DiskBus \<Rightarrow> string" where
  "show_DiskBus DB_VIRTIO = ''VIRTIO''"
| "show_DiskBus DB_VIRTIO_SCSI = ''VIRTIO_SCSI''"
| "show_DiskBus DB_SATA = ''SATA''"
| "show_DiskBus DB_IDE = ''IDE''"

datatype NicModel = NM_VIRTIO | NM_E1000

fun show_NicModel :: "NicModel \<Rightarrow> string" where
  "show_NicModel NM_VIRTIO = ''VIRTIO''"
| "show_NicModel NM_E1000 = ''E1000''"

datatype NodeAdminState = NA_ACTIVE | NA_MAINTENANCE | NA_DISABLED

datatype NodeStatus = NS_ONLINE | NS_OFFLINE | NS_WARNING | NS_MAINTENANCE | NS_DISABLED

fun show_NodeStatus :: "NodeStatus \<Rightarrow> string" where
  "show_NodeStatus NS_ONLINE = ''ONLINE''"
| "show_NodeStatus NS_OFFLINE = ''OFFLINE''"
| "show_NodeStatus NS_WARNING = ''WARNING''"
| "show_NodeStatus NS_MAINTENANCE = ''MAINTENANCE''"
| "show_NodeStatus NS_DISABLED = ''DISABLED''"

datatype AgentStatus = AS_ACTIVE | AS_DISABLED | AS_REVOKED | AS_OFFLINE

datatype NetworkType = NT_BRIDGE | NT_VLAN | NT_NAT | NT_ROUTED | NT_ISOLATED

fun show_NetworkType :: "NetworkType \<Rightarrow> string" where
  "show_NetworkType NT_BRIDGE = ''BRIDGE''"
| "show_NetworkType NT_VLAN = ''VLAN''"
| "show_NetworkType NT_NAT = ''NAT''"
| "show_NetworkType NT_ROUTED = ''ROUTED''"
| "show_NetworkType NT_ISOLATED = ''ISOLATED''"

datatype NetworkStatus = NW_ACTIVE | NW_INACTIVE | NW_ERROR

datatype IPAddressState = IP_AVAILABLE | IP_ALLOCATED | IP_RESERVED | IP_BLOCKED

datatype StorageType = ST_DIRECTORY | ST_LVM | ST_LVM_THIN | ST_ZFS | ST_NFS | ST_CEPH_RBD

fun show_StorageType :: "StorageType \<Rightarrow> string" where
  "show_StorageType ST_DIRECTORY = ''DIRECTORY''"
| "show_StorageType ST_LVM = ''LVM''"
| "show_StorageType ST_LVM_THIN = ''LVM_THIN''"
| "show_StorageType ST_ZFS = ''ZFS''"
| "show_StorageType ST_NFS = ''NFS''"
| "show_StorageType ST_CEPH_RBD = ''CEPH_RBD''"

datatype StorageCapability = SC_VM_DISK | SC_ISO | SC_BACKUP | SC_SNAPSHOT | SC_TEMPLATE

fun DEFAULT_CAPABILITIES_BY_TYPE :: "StorageType \<Rightarrow> StorageCapability list" where
  "DEFAULT_CAPABILITIES_BY_TYPE ST_DIRECTORY = [SC_VM_DISK, SC_ISO, SC_BACKUP, SC_TEMPLATE]"
| "DEFAULT_CAPABILITIES_BY_TYPE ST_LVM = [SC_VM_DISK]"
| "DEFAULT_CAPABILITIES_BY_TYPE ST_LVM_THIN = [SC_VM_DISK, SC_SNAPSHOT]"
| "DEFAULT_CAPABILITIES_BY_TYPE ST_ZFS = [SC_VM_DISK, SC_SNAPSHOT, SC_TEMPLATE]"
| "DEFAULT_CAPABILITIES_BY_TYPE ST_NFS = [SC_VM_DISK, SC_ISO, SC_BACKUP, SC_TEMPLATE]"
| "DEFAULT_CAPABILITIES_BY_TYPE ST_CEPH_RBD = [SC_VM_DISK, SC_SNAPSHOT]"

datatype StoragePoolStatus = SP_ONLINE | SP_OFFLINE | SP_WARNING | SP_ERROR

datatype SnapshotStatus = SN_CREATING | SN_READY | SN_DELETING | SN_ROLLING_BACK | SN_ERROR

fun show_SnapshotStatus :: "SnapshotStatus \<Rightarrow> string" where
  "show_SnapshotStatus SN_CREATING = ''CREATING''"
| "show_SnapshotStatus SN_READY = ''READY''"
| "show_SnapshotStatus SN_DELETING = ''DELETING''"
| "show_SnapshotStatus SN_ROLLING_BACK = ''ROLLING_BACK''"
| "show_SnapshotStatus SN_ERROR = ''ERROR''"

datatype BackupTargetType = BT_LOCAL | BT_NFS | BT_S3 | BT_MINIO | BT_CEPH

fun show_BackupTargetType :: "BackupTargetType \<Rightarrow> string" where
  "show_BackupTargetType BT_LOCAL = ''LOCAL''"
| "show_BackupTargetType BT_NFS = ''NFS''"
| "show_BackupTargetType BT_S3 = ''S3''"
| "show_BackupTargetType BT_MINIO = ''MINIO''"
| "show_BackupTargetType BT_CEPH = ''CEPH''"

datatype BackupType = BK_FULL | BK_INCREMENTAL | BK_SNAPSHOT

fun show_BackupType :: "BackupType \<Rightarrow> string" where
  "show_BackupType BK_FULL = ''FULL''"
| "show_BackupType BK_INCREMENTAL = ''INCREMENTAL''"
| "show_BackupType BK_SNAPSHOT = ''SNAPSHOT''"

datatype BackupStatus =
    BS_PENDING | BS_RUNNING | BS_VERIFYING | BS_COMPLETED | BS_FAILED | BS_RESTORING | BS_DELETED

fun show_BackupStatus :: "BackupStatus \<Rightarrow> string" where
  "show_BackupStatus BS_PENDING = ''PENDING''"
| "show_BackupStatus BS_RUNNING = ''RUNNING''"
| "show_BackupStatus BS_VERIFYING = ''VERIFYING''"
| "show_BackupStatus BS_COMPLETED = ''COMPLETED''"
| "show_BackupStatus BS_FAILED = ''FAILED''"
| "show_BackupStatus BS_RESTORING = ''RESTORING''"
| "show_BackupStatus BS_DELETED = ''DELETED''"

datatype ImageType = IT_ISO | IT_QCOW2 | IT_RAW | IT_VMDK

fun show_ImageType :: "ImageType \<Rightarrow> string" where
  "show_ImageType IT_ISO = ''ISO''"
| "show_ImageType IT_QCOW2 = ''QCOW2''"
| "show_ImageType IT_RAW = ''RAW''"
| "show_ImageType IT_VMDK = ''VMDK''"

datatype ImageStatus = IS_PENDING | IS_UPLOADING | IS_VERIFYING | IS_READY | IS_FAILED

datatype UploadStatus = US_UPLOADING | US_COMPLETED | US_FAILED | US_ABORTED

fun show_UploadStatus :: "UploadStatus \<Rightarrow> string" where
  "show_UploadStatus US_UPLOADING = ''UPLOADING''"
| "show_UploadStatus US_COMPLETED = ''COMPLETED''"
| "show_UploadStatus US_FAILED = ''FAILED''"
| "show_UploadStatus US_ABORTED = ''ABORTED''"

datatype DeliveryStatus = DS_PENDING | DS_SUCCESS | DS_FAILED | DS_RETRYING

datatype EventSeverity = EV_INFO | EV_WARNING | EV_CRITICAL

datatype AuditResult = AR_SUCCESS | AR_FAILURE

subsection \<open>Rows\<close>

record nodepilot_model =
  uuid :: string
  created_at :: nat
  updated_at :: nat

record organization = nodepilot_model +
  org_name :: string
  org_slug :: string
  org_description :: string
  org_is_active :: bool

record project = nodepilot_model +
  prj_organization :: nat
  prj_name :: string
  prj_slug :: string
  prj_description :: string
  prj_is_active :: bool

record membership = nodepilot_model +
  mem_user :: nat
  mem_organization :: nat

record quota = nodepilot_model +
  quo_organization :: nat
  quo_project :: "nat option"
  max_vms :: nat
  max_vcpu :: nat
  max_memory_mb :: nat
  max_storage_gb :: nat
  max_snapshots :: nat

record user = nodepilot_model +
  usr_username :: string
  usr_is_superuser :: bool
  usr_is_staff :: bool
  usr_is_active :: bool
  usr_is_service_account :: bool

record role = nodepilot_model +
  rol_name :: string
  rol_organization :: "nat option"
  rol_permissions :: "string list"
  rol_is_system :: bool

record role_assignment = nodepilot_model +
  ras_user :: nat
  ras_organization :: nat
  ras_project :: "nat option"
  ras_role :: nat

record api_token = nodepilot_model +
  tok_user :: nat
  tok_name :: string
  tok_hash :: string
  tok_prefix :: string
  tok_scopes :: "string list"
  tok_expires_at :: "nat option"
  tok_last_used_at :: "nat option"
  tok_revoked :: bool
  tok_revoked_at :: "nat option"

record node = nodepilot_model +
  nod_organization :: nat
  nod_name :: string
  nod_hostname :: string
  nod_fqdn :: string
  nod_admin_state :: NodeAdminState
  nod_agent_version :: string
  nod_kernel :: string
  nod_architecture :: string
  nod_cpu_model :: string
  nod_cpu_threads :: nat
  nod_cpu_cores :: nat
  nod_cpu_sockets :: nat
  nod_memory_total_mb :: nat
  nod_memory_available_mb :: nat
  nod_storage_total_gb :: nat
  nod_storage_available_gb :: nat
  nod_reported_vm_count :: nat
  nod_last_seen :: "nat option"

record agent = nodepilot_model +
  agt_node :: nat
  agt_agent_id :: "string option"
  agt_status :: AgentStatus
  agt_token_hash :: string
  agt_token_prefix :: string
  agt_certificate_fingerprint :: string
  agt_mtls_enabled :: bool
  agt_protocol_version :: string
  agt_last_heartbeat_at :: "nat option"
  agt_registered_at :: nat
  agt_revoked_at :: "nat option"

record storage_pool = nodepilot_model +
  sto_node :: nat
  sto_name :: string
  sto_type :: StorageType
  sto_path :: string
  sto_capacity_bytes :: int
  sto_used_bytes :: int
  sto_available_bytes :: int
  sto_status :: StoragePoolStatus
  sto_shared :: bool
  sto_enabled :: bool
  sto_capabilities :: "StorageCapability list"

record network = nodepilot_model +
  net_node :: nat
  net_name :: string
  net_type :: NetworkType
  net_bridge :: string
  net_vlan_id :: "nat option"
  net_dhcp_enabled :: bool
  net_status :: NetworkStatus

text \<open>Addresses are kept as the integers the \<open>ipaddress\<close> module gives them; a subnet's CIDR as
  its network address and prefix length.\<close>

record subnet = nodepilot_model +
  sub_network :: nat
  sub_cidr :: "nat \<times> nat"
  sub_gateway :: "nat option"
  sub_dns_servers :: "string list"

record ip_pool = nodepilot_model +
  poo_subnet :: nat
  poo_name :: string
  poo_start_address :: nat
  poo_end_address :: nat

record ip_address = nodepilot_model +
  adr_subnet :: nat
  adr_address :: nat
  adr_state :: IPAddressState
  adr_note :: string

record image = nodepilot_model +
  img_organization :: nat
  img_storage :: nat
  img_name :: string
  img_version :: string
  img_type :: ImageType
  img_format :: string
  img_size_bytes :: nat
  img_checksum_algorithm :: string
  img_sha256 :: string
  img_source :: string
  img_file_path :: string
  img_status :: ImageStatus
  img_metadata :: json

record upload_session = nodepilot_model +
  ups_image :: nat
  ups_created_by :: "nat option"
  ups_total_size_bytes :: nat
  ups_received_bytes :: nat
  ups_next_chunk_index :: nat
  ups_expected_sha256 :: string
  ups_status :: UploadStatus
  ups_error :: string

record template = nodepilot_model +
  tpl_organization :: nat
  tpl_image :: nat
  tpl_name :: string
  tpl_description :: string
  tpl_default_cpu_count :: nat
  tpl_default_memory_mb :: nat
  tpl_default_disk_gb :: nat
  tpl_default_firmware :: FirmwareType
  tpl_default_os_type :: string
  tpl_network_defaults :: json
  tpl_cloud_init_defaults :: json
  tpl_is_active :: bool

record virtual_machine = nodepilot_model +
  vm_organization :: nat
  vm_project :: nat
  vm_node :: "nat option"
  vm_template :: "nat option"
  vm_created_by :: "nat option"
  vm_name :: string
  vm_hostname :: string
  vm_description :: string
  vm_status :: VMStatus
  vm_provisioning_state :: ProvisioningState
  vm_os_type :: string
  vm_firmware :: FirmwareType
  vm_machine_type :: string
  vm_cpu_count :: nat
  vm_cpu_sockets :: nat
  vm_cpu_cores :: nat
  vm_cpu_threads :: nat
  vm_cpu_model :: string
  vm_memory_mb :: nat
  vm_min_memory_mb :: "nat option"
  vm_max_memory_mb :: "nat option"
  vm_ballooning_enabled :: bool
  vm_boot_order :: "string list"
  vm_autostart :: bool
  vm_cloud_init_enabled :: bool
  vm_cloud_init_config :: json
  vm_domain_uuid :: string
  vm_idempotency_key :: string
  vm_last_error :: string

record vm_disk = nodepilot_model +
  dsk_vm :: nat
  dsk_storage :: nat
  dsk_source_image :: "nat option"
  dsk_name :: string
  dsk_volume_id :: string
  dsk_bus :: DiskBus
  dsk_device :: string
  dsk_size_bytes :: int
  dsk_format :: string
  dsk_bootable :: bool
  dsk_readonly :: bool
  dsk_discard :: bool
  dsk_iothread :: bool
  dsk_boot_index :: nat

record vm_nic = nodepilot_model +
  nic_vm :: nat
  nic_network :: nat
  nic_ip_address :: "nat option"
  nic_mac_address :: string
  nic_model :: NicModel
  nic_vlan :: "nat option"
  nic_rate_limit_mbps :: "nat option"
  nic_bootable :: bool
  nic_boot_index :: nat

record job = nodepilot_model +
  job_type :: JobType
  job_status :: JobStatus
  job_organization :: nat
  job_resource_type :: string
  job_resource_id :: string
  job_node :: "nat option"
  job_created_by :: "nat option"
  job_progress :: int
  job_message :: string
  job_error :: string
  job_logs :: "(nat \<times> string) list"
  job_celery_task_id :: string
  job_idempotency_key :: string
  job_timeout_seconds :: nat
  job_retries :: nat
  job_started_at :: "nat option"
  job_finished_at :: "nat option"

record snapshot = nodepilot_model +
  snp_vm :: nat
  snp_name :: string
  snp_description :: string
  snp_status :: SnapshotStatus
  snp_size_bytes :: int
  snp_agent_snapshot_id :: string

record backup_target = nodepilot_model +
  bkt_organization :: nat
  bkt_name :: string
  bkt_type :: BackupTargetType
  bkt_config :: json
  bkt_encryption_key_id :: string
  bkt_enabled :: bool

record backup = nodepilot_model +
  bkp_vm :: nat
  bkp_target :: nat
  bkp_type :: BackupType
  bkp_status :: BackupStatus
  bkp_size_bytes :: int
  bkp_checksum :: string
  bkp_encrypted :: bool
  bkp_agent_backup_ref :: string
  bkp_started_at :: "nat option"
  bkp_finished_at :: "nat option"
  bkp_retention_expires_at :: "nat option"

record backup_schedule = nodepilot_model +
  bks_organization :: nat
  bks_vm :: nat
  bks_target :: nat
  bks_backup_type :: BackupType
  bks_cron_expression :: string
  bks_timezone :: string
  bks_retention_days :: nat
  bks_enabled :: bool
  bks_periodic_task :: "nat option"

record event = nodepilot_model +
  evt_type :: string
  evt_severity :: EventSeverity
  evt_resource_type :: string
  evt_resource_id :: string
  evt_organization :: nat
  evt_actor :: "nat option"
  evt_metadata :: json

record audit_log = nodepilot_model +
  aud_actor :: "nat option"
  aud_actor_label :: string
  aud_action :: string
  aud_resource_type :: string
  aud_resource_id :: string
  aud_organization :: "nat option"
  aud_ip_address :: "string option"
  aud_result :: AuditResult
  aud_metadata :: json

record webhook = nodepilot_model +
  whk_organization :: nat
  whk_name :: string
  whk_url :: string
  whk_secret :: string
  whk_events :: "string list"
  whk_enabled :: bool

record webhook_delivery = nodepilot_model +
  dlv_webhook :: nat
  dlv_event_type :: string
  dlv_payload :: json
  dlv_status :: DeliveryStatus
  dlv_attempt :: nat
  dlv_response_status :: "nat option"
  dlv_response_body :: string
  dlv_delivered_at :: "nat option"

text \<open>
  The columns of \<open>django_celery_beat\<close>'s \<open>PeriodicTask\<close> that \<open>backups/services.py\<close> writes; its
  crontab is the row's five fields and time zone, with \<open>args\<close> as the schedule's primary key.
\<close>

record periodic_task =
  ptk_name :: string
  ptk_task :: string
  ptk_crontab :: "string list \<times> string"
  ptk_args :: nat
  ptk_enabled :: bool

end
