(* ===== verification/World.thy ===== *)
theory World
  imports Models
begin

section \<open>World: the database, Redis, the clock and the environment\<close>

text \<open>
  The state every effectful operation works on, and the primitives of Django, Redis and the
  standard library that the source calls.
  \<^item> \<open>db\<close>: the tables, the next primary key (primary keys are never reused) and the Celery
    calls registered by \<open>transaction.on_commit\<close> or \<open>.delay\<close>. \<open>atomicM\<close> restores it when its body
    raises.
  \<^item> \<open>redis\<close>: keys with an optional expiry time; an expired key reads as absent.
  \<^item> \<open>clock\<close>: milliseconds. Only \<open>time.sleep\<close> moves it.
  \<^item> \<open>uuids\<close> and \<open>randoms\<close>: the values \<open>uuid.uuid4\<close> and \<open>random.randint\<close> will return, as an
    arbitrary sequence and a cursor into it.
  \<^item> \<open>sched\<close> and \<open>agent_env\<close>: what other processes will do. \<open>sched\<close> lists events with the
    time they happen at; \<open>agent_env\<close> is the behaviour of the agents: given a node, the number of
    commands sent so far and the command, the frames it will send back, each with its delay. A
    theorem about an arbitrary world quantifies over all of them.
\<close>

datatype celery_call =
    ProvisionVm nat nat
  | StartVm nat nat
  | StopVm nat nat
  | RebootVm nat nat
  | PauseVm nat nat
  | ResumeVm nat nat
  | DeleteVm nat nat
  | CloneVm nat nat string bool
  | AttachDisk nat nat
  | DetachDisk nat nat
  | ResizeDisk nat nat int
  | AttachNic nat nat
  | DetachNic nat nat
  | CreateSnapshot nat nat
  | DeleteSnapshot nat nat
  | RollbackSnapshot nat nat
  | CreateBackup nat nat
  | RestoreBackup nat nat
  | CreateStoragePool nat nat
  | CreateNetwork nat nat
  | DeleteNetwork nat nat
  | DeliverWebhook nat nat

text \<open>The second argument of \<open>DeliverWebhook\<close> is Celery's \<open>countdown\<close> in seconds.\<close>

record db =
  next_pk :: nat
  organizations :: "organization table"
  projects :: "project table"
  memberships :: "membership table"
  quotas :: "quota table"
  users :: "user table"
  roles :: "role table"
  role_assignments :: "role_assignment table"
  api_tokens :: "api_token table"
  nodes :: "node table"
  agents :: "agent table"
  storage_pools :: "storage_pool table"
  networks :: "network table"
  subnets :: "subnet table"
  ip_pools :: "ip_pool table"
  ip_addresses :: "ip_address table"
  images :: "image table"
  upload_sessions :: "upload_session table"
  templates :: "template table"
  vms :: "virtual_machine table"
  disks :: "vm_disk table"
  nics :: "vm_nic table"
  jobs :: "job table"
  snapshots :: "snapshot table"
  backup_targets :: "backup_target table"
  backups :: "backup table"
  backup_schedules :: "backup_schedule table"
  periodic_tasks :: "periodic_task table"
  events :: "event table"
  audit_logs :: "audit_log table"
  webhooks :: "webhook table"
  deliveries :: "webhook_delivery table"
  queue :: "celery_call list"

datatype rval = RStr string | RJson json | RZset "(nat \<times> json) list"

text \<open>
  What other processes do: an agent's websocket frame arrives (\<open>None\<close>: text that is not JSON), an
  agent disconnects or connects, a user asks to cancel a job, another worker tries to take or
  releases a lock.
\<close>

datatype ext =
    AgentFrame string "json option"
  | AgentDisconnect string
  | AgentConnect string
  | CancelRequest nat
  | OtherAcquire string string nat
  | OtherRelease string string

record settings =
  HEARTBEAT_INTERVAL_SECONDS :: nat
  OFFLINE_THRESHOLD_SECONDS :: nat
  AGENT_RPC_TIMEOUT_SECONDS :: nat
  MIN_SUPPORTED_AGENT_VERSION :: string
  METRICS_RETENTION_SECONDS :: nat
  METRICS_SAMPLE_MAX_POINTS :: nat
  WEBHOOK_MAX_RETRIES :: nat
  IDEMPOTENCY_KEY_TTL_SECONDS :: nat

text \<open>The defaults of \<open>config/settings/base.py\<close>.\<close>

definition NODEPILOT :: settings where
  "NODEPILOT = \<lparr> HEARTBEAT_INTERVAL_SECONDS = 10, OFFLINE_THRESHOLD_SECONDS = 30,
     AGENT_RPC_TIMEOUT_SECONDS = 30, MIN_SUPPORTED_AGENT_VERSION = ''1.0.0'',
     METRICS_RETENTION_SECONDS = 3600, METRICS_SAMPLE_MAX_POINTS = 720,
     WEBHOOK_MAX_RETRIES = 6, IDEMPOTENCY_KEY_TTL_SECONDS = 86400 \<rparr>"

text \<open>A command as it was published for an agent: node, operation, resource, payload.\<close>

record rpc =
  rpc_node :: string
  rpc_operation :: string
  rpc_resource_id :: string
  rpc_payload :: json

text \<open>
  \<open>l_vm\<close> is the variable \<open>vm\<close> of the running task: the model instance in memory, which the
  exception handlers read after a failure.
\<close>

record world =
  wdb :: db
  redis :: "(string \<times> (rval \<times> nat option)) list"
  clock :: nat
  uuids :: "nat \<Rightarrow> string"
  uuid_next :: nat
  randoms :: "nat \<Rightarrow> nat"
  random_next :: nat
  outbox :: "(string \<times> json) list"
  sched :: "(nat \<times> ext) list"
  agent_env :: "string \<Rightarrow> nat \<Rightarrow> json \<Rightarrow> (nat \<times> json option) list"
  rpcs :: "rpc list"
  conf :: settings
  l_vm :: "virtual_machine option"

type_synonym 'a op = "(exn, world, 'a) M"

subsection \<open>The database\<close>

definition db_upd :: "(db \<Rightarrow> db) \<Rightarrow> world \<Rightarrow> world" where
  "db_upd f w = w\<lparr>wdb := f (wdb w)\<rparr>"

definition getdb :: "(db \<Rightarrow> 'a) \<Rightarrow> 'a op" where
  "getdb f = getM (\<lambda>w. f (wdb w))"

definition moddb :: "(db \<Rightarrow> db) \<Rightarrow> unit op" where
  "moddb f = modM (db_upd f)"

text \<open>\<open>transaction.atomic\<close>: the database is restored when the block raises.\<close>

definition atomicM :: "'a op \<Rightarrow> 'a op" where
  "atomicM m = (\<lambda>w. case m w of (Inl e, w') \<Rightarrow> (Inl e, w'\<lparr>wdb := wdb w\<rparr>) | (Inr a, w') \<Rightarrow> (Inr a, w'))"

text \<open>\<open>transaction.on_commit(lambda: task.delay(...))\<close>, and \<open>task.delay(...)\<close> outside a transaction.\<close>

definition enqueue :: "celery_call \<Rightarrow> unit op" where
  "enqueue c = moddb (\<lambda>d. d\<lparr>queue := queue d @ [c]\<rparr>)"

text \<open>A new primary key for \<open>objects.create\<close>.\<close>

definition fresh_pk :: "nat op" where
  "fresh_pk = bindM (getdb next_pk) (\<lambda>k. bindM (moddb (\<lambda>d. d\<lparr>next_pk := k + 1\<rparr>)) (\<lambda>_. returnM k))"

text \<open>\<open>objects.get(pk=k)\<close>.\<close>

definition get_row :: "string \<Rightarrow> (db \<Rightarrow> 'r table) \<Rightarrow> nat \<Rightarrow> 'r op" where
  "get_row name tab k = bindM (getdb (\<lambda>d. row_get k (tab d))) (optionM (DoesNotExist name))"

text \<open>\<open>obj.save(update_fields=[...])\<close>: an update that matches no row is an error.\<close>

definition save_row :: "(db \<Rightarrow> 'r table) \<Rightarrow> (('r table \<Rightarrow> 'r table) \<Rightarrow> db \<Rightarrow> db) \<Rightarrow> nat \<Rightarrow> ('r \<Rightarrow> 'r) \<Rightarrow> unit op" where
  "save_row tab upd k f = bindM (getdb (\<lambda>d. row_get k (tab d))) (\<lambda>x. case x of
       None \<Rightarrow> raiseM (DatabaseError ''Save with update_fields did not affect any rows.'')
     | Some r \<Rightarrow> moddb (upd (row_mod k f)))"

subsection \<open>Clock, uuids and random numbers\<close>

definition now :: "nat op" where
  "now = getM clock"

definition uuid4 :: "string op" where
  "uuid4 = bindM (getM (\<lambda>w. uuids w (uuid_next w)))
     (\<lambda>u. bindM (modM (\<lambda>w. w\<lparr>uuid_next := uuid_next w + 1\<rparr>)) (\<lambda>_. returnM u))"

text \<open>\<open>random.randint(0, b)\<close>.\<close>

definition randint0 :: "nat \<Rightarrow> nat op" where
  "randint0 b = bindM (getM (\<lambda>w. randoms w (random_next w)))
     (\<lambda>r. bindM (modM (\<lambda>w. w\<lparr>random_next := random_next w + 1\<rparr>)) (\<lambda>_. returnM (r mod (b + 1))))"

subsection \<open>Redis\<close>

definition live :: "nat \<Rightarrow> nat option \<Rightarrow> bool" where
  "live t e = (case e of None \<Rightarrow> True | Some x \<Rightarrow> t < x)"

definition redis_lookup :: "world \<Rightarrow> string \<Rightarrow> rval option" where
  "redis_lookup w k = (case map_of (redis w) k of
     Some (v, e) \<Rightarrow> if live (clock w) e then Some v else None | None \<Rightarrow> None)"

definition redis_put :: "string \<Rightarrow> rval \<Rightarrow> nat option \<Rightarrow> world \<Rightarrow> world" where
  "redis_put k v ttl w = w\<lparr>redis := (k, (v, map_option (\<lambda>t. clock w + t) ttl)) # filter (\<lambda>p. fst p \<noteq> k) (redis w)\<rparr>"

definition redis_drop :: "string \<Rightarrow> world \<Rightarrow> world" where
  "redis_drop k w = w\<lparr>redis := filter (\<lambda>p. fst p \<noteq> k) (redis w)\<rparr>"

text \<open>\<open>EXPIRE key\<close>: a key that is not there is left alone.\<close>

definition redis_expire :: "string \<Rightarrow> nat \<Rightarrow> world \<Rightarrow> world" where
  "redis_expire k ttl w = (case redis_lookup w k of None \<Rightarrow> w | Some v \<Rightarrow> redis_put k v (Some ttl) w)"

subsection \<open>The channel layer\<close>

definition group_send :: "string \<Rightarrow> json \<Rightarrow> unit op" where
  "group_send g m = modM (\<lambda>w. w\<lparr>outbox := outbox w @ [(g, m)]\<rparr>)"

subsection \<open>Facts\<close>

lemma wdb_db_upd [simp]: "wdb (db_upd f w) = f (wdb w)"
  by (simp add: db_upd_def)

lemma db_upd_other [simp]:
  "redis (db_upd f w) = redis w" "clock (db_upd f w) = clock w" "sched (db_upd f w) = sched w"
  "rpcs (db_upd f w) = rpcs w" "conf (db_upd f w) = conf w" "outbox (db_upd f w) = outbox w"
  "agent_env (db_upd f w) = agent_env w" "uuids (db_upd f w) = uuids w"
  "uuid_next (db_upd f w) = uuid_next w" "l_vm (db_upd f w) = l_vm w"
  "randoms (db_upd f w) = randoms w" "random_next (db_upd f w) = random_next w"
  by (simp_all add: db_upd_def)

lemma getdb_apply [simp, monad_simps]: "getdb f w = (Inr (f (wdb w)), w)"
  by (simp add: getdb_def)

lemma moddb_apply [simp, monad_simps]: "moddb f w = (Inr (), db_upd f w)"
  by (simp add: moddb_def)

lemma bind_getdb [simp, monad_simps]: "bindM (getdb f) g w = g (f (wdb w)) w"
  by (simp add: getdb_def)

lemma bind_moddb [simp, monad_simps]: "bindM (moddb f) g w = g () (db_upd f w)"
  by (simp add: moddb_def)

lemma now_apply [simp, monad_simps]: "now w = (Inr (clock w), w)"
  by (simp add: now_def)

lemma bind_now [simp, monad_simps]: "bindM now g w = g (clock w) w"
  by (simp add: now_def)

lemma uuid4_apply [simp, monad_simps]:
  "uuid4 w = (Inr (uuids w (uuid_next w)), w\<lparr>uuid_next := uuid_next w + 1\<rparr>)"
  by (simp add: uuid4_def)

lemma fresh_pk_apply [monad_simps]:
  "fresh_pk w = (Inr (next_pk (wdb w)), db_upd (\<lambda>d. d\<lparr>next_pk := next_pk d + 1\<rparr>) w)"
  by (simp add: fresh_pk_def db_upd_def)

lemma get_row_apply [monad_simps]:
  "get_row name tab k w = (case row_get k (tab (wdb w)) of None \<Rightarrow> (Inl (DoesNotExist name), w) | Some r \<Rightarrow> (Inr r, w))"
  by (simp add: get_row_def split: option.splits)

lemma save_row_apply [monad_simps]:
  "save_row tab upd k f w = (case row_get k (tab (wdb w)) of
      None \<Rightarrow> (Inl (DatabaseError ''Save with update_fields did not affect any rows.''), w)
    | Some r \<Rightarrow> (Inr (), db_upd (upd (row_mod k f)) w))"
  by (simp add: save_row_def split: option.splits)

lemma atomicM_Inr: "atomicM m w = (Inr a, w') \<longleftrightarrow> m w = (Inr a, w')"
  by (auto simp: atomicM_def split: prod.splits sum.splits)

lemma atomicM_Inl: "atomicM m w = (Inl e, w') \<Longrightarrow> wdb w' = wdb w"
  by (auto simp: atomicM_def split: prod.splits sum.splits)

lemma redis_lookup_put:
  "redis_lookup (redis_put k v ttl w) k' =
     (if k' = k then (if ttl = Some 0 then None else Some v) else redis_lookup w k')"
proof -
  have other: "k' \<noteq> k \<Longrightarrow> map_of (filter (\<lambda>p. fst p \<noteq> k) xs) k' = map_of xs k'" for xs :: "(string \<times> rval \<times> nat option) list"
    by (induction xs) auto
  show ?thesis
    by (cases ttl) (auto simp: redis_lookup_def redis_put_def live_def other split: option.splits)
qed

lemma map_of_filter_key:
  "map_of (filter (\<lambda>p. fst p \<noteq> k) xs) k' = (if k' = k then None else map_of xs k')"
  by (induction xs) auto

lemma redis_lookup_drop [simp]:
  "redis_lookup (redis_drop k w) k' = (if k' = k then None else redis_lookup w k')"
  by (simp add: redis_lookup_def redis_drop_def map_of_filter_key split: option.splits)

lemma redis_put_other [simp]:
  "wdb (redis_put k v t w) = wdb w" "clock (redis_put k v t w) = clock w"
  "sched (redis_put k v t w) = sched w" "rpcs (redis_put k v t w) = rpcs w"
  "conf (redis_put k v t w) = conf w" "uuids (redis_put k v t w) = uuids w"
  "uuid_next (redis_put k v t w) = uuid_next w" "l_vm (redis_put k v t w) = l_vm w"
  "agent_env (redis_put k v t w) = agent_env w" "outbox (redis_put k v t w) = outbox w"
  by (simp_all add: redis_put_def)

lemma redis_drop_other [simp]:
  "wdb (redis_drop k w) = wdb w" "clock (redis_drop k w) = clock w"
  "sched (redis_drop k w) = sched w" "rpcs (redis_drop k w) = rpcs w"
  "conf (redis_drop k w) = conf w" "uuids (redis_drop k w) = uuids w"
  "uuid_next (redis_drop k w) = uuid_next w" "l_vm (redis_drop k w) = l_vm w"
  "agent_env (redis_drop k w) = agent_env w" "outbox (redis_drop k w) = outbox w"
  by (simp_all add: redis_drop_def)

lemma redis_expire_other [simp]:
  "wdb (redis_expire k t w) = wdb w" "clock (redis_expire k t w) = clock w"
  "sched (redis_expire k t w) = sched w" "rpcs (redis_expire k t w) = rpcs w"
  "conf (redis_expire k t w) = conf w" "uuids (redis_expire k t w) = uuids w"
  "uuid_next (redis_expire k t w) = uuid_next w" "l_vm (redis_expire k t w) = l_vm w"
  "agent_env (redis_expire k t w) = agent_env w" "outbox (redis_expire k t w) = outbox w"
  by (simp_all add: redis_expire_def split: option.splits)

text \<open>
  A frame on the world whose relation does not look at the clock, the uuid and random supplies, the
  channel layer and the local variables, and that a rollback of the database keeps.
\<close>

locale db_frame = frame R for R :: "world \<Rightarrow> world \<Rightarrow> bool" +
  assumes R_db: "wdb w' = wdb w \<Longrightarrow> redis w' = redis w \<Longrightarrow> sched w' = sched w \<Longrightarrow> agent_env w' = agent_env w \<Longrightarrow> R w w'"
    and R_rollback: "R w w' \<Longrightarrow> R w (w'\<lparr>wdb := wdb w\<rparr>)"
begin

lemma keeps_getdb: "keeps R (getdb f)"
  by (simp add: getdb_def keeps_get)

lemma keeps_now: "keeps R now"
  by (simp add: now_def keeps_get)

lemma keeps_uuid4: "keeps R uuid4"
  by (simp add: keeps_def R_db)

lemma keeps_randint0: "keeps R (randint0 b)"
  by (simp add: keeps_def R_db randint0_def)

lemma keeps_group_send: "keeps R (group_send g m)"
  by (simp add: keeps_def R_db group_send_def)

lemma keeps_mod_same:
  "(\<And>w. wdb (f w) = wdb w \<and> redis (f w) = redis w \<and> sched (f w) = sched w \<and> agent_env (f w) = agent_env w) \<Longrightarrow> keeps R (modM f)"
  by (rule keeps_mod) (simp add: R_db)

lemma keeps_get_row: "keeps R (get_row name tab k)"
  by (simp add: get_row_def keeps_bind keeps_getdb keeps_option)

lemma keeps_moddb: "(\<And>w. R w (db_upd f w)) \<Longrightarrow> keeps R (moddb f)"
  by (simp add: moddb_def keeps_mod)

lemma keeps_save_row:
  assumes "\<And>w r. row_get k (tab (wdb w)) = Some r \<Longrightarrow> R w (db_upd (upd (row_mod k f)) w)"
  shows "keeps R (save_row tab upd k f)"
  using assms by (auto simp: keeps_def save_row_apply R_refl split: option.splits)

lemma keeps_atomic:
  assumes "keeps R m"
  shows "keeps R (atomicM m)"
  unfolding keeps_def
proof
  fix w
  obtain r w' where m: "m w = (r, w')" by fastforce
  then have "R w w'" using assms by (rule keepsD [rotated])
  with m show "R w (snd (atomicM m w))"
    by (cases r) (simp_all add: atomicM_def R_rollback)
qed

lemmas keeps_world = keeps_getdb keeps_now keeps_uuid4 keeps_randint0 keeps_group_send
  keeps_get_row keeps_atomic

end

text \<open>The common case: a relation between the databases only.\<close>

locale plain_frame = frame R for R :: "world \<Rightarrow> world \<Rightarrow> bool" +
  assumes R_plain: "wdb w' = wdb w \<Longrightarrow> R w w'"
begin

lemma keeps_mod_plain: "(\<And>w. wdb (f w) = wdb w) \<Longrightarrow> keeps R (modM f)"
  by (rule keeps_mod) (simp add: R_plain)

end

sublocale plain_frame \<subseteq> db_frame
  by unfold_locales (simp_all add: R_plain)

subsection \<open>Operations that leave a part of the database alone\<close>

text \<open>\<open>same_on f\<close>: the part \<open>f\<close> of the database, a table or several, is as it was.\<close>

definition same_on :: "(db \<Rightarrow> 'a) \<Rightarrow> world \<Rightarrow> world \<Rightarrow> bool" where
  "same_on f w w' \<longleftrightarrow> f (wdb w') = f (wdb w)"

interpretation so: plain_frame "same_on f" for f
  by unfold_locales (simp_all add: same_on_def)

lemma so_moddb: "(\<And>d. f (g d) = f d) \<Longrightarrow> keeps (same_on f) (moddb g)"
  by (rule so.keeps_moddb) (simp add: same_on_def)

lemma so_save_row: "(\<And>g d. f (upd g d) = f d) \<Longrightarrow> keeps (same_on f) (save_row tab upd k h)"
  by (rule so.keeps_save_row) (simp add: same_on_def)

lemma so_fresh_pk: "(\<And>d n. f (d\<lparr>next_pk := n\<rparr>) = f d) \<Longrightarrow> keeps (same_on f) fresh_pk"
  unfolding fresh_pk_def by (intro so.keeps_rules so.keeps_world so_moddb)

lemma so_enqueue: "(\<And>d q. f (d\<lparr>queue := q\<rparr>) = f d) \<Longrightarrow> keeps (same_on f) (enqueue c)"
  unfolding enqueue_def by (intro so_moddb)

lemma same_onD: "keeps (same_on f) m \<Longrightarrow> m w = (r, w') \<Longrightarrow> f (wdb w') = f (wdb w)"
  by (drule (1) keepsD) (simp add: same_on_def)

lemma same_onD2: "keeps (same_on f) m \<Longrightarrow> f (wdb (snd (m w))) = f (wdb w)"
  by (drule keepsD2 [where w = w]) (simp add: same_on_def)

lemmas so_frame = so.keeps_rules so.keeps_world so_moddb so_save_row so_fresh_pk so_enqueue

end
