(* ===== verification/Samples.thy ===== *)
theory Samples
  imports World
begin

section \<open>Samples: a small installation to evaluate theorems on\<close>

text \<open>
  One organization with one project, one node with its agent, a storage pool, a network with a
  subnet and an address pool, a stopped VM with one disk and one NIC, a queued job, a snapshot, a
  completed backup and a webhook. The later theories instantiate their theorems on this world.
\<close>

definition ex_org :: organization where
  "ex_org = \<lparr> uuid = ''o1'', created_at = 0, updated_at = 0, org_name = ''Acme'', org_slug = ''acme'',
     org_description = '''', org_is_active = True \<rparr>"

definition ex_project :: project where
  "ex_project = \<lparr> uuid = ''p1'', created_at = 0, updated_at = 0, prj_organization = 1, prj_name = ''Main'',
     prj_slug = ''main'', prj_description = '''', prj_is_active = True \<rparr>"

definition ex_quota :: quota where
  "ex_quota = \<lparr> uuid = ''q1'', created_at = 0, updated_at = 0, quo_organization = 1, quo_project = None,
     max_vms = 3, max_vcpu = 8, max_memory_mb = 8192, max_storage_gb = 100, max_snapshots = 5 \<rparr>"

definition ex_node :: node where
  "ex_node = \<lparr> uuid = ''n1'', created_at = 0, updated_at = 0, nod_organization = 1, nod_name = ''alpha'',
     nod_hostname = ''alpha'', nod_fqdn = '''', nod_admin_state = NA_ACTIVE, nod_agent_version = ''1.0.0'',
     nod_kernel = '''', nod_architecture = '''', nod_cpu_model = '''', nod_cpu_threads = 4, nod_cpu_cores = 4,
     nod_cpu_sockets = 1, nod_memory_total_mb = 16384, nod_memory_available_mb = 12000,
     nod_storage_total_gb = 500, nod_storage_available_gb = 400, nod_reported_vm_count = 1,
     nod_last_seen = Some 95000 \<rparr>"

definition ex_agent :: agent where
  "ex_agent = \<lparr> uuid = ''a1'', created_at = 0, updated_at = 0, agt_node = 10, agt_agent_id = Some ''ag'',
     agt_status = AS_ACTIVE, agt_token_hash = ''h1'', agt_token_prefix = ''npa_12345678'',
     agt_certificate_fingerprint = '''', agt_mtls_enabled = False, agt_protocol_version = ''1.0'',
     agt_last_heartbeat_at = Some 95000, agt_registered_at = 0, agt_revoked_at = None \<rparr>"

definition ex_pool :: storage_pool where
  "ex_pool = \<lparr> uuid = ''s1'', created_at = 0, updated_at = 0, sto_node = 10, sto_name = ''zpool'',
     sto_type = ST_ZFS, sto_path = ''tank'', sto_capacity_bytes = 0, sto_used_bytes = 0, sto_available_bytes = 0,
     sto_status = SP_ONLINE, sto_shared = False, sto_enabled = True,
     sto_capabilities = [SC_VM_DISK, SC_SNAPSHOT] \<rparr>"

definition ex_network :: network where
  "ex_network = \<lparr> uuid = ''w1'', created_at = 0, updated_at = 0, net_node = 10, net_name = ''lan'',
     net_type = NT_BRIDGE, net_bridge = ''br0'', net_vlan_id = None, net_dhcp_enabled = True, net_status = NW_ACTIVE \<rparr>"

definition ex_subnet :: subnet where
  "ex_subnet = \<lparr> uuid = ''sn1'', created_at = 0, updated_at = 0, sub_network = 13, sub_cidr = (256, 24),
     sub_gateway = Some 257, sub_dns_servers = [] \<rparr>"

definition ex_ip_pool :: ip_pool where
  "ex_ip_pool = \<lparr> uuid = ''ip1'', created_at = 0, updated_at = 0, poo_subnet = 14, poo_name = ''pool'',
     poo_start_address = 260, poo_end_address = 262 \<rparr>"

definition ex_address :: ip_address where
  "ex_address = \<lparr> uuid = ''ad1'', created_at = 0, updated_at = 0, adr_subnet = 14, adr_address = 260,
     adr_state = IP_ALLOCATED, adr_note = '''' \<rparr>"

definition ex_vm :: virtual_machine where
  "ex_vm = \<lparr> uuid = ''v1'', created_at = 0, updated_at = 0, vm_organization = 1, vm_project = 2,
     vm_node = Some 10, vm_template = None, vm_created_by = Some 5, vm_name = ''web'', vm_hostname = '''',
     vm_description = '''', vm_status = VS_STOPPED, vm_provisioning_state = PS_READY, vm_os_type = ''linux'',
     vm_firmware = UEFI, vm_machine_type = ''q35'', vm_cpu_count = 2, vm_cpu_sockets = 1, vm_cpu_cores = 2,
     vm_cpu_threads = 1, vm_cpu_model = ''host-passthrough'', vm_memory_mb = 2048, vm_min_memory_mb = None,
     vm_max_memory_mb = None, vm_ballooning_enabled = True, vm_boot_order = [], vm_autostart = True,
     vm_cloud_init_enabled = False, vm_cloud_init_config = JObj [], vm_domain_uuid = ''d1'',
     vm_idempotency_key = ''k1'', vm_last_error = '''' \<rparr>"

definition ex_disk :: vm_disk where
  "ex_disk = \<lparr> uuid = ''dk1'', created_at = 0, updated_at = 0, dsk_vm = 20, dsk_storage = 12,
     dsk_source_image = None, dsk_name = ''root'', dsk_volume_id = ''vol1'', dsk_bus = DB_VIRTIO,
     dsk_device = ''vda'', dsk_size_bytes = 21474836480, dsk_format = ''raw'', dsk_bootable = True,
     dsk_readonly = False, dsk_discard = True, dsk_iothread = False, dsk_boot_index = 0 \<rparr>"

definition ex_nic :: vm_nic where
  "ex_nic = \<lparr> uuid = ''ni1'', created_at = 0, updated_at = 0, nic_vm = 20, nic_network = 13, nic_ip_address = None,
     nic_mac_address = ''52:54:00:00:00:01'', nic_model = NM_VIRTIO, nic_vlan = None, nic_rate_limit_mbps = None,
     nic_bootable = True, nic_boot_index = 0 \<rparr>"

definition ex_job :: job where
  "ex_job = \<lparr> uuid = ''j1'', created_at = 0, updated_at = 0, job_type = VM_START, job_status = JS_QUEUED,
     job_organization = 1, job_resource_type = ''VirtualMachine'', job_resource_id = ''v1'', job_node = Some 10,
     job_created_by = Some 5, job_progress = 0, job_message = '''', job_error = '''', job_logs = [],
     job_celery_task_id = '''', job_idempotency_key = '''', job_timeout_seconds = 600, job_retries = 0,
     job_started_at = None, job_finished_at = None \<rparr>"

definition ex_snapshot :: snapshot where
  "ex_snapshot = \<lparr> uuid = ''sp1'', created_at = 0, updated_at = 0, snp_vm = 20, snp_name = ''before'',
     snp_description = '''', snp_status = SN_READY, snp_size_bytes = 0, snp_agent_snapshot_id = ''x1'' \<rparr>"

definition ex_target :: backup_target where
  "ex_target = \<lparr> uuid = ''bt1'', created_at = 0, updated_at = 0, bkt_organization = 1, bkt_name = ''local'',
     bkt_type = BT_LOCAL, bkt_config = JObj [], bkt_encryption_key_id = '''', bkt_enabled = True \<rparr>"

definition ex_backup :: backup where
  "ex_backup = \<lparr> uuid = ''b1'', created_at = 0, updated_at = 0, bkp_vm = 20, bkp_target = 40, bkp_type = BK_FULL,
     bkp_status = BS_COMPLETED, bkp_size_bytes = 0, bkp_checksum = '''', bkp_encrypted = False,
     bkp_agent_backup_ref = ''r1'', bkp_started_at = Some 0, bkp_finished_at = Some 1,
     bkp_retention_expires_at = Some 50000 \<rparr>"

definition ex_webhook :: webhook where
  "ex_webhook = \<lparr> uuid = ''h1'', created_at = 0, updated_at = 0, whk_organization = 1, whk_name = ''ops'',
     whk_url = ''https://hooks.example.com/'', whk_secret = ''k'', whk_events = [''vm.started''], whk_enabled = True \<rparr>"

definition ex_db :: db where
  "ex_db = \<lparr> next_pk = 100, organizations = [(1, ex_org)], projects = [(2, ex_project)], memberships = [],
     quotas = [(3, ex_quota)], users = [], roles = [], role_assignments = [], api_tokens = [],
     nodes = [(10, ex_node)], agents = [(11, ex_agent)], storage_pools = [(12, ex_pool)],
     networks = [(13, ex_network)], subnets = [(14, ex_subnet)], ip_pools = [(15, ex_ip_pool)],
     ip_addresses = [(16, ex_address)], images = [], upload_sessions = [], templates = [],
     vms = [(20, ex_vm)], disks = [(21, ex_disk)], nics = [(22, ex_nic)], jobs = [(30, ex_job)],
     snapshots = [(35, ex_snapshot)], backup_targets = [(40, ex_target)], backups = [(41, ex_backup)],
     backup_schedules = [], periodic_tasks = [], events = [], audit_logs = [], webhooks = [(50, ex_webhook)],
     deliveries = [], queue = [] \<rparr>"

text \<open>The agent is connected and confirms every command after 100 ms.\<close>

definition ex_agent_env :: "string \<Rightarrow> nat \<Rightarrow> json \<Rightarrow> (nat \<times> json option) list" where
  "ex_agent_env u n wire = [(100, Some (JObj [(''request_id'', case jget ''request_id'' wire of None \<Rightarrow> JNull | Some r \<Rightarrow> r),
     (''success'', JBool True), (''data'', JObj [(''state'', JStr ''ok'')])]))]"

definition ex_world :: world where
  "ex_world = \<lparr> wdb = ex_db, redis = [(''nodepilot:agent:conn:n1'', (RStr ''1'', Some 200000))], clock = 100000,
     uuids = (\<lambda>n. ''u'' @ replicate n CHR ''1''), uuid_next = 0, randoms = (\<lambda>n. n), random_next = 0, outbox = [],
     sched = [], agent_env = ex_agent_env, rpcs = [], conf = NODEPILOT, l_vm = None \<rparr>"

lemma ex_world_simps [simp]:
  "wdb ex_world = ex_db" "clock ex_world = 100000" "sched ex_world = []" "conf ex_world = NODEPILOT"
  "rpcs ex_world = []" "uuid_next ex_world = 0" "outbox ex_world = []"
  by (simp_all add: ex_world_def)

lemma ex_db_simps [simp]:
  "jobs ex_db = [(30, ex_job)]" "vms ex_db = [(20, ex_vm)]" "nodes ex_db = [(10, ex_node)]"
  "agents ex_db = [(11, ex_agent)]" "disks ex_db = [(21, ex_disk)]" "nics ex_db = [(22, ex_nic)]"
  "quotas ex_db = [(3, ex_quota)]" "snapshots ex_db = [(35, ex_snapshot)]" "backups ex_db = [(41, ex_backup)]"
  "networks ex_db = [(13, ex_network)]" "ip_pools ex_db = [(15, ex_ip_pool)]"
  "ip_addresses ex_db = [(16, ex_address)]" "webhooks ex_db = [(50, ex_webhook)]" "storage_pools ex_db = [(12, ex_pool)]"
  "backup_targets ex_db = [(40, ex_target)]" "next_pk ex_db = 100" "queue ex_db = []" "events ex_db = []"
  "subnets ex_db = [(14, ex_subnet)]" "deliveries ex_db = []"
  by (simp_all add: ex_db_def)

lemma ex_uuids: "uuids ex_world n = ''u'' @ replicate n CHR ''1''"
  by (simp add: ex_world_def)

lemma ex_redis: "redis ex_world = [(''nodepilot:agent:conn:n1'', (RStr ''1'', Some 200000))]"
  by (simp add: ex_world_def)

lemmas ex_rows = ex_org_def ex_project_def ex_quota_def ex_node_def ex_agent_def ex_pool_def ex_network_def
  ex_subnet_def ex_ip_pool_def ex_address_def ex_vm_def ex_disk_def ex_nic_def ex_job_def ex_snapshot_def
  ex_target_def ex_backup_def ex_webhook_def

end
