(* ===== verification/Jobs.thy ===== *)
theory Jobs
  imports Samples
begin

section \<open>Jobs: the state machine every long-running operation goes through\<close>

text \<open>
  \<open>backend/apps/jobs/models.py\<close>, \<open>services.py\<close> and \<open>tasks.py\<close>. A job instance in memory is the
  pair of its primary key and the row as it was read, so that the tasks' stale copies stay
  visible. \<open>job_safe\<close> relates the jobs table before and after a step: no job disappears or
  changes identity, each status moves along \<open>VALID_TRANSITIONS\<close>, and the rows stay well formed.
  It is a frame: the later theories show once per operation that the operation keeps it.
\<close>

subsection \<open>The state machine\<close>

definition is_terminal :: "JobStatus \<Rightarrow> bool" where
  "is_terminal s \<longleftrightarrow> s \<in> {JS_SUCCESS, JS_FAILED, JS_CANCELED}"

fun VALID_TRANSITIONS :: "JobStatus \<Rightarrow> JobStatus list" where
  "VALID_TRANSITIONS JS_QUEUED = [JS_RUNNING, JS_CANCELING, JS_CANCELED, JS_FAILED]"
| "VALID_TRANSITIONS JS_RUNNING = [JS_SUCCESS, JS_FAILED, JS_CANCELING]"
| "VALID_TRANSITIONS JS_CANCELING = [JS_CANCELED, JS_FAILED, JS_SUCCESS]"
| "VALID_TRANSITIONS JS_SUCCESS = []"
| "VALID_TRANSITIONS JS_FAILED = []"
| "VALID_TRANSITIONS JS_CANCELED = []"

inductive job_step :: "JobStatus \<Rightarrow> JobStatus \<Rightarrow> bool" where
  job_stepI: "s' \<in> set (VALID_TRANSITIONS s) \<Longrightarrow> job_step s s'"

inductive_simps job_step_iff: "job_step s s'"

type_synonym job_obj = "nat \<times> job"

subsection \<open>Services\<close>

definition job_broadcast :: "job \<Rightarrow> unit op" where
  "job_broadcast j = group_send (''job.'' @ uuid j)
     (JObj [(''type'', JStr ''job.update''),
            (''job'', JObj [(''uuid'', JStr (uuid j)), (''status'', JStr (show_JobStatus (job_status j))),
              (''progress'', JInt (job_progress j)), (''message'', JStr (job_message j)),
              (''error'', JStr (job_error j))])])"

text \<open>\<open>unique_job_idempotency_key_per_user_type\<close>; a null \<open>created_by\<close> never conflicts in SQL.\<close>

definition job_key_taken :: "nat option \<Rightarrow> JobType \<Rightarrow> string \<Rightarrow> db \<Rightarrow> bool" where
  "job_key_taken u ty key d \<longleftrightarrow> key \<noteq> '''' \<and> u \<noteq> None \<and>
     list_ex (\<lambda>(k, j). job_created_by j = u \<and> job_type j = ty \<and> job_idempotency_key j = key) (jobs d)"

definition create_job ::
  "JobType \<Rightarrow> string \<Rightarrow> string \<Rightarrow> nat \<Rightarrow> nat option \<Rightarrow> nat option \<Rightarrow> string \<Rightarrow> nat \<Rightarrow> job_obj op" where
  "create_job ty rtype rid org node by key timeout =
     bindM uuid4 (\<lambda>u. bindM now (\<lambda>t. bindM (getdb (job_key_taken by ty key)) (\<lambda>taken.
       if taken then raiseM (IntegrityError ''unique_job_idempotency_key_per_user_type'')
       else bindM fresh_pk (\<lambda>k.
         let j = \<lparr> uuid = u, created_at = t, updated_at = t, job_type = ty, job_status = JS_QUEUED,
                job_organization = org, job_resource_type = rtype, job_resource_id = rid,
                job_node = node, job_created_by = by, job_progress = 0, job_message = '''',
                job_error = '''', job_logs = [], job_celery_task_id = '''',
                job_idempotency_key = key, job_timeout_seconds = timeout, job_retries = 0,
                job_started_at = None, job_finished_at = None \<rparr>
         in bindM (moddb (\<lambda>d. d\<lparr>jobs := row_add k j (jobs d)\<rparr>)) (\<lambda>_. returnM (k, j))))))"

text \<open>The row that \<open>transition\<close> writes.\<close>

definition transitioned :: "JobStatus \<Rightarrow> string option \<Rightarrow> string option \<Rightarrow> nat \<Rightarrow> job \<Rightarrow> job" where
  "transitioned s msg err t j =
     (let j1 = j\<lparr>job_status := s\<rparr>;
          j2 = (case msg of None \<Rightarrow> j1 | Some m \<Rightarrow> j1\<lparr>job_message := m\<rparr>);
          j3 = (case err of None \<Rightarrow> j2 | Some e \<Rightarrow> j2\<lparr>job_error := e\<rparr>);
          j4 = (if s = JS_RUNNING \<and> job_started_at j3 = None then j3\<lparr>job_started_at := Some t\<rparr> else j3);
          j5 = (if s \<in> {JS_SUCCESS, JS_FAILED, JS_CANCELED} then j4\<lparr>job_finished_at := Some t\<rparr> else j4);
          j6 = (if s = JS_SUCCESS then j5\<lparr>job_progress := 100\<rparr> else j5)
      in j6\<lparr>updated_at := t\<rparr>)"

definition transition :: "nat \<Rightarrow> JobStatus \<Rightarrow> string option \<Rightarrow> string option \<Rightarrow> job op" where
  "transition k s msg err = atomicM
     (bindM (get_row ''Job'' jobs k) (\<lambda>locked.
        if s \<notin> set (VALID_TRANSITIONS (job_status locked)) \<and> s \<noteq> job_status locked
        then raiseM (api_exn InvalidStateTransition
               (''Cannot transition job from '' @ show_JobStatus (job_status locked) @ '' to '' @ show_JobStatus s))
        else bindM now (\<lambda>t.
          let j = transitioned s msg err t locked
          in bindM (moddb (\<lambda>d. d\<lparr>jobs := row_mod k (\<lambda>_. j) (jobs d)\<rparr>)) (\<lambda>_.
             bindM (job_broadcast j) (\<lambda>_. returnM j)))))"

definition save_job :: "nat \<Rightarrow> (job \<Rightarrow> job) \<Rightarrow> unit op" where
  "save_job k f = save_row jobs jobs_update k f"

definition set_progress :: "job_obj \<Rightarrow> int \<Rightarrow> string option \<Rightarrow> unit op" where
  "set_progress jo p msg = (case jo of (k, j) \<Rightarrow>
     let p' = max 0 (min 100 p); m = (case msg of None \<Rightarrow> job_message j | Some m \<Rightarrow> m)
     in bindM now (\<lambda>t. bindM (save_job k (\<lambda>r. r\<lparr>job_progress := p', job_message := m, updated_at := t\<rparr>)) (\<lambda>_.
        job_broadcast (j\<lparr>job_progress := p', job_message := m\<rparr>))))"

definition append_log :: "nat \<Rightarrow> string \<Rightarrow> unit op" where
  "append_log k line = bindM (get_row ''Job'' jobs k) (\<lambda>j. bindM now (\<lambda>t.
     moddb (\<lambda>d. d\<lparr>jobs := row_mod k (\<lambda>r. r\<lparr>job_logs := job_logs j @ [(t, line)]\<rparr>) (jobs d)\<rparr>)))"

definition request_cancel :: "job_obj \<Rightarrow> job op" where
  "request_cancel jo = (case jo of (k, j) \<Rightarrow>
     if job_status j \<notin> {JS_QUEUED, JS_RUNNING}
     then raiseM (api_exn InvalidStateTransition
            (''Job in status '' @ show_JobStatus (job_status j) @ '' cannot be canceled''))
     else bindM (transition k JS_CANCELING (Some ''Cancellation requested'') None) (\<lambda>u.
       bindM (whenM (job_celery_task_id u \<noteq> '''')
                (group_send ''celery.control.revoke'' (JStr (job_celery_task_id u)))) (\<lambda>_.
       returnM u)))"

definition is_cancel_requested :: "nat \<Rightarrow> bool op" where
  "is_cancel_requested k = getdb (\<lambda>d. case row_get k (jobs d) of
     Some j \<Rightarrow> job_status j = JS_CANCELING | None \<Rightarrow> False)"

text \<open>\<open>with job_run(job, step): body\<close>. The cancellation check raises before the \<open>try\<close>.\<close>

definition job_run :: "job_obj \<Rightarrow> string \<Rightarrow> 'a op \<Rightarrow> 'a op" where
  "job_run jo step body = (case jo of (k, j) \<Rightarrow>
     bindM (if job_status j = JS_QUEUED
            then bindM (transition k JS_RUNNING None None) (\<lambda>_. returnM ()) else returnM ()) (\<lambda>_.
     bindM (is_cancel_requested k) (\<lambda>c.
       if c then raiseM (JobCancelled (''Job '' @ uuid j @ '' was canceled''))
       else bindM (if step \<noteq> '''' then bindM (set_progress jo (job_progress j) (Some step)) (\<lambda>_. append_log k step)
                   else returnM ()) (\<lambda>_.
         tryM body (\<lambda>e.
           bindM (if is_job_cancelled e then transition k JS_CANCELED (Some ''Canceled'') None
                  else transition k JS_FAILED None (Some (str_exn e))) (\<lambda>_. raiseM e))))))"

text \<open>\<open>if not Job.objects.get(pk=job.pk).is_terminal: transition(job, FAILED, error=...)\<close>, the
  epilogue that the tasks' exception handlers share.\<close>

definition fail_unless_terminal :: "nat \<Rightarrow> string \<Rightarrow> unit op" where
  "fail_unless_terminal k err = bindM (get_row ''Job'' jobs k) (\<lambda>j.
     if is_terminal (job_status j) then returnM ()
     else bindM (transition k JS_FAILED None (Some err)) (\<lambda>_. returnM ()))"

subsection \<open>\<open>JobBoundTask\<close>\<close>

definition before_start :: "nat \<Rightarrow> string \<Rightarrow> unit op" where
  "before_start k task_id = moddb (\<lambda>d. d\<lparr>jobs := row_mod k (\<lambda>r. r\<lparr>job_celery_task_id := task_id\<rparr>) (jobs d)\<rparr>)"

definition on_failure :: "nat \<Rightarrow> exn \<Rightarrow> unit op" where
  "on_failure k e = bindM (getdb (\<lambda>d. row_get k (jobs d))) (\<lambda>x. case x of
      None \<Rightarrow> returnM ()
    | Some j \<Rightarrow> if is_terminal (job_status j) then returnM ()
        else bindM (transition k JS_FAILED None (Some (str_exn e))) (\<lambda>_. returnM ()))"

text \<open>What a Celery worker does with a bound task: \<open>before_start\<close>, the body, and \<open>on_failure\<close>
  for an exception, which the worker then logs.\<close>

definition run_bound_task :: "nat \<Rightarrow> string \<Rightarrow> unit op \<Rightarrow> unit op" where
  "run_bound_task k task_id body =
     bindM (before_start k task_id) (\<lambda>_. tryM body (\<lambda>e. on_failure k e))"

subsection \<open>Well-formed rows and the evolution of the table\<close>

definition job_wf :: "job \<Rightarrow> bool" where
  "job_wf j \<longleftrightarrow> 0 \<le> job_progress j \<and> job_progress j \<le> 100 \<and>
     (is_terminal (job_status j) \<longleftrightarrow> job_finished_at j \<noteq> None)"

definition jobs_wf :: "world \<Rightarrow> bool" where
  "jobs_wf w \<longleftrightarrow> list_all (\<lambda>(k, j). job_wf j) (jobs (wdb w))"

definition same_job :: "job \<Rightarrow> job \<Rightarrow> bool" where
  "same_job j j' \<longleftrightarrow> uuid j' = uuid j \<and> job_type j' = job_type j \<and> created_at j' = created_at j \<and>
     job_organization j' = job_organization j \<and> job_created_by j' = job_created_by j \<and>
     job_resource_type j' = job_resource_type j"

definition job_evolves :: "world \<Rightarrow> world \<Rightarrow> bool" where
  "job_evolves w w' \<longleftrightarrow> (\<forall>k j. row_get k (jobs (wdb w)) = Some j \<longrightarrow>
     (\<exists>j'. row_get k (jobs (wdb w')) = Some j' \<and> job_step\<^sup>*\<^sup>* (job_status j) (job_status j') \<and> same_job j j'))"

text \<open>The job that a Celery call runs.\<close>

fun celery_job :: "celery_call \<Rightarrow> nat option" where
  "celery_job (ProvisionVm jk x) = Some jk"
| "celery_job (StartVm jk x) = Some jk"
| "celery_job (StopVm jk x) = Some jk"
| "celery_job (RebootVm jk x) = Some jk"
| "celery_job (PauseVm jk x) = Some jk"
| "celery_job (ResumeVm jk x) = Some jk"
| "celery_job (DeleteVm jk x) = Some jk"
| "celery_job (CloneVm jk x nm linked) = Some jk"
| "celery_job (AttachDisk jk x) = Some jk"
| "celery_job (DetachDisk jk x) = Some jk"
| "celery_job (ResizeDisk jk x sz) = Some jk"
| "celery_job (AttachNic jk x) = Some jk"
| "celery_job (DetachNic jk x) = Some jk"
| "celery_job (CreateSnapshot jk x) = Some jk"
| "celery_job (DeleteSnapshot jk x) = Some jk"
| "celery_job (RollbackSnapshot jk x) = Some jk"
| "celery_job (CreateBackup jk x) = Some jk"
| "celery_job (RestoreBackup jk x) = Some jk"
| "celery_job (CreateStoragePool jk x) = Some jk"
| "celery_job (CreateNetwork jk x) = Some jk"
| "celery_job (DeleteNetwork jk x) = Some jk"
| "celery_job (DeliverWebhook k n) = None"

definition has_job :: "nat \<Rightarrow> world \<Rightarrow> bool" where
  "has_job k w = (row_get k (jobs (wdb w)) \<noteq> None)"

definition queued_job :: "nat \<Rightarrow> world \<Rightarrow> bool" where
  "queued_job k w = list_ex (\<lambda>c. celery_job c = Some k) (queue (wdb w))"

text \<open>The queue only grows, by calls whose jobs exist, and a new job comes with its call.\<close>

definition queue_grows :: "world \<Rightarrow> world \<Rightarrow> bool" where
  "queue_grows w w' \<longleftrightarrow> set (queue (wdb w)) \<subseteq> set (queue (wdb w')) \<and>
     (\<forall>c k. c \<in> set (queue (wdb w')) \<longrightarrow> celery_job c = Some k \<longrightarrow> c \<in> set (queue (wdb w)) \<or> has_job k w') \<and>
     (\<forall>k. has_job k w' \<longrightarrow> has_job k w \<or> queued_job k w')"

definition job_safe :: "world \<Rightarrow> world \<Rightarrow> bool" where
  "job_safe w w' \<longleftrightarrow> job_evolves w w' \<and> (jobs_wf w \<longrightarrow> jobs_wf w') \<and> queue_grows w w'"

lemma is_terminal_simps [simp]:
  "is_terminal JS_SUCCESS" "is_terminal JS_FAILED" "is_terminal JS_CANCELED"
  "\<not> is_terminal JS_QUEUED" "\<not> is_terminal JS_RUNNING" "\<not> is_terminal JS_CANCELING"
  by (simp_all add: is_terminal_def)

lemma jobs_wfD: "jobs_wf w \<Longrightarrow> (k, j) \<in> set (jobs (wdb w)) \<Longrightarrow> job_wf j"
  by (auto simp: jobs_wf_def list_all_iff)

lemma jobs_wfI: "(\<And>k j. (k, j) \<in> set (jobs (wdb w)) \<Longrightarrow> job_wf j) \<Longrightarrow> jobs_wf w"
  by (auto simp: jobs_wf_def list_all_iff)

lemma same_job_refl [simp]: "same_job j j"
  by (simp add: same_job_def)

lemma same_job_trans: "same_job a b \<Longrightarrow> same_job b c \<Longrightarrow> same_job a c"
  by (simp add: same_job_def)

lemma job_evolves_refl: "job_evolves w w"
  by (simp add: job_evolves_def)

lemma job_evolves_trans:
  assumes "job_evolves w w'" and "job_evolves w' w''"
  shows "job_evolves w w''"
  unfolding job_evolves_def
proof (intro allI impI)
  fix k j
  assume "row_get k (jobs (wdb w)) = Some j"
  then obtain j' where 1: "row_get k (jobs (wdb w')) = Some j'"
      "job_step\<^sup>*\<^sup>* (job_status j) (job_status j')" "same_job j j'"
    using assms(1) unfolding job_evolves_def by blast
  then obtain j'' where "row_get k (jobs (wdb w'')) = Some j''"
      "job_step\<^sup>*\<^sup>* (job_status j') (job_status j'')" "same_job j' j''"
    using assms(2) unfolding job_evolves_def by blast
  then show "\<exists>j'. row_get k (jobs (wdb w'')) = Some j' \<and>
      job_step\<^sup>*\<^sup>* (job_status j) (job_status j') \<and> same_job j j'"
    using 1 by (blast intro: rtranclp_trans same_job_trans)
qed

lemma job_evolves_has: "job_evolves w w' \<Longrightarrow> has_job k w \<Longrightarrow> has_job k w'"
  by (auto simp: job_evolves_def has_job_def)

lemma queued_job_mono: "set (queue (wdb w)) \<subseteq> set (queue (wdb w')) \<Longrightarrow> queued_job k w \<Longrightarrow> queued_job k w'"
  by (auto simp: queued_job_def list_ex_iff)

lemma queue_grows_trans:
  assumes 1: "queue_grows w w'" and 2: "queue_grows w' w''" and e: "job_evolves w' w''"
  shows "queue_grows w w''"
proof -
  have sub: "set (queue (wdb w)) \<subseteq> set (queue (wdb w'))" "set (queue (wdb w')) \<subseteq> set (queue (wdb w''))"
    using 1 2 by (simp_all add: queue_grows_def)
  have "c \<in> set (queue (wdb w)) \<or> has_job k w''" if "c \<in> set (queue (wdb w''))" "celery_job c = Some k" for c k
    using that 1 2 job_evolves_has [OF e, of k] unfolding queue_grows_def by blast
  moreover have "has_job k w \<or> queued_job k w''" if "has_job k w''" for k
    using that 1 2 queued_job_mono [OF sub(2), of k] unfolding queue_grows_def by blast
  ultimately show ?thesis using sub unfolding queue_grows_def by blast
qed

text \<open>Two ways to leave the queue in order: not to touch it while the set of jobs stays, and to add calls
  that run no job.\<close>

lemma queue_grows_same:
  "queue (wdb w') = queue (wdb w) \<Longrightarrow> (\<And>k. has_job k w' \<Longrightarrow> has_job k w) \<Longrightarrow> queue_grows w w'"
  by (simp add: queue_grows_def)

lemma job_safe_same_jobs: "jobs (wdb w') = jobs (wdb w) \<Longrightarrow> queue (wdb w') = queue (wdb w) \<Longrightarrow> job_safe w w'"
  by (auto simp: job_safe_def job_evolves_def jobs_wf_def has_job_def intro: queue_grows_same)

lemma job_safe_add_call:
  "jobs (wdb w') = jobs (wdb w) \<Longrightarrow> queue (wdb w') = queue (wdb w) @ [c] \<Longrightarrow> celery_job c = None \<Longrightarrow> job_safe w w'"
  by (auto simp: job_safe_def job_evolves_def jobs_wf_def queue_grows_def has_job_def)

interpretation js: plain_frame job_safe
proof unfold_locales
  show "job_safe w w" for w by (simp add: job_safe_same_jobs)
  show "job_safe w w' \<Longrightarrow> job_safe w' w'' \<Longrightarrow> job_safe w w''" for w w' w''
    by (auto simp: job_safe_def intro: job_evolves_trans queue_grows_trans)
  show "wdb w' = wdb w \<Longrightarrow> job_safe w w'" for w w' by (simp add: job_safe_same_jobs)
qed

text \<open>The obligation of a write to one row.\<close>

lemma job_safe_row_mod:
  assumes "\<And>j. row_get k (jobs (wdb w)) = Some j \<Longrightarrow>
      job_step\<^sup>*\<^sup>* (job_status j) (job_status (f j)) \<and> same_job j (f j)"
    and "\<And>j. jobs_wf w \<Longrightarrow> (k, j) \<in> set (jobs (wdb w)) \<Longrightarrow> job_wf (f j)"
    and "jobs (wdb w') = row_mod k f (jobs (wdb w))"
    and "queue (wdb w') = queue (wdb w)"
  shows "job_safe w w'"
proof -
  have "job_evolves w w'"
    using assms(1,3) by (auto simp: job_evolves_def tbl.get_md)
  moreover have "jobs_wf w'" if wf: "jobs_wf w"
  proof (rule jobs_wfI)
    fix k' j'
    assume "(k', j') \<in> set (jobs (wdb w'))"
    then obtain j where j: "(k', j) \<in> set (jobs (wdb w))" "j' = (if k' = k then f j else j)"
      unfolding assms(3) by (rule row_mod_memE)
    show "job_wf j'"
    proof (cases "k' = k")
      case True
      with j show ?thesis using assms(2) [OF wf] by simp
    next
      case False
      with j have "j' = j" by simp
      moreover have "job_wf j" using wf j(1) by (rule jobs_wfD)
      ultimately show ?thesis by simp
    qed
  qed
  moreover have "queue_grows w w'"
    by (rule queue_grows_same) (use assms(3,4) in \<open>auto simp: has_job_def tbl.get_md split: if_splits\<close>)
  ultimately show ?thesis by (simp add: job_safe_def)
qed

text \<open>A new job together with the call that runs it.\<close>

lemma job_safe_row_add:
  assumes "job_wf j" and "jobs (wdb w') = row_add k j (jobs (wdb w))"
    and "queue (wdb w') = queue (wdb w) @ [c]" and "celery_job c = Some k"
  shows "job_safe w w'"
proof -
  have "row_get k' (jobs (wdb w)) = Some j' \<Longrightarrow> row_get k' (jobs (wdb w')) = Some j'" for k' j'
    unfolding assms(2) by (rule row_get_add_Some)
  then have "job_evolves w w'"
    by (simp add: job_evolves_def)
  moreover have "jobs_wf w \<longrightarrow> jobs_wf w'"
    using assms by (simp add: jobs_wf_def row_add_def)
  moreover have "queue_grows w w'"
    using assms(2-4) by (auto simp: queue_grows_def has_job_def queued_job_def row_get_def row_add_def
        map_add_Some_iff split: option.splits if_splits)
  ultimately show ?thesis by (simp add: job_safe_def)
qed

lemma job_step_trans: "s' \<in> set (VALID_TRANSITIONS s) \<or> s' = s \<Longrightarrow> job_step\<^sup>*\<^sup>* s s'"
  by (auto intro: job_stepI)

lemma transitioned_status [simp]: "job_status (transitioned s msg err t j) = s"
  by (simp add: transitioned_def Let_def split: option.splits)

lemma same_job_transitioned: "same_job j (transitioned s msg err t j)"
  by (simp add: transitioned_def Let_def same_job_def split: option.splits)

lemma job_wf_transitioned:
  assumes "job_wf j" and "s \<in> set (VALID_TRANSITIONS (job_status j)) \<or> s = job_status j"
  shows "job_wf (transitioned s msg err t j)"
  using assms by (cases "job_status j") (auto simp: transitioned_def Let_def job_wf_def split: option.splits)

text \<open>The frame lemmas of the job services.\<close>

lemma keeps_job_broadcast: "keeps job_safe (job_broadcast j)"
  by (simp add: job_broadcast_def js.keeps_group_send)

lemma keeps_fresh_pk: "keeps job_safe fresh_pk"
  by (simp add: keeps_def fresh_pk_apply job_safe_same_jobs)

lemma keeps_submit:
  assumes "\<And>jk. celery_job (c jk) = Some jk"
  shows "keeps job_safe (bindM (create_job ty rt rid org nd by key tm) (\<lambda>(jk, j). bindM (enqueue (c jk)) (\<lambda>_. returnM (f jk j))))"
proof -
  have add: "keeps job_safe (bindM (moddb (\<lambda>d. d\<lparr>jobs := row_add k j (jobs d)\<rparr>)) (\<lambda>_. bindM (enqueue (c k)) (\<lambda>_. returnM x)))"
    if "job_wf j" for k j x
    unfolding keeps_def
    by (auto simp: enqueue_def intro!: job_safe_row_add [OF that _ _ assms])
  show ?thesis
    unfolding create_job_def Let_def
    by (simp only: bindM_assoc if_bindM bindM_return bindM_raise prod.case,
        intro js.keeps_rules js.keeps_world keeps_fresh_pk add) (simp add: job_wf_def)
qed

lemma keeps_transition: "keeps job_safe (transition k s msg err)"
proof -
  have "job_safe w (snd (transition k s msg err w))" for w
  proof (cases "row_get k (jobs (wdb w))")
    case None
    then show ?thesis by (simp add: transition_def atomicM_def bindM_def get_row_apply js.R_plain)
  next
    case (Some j)
    show ?thesis
    proof (cases "s \<in> set (VALID_TRANSITIONS (job_status j)) \<or> s = job_status j")
      case False
      with Some show ?thesis by (simp add: transition_def atomicM_def bindM_def get_row_apply js.R_plain)
    next
      case ok: True
      show ?thesis
      proof (rule job_safe_row_mod [where k = k and f = "\<lambda>_. transitioned s msg err (clock w) j"])
        show "job_step\<^sup>*\<^sup>* (job_status j') (job_status (transitioned s msg err (clock w) j)) \<and>
            same_job j' (transitioned s msg err (clock w) j)"
          if "row_get k (jobs (wdb w)) = Some j'" for j'
          using that Some ok by (simp add: job_step_trans same_job_transitioned)
        show "job_wf (transitioned s msg err (clock w) j)" if "jobs_wf w" for j'
          using jobs_wfD [OF that row_get_SomeD [OF Some]] ok by (rule job_wf_transitioned)
        show "jobs (wdb (snd (transition k s msg err w))) =
            row_mod k (\<lambda>_. transitioned s msg err (clock w) j) (jobs (wdb w))"
          "queue (wdb (snd (transition k s msg err w))) = queue (wdb w)"
          using Some ok by (auto simp: transition_def atomicM_def bindM_def get_row_apply Let_def
              job_broadcast_def group_send_def)
      qed
    qed
  qed
  then show ?thesis by (simp add: keeps_def)
qed

text \<open>A write that leaves the status alone.\<close>

lemma job_safe_mod_same_status:
  assumes "\<And>j. job_status (f j) = job_status j \<and> same_job j (f j)"
    and "\<And>j. job_wf j \<Longrightarrow> job_wf (f j)"
    and "jobs (wdb w') = row_mod k f (jobs (wdb w))"
    and "queue (wdb w') = queue (wdb w)"
  shows "job_safe w w'"
  by (rule job_safe_row_mod [OF _ _ assms(3,4)]) (use assms(1,2) in \<open>auto dest: jobs_wfD\<close>)

lemma keeps_save_job:
  assumes "\<And>j. job_status (f j) = job_status j \<and> same_job j (f j)"
    and "\<And>j. job_wf j \<Longrightarrow> job_wf (f j)"
  shows "keeps job_safe (save_job k f)"
  unfolding save_job_def
  by (rule js.keeps_save_row, rule job_safe_mod_same_status [OF assms]) simp_all

lemma keeps_set_progress: "keeps job_safe (set_progress jo p msg)"
  unfolding set_progress_def Let_def
  by (cases jo) (auto intro!: js.keeps_rules js.keeps_world keeps_save_job keeps_job_broadcast
      simp: same_job_def job_wf_def)

lemma keeps_append_log: "keeps job_safe (append_log k line)"
proof -
  have "keeps job_safe (moddb (\<lambda>d. d\<lparr>jobs := row_mod k (\<lambda>r. r\<lparr>job_logs := l\<rparr>) (jobs d)\<rparr>))" for l
    by (rule js.keeps_moddb, rule job_safe_mod_same_status [where k = k and f = "\<lambda>r. r\<lparr>job_logs := l\<rparr>"])
      (simp_all add: same_job_def job_wf_def)
  then show ?thesis
    unfolding append_log_def by (intro js.keeps_rules js.keeps_world)
qed

lemma keeps_request_cancel: "keeps job_safe (request_cancel jo)"
  unfolding request_cancel_def
  by (cases jo) (auto intro!: js.keeps_rules js.keeps_world keeps_transition)

lemma keeps_is_cancel_requested: "keeps job_safe (is_cancel_requested k)"
  by (simp add: is_cancel_requested_def js.keeps_getdb)

lemma keeps_job_run: "keeps job_safe body \<Longrightarrow> keeps job_safe (job_run jo step body)"
  unfolding job_run_def
  by (cases jo) (auto intro!: js.keeps_rules js.keeps_world keeps_transition keeps_set_progress
      keeps_append_log keeps_is_cancel_requested)

lemma keeps_fail_unless_terminal: "keeps job_safe (fail_unless_terminal k err)"
  unfolding fail_unless_terminal_def by (intro js.keeps_rules js.keeps_world keeps_transition)

lemma keeps_before_start: "keeps job_safe (before_start k t)"
  unfolding before_start_def
  by (rule js.keeps_moddb,
      rule job_safe_mod_same_status [where k = k and f = "\<lambda>r. r\<lparr>job_celery_task_id := t\<rparr>"])
    (simp_all add: same_job_def job_wf_def)

lemma keeps_on_failure: "keeps job_safe (on_failure k e)"
  unfolding on_failure_def by (intro js.keeps_rules js.keeps_world keeps_transition)

lemma keeps_run_bound_task: "keeps job_safe body \<Longrightarrow> keeps job_safe (run_bound_task k t body)"
  unfolding run_bound_task_def by (intro js.keeps_rules keeps_before_start keeps_on_failure)

subsection \<open>Ending in a terminal status\<close>

definition terminal_in :: "nat \<Rightarrow> world \<Rightarrow> bool" where
  "terminal_in k w = (case row_get k (jobs (wdb w)) of None \<Rightarrow> False | Some j \<Rightarrow> is_terminal (job_status j))"

lemma terminal_no_step: "is_terminal s \<Longrightarrow> \<not> job_step s s'"
  by (cases s) (auto simp: job_step_iff)

lemma terminal_stays: "job_step\<^sup>*\<^sup>* s s' \<Longrightarrow> is_terminal s \<Longrightarrow> s' = s"
  by (erule converse_rtranclpE) (auto simp: terminal_no_step)

lemma terminal_in_safe: "job_safe w w' \<Longrightarrow> terminal_in k w \<Longrightarrow> terminal_in k w'"
  by (fastforce simp: job_safe_def job_evolves_def terminal_in_def dest: terminal_stays split: option.splits)

lemma has_job_safe: "job_safe w w' \<Longrightarrow> has_job k w \<Longrightarrow> has_job k w'"
  by (auto simp: job_safe_def job_evolves_def has_job_def)

lemma transition_Inr:
  "transition k s msg err w = (Inr j', w') \<Longrightarrow>
     \<exists>j. row_get k (jobs (wdb w)) = Some j \<and> (s \<in> set (VALID_TRANSITIONS (job_status j)) \<or> s = job_status j) \<and>
       j' = transitioned s msg err (clock w) j \<and> row_get k (jobs (wdb w')) = Some j'"
  by (auto simp: transition_def atomicM_Inr bindM_def get_row_apply Let_def job_broadcast_def
      group_send_def tbl.get_md split: option.splits if_splits)

lemma transition_terminal:
  "is_terminal s \<Longrightarrow> transition k s msg err w = (Inr j', w') \<Longrightarrow> terminal_in k w'"
  by (drule transition_Inr) (auto simp: terminal_in_def)

text \<open>A job that is not terminal can always be failed.\<close>

lemma transition_FAILED_ok:
  assumes "row_get k (jobs (wdb w)) = Some j" and "\<not> is_terminal (job_status j)"
  shows "\<exists>w'. transition k JS_FAILED msg err w = (Inr (transitioned JS_FAILED msg err (clock w) j), w')"
  using assms by (cases "job_status j") (auto simp: transition_def atomicM_def bindM_def get_row_apply Let_def
      job_broadcast_def group_send_def)

lemma on_failure_terminal:
  assumes "has_job k w"
  shows "\<exists>w'. on_failure k e w = (Inr (), w') \<and> terminal_in k w'"
proof -
  obtain j where j: "row_get k (jobs (wdb w)) = Some j" using assms by (auto simp: has_job_def)
  show ?thesis
  proof (cases "is_terminal (job_status j)")
    case True
    with j show ?thesis by (simp add: on_failure_def terminal_in_def)
  next
    case False
    obtain w' where t: "transition k JS_FAILED None (Some (str_exn e)) w =
        (Inr (transitioned JS_FAILED None (Some (str_exn e)) (clock w) j), w')"
      using transition_FAILED_ok [OF j False] by blast
    then have "terminal_in k w'" by (rule transition_terminal [rotated]) simp
    with j False t show ?thesis by (simp add: on_failure_def bindM_def)
  qed
qed

lemma row_get_before_start:
  "has_job k w \<Longrightarrow> has_job k (snd (before_start k t w))"
  by (auto simp: has_job_def before_start_def tbl.get_md)

text \<open>A block that, if it returns normally, leaves the job in a terminal status.\<close>

definition ends_terminal :: "nat \<Rightarrow> unit op \<Rightarrow> bool" where
  "ends_terminal k m \<longleftrightarrow> (\<forall>w w'. m w = (Inr (), w') \<longrightarrow> terminal_in k w')"

lemma et_raise: "ends_terminal k (raiseM e)"
  by (simp add: ends_terminal_def)

lemma et_bind: "(\<And>x. ends_terminal k (f x)) \<Longrightarrow> ends_terminal k (bindM m f)"
  by (auto simp: ends_terminal_def bindM_def split: prod.splits sum.splits)

lemma et_then:
  assumes "ends_terminal k m" and "\<And>x. keeps job_safe (f x)"
  shows "ends_terminal k (bindM m f)"
  unfolding ends_terminal_def
proof (intro allI impI)
  fix w w'
  assume r: "bindM m f w = (Inr (), w')"
  then obtain w1 where w1: "m w = (Inr (), w1)" "f () w1 = (Inr (), w')"
    by (auto simp: bindM_def split: prod.splits sum.splits)
  with assms have "terminal_in k w1" "job_safe w1 w'"
    by (auto simp: ends_terminal_def dest: keepsD)
  then show "terminal_in k w'" by (rule terminal_in_safe [rotated])
qed

lemma et_try:
  "ends_terminal k m \<Longrightarrow> (\<And>e. ends_terminal k (h e)) \<Longrightarrow> ends_terminal k (tryM m h)"
  by (auto simp: ends_terminal_def tryM_def split: prod.splits sum.splits)

lemma et_seq: "ends_terminal k (seqM ms) \<Longrightarrow> ends_terminal k (seqM (m # ms))"
  by (simp add: et_bind)

lemma et_seq_last: "ends_terminal k m \<Longrightarrow> ends_terminal k (seqM [m])"
  by (simp add: et_then js.keeps_return)

lemma et_seq_then:
  "ends_terminal k m \<Longrightarrow> keeps job_safe (seqM ms) \<Longrightarrow> ends_terminal k (seqM (m # ms))"
  by (simp add: et_then)

lemma et_if: "ends_terminal k m \<Longrightarrow> ends_terminal k n \<Longrightarrow> ends_terminal k (if b then m else n)"
  by simp

lemma et_succeed: "ends_terminal k (bindM (transition k JS_SUCCESS msg err) (\<lambda>_. returnM ()))"
  by (auto simp: ends_terminal_def bindM_def dest: transition_terminal [rotated] split: prod.splits sum.splits)

text \<open>
  The contract of a job-bound task body: it touches jobs only along the state machine, and when it
  returns normally the job is in a terminal status. Celery's \<open>on_failure\<close> does the rest.
\<close>

locale bound_body =
  fixes body :: "nat \<Rightarrow> unit op"
  assumes body_safe: "keeps job_safe (body k)"
    and body_ends: "ends_terminal k (body k)"
begin

lemma run_terminal:
  assumes "has_job k w"
  shows "\<exists>w'. run_bound_task k t (body k) w = (Inr (), w') \<and> terminal_in k w'"
proof -
  obtain w1 where b: "before_start k t w = (Inr (), w1)" by (simp add: before_start_def)
  have h1: "has_job k w1" using row_get_before_start [OF assms, of t] b by simp
  obtain r w2 where m: "body k w1 = (r, w2)" by fastforce
  have h2: "has_job k w2"
    using keepsD [OF body_safe m] h1 by (rule has_job_safe)
  show ?thesis
  proof (cases r)
    case (Inl e)
    with on_failure_terminal [OF h2, of e] b m show ?thesis
      by (simp add: run_bound_task_def bindM_def tryM_def)
  next
    case (Inr a)
    with b m body_ends [of k] show ?thesis
      by (simp add: run_bound_task_def bindM_def tryM_def ends_terminal_def)
  qed
qed

lemma run_safe: "keeps job_safe (run_bound_task k t (body k))"
  by (rule keeps_run_bound_task) (rule body_safe)

end

subsection \<open>Properties\<close>


lemma job_run_canceling:
  assumes "row_get k (jobs (wdb w)) = Some r" and "job_status r = JS_CANCELING"
    and "job_status j \<in> {JS_QUEUED, JS_CANCELING}"
  shows "\<exists>e. job_run (k, j) step body w = (Inl e, w)"
  using assms
  by (auto simp: job_run_def bindM_def transition_def atomicM_def get_row_apply is_cancel_requested_def
      split: option.splits)

text \<open>
  A job whose cancellation a user has requested never runs its next step, and the worker records
  it as \<open>FAILED\<close>: both the check of \<open>job_run\<close> and its transition to \<open>RUNNING\<close> raise before the
  \<open>try\<close> that would record \<open>CANCELED\<close>.
\<close>

theorem cancel_requested_ends_failed:
  assumes "row_get k (jobs (wdb w)) = Some r" and "job_status r = JS_CANCELING"
    and "job_status j \<in> {JS_QUEUED, JS_CANCELING}"
  shows "\<exists>r' w'. run_bound_task k t (job_run (k, j) step body) w = (Inr (), w') \<and>
     row_get k (jobs (wdb w')) = Some r' \<and> job_status r' = JS_FAILED"
proof -
  obtain w1 where b: "before_start k t w = (Inr (), w1)" by (simp add: before_start_def)
  have r1: "row_get k (jobs (wdb w1)) = Some (r\<lparr>job_celery_task_id := t\<rparr>)"
    using assms(1) b by (auto simp: before_start_def tbl.get_md)
  obtain e where e: "job_run (k, j) step body w1 = (Inl e, w1)"
    using job_run_canceling [OF r1, of j] assms(2,3) by auto
  obtain w' where w': "transition k JS_FAILED None (Some (str_exn e)) w1 =
      (Inr (transitioned JS_FAILED None (Some (str_exn e)) (clock w1) (r\<lparr>job_celery_task_id := t\<rparr>)), w')"
    using transition_FAILED_ok [OF r1] assms(2) by auto
  with transition_Inr [OF w'] r1 b e assms(2) show ?thesis
    by (simp add: run_bound_task_def bindM_def tryM_def on_failure_def)
qed

definition ex_canceling :: world where
  "ex_canceling = db_upd (\<lambda>d. d\<lparr>jobs := [(30, ex_job\<lparr>job_status := JS_CANCELING\<rparr>)]\<rparr>) ex_world"

theorem cancel_requested_ends_failed_witness:
  "\<exists>r' w'. run_bound_task 30 ''t'' (job_run (30, ex_job) ''Starting VM'' (returnM ())) ex_canceling = (Inr (), w') \<and>
     row_get 30 (jobs (wdb w')) = Some r' \<and> job_status r' = JS_FAILED"
  by (rule cancel_requested_ends_failed [where r = "ex_job\<lparr>job_status := JS_CANCELING\<rparr>"]) (simp_all add: ex_canceling_def ex_job_def)

end
