(* ===== verification/Environment.thy ===== *)
theory Environment
  imports Jobs
begin

section \<open>Environment: what other processes do while a task sleeps\<close>

text \<open>
  The Lua scripts of \<open>backend/apps/common/locks.py\<close>, the agent side of
  \<open>backend/apps/nodes/consumers.py\<close> (\<open>AgentConsumer\<close>), and \<open>time.sleep\<close>. A sleep is the only
  place where other processes run: \<open>sleepM\<close> moves the clock and applies, in schedule order, the
  external events that fall due, each at its own time. This is the interleaving of the model:
  agents answer, connect and disconnect, users cancel jobs, other workers take and release locks,
  at arbitrary times, between any two polls of the code under verification.
\<close>

subsection \<open>Redis scripts\<close>

text \<open>\<open>SET key token NX PX ttl\<close>.\<close>

definition set_nx :: "string \<Rightarrow> string \<Rightarrow> nat \<Rightarrow> world \<Rightarrow> bool \<times> world" where
  "set_nx k tok ttl w =
     (if redis_lookup w k = None then (True, redis_put k (RStr tok) (Some ttl) w) else (False, w))"

text \<open>\<open>_RELEASE_SCRIPT\<close>: delete the key only while it holds the caller's token.\<close>

definition release_script :: "string \<Rightarrow> string \<Rightarrow> world \<Rightarrow> bool \<times> world" where
  "release_script k tok w =
     (if redis_lookup w k = Some (RStr tok) then (True, redis_drop k w) else (False, w))"

text \<open>\<open>_EXTEND_SCRIPT\<close>.\<close>

definition extend_script :: "string \<Rightarrow> string \<Rightarrow> nat \<Rightarrow> world \<Rightarrow> bool \<times> world" where
  "extend_script k tok ttl w =
     (if redis_lookup w k = Some (RStr tok) then (True, redis_put k (RStr tok) (Some ttl) w) else (False, w))"

subsection \<open>\<open>AgentConsumer\<close>\<close>

definition connection_key :: "string \<Rightarrow> string" where
  "connection_key u = ''nodepilot:agent:conn:'' @ u"

definition response_key :: "string \<Rightarrow> string" where
  "response_key r = ''nodepilot:agent:response:'' @ r"

text \<open>
  \<open>_authenticate\<close>: the token's hash must belong to an active agent, and that agent to the node
  named in the URL. The hash function (SHA-256) is a parameter.
\<close>

definition agent_authenticate :: "(string \<Rightarrow> string) \<Rightarrow> db \<Rightarrow> string \<Rightarrow> string option \<Rightarrow> agent option" where
  "agent_authenticate hash d node_uuid raw = (case raw of
     None \<Rightarrow> None
   | Some tok \<Rightarrow> if tok = '''' then None else
       (case rows_where (\<lambda>a. agt_token_hash a = hash tok \<and> agt_status a = AS_ACTIVE) (agents d) of
          [] \<Rightarrow> None
        | (k, a) # _ \<Rightarrow> (case row_get (agt_node a) (nodes d) of
            Some n \<Rightarrow> if uuid n = node_uuid then Some a else None
          | None \<Rightarrow> None)))"

definition agent_accepted :: "string \<Rightarrow> world \<Rightarrow> world" where
  "agent_accepted node_uuid w = redis_put (connection_key node_uuid) (RStr ''1'') (Some 120000) w"

text \<open>\<open>connect\<close>: the close code on failure.\<close>

definition agent_connect :: "(string \<Rightarrow> string) \<Rightarrow> string \<Rightarrow> string option \<Rightarrow> world \<Rightarrow> nat option \<times> world" where
  "agent_connect hash node_uuid raw w =
     (case agent_authenticate hash (wdb w) node_uuid raw of
        None \<Rightarrow> (Some 4401, w)
      | Some a \<Rightarrow> (None, agent_accepted node_uuid w))"

definition agent_disconnect :: "string \<Rightarrow> world \<Rightarrow> world" where
  "agent_disconnect node_uuid w = redis_drop (connection_key node_uuid) w"

text \<open>The text a truthy scalar \<open>request_id\<close> has in the response key; the other JSON values give
  keys no request has, and are not stored.\<close>

definition request_id_text :: "json \<Rightarrow> string option" where
  "request_id_text j = (case j of
     JStr s \<Rightarrow> if s = '''' then None else Some s
   | JInt i \<Rightarrow> if i = 0 then None else Some (show_int i)
   | JBool b \<Rightarrow> if b then Some ''True'' else None
   | _ \<Rightarrow> None)"

definition relay_console_data :: "json \<Rightarrow> world \<Rightarrow> world" where
  "relay_console_data msg w = (case jget ''session_id'' msg of
     Some (JStr s) \<Rightarrow> if s = '''' then w else
        w\<lparr>outbox := outbox w @ [(''console.'' @ s, JObj [(''type'', JStr ''console.data''),
           (''data'', case jget ''data'' msg of None \<Rightarrow> JStr '''' | Some d \<Rightarrow> d)])]\<rparr>
   | _ \<Rightarrow> w)"

text \<open>\<open>receive\<close>: \<open>None\<close> is an empty frame or one that is not JSON. A frame that is not an
  object raises in the consumer after the keep-alive.\<close>

definition agent_receive :: "string \<Rightarrow> json option \<Rightarrow> world \<Rightarrow> world" where
  "agent_receive node_uuid fr w = (case fr of
     None \<Rightarrow> w
   | Some msg \<Rightarrow>
       let w1 = redis_expire (connection_key node_uuid) 120000 w
       in (case msg of
             JObj kvs \<Rightarrow>
               if jget ''type'' msg = Some (JStr ''console_data'') then relay_console_data msg w1
               else (case jget ''request_id'' msg of
                       None \<Rightarrow> w1
                     | Some rid \<Rightarrow> (case request_id_text rid of
                         None \<Rightarrow> w1
                       | Some r \<Rightarrow> redis_put (response_key r) (RJson msg) (Some 60000) w1))
           | _ \<Rightarrow> w1))"

subsection \<open>External events and sleeping\<close>

definition apply_ext :: "ext \<Rightarrow> world \<Rightarrow> world" where
  "apply_ext e w = (case e of
     AgentFrame u f \<Rightarrow> agent_receive u f w
   | AgentDisconnect u \<Rightarrow> agent_disconnect u w
   | AgentConnect u \<Rightarrow> agent_accepted u w
   | CancelRequest k \<Rightarrow> (case row_get k (jobs (wdb w)) of
        None \<Rightarrow> w | Some j \<Rightarrow> snd (request_cancel (k, j) w))
   | OtherAcquire k tok ttl \<Rightarrow> snd (set_nx k tok ttl w)
   | OtherRelease k tok \<Rightarrow> snd (release_script k tok w))"

definition apply_at :: "nat \<times> ext \<Rightarrow> world \<Rightarrow> world" where
  "apply_at te w = apply_ext (snd te) (w\<lparr>clock := max (clock w) (fst te)\<rparr>)"

definition due :: "nat \<Rightarrow> (nat \<times> ext) list \<Rightarrow> (nat \<times> ext) list" where
  "due t s = filter (\<lambda>te. fst te \<le> t) s"

definition not_due :: "nat \<Rightarrow> (nat \<times> ext) list \<Rightarrow> (nat \<times> ext) list" where
  "not_due t s = filter (\<lambda>te. t < fst te) s"

definition advance :: "nat \<Rightarrow> world \<Rightarrow> world" where
  "advance dt w =
     (let t = clock w + dt
      in (fold apply_at (due t (sched w)) (w\<lparr>sched := not_due t (sched w)\<rparr>))\<lparr>clock := t\<rparr>)"

definition sleepM :: "nat \<Rightarrow> unit op" where
  "sleepM dt = modM (advance dt)"

subsection \<open>Facts\<close>

lemma clock_advance [simp]: "clock (advance dt w) = clock w + dt"
  by (simp add: advance_def Let_def)

lemma sleepM_apply [simp, monad_simps]: "sleepM dt w = (Inr (), advance dt w)"
  by (simp add: sleepM_def)

lemma set_nx_other [simp]: "wdb (snd (set_nx k t l w)) = wdb w" "uuids (snd (set_nx k t l w)) = uuids w"
    "uuid_next (snd (set_nx k t l w)) = uuid_next w" "l_vm (snd (set_nx k t l w)) = l_vm w"
    "rpcs (snd (set_nx k t l w)) = rpcs w" "clock (snd (set_nx k t l w)) = clock w"
    "sched (snd (set_nx k t l w)) = sched w" "conf (snd (set_nx k t l w)) = conf w"
    "agent_env (snd (set_nx k t l w)) = agent_env w"
  by (simp_all add: set_nx_def)

lemma release_script_other [simp]:
    "wdb (snd (release_script k t w)) = wdb w" "uuids (snd (release_script k t w)) = uuids w"
    "uuid_next (snd (release_script k t w)) = uuid_next w" "l_vm (snd (release_script k t w)) = l_vm w"
    "rpcs (snd (release_script k t w)) = rpcs w" "clock (snd (release_script k t w)) = clock w"
    "sched (snd (release_script k t w)) = sched w" "conf (snd (release_script k t w)) = conf w"
    "agent_env (snd (release_script k t w)) = agent_env w"
  by (simp_all add: release_script_def)

text \<open>A step of the transport changes nothing but Redis and the channel layer's messages.\<close>

definition redis_only :: "world \<Rightarrow> world \<Rightarrow> bool" where
  "redis_only w w' \<longleftrightarrow> wdb w' = wdb w \<and> uuids w' = uuids w \<and> uuid_next w' = uuid_next w \<and>
     l_vm w' = l_vm w \<and> rpcs w' = rpcs w \<and> clock w' = clock w \<and> conf w' = conf w \<and>
     agent_env w' = agent_env w \<and> sched w' = sched w"

lemma redis_only_refl [simp]: "redis_only w w"
  by (simp add: redis_only_def)

lemma redis_only_outbox [simp]: "redis_only w w' \<Longrightarrow> redis_only w (w'\<lparr>outbox := ob\<rparr>)"
  by (simp add: redis_only_def)

lemma redis_only_put [simp]: "redis_only w w' \<Longrightarrow> redis_only w (redis_put k v t w')"
  by (simp add: redis_only_def)

lemma redis_only_expire [simp]: "redis_only w (redis_expire k t w)"
  by (simp add: redis_expire_def split: option.split)

lemma redis_only_relay [simp]: "redis_only w w' \<Longrightarrow> redis_only w (relay_console_data m w')"
  unfolding relay_console_data_def
  by (cases "jget ''session_id'' m") (auto split: json.split)

lemma redis_only_receive: "redis_only w (agent_receive u f w)"
proof (cases f)
  case None
  then show ?thesis by (simp add: agent_receive_def)
next
  case (Some msg)
  then show ?thesis
    by (cases msg) (simp_all add: agent_receive_def Let_def split: option.split)
qed

lemma redis_onlyD:
  assumes "redis_only w w'"
  shows "wdb w' = wdb w" "uuids w' = uuids w" "uuid_next w' = uuid_next w" "l_vm w' = l_vm w"
    "rpcs w' = rpcs w" "clock w' = clock w" "conf w' = conf w" "agent_env w' = agent_env w"
    "sched w' = sched w"
  using assms by (auto simp: redis_only_def)

lemmas agent_receive_other [simp] = redis_onlyD [OF redis_only_receive]

text \<open>
  What a relation must allow so that waiting keeps it: a text put under a Redis key or a key dropped,
  the answers of an agent scheduled, and time passing with all that happens meanwhile. The waiting
  operations of the later theories (taking a lock, calling an agent) are proved once, in this locale.
\<close>

locale wait_frame = db_frame R for R :: "world \<Rightarrow> world \<Rightarrow> bool" +
  assumes R_text: "R w (redis_put k (RStr s) ttl w)"
    and R_drop: "R w (redis_drop k w)"
    and R_answers: "R w (w\<lparr>rpcs := r, sched := sched w @ map (\<lambda>(delay, fr). (t + delay, AgentFrame u fr)) (agent_env w u n x)\<rparr>)"
    and R_advance: "R w (advance dt w)"
begin

lemma keeps_sleep: "keeps R (sleepM dt)"
  by (simp add: keeps_def R_advance)

end

text \<open>A relation between databases allows all this as soon as it allows a user's cancellation request.\<close>

locale plain_wait = plain_frame R for R :: "world \<Rightarrow> world \<Rightarrow> bool" +
  assumes R_cancel: "R w (snd (request_cancel jo w))"
begin

lemma R_apply_ext: "R w (apply_ext e w)"
proof (cases e)
  case (CancelRequest k)
  then show ?thesis
    by (auto simp: apply_ext_def R_refl R_cancel split: option.splits)
qed (simp_all add: apply_ext_def R_plain agent_disconnect_def agent_accepted_def)

lemma R_fold_apply: "R w (fold apply_at es w)"
proof (induction es arbitrary: w)
  case Nil
  then show ?case by (simp add: R_refl)
next
  case (Cons te es)
  have "R w (apply_at te w)"
    unfolding apply_at_def by (rule R_trans [OF _ R_apply_ext]) (simp add: R_plain)
  then show ?case using Cons.IH [of "apply_at te w"] by (auto intro: R_trans)
qed

lemma R_passing: "R w (advance dt w)"
proof -
  let ?t = "clock w + dt"
  let ?w1 = "w\<lparr>sched := not_due ?t (sched w)\<rparr>"
  have "R w ?w1" by (simp add: R_plain)
  moreover have "R ?w1 (fold apply_at (due ?t (sched w)) ?w1)" by (rule R_fold_apply)
  moreover have "R (fold apply_at (due ?t (sched w)) ?w1) (advance dt w)"
    by (rule R_plain) (simp add: advance_def Let_def)
  ultimately show ?thesis by (blast intro: R_trans)
qed

end

sublocale plain_wait \<subseteq> wait_frame
  by unfold_locales (simp_all add: R_plain R_passing)

interpretation js: plain_wait job_safe
  by unfold_locales (rule keepsD2 [OF keeps_request_cancel])

text \<open>The other instance: while the code waits, nothing but the jobs table changes in the database.\<close>

definition jobs_only :: "world \<Rightarrow> world \<Rightarrow> bool" where
  "jobs_only w w' \<longleftrightarrow> wdb w' = (wdb w)\<lparr>jobs := jobs (wdb w')\<rparr>"

lemma jobs_only_refl: "jobs_only w w"
  by (simp add: jobs_only_def)

lemma jobs_only_trans:
  assumes "jobs_only w w'" and "jobs_only w' w''"
  shows "jobs_only w w''"
proof -
  have "wdb w'' = (wdb w')\<lparr>jobs := jobs (wdb w'')\<rparr>" using assms(2) by (simp add: jobs_only_def)
  also have "\<dots> = (wdb w)\<lparr>jobs := jobs (wdb w'')\<rparr>"
    by (subst assms(1) [unfolded jobs_only_def]) simp
  finally show ?thesis by (simp add: jobs_only_def)
qed

lemma jobs_only_db: "wdb w' = wdb w \<Longrightarrow> jobs_only w w'"
  by (simp add: jobs_only_def)

interpretation jo: plain_frame jobs_only
  by unfold_locales (rule jobs_only_refl, erule (1) jobs_only_trans, erule jobs_only_db)

lemma jobs_only_transition: "keeps jobs_only (transition k s msg err)"
proof -
  have "keeps jobs_only (moddb (\<lambda>d. d\<lparr>jobs := f (jobs d)\<rparr>))" for f
    by (rule jo.keeps_moddb) (simp add: jobs_only_def)
  then show ?thesis
    unfolding transition_def Let_def job_broadcast_def by (intro jo.keeps_rules jo.keeps_world)
qed

interpretation jo: plain_wait jobs_only
proof unfold_locales
  have "keeps jobs_only (request_cancel x)" for x
    unfolding request_cancel_def
    by (cases x) (auto intro!: jo.keeps_rules jo.keeps_world jobs_only_transition)
  then show "jobs_only w (snd (request_cancel x w))" for w x
    by (rule keepsD2)
qed

text \<open>
  The parts of the database that user cancellations do not reach: every table but the jobs. What
  happens while the code waits leaves them alone.
\<close>

locale off_jobs =
  fixes f :: "db \<Rightarrow> 'a"
  assumes off: "f (d\<lparr>jobs := j\<rparr>) = f d"
begin

lemma same_cancel: "same_on f w (snd (request_cancel jo w))"
proof -
  obtain j where "wdb (snd (request_cancel jo w)) = (wdb w)\<lparr>jobs := j\<rparr>"
    using jo.R_cancel [of w jo] unfolding jobs_only_def by blast
  then show ?thesis by (simp add: same_on_def off)
qed

end

sublocale off_jobs \<subseteq> wf: plain_wait "same_on f"
  by unfold_locales (rule same_cancel)

context off_jobs
begin

lemma so_jobs: "keeps (same_on f) (moddb (\<lambda>d. d\<lparr>jobs := g (jobs d)\<rparr>))"
  by (rule so_moddb) (rule off)

lemma so_transition: "keeps (same_on f) (transition k s msg err)"
  unfolding transition_def Let_def job_broadcast_def by (intro so.keeps_rules so.keeps_world so_jobs)

lemma so_save_job: "keeps (same_on f) (save_job k h)"
  unfolding save_job_def by (rule so_save_row) (metis (no_types, lifting) db.surjective db.update_convs(23) off)

lemma so_set_progress: "keeps (same_on f) (set_progress jo p msg)"
  unfolding set_progress_def Let_def job_broadcast_def
  by (cases jo) (auto intro!: so.keeps_rules so.keeps_world so_save_job)

lemma so_append_log: "keeps (same_on f) (append_log k line)"
  unfolding append_log_def by (intro so.keeps_rules so.keeps_world so_jobs)

lemma so_fail_unless_terminal: "keeps (same_on f) (fail_unless_terminal k err)"
  unfolding fail_unless_terminal_def by (intro so.keeps_rules so.keeps_world so_transition)

lemma so_is_cancel_requested: "keeps (same_on f) (is_cancel_requested k)"
  by (simp add: is_cancel_requested_def so.keeps_getdb)

lemma so_job_run: "keeps (same_on f) body \<Longrightarrow> keeps (same_on f) (job_run jo step body)"
  unfolding job_run_def
  by (cases jo) (simp only: prod.case, intro so.keeps_rules so.keeps_world so_transition so_set_progress so_append_log
      so_is_cancel_requested)

lemmas so_job_frame = so_transition so_save_job so_set_progress so_append_log so_fail_unless_terminal so_job_run

end


text \<open>An agent is let in only with the token of the active agent of the very node it names.\<close>

lemma agent_authenticate_sound:
  assumes "agent_authenticate hash d node_uuid raw = Some a"
  shows "\<exists>tok k n. raw = Some tok \<and> tok \<noteq> '''' \<and> (k, a) \<in> set (agents d) \<and>
     agt_token_hash a = hash tok \<and> agt_status a = AS_ACTIVE \<and>
     row_get (agt_node a) (nodes d) = Some n \<and> uuid n = node_uuid"
proof -
  obtain tok where tok: "raw = Some tok" "tok \<noteq> ''''"
    using assms by (auto simp: agent_authenticate_def split: option.splits if_splits)
  obtain k rest where r: "rows_where (\<lambda>a. agt_token_hash a = hash tok \<and> agt_status a = AS_ACTIVE) (agents d) = (k, a) # rest"
    and n: "\<exists>n. row_get (agt_node a) (nodes d) = Some n \<and> uuid n = node_uuid"
    using assms tok by (auto simp: agent_authenticate_def split: option.splits list.splits if_splits)
  from r have "(k, a) \<in> set (rows_where (\<lambda>a. agt_token_hash a = hash tok \<and> agt_status a = AS_ACTIVE) (agents d))"
    by simp
  with tok n show ?thesis unfolding rows_where_iff by blast
qed

subsection \<open>Where a stored reply comes from\<close>

text \<open>Operations on the database alone: Redis, the clock and the environment are as before.\<close>

definition env_same :: "world \<Rightarrow> world \<Rightarrow> bool" where
  "env_same w w' \<longleftrightarrow> redis w' = redis w \<and> clock w' = clock w \<and> sched w' = sched w \<and>
     rpcs w' = rpcs w \<and> conf w' = conf w \<and> agent_env w' = agent_env w \<and> uuids w' = uuids w"

interpretation es: frame env_same
  by unfold_locales (simp_all add: env_same_def)

lemma env_same_moddb: "keeps env_same (moddb f)"
  by (simp add: keeps_def env_same_def)

lemma env_same_getdb: "keeps env_same (getdb f)"
  by (simp add: keeps_def env_same_def)

lemma env_same_now: "keeps env_same now"
  by (simp add: keeps_def env_same_def)

lemma env_same_group_send: "keeps env_same (group_send g m)"
  by (simp add: keeps_def env_same_def group_send_def)

lemma env_same_atomic: "keeps env_same m \<Longrightarrow> keeps env_same (atomicM m)"
  by (auto simp: keeps_def env_same_def atomicM_def split: prod.splits sum.splits) (metis snd_conv)+

lemma env_same_get_row: "keeps env_same (get_row name tab k)"
  by (simp add: get_row_def es.keeps_bind env_same_getdb es.keeps_option)

lemma env_same_transition: "keeps env_same (transition k s msg err)"
  unfolding transition_def Let_def job_broadcast_def
  by (intro es.keeps_rules env_same_atomic env_same_get_row env_same_now env_same_moddb env_same_group_send)

lemma env_same_request_cancel: "keeps env_same (request_cancel jo)"
  unfolding request_cancel_def
  by (cases jo) (auto intro!: es.keeps_rules env_same_transition env_same_group_send)

lemma sched_apply_ext [simp]: "sched (apply_ext e w) = sched w"
proof (cases e)
  case (CancelRequest k)
  then show ?thesis
    using keepsD2 [OF env_same_request_cancel, of w] by (simp add: apply_ext_def env_same_def split: option.splits)
qed (simp_all add: apply_ext_def agent_disconnect_def agent_accepted_def)

lemma sched_fold [simp]: "sched (fold apply_at es w) = sched w"
  by (induction es arbitrary: w) (simp_all add: apply_at_def)

lemma sched_advance: "sched (advance dt w) = not_due (clock w + dt) (sched w)"
  by (simp add: advance_def Let_def)

lemma redis_lookup_cong: "redis w' = redis w \<Longrightarrow> clock w' = clock w \<Longrightarrow> redis_lookup w' k = redis_lookup w k"
  by (simp add: redis_lookup_def split: option.splits)

lemma redis_lookup_upd [simp]:
  "redis_lookup (w\<lparr>sched := s\<rparr>) k = redis_lookup w k" "redis_lookup (w\<lparr>uuid_next := n\<rparr>) k = redis_lookup w k"
  "redis_lookup (w\<lparr>outbox := ob\<rparr>) k = redis_lookup w k" "redis_lookup (w\<lparr>wdb := d\<rparr>) k = redis_lookup w k"
  by (rule redis_lookup_cong; simp)+

text \<open>Time only makes keys disappear.\<close>

lemma redis_lookup_later:
  "clock w \<le> t \<Longrightarrow> redis_lookup (w\<lparr>clock := t\<rparr>) k = Some v \<Longrightarrow> redis_lookup w k = Some v"
  by (auto simp: redis_lookup_def live_def split: option.splits if_splits)

lemma redis_lookup_expire:
  "redis_lookup (redis_expire k t w) k' = Some v \<Longrightarrow> redis_lookup w k' = Some v"
  by (auto simp: redis_expire_def redis_lookup_put split: option.splits if_splits)

text \<open>The frame \<open>m\<close> answers the request \<open>r\<close>.\<close>

definition answers :: "string \<Rightarrow> json \<Rightarrow> bool" where
  "answers r m \<longleftrightarrow> (case jget ''request_id'' m of None \<Rightarrow> False | Some rid \<Rightarrow> request_id_text rid = Some r)"

lemma response_key_inj [simp]: "response_key r = response_key r' \<longleftrightarrow> r = r'"
  by (simp add: response_key_def)

lemma receive_origin:
  assumes "redis_lookup (agent_receive u f w) (response_key r) = Some (RJson m)"
  shows "redis_lookup w (response_key r) = Some (RJson m) \<or> f = Some m \<and> answers r m"
proof (cases f)
  case None
  with assms show ?thesis by (simp add: agent_receive_def)
next
  case (Some msg)
  have relay: "redis_lookup (relay_console_data m v) k = redis_lookup v k" for m v k
    by (simp add: relay_console_data_def split: option.splits json.splits)
  show ?thesis
    using assms Some
    by (cases msg) (auto simp: agent_receive_def Let_def relay redis_lookup_put answers_def
        dest: redis_lookup_expire split: option.splits if_splits)
qed

lemma apply_ext_origin:
  assumes "redis_lookup (apply_ext e w) (response_key r) = Some (RJson m)"
  shows "redis_lookup w (response_key r) = Some (RJson m) \<or> (\<exists>u. e = AgentFrame u (Some m) \<and> answers r m)"
proof (cases e)
  case (AgentFrame u f)
  with assms receive_origin [of u f w r m] show ?thesis by (auto simp: apply_ext_def)
next
  case (CancelRequest k)
  have "redis_lookup (snd (request_cancel jo w)) x = redis_lookup w x" for jo x
    using keepsD2 [OF env_same_request_cancel, of w jo] by (intro redis_lookup_cong) (simp_all add: env_same_def)
  with assms CancelRequest show ?thesis by (auto simp: apply_ext_def split: option.splits)
qed (use assms in \<open>auto simp: apply_ext_def agent_disconnect_def agent_accepted_def redis_lookup_put set_nx_def
    release_script_def split: if_splits\<close>)

lemma fold_origin:
  assumes "redis_lookup (fold apply_at es w) (response_key r) = Some (RJson m)"
  shows "redis_lookup w (response_key r) = Some (RJson m) \<or>
    (\<exists>t u. (t, AgentFrame u (Some m)) \<in> set es \<and> answers r m)"
  using assms
proof (induction es arbitrary: w)
  case Nil
  then show ?case by simp
next
  case (Cons te es)
  obtain t e where te: "te = (t, e)" by fastforce
  have "redis_lookup (apply_at te w) (response_key r) = Some (RJson m) \<or>
      (\<exists>t u. (t, AgentFrame u (Some m)) \<in> set es \<and> answers r m)"
    using Cons.IH [of "apply_at te w"] Cons.prems by simp
  moreover have "redis_lookup w (response_key r) = Some (RJson m) \<or> (\<exists>u. e = AgentFrame u (Some m) \<and> answers r m)"
    if "redis_lookup (apply_at te w) (response_key r) = Some (RJson m)"
    using apply_ext_origin [of e "w\<lparr>clock := max (clock w) t\<rparr>" r m] that te
    by (auto simp: apply_at_def dest: redis_lookup_later [rotated])
  ultimately show ?case using te by auto
qed

lemma clock_apply_ext [simp]: "clock (apply_ext e w) = clock w"
proof (cases e)
  case (CancelRequest k)
  then show ?thesis
    using keepsD2 [OF env_same_request_cancel, of w] by (simp add: apply_ext_def env_same_def split: option.splits)
qed (simp_all add: apply_ext_def agent_disconnect_def agent_accepted_def)

lemma clock_fold_due:
  "clock w \<le> t \<Longrightarrow> (\<And>te. te \<in> set es \<Longrightarrow> fst te \<le> t) \<Longrightarrow> clock (fold apply_at es w) \<le> t"
  by (induction es arbitrary: w) (simp_all add: apply_at_def)

lemma advance_origin:
  assumes "redis_lookup (advance dt w) (response_key r) = Some (RJson m)"
  shows "redis_lookup w (response_key r) = Some (RJson m) \<or>
    (\<exists>t u. (t, AgentFrame u (Some m)) \<in> set (sched w) \<and> answers r m)"
proof -
  let ?t = "clock w + dt"
  let ?w1 = "w\<lparr>sched := not_due ?t (sched w)\<rparr>"
  let ?w2 = "fold apply_at (due ?t (sched w)) ?w1"
  have "clock ?w2 \<le> ?t" by (rule clock_fold_due) (auto simp: due_def)
  then have "redis_lookup ?w2 (response_key r) = Some (RJson m)"
    using assms by (auto simp: advance_def Let_def dest: redis_lookup_later)
  then have "redis_lookup ?w1 (response_key r) = Some (RJson m) \<or>
    (\<exists>t u. (t, AgentFrame u (Some m)) \<in> set (due ?t (sched w)) \<and> answers r m)"
    by (rule fold_origin)
  then show ?thesis by (auto simp: due_def)
qed

subsection \<open>Properties\<close>

text \<open>
  A websocket that claims to be a node's agent is accepted only with a token whose hash is the
  stored hash of an active agent of exactly that node.
\<close>

theorem agent_connection_authenticated:
  assumes "agent_connect hash node_uuid raw w = (None, w')"
  shows "\<exists>tok k a n. raw = Some tok \<and> tok \<noteq> '''' \<and> (k, a) \<in> set (agents (wdb w)) \<and>
     agt_token_hash a = hash tok \<and> agt_status a = AS_ACTIVE \<and>
     row_get (agt_node a) (nodes (wdb w)) = Some n \<and> uuid n = node_uuid"
  using assms agent_authenticate_sound [of hash "wdb w" node_uuid raw]
  by (auto simp: agent_connect_def split: option.splits)

theorem agent_connection_authenticated_witness:
  "fst (agent_connect (\<lambda>t. ''h1'') ''n1'' (Some ''npa_x'') ex_world) = None \<and>
   (\<exists>tok k a n. Some ''npa_x'' = Some tok \<and> tok \<noteq> '''' \<and> (k, a) \<in> set (agents (wdb ex_world)) \<and>
     agt_token_hash a = ''h1'' \<and> agt_status a = AS_ACTIVE \<and>
     row_get (agt_node a) (nodes (wdb ex_world)) = Some n \<and> uuid n = ''n1'')"
proof -
  have c: "agent_connect (\<lambda>t. ''h1'') ''n1'' (Some ''npa_x'') ex_world = (None, agent_accepted ''n1'' ex_world)"
    by (simp add: agent_connect_def agent_authenticate_def rows_where_def ex_agent_def ex_node_def)
  with agent_connection_authenticated [OF c] show ?thesis by simp
qed

end
