(* ===== verification/Locks.thy ===== *)
theory Locks
  imports Environment
begin

section \<open>Locks: \<open>RedisLock\<close> and the locks of the components\<close>

text \<open>
  \<open>backend/apps/common/locks.py\<close>, \<open>backend/apps/virtual_machines/locks.py\<close> and the subnet lock
  of \<open>backend/apps/networks/services.py\<close>. \<open>acquire\<close>'s retry loop is a total function: each round
  sleeps, so the distance to the deadline is its measure.
\<close>

record RedisLock =
  lk_key :: string
  lk_ttl_seconds :: nat
  lk_token :: string

text \<open>\<open>RedisLock(key, ttl_seconds)\<close>: the namespaced key and a fresh ownership token.\<close>

definition new_lock :: "string \<Rightarrow> nat \<Rightarrow> RedisLock op" where
  "new_lock key ttl = bindM uuid4 (\<lambda>tok.
     returnM \<lparr> lk_key = ''nodepilot:lock:'' @ key, lk_ttl_seconds = ttl, lk_token = tok \<rparr>)"

definition try_acquire :: "RedisLock \<Rightarrow> world \<Rightarrow> bool \<times> world" where
  "try_acquire l w = set_nx (lk_key l) (lk_token l) (lk_ttl_seconds l * 1000) w"

text \<open>\<open>acquire(blocking, timeout)\<close> with the default \<open>retry_interval\<close> of 100 ms.\<close>

function acquire_loop :: "RedisLock \<Rightarrow> bool \<Rightarrow> nat \<Rightarrow> world \<Rightarrow> bool \<times> world" where
  "acquire_loop l blocking deadline w =
     (let (ok, w1) = try_acquire l w
      in if ok then (True, w1)
         else if \<not> blocking \<or> deadline \<le> clock w1 then (False, w1)
         else acquire_loop l blocking deadline (advance 100 w1))"
  by pat_completeness auto

termination
  by (relation "measure (\<lambda>(l, b, d, w). d - clock w)")
    (auto simp: try_acquire_def set_nx_def split: if_splits)

declare acquire_loop.simps [simp del]

definition acquire :: "RedisLock \<Rightarrow> bool \<Rightarrow> nat \<Rightarrow> bool op" where
  "acquire l blocking timeout = (\<lambda>w.
     case acquire_loop l blocking (clock w + timeout) w of (ok, w') \<Rightarrow> (Inr ok, w'))"

definition extend :: "RedisLock \<Rightarrow> nat option \<Rightarrow> bool op" where
  "extend l additional = (\<lambda>w.
     let ttl = (case additional of None \<Rightarrow> lk_ttl_seconds l | Some s \<Rightarrow> if s = 0 then lk_ttl_seconds l else s) * 1000
     in case extend_script (lk_key l) (lk_token l) ttl w of (ok, w') \<Rightarrow> (Inr ok, w'))"

definition release :: "RedisLock \<Rightarrow> bool op" where
  "release l = (\<lambda>w. case release_script (lk_key l) (lk_token l) w of (ok, w') \<Rightarrow> (Inr ok, w'))"

text \<open>\<open>with lock: body\<close>: \<open>__enter__\<close> blocks for up to ten seconds, \<open>__exit__\<close> always releases.\<close>

definition with_lock :: "RedisLock op \<Rightarrow> 'a op \<Rightarrow> 'a op" where
  "with_lock mk body = bindM mk (\<lambda>l. bindM (acquire l True 10000) (\<lambda>ok.
     if ok then finallyM body (bindM (release l) (\<lambda>_. returnM ()))
     else raiseM (LockAcquisitionError (lk_key l))))"

definition try_lock :: "string \<Rightarrow> nat \<Rightarrow> 'a op \<Rightarrow> 'a op" where
  "try_lock key ttl body = bindM (new_lock key ttl) (\<lambda>l. bindM (acquire l False 10000) (\<lambda>ok.
     if ok then finallyM body (bindM (release l) (\<lambda>_. returnM ()))
     else raiseM (LockAcquisitionError (lk_key l))))"

text \<open>The optimistic pre-check of the services: take the lock without blocking and give it back.\<close>

definition probe_lock :: "RedisLock op \<Rightarrow> exn \<Rightarrow> unit op" where
  "probe_lock mk busy = bindM mk (\<lambda>l. bindM (acquire l False 10000) (\<lambda>ok.
     if ok then bindM (release l) (\<lambda>_. returnM ()) else raiseM busy))"

definition lifecycle_lock :: "virtual_machine \<Rightarrow> RedisLock op" where
  "lifecycle_lock vm = new_lock (''vm:'' @ uuid vm @ '':lifecycle'') 120"

definition storage_lock :: "virtual_machine \<Rightarrow> RedisLock op" where
  "storage_lock vm = new_lock (''vm:'' @ uuid vm @ '':storage'') 300"

definition subnet_lock :: "nat \<Rightarrow> RedisLock op" where
  "subnet_lock k = new_lock (''subnet:'' @ show_nat k @ '':ipam'') 15"

subsection \<open>Frames\<close>

context wait_frame
begin

lemma R_acquire_loop: "R w (snd (acquire_loop l b d w))"
proof (induction l b d w rule: acquire_loop.induct)
  case (1 l b d w)
  obtain ok w1 where t: "try_acquire l w = (ok, w1)" by fastforce
  then have s1: "R w w1"
    by (auto simp: try_acquire_def set_nx_def R_refl R_text split: if_splits)
  show ?case
  proof (cases "ok \<or> \<not> b \<or> d \<le> clock w1")
    case True
    with s1 t show ?thesis by (subst acquire_loop.simps) auto
  next
    case False
    with "1" t have "R (advance 100 w1) (snd (acquire_loop l b d (advance 100 w1)))" by auto
    with s1 have "R w (snd (acquire_loop l b d (advance 100 w1)))"
      by (blast intro: R_trans R_advance)
    with False t show ?thesis by (subst acquire_loop.simps) auto
  qed
qed

lemma keeps_acquire: "keeps R (acquire l b t)"
  using R_acquire_loop by (auto simp: keeps_def acquire_def split: prod.splits) (metis snd_conv)

lemma keeps_new_lock: "keeps R (new_lock k ttl)"
  unfolding new_lock_def by (intro keeps_rules keeps_world)

lemma keeps_release: "keeps R (release l)"
  by (auto simp: keeps_def release_def release_script_def R_drop R_refl split: prod.splits)

lemma keeps_with_lock: "keeps R mk \<Longrightarrow> keeps R body \<Longrightarrow> keeps R (with_lock mk body)"
  unfolding with_lock_def by (intro keeps_rules keeps_acquire keeps_release)

lemma keeps_probe_lock: "keeps R mk \<Longrightarrow> keeps R (probe_lock mk e)"
  unfolding probe_lock_def by (intro keeps_rules keeps_acquire keeps_release)

lemma keeps_lifecycle_lock: "keeps R (lifecycle_lock vm)"
  by (simp add: lifecycle_lock_def keeps_new_lock)

lemma keeps_storage_lock: "keeps R (storage_lock vm)"
  by (simp add: storage_lock_def keeps_new_lock)

lemma keeps_subnet_lock: "keeps R (subnet_lock k)"
  by (simp add: subnet_lock_def keeps_new_lock)

lemmas keeps_locks = keeps_with_lock keeps_probe_lock keeps_lifecycle_lock keeps_storage_lock
  keeps_subnet_lock

end

subsection \<open>What a lock promises\<close>

text \<open>
  The contract of a lock service: \<open>holder\<close> is what is stored under a key, taking a free lock
  succeeds and stores the caller's token, taking a held lock fails and changes nothing, and only
  the token that is stored can release.
\<close>

locale lock_service =
  fixes holder :: "'s \<Rightarrow> string \<Rightarrow> 'v option"
    and mark :: "string \<Rightarrow> 'v"
    and acq :: "string \<Rightarrow> string \<Rightarrow> nat \<Rightarrow> 's \<Rightarrow> bool \<times> 's"
    and rel :: "string \<Rightarrow> string \<Rightarrow> 's \<Rightarrow> bool \<times> 's"
  assumes mark_inj: "mark t = mark t' \<Longrightarrow> t = t'"
    and acq_free: "holder w k = None \<Longrightarrow> 0 < ttl \<Longrightarrow>
          fst (acq k tok ttl w) \<and> holder (snd (acq k tok ttl w)) k = Some (mark tok)"
    and acq_busy: "holder w k = Some v \<Longrightarrow> acq k tok ttl w = (False, w)"
    and acq_other: "k' \<noteq> k \<Longrightarrow> holder (snd (acq k tok ttl w)) k' = holder w k'"
    and rel_owner: "holder w k = Some (mark tok) \<Longrightarrow> fst (rel k tok w) \<and> holder (snd (rel k tok w)) k = None"
    and rel_stranger: "holder w k \<noteq> Some (mark tok) \<Longrightarrow> rel k tok w = (False, w)"
    and rel_other: "k' \<noteq> k \<Longrightarrow> holder (snd (rel k tok w)) k' = holder w k'"
begin

lemma acq_iff: "0 < ttl \<Longrightarrow> fst (acq k tok ttl w) \<longleftrightarrow> holder w k = None"
  using acq_free [of w k ttl tok] acq_busy [of w k _ tok ttl] by (cases "holder w k") auto

lemma exclusive:
  assumes "0 < ttl" and "fst (acq k t1 ttl w)"
  shows "\<not> fst (acq k t2 ttl2 (snd (acq k t1 ttl w)))"
  using assms acq_free [of w k ttl t1] acq_iff [of ttl k t1 w] acq_busy [of "snd (acq k t1 ttl w)" k "mark t1" t2 ttl2]
  by simp

lemma stranger_cannot_free:
  "holder w k = Some (mark tok) \<Longrightarrow> tok' \<noteq> tok \<Longrightarrow> holder (snd (rel k tok' w)) k = Some (mark tok)"
  using rel_stranger [of w k tok'] mark_inj by (metis option.inject snd_conv)

lemma handover:
  assumes "holder w k = Some (mark t1)" and "0 < ttl"
  shows "fst (acq k t2 ttl (snd (rel k t1 w)))"
  using assms rel_owner [of w k t1] acq_iff by simp

end

interpretation rl: lock_service redis_lookup RStr set_nx release_script
  by unfold_locales (auto simp: set_nx_def release_script_def redis_lookup_put)

lemma acquire_loop_True:
  assumes "acquire_loop l b d w = (True, w')" and "0 < lk_ttl_seconds l"
  shows "redis_lookup w' (lk_key l) = Some (RStr (lk_token l))"
  using assms
proof (induction l b d w rule: acquire_loop.induct)
  case (1 l b d w)
  obtain ok w1 where t: "try_acquire l w = (ok, w1)" by fastforce
  show ?case
  proof (cases ok)
    case True
    with t have "fst (set_nx (lk_key l) (lk_token l) (lk_ttl_seconds l * 1000) w)"
      by (simp add: try_acquire_def)
    moreover have "w' = w1" using "1.prems"(1) t True by (subst (asm) acquire_loop.simps) simp
    ultimately show ?thesis
      using rl.acq_iff [of "lk_ttl_seconds l * 1000" "lk_key l" "lk_token l" w]
        rl.acq_free [of w "lk_key l" "lk_ttl_seconds l * 1000" "lk_token l"] t "1.prems"(2)
      by (simp add: try_acquire_def)
  next
    case False
    with "1.prems" t have nb: "\<not> (\<not> b \<or> d \<le> clock w1)" by (subst (asm) acquire_loop.simps) (auto split: if_splits)
    then have "acquire_loop l b d (advance 100 w1) = (True, w')"
      using "1.prems"(1) t False by (subst (asm) acquire_loop.simps) simp
    then show ?thesis
      by (intro "1.IH" [of "(ok, w1)" ok w1]) (use t False nb "1.prems"(2) in simp_all)
  qed
qed

lemma acquire_True:
  "acquire l b t w = (Inr True, w') \<Longrightarrow> 0 < lk_ttl_seconds l \<Longrightarrow>
     redis_lookup w' (lk_key l) = Some (RStr (lk_token l))"
  by (auto simp: acquire_def split: prod.splits intro: acquire_loop_True)

lemma acquire_returns: "\<exists>ok w1. acquire l b t w = (Inr ok, w1)"
  by (simp add: acquire_def split: prod.splits)

text \<open>A lock that is taken runs its body and is no longer held by its token afterwards, whether the
  body returned or raised.\<close>

lemma release_frees: "redis_lookup (snd (release l w)) (lk_key l) \<noteq> Some (RStr (lk_token l))"
  by (simp add: release_def release_script_def)

lemma with_lock_taken:
  assumes "mk w0 = (Inr l, w)" and "acquire l True 10000 w = (Inr True, w1)"
  shows "with_lock mk body w0 = (fst (body w1), snd (release l (snd (body w1))))"
  using assms by (simp add: with_lock_def bindM_def finallyM_def release_def split: prod.splits)

lemma with_lock_busy:
  assumes "mk w0 = (Inr l, w)" and "acquire l True 10000 w = (Inr False, w1)"
  shows "with_lock mk body w0 = (Inl (LockAcquisitionError (lk_key l)), w1)"
  using assms by (simp add: with_lock_def bindM_def)

subsection \<open>Holding a lock while other processes run\<close>

text \<open>\<open>owns w k tok x\<close>: the lock key \<open>k\<close> stores \<open>tok\<close> and expires at \<open>x\<close>.\<close>

definition owns :: "world \<Rightarrow> string \<Rightarrow> string \<Rightarrow> nat \<Rightarrow> bool" where
  "owns w k tok x \<longleftrightarrow> map_of (redis w) k = Some (RStr tok, Some x)"

definition is_lock_key :: "string \<Rightarrow> bool" where
  "is_lock_key k \<longleftrightarrow> take 15 k = ''nodepilot:lock:''"

lemma owns_lookup: "owns w k tok x \<Longrightarrow> clock w < x \<Longrightarrow> redis_lookup w k = Some (RStr tok)"
  by (simp add: owns_def redis_lookup_def live_def)

lemma owns_expired: "owns w k tok x \<Longrightarrow> x \<le> clock w \<Longrightarrow> redis_lookup w k = None"
  by (simp add: owns_def redis_lookup_def live_def)

lemma lock_key_distinct:
  assumes "is_lock_key k"
  shows "k \<noteq> connection_key u" "k \<noteq> response_key r"
  using assms by (auto simp: is_lock_key_def connection_key_def response_key_def)

lemma map_of_redis_put [simp]:
  "k' \<noteq> k \<Longrightarrow> map_of (redis (redis_put k v t w)) k' = map_of (redis w) k'"
  by (simp add: redis_put_def map_of_filter_key)

lemma map_of_redis_drop [simp]:
  "k' \<noteq> k \<Longrightarrow> map_of (redis (redis_drop k w)) k' = map_of (redis w) k'"
  by (simp add: redis_drop_def map_of_filter_key)

lemma owns_receive:
  assumes "is_lock_key k"
  shows "owns (agent_receive u f w) k tok x = owns w k tok x"
proof -
  have e: "map_of (redis (redis_expire (connection_key u) t w)) k = map_of (redis w) k" for t w
    using lock_key_distinct [OF assms] by (auto simp: redis_expire_def split: option.splits)
  have r: "redis (relay_console_data m w) = redis w" for m w
    by (simp add: relay_console_data_def split: option.splits json.splits)
  show ?thesis
  proof (cases f)
    case None
    then show ?thesis by (simp add: agent_receive_def)
  next
    case (Some m)
    then show ?thesis
      using lock_key_distinct [OF assms]
      by (cases m) (simp_all add: agent_receive_def owns_def Let_def e r split: option.splits)
  qed
qed

lemma owns_apply_ext:
  assumes "owns w k tok x" and "is_lock_key k" and "clock w < x" and "e \<noteq> OtherRelease k tok"
  shows "owns (apply_ext e w) k tok x"
proof (cases e)
  case (AgentFrame u f)
  with assms show ?thesis by (simp add: apply_ext_def owns_receive)
next
  case (CancelRequest j)
  have "redis (snd (request_cancel jo w)) = redis w" for jo
    using keepsD2 [OF env_same_request_cancel, of w jo] by (simp add: env_same_def)
  with assms CancelRequest show ?thesis by (simp add: apply_ext_def owns_def split: option.splits)
next
  case (OtherAcquire k' tok' ttl)
  with assms owns_lookup [OF assms(1,3)] show ?thesis
    by (cases "k' = k") (auto simp: apply_ext_def set_nx_def owns_def)
next
  case (OtherRelease k' tok')
  with assms owns_lookup [OF assms(1,3)] show ?thesis
    by (cases "k' = k") (auto simp: apply_ext_def release_script_def owns_def)
qed (use assms lock_key_distinct [OF assms(2)] in
  \<open>simp_all add: apply_ext_def agent_disconnect_def agent_accepted_def owns_def\<close>)

lemma owns_fold:
  assumes "owns w k tok x" and "is_lock_key k" and "clock w < x"
    and "\<And>t e. (t, e) \<in> set es \<Longrightarrow> t < x \<and> e \<noteq> OtherRelease k tok"
  shows "owns (fold apply_at es w) k tok x"
  using assms
proof (induction es arbitrary: w)
  case Nil
  then show ?case by simp
next
  case (Cons te es)
  obtain t e where te: "te = (t, e)" by fastforce
  let ?v = "w\<lparr>clock := max (clock w) t\<rparr>"
  have "owns ?v k tok x" "clock ?v < x"
    using Cons.prems te by (auto simp: owns_def)
  then have "owns (apply_ext e ?v) k tok x"
    using Cons.prems(2,4) te by (intro owns_apply_ext) auto
  with Cons.IH [of "apply_at te w"] Cons.prems te show ?case
    by (auto simp: apply_at_def)
qed

lemma owns_advance:
  assumes "owns w k tok x" and "is_lock_key k" and "clock w + dt < x"
    and "\<And>t. (t, OtherRelease k tok) \<notin> set (sched w)"
  shows "owns (advance dt w) k tok x"
proof -
  let ?t = "clock w + dt"
  have "owns (fold apply_at (due ?t (sched w)) (w\<lparr>sched := not_due ?t (sched w)\<rparr>)) k tok x"
    by (rule owns_fold) (use assms in \<open>auto simp: owns_def due_def\<close>)
  then show ?thesis by (simp add: advance_def Let_def owns_def)
qed

subsection \<open>Properties\<close>

text \<open>
  C6. Mutual exclusion across waiting: as long as its expiry time is not reached, a lock stays with its
  holder whatever agents, users and other workers do meanwhile. No other token can take it or
  free it.
\<close>

theorem lock_held_across_waits:
  assumes "owns w k tok x" and "is_lock_key k" and "clock w + dt < x"
    and "\<forall>t. (t, OtherRelease k tok) \<notin> set (sched w)"
    and "lk_key l = k" and "lk_token l \<noteq> tok"
  shows "\<not> fst (try_acquire l (advance dt w)) \<and>
     redis_lookup (snd (release l (advance dt w))) k = Some (RStr tok)"
proof -
  have o: "owns (advance dt w) k tok x" using assms by (intro owns_advance) auto
  have h: "redis_lookup (advance dt w) k = Some (RStr tok)"
    by (rule owns_lookup [OF o]) (use assms(3) in simp)
  have "redis_lookup (snd (release_script k (lk_token l) (advance dt w))) k = Some (RStr tok)"
    using rl.stranger_cannot_free [OF h assms(6)] .
  then show ?thesis
    using rl.acq_busy [OF h] assms(5) by (simp add: try_acquire_def release_def case_prod_unfold)
qed

definition ex_lock :: RedisLock where
  "ex_lock = \<lparr> lk_key = ''nodepilot:lock:vm:v1:lifecycle'', lk_ttl_seconds = 120, lk_token = ''other'' \<rparr>"

definition ex_locked :: world where
  "ex_locked = redis_put (lk_key ex_lock) (RStr ''mine'') (Some 120000)
     (ex_world\<lparr>sched := [(100050, OtherAcquire (lk_key ex_lock) ''third'' 5000)]\<rparr>)"

theorem lock_held_across_waits_witness:
  "\<not> fst (try_acquire ex_lock (advance 60000 ex_locked)) \<and>
     redis_lookup (snd (release ex_lock (advance 60000 ex_locked))) (lk_key ex_lock) = Some (RStr ''mine'')"
  by (rule lock_held_across_waits [where tok = "''mine''" and x = 220000])
    (simp_all add: owns_def is_lock_key_def ex_locked_def ex_lock_def redis_put_def)

text \<open>
  \<open>with lock: body\<close>: either the lock could not be taken within ten seconds and the body did not
  run, or the outcome is the body's, normal or exceptional, and the lock is no longer held by this
  token.
\<close>

theorem with_lock_outcome:
  "\<exists>l w0 ok w1. new_lock key ttl w = (Inr l, w0) \<and> acquire l True 10000 w0 = (Inr ok, w1) \<and>
     (if ok then with_lock (new_lock key ttl) body w = (fst (body w1), snd (release l (snd (body w1)))) \<and>
         redis_lookup (snd (with_lock (new_lock key ttl) body w)) (lk_key l) \<noteq> Some (RStr (lk_token l))
      else with_lock (new_lock key ttl) body w = (Inl (LockAcquisitionError (lk_key l)), w1))"
proof -
  obtain l w0 where l: "new_lock key ttl w = (Inr l, w0)" by (simp add: new_lock_def bindM_def)
  obtain ok w1 where a: "acquire l True 10000 w0 = (Inr ok, w1)" using acquire_returns by blast
  show ?thesis
  proof (cases ok)
    case True
    with with_lock_taken [of "new_lock key ttl", OF l] a release_frees show ?thesis using l by fastforce
  next
    case False
    with with_lock_busy [of "new_lock key ttl", OF l] a l show ?thesis by fastforce
  qed
qed

lemma acquire_loop_clock:
  "clock w \<le> clock (snd (acquire_loop l b d w)) \<and> clock (snd (acquire_loop l b d w)) \<le> max (clock w) (d + 99)"
proof (induction l b d w rule: acquire_loop.induct)
  case (1 l b d w)
  obtain ok w1 where t: "try_acquire l w = (ok, w1)" by fastforce
  then have c: "clock w1 = clock w" by (metis set_nx_other(6) snd_conv try_acquire_def)
  show ?case
  proof (cases "ok \<or> \<not> b \<or> d \<le> clock w1")
    case True
    with c t show ?thesis by (subst (1 2) acquire_loop.simps) auto
  next
    case False
    with "1" t have "clock (advance 100 w1) \<le> clock (snd (acquire_loop l b d (advance 100 w1))) \<and>
        clock (snd (acquire_loop l b d (advance 100 w1))) \<le> max (clock (advance 100 w1)) (d + 99)" by auto
    with False c t show ?thesis by (subst (1 2) acquire_loop.simps) auto
  qed
qed

text \<open>
  Taking a lock always comes to an end: after the timeout and at most one more polling interval,
  whatever the holder does.
\<close>

theorem acquire_bounded:
  "clock w \<le> clock (snd (acquire l b t w)) \<and> clock (snd (acquire l b t w)) \<le> clock w + t + 99"
  using acquire_loop_clock [of w l b "clock w + t"] by (simp add: acquire_def case_prod_unfold)

end
