(* ===== verification/AgentClient.thy ===== *)
theory AgentClient
  imports Locks
begin

section \<open>AgentClient: the typed agent protocol and the synchronous call\<close>

text \<open>
  \<open>backend/apps/nodes/protocol.py\<close> and \<open>backend/apps/nodes/agent_client.py\<close>. Publishing a
  command appends it to the log \<open>rpcs\<close> and schedules the frames the agent will send back
  (\<open>agent_env\<close>, an arbitrary behaviour); the call then polls Redis every 200 ms until the
  deadline.
\<close>

subsection \<open>The protocol\<close>

datatype OperationType =
    GET_HOST_INFO | GET_DOMAIN_INFO
  | CREATE_VM | DELETE_VM | START_VM | STOP_VM | SHUTDOWN_VM | REBOOT_VM | RESET_VM
  | PAUSE_VM | RESUME_VM | MIGRATE_VM
  | CREATE_DISK | DELETE_DISK | RESIZE_DISK | ATTACH_DISK | DETACH_DISK | CLONE_DISK
  | ATTACH_ISO | DETACH_ISO
  | CREATE_NETWORK | DELETE_NETWORK | ATTACH_NIC | DETACH_NIC
  | CREATE_SNAPSHOT | DELETE_SNAPSHOT | ROLLBACK_SNAPSHOT
  | CREATE_STORAGE_POOL | DELETE_STORAGE_POOL | GET_STORAGE_POOL_INFO
  | GENERATE_CLOUD_INIT | OPEN_CONSOLE | CREATE_BACKUP | RESTORE_BACKUP

fun show_OperationType :: "OperationType \<Rightarrow> string" where
  "show_OperationType GET_HOST_INFO = ''GET_HOST_INFO''"
| "show_OperationType GET_DOMAIN_INFO = ''GET_DOMAIN_INFO''"
| "show_OperationType CREATE_VM = ''CREATE_VM''"
| "show_OperationType DELETE_VM = ''DELETE_VM''"
| "show_OperationType START_VM = ''START_VM''"
| "show_OperationType STOP_VM = ''STOP_VM''"
| "show_OperationType SHUTDOWN_VM = ''SHUTDOWN_VM''"
| "show_OperationType REBOOT_VM = ''REBOOT_VM''"
| "show_OperationType RESET_VM = ''RESET_VM''"
| "show_OperationType PAUSE_VM = ''PAUSE_VM''"
| "show_OperationType RESUME_VM = ''RESUME_VM''"
| "show_OperationType MIGRATE_VM = ''MIGRATE_VM''"
| "show_OperationType CREATE_DISK = ''CREATE_DISK''"
| "show_OperationType DELETE_DISK = ''DELETE_DISK''"
| "show_OperationType RESIZE_DISK = ''RESIZE_DISK''"
| "show_OperationType ATTACH_DISK = ''ATTACH_DISK''"
| "show_OperationType DETACH_DISK = ''DETACH_DISK''"
| "show_OperationType CLONE_DISK = ''CLONE_DISK''"
| "show_OperationType ATTACH_ISO = ''ATTACH_ISO''"
| "show_OperationType DETACH_ISO = ''DETACH_ISO''"
| "show_OperationType CREATE_NETWORK = ''CREATE_NETWORK''"
| "show_OperationType DELETE_NETWORK = ''DELETE_NETWORK''"
| "show_OperationType ATTACH_NIC = ''ATTACH_NIC''"
| "show_OperationType DETACH_NIC = ''DETACH_NIC''"
| "show_OperationType CREATE_SNAPSHOT = ''CREATE_SNAPSHOT''"
| "show_OperationType DELETE_SNAPSHOT = ''DELETE_SNAPSHOT''"
| "show_OperationType ROLLBACK_SNAPSHOT = ''ROLLBACK_SNAPSHOT''"
| "show_OperationType CREATE_STORAGE_POOL = ''CREATE_STORAGE_POOL''"
| "show_OperationType DELETE_STORAGE_POOL = ''DELETE_STORAGE_POOL''"
| "show_OperationType GET_STORAGE_POOL_INFO = ''GET_STORAGE_POOL_INFO''"
| "show_OperationType GENERATE_CLOUD_INIT = ''GENERATE_CLOUD_INIT''"
| "show_OperationType OPEN_CONSOLE = ''OPEN_CONSOLE''"
| "show_OperationType CREATE_BACKUP = ''CREATE_BACKUP''"
| "show_OperationType RESTORE_BACKUP = ''RESTORE_BACKUP''"

definition DESTRUCTIVE_OPERATIONS :: "OperationType list" where
  "DESTRUCTIVE_OPERATIONS = [DELETE_VM, DELETE_DISK, DELETE_NETWORK, DELETE_SNAPSHOT,
     DELETE_STORAGE_POOL, ROLLBACK_SNAPSHOT, STOP_VM, RESET_VM]"

record AgentRequest =
  req_operation :: OperationType
  req_resource_id :: string
  req_payload :: json
  req_request_id :: string

definition to_wire :: "AgentRequest \<Rightarrow> json" where
  "to_wire r = JObj [(''request_id'', JStr (req_request_id r)),
     (''operation'', JStr (show_OperationType (req_operation r))),
     (''resource_id'', JStr (req_resource_id r)), (''payload'', req_payload r)]"

record AgentResponse =
  rsp_request_id :: json
  rsp_success :: bool
  rsp_data :: json
  rsp_error :: json

text \<open>\<open>from_wire\<close>: a missing \<open>request_id\<close> is a \<open>KeyError\<close>, everything else has a default.\<close>

definition from_wire :: "json \<Rightarrow> exn + AgentResponse" where
  "from_wire m = (case jget ''request_id'' m of
     None \<Rightarrow> Inl (KeyError ''request_id'')
   | Some rid \<Rightarrow> Inr \<lparr> rsp_request_id = rid,
       rsp_success = (case jget ''success'' m of None \<Rightarrow> False | Some s \<Rightarrow> truthy s),
       rsp_data = (case jget ''data'' m of None \<Rightarrow> JObj [] | Some d \<Rightarrow> if truthy d then d else JObj []),
       rsp_error = (case jget ''error'' m of None \<Rightarrow> JNull | Some e \<Rightarrow> e) \<rparr>)"

subsection \<open>The call\<close>

definition agent_of_node :: "db \<Rightarrow> nat \<Rightarrow> agent option" where
  "agent_of_node d n = (case rows_where (\<lambda>a. agt_node a = n) (agents d) of [] \<Rightarrow> None | (k, a) # _ \<Rightarrow> Some a)"

definition is_usable :: "agent \<Rightarrow> bool" where
  "is_usable a \<longleftrightarrow> agt_status a = AS_ACTIVE"

definition is_agent_connected :: "world \<Rightarrow> node \<Rightarrow> bool" where
  "is_agent_connected w n \<longleftrightarrow> redis_lookup w (connection_key (uuid n)) \<noteq> None"

text \<open>\<open>group_send\<close> to the agent's group: the command reaches the websocket, and the agent will
  answer with the frames its behaviour gives.\<close>

definition agent_answers :: "world \<Rightarrow> string \<Rightarrow> json \<Rightarrow> (nat \<times> ext) list" where
  "agent_answers w u wire = map (\<lambda>(delay, fr). (clock w + delay, AgentFrame u fr)) (agent_env w u (length (rpcs w)) wire)"

definition publish :: "string \<Rightarrow> AgentRequest \<Rightarrow> world \<Rightarrow> world" where
  "publish u r w = w\<lparr>
     rpcs := rpcs w @ [\<lparr> rpc_node = u, rpc_operation = show_OperationType (req_operation r),
                          rpc_resource_id = req_resource_id r, rpc_payload = req_payload r \<rparr>],
     sched := sched w @ agent_answers w u (to_wire r)\<rparr>"

text \<open>The polling loop: \<open>None\<close> when the deadline passed.\<close>

function poll_loop :: "string \<Rightarrow> nat \<Rightarrow> world \<Rightarrow> rval option \<times> world" where
  "poll_loop key deadline w =
     (if clock w < deadline
      then (case redis_lookup w key of
              Some raw \<Rightarrow> (Some raw, redis_drop key w)
            | None \<Rightarrow> poll_loop key deadline (advance 200 w))
      else (None, w))"
  by pat_completeness auto

termination
  by (relation "measure (\<lambda>(k, d, w). d - clock w)") auto

declare poll_loop.simps [simp del]

definition error_text :: "json \<Rightarrow> string option" where
  "error_text j = (case j of JStr s \<Rightarrow> if s = '''' then None else Some s | JInt i \<Rightarrow> if i = 0 then None else Some (show_int i)
     | JBool b \<Rightarrow> if b then Some ''True'' else None | _ \<Rightarrow> None)"

text \<open>What the call makes of the outcome of the polling loop.\<close>

definition read_reply :: "node \<Rightarrow> OperationType \<Rightarrow> rval option \<Rightarrow> exn + json" where
  "read_reply n oper raw = (case raw of
     None \<Rightarrow> Inl (api_exn AgentUnavailable (''Timed out waiting for node '' @ nod_name n @ [CHR 0x27] @
        ''s agent to respond to OperationType.'' @ show_OperationType oper @ ''.''))
   | Some (RJson m) \<Rightarrow>
       (case from_wire m of
          Inl e \<Rightarrow> Inl e
        | Inr rsp \<Rightarrow>
            if rsp_success rsp then Inr (rsp_data rsp)
            else Inl (mk_api AgentOperationFailed
              (Some (case error_text (rsp_error rsp) of
                 None \<Rightarrow> ''The agent reported an unspecified error.'' | Some s \<Rightarrow> s))
              (Some (rsp_data rsp))))
   | Some _ \<Rightarrow> Inl (ValueError ''Expecting value''))"

definition rpc_seconds :: "world \<Rightarrow> nat option \<Rightarrow> nat" where
  "rpc_seconds w timeout = (case timeout of None \<Rightarrow> AGENT_RPC_TIMEOUT_SECONDS (conf w)
     | Some t \<Rightarrow> if t = 0 then AGENT_RPC_TIMEOUT_SECONDS (conf w) else t)"

definition send_operation ::
  "nat option \<Rightarrow> OperationType \<Rightarrow> string \<Rightarrow> json \<Rightarrow> nat option \<Rightarrow> json op" where
  "send_operation node_id oper resource_id payload timeout = (\<lambda>w.
     case node_id of
       None \<Rightarrow> (Inl (AttributeError ''NoneType object has no attribute name''), w)
     | Some nk \<Rightarrow> (case row_get nk (nodes (wdb w)) of
         None \<Rightarrow> (Inl (DoesNotExist ''Node''), w)
       | Some n \<Rightarrow> (case agent_of_node (wdb w) nk of
           None \<Rightarrow> (Inl (api_exn AgentUnavailable (''Node '' @ nod_name n @ '' has no active agent.'')), w)
         | Some a \<Rightarrow>
           if \<not> is_usable a
           then (Inl (api_exn AgentUnavailable (''Node '' @ nod_name n @ '' has no active agent.'')), w)
           else if \<not> is_agent_connected w n
           then (Inl (api_exn AgentUnavailable
                  (''Node '' @ nod_name n @ [CHR 0x27] @ ''s agent is not currently connected.'')), w)
           else
             let rid = uuids w (uuid_next w);
                 r = \<lparr> req_operation = oper, req_resource_id = resource_id,
                       req_payload = (if truthy payload then payload else JObj []), req_request_id = rid \<rparr>;
                 w1 = publish (uuid n) r (w\<lparr>uuid_next := uuid_next w + 1\<rparr>);
                 (raw, w2) = poll_loop (response_key rid) (clock w1 + rpc_seconds w timeout * 1000) w1
             in (read_reply n oper raw, w2))))"

text \<open>
  \<open>data.get(key, default)\<close> on the agent's reply, where the value goes into a text or an integer
  column: a reply that is not an object has no \<open>get\<close>, a null is refused by the column.
\<close>

definition data_str :: "json \<Rightarrow> string \<Rightarrow> string \<Rightarrow> string op" where
  "data_str data key d = (case data of
     JObj kvs \<Rightarrow> (case map_of kvs key of
        None \<Rightarrow> returnM d
      | Some (JStr s) \<Rightarrow> returnM s
      | Some (JInt i) \<Rightarrow> returnM (show_int i)
      | Some JNull \<Rightarrow> raiseM (IntegrityError ''null value violates not-null constraint'')
      | Some _ \<Rightarrow> raiseM (TypeError ''unsupported value for a text column''))
   | _ \<Rightarrow> raiseM (AttributeError ''object has no attribute get''))"

definition data_int :: "json \<Rightarrow> string \<Rightarrow> int option \<Rightarrow> int op" where
  "data_int data key d = (case data of
     JObj kvs \<Rightarrow> (case map_of kvs key of
        None \<Rightarrow> (case d of None \<Rightarrow> raiseM (KeyError key) | Some i \<Rightarrow> returnM i)
      | Some (JInt i) \<Rightarrow> returnM i
      | Some JNull \<Rightarrow> raiseM (IntegrityError ''null value violates not-null constraint'')
      | Some _ \<Rightarrow> raiseM (TypeError ''expected a number''))
   | _ \<Rightarrow> raiseM (AttributeError ''object has no attribute get''))"

subsection \<open>Time\<close>

lemma poll_loop_clock:
  "clock w \<le> clock (snd (poll_loop key deadline w)) \<and>
   clock (snd (poll_loop key deadline w)) \<le> max (clock w) (deadline + 199)"
proof (induction key deadline w rule: poll_loop.induct)
  case (1 key deadline w)
  show ?case
  proof (cases "clock w < deadline \<and> redis_lookup w key = None")
    case True
    with "1" have IH: "clock (advance 200 w) \<le> clock (snd (poll_loop key deadline (advance 200 w))) \<and>
        clock (snd (poll_loop key deadline (advance 200 w))) \<le> max (clock (advance 200 w)) (deadline + 199)"
      by (intro "1") simp_all
    with True show ?thesis by (subst (1 2) poll_loop.simps) auto
  next
    case False
    then show ?thesis by (subst (1 2) poll_loop.simps) (auto split: option.splits)
  qed
qed

lemma publish_clock [simp]: "clock (publish u r w) = clock w"
  by (simp add: publish_def)

lemma publish_other [simp]: "wdb (publish u r w) = wdb w" "redis (publish u r w) = redis w"
    "uuids (publish u r w) = uuids w" "uuid_next (publish u r w) = uuid_next w"
    "l_vm (publish u r w) = l_vm w" "conf (publish u r w) = conf w"
  by (simp_all add: publish_def)

subsection \<open>Frames\<close>

text \<open>\<open>send_operation\<close> either refuses before sending anything, or publishes its request and ends
  in the state the polling loop ends in.\<close>

definition mk_request :: "world \<Rightarrow> OperationType \<Rightarrow> string \<Rightarrow> json \<Rightarrow> AgentRequest" where
  "mk_request w oper resource_id payload = \<lparr> req_operation = oper, req_resource_id = resource_id,
     req_payload = (if truthy payload then payload else JObj []), req_request_id = uuids w (uuid_next w) \<rparr>"

definition published :: "node \<Rightarrow> OperationType \<Rightarrow> string \<Rightarrow> json \<Rightarrow> world \<Rightarrow> world" where
  "published n oper resource_id payload w =
     publish (uuid n) (mk_request w oper resource_id payload) (w\<lparr>uuid_next := uuid_next w + 1\<rparr>)"

definition polled :: "node \<Rightarrow> OperationType \<Rightarrow> string \<Rightarrow> json \<Rightarrow> nat option \<Rightarrow> world \<Rightarrow> rval option \<times> world" where
  "polled n oper resource_id payload timeout w =
     poll_loop (response_key (uuids w (uuid_next w))) (clock w + rpc_seconds w timeout * 1000)
       (published n oper resource_id payload w)"

definition reachable_node :: "world \<Rightarrow> nat option \<Rightarrow> node \<Rightarrow> bool" where
  "reachable_node w node_id n \<longleftrightarrow> (\<exists>nk a. node_id = Some nk \<and> row_get nk (nodes (wdb w)) = Some n \<and>
     agent_of_node (wdb w) nk = Some a \<and> is_usable a \<and> is_agent_connected w n)"

lemma send_operation_reachable:
  assumes "reachable_node w node_id n"
  shows "send_operation node_id oper resource_id payload timeout w =
     (read_reply n oper (fst (polled n oper resource_id payload timeout w)),
      snd (polled n oper resource_id payload timeout w))"
  using assms
  by (auto simp: reachable_node_def send_operation_def polled_def published_def mk_request_def Let_def
      split: prod.splits)

lemma send_operation_unreachable:
  assumes "\<And>n. \<not> reachable_node w node_id n"
  shows "\<exists>e. send_operation node_id oper resource_id payload timeout w = (Inl e, w)"
  using assms by (auto simp: reachable_node_def send_operation_def split: option.splits)

lemma read_reply_Inr:
  assumes "read_reply n oper raw = Inr data"
  obtains m rsp where "raw = Some (RJson m)" "from_wire m = Inr rsp" "rsp_success rsp" "data = rsp_data rsp"
  using assms by (auto simp: read_reply_def split: option.splits rval.splits sum.splits if_splits)

lemma published_other [simp]: "wdb (published n oper rid p w) = wdb w"
    "redis (published n oper rid p w) = redis w" "clock (published n oper rid p w) = clock w"
    "l_vm (published n oper rid p w) = l_vm w"
  by (simp_all add: published_def)

context wait_frame
begin

lemma R_poll_loop: "R w (snd (poll_loop key deadline w))"
proof (induction key deadline w rule: poll_loop.induct)
  case (1 key deadline w)
  show ?case
  proof (cases "clock w < deadline \<and> redis_lookup w key = None")
    case True
    with "1" have "R (advance 200 w) (snd (poll_loop key deadline (advance 200 w)))" by (intro "1") simp_all
    then have "R w (snd (poll_loop key deadline (advance 200 w)))"
      by (rule R_trans [OF R_advance])
    with True show ?thesis by (subst poll_loop.simps) simp
  next
    case False
    then show ?thesis by (subst poll_loop.simps) (auto simp: R_drop R_refl split: option.splits)
  qed
qed

lemma keeps_send_operation: "keeps R (send_operation node_id oper rid payload timeout)"
  unfolding keeps_def
proof
  fix w
  show "R w (snd (send_operation node_id oper rid payload timeout w))"
  proof (cases "\<exists>n. reachable_node w node_id n")
    case False
    then show ?thesis
      using send_operation_unreachable [of w node_id oper rid payload timeout] by (auto simp: R_refl)
  next
    case True
    then obtain n where n: "reachable_node w node_id n" by blast
    have "R w (w\<lparr>uuid_next := uuid_next w + 1\<rparr>)" by (rule R_db) simp_all
    then have "R w (published n oper rid payload w)"
      unfolding published_def publish_def agent_answers_def by (rule R_trans) (rule R_answers)
    then show ?thesis
      unfolding send_operation_reachable [OF n] polled_def snd_conv
      by (rule R_trans) (rule R_poll_loop)
  qed
qed

lemma keeps_data_str: "keeps R (data_str data key d)"
  by (auto simp: data_str_def keeps_basic split: json.splits option.splits)

lemma keeps_data_int: "keeps R (data_int data key d)"
  by (auto simp: data_int_def keeps_basic split: json.splits option.splits)

lemmas keeps_rpc = keeps_send_operation keeps_data_str keeps_data_int

end

subsection \<open>A result is always an agent's confirmation\<close>

lemma poll_loop_origin:
  assumes "fst (poll_loop (response_key r) deadline w) = Some (RJson m)"
  shows "redis_lookup w (response_key r) = Some (RJson m) \<or>
    (\<exists>t u. (t, AgentFrame u (Some m)) \<in> set (sched w) \<and> answers r m)"
  using assms
proof (induction "response_key r" deadline w rule: poll_loop.induct)
  case (1 deadline w)
  show ?case
  proof (cases "clock w < deadline \<and> redis_lookup w (response_key r) = None")
    case True
    have "fst (poll_loop (response_key r) deadline (advance 200 w)) = Some (RJson m)"
      using "1.prems" True by (subst (asm) poll_loop.simps) simp
    then have "redis_lookup (advance 200 w) (response_key r) = Some (RJson m) \<or>
      (\<exists>t u. (t, AgentFrame u (Some m)) \<in> set (sched (advance 200 w)) \<and> answers r m)"
      using True by (intro "1.hyps") simp_all
    then show ?thesis
      using advance_origin [of 200 w r m] by (auto simp: sched_advance not_due_def)
  next
    case False
    with "1.prems" show ?thesis by (subst (asm) poll_loop.simps) (auto split: if_splits option.splits)
  qed
qed

text \<open>
  A frame that confirms the request \<open>r\<close> with the result \<open>data\<close>, among the frames that were
  already under way or that the agent sends in answer to the published command.
\<close>

definition confirmed_by :: "world \<Rightarrow> string \<Rightarrow> json \<Rightarrow> string \<Rightarrow> json \<Rightarrow> bool" where
  "confirmed_by w u wire r data \<longleftrightarrow> (\<exists>t v m rsp.
     (t, AgentFrame v (Some m)) \<in> set (sched w) \<union> set (agent_answers w u wire) \<and> answers r m \<and>
     from_wire m = Inr rsp \<and> rsp_success rsp \<and> rsp_data rsp = data)"

lemma sched_published:
  "sched (published n oper rid p w) = sched w @ agent_answers w (uuid n) (to_wire (mk_request w oper rid p))"
  by (simp add: published_def publish_def agent_answers_def)

lemma send_operation_Inr:
  assumes "send_operation node_id oper rid payload timeout w = (Inr data, w')"
    and "redis_lookup w (response_key (uuids w (uuid_next w))) = None"
  obtains n where "reachable_node w node_id n"
    and "confirmed_by w (uuid n) (to_wire (mk_request w oper rid payload)) (uuids w (uuid_next w)) data"
proof -
  obtain n where n: "reachable_node w node_id n"
    using assms(1) send_operation_unreachable [of w node_id oper rid payload timeout] by force
  have "read_reply n oper (fst (polled n oper rid payload timeout w)) = Inr data"
    using assms(1) unfolding send_operation_reachable [OF n] by simp
  then obtain m rsp where m: "fst (polled n oper rid payload timeout w) = Some (RJson m)"
      "from_wire m = Inr rsp" "rsp_success rsp" "data = rsp_data rsp"
    by (rule read_reply_Inr)
  have "redis_lookup (published n oper rid payload w) (response_key (uuids w (uuid_next w))) = None"
    using assms(2) by (subst redis_lookup_cong [of _ w]) simp_all
  then obtain t v where "(t, AgentFrame v (Some m)) \<in> set (sched (published n oper rid payload w))"
      "answers (uuids w (uuid_next w)) m"
    using poll_loop_origin m(1) unfolding polled_def by fastforce
  then show thesis
    using that [OF n] m(2-4) unfolding confirmed_by_def sched_published by auto
qed

subsection \<open>A reply in time is delivered\<close>

text \<open>A frame of the shape agents answer with: an object that is no console data.\<close>

definition reply_frame :: "json \<Rightarrow> bool" where
  "reply_frame m \<longleftrightarrow> (\<exists>kvs. m = JObj kvs) \<and> jget ''type'' m \<noteq> Some (JStr ''console_data'')"

lemma receive_reply:
  assumes "reply_frame m" and "answers r m"
  shows "agent_receive u (Some m) w = redis_put (response_key r) (RJson m) (Some 60000) (redis_expire (connection_key u) 120000 w)"
  using assms by (auto simp: agent_receive_def reply_frame_def answers_def Let_def split: option.splits)

lemma advance_reply:
  assumes "sched w = [(ta, AgentFrame u (Some m))]" and "reply_frame m" and "answers r m"
    and "clock w \<le> ta" and "ta \<le> clock w + dt" and "dt < 60000"
  shows "redis_lookup (advance dt w) (response_key r) = Some (RJson m)"
proof -
  let ?v = "redis_put (response_key r) (RJson m) (Some 60000)
      (redis_expire (connection_key u) 120000 (w\<lparr>sched := [], clock := ta\<rparr>))"
  have "map_of (redis ?v) (response_key r) = Some (RJson m, Some (ta + 60000))"
    by (simp add: redis_put_def)
  moreover have "advance dt w = ?v\<lparr>clock := clock w + dt\<rparr>"
    using assms by (simp add: advance_def Let_def due_def not_due_def apply_at_def apply_ext_def receive_reply max_def)
  ultimately show ?thesis using assms(4-6) by (simp add: redis_lookup_def live_def)
qed

lemma advance_quiet:
  assumes "\<forall>te \<in> set (sched w). clock w + dt < fst te"
  shows "advance dt w = w\<lparr>clock := clock w + dt\<rparr>"
proof -
  have "due (clock w + dt) (sched w) = []" "not_due (clock w + dt) (sched w) = sched w"
    using assms by (auto simp: due_def not_due_def filter_empty_conv filter_id_conv)
  then show ?thesis by (simp add: advance_def Let_def)
qed

lemma poll_loop_answered:
  assumes "sched w = [(ta, AgentFrame u (Some m))]" and "reply_frame m" and "answers r m"
    and "redis_lookup w (response_key r) = None" and "clock w \<le> ta" and "ta + 200 < deadline"
  shows "fst (poll_loop (response_key r) deadline w) = Some (RJson m)"
  using assms
proof (induction "response_key r" deadline w rule: poll_loop.induct)
  case (1 deadline w)
  have step: "fst (poll_loop (response_key r) deadline w) = fst (poll_loop (response_key r) deadline (advance 200 w))"
    using "1.prems" by (subst poll_loop.simps) simp
  show ?case
  proof (cases "clock w + 200 < ta")
    case True
    then have adv: "advance 200 w = w\<lparr>clock := clock w + 200\<rparr>"
      using "1.prems"(1) by (intro advance_quiet) simp
    have "redis_lookup (advance 200 w) (response_key r) = None"
      using "1.prems"(4) redis_lookup_later [of w "clock w + 200"] unfolding adv by (metis le_add1 not_Some_eq)
    then have "fst (poll_loop (response_key r) deadline (advance 200 w)) = Some (RJson m)"
      using "1.prems" True by (intro "1.hyps") (simp_all add: adv)
    with step show ?thesis by simp
  next
    case False
    then have "redis_lookup (advance 200 w) (response_key r) = Some (RJson m)"
      using "1.prems" by (intro advance_reply) auto
    moreover have "clock (advance 200 w) < deadline" using "1.prems"(5,6) by simp
    ultimately have "fst (poll_loop (response_key r) deadline (advance 200 w)) = Some (RJson m)"
      by (subst poll_loop.simps) simp
    with step show ?thesis by simp
  qed
qed

subsection \<open>Properties\<close>

text \<open>
  C8. A synchronous agent call returns a result only when an agent frame confirmed that very request:
  the node's agent is active and connected, and a frame with the request's id, marked successful and
  carrying that result, was under way or was sent in answer to the published command.
\<close>

theorem send_operation_confirmed:
  assumes "send_operation node_id oper rid payload timeout w = (Inr data, w')"
    and "redis_lookup w (response_key (uuids w (uuid_next w))) = None"
  shows "\<exists>n. reachable_node w node_id n \<and>
    confirmed_by w (uuid n) (to_wire (mk_request w oper rid payload)) (uuids w (uuid_next w)) data"
  using send_operation_Inr [OF assms] by blast

text \<open>
  The other direction: when the node is reachable and its agent's only answer to the command arrives
  more than one polling interval before the deadline, the call ends with what that answer says, the
  result or the agent's error.
\<close>

theorem send_operation_answered:
  assumes "reachable_node w node_id n" and "sched w = []"
    and "redis_lookup w (response_key (uuids w (uuid_next w))) = None"
    and "agent_env w (uuid n) (length (rpcs w)) (to_wire (mk_request w oper rid payload)) = [(delay, Some m)]"
    and "reply_frame m" and "answers (uuids w (uuid_next w)) m" and "delay + 200 < rpc_seconds w timeout * 1000"
  shows "fst (send_operation node_id oper rid payload timeout w) = read_reply n oper (Some (RJson m))"
proof -
  have "fst (polled n oper rid payload timeout w) = Some (RJson m)"
    unfolding polled_def
  proof (rule poll_loop_answered [OF _ assms(5,6)])
    show "sched (published n oper rid payload w) = [(clock w + delay, AgentFrame (uuid n) (Some m))]"
      using assms(2,4) by (simp add: sched_published agent_answers_def)
    show "redis_lookup (published n oper rid payload w) (response_key (uuids w (uuid_next w))) = None"
      using assms(3) by (subst redis_lookup_cong [of _ w]) simp_all
  qed (use assms(7) in simp_all)
  then show ?thesis unfolding send_operation_reachable [OF assms(1)] by simp
qed

text \<open>The sample installation: the agent answers the start command with its state.\<close>

definition ex_reply :: json where
  "ex_reply = JObj [(''request_id'', JStr ''u''), (''success'', JBool True), (''data'', JObj [(''state'', JStr ''ok'')])]"

lemma ex_reachable: "reachable_node ex_world (Some 10) ex_node"
  by (simp add: reachable_node_def agent_of_node_def rows_where_def is_usable_def is_agent_connected_def
      connection_key_def ex_agent_def ex_node_def redis_lookup_def live_def ex_redis)

lemma ex_no_reply: "redis_lookup ex_world (response_key (uuids ex_world (uuid_next ex_world))) = None"
  by (simp add: redis_lookup_def response_key_def ex_uuids ex_redis)

lemma ex_answer:
  "agent_env ex_world (uuid ex_node) (length (rpcs ex_world)) (to_wire (mk_request ex_world START_VM ''v1'' (JObj []))) =
     [(100, Some ex_reply)]"
  by (simp add: to_wire_def mk_request_def ex_uuids)
    (simp add: ex_world_def ex_agent_env_def jget_def ex_reply_def)

lemma ex_reply_ok: "reply_frame ex_reply" "answers (uuids ex_world (uuid_next ex_world)) ex_reply"
  by (simp_all add: reply_frame_def answers_def jget_def request_id_text_def ex_uuids ex_reply_def)

theorem send_operation_answered_witness:
  "fst (send_operation (Some 10) START_VM ''v1'' (JObj []) None ex_world) = read_reply ex_node START_VM (Some (RJson ex_reply))"
  by (rule send_operation_answered [OF ex_reachable _ ex_no_reply ex_answer ex_reply_ok])
    (simp_all add: rpc_seconds_def NODEPILOT_def)

lemma ex_start_ok:
  "fst (send_operation (Some 10) START_VM ''v1'' (JObj []) None ex_world) = Inr (JObj [(''state'', JStr ''ok'')])"
proof -
  have "fst (polled ex_node START_VM ''v1'' (JObj []) None ex_world) = Some (RJson ex_reply)"
    unfolding polled_def
    by (rule poll_loop_answered [OF _ ex_reply_ok, where ta = 100100 and u = "''n1''"])
      (use ex_answer ex_no_reply in \<open>simp_all add: sched_published agent_answers_def rpc_seconds_def NODEPILOT_def ex_node_def
        redis_lookup_cong [of "published n oper rid p ex_world" ex_world for n oper rid p]\<close>)
  then show ?thesis
    unfolding send_operation_reachable [OF ex_reachable]
    by (simp add: read_reply_def from_wire_def jget_def truthy_def ex_reply_def)
qed

theorem send_operation_confirmed_witness:
  "fst (send_operation (Some 10) START_VM ''v1'' (JObj []) None ex_world) = Inr (JObj [(''state'', JStr ''ok'')]) \<and>
   (\<exists>n. reachable_node ex_world (Some 10) n \<and>
     confirmed_by ex_world (uuid n) (to_wire (mk_request ex_world START_VM ''v1'' (JObj [])))
       (uuids ex_world (uuid_next ex_world)) (JObj [(''state'', JStr ''ok'')]))"
proof -
  obtain w' where "send_operation (Some 10) START_VM ''v1'' (JObj []) None ex_world = (Inr (JObj [(''state'', JStr ''ok'')]), w')"
    using ex_start_ok by (metis prod.collapse)
  from send_operation_confirmed [OF this ex_no_reply] ex_start_ok show ?thesis by simp
qed

text \<open>
  A node whose agent is missing, not active or not connected is never sent anything: the call fails
  at once with \<open>AgentUnavailable\<close> and changes nothing.
\<close>

theorem unreachable_sends_nothing:
  assumes "row_get nk (nodes (wdb w)) = Some n" and "\<not> reachable_node w (Some nk) n"
  shows "\<exists>m. send_operation (Some nk) oper rid payload timeout w = (Inl (api_exn AgentUnavailable m), w)"
  using assms by (auto simp: send_operation_def reachable_node_def split: option.splits)

definition ex_disconnected :: world where
  "ex_disconnected = ex_world\<lparr>redis := []\<rparr>"

theorem unreachable_sends_nothing_witness:
  "\<exists>m. send_operation (Some 10) START_VM ''v1'' (JObj []) None ex_disconnected =
     (Inl (api_exn AgentUnavailable m), ex_disconnected)"
  by (rule unreachable_sends_nothing [where n = ex_node])
    (simp_all add: ex_disconnected_def reachable_node_def is_agent_connected_def redis_lookup_def)

text \<open>
  An agent call takes no longer than its timeout and one polling interval.
\<close>

theorem send_operation_bounded:
  "clock w \<le> clock (snd (send_operation node_id oper rid payload timeout w)) \<and>
   clock (snd (send_operation node_id oper rid payload timeout w)) \<le> clock w + rpc_seconds w timeout * 1000 + 199"
proof (cases "\<exists>n. reachable_node w node_id n")
  case False
  then show ?thesis using send_operation_unreachable [of w node_id oper rid payload timeout] by auto
next
  case True
  then obtain n where n: "reachable_node w node_id n" by blast
  show ?thesis
    using poll_loop_clock [of "published n oper rid payload w" "response_key (uuids w (uuid_next w))"
        "clock w + rpc_seconds w timeout * 1000"]
    unfolding send_operation_reachable [OF n] polled_def by simp
qed

end
