(* ===== verification/Events.thy ===== *)
theory Events
  imports AgentClient
begin

section \<open>Events: the event stream, the webhook fan-out and the audit log\<close>

text \<open>
  \<open>backend/apps/events/services.py\<close>, \<open>backend/apps/webhooks/services.py\<close> with the methods of the
  \<open>Webhook\<close> model, and \<open>backend/apps/audit\<close>. Every emitted event is stored, broadcast and offered
  to the organization's webhooks under its dotted name; an exception of the fan-out is swallowed.
\<close>

subsection \<open>Webhook fan-out\<close>

definition SUPPORTED_EVENTS :: "string list" where
  "SUPPORTED_EVENTS = [''vm.created'', ''vm.started'', ''vm.stopped'', ''vm.deleted'', ''vm.cloned'',
     ''backup.completed'', ''backup.failed'', ''node.offline'', ''node.online'']"

definition subscribes_to :: "webhook \<Rightarrow> string \<Rightarrow> bool" where
  "subscribes_to h ty \<longleftrightarrow> whk_enabled h \<and> (''*'' \<in> set (whk_events h) \<or> ty \<in> set (whk_events h))"

definition create_delivery :: "nat \<Rightarrow> string \<Rightarrow> json \<Rightarrow> nat op" where
  "create_delivery hook ty payload = bindM uuid4 (\<lambda>u. bindM now (\<lambda>t. bindM fresh_pk (\<lambda>k.
     bindM (moddb (\<lambda>d. d\<lparr>deliveries := row_add k
       \<lparr> uuid = u, created_at = t, updated_at = t, dlv_webhook = hook, dlv_event_type = ty,
         dlv_payload = payload, dlv_status = DS_PENDING, dlv_attempt = 0, dlv_response_status = None,
         dlv_response_body = '''', dlv_delivered_at = None \<rparr> (deliveries d)\<rparr>)) (\<lambda>_. returnM k))))"

definition dispatch_event :: "nat \<Rightarrow> string \<Rightarrow> json \<Rightarrow> nat list op" where
  "dispatch_event org ty payload =
     bindM (getdb (\<lambda>d. rows_where (\<lambda>h. whk_organization h = org \<and> whk_enabled h) (webhooks d))) (\<lambda>hooks.
     bindM (mapM (\<lambda>kh. create_delivery (fst kh) ty payload) (filter (\<lambda>kh. subscribes_to (snd kh) ty) hooks)) (\<lambda>ks.
     bindM (forM ks (\<lambda>k. enqueue (DeliverWebhook k 0))) (\<lambda>_. returnM ks)))"

subsection \<open>Events\<close>

text \<open>\<open>VM_CREATED\<close> becomes \<open>vm.created\<close>: lower case, first underscore to a dot.\<close>

definition webhook_event_type :: "string \<Rightarrow> string" where
  "webhook_event_type raw = (case partition_at CHR ''_'' (lower raw) of
     (resource, sep, rest) \<Rightarrow> if sep then resource @ ''.'' @ rest else lower raw)"

definition show_EventSeverity :: "EventSeverity \<Rightarrow> string" where
  "show_EventSeverity s = (case s of EV_INFO \<Rightarrow> ''INFO'' | EV_WARNING \<Rightarrow> ''WARNING'' | EV_CRITICAL \<Rightarrow> ''CRITICAL'')"

definition event_broadcast :: "event \<Rightarrow> unit op" where
  "event_broadcast e = group_send (''events.'' @ show_nat (evt_organization e))
     (JObj [(''type'', JStr ''event.message''),
            (''event'', JObj [(''uuid'', JStr (uuid e)), (''type'', JStr (evt_type e)),
              (''severity'', JStr (show_EventSeverity (evt_severity e))),
              (''resource_type'', JStr (evt_resource_type e)), (''resource_id'', JStr (evt_resource_id e)),
              (''created_at'', JInt (int (created_at e))), (''metadata'', evt_metadata e)])])"

definition emit_event ::
  "string \<Rightarrow> EventSeverity \<Rightarrow> string \<Rightarrow> string \<Rightarrow> nat \<Rightarrow> nat option \<Rightarrow> (string \<times> json) list \<Rightarrow> event op" where
  "emit_event ty sev rtype rid org actor metadata =
     bindM uuid4 (\<lambda>u. bindM now (\<lambda>t. bindM fresh_pk (\<lambda>k.
     let e = \<lparr> uuid = u, created_at = t, updated_at = t, evt_type = ty, evt_severity = sev,
               evt_resource_type = rtype, evt_resource_id = rid, evt_organization = org,
               evt_actor = actor, evt_metadata = JObj metadata \<rparr>
     in bindM (moddb (\<lambda>d. d\<lparr>events := row_add k e (events d)\<rparr>)) (\<lambda>_.
        bindM (event_broadcast e) (\<lambda>_.
        bindM (tryM (bindM (dispatch_event org (webhook_event_type ty)
                 (JObj (dict_merge [(''resource_type'', JStr rtype), (''resource_id'', JStr rid)] metadata))) (\<lambda>_. returnM ()))
               (\<lambda>_. returnM ())) (\<lambda>_.
        returnM e))))))"

subsection \<open>Audit log\<close>

definition log_action ::
  "nat option \<Rightarrow> string \<Rightarrow> string \<Rightarrow> string \<Rightarrow> string \<Rightarrow> nat option \<Rightarrow> string option \<Rightarrow> AuditResult \<Rightarrow> json \<Rightarrow> nat op" where
  "log_action actor label act rtype rid org ip res metadata =
     bindM uuid4 (\<lambda>u. bindM now (\<lambda>t. bindM fresh_pk (\<lambda>k.
     bindM (moddb (\<lambda>d. d\<lparr>audit_logs := row_add k
       \<lparr> uuid = u, created_at = t, updated_at = t, aud_actor = actor, aud_actor_label = label, aud_action = act,
         aud_resource_type = rtype, aud_resource_id = rid, aud_organization = org, aud_ip_address = ip,
         aud_result = res, aud_metadata = metadata \<rparr> (audit_logs d)\<rparr>)) (\<lambda>_. returnM k))))"

text \<open>\<open>AuditLog.save\<close> on a stored row and \<open>AuditLog.delete\<close>: always refused.\<close>

definition audit_save_existing :: "nat \<Rightarrow> (audit_log \<Rightarrow> audit_log) \<Rightarrow> unit op" where
  "audit_save_existing k f = raiseM (ValueError ''AuditLog entries are immutable and cannot be updated.'')"

definition audit_delete :: "nat \<Rightarrow> unit op" where
  "audit_delete k = raiseM (ValueError ''AuditLog entries are immutable and cannot be deleted.'')"

text \<open>\<open>_client_ip\<close>: the first entry of \<open>X-Forwarded-For\<close>, else the peer address.\<close>

definition strip_spaces :: "string \<Rightarrow> string" where
  "strip_spaces s = (let f = dropWhile (\<lambda>c. c \<in> {CHR '' '', CHR 0x09, CHR 0x0A, CHR 0x0D}) in rev (f (rev (f s))))"

definition client_ip :: "string option \<Rightarrow> string option \<Rightarrow> string option" where
  "client_ip forwarded remote = (case forwarded of
     Some s \<Rightarrow> if s = '''' then remote else Some (strip_spaces (hd (split_on CHR '','' s)))
   | None \<Rightarrow> remote)"

subsection \<open>Frames\<close>

text \<open>
  What a relation between the state before and after must allow so that the work on a job row keeps it, apart
  from the step that marks the job successful: changes of the row that leave its status alone, and
  transitions to the other statuses.
\<close>

locale job_ops = wait_frame R for R :: "world \<Rightarrow> world \<Rightarrow> bool" +
  assumes R_job_row: "(\<And>j. job_status (f j) = job_status j \<and> same_job j (f j)) \<Longrightarrow> (\<And>j. job_wf j \<Longrightarrow> job_wf (f j)) \<Longrightarrow>
      R w (db_upd (\<lambda>d. d\<lparr>jobs := row_mod k f (jobs d)\<rparr>) w)"
    and R_step: "s \<noteq> JS_SUCCESS \<Longrightarrow> keeps R (transition k s msg err)"
begin

lemma jobs_update_at: "jobs_update (row_mod k f) = (\<lambda>d. d\<lparr>jobs := row_mod k f (jobs d)\<rparr>)"
  by (rule ext) (rule db.equality, simp_all)

lemma tf_save_job:
  assumes "\<And>j. job_status (f j) = job_status j \<and> same_job j (f j)" and "\<And>j. job_wf j \<Longrightarrow> job_wf (f j)"
  shows "keeps R (save_job k f)"
proof -
  have "R w (db_upd (jobs_update (row_mod k f)) w)" for w
    by (subst jobs_update_at) (rule R_job_row [OF assms])
  then show ?thesis unfolding save_job_def by (rule keeps_save_row)
qed

lemma tf_set_progress: "keeps R (set_progress jo p msg)"
  unfolding set_progress_def Let_def job_broadcast_def
  by (cases jo) (auto intro!: keeps_rules keeps_world tf_save_job simp: same_job_def job_wf_def)

lemma tf_append_log: "keeps R (append_log k line)"
proof -
  have "keeps R (moddb (\<lambda>d. d\<lparr>jobs := row_mod k (\<lambda>r. r\<lparr>job_logs := l\<rparr>) (jobs d)\<rparr>))" for l
    by (rule keeps_moddb, rule R_job_row) (simp_all add: same_job_def job_wf_def)
  then show ?thesis unfolding append_log_def by (intro keeps_rules keeps_world)
qed

lemma tf_job_run:
  assumes "keeps R body"
  shows "keeps R (job_run jo step body)"
proof -
  have "keeps R (is_cancel_requested k)" for k by (simp add: is_cancel_requested_def keeps_getdb)
  with assms show ?thesis
    unfolding job_run_def by (intro keeps_rules keeps_world keeps_case_prod R_step tf_set_progress tf_append_log) simp_all
qed

lemma tf_fail_unless_terminal: "keeps R (fail_unless_terminal k err)"
  unfolding fail_unless_terminal_def by (intro keeps_rules keeps_world R_step) simp

lemma tf_fail: "keeps R (transition k JS_FAILED msg err)"
  by (rule R_step) simp

lemma tf_before_start: "keeps R (before_start k t)"
  unfolding before_start_def
  by (rule keeps_moddb, rule R_job_row) (simp_all add: same_job_def job_wf_def)

lemma tf_on_failure: "keeps R (on_failure k e)"
  unfolding on_failure_def by (intro keeps_rules keeps_world tf_fail)

lemma tf_run_bound_task: "keeps R body \<Longrightarrow> keeps R (run_bound_task k t body)"
  unfolding run_bound_task_def by (intro keeps_rules keeps_world tf_before_start tf_on_failure)

lemmas tf_job = tf_set_progress tf_append_log tf_job_run tf_fail_unless_terminal tf_fail

lemmas tf_lock = keeps_locks

lemmas tf_rpc = keeps_rpc

end

text \<open>
  If in addition changes outside the jobs table and the queue and new webhook deliveries are allowed, every
  step of a task but the last keeps the relation. Each component proves the frame lemmas of its
  operations once, in this locale.
\<close>

locale task_frame = job_ops R for R :: "world \<Rightarrow> world \<Rightarrow> bool" +
  assumes R_nojobs: "jobs (g (wdb w)) = jobs (wdb w) \<Longrightarrow> queue (g (wdb w)) = queue (wdb w) \<Longrightarrow> R w (db_upd g w)"
    and R_call: "R w (db_upd (\<lambda>d. d\<lparr>queue := queue d @ [DeliverWebhook k n]\<rparr>) w)"
begin

lemma keeps_moddb_nojobs: "(\<And>d. jobs (f d) = jobs d \<and> queue (f d) = queue d) \<Longrightarrow> keeps R (moddb f)"
  by (rule keeps_moddb) (simp add: R_nojobs)

lemma keeps_save_row_nojobs:
  "(\<And>g d. jobs (upd g d) = jobs d \<and> queue (upd g d) = queue d) \<Longrightarrow> keeps R (save_row tab upd k f)"
  by (rule keeps_save_row) (simp add: R_nojobs)

lemma tf_fresh_pk: "keeps R fresh_pk"
  by (simp add: keeps_def fresh_pk_apply R_nojobs)

lemma keeps_enqueue: "keeps R (enqueue (DeliverWebhook k n))"
  unfolding enqueue_def by (rule keeps_moddb) (rule R_call)

lemmas tf_op = keeps_rules keeps_world keeps_moddb_nojobs keeps_save_row_nojobs tf_fresh_pk keeps_enqueue keeps_sleep

lemma keeps_create_delivery: "keeps R (create_delivery h ty p)"
  unfolding create_delivery_def by (intro tf_op) simp

lemma keeps_dispatch_event: "keeps R (dispatch_event org ty p)"
  unfolding dispatch_event_def by (intro tf_op keeps_create_delivery)

lemma keeps_emit_event: "keeps R (emit_event ty sev rt rid org actor md)"
  unfolding emit_event_def event_broadcast_def Let_def by (intro tf_op keeps_dispatch_event) simp

lemma keeps_log_action: "keeps R (log_action a l act rt rid org ip res md)"
  unfolding log_action_def by (intro tf_op) simp

lemmas tf_event = keeps_dispatch_event keeps_emit_event keeps_log_action

end

interpretation js: task_frame job_safe
proof unfold_locales
  show "jobs (g (wdb w)) = jobs (wdb w) \<Longrightarrow> queue (g (wdb w)) = queue (wdb w) \<Longrightarrow> job_safe w (db_upd g w)" for g w
    by (rule job_safe_same_jobs) simp_all
  show "job_safe w (db_upd (\<lambda>d. d\<lparr>queue := queue d @ [DeliverWebhook k n]\<rparr>) w)" for w k n
    by (rule job_safe_add_call [where c = "DeliverWebhook k n"]) simp_all
  show "keeps job_safe (transition k s msg err)" for k s msg err by (rule keeps_transition)
qed (rule job_safe_mod_same_status, simp_all)

lemmas op_frame = js.tf_op
lemmas lock_frame = js.tf_lock
lemmas rpc_frame = js.tf_rpc
lemmas event_frame = js.tf_event
lemmas job_frame = keeps_transition js.tf_job

subsection \<open>What an event touches\<close>

locale off_events = off_jobs f for f :: "db \<Rightarrow> 'a" +
  assumes off_events: "f (d\<lparr>events := e\<rparr>) = f d"
    and off_deliveries: "f (d\<lparr>deliveries := dl\<rparr>) = f d"
    and off_queue: "f (d\<lparr>queue := q\<rparr>) = f d"
    and off_pk: "f (d\<lparr>next_pk := n\<rparr>) = f d"
begin

lemma so_dispatch_event: "keeps (same_on f) (dispatch_event org ty p)"
  unfolding dispatch_event_def create_delivery_def
  by (intro so_frame off_deliveries off_queue off_pk)

lemma so_emit_event: "keeps (same_on f) (emit_event ty sev rt rid org actor md)"
  unfolding emit_event_def event_broadcast_def Let_def
  by (intro so_frame off_events off_pk so_dispatch_event)

lemma so_log_action:
  "(\<And>d a. f (d\<lparr>audit_logs := a\<rparr>) = f d) \<Longrightarrow> keeps (same_on f) (log_action a l act rt rid org ip res md)"
  unfolding log_action_def by (intro so_frame off_pk)

lemma so_create_job: "keeps (same_on f) (create_job ty rt rid org nd by key tm)"
  unfolding create_job_def Let_def by (intro so_frame off_pk so_jobs)

lemma so_enqueue': "keeps (same_on f) (enqueue c)"
  by (intro so_enqueue off_queue)

lemmas so_event_frame = so_dispatch_event so_emit_event so_create_job so_enqueue'

end

interpretation t_vms: off_events vms by unfold_locales simp_all
interpretation t_disks: off_events disks by unfold_locales simp_all
interpretation t_nodes: off_events nodes by unfold_locales simp_all
interpretation t_agents: off_events agents by unfold_locales simp_all
interpretation t_snapshots: off_events snapshots by unfold_locales simp_all
interpretation t_backups: off_events backups by unfold_locales simp_all
interpretation t_networks: off_events networks by unfold_locales simp_all
interpretation t_pools: off_events storage_pools by unfold_locales simp_all

lemma events_dispatch: "events (wdb (snd (dispatch_event org ty p w))) = events (wdb w)"
proof (rule same_onD2)
  show "keeps (same_on events) (dispatch_event org ty p)"
    unfolding dispatch_event_def create_delivery_def by (intro so_frame) simp_all
qed

lemma emit_event_run:
  "\<exists>e w'. emit_event ty sev rt rid org actor md w = (Inr e, w') \<and>
     events (wdb w') = events (wdb w) @ [(next_pk (wdb w), e)] \<and> evt_type e = ty \<and> evt_resource_type e = rt \<and>
     evt_resource_id e = rid \<and> created_at e = clock w \<and> evt_organization e = org"
proof -
  define e where "e = \<lparr> uuid = uuids w (uuid_next w), created_at = clock w, updated_at = clock w, evt_type = ty, evt_severity = sev,
               evt_resource_type = rt, evt_resource_id = rid, evt_organization = org,
               evt_actor = actor, evt_metadata = JObj md \<rparr>"
  define w1 where "w1 = snd (event_broadcast e (db_upd (\<lambda>d. d\<lparr>next_pk := next_pk d + 1, events := row_add (next_pk d) e (events d)\<rparr>)
      (w\<lparr>uuid_next := uuid_next w + 1\<rparr>)))"
  let ?p = "JObj (dict_merge [(''resource_type'', JStr rt), (''resource_id'', JStr rid)] md)"
  have w1: "events (wdb w1) = events (wdb w) @ [(next_pk (wdb w), e)]"
    by (simp add: w1_def event_broadcast_def group_send_def row_add_def)
  have "emit_event ty sev rt rid org actor md w = (Inr e, snd (dispatch_event org (webhook_event_type ty) ?p w1))"
    by (simp add: emit_event_def bindM_def fresh_pk_apply event_broadcast_def group_send_def tryM_def Let_def e_def
        w1_def db_upd_def split: prod.splits sum.splits)
  with w1 show ?thesis by (auto simp: events_dispatch e_def)
qed

lemma create_delivery_run:
  "create_delivery hook ty payload w =
     (Inr (next_pk (wdb w)),
      db_upd (\<lambda>d. d\<lparr>next_pk := next_pk d + 1, deliveries := deliveries d @ [(next_pk d,
        \<lparr> uuid = uuids w (uuid_next w), created_at = clock w, updated_at = clock w, dlv_webhook = hook, dlv_event_type = ty,
         dlv_payload = payload, dlv_status = DS_PENDING, dlv_attempt = 0, dlv_response_status = None,
         dlv_response_body = '''', dlv_delivered_at = None \<rparr>)]\<rparr>) (w\<lparr>uuid_next := uuid_next w + 1\<rparr>))"
  by (simp add: create_delivery_def bindM_def fresh_pk_apply db_upd_def row_add_def)

lemma create_deliveries:
  "\<exists>w'. mapM (\<lambda>kh. create_delivery (fst kh) ty payload) hs w = (Inr [next_pk (wdb w) ..< next_pk (wdb w) + length hs], w') \<and>
     (\<exists>new. deliveries (wdb w') = deliveries (wdb w) @ new \<and> map fst new = [next_pk (wdb w) ..< next_pk (wdb w) + length hs] \<and>
        map (\<lambda>kd. dlv_webhook (snd kd)) new = map fst hs \<and>
        (\<forall>d \<in> snd ` set new. dlv_event_type d = ty \<and> dlv_payload d = payload \<and> dlv_status d = DS_PENDING \<and> dlv_attempt d = 0)) \<and>
     queue (wdb w') = queue (wdb w)"
proof (induction hs arbitrary: w)
  case Nil
  then show ?case by simp
next
  case (Cons h hs)
  define w1 where "w1 = snd (create_delivery (fst h) ty payload w)"
  have pk: "next_pk (wdb w1) = Suc (next_pk (wdb w))" by (simp add: create_delivery_run w1_def)
  obtain w' new where w': "mapM (\<lambda>kh. create_delivery (fst kh) ty payload) hs w1 =
        (Inr [next_pk (wdb w1) ..< next_pk (wdb w1) + length hs], w')"
      "deliveries (wdb w') = deliveries (wdb w1) @ new" "map fst new = [next_pk (wdb w1) ..< next_pk (wdb w1) + length hs]"
      "map (\<lambda>kd. dlv_webhook (snd kd)) new = map fst hs"
      "\<forall>d \<in> snd ` set new. dlv_event_type d = ty \<and> dlv_payload d = payload \<and> dlv_status d = DS_PENDING \<and> dlv_attempt d = 0"
      "queue (wdb w') = queue (wdb w1)"
    using Cons.IH [of w1] by blast
  obtain d where d: "deliveries (wdb w1) = deliveries (wdb w) @ [(next_pk (wdb w), d)]" "dlv_webhook d = fst h"
      "dlv_event_type d = ty" "dlv_payload d = payload" "dlv_status d = DS_PENDING" "dlv_attempt d = 0"
    by (simp add: create_delivery_run w1_def)
  have r: "create_delivery (fst h) ty payload w = (Inr (next_pk (wdb w)), w1)" by (simp add: create_delivery_run w1_def)
  have up: "next_pk (wdb w) # [next_pk (wdb w1) ..< next_pk (wdb w1) + length hs] = [next_pk (wdb w) ..< next_pk (wdb w) + length (h # hs)]"
    unfolding pk by (simp add: upt_rec)
  have run: "mapM (\<lambda>kh. create_delivery (fst kh) ty payload) (h # hs) w =
      (Inr [next_pk (wdb w) ..< next_pk (wdb w) + length (h # hs)], w')"
    using r w'(1) by (simp add: bindM_def up [simplified])
  show ?case
  proof (intro exI conjI)
    show "deliveries (wdb w') = deliveries (wdb w) @ ((next_pk (wdb w), d) # new)" using w'(2) d(1) by simp
    show "map fst ((next_pk (wdb w), d) # new) = [next_pk (wdb w) ..< next_pk (wdb w) + length (h # hs)]"
      using w'(3) up by simp
    show "queue (wdb w') = queue (wdb w)" using w'(6) by (simp add: create_delivery_run w1_def)
  qed (use run w'(4,5) d in auto)
qed

lemma enqueue_all:
  "forM ks (\<lambda>k. enqueue (c k)) w = (Inr (), db_upd (\<lambda>d. d\<lparr>queue := queue d @ map c ks\<rparr>) w)"
  by (induction ks arbitrary: w) (simp_all add: enqueue_def bindM_def db_upd_def)

subsection \<open>Properties\<close>

text \<open>
  The webhook fan-out: for an organization's event there is exactly one new pending delivery per
  enabled webhook of that organization that subscribes to it, in order, each with its own delivery
  task in the queue, and nothing else is delivered.
\<close>

theorem dispatch_event_fanout:
  "\<exists>ks w' new. dispatch_event org ty payload w = (Inr ks, w') \<and> deliveries (wdb w') = deliveries (wdb w) @ new \<and>
     map fst new = ks \<and> distinct ks \<and>
     map (\<lambda>kd. dlv_webhook (snd kd)) new =
       map fst (rows_where (\<lambda>h. whk_organization h = org \<and> subscribes_to h ty) (webhooks (wdb w))) \<and>
     list_all (\<lambda>(k, d). dlv_event_type d = ty \<and> dlv_payload d = payload \<and> dlv_status d = DS_PENDING \<and> dlv_attempt d = 0) new \<and>
     queue (wdb w') = queue (wdb w) @ map (\<lambda>k. DeliverWebhook k 0) ks"
proof -
  let ?hs = "filter (\<lambda>kh. subscribes_to (snd kh) ty) (rows_where (\<lambda>h. whk_organization h = org \<and> whk_enabled h) (webhooks (wdb w)))"
  have hs: "?hs = rows_where (\<lambda>h. whk_organization h = org \<and> subscribes_to h ty) (webhooks (wdb w))"
    by (auto simp: rows_where_def subscribes_to_def intro!: filter_cong)
  obtain w1 new where w1: "mapM (\<lambda>kh. create_delivery (fst kh) ty payload) ?hs w =
        (Inr [next_pk (wdb w) ..< next_pk (wdb w) + length ?hs], w1)"
      "deliveries (wdb w1) = deliveries (wdb w) @ new" "map fst new = [next_pk (wdb w) ..< next_pk (wdb w) + length ?hs]"
      "map (\<lambda>kd. dlv_webhook (snd kd)) new = map fst ?hs"
      "\<forall>d \<in> snd ` set new. dlv_event_type d = ty \<and> dlv_payload d = payload \<and> dlv_status d = DS_PENDING \<and> dlv_attempt d = 0"
      "queue (wdb w1) = queue (wdb w)"
    using create_deliveries by blast
  define ks where "ks = [next_pk (wdb w) ..< next_pk (wdb w) + length ?hs]"
  have "dispatch_event org ty payload w = (Inr ks, db_upd (\<lambda>d. d\<lparr>queue := queue d @ map (\<lambda>k. DeliverWebhook k 0) ks\<rparr>) w1)"
    using w1(1) unfolding ks_def [symmetric] dispatch_event_def by (simp add: bindM_def enqueue_all)
  moreover have "distinct ks" by (simp add: ks_def)
  ultimately show ?thesis
    using w1(2-6) hs unfolding ks_def [symmetric]
    by (intro exI [of _ ks] exI [of _ new] exI) (auto simp: list_all_iff)
qed

text \<open>
  Every event type the webhooks support is reached from an internal event name.
\<close>

theorem webhook_event_names:
  "map webhook_event_type [''VM_CREATED'', ''VM_STARTED'', ''VM_STOPPED'', ''VM_DELETED'', ''VM_CLONED'',
     ''BACKUP_COMPLETED'', ''BACKUP_FAILED'', ''NODE_OFFLINE'', ''NODE_ONLINE''] = SUPPORTED_EVENTS"
  by code_simp

end
