(* ===== verification/Metrics.thy ===== *)
theory Metrics
  imports Events
begin

section \<open>Metrics: the short-term sample store\<close>

text \<open>
  \<open>backend/apps/metrics/store.py\<close>: one Redis sorted set per node or VM, scored by time, capped by
  a retention window and a number of points. A sorted set is kept as the list of its members in
  score order; a member that is written again moves to its new score.
\<close>

definition zset_of :: "world \<Rightarrow> string \<Rightarrow> (nat \<times> json) list" where
  "zset_of w key = (case redis_lookup w key of Some (RZset z) \<Rightarrow> z | _ \<Rightarrow> [])"

fun zinsert :: "nat \<Rightarrow> json \<Rightarrow> (nat \<times> json) list \<Rightarrow> (nat \<times> json) list" where
  "zinsert t m [] = [(t, m)]"
| "zinsert t m ((t', m') # z) = (if t' \<le> t then (t', m') # zinsert t m z else (t, m) # (t', m') # z)"

definition zadd :: "nat \<Rightarrow> json \<Rightarrow> (nat \<times> json) list \<Rightarrow> (nat \<times> json) list" where
  "zadd t m z = zinsert t m (filter (\<lambda>p. snd p \<noteq> m) z)"

text \<open>\<open>ZREMRANGEBYSCORE key 0 (now - retention)\<close> and \<open>ZREMRANGEBYRANK key 0 -(max_points + 1)\<close>.\<close>

definition zexpire :: "nat \<Rightarrow> nat \<Rightarrow> (nat \<times> json) list \<Rightarrow> (nat \<times> json) list" where
  "zexpire t retention z = filter (\<lambda>p. t < fst p + retention) z"

definition zcap :: "nat \<Rightarrow> (nat \<times> json) list \<Rightarrow> (nat \<times> json) list" where
  "zcap n z = drop (length z - n) z"

definition record_points :: "settings \<Rightarrow> nat \<Rightarrow> json \<Rightarrow> (nat \<times> json) list \<Rightarrow> (nat \<times> json) list" where
  "record_points c t m z =
     zcap (METRICS_SAMPLE_MAX_POINTS c) (zexpire t (METRICS_RETENTION_SECONDS c * 1000) (zadd t m z))"

text \<open>\<open>RedisMetricsStore.record\<close>; the sample's own \<open>ts\<close> goes first, and an entry of the same name
  in the sample wins.\<close>

definition metrics_record :: "string \<Rightarrow> (string \<times> json) list \<Rightarrow> unit op" where
  "metrics_record key sample = modM (\<lambda>w.
     redis_put key (RZset (record_points (conf w) (clock w)
         (JObj (dict_merge [(''ts'', JInt (int (clock w)))] sample)) (zset_of w key)))
       (Some (METRICS_RETENTION_SECONDS (conf w) * 1000)) w)"

text \<open>\<open>query(key, since_seconds)\<close>: zero or no window means everything up to now.\<close>

definition metrics_query :: "string \<Rightarrow> nat option \<Rightarrow> json list op" where
  "metrics_query key since = getM (\<lambda>w.
     let z = filter (\<lambda>p. fst p \<le> clock w) (zset_of w key)
     in map snd (case since of
          None \<Rightarrow> z
        | Some s \<Rightarrow> if s = 0 then z else filter (\<lambda>p. clock w \<le> fst p + s * 1000) z))"

definition node_key :: "node \<Rightarrow> string" where
  "node_key n = ''nodepilot:metrics:node:'' @ uuid n"

definition vm_key :: "virtual_machine \<Rightarrow> string" where
  "vm_key vm = ''nodepilot:metrics:vm:'' @ uuid vm"

record heartbeat =
  hb_agent_version :: string
  hb_protocol_version :: string
  hb_kernel :: string
  hb_architecture :: string
  hb_cpu_model :: "string option"
  hb_cpu_threads :: "nat option"
  hb_cpu_cores :: "nat option"
  hb_cpu_sockets :: "nat option"
  hb_cpu_percent :: "json option"
  hb_memory_total_mb :: "nat option"
  hb_memory_available_mb :: "nat option"
  hb_storage_total_gb :: "nat option"
  hb_storage_available_gb :: "nat option"
  hb_vms :: nat

text \<open>\<open>total - available if total else None\<close> over the dict of one resource.\<close>

definition used_of :: "nat option \<Rightarrow> nat option \<Rightarrow> json" where
  "used_of tot avail = (case tot of
     None \<Rightarrow> JNull
   | Some t \<Rightarrow> if t = 0 then JNull
               else JInt (int t - int (case avail of None \<Rightarrow> 0 | Some a \<Rightarrow> a)))"

definition record_node_sample :: "node \<Rightarrow> heartbeat \<Rightarrow> unit op" where
  "record_node_sample n hb = metrics_record (node_key n)
     [(''cpu_percent'', case hb_cpu_percent hb of None \<Rightarrow> JNull | Some j \<Rightarrow> j),
      (''memory_used_mb'', used_of (hb_memory_total_mb hb) (hb_memory_available_mb hb)),
      (''memory_total_mb'', jopt_int (hb_memory_total_mb hb)),
      (''storage_used_gb'', used_of (hb_storage_total_gb hb) (hb_storage_available_gb hb))]"

definition record_vm_sample :: "virtual_machine \<Rightarrow> json \<Rightarrow> json \<Rightarrow> unit op" where
  "record_vm_sample vm cpu_percent memory_used_mb = metrics_record (vm_key vm)
     [(''cpu_percent'', cpu_percent), (''memory_used_mb'', memory_used_mb), (''disk_read_bytes'', JNull),
      (''disk_write_bytes'', JNull), (''net_rx_bytes'', JNull), (''net_tx_bytes'', JNull)]"

subsection \<open>Facts\<close>

lemma set_zinsert [simp]: "set (zinsert t m z) = insert (t, m) (set z)"
  by (induction z) (auto split: if_splits)

lemma zinsert_nonempty [simp]: "zinsert t m z \<noteq> []"
  by (cases z) (auto split: if_splits)

lemma sorted_zinsert: "sorted (map fst z) \<Longrightarrow> sorted (map fst (zinsert t m z))"
proof (induction z)
  case (Cons p z)
  then show ?case by (cases p) (fastforce simp: not_le)
qed simp

lemma sorted_filter_map: "sorted (map fst z) \<Longrightarrow> sorted (map fst (filter P z))"
  by (induction z) auto

lemma sorted_record_points:
  assumes "sorted (map fst z)"
  shows "sorted (map fst (record_points c t m z))"
proof -
  have "sorted (map fst (zexpire t r (zadd t m z)))" for r
    unfolding zexpire_def zadd_def by (intro sorted_filter_map sorted_zinsert assms)
  then show ?thesis by (simp add: record_points_def zcap_def drop_map [symmetric] sorted_wrt_drop)
qed

lemma length_record_points: "length (record_points c t m z) \<le> METRICS_SAMPLE_MAX_POINTS c"
  by (simp add: record_points_def zcap_def)

lemma record_points_fresh:
  "p \<in> set (record_points c t m z) \<Longrightarrow> t < fst p + METRICS_RETENTION_SECONDS c * 1000"
  by (auto simp: record_points_def zcap_def zexpire_def dest: in_set_dropD)

lemma record_points_origin: "p \<in> set (record_points c t m z) \<Longrightarrow> p = (t, m) \<or> p \<in> set z"
  by (auto simp: record_points_def zcap_def zexpire_def zadd_def dest: in_set_dropD)

text \<open>The newest point survives when no stored point lies in the future.\<close>

lemma zinsert_last: "\<forall>p \<in> set z. fst p \<le> t \<Longrightarrow> zinsert t m z = z @ [(t, m)]"
  by (induction z) auto

lemma record_points_newest:
  assumes "\<forall>p \<in> set z. fst p \<le> t" and "0 < METRICS_SAMPLE_MAX_POINTS c" and "0 < METRICS_RETENTION_SECONDS c"
  shows "(t, m) \<in> set (record_points c t m z)"
proof -
  let ?r = "METRICS_RETENTION_SECONDS c * 1000"
  have e: "zexpire t ?r (zadd t m z) = filter (\<lambda>p. t < fst p + ?r) (filter (\<lambda>p. snd p \<noteq> m) z) @ [(t, m)]"
    using assms(1,3) by (simp add: zexpire_def zadd_def zinsert_last)
  then have "record_points c t m z = drop (length (zexpire t ?r (zadd t m z)) - METRICS_SAMPLE_MAX_POINTS c)
      (filter (\<lambda>p. t < fst p + ?r) (filter (\<lambda>p. snd p \<noteq> m) z) @ [(t, m)])"
    by (simp add: record_points_def zcap_def)
  moreover have "length (zexpire t ?r (zadd t m z)) - METRICS_SAMPLE_MAX_POINTS c
      \<le> length (filter (\<lambda>p. t < fst p + ?r) (filter (\<lambda>p. snd p \<noteq> m) z))"
    using assms(2) unfolding e by simp
  ultimately show ?thesis by simp
qed

lemma keeps_metrics_record: "keeps job_safe (metrics_record k s)"
  unfolding metrics_record_def by (rule js.keeps_mod_plain) simp

lemma keeps_record_node_sample: "keeps job_safe (record_node_sample n hb)"
  by (simp add: record_node_sample_def keeps_metrics_record)

lemma keeps_record_vm_sample: "keeps job_safe (record_vm_sample vm c m)"
  by (simp add: record_vm_sample_def keeps_metrics_record)

subsection \<open>Properties\<close>

text \<open>
  Recording a sample keeps the series in time order, within the configured number of points and
  the retention window, keeps the new sample, and invents none.
\<close>

theorem metrics_window:
  assumes "sorted (map fst z)" and "\<forall>p \<in> set z. fst p \<le> t" and "0 < METRICS_SAMPLE_MAX_POINTS c" and "0 < METRICS_RETENTION_SECONDS c"
  shows "sorted (map fst (record_points c t m z)) \<and> length (record_points c t m z) \<le> METRICS_SAMPLE_MAX_POINTS c \<and>
    (t, m) \<in> set (record_points c t m z) \<and>
    (\<forall>p \<in> set (record_points c t m z). t < fst p + METRICS_RETENTION_SECONDS c * 1000 \<and> (p = (t, m) \<or> p \<in> set z))"
  using sorted_record_points [OF assms(1)] length_record_points record_points_newest [OF assms(2-4)]
    record_points_fresh record_points_origin by blast

theorem metrics_window_witness:
  "(90000, JNull) \<in> set (record_points NODEPILOT 90000 JNull [(1000, JInt 1), (80000, JInt 2)])"
  using metrics_window [of "[(1000, JInt 1), (80000, JInt 2)]" 90000 NODEPILOT JNull] by (simp add: NODEPILOT_def)

end
