(* ===== verification/Nodes.thy ===== *)
theory Nodes
  imports Metrics "HOL-Library.List_Lexorder"
begin

section \<open>Nodes: status, agent credentials, heartbeats, sweeps and reconciliation\<close>

text \<open>
  \<open>backend/apps/nodes/models.py\<close> (status and tokens), \<open>services.py\<close>, \<open>reconciliation.py\<close>,
  \<open>tasks.py\<close>, \<open>auth.py\<close> and the agent actions of \<open>views.py\<close>. The token hash (SHA-256) is a
  parameter \<open>hash\<close>; \<open>secrets.token_urlsafe\<close> draws from the world's supply of unpredictable strings.
\<close>

subsection \<open>Status\<close>

text \<open>\<open>Node.objects.all()\<close> comes in the order of \<open>Meta.ordering\<close>, by name.\<close>

definition nodes_by_name :: "db \<Rightarrow> (nat \<times> node) list" where
  "nodes_by_name d = sort_key (\<lambda>(k, n). nod_name n) (nodes d)"

definition effective_status :: "world \<Rightarrow> nat \<Rightarrow> node \<Rightarrow> NodeStatus" where
  "effective_status w nk n =
     (if nod_admin_state n = NA_DISABLED then NS_DISABLED
      else if nod_admin_state n = NA_MAINTENANCE then NS_MAINTENANCE
      else (case nod_last_seen n of
              None \<Rightarrow> NS_OFFLINE
            | Some seen \<Rightarrow>
                let threshold = int (OFFLINE_THRESHOLD_SECONDS (conf w)) * 1000;
                    age = int (clock w) - int seen
                in if age > threshold then NS_OFFLINE
                   else if 2 * age > threshold then NS_WARNING
                   else (case agent_of_node (wdb w) nk of
                           Some a \<Rightarrow> if agt_status a \<noteq> AS_ACTIVE then NS_WARNING else NS_ONLINE
                         | None \<Rightarrow> NS_ONLINE)))"

definition is_schedulable :: "world \<Rightarrow> nat \<Rightarrow> node \<Rightarrow> bool" where
  "is_schedulable w nk n \<longleftrightarrow> effective_status w nk n = NS_ONLINE \<and> nod_admin_state n = NA_ACTIVE"

definition broadcast_node_status :: "nat \<Rightarrow> node \<Rightarrow> unit op" where
  "broadcast_node_status nk n = bindM (getM (\<lambda>w. effective_status w nk n)) (\<lambda>st.
     group_send (''node_status.'' @ uuid n)
       (JObj [(''type'', JStr ''node.status''),
              (''data'', JObj [(''uuid'', JStr (uuid n)), (''status'', JStr (show_NodeStatus st)),
                 (''memory_available_mb'', JInt (int (nod_memory_available_mb n))),
                 (''storage_available_gb'', JInt (int (nod_storage_available_gb n))),
                 (''reported_vm_count'', JInt (int (nod_reported_vm_count n)))])]))"

subsection \<open>Agent credentials\<close>

definition generate_token :: "(string \<Rightarrow> string) \<Rightarrow> (string \<times> string \<times> string) op" where
  "generate_token hash = bindM uuid4 (\<lambda>secret.
     let raw = ''npa_'' @ secret in returnM (raw, hash raw, take (4 + 8) raw))"

text \<open>An update of an agent row, with the unique constraint on \<open>token_hash\<close>.\<close>

definition save_agent :: "nat \<Rightarrow> (agent \<Rightarrow> agent) \<Rightarrow> unit op" where
  "save_agent k f = bindM (getdb (\<lambda>d. row_get k (agents d))) (\<lambda>x. case x of
      None \<Rightarrow> raiseM (DatabaseError ''Save with update_fields did not affect any rows.'')
    | Some a \<Rightarrow> bindM (getdb (\<lambda>d. list_ex (\<lambda>(k', a'). k' \<noteq> k \<and> agt_token_hash a' = agt_token_hash (f a)) (agents d)))
        (\<lambda>clash. if clash then raiseM (IntegrityError ''agents.token_hash'')
                 else moddb (\<lambda>d. d\<lparr>agents := row_mod k f (agents d)\<rparr>)))"

definition rotate_token :: "(string \<Rightarrow> string) \<Rightarrow> nat \<Rightarrow> string op" where
  "rotate_token hash k = bindM (generate_token hash) (\<lambda>(raw, h, prefix).
     bindM (save_agent k (\<lambda>a. a\<lparr>agt_token_hash := h, agt_token_prefix := prefix\<rparr>)) (\<lambda>_. returnM raw))"

definition revoke_agent :: "nat \<Rightarrow> unit op" where
  "revoke_agent k = bindM now (\<lambda>t.
     save_agent k (\<lambda>a. a\<lparr>agt_status := AS_REVOKED, agt_revoked_at := Some t, agt_token_hash := ''''\<rparr>))"

text \<open>
  \<open>register_agent\<close>: the new row's empty \<open>token_hash\<close> is subject to the unique constraint, and the
  status and agent id assigned in memory are not among the fields \<open>rotate_token\<close> saves.
\<close>

definition get_or_create_agent :: "nat \<Rightarrow> nat op" where
  "get_or_create_agent nk = bindM (getdb (\<lambda>d. rows_where (\<lambda>a. agt_node a = nk) (agents d))) (\<lambda>rows.
     case rows of
       (k, a) # _ \<Rightarrow> returnM k
     | [] \<Rightarrow> bindM uuid4 (\<lambda>aid. bindM uuid4 (\<lambda>u. bindM now (\<lambda>t.
         bindM (getdb (\<lambda>d. list_ex (\<lambda>(k', a'). agt_token_hash a' = '''') (agents d))) (\<lambda>clash.
           if clash then raiseM (IntegrityError ''agents.token_hash'')
           else bindM fresh_pk (\<lambda>k.
             bindM (moddb (\<lambda>d. d\<lparr>agents := row_add k
               \<lparr> uuid = u, created_at = t, updated_at = t, agt_node = nk, agt_agent_id = Some aid,
                 agt_status = AS_ACTIVE, agt_token_hash = '''', agt_token_prefix = '''',
                 agt_certificate_fingerprint = '''', agt_mtls_enabled = False, agt_protocol_version = ''1.0'',
                 agt_last_heartbeat_at = None, agt_registered_at = t, agt_revoked_at = None \<rparr> (agents d)\<rparr>))
             (\<lambda>_. returnM k)))))))"

definition register_agent :: "(string \<Rightarrow> string) \<Rightarrow> nat \<Rightarrow> string op" where
  "register_agent hash nk = bindM (get_or_create_agent nk) (\<lambda>k. rotate_token hash k)"

definition show_AgentStatus :: "AgentStatus \<Rightarrow> string" where
  "show_AgentStatus s = (case s of AS_ACTIVE \<Rightarrow> ''ACTIVE'' | AS_DISABLED \<Rightarrow> ''DISABLED'' | AS_REVOKED \<Rightarrow> ''REVOKED''
     | AS_OFFLINE \<Rightarrow> ''OFFLINE'')"

text \<open>\<open>AgentTokenAuthentication\<close> after the header is split: unknown hash and inactive agent are
  both authentication failures.\<close>

definition agent_token_auth :: "(string \<Rightarrow> string) \<Rightarrow> db \<Rightarrow> string \<Rightarrow> exn + (nat \<times> agent)" where
  "agent_token_auth hash d raw =
     (case rows_where (\<lambda>a. agt_token_hash a = hash raw) (agents d) of
        [] \<Rightarrow> Inl (DrfExn 401 ''authentication_failed'' ''Invalid agent token.'')
      | (k, a) # _ \<Rightarrow>
          if agt_status a \<noteq> AS_ACTIVE
          then Inl (DrfExn 401 ''authentication_failed''
                 (''Agent is '' @ show_AgentStatus (agt_status a) @ '' and may not connect.''))
          else Inr (k, a))"

subsection \<open>Version gate\<close>

fun digits_val :: "nat \<Rightarrow> string \<Rightarrow> nat" where
  "digits_val acc [] = acc"
| "digits_val acc (c # cs) = digits_val (acc * 10 + (of_char c - 48)) cs"

definition version_tuple :: "string \<Rightarrow> nat list" where
  "version_tuple v = map (\<lambda>chunk. let ds = filter is_digit chunk in if ds = [] then 0 else digits_val 0 ds) (split_on CHR ''.'' v)"

text \<open>Python's tuple comparison.\<close>

fun tuple_less :: "nat list \<Rightarrow> nat list \<Rightarrow> bool" where
  "tuple_less xs [] = False"
| "tuple_less [] (y # ys) = True"
| "tuple_less (x # xs) (y # ys) = (x < y \<or> (x = y \<and> tuple_less xs ys))"

definition check_agent_version_compatible :: "string \<Rightarrow> unit op" where
  "check_agent_version_compatible v = bindM (getM (\<lambda>w. MIN_SUPPORTED_AGENT_VERSION (conf w))) (\<lambda>minimum.
     if tuple_less (version_tuple v) (version_tuple minimum)
     then raiseM (mk_api AgentVersionUnsupported
            (Some (''Agent version '' @ v @ '' is older than the minimum supported version '' @ minimum @ ''.''))
            (Some (JObj [(''agent_version'', JStr v), (''minimum_supported'', JStr minimum)])))
     else returnM ())"

subsection \<open>Heartbeats\<close>

definition opt_or :: "'a option \<Rightarrow> 'a \<Rightarrow> 'a" where
  "opt_or x d = (case x of None \<Rightarrow> d | Some a \<Rightarrow> a)"

definition heartbeat_node :: "heartbeat \<Rightarrow> nat \<Rightarrow> node \<Rightarrow> node" where
  "heartbeat_node hb t n = n\<lparr>
     nod_agent_version := hb_agent_version hb, nod_kernel := hb_kernel hb,
     nod_architecture := hb_architecture hb,
     nod_cpu_model := opt_or (hb_cpu_model hb) (nod_cpu_model n),
     nod_cpu_threads := opt_or (hb_cpu_threads hb) (nod_cpu_threads n),
     nod_cpu_cores := opt_or (hb_cpu_cores hb) (nod_cpu_cores n),
     nod_cpu_sockets := opt_or (hb_cpu_sockets hb) (nod_cpu_sockets n),
     nod_memory_total_mb := opt_or (hb_memory_total_mb hb) (nod_memory_total_mb n),
     nod_memory_available_mb := opt_or (hb_memory_available_mb hb) (nod_memory_available_mb n),
     nod_storage_total_gb := opt_or (hb_storage_total_gb hb) (nod_storage_total_gb n),
     nod_storage_available_gb := opt_or (hb_storage_available_gb hb) (nod_storage_available_gb n),
     nod_reported_vm_count := hb_vms hb, nod_last_seen := Some t, updated_at := t\<rparr>"

definition record_heartbeat :: "nat \<Rightarrow> agent \<Rightarrow> heartbeat \<Rightarrow> node op" where
  "record_heartbeat ak a hb = atomicM
     (bindM (check_agent_version_compatible (hb_agent_version hb)) (\<lambda>_.
      bindM (get_row ''Node'' nodes (agt_node a)) (\<lambda>n.
      bindM (getM (\<lambda>w. effective_status w (agt_node a) n = NS_ONLINE)) (\<lambda>was_online.
      bindM now (\<lambda>t.
      let n' = heartbeat_node hb t n in
      bindM (moddb (\<lambda>d. d\<lparr>nodes := row_mod (agt_node a) (\<lambda>_. n') (nodes d)\<rparr>)) (\<lambda>_.
      bindM (save_row agents agents_update ak (\<lambda>r. r\<lparr>agt_last_heartbeat_at := Some t,
               agt_protocol_version := hb_protocol_version hb\<rparr>)) (\<lambda>_.
      bindM (tryM (record_node_sample n' hb) (\<lambda>_. returnM ())) (\<lambda>_.
      bindM (if \<not> was_online
             then bindM (emit_event ''NODE_ONLINE'' EV_INFO ''Node'' (uuid n') (nod_organization n') None
                           [(''hostname'', JStr (nod_hostname n'))]) (\<lambda>_. returnM ())
             else returnM ()) (\<lambda>_.
      bindM (broadcast_node_status (agt_node a) n') (\<lambda>_. returnM n'))))))))))"

text \<open>\<open>mark_offline_if_stale\<close>: one \<open>NODE_OFFLINE\<close> per time the node was last seen.\<close>

definition offline_notified :: "db \<Rightarrow> node \<Rightarrow> bool" where
  "offline_notified d n = list_ex (\<lambda>(k, e). evt_type e = ''NODE_OFFLINE'' \<and> evt_resource_type e = ''Node'' \<and>
     evt_resource_id e = uuid n \<and> opt_or (nod_last_seen n) (created_at n) \<le> created_at e) (events d)"

definition mark_offline_if_stale :: "nat \<Rightarrow> node \<Rightarrow> bool op" where
  "mark_offline_if_stale nk n = bindM (getM (\<lambda>w. effective_status w nk n)) (\<lambda>st.
     if st \<noteq> NS_OFFLINE then returnM False
     else bindM (getdb (\<lambda>d. offline_notified d n)) (\<lambda>already.
       if already then returnM False
       else bindM (emit_event ''NODE_OFFLINE'' EV_CRITICAL ''Node'' (uuid n) (nod_organization n) None
                     [(''hostname'', JStr (nod_hostname n)), (''last_seen'', jopt_int (nod_last_seen n))]) (\<lambda>_.
            bindM (broadcast_node_status nk n) (\<lambda>_. returnM True))))"

text \<open>How many of a list of effectful tests came out true: the counters of the sweeps.\<close>

definition countM :: "('a \<Rightarrow> bool op) \<Rightarrow> 'a list \<Rightarrow> nat op" where
  "countM f xs = bindM (mapM f xs) (\<lambda>bs. returnM (length (filter id bs)))"

definition sweep_offline_nodes :: "nat op" where
  "sweep_offline_nodes = bindM (getdb (\<lambda>d. rows_where (\<lambda>n. nod_admin_state n \<notin> {NA_MAINTENANCE, NA_DISABLED}) (nodes_by_name d)))
     (countM (\<lambda>(nk, n). mark_offline_if_stale nk n))"

record vm_sample =
  smp_domain_uuid :: string
  smp_cpu_percent :: json
  smp_memory_used_mb :: json

definition vm_of_domain :: "db \<Rightarrow> nat \<Rightarrow> string \<Rightarrow> virtual_machine option" where
  "vm_of_domain d nk u = (case rows_where (\<lambda>v. vm_node v = Some nk \<and> vm_domain_uuid v = u) (vms d) of
     [] \<Rightarrow> None | (k, v) # _ \<Rightarrow> Some v)"

definition record_vm_metrics_batch :: "agent \<Rightarrow> vm_sample list \<Rightarrow> nat op" where
  "record_vm_metrics_batch a samples = countM (\<lambda>s.
     bindM (getdb (\<lambda>d. vm_of_domain d (agt_node a) (smp_domain_uuid s))) (\<lambda>x. case x of
        None \<Rightarrow> returnM False
      | Some vm \<Rightarrow> bindM (record_vm_sample vm (smp_cpu_percent s) (smp_memory_used_mb s)) (\<lambda>_. returnM True))) samples"

subsection \<open>Reconciliation\<close>

definition db_vm_count :: "db \<Rightarrow> nat \<Rightarrow> nat" where
  "db_vm_count d nk = length (rows_where (\<lambda>v. vm_node v = Some nk \<and> vm_status v \<noteq> VS_DELETING) (vms d))"

definition reconcile_node :: "nat \<Rightarrow> node \<Rightarrow> bool op" where
  "reconcile_node nk n = bindM (getM (\<lambda>w. effective_status w nk n)) (\<lambda>st.
     if st \<noteq> NS_ONLINE then returnM False
     else bindM (getdb (\<lambda>d. db_vm_count d nk)) (\<lambda>c.
       if c = nod_reported_vm_count n then returnM False
       else bindM (emit_event ''RECONCILIATION_MISMATCH'' EV_WARNING ''Node'' (uuid n) (nod_organization n) None
              [(''database_vm_count'', JInt (int c)), (''agent_reported_vm_count'', JInt (int (nod_reported_vm_count n)))])
            (\<lambda>_. returnM True)))"

definition reconcile_all :: "nat op" where
  "reconcile_all = bindM (getdb nodes_by_name) (countM (\<lambda>(nk, n). reconcile_node nk n))"

subsection \<open>Frames\<close>

lemma keeps_countM: "(\<And>x. keeps job_safe (f x)) \<Longrightarrow> keeps job_safe (countM f xs)"
  unfolding countM_def by (intro op_frame)

lemma keeps_sweeps: "keeps job_safe sweep_offline_nodes" "keeps job_safe reconcile_all"
  unfolding sweep_offline_nodes_def mark_offline_if_stale_def reconcile_all_def reconcile_node_def broadcast_node_status_def
  by (intro op_frame event_frame keeps_countM keeps_case_prod)+

subsection \<open>Facts\<close>

lemma tuple_less_lexord: "tuple_less xs ys \<longleftrightarrow> xs < ys"
  by (induction xs ys rule: tuple_less.induct) auto

context off_events
begin

lemma so_reconcile_all: "keeps (same_on f) reconcile_all"
proof -
  have "keeps (same_on f) (case x of (nk, n) \<Rightarrow> reconcile_node nk n)" for x
    unfolding reconcile_node_def by (cases x) (simp only: prod.case, intro so_frame so_emit_event)
  then show ?thesis unfolding reconcile_all_def countM_def by (intro so_frame)
qed

lemma so_sweep_offline_nodes: "keeps (same_on f) sweep_offline_nodes"
proof -
  have "keeps (same_on f) (case x of (nk, n) \<Rightarrow> mark_offline_if_stale nk n)" for x
    unfolding mark_offline_if_stale_def broadcast_node_status_def
    by (cases x) (simp only: prod.case, intro so_frame so_emit_event)
  then show ?thesis unfolding sweep_offline_nodes_def countM_def by (intro so_frame)
qed

end

lemma offline_seen_before:
  "effective_status w nk n = NS_OFFLINE \<Longrightarrow> nod_last_seen n = Some seen \<Longrightarrow> seen < clock w"
  by (auto simp: effective_status_def Let_def split: if_splits option.splits)

lemma mark_offline_True:
  assumes "mark_offline_if_stale nk n w = (Inr True, w')" and "created_at n \<le> clock w"
  shows "offline_notified (wdb w') n"
proof -
  have off: "effective_status w nk n = NS_OFFLINE"
    using assms(1) by (auto simp: mark_offline_if_stale_def split: if_splits)
  obtain e w1 where e: "emit_event ''NODE_OFFLINE'' EV_CRITICAL ''Node'' (uuid n) (nod_organization n) None
        [(''hostname'', JStr (nod_hostname n)), (''last_seen'', jopt_int (nod_last_seen n))] w = (Inr e, w1)"
      "events (wdb w1) = events (wdb w) @ [(next_pk (wdb w), e)]" "evt_type e = ''NODE_OFFLINE''"
      "evt_resource_type e = ''Node''" "evt_resource_id e = uuid n" "created_at e = clock w"
    using emit_event_run by blast
  have "wdb w' = wdb w1"
    using assms(1) off e(1)
    by (auto simp: mark_offline_if_stale_def bindM_def broadcast_node_status_def group_send_def split: if_splits)
  moreover have "opt_or (nod_last_seen n) (created_at n) \<le> clock w"
    using offline_seen_before [OF off] assms(2) by (auto simp: opt_or_def less_imp_le split: option.splits)
  ultimately show ?thesis using e(2-6) by (simp add: offline_notified_def)
qed

lemma rows_where_unique:
  assumes "distinct (map fst t)" and "row_get k t = Some r" and "p r" and "\<And>k' r'. (k', r') \<in> set t \<Longrightarrow> p r' \<Longrightarrow> k' = k"
  shows "rows_where p t = [(k, r)]"
  using assms
proof (induction t)
  case (Cons kr t)
  obtain k0 r0 where kr: "kr = (k0, r0)" by fastforce
  show ?case
  proof (cases "k0 = k")
    case True
    have "\<not> p r'" if "(k', r') \<in> set t" for k' r'
      using Cons.prems(1,4) that kr True by (metis fst_conv image_eqI list.set_intros(2) list.simps(9) distinct.simps(2) set_map)
    then have "rows_where p t = []" by (auto simp: rows_where_def filter_empty_conv)
    with True kr Cons.prems(2,3) show ?thesis by (simp add: rows_where_def)
  next
    case False
    then have "\<not> p r0" using Cons.prems(4) kr by auto
    moreover have "rows_where p t = [(k, r)]"
      using Cons.prems kr False by (intro Cons.IH) auto
    ultimately show ?thesis using kr by (simp add: rows_where_def)
  qed
qed simp

lemma save_agent_Inr:
  assumes "save_agent k f w = (Inr (), w')"
  obtains a where "row_get k (agents (wdb w)) = Some a" and "w' = db_upd (\<lambda>d. d\<lparr>agents := row_mod k f (agents d)\<rparr>) w"
    and "\<And>k' a'. (k', a') \<in> set (agents (wdb w)) \<Longrightarrow> agt_token_hash a' = agt_token_hash (f a) \<Longrightarrow> k' = k"
  using assms by (auto simp: save_agent_def list_ex_iff split: option.splits if_splits)

subsection \<open>Properties\<close>

text \<open>
  C38. An outage is reported once: after \<open>mark_offline_if_stale\<close> has emitted \<open>NODE_OFFLINE\<close>, running it
  again for the same node, at any later time and as often as the sweep does, emits nothing.
\<close>

theorem offline_reported_once:
  assumes "mark_offline_if_stale nk n w = (Inr True, w')" and "created_at n \<le> clock w"
  shows "mark_offline_if_stale nk n (w'\<lparr>clock := t\<rparr>) = (Inr False, w'\<lparr>clock := t\<rparr>)"
  using mark_offline_True [OF assms] by (simp add: mark_offline_if_stale_def)

definition ex_stale :: world where
  "ex_stale = ex_world\<lparr>clock := 200000\<rparr>"

theorem offline_reported_once_witness:
  "fst (mark_offline_if_stale 10 ex_node ex_stale) = Inr True \<and>
   mark_offline_if_stale 10 ex_node ((snd (mark_offline_if_stale 10 ex_node ex_stale))\<lparr>clock := 250000\<rparr>) =
     (Inr False, (snd (mark_offline_if_stale 10 ex_node ex_stale))\<lparr>clock := 250000\<rparr>)"
proof -
  have off: "effective_status ex_stale 10 ex_node = NS_OFFLINE"
    by (simp add: effective_status_def ex_stale_def ex_node_def NODEPILOT_def)
  have no: "\<not> offline_notified (wdb ex_stale) ex_node" by (simp add: offline_notified_def ex_stale_def)
  obtain e w1 where "emit_event ''NODE_OFFLINE'' EV_CRITICAL ''Node'' (uuid ex_node) (nod_organization ex_node) None
        [(''hostname'', JStr (nod_hostname ex_node)), (''last_seen'', jopt_int (nod_last_seen ex_node))] ex_stale = (Inr e, w1)"
    using emit_event_run by blast
  with off no have "\<exists>w'. mark_offline_if_stale 10 ex_node ex_stale = (Inr True, w')"
    by (simp add: mark_offline_if_stale_def bindM_def broadcast_node_status_def group_send_def)
  then obtain w' where w': "mark_offline_if_stale 10 ex_node ex_stale = (Inr True, w')" ..
  have "mark_offline_if_stale 10 ex_node (w'\<lparr>clock := 250000\<rparr>) = (Inr False, w'\<lparr>clock := 250000\<rparr>)"
    by (rule offline_reported_once [OF w']) (simp add: ex_stale_def ex_node_def)
  with w' show ?thesis by simp
qed

text \<open>
  Reconciliation and the offline sweep only report: they never change a VM, a node or an agent.
\<close>

theorem reconciliation_reports_only:
  "vms (wdb (snd (reconcile_all w))) = vms (wdb w) \<and> nodes (wdb (snd (reconcile_all w))) = nodes (wdb w) \<and>
   vms (wdb (snd (sweep_offline_nodes w))) = vms (wdb w) \<and> nodes (wdb (snd (sweep_offline_nodes w))) = nodes (wdb w) \<and>
   agents (wdb (snd (sweep_offline_nodes w))) = agents (wdb w)"
  by (intro conjI same_onD2 t_vms.so_reconcile_all t_nodes.so_reconcile_all t_vms.so_sweep_offline_nodes
      t_nodes.so_sweep_offline_nodes t_agents.so_sweep_offline_nodes)

text \<open>
  The agent version gate compares the numeric components lexicographically: a heartbeat of an older
  version is refused and leaves the database as it was, any other passes the gate.
\<close>

theorem version_gate:
  "if version_tuple (hb_agent_version hb) < version_tuple (MIN_SUPPORTED_AGENT_VERSION (conf w))
   then (\<exists>m d. fst (record_heartbeat ak a hb w) = Inl (mk_api AgentVersionUnsupported m d)) \<and>
     wdb (snd (record_heartbeat ak a hb w)) = wdb w
   else check_agent_version_compatible (hb_agent_version hb) w = (Inr (), w)"
  by (auto simp: record_heartbeat_def check_agent_version_compatible_def tuple_less_lexord atomicM_def bindM_def)

text \<open>
  Rotating an agent's token: the new token authenticates as that agent while it is active, and no
  token with another hash does any more.
\<close>

theorem rotate_token_replaces:
  assumes "rotate_token hash k w = (Inr raw, w')" and "distinct (map fst (agents (wdb w)))"
  shows "(\<forall>tok a'. agent_token_auth hash (wdb w') tok = Inr (k, a') \<longrightarrow> hash tok = hash raw) \<and>
    (\<forall>a. row_get k (agents (wdb w)) = Some a \<longrightarrow> agt_status a = AS_ACTIVE \<longrightarrow>
       (\<exists>a'. agent_token_auth hash (wdb w') raw = Inr (k, a') \<and> agt_node a' = agt_node a))"
proof -
  obtain p where s: "save_agent k (\<lambda>a. a\<lparr>agt_token_hash := hash raw, agt_token_prefix := p\<rparr>) (w\<lparr>uuid_next := uuid_next w + 1\<rparr>) = (Inr (), w')"
    using assms(1) by (auto simp: rotate_token_def generate_token_def Let_def bindM_def split: prod.splits sum.splits)
  let ?f = "\<lambda>a::agent. a\<lparr>agt_token_hash := hash raw, agt_token_prefix := p\<rparr>"
  obtain a where a: "row_get k (agents (wdb w)) = Some a"
    and w': "agents (wdb w') = row_mod k ?f (agents (wdb w))"
    and u: "\<And>k' a'. (k', a') \<in> set (agents (wdb w)) \<Longrightarrow> agt_token_hash a' = hash raw \<Longrightarrow> k' = k"
    using s by (rule save_agent_Inr) auto
  have row: "agt_token_hash a' = hash raw" if "(k, a') \<in> set (agents (wdb w'))" for a'
    using that unfolding w' by (auto elim!: row_mod_memE)
  have "rows_where (\<lambda>a. agt_token_hash a = hash raw) (agents (wdb w')) = [(k, ?f a)]"
  proof (rule rows_where_unique)
    show "k' = k" if "(k', r') \<in> set (agents (wdb w'))" "agt_token_hash r' = hash raw" for k' r'
      using that u unfolding w' by (auto elim!: row_mod_memE split: if_splits)
  qed (use assms(2) a in \<open>simp_all add: w' tbl.get_md\<close>)
  then have new: "agt_status a = AS_ACTIVE \<Longrightarrow> agent_token_auth hash (wdb w') raw = Inr (k, ?f a)"
    by (simp add: agent_token_auth_def)
  have old: "hash tok = hash raw" if t: "agent_token_auth hash (wdb w') tok = Inr (k, a')" for tok a'
  proof -
    have "(k, a') \<in> set (rows_where (\<lambda>a. agt_token_hash a = hash tok) (agents (wdb w')))"
      using t by (auto simp: agent_token_auth_def split: list.splits if_splits)
    then show ?thesis using row [of a'] unfolding rows_where_iff by simp
  qed
  show ?thesis
  proof (intro conjI allI impI)
    show "hash tok = hash raw" if "agent_token_auth hash (wdb w') tok = Inr (k, a')" for tok a' using that by (rule old)
    show "\<exists>a'. agent_token_auth hash (wdb w') raw = Inr (k, a') \<and> agt_node a' = agt_node b"
      if "row_get k (agents (wdb w)) = Some b" "agt_status b = AS_ACTIVE" for b
      using that a new by (intro exI [of _ "?f a"]) simp
  qed
qed

theorem rotate_token_replaces_witness:
  "\<exists>raw w'. rotate_token (\<lambda>t. t) 11 ex_world = (Inr raw, w') \<and>
     (\<forall>tok a'. agent_token_auth (\<lambda>t. t) (wdb w') tok = Inr (11, a') \<longrightarrow> tok = raw)"
proof -
  obtain raw w' where r: "rotate_token (\<lambda>t. t) 11 ex_world = (Inr raw, w')"
    by (simp add: rotate_token_def generate_token_def Let_def bindM_def save_agent_def)
  have "distinct (map fst (agents (wdb ex_world)))" by simp
  from rotate_token_replaces [OF r this] r show ?thesis by auto
qed

text \<open>
  Registering again does not bring a revoked agent back: a fresh token is issued, and that token is
  refused because the stored status is still \<open>REVOKED\<close>.
\<close>

theorem reregistered_agent_stays_revoked:
  assumes "rows_where (\<lambda>a. agt_node a = nk) (agents (wdb w)) = [(k, a)]" and "agt_status a = AS_REVOKED"
    and "distinct (map fst (agents (wdb w)))" and "register_agent hash nk w = (Inr raw, w')"
  shows "agent_token_auth hash (wdb w') raw =
     Inl (DrfExn 401 ''authentication_failed'' ''Agent is REVOKED and may not connect.'')"
proof -
  have mem: "(k, a) \<in> set (agents (wdb w))"
    using assms(1) rows_where_iff [of k a "\<lambda>a. agt_node a = nk" "agents (wdb w)"] by simp
  then have ka: "row_get k (agents (wdb w)) = Some a" using assms(3) by (simp add: row_get_def)
  obtain p where s: "save_agent k (\<lambda>a. a\<lparr>agt_token_hash := hash raw, agt_token_prefix := p\<rparr>) (w\<lparr>uuid_next := uuid_next w + 1\<rparr>) = (Inr (), w')"
    using assms(1,4) by (auto simp: register_agent_def get_or_create_agent_def rotate_token_def generate_token_def Let_def bindM_def
        split: prod.splits sum.splits)
  let ?f = "\<lambda>a::agent. a\<lparr>agt_token_hash := hash raw, agt_token_prefix := p\<rparr>"
  obtain a0 where w': "agents (wdb w') = row_mod k ?f (agents (wdb w))"
    and u: "\<And>k' a'. (k', a') \<in> set (agents (wdb w)) \<Longrightarrow> agt_token_hash a' = hash raw \<Longrightarrow> k' = k"
    using s by (rule save_agent_Inr) auto
  have "rows_where (\<lambda>a. agt_token_hash a = hash raw) (agents (wdb w')) = [(k, ?f a)]"
  proof (rule rows_where_unique)
    show "k' = k" if "(k', r') \<in> set (agents (wdb w'))" "agt_token_hash r' = hash raw" for k' r'
      using that u unfolding w' by (auto elim!: row_mod_memE split: if_splits)
  qed (use assms(3) ka in \<open>simp_all add: w' tbl.get_md\<close>)
  then show ?thesis using assms(2) by (simp add: agent_token_auth_def show_AgentStatus_def)
qed

definition ex_revoked :: world where
  "ex_revoked = db_upd (\<lambda>d. d\<lparr>agents := [(11, ex_agent\<lparr>agt_status := AS_REVOKED, agt_token_hash := ''''\<rparr>)]\<rparr>) ex_world"

theorem reregistered_agent_stays_revoked_witness:
  "\<exists>raw w'. register_agent (\<lambda>t. t) 10 ex_revoked = (Inr raw, w') \<and>
     agent_token_auth (\<lambda>t. t) (wdb w') raw =
       Inl (DrfExn 401 ''authentication_failed'' ''Agent is REVOKED and may not connect.'')"
proof -
  obtain raw w' where r: "register_agent (\<lambda>t. t) 10 ex_revoked = (Inr raw, w')"
    by (simp add: register_agent_def get_or_create_agent_def rotate_token_def generate_token_def Let_def bindM_def
        save_agent_def ex_revoked_def rows_where_def ex_agent_def)
  have "agent_token_auth (\<lambda>t. t) (wdb w') raw =
      Inl (DrfExn 401 ''authentication_failed'' ''Agent is REVOKED and may not connect.'')"
    by (rule reregistered_agent_stays_revoked [OF _ _ _ r, where k = 11 and
        a = "ex_agent\<lparr>agt_status := AS_REVOKED, agt_token_hash := ''''\<rparr>"])
      (simp_all add: ex_revoked_def rows_where_def ex_agent_def)
  with r show ?thesis by blast
qed

text \<open>
  At most one agent of the whole installation can be revoked: the revoked agent's empty token hash is
  subject to the unique constraint, so that revoking a second one fails.
\<close>

theorem second_revocation_fails:
  assumes "row_get k (agents (wdb w)) = Some a" and "(k', a') \<in> set (agents (wdb w))" and "k' \<noteq> k"
    and "agt_token_hash a' = ''''"
  shows "revoke_agent k w = (Inl (IntegrityError ''agents.token_hash''), w)"
  using assms by (auto simp: revoke_agent_def save_agent_def list_ex_iff)

definition ex_two_agents :: world where
  "ex_two_agents = db_upd (\<lambda>d. d\<lparr>agents := [(11, ex_agent),
     (12, ex_agent\<lparr>agt_node := 99, agt_status := AS_REVOKED, agt_token_hash := ''''\<rparr>)]\<rparr>) ex_world"

theorem second_revocation_fails_witness:
  "revoke_agent 11 ex_two_agents = (Inl (IntegrityError ''agents.token_hash''), ex_two_agents)"
  by (rule second_revocation_fails [where a = ex_agent and k' = 12 and
        a' = "ex_agent\<lparr>agt_node := 99, agt_status := AS_REVOKED, agt_token_hash := ''''\<rparr>"])
    (simp_all add: ex_two_agents_def)

text \<open>What one agent's VM metrics may touch: the series of the VMs on its own node.\<close>

definition metrics_scoped :: "nat \<Rightarrow> world \<Rightarrow> world \<Rightarrow> bool" where
  "metrics_scoped nk w w' \<longleftrightarrow> wdb w' = wdb w \<and> clock w' = clock w \<and>
     (\<forall>key. redis_lookup w' key \<noteq> redis_lookup w key \<longrightarrow>
        (\<exists>k v. (k, v) \<in> set (vms (wdb w)) \<and> vm_node v = Some nk \<and> key = vm_key v))"

interpretation ms: frame "metrics_scoped nk" for nk
  by unfold_locales (auto simp: metrics_scoped_def, metis)

lemma vm_of_domain_mem: "vm_of_domain d nk u = Some v \<Longrightarrow> \<exists>k. (k, v) \<in> set (vms d) \<and> vm_node v = Some nk \<and> vm_domain_uuid v = u"
proof -
  assume "vm_of_domain d nk u = Some v"
  then obtain k rest where "rows_where (\<lambda>v. vm_node v = Some nk \<and> vm_domain_uuid v = u) (vms d) = (k, v) # rest"
    by (auto simp: vm_of_domain_def split: list.splits)
  then have "(k, v) \<in> set (rows_where (\<lambda>v. vm_node v = Some nk \<and> vm_domain_uuid v = u) (vms d))" by simp
  then show ?thesis unfolding rows_where_iff by blast
qed

lemma metrics_record_scoped:
  "vm_of_domain (wdb w) nk u = Some v \<Longrightarrow> metrics_scoped nk w (snd (record_vm_sample v c m w))"
  by (auto simp: metrics_scoped_def record_vm_sample_def metrics_record_def redis_lookup_put dest!: vm_of_domain_mem
      split: if_splits)

text \<open>
  An agent can report metrics only for VMs on its own node: every Redis key that a batch changes is the
  series of a VM whose row names the agent's node, and the database is not touched.
\<close>

theorem metrics_batch_scoped:
  assumes "redis_lookup (snd (record_vm_metrics_batch a samples w)) key \<noteq> redis_lookup w key"
  shows "wdb (snd (record_vm_metrics_batch a samples w)) = wdb w \<and>
     (\<exists>k v. (k, v) \<in> set (vms (wdb w)) \<and> vm_node v = Some (agt_node a) \<and> key = vm_key v)"
proof -
  have one: "keeps (metrics_scoped nk) (bindM (getdb (\<lambda>d. vm_of_domain d nk (smp_domain_uuid s))) (\<lambda>x. case x of
        None \<Rightarrow> returnM False
      | Some vm \<Rightarrow> bindM (record_vm_sample vm (smp_cpu_percent s) (smp_memory_used_mb s)) (\<lambda>_. returnM True)))" for nk s
    unfolding keeps_def
  proof
    fix w
    show "metrics_scoped nk w (snd (bindM (getdb (\<lambda>d. vm_of_domain d nk (smp_domain_uuid s))) (\<lambda>x. case x of
        None \<Rightarrow> returnM False
      | Some vm \<Rightarrow> bindM (record_vm_sample vm (smp_cpu_percent s) (smp_memory_used_mb s)) (\<lambda>_. returnM True)) w))"
      using metrics_record_scoped [of w nk "smp_domain_uuid s"]
      by (cases "vm_of_domain (wdb w) nk (smp_domain_uuid s)")
        (auto simp: bindM_def ms.R_refl record_vm_sample_def metrics_record_def)
  qed
  have "keeps (metrics_scoped (agt_node a)) (record_vm_metrics_batch a samples)"
    unfolding record_vm_metrics_batch_def countM_def by (intro ms.keeps_bind ms.keeps_map one ms.keeps_return)
  then show ?thesis using assms by (auto dest!: keepsD2 [where w = w] simp: metrics_scoped_def)
qed

definition ex_sample :: vm_sample where
  "ex_sample = \<lparr> smp_domain_uuid = ''d1'', smp_cpu_percent = JInt 7, smp_memory_used_mb = JInt 512 \<rparr>"

lemma ex_sample_vm: "vm_of_domain ex_db 10 ''d1'' = Some ex_vm"
  by (simp add: vm_of_domain_def rows_where_def ex_vm_def)

lemma ex_sample_point:
  "redis_lookup (snd (record_vm_metrics_batch ex_agent [ex_sample] ex_world)) (vm_key ex_vm) \<noteq> redis_lookup ex_world (vm_key ex_vm)"
proof -
  have "agt_node ex_agent = 10" by (simp add: ex_agent_def)
  then have "snd (record_vm_metrics_batch ex_agent [ex_sample] ex_world) =
      snd (record_vm_sample ex_vm (JInt 7) (JInt 512) ex_world)"
    by (simp add: record_vm_metrics_batch_def countM_def bindM_def ex_sample_def ex_sample_vm record_vm_sample_def
        metrics_record_def)
  then show ?thesis
    by (simp add: record_vm_sample_def metrics_record_def redis_lookup_put NODEPILOT_def)
      (simp add: redis_lookup_def ex_redis vm_key_def)
qed

theorem metrics_batch_scoped_witness:
  "redis_lookup (snd (record_vm_metrics_batch ex_agent [ex_sample] ex_world)) (vm_key ex_vm) \<noteq> redis_lookup ex_world (vm_key ex_vm) \<and>
   (\<exists>k v. (k, v) \<in> set (vms (wdb ex_world)) \<and> vm_node v = Some (agt_node ex_agent) \<and> vm_key ex_vm = vm_key v)"
  using metrics_batch_scoped [OF ex_sample_point] ex_sample_point by blast

end
