(* ===== verification/Quota.thy ===== *)
theory Quota
  imports Nodes
begin

section \<open>Quota: live usage and the admission check\<close>

text \<open>
  \<open>backend/apps/organizations/services.py\<close>. Usage is recomputed from the VM, disk and snapshot
  tables at every check; sizes are floored to GiB once, over the whole sum. A project without a
  quota of its own is checked against the organization-wide row.
\<close>

record QuotaUsage =
  usage_vms :: int
  usage_vcpu :: int
  usage_memory_mb :: int
  usage_storage_gb :: int
  usage_snapshots :: int

definition GiB :: int where
  "GiB = 1024 ^ 3"

definition first_row :: "(nat \<times> 'r) list \<Rightarrow> 'r option" where
  "first_row rs = (case rs of [] \<Rightarrow> None | (k, r) # _ \<Rightarrow> Some r)"

definition effective_quota :: "db \<Rightarrow> nat \<Rightarrow> nat option \<Rightarrow> quota option" where
  "effective_quota d org prj =
     (let orgwide = first_row (rows_where (\<lambda>q. quo_organization q = org \<and> quo_project q = None) (quotas d))
      in case prj of
           None \<Rightarrow> orgwide
         | Some p \<Rightarrow> (case first_row (rows_where (\<lambda>q. quo_organization q = org \<and> quo_project q = Some p) (quotas d)) of
             Some q \<Rightarrow> Some q | None \<Rightarrow> orgwide))"

definition counted_vms :: "db \<Rightarrow> nat \<Rightarrow> nat option \<Rightarrow> (nat \<times> virtual_machine) list" where
  "counted_vms d org prj = rows_where (\<lambda>v. vm_organization v = org \<and> vm_status v \<noteq> VS_DELETING \<and>
     (case prj of None \<Rightarrow> True | Some p \<Rightarrow> vm_project v = p)) (vms d)"

definition vm_disk_bytes :: "db \<Rightarrow> nat \<Rightarrow> int" where
  "vm_disk_bytes d k = sum_list (map (\<lambda>(dk, disk). dsk_size_bytes disk) (rows_where (\<lambda>disk. dsk_vm disk = k) (disks d)))"

definition vm_snapshot_count :: "db \<Rightarrow> nat \<Rightarrow> int" where
  "vm_snapshot_count d k = int (length (rows_where (\<lambda>s. snp_vm s = k) (snapshots d)))"

definition current_usage :: "db \<Rightarrow> nat \<Rightarrow> nat option \<Rightarrow> QuotaUsage" where
  "current_usage d org prj =
     (let vs = counted_vms d org prj
      in \<lparr> usage_vms = int (length vs),
           usage_vcpu = sum_list (map (\<lambda>(k, v). int (vm_cpu_count v)) vs),
           usage_memory_mb = sum_list (map (\<lambda>(k, v). int (vm_memory_mb v)) vs),
           usage_storage_gb = sum_list (map (\<lambda>(k, v). vm_disk_bytes d k) vs) div GiB,
           usage_snapshots = sum_list (map (\<lambda>(k, v). vm_snapshot_count d k) vs) \<rparr>)"

record additional =
  add_vms :: int
  add_vcpu :: int
  add_memory_mb :: int
  add_storage_gb :: int
  add_snapshots :: int

definition no_additional :: additional where
  "no_additional = \<lparr> add_vms = 0, add_vcpu = 0, add_memory_mb = 0, add_storage_gb = 0, add_snapshots = 0 \<rparr>"

text \<open>The list \<open>checks\<close>: field, limit, projected value, label.\<close>

definition quota_checks :: "quota \<Rightarrow> QuotaUsage \<Rightarrow> additional \<Rightarrow> (string \<times> int \<times> int \<times> string) list" where
  "quota_checks q u a =
     [(''max_vms'', int (max_vms q), usage_vms u + add_vms a, ''VMs''),
      (''max_vcpu'', int (max_vcpu q), usage_vcpu u + add_vcpu a, ''vCPUs''),
      (''max_memory_mb'', int (max_memory_mb q), usage_memory_mb u + add_memory_mb a, ''MB of memory''),
      (''max_storage_gb'', int (max_storage_gb q), usage_storage_gb u + add_storage_gb a, ''GB of storage''),
      (''max_snapshots'', int (max_snapshots q), usage_snapshots u + add_snapshots a, ''snapshots'')]"

definition quota_error :: "string \<times> int \<times> int \<times> string \<Rightarrow> exn" where
  "quota_error c = (case c of (field, limit, projected, label) \<Rightarrow>
     mk_api QuotaExceeded
       (Some (''This operation would use '' @ show_int projected @ '' '' @ label @ '', exceeding the quota of '' @
              show_int limit @ ''.''))
       (Some (JObj [(''field'', JStr field), (''limit'', JInt limit), (''projected'', JInt projected)])))"

definition assert_quota_available :: "nat \<Rightarrow> nat option \<Rightarrow> additional \<Rightarrow> unit op" where
  "assert_quota_available org prj a = bindM (getdb (\<lambda>d. effective_quota d org prj)) (\<lambda>q. case q of
      None \<Rightarrow> returnM ()
    | Some quota \<Rightarrow> bindM (getdb (\<lambda>d. current_usage d org prj)) (\<lambda>usage.
        case filter (\<lambda>(f, limit, projected, l). limit < projected) (quota_checks quota usage a) of
          [] \<Rightarrow> returnM ()
        | c # _ \<Rightarrow> raiseM (quota_error c)))"

text \<open>\<open>locked_quota_for\<close> takes the row lock and reads the row again; in the model the row lock has no
  further effect, since the database steps of one operation are not interleaved.\<close>

definition locked_quota_for :: "nat \<Rightarrow> nat option \<Rightarrow> quota option op" where
  "locked_quota_for org prj = getdb (\<lambda>d. effective_quota d org prj)"

definition check_and_reserve :: "nat \<Rightarrow> nat option \<Rightarrow> additional \<Rightarrow> unit op" where
  "check_and_reserve org prj a = atomicM
     (bindM (locked_quota_for org prj) (\<lambda>_. assert_quota_available org prj a))"

subsection \<open>Facts\<close>

definition within_quota :: "quota \<Rightarrow> QuotaUsage \<Rightarrow> additional \<Rightarrow> bool" where
  "within_quota q u a \<longleftrightarrow> usage_vms u + add_vms a \<le> int (max_vms q) \<and>
     usage_vcpu u + add_vcpu a \<le> int (max_vcpu q) \<and>
     usage_memory_mb u + add_memory_mb a \<le> int (max_memory_mb q) \<and>
     usage_storage_gb u + add_storage_gb a \<le> int (max_storage_gb q) \<and>
     usage_snapshots u + add_snapshots a \<le> int (max_snapshots q)"

lemma quota_checks_pass:
  "filter (\<lambda>(f, limit, projected, l). limit < projected) (quota_checks q u a) = [] \<longleftrightarrow> within_quota q u a"
  by (auto simp: quota_checks_def within_quota_def)

lemma check_and_reserve_cases:
  "check_and_reserve org prj a w =
     (case effective_quota (wdb w) org prj of
        None \<Rightarrow> (Inr (), w)
      | Some q \<Rightarrow>
          (case filter (\<lambda>(f, limit, projected, l). limit < projected)
                  (quota_checks q (current_usage (wdb w) org prj) a) of
             [] \<Rightarrow> (Inr (), w) | c # _ \<Rightarrow> (Inl (quota_error c), w)))"
  by (simp add: check_and_reserve_def locked_quota_for_def assert_quota_available_def atomicM_def
      split: option.splits list.splits)

lemma check_and_reserve_state: "snd (check_and_reserve org prj a w) = w"
  by (simp add: check_and_reserve_cases split: option.splits list.splits)

lemma check_and_reserve_ok:
  "fst (check_and_reserve org prj a w) = Inr () \<longleftrightarrow>
     (case effective_quota (wdb w) org prj of None \<Rightarrow> True | Some q \<Rightarrow> within_quota q (current_usage (wdb w) org prj) a)"
proof (cases "effective_quota (wdb w) org prj")
  case None
  then show ?thesis by (simp add: check_and_reserve_cases)
next
  case (Some q)
  have "fst (check_and_reserve org prj a w) = Inr () \<longleftrightarrow>
      filter (\<lambda>(f, limit, projected, l). limit < projected) (quota_checks q (current_usage (wdb w) org prj) a) = []"
    using Some by (simp add: check_and_reserve_cases split: list.splits)
  then show ?thesis unfolding quota_checks_pass using Some by simp
qed

lemma keeps_check_and_reserve: "keeps job_safe (check_and_reserve org prj a)"
  by (simp add: keeps_def check_and_reserve_state js.R_refl)

text \<open>Flooring to GiB: the byte total lies within one GiB above the reported figure.\<close>

lemma GiB_pos: "0 < GiB"
  by (simp add: GiB_def)

lemma gib_floor: "b div GiB \<le> n \<Longrightarrow> b < (n + 1) * GiB"
proof -
  assume "b div GiB \<le> n"
  then have "b div GiB * GiB \<le> n * GiB" by (simp add: GiB_def)
  moreover have "b = b div GiB * GiB + b mod GiB" by simp
  moreover have "b mod GiB < GiB" using GiB_pos by simp
  ultimately have "b < n * GiB + GiB" by linarith
  then show "b < (n + 1) * GiB" by (simp add: distrib_right)
qed

subsection \<open>Properties\<close>

text \<open>
  The admission check: without a quota row everything is admitted; with one, exactly the requests are
  admitted that keep every one of the five projected figures within its limit, and a refusal names the
  first figure that is not. The check changes nothing.
\<close>

theorem quota_admission:
  "check_and_reserve org prj a w =
     (case effective_quota (wdb w) org prj of
        None \<Rightarrow> (Inr (), w)
      | Some q \<Rightarrow> if within_quota q (current_usage (wdb w) org prj) a then (Inr (), w)
          else (Inl (quota_error (hd (filter (\<lambda>(f, limit, projected, l). limit < projected)
                  (quota_checks q (current_usage (wdb w) org prj) a)))), w))"
proof (cases "effective_quota (wdb w) org prj")
  case None
  then show ?thesis by (simp add: check_and_reserve_cases)
next
  case (Some q)
  then show ?thesis
    unfolding check_and_reserve_cases
    using quota_checks_pass [of q "current_usage (wdb w) org prj" a] by (auto split: list.splits)
qed

end
