(* ===== verification/Scheduler.thy ===== *)
theory Scheduler
  imports Quota
begin

section \<open>Scheduler: choosing a node by remaining capacity\<close>

text \<open>
  \<open>backend/apps/virtual_machines/scheduler.py\<close>. The score \<open>round(100 * (...), 2)\<close> is kept in
  hundredths and computed exactly over the integers, with Python's round-half-to-even; the
  binary rounding of Python's floats is not modelled. The candidates come ordered by name, and the
  sort is stable, so that the first node with the best score wins.
\<close>

record SchedulingRequest =
  sr_organization_id :: nat
  sr_cpu_count :: nat
  sr_memory_mb :: nat
  sr_disk_gb :: int

definition CPU_OVERCOMMIT_RATIO :: int where
  "CPU_OVERCOMMIT_RATIO = 4"

definition used_vcpu :: "db \<Rightarrow> nat \<Rightarrow> int" where
  "used_vcpu d nk = sum_list (map (\<lambda>(k, v). int (vm_cpu_count v))
     (rows_where (\<lambda>v. vm_node v = Some nk \<and> vm_status v = VS_RUNNING) (vms d)))"

definition disk_on_node :: "db \<Rightarrow> nat \<Rightarrow> vm_disk \<Rightarrow> bool" where
  "disk_on_node d nk disk = (case row_get (dsk_vm disk) (vms d) of None \<Rightarrow> False | Some v \<Rightarrow> vm_node v = Some nk)"

definition pending_storage_gb :: "db \<Rightarrow> nat \<Rightarrow> node \<Rightarrow> int" where
  "pending_storage_gb d nk n = (case nod_last_seen n of
     None \<Rightarrow> 0
   | Some seen \<Rightarrow>
       - ((- sum_list (map (\<lambda>(k, disk). dsk_size_bytes disk)
              (rows_where (\<lambda>disk. disk_on_node d nk disk \<and> seen \<le> created_at disk) (disks d)))) div GiB))"

definition max_vcpu_of :: "node \<Rightarrow> int" where
  "max_vcpu_of n = max (int (nod_cpu_threads n)) 1 * CPU_OVERCOMMIT_RATIO"

definition free_vcpu :: "db \<Rightarrow> nat \<Rightarrow> node \<Rightarrow> int" where
  "free_vcpu d nk n = max_vcpu_of n - used_vcpu d nk"

definition free_storage_gb :: "db \<Rightarrow> nat \<Rightarrow> node \<Rightarrow> int" where
  "free_storage_gb d nk n = int (nod_storage_available_gb n) - pending_storage_gb d nk n"

definition fits :: "world \<Rightarrow> SchedulingRequest \<Rightarrow> nat \<Rightarrow> node \<Rightarrow> bool" where
  "fits w r nk n \<longleftrightarrow>
     effective_status w nk n = NS_ONLINE \<and> is_schedulable w nk n \<and>
     \<not> free_vcpu (wdb w) nk n < int (sr_cpu_count r) \<and>
     \<not> nod_memory_available_mb n < sr_memory_mb r \<and>
     \<not> free_storage_gb (wdb w) nk n < sr_disk_gb r"

definition round_half_even :: "int \<Rightarrow> int \<Rightarrow> int" where
  "round_half_even num den =
     (let q = num div den; r = num mod den
      in if 2 * r < den then q else if den < 2 * r then q + 1 else if even q then q else q + 1)"

text \<open>\<open>100 * (0.4 * a/b + 0.4 * c/d + 0.2 * e/f)\<close> in hundredths.\<close>

definition score :: "world \<Rightarrow> SchedulingRequest \<Rightarrow> nat \<Rightarrow> node \<Rightarrow> int" where
  "score w r nk n =
     (let a = free_vcpu (wdb w) nk n - int (sr_cpu_count r); b = max_vcpu_of n;
          c = int (nod_memory_available_mb n) - int (sr_memory_mb r); d = max (int (nod_memory_total_mb n)) 1;
          e = free_storage_gb (wdb w) nk n - sr_disk_gb r; f = max (int (nod_storage_total_gb n)) 1
      in round_half_even (1000 * (4 * a * d * f + 4 * c * b * f + 2 * e * b * d)) (b * d * f))"

definition scored_nodes :: "world \<Rightarrow> SchedulingRequest \<Rightarrow> (nat \<times> node) list" where
  "scored_nodes w r = filter (\<lambda>(nk, n). nod_organization n = sr_organization_id r \<and> fits w r nk n) (nodes_by_name (wdb w))"

definition select_node :: "SchedulingRequest \<Rightarrow> (nat \<times> node) op" where
  "select_node r = bindM (getM (\<lambda>w. sort_key (\<lambda>(nk, n). - score w r nk n) (scored_nodes w r))) (\<lambda>ns. case ns of
     [] \<Rightarrow> raiseM (mk_api NoSchedulableNode None None)
   | c # _ \<Rightarrow> returnM c)"

subsection \<open>Facts\<close>

lemma mem_nodes_by_name [simp]: "set (nodes_by_name d) = set (nodes d)"
  by (simp add: nodes_by_name_def)

lemma mem_scored_nodes:
  "(nk, n) \<in> set (scored_nodes w r) \<longleftrightarrow>
     (nk, n) \<in> set (nodes (wdb w)) \<and> nod_organization n = sr_organization_id r \<and> fits w r nk n"
  by (auto simp: scored_nodes_def)

lemma sort_key_hd:
  assumes "sort_key f xs = y # ys"
  shows "y \<in> set xs \<and> (\<forall>x \<in> set xs. f y \<le> f x)"
proof -
  have s: "set (y # ys) = set xs" by (metis assms set_sort)
  have "sorted (map f (y # ys))" by (metis assms sorted_sort_key)
  with s show ?thesis by (metis insert_iff list.map(2) list.simps(15) order_refl set_map image_eqI sorted_simps(2))
qed

lemma select_node_Inr:
  assumes "select_node r w = (Inr (nk, n), w')"
  shows "w' = w \<and> (nk, n) \<in> set (scored_nodes w r) \<and>
     (\<forall>(mk, m) \<in> set (scored_nodes w r). score w r mk m \<le> score w r nk n)"
proof -
  obtain ys where "sort_key (\<lambda>(nk, n). - score w r nk n) (scored_nodes w r) = (nk, n) # ys" "w' = w"
    using assms by (auto simp: select_node_def split: list.splits)
  with sort_key_hd [OF this(1)] show ?thesis by force
qed

lemma select_node_state: "snd (select_node r w) = w"
  by (simp add: select_node_def split: list.splits)

lemma keeps_select_node: "keeps job_safe (select_node r)"
  by (simp add: keeps_def select_node_state js.R_refl)

text \<open>The ceiling never understates the bytes that were committed.\<close>

lemma ceil_gib: "b \<le> - ((- b) div GiB) * GiB"
proof -
  have "- b = (- b) div GiB * GiB + (- b) mod GiB" by simp
  moreover have "0 \<le> (- b) mod GiB" using GiB_pos by simp
  ultimately show ?thesis by linarith
qed

subsection \<open>Properties\<close>


definition ex_request :: SchedulingRequest where
  "ex_request = \<lparr> sr_organization_id = 1, sr_cpu_count = 2, sr_memory_mb = 2048, sr_disk_gb = 20 \<rparr>"

lemma ex_fits: "fits ex_world ex_request 10 ex_node"
  by (simp add: fits_def is_schedulable_def effective_status_def agent_of_node_def rows_where_def free_vcpu_def
      max_vcpu_of_def CPU_OVERCOMMIT_RATIO_def used_vcpu_def free_storage_gb_def pending_storage_gb_def disk_on_node_def
      ex_request_def ex_node_def ex_agent_def ex_vm_def ex_disk_def NODEPILOT_def GiB_def)

lemma ex_selected: "select_node ex_request ex_world = (Inr (10, ex_node), ex_world)"
proof -
  have "nod_organization ex_node = sr_organization_id ex_request" by (simp add: ex_node_def ex_request_def)
  then show ?thesis by (simp add: select_node_def scored_nodes_def nodes_by_name_def ex_fits)
qed


text \<open>
  The scheduler refuses with \<open>NoSchedulableNode\<close> exactly when no node of the organization fits.
\<close>

theorem select_node_fails_iff:
  "fst (select_node r w) = Inl (mk_api NoSchedulableNode None None) \<longleftrightarrow>
     (\<nexists>nk n. (nk, n) \<in> set (nodes (wdb w)) \<and> nod_organization n = sr_organization_id r \<and> fits w r nk n)"
proof -
  have s: "sort_key f xs = [] \<longleftrightarrow> xs = []" for f :: "nat \<times> node \<Rightarrow> int" and xs by (metis length_0_conv length_sort)
  have "fst (select_node r w) = Inl (mk_api NoSchedulableNode None None) \<longleftrightarrow> scored_nodes w r = []"
    using s [of "\<lambda>(nk, n). - score w r nk n" "scored_nodes w r"] by (auto simp: select_node_def split: list.splits)
  also have "\<dots> \<longleftrightarrow> (\<nexists>nk n. (nk, n) \<in> set (scored_nodes w r))" by (cases "scored_nodes w r") auto
  finally show ?thesis by (simp add: mem_scored_nodes)
qed

end
