(* ===== verification/VMService.thy ===== *)
theory VMService
  imports Scheduler
begin

section \<open>VMService: admission of VM operations\<close>

text \<open>
  \<open>backend/apps/virtual_machines/services.py\<close>, \<open>mac.py\<close> and
  \<open>backend/apps/vm_templates/services.py\<close>. Every operation checks its guards, takes and gives back
  the Redis lock for an early answer, creates the job row and registers the Celery call; nothing
  here talks to an agent. A model instance is the pair of its primary key and its row.
\<close>

type_synonym vm_obj = "nat \<times> virtual_machine"
type_synonym disk_obj = "nat \<times> vm_disk"
type_synonym nic_obj = "nat \<times> vm_nic"

fun ALLOWED_FROM :: "JobType \<Rightarrow> VMStatus list option" where
  "ALLOWED_FROM VM_START = Some [VS_STOPPED]"
| "ALLOWED_FROM VM_STOP = Some [VS_RUNNING, VS_PAUSED]"
| "ALLOWED_FROM VM_SHUTDOWN = Some [VS_RUNNING]"
| "ALLOWED_FROM VM_REBOOT = Some [VS_RUNNING]"
| "ALLOWED_FROM VM_RESET = Some [VS_RUNNING, VS_PAUSED]"
| "ALLOWED_FROM VM_PAUSE = Some [VS_RUNNING]"
| "ALLOWED_FROM VM_RESUME = Some [VS_PAUSED]"
| "ALLOWED_FROM VM_DELETE = Some [VS_STOPPED, VS_ERROR, VS_CREATING]"
| "ALLOWED_FROM VM_CLONE = Some [VS_STOPPED]"
| "ALLOWED_FROM VM_MIGRATE = Some [VS_RUNNING, VS_STOPPED]"
| "ALLOWED_FROM _ = None"

definition allowed_from :: "JobType \<Rightarrow> VMStatus \<Rightarrow> bool" where
  "allowed_from ty st = (case ALLOWED_FROM ty of None \<Rightarrow> True | Some ss \<Rightarrow> st \<in> set ss)"

subsection \<open>MAC addresses\<close>

definition hex_digit :: "nat \<Rightarrow> char" where
  "hex_digit n = (if n < 10 then char_of (48 + n) else char_of (87 + n))"

definition hex2 :: "nat \<Rightarrow> string" where
  "hex2 n = [hex_digit (n div 16), hex_digit (n mod 16)]"

definition format_mac :: "nat list \<Rightarrow> string" where
  "format_mac octets = join_with '':'' (map hex2 octets)"

definition generate_mac_address :: "string op" where
  "generate_mac_address = bindM (randint0 0x7F) (\<lambda>a. bindM (randint0 0xFF) (\<lambda>b. bindM (randint0 0xFF) (\<lambda>c.
     returnM (format_mac [0x52, 0x54, 0x00, a, b, c]))))"

subsection \<open>Creating rows\<close>

record disk_spec =
  ds_storage :: "nat option"
  ds_size_bytes :: int
  ds_source_image :: "nat option"
  ds_name :: "string option"
  ds_bus :: "DiskBus option"
  ds_format :: "string option"
  ds_bootable :: "bool option"
  ds_readonly :: "bool option"
  ds_discard :: "bool option"
  ds_iothread :: "bool option"

record nic_spec =
  ns_network :: nat
  ns_mac_address :: "string option"
  ns_model :: "NicModel option"
  ns_vlan :: "nat option"
  ns_rate_limit_mbps :: "nat option"
  ns_bootable :: "bool option"

text \<open>The two unique constraints of \<open>VirtualMachine\<close> besides the generated identifiers.\<close>

definition vm_name_taken :: "nat \<Rightarrow> string \<Rightarrow> db \<Rightarrow> bool" where
  "vm_name_taken prj name d = list_ex (\<lambda>(k, v). vm_project v = prj \<and> vm_name v = name) (vms d)"

definition vm_key_taken :: "nat option \<Rightarrow> string \<Rightarrow> db \<Rightarrow> bool" where
  "vm_key_taken by key d \<longleftrightarrow> key \<noteq> '''' \<and> by \<noteq> None \<and>
     list_ex (\<lambda>(k, v). vm_created_by v = by \<and> vm_idempotency_key v = key) (vms d)"

definition insert_vm :: "virtual_machine \<Rightarrow> vm_obj op" where
  "insert_vm v = bindM (getdb (\<lambda>d. vm_name_taken (vm_project v) (vm_name v) d)) (\<lambda>t1.
     bindM (getdb (\<lambda>d. vm_key_taken (vm_created_by v) (vm_idempotency_key v) d)) (\<lambda>t2.
       if t1 then raiseM (IntegrityError ''unique_vm_name_per_project'')
       else if t2 then raiseM (IntegrityError ''unique_vm_idempotency_key_per_user'')
       else bindM fresh_pk (\<lambda>k.
         bindM (moddb (\<lambda>d. d\<lparr>vms := row_add k v (vms d)\<rparr>)) (\<lambda>_. returnM (k, v)))))"

definition create_disk_row :: "nat \<Rightarrow> nat option \<Rightarrow> nat option \<Rightarrow> string \<Rightarrow> string \<Rightarrow> string \<Rightarrow> DiskBus \<Rightarrow> int \<Rightarrow> string \<Rightarrow>
    bool \<Rightarrow> bool \<Rightarrow> bool \<Rightarrow> bool \<Rightarrow> nat \<Rightarrow> disk_obj op" where
  "create_disk_row vmk storage img name volume dev bus sz fmt bootable readonly discard iothread idx =
     (case storage of
        None \<Rightarrow> raiseM (IntegrityError ''null value in column storage_id violates not-null constraint'')
      | Some s \<Rightarrow> bindM uuid4 (\<lambda>u. bindM now (\<lambda>t. bindM fresh_pk (\<lambda>k.
          let r = \<lparr> uuid = u, created_at = t, updated_at = t, dsk_vm = vmk, dsk_storage = s,
                 dsk_source_image = img, dsk_name = name, dsk_volume_id = volume, dsk_bus = bus,
                 dsk_device = dev, dsk_size_bytes = sz, dsk_format = fmt, dsk_bootable = bootable,
                 dsk_readonly = readonly, dsk_discard = discard, dsk_iothread = iothread, dsk_boot_index = idx \<rparr>
          in bindM (moddb (\<lambda>d. d\<lparr>disks := row_add k r (disks d)\<rparr>)) (\<lambda>_. returnM (k, r))))))"

definition create_nic_row :: "nat \<Rightarrow> nat \<Rightarrow> string \<Rightarrow> NicModel \<Rightarrow> nat option \<Rightarrow> nat option \<Rightarrow> bool \<Rightarrow> nat \<Rightarrow> nic_obj op" where
  "create_nic_row vmk net mac model vlan rate bootable idx =
     bindM uuid4 (\<lambda>u. bindM now (\<lambda>t. bindM (getdb (\<lambda>d. list_ex (\<lambda>(k, n). nic_mac_address n = mac) (nics d))) (\<lambda>clash.
       if clash then raiseM (IntegrityError ''vm_nics.mac_address'')
       else bindM fresh_pk (\<lambda>k.
         let r = \<lparr> uuid = u, created_at = t, updated_at = t, nic_vm = vmk, nic_network = net, nic_ip_address = None,
                nic_mac_address = mac, nic_model = model, nic_vlan = vlan, nic_rate_limit_mbps = rate,
                nic_bootable = bootable, nic_boot_index = idx \<rparr>
         in bindM (moddb (\<lambda>d. d\<lparr>nics := row_add k r (nics d)\<rparr>)) (\<lambda>_. returnM (k, r))))))"

subsection \<open>\<open>create_vm\<close>\<close>

record vm_request =
  vr_organization :: nat
  vr_project :: nat
  vr_name :: string
  vr_created_by :: "nat option"
  vr_node :: "nat option"
  vr_template :: "nat option"
  vr_cpu_count :: nat
  vr_memory_mb :: nat
  vr_disks :: "disk_spec list"
  vr_nics :: "nic_spec list"
  vr_os_type :: string
  vr_firmware :: FirmwareType
  vr_boot_order :: "string list"
  vr_ballooning_enabled :: bool
  vr_cloud_init_enabled :: bool
  vr_cloud_init_config :: json
  vr_autostart :: bool
  vr_idempotency_key :: string

definition default_disk :: disk_spec where
  "default_disk = \<lparr> ds_storage = None, ds_size_bytes = 20 * 1024 ^ 3, ds_source_image = None,
     ds_name = Some ''root'', ds_bus = None, ds_format = None, ds_bootable = Some True, ds_readonly = None,
     ds_discard = None, ds_iothread = None \<rparr>"

definition requested_disks :: "vm_request \<Rightarrow> disk_spec list" where
  "requested_disks r = (if vr_disks r = [] then [default_disk] else vr_disks r)"

definition total_disk_gb :: "disk_spec list \<Rightarrow> int" where
  "total_disk_gb ds = sum_list (map ds_size_bytes ds) div 1024 ^ 3"

definition create_vm_disk :: "nat \<Rightarrow> nat \<times> disk_spec \<Rightarrow> unit op" where
  "create_vm_disk vmk is = (case is of (index, s) \<Rightarrow>
     bindM (create_disk_row vmk (ds_storage s) (ds_source_image s) (opt_or (ds_name s) (''disk-'' @ show_nat index))
       '''' '''' (opt_or (ds_bus s) DB_VIRTIO) (ds_size_bytes s) (opt_or (ds_format s) ''qcow2'')
       (opt_or (ds_bootable s) (index = 0)) (opt_or (ds_readonly s) False) (opt_or (ds_discard s) True)
       (opt_or (ds_iothread s) False) index) (\<lambda>_. returnM ()))"

definition create_vm_nic :: "nat \<Rightarrow> nat \<times> nic_spec \<Rightarrow> unit op" where
  "create_vm_nic vmk is = (case is of (index, s) \<Rightarrow>
     bindM (if opt_or (ns_mac_address s) '''' = '''' then generate_mac_address else returnM (opt_or (ns_mac_address s) ''''))
       (\<lambda>mac. bindM (create_nic_row vmk (ns_network s) mac (opt_or (ns_model s) NM_VIRTIO) (ns_vlan s)
          (ns_rate_limit_mbps s) (opt_or (ns_bootable s) (index = 0)) index) (\<lambda>_. returnM ())))"

definition select_vm_node :: "vm_request \<Rightarrow> nat op" where
  "select_vm_node r = (case vr_node r of
     Some nk \<Rightarrow> returnM nk
   | None \<Rightarrow> bindM (select_node \<lparr> sr_organization_id = vr_organization r, sr_cpu_count = vr_cpu_count r,
        sr_memory_mb = vr_memory_mb r, sr_disk_gb = total_disk_gb (requested_disks r) \<rparr>) (\<lambda>(nk, n). returnM nk))"

definition vm_row_of :: "vm_request \<Rightarrow> nat \<Rightarrow> string \<Rightarrow> string \<Rightarrow> nat \<Rightarrow> virtual_machine" where
  "vm_row_of r nk u du t = \<lparr> uuid = u, created_at = t, updated_at = t,
     vm_organization = vr_organization r, vm_project = vr_project r, vm_node = Some nk,
     vm_template = vr_template r, vm_created_by = vr_created_by r, vm_name = vr_name r, vm_hostname = '''',
     vm_description = '''', vm_status = VS_CREATING, vm_provisioning_state = PS_REQUESTED,
     vm_os_type = vr_os_type r, vm_firmware = vr_firmware r, vm_machine_type = ''q35'',
     vm_cpu_count = vr_cpu_count r, vm_cpu_sockets = 1, vm_cpu_cores = vr_cpu_count r, vm_cpu_threads = 1,
     vm_cpu_model = ''host-passthrough'', vm_memory_mb = vr_memory_mb r, vm_min_memory_mb = None,
     vm_max_memory_mb = None, vm_ballooning_enabled = vr_ballooning_enabled r, vm_boot_order = vr_boot_order r,
     vm_autostart = vr_autostart r, vm_cloud_init_enabled = vr_cloud_init_enabled r,
     vm_cloud_init_config = vr_cloud_init_config r, vm_domain_uuid = du,
     vm_idempotency_key = vr_idempotency_key r, vm_last_error = '''' \<rparr>"

text \<open>The rows of the new VM, its job, and the Celery call that \<open>on_commit\<close> registers.\<close>

definition create_vm_rows :: "vm_request \<Rightarrow> nat \<Rightarrow> (vm_obj \<times> job_obj) op" where
  "create_vm_rows r nk =
     bindM uuid4 (\<lambda>u. bindM uuid4 (\<lambda>du. bindM now (\<lambda>t.
     bindM (insert_vm (vm_row_of r nk u du t)) (\<lambda>(vmk, v).
     bindM (forM (enumerate 0 (requested_disks r)) (create_vm_disk vmk)) (\<lambda>_.
     bindM (forM (enumerate 0 (vr_nics r)) (create_vm_nic vmk)) (\<lambda>_.
     bindM (create_job VM_CREATE ''VirtualMachine'' (uuid v) (vr_organization r) (Some nk)
              (vr_created_by r) (vr_idempotency_key r) 600) (\<lambda>(jk, j).
     bindM (enqueue (ProvisionVm jk vmk)) (\<lambda>_.
     returnM ((vmk, v), (jk, j))))))))))"

definition vm_additional :: "vm_request \<Rightarrow> additional" where
  "vm_additional r = \<lparr> add_vms = 1, add_vcpu = int (vr_cpu_count r), add_memory_mb = int (vr_memory_mb r),
     add_storage_gb = total_disk_gb (requested_disks r), add_snapshots = 0 \<rparr>"

definition idempotent_hit :: "vm_request \<Rightarrow> db \<Rightarrow> bool" where
  "idempotent_hit r d \<longleftrightarrow> vr_idempotency_key r \<noteq> '''' \<and>
     list_ex (\<lambda>(k, v). vm_created_by v = vr_created_by r \<and> vm_idempotency_key v = vr_idempotency_key r) (vms d)"

definition create_vm :: "vm_request \<Rightarrow> (vm_obj \<times> job_obj) op" where
  "create_vm r = atomicM
     (bindM (getdb (idempotent_hit r)) (\<lambda>existing.
      if existing then raiseM (AttributeError ''VirtualMachine object has no attribute jobs'')
      else
      bindM (check_and_reserve (vr_organization r) (Some (vr_project r)) (vm_additional r)) (\<lambda>_.
      bindM (select_vm_node r) (\<lambda>nk.
      create_vm_rows r nk))))"

subsection \<open>Templates\<close>

record template_request =
  tr_project :: nat
  tr_name :: string
  tr_storage :: nat
  tr_network :: nat
  tr_created_by :: "nat option"
  tr_node :: "nat option"
  tr_cpu_count :: "nat option"
  tr_memory_mb :: "nat option"
  tr_disk_gb :: "nat option"
  tr_autostart :: bool
  tr_idempotency_key :: string

definition or_default :: "nat option \<Rightarrow> nat \<Rightarrow> nat" where
  "or_default x d = (case x of None \<Rightarrow> d | Some n \<Rightarrow> if n = 0 then d else n)"

definition show_ImageStatus :: "ImageStatus \<Rightarrow> string" where
  "show_ImageStatus s = (case s of IS_PENDING \<Rightarrow> ''PENDING'' | IS_UPLOADING \<Rightarrow> ''UPLOADING'' | IS_VERIFYING \<Rightarrow> ''VERIFYING''
     | IS_READY \<Rightarrow> ''READY'' | IS_FAILED \<Rightarrow> ''FAILED'')"

definition template_nic_model :: "template \<Rightarrow> NicModel" where
  "template_nic_model t = (if jget ''model'' (tpl_network_defaults t) = Some (JStr ''E1000'') then NM_E1000 else NM_VIRTIO)"

definition template_vm_request :: "nat \<Rightarrow> template \<Rightarrow> template_request \<Rightarrow> vm_request" where
  "template_vm_request tk t q = \<lparr> vr_organization = tpl_organization t, vr_project = tr_project q,
     vr_name = tr_name q, vr_created_by = tr_created_by q, vr_node = tr_node q, vr_template = Some tk,
     vr_cpu_count = or_default (tr_cpu_count q) (tpl_default_cpu_count t),
     vr_memory_mb = or_default (tr_memory_mb q) (tpl_default_memory_mb t),
     vr_disks = [\<lparr> ds_storage = Some (tr_storage q),
        ds_size_bytes = int (or_default (tr_disk_gb q) (tpl_default_disk_gb t)) * 1024 ^ 3,
        ds_source_image = Some (tpl_image t), ds_name = Some ''root'', ds_bus = None, ds_format = None,
        ds_bootable = Some True, ds_readonly = None, ds_discard = None, ds_iothread = None \<rparr>],
     vr_nics = [\<lparr> ns_network = tr_network q, ns_mac_address = None, ns_model = Some (template_nic_model t),
        ns_vlan = None, ns_rate_limit_mbps = None, ns_bootable = None \<rparr>],
     vr_os_type = tpl_default_os_type t, vr_firmware = tpl_default_firmware t, vr_boot_order = [],
     vr_ballooning_enabled = True, vr_cloud_init_enabled = truthy (tpl_cloud_init_defaults t),
     vr_cloud_init_config = tpl_cloud_init_defaults t, vr_autostart = tr_autostart q,
     vr_idempotency_key = tr_idempotency_key q \<rparr>"

definition create_vm_from_template :: "nat \<Rightarrow> template \<Rightarrow> template_request \<Rightarrow> (vm_obj \<times> job_obj) op" where
  "create_vm_from_template tk t q = bindM (get_row ''Image'' images (tpl_image t)) (\<lambda>img.
     if img_status img \<noteq> IS_READY
     then raiseM (api_exn TemplateImageNotReady (''Template '' @ quoted (tpl_name t) @ [CHR 0x27] @ ''s image ('' @ img_name img @
            '') is not ready yet (status: '' @ show_ImageStatus (img_status img) @ '').''))
     else create_vm (template_vm_request tk t q))"

subsection \<open>Lifecycle operations\<close>

definition start_lifecycle_job :: "vm_obj \<Rightarrow> JobType \<Rightarrow> (nat \<Rightarrow> nat \<Rightarrow> celery_call) \<Rightarrow> nat option \<Rightarrow> job_obj op" where
  "start_lifecycle_job vo ty task by = (case vo of (vmk, v) \<Rightarrow>
     if \<not> allowed_from ty (vm_status v)
     then raiseM (api_exn InvalidStateTransition
            (''Cannot '' @ show_JobType ty @ '' a VM in status '' @ show_VMStatus (vm_status v)))
     else bindM (probe_lock (lifecycle_lock v)
            (api_exn ResourceLocked (''VM '' @ vm_name v @ '' has another lifecycle operation in progress.''))) (\<lambda>_.
          bindM (create_job ty ''VirtualMachine'' (uuid v) (vm_organization v) (vm_node v) by '''' 600) (\<lambda>(jk, j).
          bindM (enqueue (task jk vmk)) (\<lambda>_. returnM (jk, j)))))"

definition start_vm :: "vm_obj \<Rightarrow> nat option \<Rightarrow> job_obj op" where
  "start_vm vo by = start_lifecycle_job vo VM_START StartVm by"

definition stop_vm :: "vm_obj \<Rightarrow> nat option \<Rightarrow> bool \<Rightarrow> job_obj op" where
  "stop_vm vo by force = start_lifecycle_job vo (if force then VM_STOP else VM_SHUTDOWN) StopVm by"

definition reboot_vm :: "vm_obj \<Rightarrow> nat option \<Rightarrow> bool \<Rightarrow> job_obj op" where
  "reboot_vm vo by force = start_lifecycle_job vo (if force then VM_RESET else VM_REBOOT) RebootVm by"

definition pause_vm :: "vm_obj \<Rightarrow> nat option \<Rightarrow> job_obj op" where
  "pause_vm vo by = start_lifecycle_job vo VM_PAUSE PauseVm by"

definition resume_vm :: "vm_obj \<Rightarrow> nat option \<Rightarrow> job_obj op" where
  "resume_vm vo by = start_lifecycle_job vo VM_RESUME ResumeVm by"

definition delete_vm :: "vm_obj \<Rightarrow> nat option \<Rightarrow> job_obj op" where
  "delete_vm vo by = start_lifecycle_job vo VM_DELETE DeleteVm by"

text \<open>\<open>vm.disks.all()\<close> and \<open>vm.nics.all()\<close>, ordered by \<open>boot_index\<close> and creation.\<close>

definition vm_disks :: "db \<Rightarrow> nat \<Rightarrow> disk_obj list" where
  "vm_disks d vmk = sort_key (\<lambda>(k, r). dsk_boot_index r) (sort_key (\<lambda>(k, r). created_at r) (rows_where (\<lambda>r. dsk_vm r = vmk) (disks d)))"

definition vm_nics :: "db \<Rightarrow> nat \<Rightarrow> nic_obj list" where
  "vm_nics d vmk = sort_key (\<lambda>(k, r). nic_boot_index r) (sort_key (\<lambda>(k, r). created_at r) (rows_where (\<lambda>r. nic_vm r = vmk) (nics d)))"

definition clone_vm :: "vm_obj \<Rightarrow> nat option \<Rightarrow> string \<Rightarrow> bool \<Rightarrow> job_obj op" where
  "clone_vm vo by new_name linked = (case vo of (vmk, v) \<Rightarrow>
     if \<not> allowed_from VM_CLONE (vm_status v)
     then raiseM (api_exn InvalidStateTransition ''VM must be stopped before cloning.'')
     else bindM (getdb (\<lambda>d. vm_disk_bytes d vmk div 1024 ^ 3)) (\<lambda>gb.
          bindM (check_and_reserve (vm_organization v) (Some (vm_project v))
            \<lparr> add_vms = 1, add_vcpu = int (vm_cpu_count v), add_memory_mb = int (vm_memory_mb v),
              add_storage_gb = gb, add_snapshots = 0 \<rparr>) (\<lambda>_.
          bindM (create_job VM_CLONE ''VirtualMachine'' (uuid v) (vm_organization v) (vm_node v) by '''' 600) (\<lambda>(jk, j).
          bindM (enqueue (CloneVm jk vmk new_name linked)) (\<lambda>_. returnM (jk, j))))))"

definition disk_storage :: "db \<Rightarrow> vm_disk \<Rightarrow> storage_pool option" where
  "disk_storage d r = row_get (dsk_storage r) (storage_pools d)"

text \<open>\<open>migrate_vm\<close> never succeeds: after its checks it reports that execution is not implemented.\<close>

definition migrate_vm :: "vm_obj \<Rightarrow> nat \<times> node \<Rightarrow> unit op" where
  "migrate_vm vo target = (case vo of (vmk, v) \<Rightarrow> case target of (tk, tn) \<Rightarrow>
     if \<not> allowed_from VM_MIGRATE (vm_status v)
     then raiseM (api_exn InvalidStateTransition (''Cannot migrate a VM in status '' @ show_VMStatus (vm_status v)))
     else if nod_organization tn \<noteq> vm_organization v
     then raiseM (api_exn InvalidStateTransition ''Target node must belong to the same organization.'')
     else bindM (getM (\<lambda>w. is_schedulable w tk tn)) (\<lambda>ok.
       if \<not> ok then raiseM (api_exn InvalidStateTransition ''Target node is not online/schedulable.'')
       else bindM (getdb (\<lambda>d. filter (\<lambda>(k, r). case disk_storage d r of Some s \<Rightarrow> \<not> sto_shared s | None \<Rightarrow> True) (vm_disks d vmk)))
         (\<lambda>bad. if bad \<noteq> []
            then raiseM (mk_api (NodePilotAPIException (Some ''MIGRATION_STORAGE_INCOMPATIBLE''))
              (Some ''Migration requires all disks to live on shared storage visible to the target node; this VM has local (non-shared) storage.'')
              (Some (JObj [(''disks'', jstrs (map (\<lambda>(k, r). dsk_name r) bad))])))
            else raiseM (api_exn MigrationNotImplemented
              ''Compatibility checks passed, but live migration execution is not yet implemented in this release (see the roadmap in section 70/Phase 9). No changes were made.''))))"

subsection \<open>Disk and NIC operations\<close>

definition start_storage_job :: "vm_obj \<Rightarrow> JobType \<Rightarrow> (nat \<Rightarrow> celery_call) \<Rightarrow> nat option \<Rightarrow> job_obj op" where
  "start_storage_job vo ty task by = (case vo of (vmk, v) \<Rightarrow>
     bindM (probe_lock (storage_lock v)
       (api_exn ResourceLocked (''VM '' @ vm_name v @ '' has another storage operation in progress.''))) (\<lambda>_.
     bindM (create_job ty ''VirtualMachine'' (uuid v) (vm_organization v) (vm_node v) by '''' 600) (\<lambda>(jk, j).
     bindM (enqueue (task jk)) (\<lambda>_. returnM (jk, j)))))"

definition attach_disk :: "vm_obj \<Rightarrow> nat \<Rightarrow> nat \<Rightarrow> DiskBus \<Rightarrow> nat option \<Rightarrow> (disk_obj \<times> job_obj) op" where
  "attach_disk vo storage size_gb bus by = (case vo of (vmk, v) \<Rightarrow> atomicM
     (bindM (check_and_reserve (vm_organization v) (Some (vm_project v)) (no_additional\<lparr>add_storage_gb := int size_gb\<rparr>)) (\<lambda>_.
      bindM (getdb (\<lambda>d. length (vm_disks d vmk))) (\<lambda>n.
      bindM (create_disk_row vmk (Some storage) None (''disk-'' @ show_nat (n + 1)) '''' '''' bus
               (int size_gb * 1024 ^ 3) ''qcow2'' False False True False n) (\<lambda>disk.
      bindM (start_storage_job vo DISK_ATTACH (\<lambda>jk. AttachDisk jk (fst disk)) by) (\<lambda>job.
      returnM (disk, job)))))))"

definition detach_disk :: "vm_obj \<Rightarrow> disk_obj \<Rightarrow> nat option \<Rightarrow> job_obj op" where
  "detach_disk vo disk by =
     (if dsk_bootable (snd disk)
      then raiseM (api_exn InvalidStateTransition (''Cannot detach a VM'' @ [CHR 0x27] @ ''s boot disk.''))
      else start_storage_job vo DISK_DETACH (\<lambda>jk. DetachDisk jk (fst disk)) by)"

definition resize_disk :: "vm_obj \<Rightarrow> disk_obj \<Rightarrow> int \<Rightarrow> nat option \<Rightarrow> job_obj op" where
  "resize_disk vo disk new_size_gb by = (case vo of (vmk, v) \<Rightarrow>
     let new_size_bytes = new_size_gb * 1024 ^ 3
     in if new_size_bytes \<le> dsk_size_bytes (snd disk)
        then raiseM (api_exn InvalidStateTransition ''A disk can only be grown, not shrunk, while attached.'')
        else bindM (check_and_reserve (vm_organization v) (Some (vm_project v))
               (no_additional\<lparr>add_storage_gb := (new_size_bytes - dsk_size_bytes (snd disk)) div 1024 ^ 3\<rparr>)) (\<lambda>_.
             start_storage_job vo DISK_RESIZE (\<lambda>jk. ResizeDisk jk (fst disk) new_size_bytes) by))"

definition attach_nic :: "vm_obj \<Rightarrow> nat \<Rightarrow> NicModel \<Rightarrow> nat option \<Rightarrow> nat option \<Rightarrow> nat option \<Rightarrow> (nic_obj \<times> job_obj) op" where
  "attach_nic vo net model vlan rate by = (case vo of (vmk, v) \<Rightarrow> atomicM
     (bindM generate_mac_address (\<lambda>mac. bindM (getdb (\<lambda>d. length (vm_nics d vmk))) (\<lambda>n.
      bindM (create_nic_row vmk net mac model vlan rate False n) (\<lambda>nic.
      bindM (start_storage_job vo NIC_ATTACH (\<lambda>jk. AttachNic jk (fst nic)) by) (\<lambda>job.
      returnM (nic, job)))))))"

definition detach_nic :: "vm_obj \<Rightarrow> nic_obj \<Rightarrow> nat option \<Rightarrow> job_obj op" where
  "detach_nic vo nic by = start_storage_job vo NIC_DETACH (\<lambda>jk. DetachNic jk (fst nic)) by"

subsection \<open>Frames\<close>

context task_frame
begin

lemma keeps_generate_mac: "keeps R generate_mac_address"
  unfolding generate_mac_address_def by (intro tf_op)

lemma keeps_insert_vm: "keeps R (insert_vm v)"
  unfolding insert_vm_def by (intro tf_op) simp

lemma keeps_create_disk_row:
  "keeps R (create_disk_row vmk st img nm vol dev bus sz fmt b1 b2 b3 b4 idx)"
  unfolding create_disk_row_def Let_def by (intro tf_op) simp

lemma keeps_create_nic_row: "keeps R (create_nic_row vmk net mac md vl rt b idx)"
  unfolding create_nic_row_def Let_def by (intro tf_op) simp

end

lemma keeps_create_vm_disk: "keeps job_safe (create_vm_disk vmk is)"
  unfolding create_vm_disk_def by (intro op_frame keeps_case_prod js.keeps_create_disk_row)

lemma keeps_create_vm_nic: "keeps job_safe (create_vm_nic vmk is)"
  unfolding create_vm_nic_def by (intro op_frame keeps_case_prod js.keeps_create_nic_row js.keeps_generate_mac)

lemma keeps_select_vm_node: "keeps job_safe (select_vm_node r)"
  unfolding select_vm_node_def by (intro op_frame keeps_case_prod keeps_select_node)

lemma keeps_create_vm: "keeps job_safe (create_vm r)"
  unfolding create_vm_def create_vm_rows_def
  by (intro keeps_submit op_frame keeps_case_prod keeps_check_and_reserve keeps_select_vm_node js.keeps_insert_vm
      keeps_create_vm_disk keeps_create_vm_nic) simp

lemma keeps_create_vm_from_template: "keeps job_safe (create_vm_from_template tk t q)"
  unfolding create_vm_from_template_def by (intro op_frame keeps_case_prod keeps_create_vm)

lemma keeps_start_lifecycle_job:
  "(\<And>jk vmk. celery_job (task jk vmk) = Some jk) \<Longrightarrow> keeps job_safe (start_lifecycle_job vo ty task by)"
  unfolding start_lifecycle_job_def by (intro keeps_submit op_frame lock_frame keeps_case_prod) simp

lemma keeps_start_storage_job:
  "(\<And>jk. celery_job (task jk) = Some jk) \<Longrightarrow> keeps job_safe (start_storage_job vo ty task by)"
  unfolding start_storage_job_def by (intro keeps_submit op_frame lock_frame keeps_case_prod) simp

lemma keeps_lifecycle_requests:
  "keeps job_safe (start_vm vo by)" "keeps job_safe (stop_vm vo by force)" "keeps job_safe (reboot_vm vo by force)"
  "keeps job_safe (pause_vm vo by)" "keeps job_safe (resume_vm vo by)" "keeps job_safe (delete_vm vo by)"
  unfolding start_vm_def stop_vm_def reboot_vm_def pause_vm_def resume_vm_def delete_vm_def
  by (rule keeps_start_lifecycle_job, simp)+

lemma keeps_clone_vm: "keeps job_safe (clone_vm vo by nm linked)"
  unfolding clone_vm_def by (intro keeps_submit op_frame keeps_case_prod keeps_check_and_reserve) simp

lemma keeps_migrate_vm: "keeps job_safe (migrate_vm vo target)"
  unfolding migrate_vm_def by (intro op_frame keeps_case_prod)

lemma keeps_attach_disk: "keeps job_safe (attach_disk vo st gb bus by)"
  unfolding attach_disk_def
  by (intro op_frame keeps_case_prod keeps_check_and_reserve js.keeps_create_disk_row keeps_start_storage_job) simp

lemma keeps_attach_nic: "keeps job_safe (attach_nic vo net md vl rt by)"
  unfolding attach_nic_def
  by (intro op_frame keeps_case_prod js.keeps_generate_mac js.keeps_create_nic_row keeps_start_storage_job) simp

lemma keeps_resize_disk: "keeps job_safe (resize_disk vo disk gb by)"
  unfolding resize_disk_def Let_def
  by (intro op_frame keeps_case_prod keeps_check_and_reserve keeps_start_storage_job) simp

lemma keeps_detach: "keeps job_safe (detach_disk vo disk by)" "keeps job_safe (detach_nic vo nic by)"
  unfolding detach_disk_def detach_nic_def by ((intro op_frame keeps_start_storage_job; simp)+)

lemmas vm_request_frame = keeps_create_vm keeps_create_vm_from_template keeps_lifecycle_requests keeps_clone_vm
  keeps_migrate_vm keeps_attach_disk keeps_attach_nic keeps_resize_disk keeps_detach

subsection \<open>What a successful \<open>create_vm\<close> leaves behind\<close>

lemma insert_vm_Inr:
  assumes "insert_vm v w = (Inr x, w')"
  shows "x = (next_pk (wdb w), v) \<and> vms (wdb w') = vms (wdb w) @ [(next_pk (wdb w), v)] \<and> queue (wdb w') = queue (wdb w) \<and>
     jobs (wdb w') = jobs (wdb w) \<and> quotas (wdb w') = quotas (wdb w)"
  using assms by (auto simp: insert_vm_def bindM_def fresh_pk_apply row_add_def split: if_splits)

lemma create_job_Inr:
  assumes "create_job ty rt rid org nd by key tm w = (Inr (jk, j), w')"
  shows "jobs (wdb w') = jobs (wdb w) @ [(jk, j)] \<and> queue (wdb w') = queue (wdb w) \<and> vms (wdb w') = vms (wdb w) \<and>
     quotas (wdb w') = quotas (wdb w) \<and> job_status j = JS_QUEUED \<and> job_type j = ty \<and> job_resource_id j = rid"
  using assms by (auto simp: create_job_def bindM_def fresh_pk_apply row_add_def Let_def split: if_splits)

definition create_part :: "db \<Rightarrow> virtual_machine table \<times> job table \<times> celery_call list \<times> quota table" where
  "create_part d = (vms d, jobs d, queue d, quotas d)"

lemma so_create_vm_disk: "keeps (same_on create_part) (create_vm_disk vmk is)"
  unfolding create_vm_disk_def create_disk_row_def Let_def
  by (intro so_frame keeps_case_prod) (simp_all add: create_part_def)

lemma so_create_vm_nic: "keeps (same_on create_part) (create_vm_nic vmk is)"
  unfolding create_vm_nic_def create_nic_row_def generate_mac_address_def Let_def
  by (intro so_frame keeps_case_prod) (simp_all add: create_part_def)

lemma create_vm_rows_Inr:
  assumes "create_vm_rows r nk w = (Inr ((vmk, v), (jk, j)), w')"
  shows "\<exists>u du. v = vm_row_of r nk u du (clock w) \<and> vms (wdb w') = vms (wdb w) @ [(vmk, v)] \<and>
     jobs (wdb w') = jobs (wdb w) @ [(jk, j)] \<and> job_status j = JS_QUEUED \<and> job_type j = VM_CREATE \<and>
     job_resource_id j = uuid v \<and> queue (wdb w') = queue (wdb w) @ [ProvisionVm jk vmk] \<and> quotas (wdb w') = quotas (wdb w)"
proof -
  define w1 where "w1 = w\<lparr>uuid_next := uuid_next w + 2\<rparr>"
  let ?u = "uuids w (uuid_next w)" and ?du = "uuids w (uuid_next w + 1)"
  have "bindM (insert_vm (vm_row_of r nk ?u ?du (clock w))) (\<lambda>(vmk, v).
     bindM (forM (enumerate 0 (requested_disks r)) (create_vm_disk vmk)) (\<lambda>_.
     bindM (forM (enumerate 0 (vr_nics r)) (create_vm_nic vmk)) (\<lambda>_.
     bindM (create_job VM_CREATE ''VirtualMachine'' (uuid v) (vr_organization r) (Some nk)
              (vr_created_by r) (vr_idempotency_key r) 600) (\<lambda>(jk, j).
     bindM (enqueue (ProvisionVm jk vmk)) (\<lambda>_.
     returnM ((vmk, v), (jk, j))))))) w1 = (Inr ((vmk, v), (jk, j)), w')"
    using assms by (simp add: create_vm_rows_def bindM_def w1_def)
  then obtain x w2 where x: "insert_vm (vm_row_of r nk ?u ?du (clock w)) w1 = (Inr x, w2)"
      and rest: "(case x of (vmk, v) \<Rightarrow>
     bindM (forM (enumerate 0 (requested_disks r)) (create_vm_disk vmk)) (\<lambda>_.
     bindM (forM (enumerate 0 (vr_nics r)) (create_vm_nic vmk)) (\<lambda>_.
     bindM (create_job VM_CREATE ''VirtualMachine'' (uuid v) (vr_organization r) (Some nk)
              (vr_created_by r) (vr_idempotency_key r) 600) (\<lambda>(jk, j).
     bindM (enqueue (ProvisionVm jk vmk)) (\<lambda>_.
     returnM ((vmk, v), (jk, j))))))) w2 = (Inr ((vmk, v), (jk, j)), w')"
    by (rule bindM_InrE)
  obtain k0 v0 where k0: "x = (k0, v0)" by fastforce
  obtain w3 w4 w5 where
      d: "forM (enumerate 0 (requested_disks r)) (create_vm_disk k0) w2 = (Inr (), w3)" and
      n: "forM (enumerate 0 (vr_nics r)) (create_vm_nic k0) w3 = (Inr (), w4)" and
      c: "create_job VM_CREATE ''VirtualMachine'' (uuid v0) (vr_organization r) (Some nk)
              (vr_created_by r) (vr_idempotency_key r) 600 w4 = (Inr (jk, j), w5)" and
      q: "enqueue (ProvisionVm jk k0) w5 = (Inr (), w')" and jo: "k0 = vmk" "v0 = v"
    using rest unfolding k0 prod.case by (auto elim!: bindM_InrE split: prod.splits)
  have w': "wdb w' = (wdb w5)\<lparr>queue := queue (wdb w5) @ [ProvisionVm jk vmk]\<rparr>"
    using q jo by (auto simp: enqueue_def)
  have p2: "create_part (wdb w4) = create_part (wdb w2)"
    using same_onD [OF so.keeps_for [OF so_create_vm_disk] d] same_onD [OF so.keeps_for [OF so_create_vm_nic] n] by simp
  show ?thesis
    using insert_vm_Inr [OF x] create_job_Inr [OF c] p2 w' k0 jo
    by (auto simp: create_part_def w1_def)
qed

lemma select_vm_node_state: "snd (select_vm_node r w) = w"
  using select_node_state
  by (auto simp: select_vm_node_def bindM_def split: option.splits prod.splits sum.splits) (metis snd_conv)+

lemma create_vm_Inr:
  assumes "create_vm r w = (Inr ((vmk, v), (jk, j)), w')"
  shows "\<exists>nk. select_vm_node r w = (Inr nk, w) \<and> create_vm_rows r nk w = (Inr ((vmk, v), (jk, j)), w') \<and>
     \<not> idempotent_hit r (wdb w) \<and>
     fst (check_and_reserve (vr_organization r) (Some (vr_project r)) (vm_additional r) w) = Inr ()"
proof -
  obtain w1 nk w2 where y: "check_and_reserve (vr_organization r) (Some (vr_project r)) (vm_additional r) w = (Inr (), w1)"
      "select_vm_node r w1 = (Inr nk, w2)" "create_vm_rows r nk w2 = (Inr ((vmk, v), (jk, j)), w')"
      "\<not> idempotent_hit r (wdb w)"
    using assms unfolding create_vm_def atomicM_Inr by (auto elim!: bindM_InrE split: if_splits)
  have "w1 = w" using check_and_reserve_state [of "vr_organization r" "Some (vr_project r)" "vm_additional r" w] y(1) by simp
  with select_vm_node_state [of r w] y show ?thesis by auto
qed

lemma counted_vms_add:
  assumes "vms d' = vms d @ [(k, v)]" and "vm_organization v = org" and "vm_project v = p" and "vm_status v \<noteq> VS_DELETING"
  shows "counted_vms d' org (Some p) = counted_vms d org (Some p) @ [(k, v)]"
  using assms by (simp add: counted_vms_def rows_where_def)

subsection \<open>Properties\<close>

text \<open>
  What \<open>create_vm\<close> promises on success: one new VM row in status \<open>CREATING\<close> on the requested node or the
  one the scheduler chose, one new queued \<open>VM_CREATE\<close> job for it, and exactly one Celery call, the one that
  provisions this VM under this job.
\<close>

theorem create_vm_result:
  assumes "create_vm r w = (Inr ((vmk, v), (jk, j)), w')"
  shows "vms (wdb w') = vms (wdb w) @ [(vmk, v)] \<and> jobs (wdb w') = jobs (wdb w) @ [(jk, j)] \<and>
     queue (wdb w') = queue (wdb w) @ [ProvisionVm jk vmk] \<and>
     vm_status v = VS_CREATING \<and> vm_provisioning_state v = PS_REQUESTED \<and> vm_name v = vr_name r \<and>
     vm_organization v = vr_organization r \<and> vm_project v = vr_project r \<and>
     (\<exists>nk. vm_node v = Some nk \<and> fst (select_vm_node r w) = Inr nk) \<and>
     job_status j = JS_QUEUED \<and> job_type j = VM_CREATE \<and> job_resource_id j = uuid v"
proof -
  obtain nk where nk: "select_vm_node r w = (Inr nk, w)" "create_vm_rows r nk w = (Inr ((vmk, v), (jk, j)), w')"
    using create_vm_Inr [OF assms] by blast
  from create_vm_rows_Inr [OF nk(2)] nk(1) show ?thesis by (auto simp: vm_row_of_def)
qed

text \<open>
  C7. Quotas hold after creation, not only before: with the tables as they are after a successful
  \<open>create_vm\<close>, the project's VMs, vCPUs and memory are within the quota that was in force.
\<close>

theorem create_vm_within_quota:
  assumes "create_vm r w = (Inr ((vmk, v), (jk, j)), w')"
    and "effective_quota (wdb w) (vr_organization r) (Some (vr_project r)) = Some q"
  shows "let u = current_usage (wdb w') (vr_organization r) (Some (vr_project r))
     in usage_vms u \<le> int (max_vms q) \<and> usage_vcpu u \<le> int (max_vcpu q) \<and> usage_memory_mb u \<le> int (max_memory_mb q)"
proof -
  obtain nk where nk: "create_vm_rows r nk w = (Inr ((vmk, v), (jk, j)), w')"
      "fst (check_and_reserve (vr_organization r) (Some (vr_project r)) (vm_additional r) w) = Inr ()"
    using create_vm_Inr [OF assms(1)] by blast
  have "within_quota q (current_usage (wdb w) (vr_organization r) (Some (vr_project r))) (vm_additional r)"
    using nk(2) assms(2) unfolding check_and_reserve_ok by simp
  moreover obtain u du where v: "v = vm_row_of r nk u du (clock w)" "vms (wdb w') = vms (wdb w) @ [(vmk, v)]"
    using create_vm_rows_Inr [OF nk(1)] by blast
  moreover have "counted_vms (wdb w') (vr_organization r) (Some (vr_project r)) =
      counted_vms (wdb w) (vr_organization r) (Some (vr_project r)) @ [(vmk, v)]"
    using v by (intro counted_vms_add) (simp_all add: vm_row_of_def)
  ultimately show ?thesis
    by (simp add: current_usage_def Let_def within_quota_def vm_additional_def vm_row_of_def)
qed

text \<open>
  \<open>create_vm\<close> is all or nothing: when it raises, for whatever reason and at whatever step, the database
  and the registered Celery calls are exactly as before.
\<close>

theorem create_vm_atomic:
  assumes "create_vm r w = (Inl e, w')"
  shows "wdb w' = wdb w"
  using assms unfolding create_vm_def by (rule atomicM_Inl)

text \<open>
  A repeated idempotency key does not return the first VM: the lookup of its job uses a relation that
  does not exist, and the request ends in an \<open>AttributeError\<close>.
\<close>

theorem idempotency_key_repeat_fails:
  assumes "vr_idempotency_key r \<noteq> ''''" and "(k, v) \<in> set (vms (wdb w))" and "vm_created_by v = vr_created_by r"
    and "vm_idempotency_key v = vr_idempotency_key r"
  shows "create_vm r w = (Inl (AttributeError ''VirtualMachine object has no attribute jobs''), w)"
proof -
  have "idempotent_hit r (wdb w)" using assms by (auto simp: idempotent_hit_def list_ex_iff)
  then show ?thesis by (simp add: create_vm_def atomicM_def)
qed

lemma for_fails:
  assumes "\<And>w. \<exists>e w'. f x w = (Inl e, w')"
  shows "\<exists>e w'. forM (x # xs) f w = (Inl e, w')"
proof -
  obtain e w' where "f x w = (Inl e, w')" using assms by blast
  then show ?thesis by (simp add: bindM_def)
qed

text \<open>
  A VM requested without disks is never created: the default root disk has no storage pool, which the
  disk table requires, so that the request always fails.
\<close>

theorem no_disks_never_created:
  assumes "vr_disks r = []"
  shows "\<exists>e. fst (create_vm r w) = Inl e"
proof (rule ccontr)
  assume "\<not> ?thesis"
  then obtain y w' where "create_vm r w = (Inr y, w')" by (metis prod.collapse sum.exhaust)
  moreover obtain vmk v jk j where "y = ((vmk, v), (jk, j))" by (metis prod.exhaust)
  ultimately obtain nk where "create_vm_rows r nk w = (Inr ((vmk, v), (jk, j)), w')" using create_vm_Inr by blast
  then obtain k w1 w2 where "forM (enumerate 0 (requested_disks r)) (create_vm_disk k) w1 = (Inr (), w2)"
    unfolding create_vm_rows_def by (elim bindM_InrE) (auto elim!: bindM_InrE split: prod.splits)
  moreover have "\<exists>e w'. create_vm_disk k (0, default_disk) w = (Inl e, w')" for k w
    by (simp add: create_vm_disk_def create_disk_row_def default_disk_def)
  then have "\<exists>e w'. forM (enumerate 0 (requested_disks r)) (create_vm_disk k) w = (Inl e, w')" for k w
    using assms for_fails [of "create_vm_disk k" "(0, default_disk)" "[]" w] by (simp add: requested_disks_def)
  ultimately show False by (metis Inl_Inr_False prod.inject)
qed

text \<open>
  Lifecycle requests: from a status the operation does not allow, nothing happens and the answer is
  \<open>InvalidStateTransition\<close>; a request that succeeds was allowed, and has created one queued job and one
  Celery call for exactly this VM.
\<close>

theorem lifecycle_request:
  "(\<not> allowed_from ty (vm_status v) \<longrightarrow> start_lifecycle_job (vmk, v) ty task by w =
      (Inl (api_exn InvalidStateTransition
        (''Cannot '' @ show_JobType ty @ '' a VM in status '' @ show_VMStatus (vm_status v))), w)) \<and>
   (\<forall>jk j w'. start_lifecycle_job (vmk, v) ty task by w = (Inr (jk, j), w') \<longrightarrow>
      allowed_from ty (vm_status v) \<and> job_status j = JS_QUEUED \<and> job_type j = ty \<and> job_resource_id j = uuid v \<and>
      (jk, j) \<in> set (jobs (wdb w')) \<and> task jk vmk \<in> set (queue (wdb w')))"
proof (intro conjI impI allI)
  show "start_lifecycle_job (vmk, v) ty task by w = (Inl (api_exn InvalidStateTransition
        (''Cannot '' @ show_JobType ty @ '' a VM in status '' @ show_VMStatus (vm_status v))), w)"
    if "\<not> allowed_from ty (vm_status v)"
    using that by (simp add: start_lifecycle_job_def)
next
  fix jk j w'
  assume s: "start_lifecycle_job (vmk, v) ty task by w = (Inr (jk, j), w')"
  show a: "allowed_from ty (vm_status v)" using s by (auto simp: start_lifecycle_job_def split: if_splits)
  obtain w1 w2 where c: "create_job ty ''VirtualMachine'' (uuid v) (vm_organization v) (vm_node v) by '''' 600 w1 = (Inr (jk, j), w2)"
      "enqueue (task jk vmk) w2 = (Inr (), w')"
    using s a by (auto simp: start_lifecycle_job_def elim!: bindM_InrE split: prod.splits)
  then have "wdb w' = (wdb w2)\<lparr>queue := queue (wdb w2) @ [task jk vmk]\<rparr>"
    by (auto simp: enqueue_def)
  with create_job_Inr [of ty "''VirtualMachine''" "uuid v"] c(1)
  show "job_status j = JS_QUEUED" "job_type j = ty" "job_resource_id j = uuid v" "(jk, j) \<in> set (jobs (wdb w'))"
    "task jk vmk \<in> set (queue (wdb w'))" by auto
qed

text \<open>A request that the sample installation admits.\<close>

definition ex_vm_request :: vm_request where
  "ex_vm_request = \<lparr> vr_organization = 1, vr_project = 2, vr_name = ''db'', vr_created_by = Some 5, vr_node = None,
     vr_template = None, vr_cpu_count = 2, vr_memory_mb = 2048,
     vr_disks = [\<lparr> ds_storage = Some 12, ds_size_bytes = 21474836480, ds_source_image = None, ds_name = None, ds_bus = None,
        ds_format = None, ds_bootable = None, ds_readonly = None, ds_discard = None, ds_iothread = None \<rparr>],
     vr_nics = [], vr_os_type = ''linux'', vr_firmware = UEFI, vr_boot_order = [], vr_ballooning_enabled = True,
     vr_cloud_init_enabled = False, vr_cloud_init_config = JObj [], vr_autostart = True, vr_idempotency_key = '''' \<rparr>"

lemma ex_vm_request_simps [simp]:
  "vr_organization ex_vm_request = 1" "vr_project ex_vm_request = 2" "vr_cpu_count ex_vm_request = 2"
  "vr_memory_mb ex_vm_request = 2048" "vr_created_by ex_vm_request = Some 5" "vr_idempotency_key ex_vm_request = ''''"
  "vr_nics ex_vm_request = []" "vr_name ex_vm_request = ''db''" "vr_node ex_vm_request = None"
  by (simp_all add: ex_vm_request_def)

lemma ex_vm_additional:
  "vm_additional ex_vm_request = \<lparr> add_vms = 1, add_vcpu = 2, add_memory_mb = 2048, add_storage_gb = 20, add_snapshots = 0 \<rparr>"
  by (simp add: vm_additional_def requested_disks_def total_disk_gb_def ex_vm_request_def)

lemma ex_quota_in_force: "effective_quota ex_db (vr_organization ex_vm_request) (Some (vr_project ex_vm_request)) = Some ex_quota"
  by (simp add: effective_quota_def first_row_def rows_where_def ex_quota_def)

lemma ex_reserved: "check_and_reserve (vr_organization ex_vm_request) (Some (vr_project ex_vm_request)) (vm_additional ex_vm_request) ex_world =
    (Inr (), ex_world)"
proof -
  have "within_quota ex_quota (current_usage (wdb ex_world) (vr_organization ex_vm_request) (Some (vr_project ex_vm_request)))
      (vm_additional ex_vm_request)"
    by (simp add: within_quota_def current_usage_def counted_vms_def rows_where_def vm_disk_bytes_def vm_snapshot_count_def
        ex_vm_additional ex_quota_def ex_vm_def ex_disk_def ex_snapshot_def GiB_def)
  then have "fst (check_and_reserve (vr_organization ex_vm_request) (Some (vr_project ex_vm_request)) (vm_additional ex_vm_request) ex_world) = Inr ()"
    unfolding check_and_reserve_ok using ex_quota_in_force by simp
  then show ?thesis using check_and_reserve_state by (metis prod.collapse)
qed

lemma ex_created: "\<exists>vmk v jk j w'. create_vm ex_vm_request ex_world = (Inr ((vmk, v), (jk, j)), w')"
proof -
  have sel: "select_vm_node ex_vm_request ex_world = (Inr 10, ex_world)"
    using ex_selected
    by (simp add: select_vm_node_def ex_vm_request_def ex_request_def requested_disks_def total_disk_gb_def bindM_def)
  have "\<exists>vmk v jk j w'. create_vm_rows ex_vm_request 10 ex_world = (Inr ((vmk, v), (jk, j)), w')"
    by (simp add: create_vm_rows_def ex_vm_request_def requested_disks_def bindM_def insert_vm_def vm_name_taken_def
        vm_key_taken_def vm_row_of_def ex_vm_def fresh_pk_apply create_vm_disk_def create_disk_row_def
        create_job_def job_key_taken_def Let_def enqueue_def)
  moreover have "\<not> idempotent_hit ex_vm_request (wdb ex_world)" by (simp add: idempotent_hit_def ex_vm_request_def)
  ultimately show ?thesis
    using ex_reserved sel by (auto simp: create_vm_def atomicM_Inr bindM_def)
qed

theorem create_vm_result_witness:
  "\<exists>vmk v jk j w'. create_vm ex_vm_request ex_world = (Inr ((vmk, v), (jk, j)), w') \<and>
     vms (wdb w') = vms (wdb ex_world) @ [(vmk, v)] \<and> queue (wdb w') = queue (wdb ex_world) @ [ProvisionVm jk vmk] \<and>
     vm_status v = VS_CREATING \<and> job_status j = JS_QUEUED"
  using ex_created create_vm_result by blast

theorem create_vm_within_quota_witness:
  "\<exists>vmk v jk j w'. create_vm ex_vm_request ex_world = (Inr ((vmk, v), (jk, j)), w') \<and>
     usage_vms (current_usage (wdb w') (vr_organization ex_vm_request) (Some (vr_project ex_vm_request))) \<le> 3"
proof -
  obtain vmk v jk j w' where c: "create_vm ex_vm_request ex_world = (Inr ((vmk, v), (jk, j)), w')" using ex_created by blast
  have "usage_vms (current_usage (wdb w') (vr_organization ex_vm_request) (Some (vr_project ex_vm_request))) \<le> int (max_vms ex_quota)"
    using create_vm_within_quota [OF c, of ex_quota] ex_quota_in_force by (simp add: Let_def)
  with c show ?thesis by (auto simp: ex_quota_def)
qed

definition ex_repeat_request :: vm_request where
  "ex_repeat_request = ex_vm_request\<lparr>vr_idempotency_key := ''k1''\<rparr>"

theorem idempotency_key_repeat_fails_witness:
  "create_vm ex_repeat_request ex_world = (Inl (AttributeError ''VirtualMachine object has no attribute jobs''), ex_world)"
  by (rule idempotency_key_repeat_fails [where k = 20 and v = ex_vm])
    (simp_all add: ex_repeat_request_def ex_vm_request_def ex_vm_def)

theorem create_vm_atomic_witness:
  "\<exists>e w'. create_vm ex_repeat_request ex_world = (Inl e, w') \<and> wdb w' = wdb ex_world"
proof -
  have "idempotent_hit ex_repeat_request (wdb ex_world)"
    by (simp add: idempotent_hit_def ex_repeat_request_def ex_vm_def)
  then obtain e w' where r: "create_vm ex_repeat_request ex_world = (Inl e, w')"
    by (simp add: create_vm_def atomicM_def)
  from create_vm_atomic [OF r] r show ?thesis by blast
qed

theorem no_disks_never_created_witness: "\<exists>e. fst (create_vm (ex_vm_request\<lparr>vr_disks := []\<rparr>) ex_world) = Inl e"
  by (rule no_disks_never_created) simp

theorem lifecycle_request_witness:
  "start_lifecycle_job (20, ex_vm) VM_PAUSE PauseVm (Some 5) ex_world =
     (Inl (api_exn InvalidStateTransition ''Cannot VM_PAUSE a VM in status STOPPED''), ex_world)"
  using lifecycle_request [of VM_PAUSE ex_vm 20 PauseVm "Some 5" ex_world]
  by (simp add: allowed_from_def ex_vm_def)

end
