(* ===== verification/VMTasks.thy ===== *)
theory VMTasks
  imports VMService
begin

section \<open>VMTasks: the Celery tasks that drive VMs through the agent\<close>

text \<open>
  \<open>backend/apps/virtual_machines/tasks.py\<close>. The task's variable \<open>vm\<close> is a mutable instance that
  the exception handlers read after a failure, so it lives in the world (\<open>l_vm\<close>); the variable
  \<open>job\<close> is never refreshed, so it stays the pair read at the start. \<open>save(update_fields)\<close> writes
  the named fields of the instance in memory.
\<close>

subsection \<open>The instance in memory\<close>

definition loc_vm :: "virtual_machine op" where
  "loc_vm = bindM (getM l_vm) (optionM (OtherError ''cannot access local variable vm''))"

definition put_loc_vm :: "virtual_machine \<Rightarrow> unit op" where
  "put_loc_vm v = modM (\<lambda>w. w\<lparr>l_vm := Some v\<rparr>)"

definition set_loc_vm :: "(virtual_machine \<Rightarrow> virtual_machine) \<Rightarrow> unit op" where
  "set_loc_vm f = modM (\<lambda>w. w\<lparr>l_vm := map_option f (l_vm w)\<rparr>)"

definition save_vm :: "nat \<Rightarrow> (virtual_machine \<Rightarrow> virtual_machine \<Rightarrow> virtual_machine) \<Rightarrow> unit op" where
  "save_vm vmk fs = bindM loc_vm (\<lambda>v. save_row vms vms_update vmk (fs v))"

definition f_state :: "virtual_machine \<Rightarrow> virtual_machine \<Rightarrow> virtual_machine" where
  "f_state v r = r\<lparr>vm_provisioning_state := vm_provisioning_state v\<rparr>"

definition f_status :: "virtual_machine \<Rightarrow> virtual_machine \<Rightarrow> virtual_machine" where
  "f_status v r = r\<lparr>vm_status := vm_status v\<rparr>"

definition f_status_state :: "virtual_machine \<Rightarrow> virtual_machine \<Rightarrow> virtual_machine" where
  "f_status_state v r = r\<lparr>vm_status := vm_status v, vm_provisioning_state := vm_provisioning_state v\<rparr>"

definition f_error :: "virtual_machine \<Rightarrow> virtual_machine \<Rightarrow> virtual_machine" where
  "f_error v r = r\<lparr>vm_last_error := vm_last_error v\<rparr>"

definition f_status_error :: "virtual_machine \<Rightarrow> virtual_machine \<Rightarrow> virtual_machine" where
  "f_status_error v r = r\<lparr>vm_status := vm_status v, vm_last_error := vm_last_error v\<rparr>"

definition f_status_state_error :: "virtual_machine \<Rightarrow> virtual_machine \<Rightarrow> virtual_machine" where
  "f_status_state_error v r = r\<lparr>vm_status := vm_status v, vm_provisioning_state := vm_provisioning_state v,
     vm_last_error := vm_last_error v\<rparr>"

definition set_state :: "nat \<Rightarrow> ProvisioningState \<Rightarrow> unit op" where
  "set_state vmk s = bindM (set_loc_vm (\<lambda>v. v\<lparr>vm_provisioning_state := s\<rparr>)) (\<lambda>_. save_vm vmk f_state)"

subsection \<open>Payloads\<close>

definition storage_payload :: "db \<Rightarrow> vm_disk \<Rightarrow> (string \<times> json) list" where
  "storage_payload d r = [(''storage_id'', JInt (int (dsk_storage r))),
     (''storage_type'', case disk_storage d r of Some s \<Rightarrow> JStr (show_StorageType (sto_type s)) | None \<Rightarrow> JNull),
     (''storage_path'', case disk_storage d r of Some s \<Rightarrow> JStr (sto_path s) | None \<Rightarrow> JNull)]"

definition storage_type_of :: "db \<Rightarrow> vm_disk \<Rightarrow> json" where
  "storage_type_of d r = (case disk_storage d r of Some s \<Rightarrow> JStr (show_StorageType (sto_type s)) | None \<Rightarrow> JNull)"

definition disk_payload :: "db \<Rightarrow> vm_disk \<Rightarrow> json" where
  "disk_payload d r = JObj [(''uuid'', JStr (uuid r)), (''volume_id'', JStr (dsk_volume_id r)),
     (''bus'', JStr (show_DiskBus (dsk_bus r))), (''device'', JStr (dsk_device r)),
     (''bootable'', JBool (dsk_bootable r)), (''readonly'', JBool (dsk_readonly r)),
     (''discard'', JBool (dsk_discard r)), (''iothread'', JBool (dsk_iothread r)),
     (''boot_index'', JInt (int (dsk_boot_index r))), (''format'', JStr (dsk_format r)),
     (''storage_type'', storage_type_of d r)]"

text \<open>\<open>nic.vlan or nic.network.vlan_id\<close>.\<close>

definition nic_vlan_or :: "db \<Rightarrow> vm_nic \<Rightarrow> json" where
  "nic_vlan_or d n = (if nic_vlan n \<noteq> None \<and> nic_vlan n \<noteq> Some 0 then jopt_int (nic_vlan n)
     else (case row_get (nic_network n) (networks d) of Some nw \<Rightarrow> jopt_int (net_vlan_id nw) | None \<Rightarrow> JNull))"

definition nic_bridge :: "db \<Rightarrow> vm_nic \<Rightarrow> json" where
  "nic_bridge d n = (case row_get (nic_network n) (networks d) of Some nw \<Rightarrow> JStr (net_bridge nw) | None \<Rightarrow> JNull)"

definition nic_payload :: "db \<Rightarrow> vm_nic \<Rightarrow> json" where
  "nic_payload d n = JObj [(''uuid'', JStr (uuid n)), (''mac_address'', JStr (nic_mac_address n)),
     (''model'', JStr (show_NicModel (nic_model n))), (''bridge'', nic_bridge d n), (''vlan'', nic_vlan_or d n),
     (''boot_index'', JInt (int (nic_boot_index n))), (''rate_limit_mbps'', jopt_int (nic_rate_limit_mbps n))]"

definition build_domain_payload :: "db \<Rightarrow> nat \<Rightarrow> virtual_machine \<Rightarrow> json" where
  "build_domain_payload d vmk v = JObj [
     (''domain_uuid'', JStr (vm_domain_uuid v)), (''name'', JStr (vm_name v)), (''os_type'', JStr (vm_os_type v)),
     (''firmware'', JStr (show_FirmwareType (vm_firmware v))), (''machine_type'', JStr (vm_machine_type v)),
     (''cpu'', JObj [(''count'', JInt (int (vm_cpu_count v))), (''sockets'', JInt (int (vm_cpu_sockets v))),
        (''cores'', JInt (int (vm_cpu_cores v))), (''threads'', JInt (int (vm_cpu_threads v))),
        (''model'', JStr (vm_cpu_model v))]),
     (''memory_mb'', JInt (int (vm_memory_mb v))), (''ballooning_enabled'', JBool (vm_ballooning_enabled v)),
     (''boot_order'', jstrs (if vm_boot_order v = [] then [''disk''] else vm_boot_order v)),
     (''disks'', JArr (map (\<lambda>(k, r). disk_payload d r) (vm_disks d vmk))),
     (''nics'', JArr (map (\<lambda>(k, n). nic_payload d n) (vm_nics d vmk)))]"

subsection \<open>Events\<close>

definition broadcast_vm_status :: "virtual_machine \<Rightarrow> unit op" where
  "broadcast_vm_status v = group_send (''vm.'' @ uuid v)
     (JObj [(''type'', JStr ''vm.status''),
            (''data'', JObj [(''uuid'', JStr (uuid v)), (''status'', JStr (show_VMStatus (vm_status v))),
               (''provisioning_state'', JStr (show_ProvisioningState (vm_provisioning_state v)))])])"

definition emit_vm_event :: "virtual_machine \<Rightarrow> string \<Rightarrow> (string \<times> json) list \<Rightarrow> unit op" where
  "emit_vm_event v ty metadata =
     bindM (tryM (bindM (emit_event ty EV_INFO ''VirtualMachine'' (uuid v) (vm_organization v) None
              (dict_merge [(''name'', JStr (vm_name v))] metadata)) (\<lambda>_. returnM ())) (\<lambda>_. returnM ())) (\<lambda>_.
     tryM (broadcast_vm_status v) (\<lambda>_. returnM ()))"

subsection \<open>Provisioning\<close>

definition delete_disk_op :: "virtual_machine \<Rightarrow> vm_disk \<Rightarrow> unit op" where
  "delete_disk_op v r = bindM (getdb (\<lambda>d. storage_payload d r)) (\<lambda>sp.
     bindM (send_operation (vm_node v) DELETE_DISK (uuid v) (JObj ((''volume_id'', JStr (dsk_volume_id r)) # sp)) None)
       (\<lambda>_. returnM ()))"

definition volumes_of :: "db \<Rightarrow> nat \<Rightarrow> disk_obj list" where
  "volumes_of d vmk = filter (\<lambda>(k, r). dsk_volume_id r \<noteq> '''') (vm_disks d vmk)"

definition cleanup_partial_vm :: "nat \<Rightarrow> unit op" where
  "cleanup_partial_vm vmk = bindM loc_vm (\<lambda>v.
     bindM (if vm_provisioning_state v \<in> {PS_DOMAIN_CREATED, PS_CLOUD_INIT_ATTACHED, PS_STARTED}
            then tryM (bindM (send_operation (vm_node v) DELETE_VM (uuid v) (JObj [(''delete_disks'', JBool False)]) None) (\<lambda>_. returnM []))
                   (\<lambda>e. returnM [''domain cleanup: '' @ str_exn e])
            else returnM []) (\<lambda>p1.
     bindM (getdb (\<lambda>d. volumes_of d vmk)) (\<lambda>ds.
     bindM (mapM (\<lambda>(k, r). tryM (bindM (delete_disk_op v r) (\<lambda>_. returnM []))
              (\<lambda>e. returnM [''disk '' @ dsk_name r @ '': '' @ str_exn e])) ds) (\<lambda>ps.
       let problems = p1 @ concat ps
       in if problems \<noteq> [] then emit_vm_event v ''VM_CLEANUP_INCOMPLETE'' [(''problems'', jstrs problems)] else returnM ()))))"

definition save_disk_reply :: "nat \<Rightarrow> vm_disk \<Rightarrow> json \<Rightarrow> vm_disk op" where
  "save_disk_reply k r data =
     bindM (data_str data ''volume_id'' '''') (\<lambda>vol. bindM (data_str data ''device'' (dsk_device r)) (\<lambda>dev.
     bindM (data_str data ''format'' (dsk_format r)) (\<lambda>fmt.
     bindM (save_row disks disks_update k (\<lambda>x. x\<lparr>dsk_volume_id := vol, dsk_device := dev, dsk_format := fmt\<rparr>)) (\<lambda>_.
     returnM (r\<lparr>dsk_volume_id := vol, dsk_device := dev, dsk_format := fmt\<rparr>)))))"

definition create_disk_payload :: "db \<Rightarrow> vm_disk \<Rightarrow> (string \<times> json) list" where
  "create_disk_payload d r = [(''disk_uuid'', JStr (uuid r)), (''storage_id'', JInt (int (dsk_storage r))),
     (''storage_path'', case disk_storage d r of Some s \<Rightarrow> JStr (sto_path s) | None \<Rightarrow> JNull),
     (''storage_type'', storage_type_of d r), (''size_bytes'', JInt (dsk_size_bytes r)), (''format'', JStr (dsk_format r))]"

definition image_payload :: "db \<Rightarrow> vm_disk \<Rightarrow> (string \<times> json) list" where
  "image_payload d r = (case dsk_source_image r of None \<Rightarrow> [] | Some ik \<Rightarrow>
     (case row_get ik (images d) of None \<Rightarrow> [] | Some i \<Rightarrow>
        [(''image_uuid'', JStr (uuid i)), (''image_sha256'', JStr (img_sha256 i)), (''image_format'', JStr (img_format i))]))"

definition provision_disk :: "virtual_machine \<Rightarrow> disk_obj \<Rightarrow> unit op" where
  "provision_disk v kr = (case kr of (k, r) \<Rightarrow>
     bindM (getdb (\<lambda>d. create_disk_payload d r @ [(''name'', JStr (dsk_name r))] @ image_payload d r)) (\<lambda>payload.
     bindM (send_operation (vm_node v) CREATE_DISK (uuid v) (JObj payload)
              (if dsk_source_image r \<noteq> None then Some 3600 else None)) (\<lambda>data.
     bindM (save_disk_reply k r data) (\<lambda>_. returnM ()))))"

definition start_or_stop :: "nat \<Rightarrow> job_obj \<Rightarrow> virtual_machine \<Rightarrow> unit op" where
  "start_or_stop vmk jo v =
     (if vm_autostart v
      then job_run jo ''Starting VM''
             (bindM (send_operation (vm_node v) START_VM (uuid v) (JObj []) None) (\<lambda>_.
              bindM (set_loc_vm (\<lambda>x. x\<lparr>vm_status := VS_RUNNING, vm_provisioning_state := PS_STARTED\<rparr>)) (\<lambda>_.
              save_vm vmk f_status_state)))
      else set_loc_vm (\<lambda>x. x\<lparr>vm_status := VS_STOPPED\<rparr>))"

definition provision_steps :: "nat \<Rightarrow> job_obj \<Rightarrow> virtual_machine \<Rightarrow> unit op list" where
  "provision_steps vmk jo v =
     [job_run jo ''Allocating resources'' (set_state vmk PS_ALLOCATING),
      job_run jo ''Creating disks''
        (bindM (getdb (\<lambda>d. vm_disks d vmk)) (\<lambda>ds.
         bindM (forM ds (provision_disk v)) (\<lambda>_. set_state vmk PS_DISK_CREATED))),
      job_run jo ''Configuring network'' (set_state vmk PS_NETWORK_CREATED),
      job_run jo ''Creating domain''
        (bindM (getdb (\<lambda>d. build_domain_payload d vmk v)) (\<lambda>p.
         bindM (send_operation (vm_node v) CREATE_VM (uuid v) p None) (\<lambda>_. set_state vmk PS_DOMAIN_CREATED))),
      (if vm_cloud_init_enabled v
       then job_run jo ''Attaching cloud-init''
              (bindM (send_operation (vm_node v) GENERATE_CLOUD_INIT (uuid v)
                 (JObj [(''cloud_init'', vm_cloud_init_config v)]) None) (\<lambda>_. returnM ()))
       else returnM ()),
      set_state vmk PS_CLOUD_INIT_ATTACHED,
      start_or_stop vmk jo v,
      bindM (set_loc_vm (\<lambda>x. x\<lparr>vm_provisioning_state := PS_READY\<rparr>)) (\<lambda>_. save_vm vmk f_status_state)]"

definition provision_failed :: "nat \<Rightarrow> nat \<Rightarrow> exn \<Rightarrow> unit op" where
  "provision_failed jk vmk e = seqM
     [cleanup_partial_vm vmk,
      set_loc_vm (\<lambda>x. x\<lparr>vm_status := VS_ERROR, vm_provisioning_state := PS_ERROR, vm_last_error := str_exn e\<rparr>),
      save_vm vmk f_status_state_error,
      fail_unless_terminal jk (str_exn e),
      raiseM e]"

definition succeed :: "nat \<Rightarrow> string \<Rightarrow> unit op" where
  "succeed jk msg = bindM (transition jk JS_SUCCESS (Some msg) None) (\<lambda>_. returnM ())"

definition provision_vm :: "nat \<Rightarrow> nat \<Rightarrow> unit op" where
  "provision_vm jk vmk = bindM (get_row ''Job'' jobs jk) (\<lambda>j. bindM (get_row ''VirtualMachine'' vms vmk) (\<lambda>v.
     bindM (put_loc_vm v) (\<lambda>_.
     tryM (bindM (with_lock (lifecycle_lock v) (seqM (provision_steps vmk (jk, j) v))) (\<lambda>_.
           bindM (succeed jk ''VM created successfully'') (\<lambda>_.
           bindM loc_vm (\<lambda>x. emit_vm_event x ''VM_CREATED'' []))))
       (\<lambda>e. if is_lock_error e
            then bindM (if \<not> is_terminal (job_status j)
                        then bindM (transition jk JS_FAILED None (Some (str_exn e))) (\<lambda>_. returnM ()) else returnM ()) (\<lambda>_. raiseM e)
            else provision_failed jk vmk e))))"

subsection \<open>Lifecycle\<close>

definition simple_lifecycle_task :: "nat \<Rightarrow> nat \<Rightarrow> OperationType \<Rightarrow> VMStatus \<Rightarrow> string \<Rightarrow> string \<Rightarrow> unit op" where
  "simple_lifecycle_task jk vmk oper running_status step_message event_type =
     bindM (get_row ''Job'' jobs jk) (\<lambda>j. bindM (get_row ''VirtualMachine'' vms vmk) (\<lambda>v.
     bindM (put_loc_vm v) (\<lambda>_.
     tryM (bindM (with_lock (lifecycle_lock v)
             (job_run (jk, j) step_message
                (bindM (send_operation (vm_node v) oper (uuid v) (JObj []) None) (\<lambda>_.
                 bindM (set_loc_vm (\<lambda>x. x\<lparr>vm_status := running_status\<rparr>)) (\<lambda>_. save_vm vmk f_status))))) (\<lambda>_.
           bindM (succeed jk step_message) (\<lambda>_.
           bindM loc_vm (\<lambda>x. emit_vm_event x event_type []))))
       (\<lambda>e. seqM [set_loc_vm (\<lambda>x. x\<lparr>vm_last_error := str_exn e\<rparr>), save_vm vmk f_error,
               fail_unless_terminal jk (str_exn e), raiseM e]))))"

definition start_vm_task :: "nat \<Rightarrow> nat \<Rightarrow> unit op" where
  "start_vm_task jk vmk = simple_lifecycle_task jk vmk START_VM VS_RUNNING ''Starting VM'' ''VM_STARTED''"

definition stop_vm_task :: "nat \<Rightarrow> nat \<Rightarrow> unit op" where
  "stop_vm_task jk vmk = bindM (get_row ''Job'' jobs jk) (\<lambda>j. let force = (job_type j = VM_STOP) in
     simple_lifecycle_task jk vmk (if force then STOP_VM else SHUTDOWN_VM) VS_STOPPED
       (if force then ''Stopping VM'' else ''Shutting down VM'') ''VM_STOPPED'')"

definition reboot_vm_task :: "nat \<Rightarrow> nat \<Rightarrow> unit op" where
  "reboot_vm_task jk vmk = bindM (get_row ''Job'' jobs jk) (\<lambda>j. let force = (job_type j = VM_RESET) in
     simple_lifecycle_task jk vmk (if force then RESET_VM else REBOOT_VM) VS_RUNNING
       (if force then ''Resetting VM'' else ''Rebooting VM'') ''VM_REBOOTED'')"

definition pause_vm_task :: "nat \<Rightarrow> nat \<Rightarrow> unit op" where
  "pause_vm_task jk vmk = simple_lifecycle_task jk vmk PAUSE_VM VS_PAUSED ''Pausing VM'' ''VM_PAUSED''"

definition resume_vm_task :: "nat \<Rightarrow> nat \<Rightarrow> unit op" where
  "resume_vm_task jk vmk = simple_lifecycle_task jk vmk RESUME_VM VS_RUNNING ''Resuming VM'' ''VM_RESUMED''"

text \<open>\<open>vm.delete()\<close>: the rows that point to the VM with \<open>CASCADE\<close> go with it.\<close>

definition delete_vm_row :: "nat \<Rightarrow> unit op" where
  "delete_vm_row vmk = moddb (\<lambda>d. d\<lparr>vms := row_del vmk (vms d),
     disks := filter (\<lambda>(k, r). dsk_vm r \<noteq> vmk) (disks d), nics := filter (\<lambda>(k, r). nic_vm r \<noteq> vmk) (nics d),
     snapshots := filter (\<lambda>(k, r). snp_vm r \<noteq> vmk) (snapshots d), backups := filter (\<lambda>(k, r). bkp_vm r \<noteq> vmk) (backups d),
     backup_schedules := filter (\<lambda>(k, r). bks_vm r \<noteq> vmk) (backup_schedules d)\<rparr>)"

definition delete_vm_task :: "nat \<Rightarrow> nat \<Rightarrow> unit op" where
  "delete_vm_task jk vmk =
     bindM (get_row ''Job'' jobs jk) (\<lambda>j. bindM (get_row ''VirtualMachine'' vms vmk) (\<lambda>v.
     bindM (put_loc_vm v) (\<lambda>_.
     tryM (seqM
       [with_lock (lifecycle_lock v) (with_lock (storage_lock v)
          (job_run (jk, j) ''Deleting VM''
            (seqM [set_loc_vm (\<lambda>x. x\<lparr>vm_status := VS_DELETING\<rparr>), save_vm vmk f_status,
               bindM (send_operation (vm_node v) DELETE_VM (uuid v) (JObj [(''delete_disks'', JBool True)]) None) (\<lambda>_. returnM ()),
               bindM (getdb (\<lambda>d. volumes_of d vmk)) (\<lambda>ds. forM ds (\<lambda>(k, r). delete_disk_op v r))]))),
        delete_vm_row vmk,
        succeed jk ''VM deleted'',
        tryM (bindM (emit_event ''VM_DELETED'' EV_INFO ''VirtualMachine'' (uuid v) (vm_organization v) None
                [(''name'', JStr (vm_name v))]) (\<lambda>_. returnM ())) (\<lambda>_. returnM ())])
       (\<lambda>e. seqM [set_loc_vm (\<lambda>x. x\<lparr>vm_status := VS_ERROR, vm_last_error := str_exn e\<rparr>), save_vm vmk f_status_error,
               fail_unless_terminal jk (str_exn e), raiseM e]))))"

subsection \<open>Cloning\<close>

definition clone_row :: "virtual_machine \<Rightarrow> nat option \<Rightarrow> string \<Rightarrow> string \<Rightarrow> string \<Rightarrow> nat \<Rightarrow> virtual_machine" where
  "clone_row v by new_name u du t = \<lparr> uuid = u, created_at = t, updated_at = t,
     vm_organization = vm_organization v, vm_project = vm_project v, vm_node = vm_node v, vm_template = None,
     vm_created_by = by, vm_name = new_name, vm_hostname = '''', vm_description = '''',
     vm_status = VS_CREATING, vm_provisioning_state = PS_REQUESTED, vm_os_type = vm_os_type v,
     vm_firmware = vm_firmware v, vm_machine_type = vm_machine_type v, vm_cpu_count = vm_cpu_count v,
     vm_cpu_sockets = vm_cpu_sockets v, vm_cpu_cores = vm_cpu_cores v, vm_cpu_threads = vm_cpu_threads v,
     vm_cpu_model = vm_cpu_model v, vm_memory_mb = vm_memory_mb v, vm_min_memory_mb = None,
     vm_max_memory_mb = None, vm_ballooning_enabled = True, vm_boot_order = [], vm_autostart = False,
     vm_cloud_init_enabled = vm_cloud_init_enabled v, vm_cloud_init_config = JObj [], vm_domain_uuid = du,
     vm_idempotency_key = '''', vm_last_error = '''' \<rparr>"

definition clone_prepare :: "nat \<Rightarrow> job \<Rightarrow> virtual_machine \<Rightarrow> string \<Rightarrow> vm_obj op" where
  "clone_prepare jk j v new_name = bindM uuid4 (\<lambda>u. bindM uuid4 (\<lambda>du. bindM now (\<lambda>t.
     bindM (insert_vm (clone_row v (job_created_by j) new_name u du t)) (\<lambda>c.
     bindM (save_job jk (\<lambda>r. r\<lparr>job_resource_id := uuid (snd c)\<rparr>)) (\<lambda>_. returnM c)))))"

definition clone_payload :: "db \<Rightarrow> vm_obj \<Rightarrow> bool \<Rightarrow> vm_disk \<Rightarrow> json" where
  "clone_payload d c linked r = JObj ((''source_volume_id'', JStr (dsk_volume_id r)) # storage_payload d r @
     [(''new_name'', JStr (uuid (snd c) @ ''-'' @ dsk_name r)), (''linked'', JBool linked)])"

definition clone_disk :: "virtual_machine \<Rightarrow> vm_obj \<Rightarrow> bool \<Rightarrow> disk_obj \<Rightarrow> unit op" where
  "clone_disk v c linked kr = (case kr of (k, r) \<Rightarrow>
     bindM (getdb (\<lambda>d. clone_payload d c linked r)) (\<lambda>payload.
     bindM (send_operation (vm_node v) CLONE_DISK (uuid v) payload None) (\<lambda>data.
     bindM (data_str data ''volume_id'' '''') (\<lambda>vol.
     bindM (create_disk_row (fst c) (Some (dsk_storage r)) None (dsk_name r) vol (dsk_device r) (dsk_bus r)
        (dsk_size_bytes r) (dsk_format r) (dsk_bootable r) (dsk_readonly r) (dsk_discard r) (dsk_iothread r)
        (dsk_boot_index r)) (\<lambda>_. returnM ())))))"

definition clone_nic :: "vm_obj \<Rightarrow> nic_obj \<Rightarrow> unit op" where
  "clone_nic c kn = (case kn of (k, n) \<Rightarrow> bindM generate_mac_address (\<lambda>mac.
     bindM (create_nic_row (fst c) (nic_network n) mac (nic_model n) (nic_vlan n) None (nic_bootable n) (nic_boot_index n))
       (\<lambda>_. returnM ())))"

definition save_clone :: "nat \<Rightarrow> (virtual_machine \<Rightarrow> virtual_machine) \<Rightarrow> unit op" where
  "save_clone ck f = save_row vms vms_update ck f"

definition ready_clone :: "virtual_machine \<Rightarrow> virtual_machine" where
  "ready_clone x = x\<lparr>vm_provisioning_state := PS_READY, vm_status := VS_STOPPED\<rparr>"

definition clone_steps :: "nat \<Rightarrow> nat \<Rightarrow> job \<Rightarrow> virtual_machine \<Rightarrow> string \<Rightarrow> bool \<Rightarrow> vm_obj op" where
  "clone_steps jk vmk j v new_name linked =
     bindM (job_run (jk, j) ''Preparing clone'' (clone_prepare jk j v new_name)) (\<lambda>c.
     bindM (seqM
       [job_run (jk, j) ''Cloning disks''
          (bindM (getdb (\<lambda>d. vm_disks d vmk)) (\<lambda>ds. bindM (forM ds (clone_disk v c linked)) (\<lambda>_.
             save_clone (fst c) (\<lambda>x. x\<lparr>vm_provisioning_state := PS_DISK_CREATED\<rparr>)))),
        job_run (jk, j) ''Assigning new network identity''
          (bindM (getdb (\<lambda>d. vm_nics d vmk)) (\<lambda>ns. bindM (forM ns (clone_nic c)) (\<lambda>_.
             save_clone (fst c) (\<lambda>x. x\<lparr>vm_provisioning_state := PS_NETWORK_CREATED\<rparr>)))),
        job_run (jk, j) ''Creating cloned domain''
          (bindM (getdb (\<lambda>d. build_domain_payload d (fst c) (snd c))) (\<lambda>p.
           bindM (send_operation (vm_node (snd c)) CREATE_VM (uuid (snd c)) p None) (\<lambda>_. save_clone (fst c) ready_clone)))])
       (\<lambda>_. returnM c))"

definition clone_vm_task :: "nat \<Rightarrow> nat \<Rightarrow> string \<Rightarrow> bool \<Rightarrow> unit op" where
  "clone_vm_task jk vmk new_name linked =
     bindM (get_row ''Job'' jobs jk) (\<lambda>j. bindM (get_row ''VirtualMachine'' vms vmk) (\<lambda>v.
     tryM (bindM (with_lock (lifecycle_lock v) (with_lock (storage_lock v) (clone_steps jk vmk j v new_name linked))) (\<lambda>c.
           bindM (succeed jk (''Cloned to '' @ new_name)) (\<lambda>_.
           emit_vm_event (ready_clone (snd c)) ''VM_CLONED'' [(''source_uuid'', JStr (uuid v))])))
       (\<lambda>e. seqM [fail_unless_terminal jk (str_exn e), raiseM e])))"

subsection \<open>Disk and NIC hot-plug\<close>

definition disk_or_nic_task :: "nat \<Rightarrow> nat \<Rightarrow> string \<Rightarrow> (virtual_machine \<Rightarrow> unit op) \<Rightarrow> unit op" where
  "disk_or_nic_task jk vmk step run_op =
     bindM (get_row ''Job'' jobs jk) (\<lambda>j. bindM (get_row ''VirtualMachine'' vms vmk) (\<lambda>v.
     tryM (bindM (with_lock (storage_lock v) (job_run (jk, j) step (run_op v))) (\<lambda>_. succeed jk step))
       (\<lambda>e. seqM [fail_unless_terminal jk (str_exn e), raiseM e])))"

definition attach_disk_run :: "nat \<Rightarrow> vm_disk \<Rightarrow> virtual_machine \<Rightarrow> unit op" where
  "attach_disk_run dk r v =
     bindM (getdb (\<lambda>d. create_disk_payload d r)) (\<lambda>p.
     bindM (send_operation (vm_node v) CREATE_DISK (uuid v) (JObj p) None) (\<lambda>data.
     bindM (save_disk_reply dk r data) (\<lambda>r'.
     bindM (getdb (\<lambda>d. storage_type_of d r)) (\<lambda>st.
     bindM (send_operation (vm_node v) ATTACH_DISK (uuid v)
       (JObj [(''domain_uuid'', JStr (vm_domain_uuid v)), (''volume_id'', JStr (dsk_volume_id r')),
          (''device'', JStr (if dsk_device r' = '''' then ''vdb'' else dsk_device r')),
          (''bus'', JStr (show_DiskBus (dsk_bus r'))), (''storage_type'', st), (''format'', JStr (dsk_format r'))]) None)
       (\<lambda>_. returnM ())))))"

definition attach_disk_task :: "nat \<Rightarrow> nat \<Rightarrow> unit op" where
  "attach_disk_task jk dk = bindM (get_row ''VMDisk'' disks dk) (\<lambda>r.
     disk_or_nic_task jk (dsk_vm r) (''Attaching disk '' @ dsk_name r) (attach_disk_run dk r))"

definition detach_disk_run :: "nat \<Rightarrow> vm_disk \<Rightarrow> virtual_machine \<Rightarrow> unit op" where
  "detach_disk_run dk r v =
     bindM (getdb (\<lambda>d. storage_type_of d r)) (\<lambda>st.
     seqM [bindM (send_operation (vm_node v) DETACH_DISK (uuid v)
             (JObj [(''domain_uuid'', JStr (vm_domain_uuid v)), (''volume_id'', JStr (dsk_volume_id r)),
                (''device'', JStr (dsk_device r)), (''bus'', JStr (show_DiskBus (dsk_bus r))), (''storage_type'', st),
                (''format'', JStr (dsk_format r))]) None) (\<lambda>_. returnM ()),
           (if dsk_volume_id r \<noteq> '''' then delete_disk_op v r else returnM ()),
           moddb (\<lambda>d. d\<lparr>disks := row_del dk (disks d)\<rparr>)])"

definition detach_disk_task :: "nat \<Rightarrow> nat \<Rightarrow> unit op" where
  "detach_disk_task jk dk = bindM (get_row ''VMDisk'' disks dk) (\<lambda>r.
     disk_or_nic_task jk (dsk_vm r) (''Detaching disk '' @ uuid r) (detach_disk_run dk r))"

definition resize_disk_run :: "nat \<Rightarrow> vm_disk \<Rightarrow> int \<Rightarrow> virtual_machine \<Rightarrow> unit op" where
  "resize_disk_run dk r new_size v =
     bindM (getdb (\<lambda>d. storage_payload d r)) (\<lambda>sp.
     bindM (send_operation (vm_node v) RESIZE_DISK (uuid v)
       (JObj ((''volume_id'', JStr (dsk_volume_id r)) # sp @ [(''new_size_bytes'', JInt new_size)])) None) (\<lambda>_.
     save_row disks disks_update dk (\<lambda>x. x\<lparr>dsk_size_bytes := new_size\<rparr>)))"

definition resize_disk_task :: "nat \<Rightarrow> nat \<Rightarrow> int \<Rightarrow> unit op" where
  "resize_disk_task jk dk new_size = bindM (get_row ''VMDisk'' disks dk) (\<lambda>r.
     disk_or_nic_task jk (dsk_vm r) (''Resizing disk '' @ dsk_name r) (resize_disk_run dk r new_size))"

definition nic_op_payload :: "db \<Rightarrow> vm_nic \<Rightarrow> virtual_machine \<Rightarrow> json" where
  "nic_op_payload d n v = JObj [(''domain_uuid'', JStr (vm_domain_uuid v)), (''bridge'', nic_bridge d n),
     (''vlan'', nic_vlan_or d n), (''mac_address'', JStr (nic_mac_address n)),
     (''model'', JStr (show_NicModel (nic_model n))), (''rate_limit_mbps'', jopt_int (nic_rate_limit_mbps n))]"

definition attach_nic_run :: "vm_nic \<Rightarrow> virtual_machine \<Rightarrow> unit op" where
  "attach_nic_run n v = bindM (getdb (\<lambda>d. nic_op_payload d n v)) (\<lambda>p.
     bindM (send_operation (vm_node v) ATTACH_NIC (uuid v) p None) (\<lambda>_. returnM ()))"

definition attach_nic_task :: "nat \<Rightarrow> nat \<Rightarrow> unit op" where
  "attach_nic_task jk nk = bindM (get_row ''VMNic'' nics nk) (\<lambda>n.
     disk_or_nic_task jk (nic_vm n) (''Attaching NIC '' @ nic_mac_address n) (attach_nic_run n))"

definition detach_nic_run :: "nat \<Rightarrow> vm_nic \<Rightarrow> virtual_machine \<Rightarrow> unit op" where
  "detach_nic_run nk n v = bindM (getdb (\<lambda>d. nic_op_payload d n v)) (\<lambda>p.
     bindM (send_operation (vm_node v) DETACH_NIC (uuid v) p None) (\<lambda>_.
     moddb (\<lambda>d. d\<lparr>nics := row_del nk (nics d)\<rparr>)))"

definition detach_nic_task :: "nat \<Rightarrow> nat \<Rightarrow> unit op" where
  "detach_nic_task jk nk = bindM (get_row ''VMNic'' nics nk) (\<lambda>n.
     disk_or_nic_task jk (nic_vm n) (''Detaching NIC '' @ nic_mac_address n) (detach_nic_run nk n))"

subsection \<open>Frames: every task moves jobs along the state machine\<close>

context task_frame
begin

lemma keeps_loc [intro]: "keeps R loc_vm" "keeps R (put_loc_vm v)" "keeps R (set_loc_vm f)"
  unfolding loc_vm_def put_loc_vm_def set_loc_vm_def
  by (intro tf_op keeps_mod_same; simp)+

lemma keeps_save_vm [intro]: "keeps R (save_vm vmk fs)"
  unfolding save_vm_def by (intro tf_op keeps_loc) simp

lemma keeps_set_state [intro]: "keeps R (set_state vmk s)"
  unfolding set_state_def by (intro tf_op keeps_loc keeps_save_vm)

lemma keeps_broadcast_vm [intro]: "keeps R (broadcast_vm_status v)"
  unfolding broadcast_vm_status_def by (intro tf_op)

lemma keeps_emit_vm_event [intro]: "keeps R (emit_vm_event v ty md)"
  unfolding emit_vm_event_def by (intro tf_op tf_event keeps_broadcast_vm)

lemma keeps_delete_disk_op [intro]: "keeps R (delete_disk_op v r)"
  unfolding delete_disk_op_def by (intro tf_op tf_rpc)

lemma keeps_cleanup [intro]: "keeps R (cleanup_partial_vm vmk)"
  unfolding cleanup_partial_vm_def Let_def
  by (intro tf_op tf_rpc keeps_case_prod keeps_loc keeps_delete_disk_op keeps_emit_vm_event)

lemma keeps_save_disk_reply [intro]: "keeps R (save_disk_reply k r data)"
  unfolding save_disk_reply_def by (intro tf_op tf_rpc) simp

lemma keeps_provision_disk [intro]: "keeps R (provision_disk v kr)"
  unfolding provision_disk_def by (intro tf_op tf_rpc keeps_case_prod keeps_save_disk_reply)

lemma keeps_start_or_stop [intro]: "keeps R (start_or_stop vmk jo v)"
  unfolding start_or_stop_def by (intro tf_op tf_job tf_rpc keeps_loc keeps_save_vm)

lemma keeps_provision_steps [intro]: "keeps R (seqM (provision_steps vmk jo v))"
  unfolding provision_steps_def
  by (intro tf_op tf_job tf_rpc keeps_loc keeps_save_vm keeps_set_state keeps_provision_disk
      keeps_start_or_stop)

lemma keeps_provision_failed [intro]: "keeps R (provision_failed jk vmk e)"
  unfolding provision_failed_def by (intro tf_op tf_job keeps_cleanup keeps_loc keeps_save_vm)

lemma keeps_delete_vm_row [intro]: "keeps R (delete_vm_row vmk)"
  unfolding delete_vm_row_def by (intro tf_op) simp

lemma keeps_clone_prepare [intro]: "keeps R (clone_prepare jk j v nm)"
  unfolding clone_prepare_def
  by (intro tf_op keeps_insert_vm tf_save_job) (simp_all add: same_job_def job_wf_def)

lemma keeps_clone_disk [intro]: "keeps R (clone_disk v c linked kr)"
  unfolding clone_disk_def by (intro tf_op tf_rpc keeps_case_prod keeps_create_disk_row)

lemma keeps_clone_nic [intro]: "keeps R (clone_nic c kn)"
  unfolding clone_nic_def by (intro tf_op keeps_case_prod keeps_generate_mac keeps_create_nic_row)

lemma keeps_save_clone [intro]: "keeps R (save_clone ck f)"
  unfolding save_clone_def by (intro tf_op) simp

lemma keeps_clone_steps [intro]: "keeps R (clone_steps jk vmk j v nm linked)"
  unfolding clone_steps_def
  by (intro tf_op tf_job tf_rpc keeps_clone_prepare keeps_clone_disk keeps_clone_nic keeps_save_clone)

lemma keeps_attach_disk_run: "keeps R (attach_disk_run dk r v)"
  unfolding attach_disk_run_def by (intro tf_op tf_rpc keeps_save_disk_reply)

lemma keeps_detach_disk_run: "keeps R (detach_disk_run dk r v)"
  unfolding detach_disk_run_def by (intro tf_op tf_rpc keeps_delete_disk_op) simp

lemma keeps_resize_disk_run: "keeps R (resize_disk_run dk r n v)"
  unfolding resize_disk_run_def by (intro tf_op tf_rpc) simp

lemma keeps_attach_nic_run: "keeps R (attach_nic_run n v)"
  unfolding attach_nic_run_def by (intro tf_op tf_rpc)

lemma keeps_detach_nic_run: "keeps R (detach_nic_run nk n v)"
  unfolding detach_nic_run_def by (intro tf_op tf_rpc) simp

lemmas run_frame = keeps_attach_disk_run keeps_detach_disk_run keeps_resize_disk_run keeps_attach_nic_run
  keeps_detach_nic_run

end

lemma keeps_succeed [intro]: "keeps job_safe (succeed jk msg)"
  unfolding succeed_def by (intro op_frame job_frame)

lemma keeps_provision_vm: "keeps job_safe (provision_vm jk vmk)"
  unfolding provision_vm_def
  by (intro op_frame job_frame lock_frame js.keeps_loc js.keeps_provision_steps keeps_succeed js.keeps_emit_vm_event
      js.keeps_provision_failed)

lemma keeps_simple_lifecycle_task: "keeps job_safe (simple_lifecycle_task jk vmk oper rs sm et)"
  unfolding simple_lifecycle_task_def
  by (intro op_frame job_frame lock_frame rpc_frame js.keeps_loc js.keeps_save_vm keeps_succeed js.keeps_emit_vm_event)

lemma keeps_delete_vm_task: "keeps job_safe (delete_vm_task jk vmk)"
  unfolding delete_vm_task_def
  by (intro op_frame job_frame lock_frame rpc_frame event_frame keeps_case_prod js.keeps_loc js.keeps_save_vm
      keeps_succeed js.keeps_delete_vm_row js.keeps_delete_disk_op)

lemma keeps_clone_vm_task: "keeps job_safe (clone_vm_task jk vmk nm linked)"
  unfolding clone_vm_task_def
  by (intro op_frame job_frame lock_frame js.keeps_clone_steps keeps_succeed js.keeps_emit_vm_event)

lemma keeps_disk_or_nic_task:
  "(\<And>v. keeps job_safe (run_op v)) \<Longrightarrow> keeps job_safe (disk_or_nic_task jk vmk step run_op)"
  unfolding disk_or_nic_task_def by (intro op_frame job_frame lock_frame keeps_succeed)

subsection \<open>Every task is a well-behaved job-bound body\<close>

lemmas et_rules = et_raise et_bind et_try et_seq_last et_seq et_if

lemma et_succeed_then: "(\<And>x. keeps job_safe (f x)) \<Longrightarrow> ends_terminal k (bindM (succeed k msg) f)"
  unfolding succeed_def by (intro et_then et_succeed)

lemma et_epilogue: "ends_terminal k (seqM [a, raiseM e])" "ends_terminal k (seqM [a, b, c, raiseM e])"
    "ends_terminal k (seqM [a, b, c, d, raiseM e])"
  by (intro et_seq et_seq_last et_raise)+

lemma et_provision_vm: "ends_terminal jk (provision_vm jk vmk)"
  unfolding provision_vm_def provision_failed_def
  by (rule et_bind, rule et_bind, rule et_bind, rule et_try)
    (intro et_bind et_succeed_then op_frame js.keeps_loc js.keeps_emit_vm_event et_if et_raise et_epilogue)+

lemma et_simple_lifecycle_task: "ends_terminal jk (simple_lifecycle_task jk vmk oper rs sm et)"
  unfolding simple_lifecycle_task_def
  by (rule et_bind, rule et_bind, rule et_bind, rule et_try)
    (rule et_bind, intro et_succeed_then op_frame js.keeps_loc js.keeps_emit_vm_event, rule et_epilogue)

lemma et_delete_vm_task: "ends_terminal jk (delete_vm_task jk vmk)"
  unfolding delete_vm_task_def
  apply (rule et_bind, rule et_bind, rule et_bind, rule et_try)
   apply (rule et_seq, rule et_seq, rule et_seq_then)
    apply (simp add: succeed_def et_succeed)
   apply (intro op_frame event_frame)
  apply (rule et_epilogue)
  done

lemma et_clone_vm_task: "ends_terminal jk (clone_vm_task jk vmk nm linked)"
  unfolding clone_vm_task_def
  by (rule et_bind, rule et_bind, rule et_try)
    (rule et_bind, intro et_succeed_then js.keeps_emit_vm_event, rule et_epilogue)

lemma et_disk_or_nic_task: "ends_terminal jk (disk_or_nic_task jk vmk step run_op)"
  unfolding disk_or_nic_task_def succeed_def
  by (rule et_bind, rule et_bind, rule et_try) (rule et_bind, rule et_succeed, rule et_epilogue)

interpretation provision: bound_body "\<lambda>jk. provision_vm jk vmk" for vmk
  by unfold_locales (rule keeps_provision_vm, rule et_provision_vm)

interpretation lifecycle: bound_body "\<lambda>jk. simple_lifecycle_task jk vmk oper rs sm et" for vmk oper rs sm et
  by unfold_locales (rule keeps_simple_lifecycle_task, rule et_simple_lifecycle_task)

interpretation stop: bound_body "\<lambda>jk. stop_vm_task jk vmk" for vmk
  by unfold_locales (simp_all add: stop_vm_task_def Let_def js.keeps_bind js.keeps_get_row et_bind
      keeps_simple_lifecycle_task et_simple_lifecycle_task)

interpretation reboot: bound_body "\<lambda>jk. reboot_vm_task jk vmk" for vmk
  by unfold_locales (simp_all add: reboot_vm_task_def Let_def js.keeps_bind js.keeps_get_row et_bind
      keeps_simple_lifecycle_task et_simple_lifecycle_task)

interpretation delete: bound_body "\<lambda>jk. delete_vm_task jk vmk" for vmk
  by unfold_locales (rule keeps_delete_vm_task, rule et_delete_vm_task)

interpretation clone: bound_body "\<lambda>jk. clone_vm_task jk vmk nm linked" for vmk nm linked
  by unfold_locales (rule keeps_clone_vm_task, rule et_clone_vm_task)

interpretation attach_disk: bound_body "\<lambda>jk. attach_disk_task jk dk" for dk
  by unfold_locales (simp_all add: attach_disk_task_def js.keeps_bind js.keeps_get_row et_bind
      keeps_disk_or_nic_task js.run_frame et_disk_or_nic_task)

interpretation detach_disk: bound_body "\<lambda>jk. detach_disk_task jk dk" for dk
  by unfold_locales (simp_all add: detach_disk_task_def js.keeps_bind js.keeps_get_row et_bind
      keeps_disk_or_nic_task js.run_frame et_disk_or_nic_task)

interpretation resize_disk: bound_body "\<lambda>jk. resize_disk_task jk dk n" for dk n
  by unfold_locales (simp_all add: resize_disk_task_def js.keeps_bind js.keeps_get_row et_bind
      keeps_disk_or_nic_task js.run_frame et_disk_or_nic_task)

interpretation attach_nic: bound_body "\<lambda>jk. attach_nic_task jk nk" for nk
  by unfold_locales (simp_all add: attach_nic_task_def js.keeps_bind js.keeps_get_row et_bind
      keeps_disk_or_nic_task js.run_frame et_disk_or_nic_task)

interpretation detach_nic: bound_body "\<lambda>jk. detach_nic_task jk nk" for nk
  by unfold_locales (simp_all add: detach_nic_task_def js.keeps_bind js.keeps_get_row et_bind
      keeps_disk_or_nic_task js.run_frame et_disk_or_nic_task)

end
