(* ===== verification/Snapshots.thy ===== *)
theory Snapshots
  imports VMTasks
begin

section \<open>Snapshots: services and tasks\<close>

text \<open>
  \<open>backend/apps/snapshots/services.py\<close> and \<open>tasks.py\<close>. The snapshot instance in memory is only
  read for its immutable columns, so that it is passed as a value; its status writes go straight to
  the row.
\<close>

subsection \<open>Services\<close>

definition supports :: "storage_pool \<Rightarrow> StorageCapability \<Rightarrow> bool" where
  "supports s c \<longleftrightarrow> c \<in> set (sto_capabilities s)"

definition unsupported_storages :: "db \<Rightarrow> nat \<Rightarrow> string list" where
  "unsupported_storages d vmk = concat (map (\<lambda>(k, r). case disk_storage d r of
      Some s \<Rightarrow> if supports s SC_SNAPSHOT then [] else [sto_name s] | None \<Rightarrow> []) (vm_disks d vmk))"

definition assert_snapshot_capable :: "nat \<Rightarrow> unit op" where
  "assert_snapshot_capable vmk = bindM (getdb (\<lambda>d. unsupported_storages d vmk)) (\<lambda>bad.
     if bad = [] then returnM ()
     else raiseM (mk_api StorageCapabilityUnsupported
       (Some (''The following disks live on storage that does not support snapshots: '' @ join_with '', '' bad))
       (Some (JObj [(''disks'', jstrs bad)]))))"

definition storage_busy :: "virtual_machine \<Rightarrow> exn" where
  "storage_busy v = api_exn ResourceLocked (''VM '' @ vm_name v @ '' has a storage operation in progress.'')"

definition create_snapshot :: "vm_obj \<Rightarrow> string \<Rightarrow> string \<Rightarrow> nat option \<Rightarrow> job_obj op" where
  "create_snapshot vo name description by = (case vo of (vmk, v) \<Rightarrow> atomicM
     (bindM (assert_snapshot_capable vmk) (\<lambda>_.
      bindM (check_and_reserve (vm_organization v) (Some (vm_project v)) (no_additional\<lparr>add_snapshots := 1\<rparr>)) (\<lambda>_.
      bindM (probe_lock (storage_lock v) (storage_busy v)) (\<lambda>_.
      bindM uuid4 (\<lambda>u. bindM now (\<lambda>t.
      bindM (getdb (\<lambda>d. list_ex (\<lambda>(k, s). snp_vm s = vmk \<and> snp_name s = name) (snapshots d))) (\<lambda>clash.
        if clash then raiseM (IntegrityError ''snapshots.vm_id, snapshots.name'')
        else bindM fresh_pk (\<lambda>sk.
        bindM (moddb (\<lambda>d. d\<lparr>snapshots := row_add sk
          \<lparr> uuid = u, created_at = t, updated_at = t, snp_vm = vmk, snp_name = name, snp_description = description,
            snp_status = SN_CREATING, snp_size_bytes = 0, snp_agent_snapshot_id = '''' \<rparr> (snapshots d)\<rparr>)) (\<lambda>_.
        bindM (create_job SNAPSHOT_CREATE ''Snapshot'' u (vm_organization v) (vm_node v) by '''' 600) (\<lambda>(jk, j).
        bindM (enqueue (CreateSnapshot jk sk)) (\<lambda>_. returnM (jk, j)))))))))))))"

definition delete_snapshot :: "nat \<times> snapshot \<Rightarrow> nat option \<Rightarrow> job_obj op" where
  "delete_snapshot so by = (case so of (sk, s) \<Rightarrow>
     if snp_status s \<notin> {SN_READY, SN_ERROR}
     then raiseM (api_exn InvalidStateTransition (''Cannot delete a snapshot in status '' @ show_SnapshotStatus (snp_status s)))
     else bindM (get_row ''VirtualMachine'' vms (snp_vm s)) (\<lambda>v.
          bindM (create_job SNAPSHOT_DELETE ''Snapshot'' (uuid s) (vm_organization v) (vm_node v) by '''' 600) (\<lambda>(jk, j).
          bindM (enqueue (DeleteSnapshot jk sk)) (\<lambda>_. returnM (jk, j)))))"

definition rollback_snapshot :: "nat \<times> snapshot \<Rightarrow> nat option \<Rightarrow> job_obj op" where
  "rollback_snapshot so by = (case so of (sk, s) \<Rightarrow>
     if snp_status s \<noteq> SN_READY
     then raiseM (api_exn InvalidStateTransition (''Cannot roll back to a snapshot in status '' @ show_SnapshotStatus (snp_status s)))
     else bindM (get_row ''VirtualMachine'' vms (snp_vm s)) (\<lambda>v.
          bindM (create_job SNAPSHOT_ROLLBACK ''Snapshot'' (uuid s) (vm_organization v) (vm_node v) by '''' 600) (\<lambda>(jk, j).
          bindM (enqueue (RollbackSnapshot jk sk)) (\<lambda>_. returnM (jk, j)))))"

subsection \<open>Tasks\<close>

definition emit_snapshot :: "virtual_machine \<Rightarrow> string \<Rightarrow> snapshot \<Rightarrow> unit op" where
  "emit_snapshot v ty s = bindM (emit_event ty EV_INFO ''VirtualMachine'' (uuid v) (vm_organization v) None
     [(''snapshot_name'', JStr (snp_name s))]) (\<lambda>_. returnM ())"

definition save_snapshot :: "nat \<Rightarrow> (snapshot \<Rightarrow> snapshot) \<Rightarrow> unit op" where
  "save_snapshot sk f = save_row snapshots snapshots_update sk f"

definition set_snapshot_status :: "nat \<Rightarrow> SnapshotStatus \<Rightarrow> unit op" where
  "set_snapshot_status sk st = save_snapshot sk (\<lambda>s. s\<lparr>snp_status := st\<rparr>)"

definition create_snapshot_task :: "nat \<Rightarrow> nat \<Rightarrow> unit op" where
  "create_snapshot_task jk sk =
     bindM (get_row ''Job'' jobs jk) (\<lambda>j. bindM (get_row ''Snapshot'' snapshots sk) (\<lambda>s.
     bindM (get_row ''VirtualMachine'' vms (snp_vm s)) (\<lambda>v.
     tryM (bindM (with_lock (storage_lock v) (job_run (jk, j) (''Creating snapshot '' @ snp_name s)
             (bindM (send_operation (vm_node v) CREATE_SNAPSHOT (uuid v)
                (JObj [(''snapshot_uuid'', JStr (uuid s)), (''name'', JStr (snp_name s))]) None) (\<lambda>data.
              bindM (data_str data ''snapshot_id'' '''') (\<lambda>sid. bindM (data_int data ''size_bytes'' (Some 0)) (\<lambda>sz.
              save_snapshot sk (\<lambda>x. x\<lparr>snp_agent_snapshot_id := sid, snp_size_bytes := sz, snp_status := SN_READY\<rparr>))))))) (\<lambda>_.
           bindM (succeed jk ''Snapshot created'') (\<lambda>_. emit_snapshot v ''VM_SNAPSHOT_CREATED'' s)))
       (\<lambda>e. seqM [set_snapshot_status sk SN_ERROR, fail_unless_terminal jk (str_exn e), raiseM e]))))"

definition snapshot_payload :: "snapshot \<Rightarrow> json" where
  "snapshot_payload s = JObj [(''snapshot_id'', JStr (snp_agent_snapshot_id s)), (''snapshot_uuid'', JStr (uuid s))]"

definition delete_snapshot_task :: "nat \<Rightarrow> nat \<Rightarrow> unit op" where
  "delete_snapshot_task jk sk =
     bindM (get_row ''Job'' jobs jk) (\<lambda>j. bindM (get_row ''Snapshot'' snapshots sk) (\<lambda>s.
     bindM (get_row ''VirtualMachine'' vms (snp_vm s)) (\<lambda>v.
     tryM (seqM
       [with_lock (storage_lock v) (job_run (jk, j) (''Deleting snapshot '' @ snp_name s)
          (seqM [set_snapshot_status sk SN_DELETING,
             bindM (send_operation (vm_node v) DELETE_SNAPSHOT (uuid v) (snapshot_payload s) None) (\<lambda>_. returnM ())])),
        moddb (\<lambda>d. d\<lparr>snapshots := row_del sk (snapshots d)\<rparr>),
        succeed jk ''Snapshot deleted''])
       (\<lambda>e. seqM [set_snapshot_status sk (snp_status s), fail_unless_terminal jk (str_exn e), raiseM e]))))"

definition rollback_snapshot_task :: "nat \<Rightarrow> nat \<Rightarrow> unit op" where
  "rollback_snapshot_task jk sk =
     bindM (get_row ''Job'' jobs jk) (\<lambda>j. bindM (get_row ''Snapshot'' snapshots sk) (\<lambda>s.
     bindM (get_row ''VirtualMachine'' vms (snp_vm s)) (\<lambda>v.
     tryM (bindM (with_lock (lifecycle_lock v) (with_lock (storage_lock v)
             (job_run (jk, j) (''Rolling back to '' @ snp_name s)
               (seqM [set_snapshot_status sk SN_ROLLING_BACK,
                  bindM (send_operation (vm_node v) ROLLBACK_SNAPSHOT (uuid v) (snapshot_payload s) None) (\<lambda>_. returnM ()),
                  set_snapshot_status sk SN_READY])))) (\<lambda>_.
           bindM (succeed jk ''Rolled back'') (\<lambda>_. emit_snapshot v ''VM_SNAPSHOT_ROLLED_BACK'' s)))
       (\<lambda>e. seqM [set_snapshot_status sk SN_READY, fail_unless_terminal jk (str_exn e), raiseM e]))))"

subsection \<open>Job-bound bodies\<close>

context task_frame
begin

lemma keeps_save_snapshot: "keeps R (save_snapshot sk f)"
  unfolding save_snapshot_def by (intro tf_op) simp

lemma keeps_set_snapshot_status: "keeps R (set_snapshot_status sk st)"
  by (simp add: set_snapshot_status_def keeps_save_snapshot)

lemma keeps_emit_snapshot: "keeps R (emit_snapshot v ty s)"
  unfolding emit_snapshot_def by (intro tf_op tf_event)

end

lemma et_epilogue3: "ends_terminal k (seqM [a, b, raiseM e])"
  by (intro et_seq et_seq_last et_raise)

lemma et_succeed_last: "ends_terminal k (seqM [a, b, succeed k msg])"
  unfolding succeed_def by (intro et_seq et_seq_last et_succeed)

lemma keeps_assert_snapshot_capable: "keeps job_safe (assert_snapshot_capable vmk)"
  unfolding assert_snapshot_capable_def by (intro op_frame)

lemma keeps_create_snapshot: "keeps job_safe (create_snapshot vo nm ds by)"
  unfolding create_snapshot_def
  by (intro keeps_submit op_frame lock_frame keeps_case_prod keeps_check_and_reserve keeps_assert_snapshot_capable) simp_all

lemma keeps_delete_snapshot: "keeps job_safe (delete_snapshot so by)"
  unfolding delete_snapshot_def by (intro keeps_submit op_frame keeps_case_prod) simp

lemma keeps_rollback_snapshot: "keeps job_safe (rollback_snapshot so by)"
  unfolding rollback_snapshot_def by (intro keeps_submit op_frame keeps_case_prod) simp

lemmas snapshot_request_frame = keeps_create_snapshot keeps_delete_snapshot keeps_rollback_snapshot

interpretation create_snapshot: bound_body "\<lambda>jk. create_snapshot_task jk sk" for sk
proof unfold_locales
  show "keeps job_safe (create_snapshot_task jk sk)" for jk
    unfolding create_snapshot_task_def
    by (intro op_frame job_frame lock_frame rpc_frame js.keeps_save_snapshot js.keeps_set_snapshot_status
        keeps_succeed js.keeps_emit_snapshot)
  show "ends_terminal jk (create_snapshot_task jk sk)" for jk
    unfolding create_snapshot_task_def
    by (rule et_bind, rule et_bind, rule et_bind, rule et_try)
      (rule et_bind, intro et_succeed_then js.keeps_emit_snapshot, rule et_epilogue3)
qed

interpretation delete_snapshot: bound_body "\<lambda>jk. delete_snapshot_task jk sk" for sk
proof unfold_locales
  show "keeps job_safe (delete_snapshot_task jk sk)" for jk
    unfolding delete_snapshot_task_def
    by (intro op_frame job_frame lock_frame rpc_frame js.keeps_set_snapshot_status keeps_succeed) simp
  show "ends_terminal jk (delete_snapshot_task jk sk)" for jk
    unfolding delete_snapshot_task_def
    by (rule et_bind, rule et_bind, rule et_bind, rule et_try) (rule et_succeed_last, rule et_epilogue3)
qed

interpretation rollback_snapshot: bound_body "\<lambda>jk. rollback_snapshot_task jk sk" for sk
proof unfold_locales
  show "keeps job_safe (rollback_snapshot_task jk sk)" for jk
    unfolding rollback_snapshot_task_def
    by (intro op_frame job_frame lock_frame rpc_frame js.keeps_set_snapshot_status
        keeps_succeed js.keeps_emit_snapshot)
  show "ends_terminal jk (rollback_snapshot_task jk sk)" for jk
    unfolding rollback_snapshot_task_def
    by (rule et_bind, rule et_bind, rule et_bind, rule et_try)
      (rule et_bind, intro et_succeed_then js.keeps_emit_snapshot, rule et_epilogue3)
qed

end
