(* ===== verification/Backups.thy ===== *)
theory Backups
  imports Snapshots
begin

section \<open>Backups: services, tasks, schedules and retention\<close>

text \<open>
  \<open>backend/apps/backups/services.py\<close>, \<open>tasks.py\<close> and the masking of \<open>serializers.py\<close>. A
  schedule is mirrored into a \<open>django_celery_beat\<close> periodic task, of which the columns the code
  writes are kept; \<open>get_or_create\<close> of a crontab row is its value.
\<close>

subsection \<open>Credential masking\<close>

definition SENSITIVE_CONFIG_KEYS :: "string list" where
  "SENSITIVE_CONFIG_KEYS = [''secret_access_key'', ''access_key_id'']"

definition mask_value :: "string \<Rightarrow> string" where
  "mask_value v = (if length v > 4 then replicate 8 CHR ''*'' @ drop (length v - 4) v else replicate 8 CHR ''*'')"

definition mask_config :: "(string \<times> string) list \<Rightarrow> (string \<times> string) list" where
  "mask_config cfg = map (\<lambda>(k, v). if k \<in> set SENSITIVE_CONFIG_KEYS \<and> v \<noteq> '''' then (k, mask_value v) else (k, v)) cfg"

subsection \<open>Services\<close>

definition create_backup :: "vm_obj \<Rightarrow> nat \<Rightarrow> BackupType \<Rightarrow> nat option \<Rightarrow> job_obj op" where
  "create_backup vo target ty by = (case vo of (vmk, v) \<Rightarrow>
     bindM (probe_lock (storage_lock v) (storage_busy v)) (\<lambda>_.
     bindM uuid4 (\<lambda>u. bindM now (\<lambda>t. bindM fresh_pk (\<lambda>bk.
     bindM (moddb (\<lambda>d. d\<lparr>backups := row_add bk
       \<lparr> uuid = u, created_at = t, updated_at = t, bkp_vm = vmk, bkp_target = target, bkp_type = ty,
         bkp_status = BS_PENDING, bkp_size_bytes = 0, bkp_checksum = '''', bkp_encrypted = False,
         bkp_agent_backup_ref = '''', bkp_started_at = None, bkp_finished_at = None,
         bkp_retention_expires_at = None \<rparr> (backups d)\<rparr>)) (\<lambda>_.
     bindM (create_job BACKUP_CREATE ''Backup'' u (vm_organization v) (vm_node v) by '''' 600) (\<lambda>(jk, j).
     bindM (enqueue (CreateBackup jk bk)) (\<lambda>_. returnM (jk, j)))))))))"

text \<open>\<open>restore_backup\<close>: the exception for a VM that is not stopped is constructed with a keyword its
  class does not take.\<close>

definition restore_backup :: "nat \<times> backup \<Rightarrow> nat option \<Rightarrow> job_obj op" where
  "restore_backup bo by = (case bo of (bk, b) \<Rightarrow>
     if bkp_status b \<noteq> BS_COMPLETED
     then raiseM (api_exn InvalidStateTransition (''Cannot restore a backup in status '' @ show_BackupStatus (bkp_status b)))
     else bindM (get_row ''VirtualMachine'' vms (bkp_vm b)) (\<lambda>v.
       if vm_status v \<noteq> VS_STOPPED
       then raiseM (TypeError ''__init__() got an unexpected keyword argument status_code'')
       else bindM (probe_lock (storage_lock v) (storage_busy v)) (\<lambda>_.
            bindM (create_job BACKUP_RESTORE ''Backup'' (uuid b) (vm_organization v) (vm_node v) by '''' 600) (\<lambda>(jk, j).
            bindM (enqueue (RestoreBackup jk bk)) (\<lambda>_. returnM (jk, j))))))"

definition save_backup :: "nat \<Rightarrow> (backup \<Rightarrow> backup) \<Rightarrow> unit op" where
  "save_backup bk f = save_row backups backups_update bk f"

definition delete_backup :: "nat \<Rightarrow> unit op" where
  "delete_backup bk = save_backup bk (\<lambda>b. b\<lparr>bkp_status := BS_DELETED\<rparr>)"

definition is_expired :: "nat \<Rightarrow> nat \<Rightarrow> backup \<Rightarrow> bool" where
  "is_expired t target b \<longleftrightarrow> bkp_target b = target \<and> bkp_status b = BS_COMPLETED \<and>
     (case bkp_retention_expires_at b of None \<Rightarrow> False | Some x \<Rightarrow> x < t)"

definition apply_retention :: "nat \<Rightarrow> nat op" where
  "apply_retention target = bindM now (\<lambda>t. bindM (getdb (\<lambda>d. rows_where (is_expired t target) (backups d))) (\<lambda>expired.
     bindM (forM expired (\<lambda>(bk, b). delete_backup bk)) (\<lambda>_. returnM (length expired))))"

definition apply_retention_task :: "nat op" where
  "apply_retention_task = bindM (getdb (\<lambda>d. rows_where bkt_enabled (backup_targets d))) (\<lambda>ts.
     bindM (mapM (\<lambda>(tk, t). apply_retention tk) ts) (\<lambda>ns. returnM (sum_list ns)))"

subsection \<open>Schedules\<close>

definition is_space :: "char \<Rightarrow> bool" where
  "is_space c \<longleftrightarrow> c \<in> {CHR '' '', CHR 0x09, CHR 0x0A, CHR 0x0B, CHR 0x0C, CHR 0x0D}"

text \<open>\<open>s.split()\<close>: the maximal runs of non-space characters.\<close>

fun split_words :: "string \<Rightarrow> string \<Rightarrow> string list" where
  "split_words acc [] = (if acc = [] then [] else [rev acc])"
| "split_words acc (c # cs) =
     (if is_space c then (if acc = [] then split_words [] cs else rev acc # split_words [] cs)
      else split_words (c # acc) cs)"

definition parse_cron :: "string \<Rightarrow> string list op" where
  "parse_cron s = (let ws = split_words [] s in
     if length ws = 5 then returnM ws else raiseM (ValueError ''cron expression does not have five fields''))"

definition save_schedule :: "nat \<Rightarrow> (backup_schedule \<Rightarrow> backup_schedule) \<Rightarrow> unit op" where
  "save_schedule sk f = save_row backup_schedules backup_schedules_update sk f"

definition sync_periodic_task :: "nat \<Rightarrow> backup_schedule \<Rightarrow> unit op" where
  "sync_periodic_task sk s = bindM (parse_cron (bks_cron_expression s)) (\<lambda>ws. bindM fresh_pk (\<lambda>pk.
     bindM (moddb (\<lambda>d. d\<lparr>periodic_tasks := row_add pk
       \<lparr> ptk_name = ''backup-schedule-'' @ uuid s, ptk_task = ''backups.run_scheduled_backup'',
         ptk_crontab = (ws, bks_timezone s), ptk_args = sk, ptk_enabled = bks_enabled s \<rparr> (periodic_tasks d)\<rparr>)) (\<lambda>_.
     save_schedule sk (\<lambda>x. x\<lparr>bks_periodic_task := Some pk\<rparr>))))"

definition create_schedule :: "nat \<Rightarrow> nat \<Rightarrow> nat \<Rightarrow> BackupType \<Rightarrow> string \<Rightarrow> string \<Rightarrow> nat \<Rightarrow> nat op" where
  "create_schedule org vmk target ty cron tz retention =
     bindM uuid4 (\<lambda>u. bindM now (\<lambda>t. bindM fresh_pk (\<lambda>sk.
     let s = \<lparr> uuid = u, created_at = t, updated_at = t, bks_organization = org, bks_vm = vmk, bks_target = target,
            bks_backup_type = ty, bks_cron_expression = cron, bks_timezone = tz, bks_retention_days = retention,
            bks_enabled = True, bks_periodic_task = None \<rparr>
     in bindM (moddb (\<lambda>d. d\<lparr>backup_schedules := row_add sk s (backup_schedules d)\<rparr>)) (\<lambda>_.
        bindM (sync_periodic_task sk s) (\<lambda>_. returnM sk)))))"

text \<open>The keyword arguments of \<open>update_schedule\<close>, each present or not.\<close>

record schedule_patch =
  pat_organization :: "nat option"
  pat_vm :: "nat option"
  pat_target :: "nat option"
  pat_backup_type :: "BackupType option"
  pat_cron_expression :: "string option"
  pat_timezone :: "string option"
  pat_retention_days :: "nat option"
  pat_enabled :: "bool option"

definition patch_schedule :: "schedule_patch \<Rightarrow> backup_schedule \<Rightarrow> backup_schedule" where
  "patch_schedule p s = s\<lparr>bks_organization := opt_or (pat_organization p) (bks_organization s), bks_vm := opt_or (pat_vm p) (bks_vm s), bks_target := opt_or (pat_target p) (bks_target s),
     bks_backup_type := opt_or (pat_backup_type p) (bks_backup_type s),
     bks_cron_expression := opt_or (pat_cron_expression p) (bks_cron_expression s),
     bks_timezone := opt_or (pat_timezone p) (bks_timezone s),
     bks_retention_days := opt_or (pat_retention_days p) (bks_retention_days s),
     bks_enabled := opt_or (pat_enabled p) (bks_enabled s)\<rparr>"

definition cron_or_tz_changed :: "schedule_patch \<Rightarrow> backup_schedule \<Rightarrow> bool" where
  "cron_or_tz_changed p s \<longleftrightarrow>
     (case pat_cron_expression p of None \<Rightarrow> False | Some c \<Rightarrow> c \<noteq> bks_cron_expression s) \<or>
     (case pat_timezone p of None \<Rightarrow> False | Some z \<Rightarrow> z \<noteq> bks_timezone s)"

definition save_periodic :: "nat \<Rightarrow> (periodic_task \<Rightarrow> periodic_task) \<Rightarrow> unit op" where
  "save_periodic pk f = save_row periodic_tasks periodic_tasks_update pk f"

definition empty_patch :: "schedule_patch \<Rightarrow> bool" where
  "empty_patch p \<longleftrightarrow> pat_organization p = None \<and> pat_vm p = None \<and> pat_target p = None \<and> pat_backup_type p = None \<and> pat_cron_expression p = None \<and>
     pat_timezone p = None \<and> pat_retention_days p = None \<and> pat_enabled p = None"

definition update_schedule :: "nat \<times> backup_schedule \<Rightarrow> schedule_patch \<Rightarrow> unit op" where
  "update_schedule so p = (case so of (sk, s) \<Rightarrow>
     let s' = patch_schedule p s
     in bindM (if empty_patch p then returnM () else save_schedule sk (patch_schedule p)) (\<lambda>_.
        case bks_periodic_task s of
          None \<Rightarrow> returnM ()
        | Some pk \<Rightarrow>
            bindM (if cron_or_tz_changed p s
                   then bindM (parse_cron (bks_cron_expression s')) (\<lambda>ws. returnM (Some ws)) else returnM None) (\<lambda>cron.
            if cron = None \<and> pat_enabled p = None then returnM ()
            else save_periodic pk (\<lambda>t. t\<lparr>
                   ptk_crontab := (case cron of None \<Rightarrow> ptk_crontab t | Some ws \<Rightarrow> (ws, bks_timezone s')),
                   ptk_enabled := (if pat_enabled p = None then ptk_enabled t else bks_enabled s')\<rparr>))))"

definition delete_schedule :: "nat \<times> backup_schedule \<Rightarrow> unit op" where
  "delete_schedule so = (case so of (sk, s) \<Rightarrow> seqM
     [(case bks_periodic_task s of None \<Rightarrow> returnM () | Some pk \<Rightarrow> moddb (\<lambda>d. d\<lparr>periodic_tasks := row_del pk (periodic_tasks d)\<rparr>)),
      moddb (\<lambda>d. d\<lparr>backup_schedules := row_del sk (backup_schedules d)\<rparr>)])"

subsection \<open>Tasks\<close>

definition primary_disk :: "db \<Rightarrow> nat \<Rightarrow> vm_disk option" where
  "primary_disk d vmk =
     (let ds = sort_key (\<lambda>(k, r). dsk_boot_index r) (rows_where (\<lambda>r. dsk_vm r = vmk) (disks d))
      in case filter (\<lambda>(k, r). dsk_bootable r) ds of
           (k, r) # _ \<Rightarrow> Some r
         | [] \<Rightarrow> first_row ds)"

definition emit_backup :: "virtual_machine \<Rightarrow> string \<Rightarrow> (string \<times> json) list \<Rightarrow> unit op" where
  "emit_backup v ty md = bindM (emit_event ty (if ty \<noteq> ''BACKUP_FAILED'' then EV_INFO else EV_CRITICAL)
     ''VirtualMachine'' (uuid v) (vm_organization v) None md) (\<lambda>_. returnM ())"

definition no_disks :: "string \<Rightarrow> exn" where
  "no_disks m = mk_api (NodePilotAPIException (Some ''VM_HAS_NO_DISKS'')) (Some m) None"

definition create_backup_run :: "nat \<Rightarrow> backup \<Rightarrow> nat \<Rightarrow> virtual_machine \<Rightarrow> unit op" where
  "create_backup_run bk b vmk v =
     bindM now (\<lambda>t. bindM (save_backup bk (\<lambda>x. x\<lparr>bkp_status := BS_RUNNING, bkp_started_at := Some t\<rparr>)) (\<lambda>_.
     bindM (getdb (\<lambda>d. primary_disk d vmk)) (\<lambda>disk. case disk of
        None \<Rightarrow> raiseM (no_disks (''VM '' @ vm_name v @ '' has no disks to back up.''))
      | Some r \<Rightarrow>
          bindM (get_row ''BackupTarget'' backup_targets (bkp_target b)) (\<lambda>tg.
          bindM (send_operation (vm_node v) CREATE_BACKUP (uuid v)
             (JObj [(''backup_uuid'', JStr (uuid b)), (''backup_type'', JStr (show_BackupType (bkp_type b))),
                (''target'', bkt_config tg), (''target_type'', JStr (show_BackupTargetType (bkt_type tg))),
                (''volume_id'', JStr (dsk_volume_id r))]) (Some 3600)) (\<lambda>data.
          bindM (data_str data ''backup_ref'' '''') (\<lambda>ref. bindM (data_int data ''size_bytes'' (Some 0)) (\<lambda>sz.
          bindM (data_str data ''checksum'' '''') (\<lambda>sum. bindM now (\<lambda>t2.
          save_backup bk (\<lambda>x. x\<lparr>bkp_agent_backup_ref := ref, bkp_size_bytes := sz, bkp_checksum := sum,
             bkp_status := BS_COMPLETED, bkp_finished_at := Some t2\<rparr>))))))))))"

definition create_backup_task :: "nat \<Rightarrow> nat \<Rightarrow> unit op" where
  "create_backup_task jk bk =
     bindM (get_row ''Job'' jobs jk) (\<lambda>j. bindM (get_row ''Backup'' backups bk) (\<lambda>b.
     bindM (get_row ''VirtualMachine'' vms (bkp_vm b)) (\<lambda>v.
     tryM (bindM (with_lock (storage_lock v) (job_run (jk, j) (''Creating '' @ lower (show_BackupType (bkp_type b)) @ '' backup'')
             (create_backup_run bk b (bkp_vm b) v))) (\<lambda>_.
           bindM (succeed jk ''Backup completed'') (\<lambda>_.
           emit_backup v ''BACKUP_COMPLETED'' [(''backup_uuid'', JStr (uuid b))])))
       (\<lambda>e. seqM [bindM now (\<lambda>t. save_backup bk (\<lambda>x. x\<lparr>bkp_status := BS_FAILED, bkp_finished_at := Some t\<rparr>)),
              fail_unless_terminal jk (str_exn e),
              emit_backup v ''BACKUP_FAILED'' [(''backup_uuid'', JStr (uuid b)), (''error'', JStr (str_exn e))],
              raiseM e]))))"

definition set_backup_status :: "nat \<Rightarrow> BackupStatus \<Rightarrow> unit op" where
  "set_backup_status bk st = save_backup bk (\<lambda>x. x\<lparr>bkp_status := st\<rparr>)"

definition restore_backup_run :: "nat \<Rightarrow> backup \<Rightarrow> nat \<Rightarrow> virtual_machine \<Rightarrow> unit op" where
  "restore_backup_run bk b vmk v =
     bindM (set_backup_status bk BS_RESTORING) (\<lambda>_.
     bindM (getdb (\<lambda>d. primary_disk d vmk)) (\<lambda>disk. case disk of
        None \<Rightarrow> raiseM (no_disks (''VM '' @ vm_name v @ '' has no disk to restore onto.''))
      | Some r \<Rightarrow>
          bindM (get_row ''BackupTarget'' backup_targets (bkp_target b)) (\<lambda>tg.
          bindM (send_operation (vm_node v) RESTORE_BACKUP (uuid v)
             (JObj [(''backup_ref'', JStr (bkp_agent_backup_ref b)), (''target'', bkt_config tg),
                (''target_type'', JStr (show_BackupTargetType (bkt_type tg))), (''volume_id'', JStr (dsk_volume_id r)),
                (''format'', JStr (dsk_format r))]) (Some 3600)) (\<lambda>_.
          set_backup_status bk BS_COMPLETED))))"

definition restore_backup_task :: "nat \<Rightarrow> nat \<Rightarrow> unit op" where
  "restore_backup_task jk bk =
     bindM (get_row ''Job'' jobs jk) (\<lambda>j. bindM (get_row ''Backup'' backups bk) (\<lambda>b.
     bindM (get_row ''VirtualMachine'' vms (bkp_vm b)) (\<lambda>v.
     tryM (bindM (with_lock (storage_lock v) (job_run (jk, j) ''Restoring backup''
             (restore_backup_run bk b (bkp_vm b) v))) (\<lambda>_. succeed jk ''Restore completed''))
       (\<lambda>e. seqM [set_backup_status bk BS_COMPLETED, fail_unless_terminal jk (str_exn e), raiseM e]))))"

text \<open>\<open>run_scheduled_backup\<close>: the new backup is found again by the job's \<open>resource_id\<close>.\<close>

definition run_scheduled_backup :: "nat \<Rightarrow> unit op" where
  "run_scheduled_backup sk = bindM (getdb (\<lambda>d. row_get sk (backup_schedules d))) (\<lambda>x. case x of
      None \<Rightarrow> returnM ()
    | Some s \<Rightarrow> if \<not> bks_enabled s then returnM ()
        else bindM (get_row ''VirtualMachine'' vms (bks_vm s)) (\<lambda>v.
             bindM (create_backup (bks_vm s, v) (bks_target s) (bks_backup_type s) None) (\<lambda>(jk, j).
             bindM now (\<lambda>t.
             moddb (\<lambda>d. d\<lparr>backups := map (\<lambda>(k, b). if uuid b = job_resource_id j
                then (k, b\<lparr>bkp_retention_expires_at := Some (t + bks_retention_days s * 86400000)\<rparr>) else (k, b)) (backups d)\<rparr>)))))"

subsection \<open>Job-bound bodies\<close>

context task_frame
begin

lemma keeps_save_backup: "keeps R (save_backup bk f)"
  unfolding save_backup_def by (intro tf_op) simp

lemma keeps_set_backup_status: "keeps R (set_backup_status bk st)"
  by (simp add: set_backup_status_def keeps_save_backup)

lemma keeps_emit_backup: "keeps R (emit_backup v ty md)"
  unfolding emit_backup_def by (intro tf_op tf_event)

lemma keeps_create_backup_run: "keeps R (create_backup_run bk b vmk v)"
  unfolding create_backup_run_def by (intro tf_op tf_rpc keeps_save_backup)

lemma keeps_restore_backup_run: "keeps R (restore_backup_run bk b vmk v)"
  unfolding restore_backup_run_def by (intro tf_op tf_rpc keeps_set_backup_status)

end

lemma keeps_create_backup: "keeps job_safe (create_backup vo tg ty by)"
  unfolding create_backup_def by (intro keeps_submit op_frame lock_frame keeps_case_prod) simp_all

lemma keeps_restore_backup: "keeps job_safe (restore_backup bo by)"
  unfolding restore_backup_def by (intro keeps_submit op_frame lock_frame keeps_case_prod) simp_all

lemma keeps_delete_backup: "keeps job_safe (delete_backup bk)"
  unfolding delete_backup_def by (rule js.keeps_save_backup)

lemma keeps_apply_retention: "keeps job_safe apply_retention_task" "keeps job_safe (apply_retention tg)"
  unfolding apply_retention_task_def apply_retention_def
  by (intro op_frame keeps_case_prod keeps_delete_backup)+

lemma keeps_run_scheduled_backup: "keeps job_safe (run_scheduled_backup sk)"
  unfolding run_scheduled_backup_def by (intro op_frame keeps_case_prod keeps_create_backup) simp

lemma keeps_parse_cron: "keeps job_safe (parse_cron s)"
  unfolding parse_cron_def by (intro op_frame)

lemma keeps_save_schedule: "keeps job_safe (save_schedule sk f)"
  unfolding save_schedule_def by (intro op_frame) simp

lemma keeps_create_schedule: "keeps job_safe (create_schedule org vmk tg ty cron tz ret)"
  unfolding create_schedule_def sync_periodic_task_def
  by (intro op_frame keeps_parse_cron keeps_save_schedule) simp_all

lemma keeps_update_schedule: "keeps job_safe (update_schedule so p)"
  unfolding update_schedule_def save_periodic_def Let_def
  by (intro op_frame keeps_case_prod keeps_parse_cron keeps_save_schedule) simp_all

lemma keeps_delete_schedule: "keeps job_safe (delete_schedule so)"
  unfolding delete_schedule_def by (intro op_frame keeps_case_prod) simp_all

lemmas backup_request_frame = keeps_create_backup keeps_restore_backup keeps_delete_backup keeps_create_schedule
  keeps_update_schedule keeps_delete_schedule

interpretation create_backup: bound_body "\<lambda>jk. create_backup_task jk bk" for bk
proof unfold_locales
  show "keeps job_safe (create_backup_task jk bk)" for jk
    unfolding create_backup_task_def
    by (intro op_frame job_frame lock_frame js.keeps_save_backup keeps_succeed js.keeps_emit_backup js.keeps_create_backup_run)
  show "ends_terminal jk (create_backup_task jk bk)" for jk
    unfolding create_backup_task_def
    by (rule et_bind, rule et_bind, rule et_bind, rule et_try)
      (rule et_bind, intro et_succeed_then js.keeps_emit_backup, rule et_epilogue)
qed

interpretation restore_backup: bound_body "\<lambda>jk. restore_backup_task jk bk" for bk
proof unfold_locales
  show "keeps job_safe (restore_backup_task jk bk)" for jk
    unfolding restore_backup_task_def
    by (intro op_frame job_frame lock_frame js.keeps_set_backup_status keeps_succeed js.keeps_restore_backup_run)
  show "ends_terminal jk (restore_backup_task jk bk)" for jk
    unfolding restore_backup_task_def succeed_def
    by (rule et_bind, rule et_bind, rule et_bind, rule et_try) (rule et_bind, rule et_succeed, rule et_epilogue3)
qed

end
