(* ===== verification/Networks.thy ===== *)
theory Networks
  imports Backups
begin

section \<open>Networks and storage pools: provisioning tasks and IPAM\<close>

text \<open>
  \<open>backend/apps/networks/services.py\<close> and \<open>tasks.py\<close>, \<open>backend/apps/storage/services.py\<close> and
  \<open>tasks.py\<close>. Addresses are the integers of the \<open>ipaddress\<close> module; \<open>show_address\<close> is a parameter
  where the code prints one.
\<close>

subsection \<open>IPAM\<close>

definition address_range :: "ip_pool \<Rightarrow> nat list" where
  "address_range p = [poo_start_address p ..< poo_end_address p + 1]"

definition address_row :: "db \<Rightarrow> nat \<Rightarrow> nat \<Rightarrow> (nat \<times> ip_address) option" where
  "address_row d sk a = (case rows_where (\<lambda>r. adr_subnet r = sk \<and> adr_address r = a) (ip_addresses d) of
     [] \<Rightarrow> None | kr # _ \<Rightarrow> Some kr)"

text \<open>An address can be handed out when it has no row yet or its row is available.\<close>

definition is_free :: "db \<Rightarrow> nat \<Rightarrow> nat \<Rightarrow> bool" where
  "is_free d sk a = (case address_row d sk a of None \<Rightarrow> True | Some (k, r) \<Rightarrow> adr_state r = IP_AVAILABLE)"

definition subnet_pools :: "db \<Rightarrow> nat \<Rightarrow> ip_pool list" where
  "subnet_pools d sk = map snd (rows_where (\<lambda>p. poo_subnet p = sk) (ip_pools d))"

definition create_address :: "nat \<Rightarrow> nat \<Rightarrow> IPAddressState \<Rightarrow> string \<Rightarrow> (nat \<times> ip_address) op" where
  "create_address sk a st note = bindM uuid4 (\<lambda>u. bindM now (\<lambda>t. bindM fresh_pk (\<lambda>k.
     let r = \<lparr> uuid = u, created_at = t, updated_at = t, adr_subnet = sk, adr_address = a, adr_state = st, adr_note = note \<rparr>
     in bindM (moddb (\<lambda>d. d\<lparr>ip_addresses := row_add k r (ip_addresses d)\<rparr>)) (\<lambda>_. returnM (k, r)))))"

definition save_address :: "nat \<Rightarrow> (ip_address \<Rightarrow> ip_address) \<Rightarrow> unit op" where
  "save_address k f = save_row ip_addresses ip_addresses_update k f"

text \<open>The two nested loops: pools in order, addresses in order; \<open>None\<close> when nothing was free.\<close>

fun try_addresses :: "nat \<Rightarrow> string \<Rightarrow> nat list \<Rightarrow> (nat \<times> ip_address) option op" where
  "try_addresses sk note [] = returnM None"
| "try_addresses sk note (a # as) = bindM (getdb (\<lambda>d. address_row d sk a)) (\<lambda>x. case x of
      None \<Rightarrow> bindM (create_address sk a IP_ALLOCATED note) (\<lambda>kr. returnM (Some kr))
    | Some (k, r) \<Rightarrow> if adr_state r = IP_AVAILABLE
        then bindM (save_address k (\<lambda>y. y\<lparr>adr_state := IP_ALLOCATED, adr_note := note\<rparr>)) (\<lambda>_.
             returnM (Some (k, r\<lparr>adr_state := IP_ALLOCATED, adr_note := note\<rparr>)))
        else try_addresses sk note as)"

definition allocate_ip :: "nat \<Rightarrow> string \<Rightarrow> ip_pool option \<Rightarrow> string \<Rightarrow> (nat \<times> ip_address) op" where
  "allocate_ip sk cidr_text pool note = atomicM (with_lock (subnet_lock sk)
     (bindM (getdb (\<lambda>d. case pool of Some p \<Rightarrow> [p] | None \<Rightarrow> subnet_pools d sk)) (\<lambda>pools.
        if pools = [] then raiseM (api_exn NoAvailableIPAddress ''Subnet has no configured IP pool to allocate from.'')
        else bindM (try_addresses sk note (concat (map address_range pools))) (\<lambda>x. case x of
            Some kr \<Rightarrow> returnM kr
          | None \<Rightarrow> raiseM (api_exn NoAvailableIPAddress (''No available address in '' @ cidr_text @ ''.''))))))"

definition release_ip :: "nat \<Rightarrow> unit op" where
  "release_ip k = save_address k (\<lambda>r. r\<lparr>adr_state := IP_AVAILABLE, adr_note := ''''\<rparr>)"

text \<open>\<open>parsed in subnet.network_obj\<close> for an address of the subnet's family: the network's bits agree.
  \<open>bits\<close> is 32 or 128.\<close>

definition in_subnet :: "nat \<Rightarrow> nat \<times> nat \<Rightarrow> nat \<Rightarrow> bool" where
  "in_subnet bits cidr a = (case cidr of (net, plen) \<Rightarrow> a div 2 ^ (bits - plen) = net div 2 ^ (bits - plen))"

text \<open>\<open>reserve_ip\<close>: \<open>None\<close> stands for text that is no address.\<close>

definition reserve_ip :: "nat \<Rightarrow> nat \<times> subnet \<Rightarrow> (nat \<Rightarrow> string) \<Rightarrow> string \<Rightarrow> nat option \<Rightarrow> string \<Rightarrow> (nat \<times> ip_address) op" where
  "reserve_ip bits so show_address raw parsed note = (case so of (sk, s) \<Rightarrow> case parsed of
      None \<Rightarrow> raiseM (api_exn InvalidReservation (quoted raw @ '' is not a valid IP address.''))
    | Some a \<Rightarrow>
        if \<not> in_subnet bits (sub_cidr s) a
        then raiseM (api_exn InvalidReservation (raw @ '' is not within subnet '' @
               show_address (fst (sub_cidr s)) @ ''/'' @ show_nat (snd (sub_cidr s)) @ ''.''))
        else with_lock (subnet_lock sk)
          (bindM (getdb (\<lambda>d. address_row d sk a)) (\<lambda>x. case x of
              None \<Rightarrow> create_address sk a IP_RESERVED note
            | Some (k, r) \<Rightarrow>
                if adr_state r = IP_ALLOCATED
                then raiseM (api_exn InvalidReservation (raw @ '' is already allocated to a NIC; release it before reserving it.''))
                else bindM (save_address k (\<lambda>y. y\<lparr>adr_state := IP_RESERVED, adr_note := note\<rparr>)) (\<lambda>_.
                     returnM (k, r\<lparr>adr_state := IP_RESERVED, adr_note := note\<rparr>)))))"

definition find_free_ip :: "nat \<Rightarrow> nat option op" where
  "find_free_ip sk = getdb (\<lambda>d. List.find (is_free d sk) (concat (map address_range (subnet_pools d sk))))"

subsection \<open>Networks\<close>

definition create_network :: "nat \<times> node \<Rightarrow> string \<Rightarrow> NetworkType \<Rightarrow> string \<Rightarrow> nat option \<Rightarrow> bool \<Rightarrow> nat option \<Rightarrow> (nat \<times> job_obj) op" where
  "create_network no name ty bridge vlan dhcp by = (case no of (nk, n) \<Rightarrow>
     bindM uuid4 (\<lambda>u. bindM now (\<lambda>t.
     bindM (getdb (\<lambda>d. vlan \<noteq> None \<and> list_ex (\<lambda>(k, x). net_node x = nk \<and> net_bridge x = bridge \<and> net_vlan_id x = vlan) (networks d)))
       (\<lambda>clash. if clash then raiseM (IntegrityError ''networks.node_id, networks.bridge, networks.vlan_id'')
     else bindM fresh_pk (\<lambda>k.
     bindM (moddb (\<lambda>d. d\<lparr>networks := row_add k
       \<lparr> uuid = u, created_at = t, updated_at = t, net_node = nk, net_name = name, net_type = ty, net_bridge = bridge,
         net_vlan_id = vlan, net_dhcp_enabled = dhcp, net_status = NW_INACTIVE \<rparr> (networks d)\<rparr>)) (\<lambda>_.
     bindM (create_job NETWORK_CREATE ''Network'' u (nod_organization n) (Some nk) by '''' 600) (\<lambda>(jk, j).
     bindM (enqueue (CreateNetwork jk k)) (\<lambda>_. returnM (k, (jk, j))))))))))"

definition delete_network :: "nat \<times> network \<Rightarrow> nat option \<Rightarrow> job_obj op" where
  "delete_network nwo by = (case nwo of (k, nw) \<Rightarrow> bindM (get_row ''Node'' nodes (net_node nw)) (\<lambda>n.
     bindM (create_job NETWORK_DELETE ''Network'' (uuid nw) (nod_organization n) (Some (net_node nw)) by '''' 600) (\<lambda>(jk, j).
     bindM (enqueue (DeleteNetwork jk k)) (\<lambda>_. returnM (jk, j)))))"

definition emit_network :: "network \<Rightarrow> node \<Rightarrow> string \<Rightarrow> (string \<times> json) list \<Rightarrow> unit op" where
  "emit_network nw n ty md = tryM (bindM (emit_event ty (if ty \<noteq> ''NETWORK_ERROR'' then EV_INFO else EV_CRITICAL) ''Network''
     (uuid nw) (nod_organization n) None (dict_merge [(''name'', JStr (net_name nw))] md)) (\<lambda>_. returnM ())) (\<lambda>_. returnM ())"

definition set_network_status :: "nat \<Rightarrow> NetworkStatus \<Rightarrow> unit op" where
  "set_network_status k st = save_row networks networks_update k (\<lambda>x. x\<lparr>net_status := st\<rparr>)"

definition network_payload :: "network \<Rightarrow> json" where
  "network_payload nw = JObj [(''bridge'', JStr (net_bridge nw)), (''vlan_id'', jopt_int (net_vlan_id nw))]"

definition create_network_task :: "nat \<Rightarrow> nat \<Rightarrow> unit op" where
  "create_network_task jk k = bindM (get_row ''Job'' jobs jk) (\<lambda>j. bindM (get_row ''Network'' networks k) (\<lambda>nw.
     bindM (get_row ''Node'' nodes (net_node nw)) (\<lambda>n.
     tryM (bindM (job_run (jk, j) (''Creating network '' @ net_name nw)
             (seqM [bindM (send_operation (Some (net_node nw)) CREATE_NETWORK (uuid nw) (network_payload nw) None) (\<lambda>_. returnM ()),
                    set_network_status k NW_ACTIVE])) (\<lambda>_.
           bindM (succeed jk ''Network created'') (\<lambda>_. emit_network nw n ''NETWORK_CREATED'' [])))
       (\<lambda>e. seqM [set_network_status k NW_ERROR, fail_unless_terminal jk (str_exn e),
              emit_network nw n ''NETWORK_ERROR'' [(''error'', JStr (str_exn e))], raiseM e]))))"

text \<open>\<open>network.delete()\<close>: refused while a NIC points to it (\<open>PROTECT\<close>); subnets, pools and addresses
  cascade.\<close>

definition delete_network_row :: "nat \<Rightarrow> unit op" where
  "delete_network_row k = bindM (getdb (\<lambda>d. list_ex (\<lambda>(i, r). nic_network r = k) (nics d))) (\<lambda>used.
     if used then raiseM (ProtectedError ''Cannot delete some instances of model Network because they are referenced through protected foreign keys: VMNic.network.'')
     else moddb (\<lambda>d. let subs = map fst (rows_where (\<lambda>s. sub_network s = k) (subnets d)) in
       d\<lparr>networks := row_del k (networks d), subnets := filter (\<lambda>(i, s). i \<notin> set subs) (subnets d),
         ip_pools := filter (\<lambda>(i, p). poo_subnet p \<notin> set subs) (ip_pools d),
         ip_addresses := filter (\<lambda>(i, a). adr_subnet a \<notin> set subs) (ip_addresses d)\<rparr>))"

definition delete_network_task :: "nat \<Rightarrow> nat \<Rightarrow> unit op" where
  "delete_network_task jk k = bindM (get_row ''Job'' jobs jk) (\<lambda>j. bindM (get_row ''Network'' networks k) (\<lambda>nw.
     bindM (get_row ''Node'' nodes (net_node nw)) (\<lambda>n.
     tryM (seqM
       [job_run (jk, j) (''Deleting network '' @ net_name nw)
          (bindM (send_operation (Some (net_node nw)) DELETE_NETWORK (uuid nw) (network_payload nw) None) (\<lambda>_. returnM ())),
        delete_network_row k,
        succeed jk ''Network deleted'',
        tryM (bindM (emit_event ''NETWORK_DELETED'' EV_INFO ''Network'' (uuid nw) (nod_organization n) None
                [(''name'', JStr (net_name nw))]) (\<lambda>_. returnM ())) (\<lambda>_. returnM ())])
       (\<lambda>e. seqM [set_network_status k NW_ERROR, fail_unless_terminal jk (str_exn e), raiseM e]))))"

subsection \<open>Storage pools\<close>

definition create_storage_pool :: "nat \<times> node \<Rightarrow> string \<Rightarrow> StorageType \<Rightarrow> string \<Rightarrow> bool \<Rightarrow> bool \<Rightarrow> StorageCapability list \<Rightarrow>
    nat option \<Rightarrow> (nat \<times> job_obj) op" where
  "create_storage_pool no name ty path shared enabled caps by = (case no of (nk, n) \<Rightarrow>
     bindM uuid4 (\<lambda>u. bindM now (\<lambda>t.
     bindM (getdb (\<lambda>d. list_ex (\<lambda>(k, x). sto_node x = nk \<and> sto_name x = name) (storage_pools d)))
       (\<lambda>clash. if clash then raiseM (IntegrityError ''storage_pools.node_id, storage_pools.name'')
     else bindM fresh_pk (\<lambda>k.
     bindM (moddb (\<lambda>d. d\<lparr>storage_pools := row_add k
       \<lparr> uuid = u, created_at = t, updated_at = t, sto_node = nk, sto_name = name, sto_type = ty, sto_path = path,
         sto_capacity_bytes = 0, sto_used_bytes = 0, sto_available_bytes = 0, sto_status = SP_OFFLINE,
         sto_shared = shared, sto_enabled = enabled,
         sto_capabilities = (if caps = [] then DEFAULT_CAPABILITIES_BY_TYPE ty else caps) \<rparr> (storage_pools d)\<rparr>)) (\<lambda>_.
     bindM (create_job STORAGE_POOL_CREATE ''StoragePool'' u (nod_organization n) (Some nk) by '''' 600) (\<lambda>(jk, j).
     bindM (enqueue (CreateStoragePool jk k)) (\<lambda>_. returnM (k, (jk, j))))))))))"

definition pool_payload :: "storage_pool \<Rightarrow> json" where
  "pool_payload p = JObj [(''storage_type'', JStr (show_StorageType (sto_type p))), (''storage_path'', JStr (sto_path p))]"

definition save_pool :: "nat \<Rightarrow> (storage_pool \<Rightarrow> storage_pool) \<Rightarrow> unit op" where
  "save_pool k f = save_row storage_pools storage_pools_update k f"

definition refresh_storage_pool_info :: "nat \<times> storage_pool \<Rightarrow> unit op" where
  "refresh_storage_pool_info po = (case po of (k, p) \<Rightarrow>
     bindM (send_operation (Some (sto_node p)) GET_STORAGE_POOL_INFO (uuid p) (pool_payload p) None) (\<lambda>info.
     bindM (data_int info ''capacity_bytes'' None) (\<lambda>cap. bindM (data_int info ''used_bytes'' None) (\<lambda>used.
     bindM (data_int info ''available_bytes'' None) (\<lambda>avail. bindM now (\<lambda>t.
     save_pool k (\<lambda>x. x\<lparr>sto_capacity_bytes := cap, sto_used_bytes := used, sto_available_bytes := avail,
       sto_status := SP_ONLINE, updated_at := t\<rparr>)))))))"

definition emit_pool :: "storage_pool \<Rightarrow> node \<Rightarrow> string \<Rightarrow> (string \<times> json) list \<Rightarrow> unit op" where
  "emit_pool p n ty md = tryM (bindM (emit_event ty (if ty \<noteq> ''STORAGE_POOL_ERROR'' then EV_INFO else EV_CRITICAL) ''StoragePool''
     (uuid p) (nod_organization n) None (dict_merge [(''name'', JStr (sto_name p))] md)) (\<lambda>_. returnM ())) (\<lambda>_. returnM ())"

definition create_storage_pool_task :: "nat \<Rightarrow> nat \<Rightarrow> unit op" where
  "create_storage_pool_task jk k = bindM (get_row ''Job'' jobs jk) (\<lambda>j. bindM (get_row ''StoragePool'' storage_pools k) (\<lambda>p.
     bindM (get_row ''Node'' nodes (sto_node p)) (\<lambda>n.
     tryM (bindM (job_run (jk, j) (''Registering storage pool '' @ sto_name p)
             (seqM [(if sto_type p = ST_DIRECTORY
                     then bindM (send_operation (Some (sto_node p)) CREATE_STORAGE_POOL (uuid p) (pool_payload p) None) (\<lambda>_. returnM ())
                     else returnM ()),
                    refresh_storage_pool_info (k, p)])) (\<lambda>_.
           bindM (succeed jk ''Storage pool registered'') (\<lambda>_. emit_pool p n ''STORAGE_POOL_CREATED'' [])))
       (\<lambda>e. seqM [save_pool k (\<lambda>x. x\<lparr>sto_status := SP_ERROR\<rparr>), fail_unless_terminal jk (str_exn e),
              emit_pool p n ''STORAGE_POOL_ERROR'' [(''error'', JStr (str_exn e))], raiseM e]))))"

text \<open>\<open>refresh_storage_pools_task\<close>: one bad pool never stops the sweep.\<close>

definition refresh_one_pool :: "nat \<times> storage_pool \<Rightarrow> bool op" where
  "refresh_one_pool po = (case po of (k, p) \<Rightarrow>
     bindM (getM (\<lambda>w. case row_get (sto_node p) (nodes (wdb w)) of
        Some n \<Rightarrow> effective_status w (sto_node p) n = NS_ONLINE | None \<Rightarrow> False)) (\<lambda>online.
       if \<not> online then returnM False
       else tryM (bindM (refresh_storage_pool_info po) (\<lambda>_. returnM True))
         (\<lambda>e. bindM (moddb (\<lambda>d. d\<lparr>storage_pools := row_mod k (\<lambda>x. x\<lparr>sto_status := SP_ERROR\<rparr>) (storage_pools d)\<rparr>))
            (\<lambda>_. returnM False))))"

definition refresh_storage_pools_task :: "nat op" where
  "refresh_storage_pools_task = bindM (getdb (\<lambda>d. rows_where sto_enabled (storage_pools d))) (countM refresh_one_pool)"

subsection \<open>Job-bound bodies\<close>

context task_frame
begin

lemma keeps_set_network_status: "keeps R (set_network_status k st)"
  unfolding set_network_status_def by (intro tf_op) simp

lemma keeps_emit_network: "keeps R (emit_network nw n ty md)"
  unfolding emit_network_def by (intro tf_op tf_event)

lemma keeps_delete_network_row: "keeps R (delete_network_row k)"
  unfolding delete_network_row_def Let_def by (intro tf_op) simp

lemma keeps_save_pool: "keeps R (save_pool k f)"
  unfolding save_pool_def by (intro tf_op) simp

lemma keeps_refresh_pool: "keeps R (refresh_storage_pool_info po)"
  unfolding refresh_storage_pool_info_def by (intro tf_op tf_rpc keeps_case_prod keeps_save_pool)

lemma keeps_emit_pool: "keeps R (emit_pool p n ty md)"
  unfolding emit_pool_def by (intro tf_op tf_event)

end

lemma keeps_create_network: "keeps job_safe (create_network no nm ty br vl dh by)"
  unfolding create_network_def by (intro keeps_submit op_frame keeps_case_prod) simp_all

lemma keeps_delete_network: "keeps job_safe (delete_network no by)"
  unfolding delete_network_def by (intro keeps_submit op_frame keeps_case_prod) simp_all

lemma keeps_create_storage_pool: "keeps job_safe (create_storage_pool no nm ty pa sh en ca by)"
  unfolding create_storage_pool_def by (intro keeps_submit op_frame keeps_case_prod) simp_all

lemma keeps_try_addresses: "keeps job_safe (try_addresses sk nt as)"
proof (induction as)
  case Nil
  then show ?case by (simp only: try_addresses.simps op_frame)
next
  case (Cons a as)
  have "keeps job_safe (create_address sk a st nt)" for st
    unfolding create_address_def Let_def by (intro op_frame) simp
  moreover have "keeps job_safe (save_address k f)" for k f
    unfolding save_address_def by (intro op_frame) simp
  ultimately show ?case
    unfolding try_addresses.simps by (intro op_frame keeps_case_prod Cons)
qed

lemma keeps_refresh_one_pool: "keeps job_safe (refresh_one_pool po)"
  unfolding refresh_one_pool_def by (intro op_frame keeps_case_prod js.keeps_refresh_pool) simp

lemma keeps_refresh_pools: "keeps job_safe refresh_storage_pools_task"
  unfolding refresh_storage_pools_task_def by (intro op_frame keeps_countM keeps_refresh_one_pool)

lemma keeps_allocate_ip: "keeps job_safe (allocate_ip sk cidr pool nt)"
  unfolding allocate_ip_def by (intro op_frame lock_frame keeps_try_addresses)

lemma keeps_release_ip: "keeps job_safe (release_ip k)"
  unfolding release_ip_def save_address_def by (intro op_frame) simp

lemma keeps_reserve_ip: "keeps job_safe (reserve_ip sk su shw a p nt)"
  unfolding reserve_ip_def create_address_def save_address_def Let_def
  by (intro op_frame lock_frame keeps_case_prod) simp_all

lemmas network_request_frame = keeps_create_network keeps_delete_network keeps_create_storage_pool keeps_allocate_ip
  keeps_release_ip keeps_reserve_ip

interpretation create_network: bound_body "\<lambda>jk. create_network_task jk k" for k
proof unfold_locales
  show "keeps job_safe (create_network_task jk k)" for jk
    unfolding create_network_task_def
    by (intro op_frame job_frame rpc_frame js.keeps_set_network_status keeps_succeed js.keeps_emit_network)
  show "ends_terminal jk (create_network_task jk k)" for jk
    unfolding create_network_task_def
    by (rule et_bind, rule et_bind, rule et_bind, rule et_try)
      (rule et_bind, intro et_succeed_then js.keeps_emit_network, rule et_epilogue)
qed

interpretation delete_network: bound_body "\<lambda>jk. delete_network_task jk k" for k
proof unfold_locales
  show "keeps job_safe (delete_network_task jk k)" for jk
    unfolding delete_network_task_def
    by (intro op_frame job_frame rpc_frame event_frame js.keeps_set_network_status keeps_succeed js.keeps_delete_network_row)
  show "ends_terminal jk (delete_network_task jk k)" for jk
    unfolding delete_network_task_def
    apply (rule et_bind, rule et_bind, rule et_bind, rule et_try)
     apply (rule et_seq, rule et_seq, rule et_seq_then)
      apply (simp add: succeed_def et_succeed)
     apply (intro op_frame event_frame)
    apply (rule et_epilogue3)
    done
qed

interpretation create_pool: bound_body "\<lambda>jk. create_storage_pool_task jk k" for k
proof unfold_locales
  show "keeps job_safe (create_storage_pool_task jk k)" for jk
    unfolding create_storage_pool_task_def
    by (intro op_frame job_frame rpc_frame js.keeps_save_pool keeps_succeed js.keeps_emit_pool js.keeps_refresh_pool)
  show "ends_terminal jk (create_storage_pool_task jk k)" for jk
    unfolding create_storage_pool_task_def
    by (rule et_bind, rule et_bind, rule et_bind, rule et_try)
      (rule et_bind, intro et_succeed_then js.keeps_emit_pool, rule et_epilogue)
qed

subsection \<open>Which address is handed out\<close>

lemma address_row_mem: "address_row d sk a = Some (k, r) \<Longrightarrow> (k, r) \<in> set (ip_addresses d) \<and> adr_subnet r = sk \<and> adr_address r = a"
  unfolding address_row_def
  by (auto split: list.splits simp: rows_where_def filter_eq_Cons_iff)

lemma row_get_mem: "(k, r) \<in> set t \<Longrightarrow> \<exists>r'. row_get k t = Some r'"
  by (metis map_of_eq_None_iff not_Some_eq row_get_def image_eqI fst_conv)

lemma try_addresses_spec:
  "\<exists>x w'. try_addresses sk note as w = (Inr x, w') \<and>
     (case List.find (is_free (wdb w) sk) as of
        None \<Rightarrow> x = None \<and> w' = w
      | Some a \<Rightarrow> \<exists>k r. x = Some (k, r) \<and> adr_address r = a \<and> adr_subnet r = sk \<and>
          adr_state r = IP_ALLOCATED \<and> adr_note r = note)"
proof (induction as)
  case Nil
  then show ?case by simp
next
  case (Cons a as)
  show ?case
  proof (cases "address_row (wdb w) sk a")
    case None
    then show ?thesis
      by (simp add: is_free_def create_address_def bindM_def fresh_pk_apply Let_def)
  next
    case (Some kr)
    obtain k r where kr: "kr = (k, r)" by fastforce
    have mem: "(k, r) \<in> set (ip_addresses (wdb w))" "adr_subnet r = sk" "adr_address r = a"
      using address_row_mem [of "wdb w" sk a k r] Some kr by simp_all
    obtain r' where r': "row_get k (ip_addresses (wdb w)) = Some r'"
      using row_get_mem [OF mem(1)] by blast
    show ?thesis
    proof (cases "adr_state r = IP_AVAILABLE")
      case True
      with Some kr mem r' show ?thesis
        by (simp add: is_free_def bindM_def save_address_def save_row_apply)
    next
      case False
      with Some kr Cons.IH show ?thesis by (simp add: is_free_def)
    qed
  qed
qed

text \<open>Waiting for the subnet lock leaves the address tables alone.\<close>

lemma jobs_onlyD:
  assumes "jobs_only w w'"
  shows "ip_addresses (wdb w') = ip_addresses (wdb w)" "ip_pools (wdb w') = ip_pools (wdb w)"
proof -
  obtain j where "wdb w' = (wdb w)\<lparr>jobs := j\<rparr>" using assms unfolding jobs_only_def by blast
  then show "ip_addresses (wdb w') = ip_addresses (wdb w)" "ip_pools (wdb w') = ip_pools (wdb w)"
    by simp_all
qed

lemma is_free_cong: "ip_addresses d' = ip_addresses d \<Longrightarrow> is_free d' sk = is_free d sk"
  by (rule ext) (simp add: is_free_def address_row_def)

lemma subnet_lock_wait:
  assumes "subnet_lock sk w = (Inr l, w0)" and "acquire l True t w0 = (r, w1)"
  shows "jobs_only w w1"
proof -
  have "jobs_only w w0" using jo.keeps_subnet_lock assms(1) by (rule keepsD)
  moreover have "jobs_only w0 w1" using jo.keeps_acquire assms(2) by (rule keepsD)
  ultimately show ?thesis by (rule jo.R_trans)
qed

lemma subnet_lock_returns: "\<exists>l w0. subnet_lock sk w = (Inr l, w0)"
  by (simp add: subnet_lock_def new_lock_def bindM_def)

definition pools_for :: "db \<Rightarrow> nat \<Rightarrow> ip_pool option \<Rightarrow> ip_pool list" where
  "pools_for d sk pool = (case pool of Some p \<Rightarrow> [p] | None \<Rightarrow> subnet_pools d sk)"

definition candidates :: "db \<Rightarrow> nat \<Rightarrow> ip_pool option \<Rightarrow> nat list" where
  "candidates d sk pool = concat (map address_range (pools_for d sk pool))"

text \<open>What \<open>allocate_ip\<close> does, by the first free candidate at the time of the call.\<close>

lemma allocate_ip_outcome:
  "(\<exists>k. fst (allocate_ip sk cidr pool note w) = Inl (LockAcquisitionError k)) \<or>
    (case List.find (is_free (wdb w) sk) (candidates (wdb w) sk pool) of
       None \<Rightarrow> (\<exists>m. fst (allocate_ip sk cidr pool note w) = Inl (api_exn NoAvailableIPAddress m))
     | Some a \<Rightarrow> (\<exists>k r. fst (allocate_ip sk cidr pool note w) = Inr (k, r) \<and> adr_address r = a \<and> adr_subnet r = sk \<and>
          adr_state r = IP_ALLOCATED))"
proof -
  obtain l w0 where l: "subnet_lock sk w = (Inr l, w0)" using subnet_lock_returns by blast
  obtain ok w1 where ok: "acquire l True 10000 w0 = (Inr ok, w1)" using acquire_returns by blast
  define body where "body = bindM (getdb (\<lambda>d. pools_for d sk pool)) (\<lambda>pools.
        if pools = [] then raiseM (api_exn NoAvailableIPAddress ''Subnet has no configured IP pool to allocate from.'')
        else bindM (try_addresses sk note (concat (map address_range pools))) (\<lambda>x. case x of
            Some kr \<Rightarrow> returnM kr
          | None \<Rightarrow> raiseM (api_exn NoAvailableIPAddress (''No available address in '' @ cidr @ ''.''))))"
  have a: "allocate_ip sk cidr pool note w = atomicM (with_lock (subnet_lock sk) body) w"
    by (simp add: allocate_ip_def body_def pools_for_def)
  have at: "fst (atomicM m w) = fst (m w)" for m :: "(nat \<times> ip_address) op"
    by (simp add: atomicM_def split: prod.splits sum.splits)
  show ?thesis
  proof (cases ok)
    case False
    with with_lock_busy [of "subnet_lock sk" w l w0 w1 body] l ok a show ?thesis by (simp add: atomicM_def)
  next
    case True
    have tables: "ip_addresses (wdb w1) = ip_addresses (wdb w)" "pools_for (wdb w1) sk pool = pools_for (wdb w) sk pool"
      using jobs_onlyD [OF subnet_lock_wait [OF l ok]]
      by (auto simp: pools_for_def subnet_pools_def split: option.splits)
    obtain x w2 where x: "try_addresses sk note (candidates (wdb w) sk pool) w1 = (Inr x, w2)"
      "case List.find (is_free (wdb w) sk) (candidates (wdb w) sk pool) of
        None \<Rightarrow> x = None \<and> w2 = w1
      | Some a \<Rightarrow> \<exists>k r. x = Some (k, r) \<and> adr_address r = a \<and> adr_subnet r = sk \<and>
          adr_state r = IP_ALLOCATED \<and> adr_note r = note"
      using try_addresses_spec [of sk "note" "candidates (wdb w) sk pool" w1]
      unfolding is_free_cong [OF tables(1)] by blast
    have "fst (allocate_ip sk cidr pool note w) = fst (body w1)"
      using with_lock_taken [of "subnet_lock sk" w l w0 w1 body] l ok True by (simp add: a at)
    then show ?thesis
      using x tables(2) unfolding candidates_def
      by (auto simp: body_def bindM_def split: option.splits)
  qed
qed

subsection \<open>Properties\<close>

text \<open>
  Allocation hands out the first address of the candidate pools that has no row or an available one, in
  the order \<open>find_free_ip\<close> looks at them, and records it as allocated; when there is none the answer is
  \<open>NoAvailableIPAddress\<close>. The only other outcome is a busy subnet lock.
\<close>

theorem allocate_ip_first_free:
  "(\<exists>k. fst (allocate_ip sk cidr None note w) = Inl (LockAcquisitionError k)) \<or>
   (case fst (find_free_ip sk w) of
      Inl e \<Rightarrow> False
    | Inr None \<Rightarrow> (\<exists>m. fst (allocate_ip sk cidr None note w) = Inl (api_exn NoAvailableIPAddress m))
    | Inr (Some a) \<Rightarrow> is_free (wdb w) sk a \<and>
        (\<exists>k r. fst (allocate_ip sk cidr None note w) = Inr (k, r) \<and> adr_address r = a \<and> adr_subnet r = sk \<and>
           adr_state r = IP_ALLOCATED))"
proof -
  have c: "concat (map address_range (subnet_pools (wdb w) sk)) = candidates (wdb w) sk None"
    by (simp add: candidates_def pools_for_def)
  have free: "List.find (is_free (wdb w) sk) xs = Some a \<Longrightarrow> is_free (wdb w) sk a" for xs a
    by (induction xs) (auto split: if_splits)
  show ?thesis
    using allocate_ip_outcome [of sk cidr None "note" w] free [of "candidates (wdb w) sk None"]
    by (auto simp: find_free_ip_def c split: option.splits)
qed

end
