(* ===== verification/Webhooks.thy ===== *)
theory Webhooks
  imports Networks "HOL-Library.Word"
begin

section \<open>Webhooks: signed delivery with retries, and the defence against internal targets\<close>

text \<open>
  \<open>backend/apps/webhooks/tasks.py\<close>, \<open>security.py\<close> and the validation of \<open>serializers.py\<close>.
  Addresses are machine words, classified by the tables of Python's \<open>ipaddress\<close> module. The name
  service answers differently at every lookup (\<open>he_dns n\<close> is the answer to the \<open>n\<close>-th one), the
  receiver is arbitrary, and the text functions of the standard library (\<open>urlparse\<close>,
  \<open>ip_address\<close>, \<open>json.dumps\<close>, \<open>hmac\<close>) are parameters.
\<close>

subsection \<open>Addresses\<close>

datatype ip = V4 "32 word" | V6 "128 word"

definition v4 :: "nat \<Rightarrow> nat \<Rightarrow> nat \<Rightarrow> nat \<Rightarrow> 32 word" where
  "v4 a b c d = of_nat (((a * 256 + b) * 256 + c) * 256 + d)"

text \<open>The first four groups of an IPv6 address; the other four are zero.\<close>

definition v6 :: "nat \<Rightarrow> nat \<Rightarrow> nat \<Rightarrow> nat \<Rightarrow> 128 word" where
  "v6 a b c d = of_nat ((((a * 65536 + b) * 65536 + c) * 65536 + d) * 2 ^ 64)"

definition in_net4 :: "32 word \<Rightarrow> 32 word \<times> nat \<Rightarrow> bool" where
  "in_net4 a net = (drop_bit (32 - snd net) a = drop_bit (32 - snd net) (fst net))"

definition in_net6 :: "128 word \<Rightarrow> 128 word \<times> nat \<Rightarrow> bool" where
  "in_net6 a net = (drop_bit (128 - snd net) a = drop_bit (128 - snd net) (fst net))"

definition private4 :: "(32 word \<times> nat) list" where
  "private4 = [(v4 0 0 0 0, 8), (v4 10 0 0 0, 8), (v4 127 0 0 0, 8), (v4 169 254 0 0, 16), (v4 172 16 0 0, 12),
     (v4 192 0 0 0, 24), (v4 192 0 0 170, 31), (v4 192 0 2 0, 24), (v4 192 168 0 0, 16), (v4 198 18 0 0, 15),
     (v4 198 51 100 0, 24), (v4 203 0 113 0, 24), (v4 240 0 0 0, 4), (v4 255 255 255 255, 32)]"

definition private4_exceptions :: "(32 word \<times> nat) list" where
  "private4_exceptions = [(v4 192 0 0 9, 32), (v4 192 0 0 10, 32)]"

definition private6 :: "(128 word \<times> nat) list" where
  "private6 = [(1, 128), (0, 128), (v6 0 0 0 0 + 0xFFFF00000000, 96), (v6 0x64 0xff9b 1 0, 48), (v6 0x100 0 0 0, 64),
     (v6 0x2001 0 0 0, 23), (v6 0x2001 0xdb8 0 0, 32), (v6 0x2002 0 0 0, 16), (v6 0xfc00 0 0 0, 7), (v6 0xfe80 0 0 0, 10)]"

definition private6_exceptions :: "(128 word \<times> nat) list" where
  "private6_exceptions = [(v6 0x2001 1 0 0 + 1, 128), (v6 0x2001 1 0 0 + 2, 128), (v6 0x2001 3 0 0, 32),
     (v6 0x2001 4 0x112 0, 48), (v6 0x2001 0x20 0 0, 28), (v6 0x2001 0x30 0 0, 28)]"

definition reserved6 :: "(128 word \<times> nat) list" where
  "reserved6 = [(0, 8), (v6 0x100 0 0 0, 8), (v6 0x200 0 0 0, 7), (v6 0x400 0 0 0, 6), (v6 0x800 0 0 0, 5),
     (v6 0x1000 0 0 0, 4), (v6 0x4000 0 0 0, 3), (v6 0x6000 0 0 0, 3), (v6 0x8000 0 0 0, 3), (v6 0xA000 0 0 0, 3),
     (v6 0xC000 0 0 0, 3), (v6 0xE000 0 0 0, 4), (v6 0xF000 0 0 0, 5), (v6 0xF800 0 0 0, 6), (v6 0xFE00 0 0 0, 9)]"

text \<open>An IPv4-mapped IPv6 address is as private as the IPv4 address it carries.\<close>

definition ipv4_mapped :: "128 word \<Rightarrow> 32 word option" where
  "ipv4_mapped a = (if drop_bit 32 a = 0xFFFF then Some (ucast a) else None)"

definition is_private4 :: "32 word \<Rightarrow> bool" where
  "is_private4 a \<longleftrightarrow> list_ex (in_net4 a) private4 \<and> \<not> list_ex (in_net4 a) private4_exceptions"

definition is_private :: "ip \<Rightarrow> bool" where
  "is_private i = (case i of
     V4 a \<Rightarrow> is_private4 a
   | V6 a \<Rightarrow> (case ipv4_mapped a of
       Some b \<Rightarrow> is_private4 b
     | None \<Rightarrow> list_ex (in_net6 a) private6 \<and> \<not> list_ex (in_net6 a) private6_exceptions))"

definition is_loopback :: "ip \<Rightarrow> bool" where
  "is_loopback i = (case i of V4 a \<Rightarrow> in_net4 a (v4 127 0 0 0, 8) | V6 a \<Rightarrow> a = 1)"

definition is_link_local :: "ip \<Rightarrow> bool" where
  "is_link_local i = (case i of V4 a \<Rightarrow> in_net4 a (v4 169 254 0 0, 16) | V6 a \<Rightarrow> in_net6 a (v6 0xfe80 0 0 0, 10))"

definition is_reserved :: "ip \<Rightarrow> bool" where
  "is_reserved i = (case i of V4 a \<Rightarrow> in_net4 a (v4 240 0 0 0, 4) | V6 a \<Rightarrow> list_ex (in_net6 a) reserved6)"

definition is_unsafe_ip :: "ip \<Rightarrow> bool" where
  "is_unsafe_ip i \<longleftrightarrow> is_private i \<or> is_loopback i \<or> is_link_local i \<or> is_reserved i"

subsection \<open>Resolution\<close>

datatype dns_result = Addrs "ip list" | Gaierror | DnsExn exn

record http_env =
  he_hostname :: "string \<Rightarrow> string option"
  he_client_host :: "string \<Rightarrow> string option"
  he_literal :: "string \<Rightarrow> ip option"
  he_show :: "ip \<Rightarrow> string"
  he_dns :: "nat \<Rightarrow> string \<Rightarrow> dns_result"
  he_dumps :: "json \<Rightarrow> string"
  he_hmac :: "string \<Rightarrow> string \<Rightarrow> string"
  he_delay :: nat
  he_post :: "ip list \<Rightarrow> string \<Rightarrow> string \<Rightarrow> (string \<times> string) list \<Rightarrow> exn + (nat \<times> string)"

text \<open>\<open>he_hostname\<close> is \<open>urlparse(url).hostname\<close>, \<open>he_client_host\<close> the name the HTTP client looks up;
  the name \<open>None\<close> is no literal and does not resolve.\<close>

definition host_text :: "string option \<Rightarrow> string" where
  "host_text h = (case h of None \<Rightarrow> ''None'' | Some s \<Rightarrow> s)"

definition literal_of :: "http_env \<Rightarrow> string option \<Rightarrow> ip option" where
  "literal_of E h = (case h of None \<Rightarrow> None | Some s \<Rightarrow> he_literal E s)"

definition getaddrinfo :: "http_env \<Rightarrow> nat \<Rightarrow> string option \<Rightarrow> dns_result" where
  "getaddrinfo E n h = (case h of None \<Rightarrow> Gaierror | Some s \<Rightarrow> he_dns E n s)"

definition is_private_host :: "http_env \<Rightarrow> nat \<Rightarrow> string option \<Rightarrow> exn + bool" where
  "is_private_host E n h = (case literal_of E h of
     Some i \<Rightarrow> Inr (is_unsafe_ip i)
   | None \<Rightarrow> (case getaddrinfo E n h of
       Addrs is \<Rightarrow> Inr (list_ex is_unsafe_ip is) | Gaierror \<Rightarrow> Inr True | DnsExn e \<Rightarrow> Inl e))"

definition resolve_safe_ip :: "http_env \<Rightarrow> nat \<Rightarrow> string option \<Rightarrow> exn + ip" where
  "resolve_safe_ip E n h = (case literal_of E h of
     Some i \<Rightarrow> if is_unsafe_ip i
       then Inl (UnsafeWebhookHostError (host_text h @ '' is a private/loopback/link-local/reserved address''))
       else Inr i
   | None \<Rightarrow> (case getaddrinfo E n h of
       DnsExn e \<Rightarrow> Inl e
     | Gaierror \<Rightarrow> Inl (UnsafeWebhookHostError (''could not resolve '' @ host_text h))
     | Addrs is \<Rightarrow> (case is of
         [] \<Rightarrow> Inl (UnsafeWebhookHostError (''could not resolve '' @ host_text h))
       | i # _ \<Rightarrow> (case List.find is_unsafe_ip is of
           Some bad \<Rightarrow> Inl (UnsafeWebhookHostError (host_text h @ '' resolves to private address '' @ he_show E bad))
         | None \<Rightarrow> Inr i))))"

text \<open>\<open>pinned_dns(hostname, ip)\<close>: what \<open>socket.getaddrinfo\<close> answers while the patch is active.\<close>

definition pinned_dns :: "http_env \<Rightarrow> nat \<Rightarrow> string option \<Rightarrow> ip \<Rightarrow> string option \<Rightarrow> dns_result" where
  "pinned_dns E n hostname i h = (if h = hostname then Addrs [i] else getaddrinfo E n h)"

subsection \<open>Create-time validation\<close>

definition validate_url :: "http_env \<Rightarrow> nat \<Rightarrow> string \<Rightarrow> string \<Rightarrow> exn + string" where
  "validate_url E n scheme url =
     (if scheme \<notin> {''http'', ''https''}
      then Inl (DrfExn 400 ''invalid'' ''Only http/https webhook URLs are supported.'')
      else if he_hostname E url \<in> {None, Some ''''}
      then Inl (DrfExn 400 ''invalid'' ''URL must include a hostname.'')
      else (case is_private_host E n (he_hostname E url) of
              Inl e \<Rightarrow> Inl e
            | Inr b \<Rightarrow> if b then Inl (DrfExn 400 ''invalid''
                 ''Webhook URL must not target a private, loopback, or link-local address.'') else Inr url))"

definition validate_events :: "string list \<Rightarrow> exn + string list" where
  "validate_events es =
     (if es \<noteq> [''*''] \<and> list_ex (\<lambda>e. e \<notin> set SUPPORTED_EVENTS) es
      then Inl (DrfExn 400 ''invalid'' ''Unsupported event types'') else Inr es)"

definition get_secret :: "webhook \<Rightarrow> string" where
  "get_secret h = replicate 8 CHR ''*'' @ drop (length (whk_secret h) - 4) (whk_secret h)"

subsection \<open>Delivery\<close>

definition delivery_body :: "http_env \<Rightarrow> webhook_delivery \<Rightarrow> string" where
  "delivery_body E d = he_dumps E (JObj [(''event'', JStr (dlv_event_type d)), (''data'', dlv_payload d),
     (''delivery_id'', JStr (uuid d))])"

definition sign_payload :: "http_env \<Rightarrow> string \<Rightarrow> string \<Rightarrow> string" where
  "sign_payload E secret body = he_hmac E secret body"

definition delivery_headers :: "http_env \<Rightarrow> webhook \<Rightarrow> webhook_delivery \<Rightarrow> (string \<times> string) list" where
  "delivery_headers E h d = [(''Content-Type'', ''application/json''), (''X-NodePilot-Event'', dlv_event_type d),
     (''X-NodePilot-Signature'', ''sha256='' @ sign_payload E (whk_secret h) (delivery_body E d)),
     (''X-NodePilot-Delivery'', uuid d)]"

text \<open>
  The addresses the HTTP client may connect to in an attempt whose own lookup is the \<open>n\<close>-th and the
  client's the next one: the client asks the patched resolver for the name it reads in the URL.
\<close>

definition contacted :: "http_env \<Rightarrow> nat \<Rightarrow> string \<Rightarrow> ip list" where
  "contacted E n url = (case resolve_safe_ip E n (he_hostname E url) of
     Inl e \<Rightarrow> []
   | Inr i \<Rightarrow> (case pinned_dns E (n + 1) (he_hostname E url) i (he_client_host E url) of Addrs is \<Rightarrow> is | _ \<Rightarrow> []))"

definition save_delivery :: "nat \<Rightarrow> (webhook_delivery \<Rightarrow> webhook_delivery) \<Rightarrow> unit op" where
  "save_delivery k f = save_row deliveries deliveries_update k f"

definition backoff_seconds :: "nat \<Rightarrow> nat" where
  "backoff_seconds attempt = min (2 ^ attempt) 300"

text \<open>The general \<open>except\<close> clause, and both of them; \<open>rs\<close> is the response status of the instance in
  memory.\<close>

definition retry_delivery :: "nat \<Rightarrow> nat \<Rightarrow> nat option \<Rightarrow> exn \<Rightarrow> unit op" where
  "retry_delivery k attempt rs e = bindM (getM (\<lambda>w. WEBHOOK_MAX_RETRIES (conf w))) (\<lambda>max_retries.
     if max_retries \<le> attempt
     then save_delivery k (\<lambda>d. d\<lparr>dlv_attempt := attempt, dlv_response_status := rs,
            dlv_response_body := take 2000 (str_exn e), dlv_status := DS_FAILED\<rparr>)
     else seqM
       [save_delivery k (\<lambda>d. d\<lparr>dlv_attempt := attempt, dlv_response_status := rs,
          dlv_response_body := take 2000 (str_exn e), dlv_status := DS_RETRYING\<rparr>),
        enqueue (DeliverWebhook k (backoff_seconds attempt)),
        raiseM (OtherError ''Retry'')])"

definition delivery_failed :: "nat \<Rightarrow> nat \<Rightarrow> nat option \<Rightarrow> exn \<Rightarrow> unit op" where
  "delivery_failed k attempt rs e = (case e of
     UnsafeWebhookHostError m \<Rightarrow>
       save_delivery k (\<lambda>d. d\<lparr>dlv_attempt := attempt, dlv_response_body := take 2000 m, dlv_status := DS_FAILED\<rparr>)
   | _ \<Rightarrow> retry_delivery k attempt rs e)"

definition deliver_webhook :: "http_env \<Rightarrow> nat \<Rightarrow> nat \<Rightarrow> unit op" where
  "deliver_webhook E n k =
     bindM (get_row ''WebhookDelivery'' deliveries k) (\<lambda>d. bindM (get_row ''Webhook'' webhooks (dlv_webhook d)) (\<lambda>h.
     let attempt = dlv_attempt d + 1
     in case resolve_safe_ip E n (he_hostname E (whk_url h)) of
          Inl e \<Rightarrow> delivery_failed k attempt (dlv_response_status d) e
        | Inr i \<Rightarrow> bindM (sleepM (he_delay E)) (\<lambda>_.
            case he_post E (contacted E n (whk_url h)) (whk_url h) (delivery_body E d) (delivery_headers E h d) of
              Inl e \<Rightarrow> delivery_failed k attempt (dlv_response_status d) e
            | Inr (code, text) \<Rightarrow>
                if 200 \<le> code \<and> code < 300
                then tryM (bindM now (\<lambda>t. save_delivery k (\<lambda>r. r\<lparr>dlv_attempt := attempt,
                       dlv_response_status := Some code, dlv_response_body := take 2000 text,
                       dlv_status := DS_SUCCESS, dlv_delivered_at := Some t\<rparr>)))
                     (delivery_failed k attempt (Some code))
                else delivery_failed k attempt (Some code)
                       (OtherError (''Webhook endpoint returned '' @ show_nat code)))))"

subsection \<open>Facts\<close>

lemma resolve_safe_ip_safe: "resolve_safe_ip E n h = Inr i \<Longrightarrow> \<not> is_unsafe_ip i"
  by (auto simp: resolve_safe_ip_def find_None_iff split: option.splits dns_result.splits list.splits if_splits)

text \<open>Internal address space is refused, and the two IPv4 exceptions are outside it.\<close>

lemma internal_net_private4:
  assumes "in_net4 a net" and "net \<in> set private4" and "net \<noteq> (v4 192 0 0 0, 24)"
  shows "is_private4 a"
proof -
  have no: "\<not> in_net4 b net" if "(b, 32) \<in> set private4_exceptions" for b
    using assms(2,3) that
    by (auto simp: private4_def private4_exceptions_def in_net4_def v4_def)
  have "a \<noteq> b" if "(b, 32) \<in> set private4_exceptions" for b
    using no [OF that] assms(1) by blast
  then have "\<not> list_ex (in_net4 a) private4_exceptions"
    by (auto simp: private4_exceptions_def in_net4_def)
  with assms(1,2) show ?thesis by (auto simp: is_private4_def list_ex_iff)
qed

lemma contacted_safe:
  assumes "he_client_host E url = he_hostname E url" and "i \<in> set (contacted E n url)"
  shows "\<not> is_unsafe_ip i"
  using assms by (auto simp: contacted_def pinned_dns_def dest!: resolve_safe_ip_safe [OF sym] split: sum.splits)

lemma keeps_delivery: "keeps job_safe (deliver_webhook E n k)"
proof -
  have s: "keeps job_safe (save_delivery k f)" for f unfolding save_delivery_def by (intro op_frame) simp
  have f: "keeps job_safe (delivery_failed k a rs e)" for a rs e
    unfolding delivery_failed_def retry_delivery_def
    by (cases e; simp only: exn.case; intro op_frame s)
  have c: "keeps job_safe (case x of Inl e \<Rightarrow> g e | Inr y \<Rightarrow> h y)" if "\<And>e. keeps job_safe (g e)" "\<And>y. keeps job_safe (h y)"
    for x :: "exn + 'a" and g h using that by (cases x) simp_all
  show ?thesis
    unfolding deliver_webhook_def by (intro op_frame c keeps_case_prod s f)
qed

subsection \<open>Attempts\<close>

definition delivery_settled :: "webhook_delivery \<Rightarrow> bool" where
  "delivery_settled d \<longleftrightarrow> dlv_status d \<in> {DS_SUCCESS, DS_FAILED}"

text \<open>What one attempt leaves behind: the counter one higher, and the delivery settled or waiting for
  a retry that is in the queue, which can only be when the limit is not reached.\<close>

definition attempted :: "nat \<Rightarrow> webhook_delivery \<Rightarrow> world \<Rightarrow> bool" where
  "attempted k d w \<longleftrightarrow> (\<exists>d'. row_get k (deliveries (wdb w)) = Some d' \<and> dlv_attempt d' = dlv_attempt d + 1 \<and>
     dlv_webhook d' = dlv_webhook d \<and>
     (delivery_settled d' \<or> dlv_status d' = DS_RETRYING \<and> dlv_attempt d' < WEBHOOK_MAX_RETRIES (conf w) \<and>
        DeliverWebhook k (backoff_seconds (dlv_attempt d')) \<in> set (queue (wdb w))))"

lemma save_delivery_ok:
  "row_get k (deliveries (wdb w)) = Some d \<Longrightarrow>
     save_delivery k f w = (Inr (), db_upd (deliveries_update (row_mod k f)) w)"
  by (simp add: save_delivery_def save_row_apply)

lemma delivery_failed_attempted:
  assumes "row_get k (deliveries (wdb w)) = Some d0" and "dlv_webhook d0 = dlv_webhook d"
  shows "attempted k d (snd (delivery_failed k (dlv_attempt d + 1) rs e w))"
proof -
  have "attempted k d (snd (retry_delivery k (dlv_attempt d + 1) rs e w))"
    using assms
    by (auto simp: retry_delivery_def save_delivery_ok attempted_def tbl.get_md delivery_settled_def enqueue_def bindM_def)
  with assms show ?thesis
    by (cases e) (simp_all add: delivery_failed_def save_delivery_ok attempted_def tbl.get_md delivery_settled_def)
qed

lemma sleep_deliveries:
  "deliveries (wdb (advance t w)) = deliveries (wdb w)" "webhooks (wdb (advance t w)) = webhooks (wdb w)"
proof -
  have "jobs_only w (advance t w)" by (rule jo.R_advance)
  then obtain j where "wdb (advance t w) = (wdb w)\<lparr>jobs := j\<rparr>" unfolding jobs_only_def by blast
  then show "deliveries (wdb (advance t w)) = deliveries (wdb w)" "webhooks (wdb (advance t w)) = webhooks (wdb w)"
    by simp_all
qed

lemma deliver_webhook_attempted:
  assumes "row_get k (deliveries (wdb w)) = Some d" and "row_get (dlv_webhook d) (webhooks (wdb w)) = Some h"
  shows "attempted k d (snd (deliver_webhook E n k w))"
proof -
  have fail: "attempted k d (snd (delivery_failed k (Suc (dlv_attempt d)) rs e v))"
    if "deliveries (wdb v) = deliveries (wdb w)" for v rs e
    using delivery_failed_attempted [of k v d d rs e] assms(1) that by simp
  let ?w1 = "advance (he_delay E) w"
  have ok: "save_delivery k f ?w1 = (Inr (), db_upd (deliveries_update (row_mod k f)) ?w1)" for f
    using assms(1) by (intro save_delivery_ok) (simp add: sleep_deliveries)
  show ?thesis
    using assms fail [OF refl] fail [OF sleep_deliveries(1)]
    by (auto simp: deliver_webhook_def bindM_def get_row_apply tryM_def ok Let_def attempted_def tbl.get_md
        sleep_deliveries delivery_settled_def split: sum.splits prod.splits)
qed

lemma conf_request_cancel: "conf (snd (request_cancel jo w)) = conf w"
  using keepsD2 [OF env_same_request_cancel, of w jo] by (simp add: env_same_def)

lemma conf_advance [simp]: "conf (advance t w) = conf w"
proof -
  have "conf (apply_ext e w) = conf w" for e w
    by (cases e) (auto simp: apply_ext_def agent_disconnect_def agent_accepted_def conf_request_cancel split: option.splits)
  then have "conf (fold apply_at es w) = conf w" for es w
    by (induction es arbitrary: w) (simp_all add: apply_at_def)
  then show ?thesis by (simp add: advance_def Let_def)
qed

lemma conf_delivery_failed: "conf (snd (delivery_failed k a rs e w)) = conf w"
  by (cases e) (simp_all add: delivery_failed_def retry_delivery_def save_delivery_def save_row_apply enqueue_def bindM_def
      split: option.splits)

lemma conf_deliver_webhook: "conf (snd (deliver_webhook E n k w)) = conf w"
  by (auto simp: deliver_webhook_def bindM_def get_row_apply tryM_def Let_def conf_delivery_failed save_delivery_def
      save_row_apply split: sum.splits prod.splits option.splits)

text \<open>The retry loop: Celery runs the task again for every retry it queued, each run with its own
  lookups.\<close>

definition is_retrying :: "nat \<Rightarrow> world \<Rightarrow> bool" where
  "is_retrying k w = (case row_get k (deliveries (wdb w)) of None \<Rightarrow> False | Some d \<Rightarrow> dlv_status d = DS_RETRYING)"

fun redeliver :: "http_env \<Rightarrow> nat \<Rightarrow> nat \<Rightarrow> nat \<Rightarrow> world \<Rightarrow> world" where
  "redeliver E n k 0 w = w"
| "redeliver E n k (Suc m) w =
     (let w' = snd (deliver_webhook E n k w) in if is_retrying k w' then redeliver E (n + 2) k m w' else w')"

lemma webhooks_deliver: "webhooks (wdb (snd (deliver_webhook E n k w))) = webhooks (wdb w)"
proof -
  have f: "webhooks (wdb (snd (delivery_failed k a rs e w))) = webhooks (wdb w)" for a rs e w
    by (cases e) (simp_all add: delivery_failed_def retry_delivery_def save_delivery_def save_row_apply enqueue_def
        bindM_def split: option.splits)
  show ?thesis
    by (auto simp: deliver_webhook_def bindM_def get_row_apply tryM_def Let_def f save_delivery_def
      save_row_apply sleep_deliveries split: sum.splits prod.splits option.splits)
qed

lemma redeliver_settles:
  assumes "row_get k (deliveries (wdb w)) = Some d" and "row_get (dlv_webhook d) (webhooks (wdb w)) = Some h"
    and "WEBHOOK_MAX_RETRIES (conf w) - dlv_attempt d \<le> Suc m"
  shows "\<exists>d'. row_get k (deliveries (wdb (redeliver E n k (Suc m) w))) = Some d' \<and> delivery_settled d' \<and>
     dlv_attempt d' \<le> max (dlv_attempt d + 1) (WEBHOOK_MAX_RETRIES (conf w))"
  using assms
proof (induction m arbitrary: n w d)
  case (0 n w d)
  obtain d' where d': "row_get k (deliveries (wdb (snd (deliver_webhook E n k w)))) = Some d'"
      "dlv_attempt d' = dlv_attempt d + 1" "delivery_settled d' \<or> dlv_attempt d' < WEBHOOK_MAX_RETRIES (conf w)"
    using deliver_webhook_attempted [OF "0.prems"(1,2), of E n]
    by (auto simp: attempted_def conf_deliver_webhook)
  with "0.prems"(3) have "delivery_settled d'" by auto
  with d' show ?case by (auto simp: Let_def is_retrying_def delivery_settled_def)
next
  case (Suc m n w d)
  let ?w' = "snd (deliver_webhook E n k w)"
  obtain d' where d': "row_get k (deliveries (wdb ?w')) = Some d'"
      "dlv_attempt d' = dlv_attempt d + 1" "dlv_webhook d' = dlv_webhook d"
      "delivery_settled d' \<or> dlv_status d' = DS_RETRYING \<and> dlv_attempt d' < WEBHOOK_MAX_RETRIES (conf w)"
    using deliver_webhook_attempted [OF Suc.prems(1,2), of E n]
    by (auto simp: attempted_def conf_deliver_webhook)
  show ?case
  proof (cases "dlv_status d' = DS_RETRYING")
    case False
    with d' show ?thesis by (auto simp: Let_def is_retrying_def)
  next
    case True
    with d'(4) have less: "dlv_attempt d' < WEBHOOK_MAX_RETRIES (conf w)" by (simp add: delivery_settled_def)
    have "\<exists>d''. row_get k (deliveries (wdb (redeliver E (n + 2) k (Suc m) ?w'))) = Some d'' \<and> delivery_settled d'' \<and>
        dlv_attempt d'' \<le> max (dlv_attempt d' + 1) (WEBHOOK_MAX_RETRIES (conf ?w'))"
      by (rule Suc.IH [OF d'(1)])
        (use d'(2,3) Suc.prems in \<open>simp_all add: webhooks_deliver conf_deliver_webhook\<close>)
    moreover have "redeliver E n k (Suc (Suc m)) w = redeliver E (n + 2) k (Suc m) ?w'"
      using True d'(1) by (subst redeliver.simps(2)) (simp add: is_retrying_def Let_def del: redeliver.simps(2))
    ultimately show ?thesis
      using d'(2) less by (simp add: conf_deliver_webhook del: redeliver.simps)
  qed
qed

subsection \<open>Properties\<close>

text \<open>
  C9. Server-side request forgery: however the name service answers at each lookup, every address the HTTP
  client may connect to for a delivery is public, provided the client looks up the name that
  \<open>urlparse\<close> finds in the URL.
\<close>

theorem webhook_target_public:
  assumes "he_client_host E url = he_hostname E url" and "i \<in> set (contacted E n url)"
  shows "\<not> is_private i \<and> \<not> is_loopback i \<and> \<not> is_link_local i \<and> \<not> is_reserved i"
  using contacted_safe [OF assms] by (simp add: is_unsafe_ip_def)

text \<open>A name service that first gives a public address and then a loopback one.\<close>

definition ex_http :: http_env where
  "ex_http = \<lparr> he_hostname = (\<lambda>u. Some ''hooks.example.com''), he_client_host = (\<lambda>u. Some ''hooks.example.com''),
     he_literal = (\<lambda>s. None), he_show = (\<lambda>i. ''''),
     he_dns = (\<lambda>n s. if n = 0 then Addrs [V4 (v4 8 8 8 8)] else Addrs [V4 (v4 127 0 0 1)]),
     he_dumps = (\<lambda>j. ''{}''), he_hmac = (\<lambda>k b. ''sig''), he_delay = 50,
     he_post = (\<lambda>is u b h. Inr (500, ''oops'')) \<rparr>"

lemma ex_public: "\<not> is_unsafe_ip (V4 (v4 8 8 8 8))"
  by (simp add: is_unsafe_ip_def is_private_def is_private4_def is_loopback_def is_link_local_def is_reserved_def
      in_net4_def private4_def private4_exceptions_def v4_def)

lemma ex_contacted: "contacted ex_http 0 ''https://hooks.example.com/'' = [V4 (v4 8 8 8 8)]"
  by (simp add: contacted_def resolve_safe_ip_def literal_of_def getaddrinfo_def pinned_dns_def ex_http_def ex_public)

theorem webhook_target_public_witness:
  "V4 (v4 8 8 8 8) \<in> set (contacted ex_http 0 ''https://hooks.example.com/'') \<and> \<not> is_private (V4 (v4 8 8 8 8))"
proof -
  have m: "V4 (v4 8 8 8 8) \<in> set (contacted ex_http 0 ''https://hooks.example.com/'')" by (simp add: ex_contacted)
  have "he_client_host ex_http ''https://hooks.example.com/'' = he_hostname ex_http ''https://hooks.example.com/''"
    by (simp add: ex_http_def)
  from webhook_target_public [OF this m] m show ?thesis by simp
qed

text \<open>
  The address classes behind that check: every address of the private, loopback, link-local,
  benchmarking, documentation and reserved IPv4 networks is refused.
\<close>

theorem internal_ipv4_refused:
  assumes "in_net4 a net" and "net \<in> set private4" and "net \<noteq> (v4 192 0 0 0, 24)"
  shows "is_unsafe_ip (V4 a)"
  using internal_net_private4 [OF assms] by (simp add: is_unsafe_ip_def is_private_def)

theorem internal_ipv4_refused_witness: "is_unsafe_ip (V4 (v4 192 168 7 9))"
  by (rule internal_ipv4_refused [where net = "(v4 192 168 0 0, 16)"])
    (simp_all add: in_net4_def v4_def private4_def)

text \<open>
  Every delivery settles: after at most the configured number of attempts, counting those already made,
  the delivery is \<open>SUCCESS\<close> or \<open>FAILED\<close>, whatever the receiver and the name service do, and the attempt
  counter has not passed the limit.
\<close>

theorem delivery_settles:
  assumes "row_get k (deliveries (wdb w)) = Some d" and "row_get (dlv_webhook d) (webhooks (wdb w)) = Some h"
    and "dlv_attempt d < WEBHOOK_MAX_RETRIES (conf w)"
  shows "\<exists>d'. row_get k (deliveries (wdb (redeliver E n k (WEBHOOK_MAX_RETRIES (conf w) - dlv_attempt d) w))) = Some d' \<and>
     dlv_status d' \<in> {DS_SUCCESS, DS_FAILED} \<and> dlv_attempt d' \<le> WEBHOOK_MAX_RETRIES (conf w)"
proof -
  obtain m where m: "WEBHOOK_MAX_RETRIES (conf w) - dlv_attempt d = Suc m"
    using assms(3) by (metis Suc_diff_Suc)
  show ?thesis
    using redeliver_settles [OF assms(1,2), of m E n] assms(3) m
    by (auto simp: delivery_settled_def simp del: redeliver.simps)
qed

definition ex_delivery :: webhook_delivery where
  "ex_delivery = \<lparr> uuid = ''dl'', created_at = 0, updated_at = 0, dlv_webhook = 50, dlv_event_type = ''vm.started'',
     dlv_payload = JObj [], dlv_status = DS_PENDING, dlv_attempt = 0, dlv_response_status = None,
     dlv_response_body = '''', dlv_delivered_at = None \<rparr>"

definition ex_delivering :: world where
  "ex_delivering = db_upd (\<lambda>d. d\<lparr>deliveries := [(60, ex_delivery)]\<rparr>) ex_world"

theorem delivery_settles_witness:
  "\<exists>d'. row_get 60 (deliveries (wdb (redeliver ex_http 0 60 6 ex_delivering))) = Some d' \<and>
     dlv_status d' \<in> {DS_SUCCESS, DS_FAILED} \<and> dlv_attempt d' \<le> 6"
proof -
  have six: "WEBHOOK_MAX_RETRIES (conf ex_delivering) = 6" "dlv_attempt ex_delivery = 0"
    by (simp_all add: ex_delivering_def NODEPILOT_def ex_delivery_def)
  have "\<exists>d'. row_get 60 (deliveries (wdb (redeliver ex_http 0 60
        (WEBHOOK_MAX_RETRIES (conf ex_delivering) - dlv_attempt ex_delivery) ex_delivering))) = Some d' \<and>
     dlv_status d' \<in> {DS_SUCCESS, DS_FAILED} \<and> dlv_attempt d' \<le> WEBHOOK_MAX_RETRIES (conf ex_delivering)"
    by (rule delivery_settles [where h = ex_webhook])
      (simp_all add: ex_delivering_def ex_delivery_def NODEPILOT_def)
  then show ?thesis unfolding six by simp
qed

end
