(* ===== verification/System.thy ===== *)
theory System
  imports Webhooks
begin

section \<open>System: requests, workers and the beat scheduler together\<close>

text \<open>
  The whole controller as one transition system. A step is a request of a user or an agent that
  reaches a service, a beat task, a worker that takes a call from the queue, or time passing with
  whatever agents, users and other workers do meanwhile. Celery acknowledges late
  (\<open>CELERY_TASK_ACKS_LATE\<close>): a call leaves the queue after it has run, and one that was not
  acknowledged runs again.
\<close>

subsection \<open>Workers\<close>

fun celery_body :: "http_env \<Rightarrow> nat \<Rightarrow> celery_call \<Rightarrow> unit op" where
  "celery_body E n (ProvisionVm jk k) = provision_vm jk k"
| "celery_body E n (StartVm jk k) = start_vm_task jk k"
| "celery_body E n (StopVm jk k) = stop_vm_task jk k"
| "celery_body E n (RebootVm jk k) = reboot_vm_task jk k"
| "celery_body E n (PauseVm jk k) = pause_vm_task jk k"
| "celery_body E n (ResumeVm jk k) = resume_vm_task jk k"
| "celery_body E n (DeleteVm jk k) = delete_vm_task jk k"
| "celery_body E n (CloneVm jk k nm linked) = clone_vm_task jk k nm linked"
| "celery_body E n (AttachDisk jk k) = attach_disk_task jk k"
| "celery_body E n (DetachDisk jk k) = detach_disk_task jk k"
| "celery_body E n (ResizeDisk jk k sz) = resize_disk_task jk k sz"
| "celery_body E n (AttachNic jk k) = attach_nic_task jk k"
| "celery_body E n (DetachNic jk k) = detach_nic_task jk k"
| "celery_body E n (CreateSnapshot jk k) = create_snapshot_task jk k"
| "celery_body E n (DeleteSnapshot jk k) = delete_snapshot_task jk k"
| "celery_body E n (RollbackSnapshot jk k) = rollback_snapshot_task jk k"
| "celery_body E n (CreateBackup jk k) = create_backup_task jk k"
| "celery_body E n (RestoreBackup jk k) = restore_backup_task jk k"
| "celery_body E n (CreateStoragePool jk k) = create_storage_pool_task jk k"
| "celery_body E n (CreateNetwork jk k) = create_network_task jk k"
| "celery_body E n (DeleteNetwork jk k) = delete_network_task jk k"
| "celery_body E n (DeliverWebhook k c) = deliver_webhook E n k"

text \<open>The worker logs what a task raises; the job-bound tasks record it on their job first.\<close>

definition run_celery :: "http_env \<Rightarrow> nat \<Rightarrow> string \<Rightarrow> celery_call \<Rightarrow> unit op" where
  "run_celery E n t c = (case celery_job c of
     Some jk \<Rightarrow> run_bound_task jk t (celery_body E n c)
   | None \<Rightarrow> tryM (celery_body E n c) (\<lambda>_. returnM ()))"

definition ack :: "celery_call \<Rightarrow> world \<Rightarrow> world" where
  "ack c w = db_upd (\<lambda>d. d\<lparr>queue := remove1 c (queue d)\<rparr>) w"

subsection \<open>The beat scheduler\<close>

datatype beat = SweepOfflineNodes | ReconcileNodes | ApplyRetention | RefreshStoragePools | RunScheduledBackup nat

text \<open>\<open>CELERY_BEAT_SCHEDULE\<close>: task name and seconds; the backup schedules are rows of the database.\<close>

definition BEAT_SCHEDULE :: "(string \<times> beat \<times> nat) list" where
  "BEAT_SCHEDULE = [(''nodes.sweep_offline_nodes'', SweepOfflineNodes, 15), (''nodes.reconcile_nodes'', ReconcileNodes, 300),
     (''backups.apply_retention'', ApplyRetention, 3600), (''storage.refresh_storage_pools'', RefreshStoragePools, 300)]"

fun run_beat :: "beat \<Rightarrow> unit op" where
  "run_beat SweepOfflineNodes = bindM sweep_offline_nodes (\<lambda>_. returnM ())"
| "run_beat ReconcileNodes = bindM reconcile_all (\<lambda>_. returnM ())"
| "run_beat ApplyRetention = bindM apply_retention_task (\<lambda>_. returnM ())"
| "run_beat RefreshStoragePools = bindM refresh_storage_pools_task (\<lambda>_. returnM ())"
| "run_beat (RunScheduledBackup sk) = run_scheduled_backup sk"

subsection \<open>Requests\<close>

text \<open>What a request handler calls once it has authenticated, authorized and parsed the request.\<close>

datatype request =
    ReqCreateVm vm_request
  | ReqCreateVmFromTemplate nat template_request
  | ReqStart nat | ReqStop nat bool | ReqReboot nat bool | ReqPause nat | ReqResume nat | ReqDelete nat
  | ReqClone nat string bool
  | ReqMigrate nat nat
  | ReqAttachDisk nat nat nat DiskBus | ReqDetachDisk nat nat | ReqResizeDisk nat nat int
  | ReqAttachNic nat nat NicModel "nat option" "nat option" | ReqDetachNic nat nat
  | ReqCreateSnapshot nat string string | ReqDeleteSnapshot nat | ReqRollbackSnapshot nat
  | ReqCreateBackup nat nat BackupType | ReqRestoreBackup nat | ReqDeleteBackup nat
  | ReqCreateSchedule nat nat nat BackupType string string nat | ReqUpdateSchedule nat schedule_patch | ReqDeleteSchedule nat
  | ReqCreateNetwork nat string NetworkType string "nat option" bool | ReqDeleteNetwork nat
  | ReqCreatePool nat string StorageType string bool bool "StorageCapability list"
  | ReqCancelJob nat
  | ReqHeartbeat nat heartbeat | ReqMetrics nat "vm_sample list"
  | ReqRegisterAgent nat | ReqRevokeAgent nat

definition with_vm :: "nat \<Rightarrow> (vm_obj \<Rightarrow> 'a op) \<Rightarrow> unit op" where
  "with_vm k f = bindM (get_row ''VirtualMachine'' vms k) (\<lambda>v. bindM (f (k, v)) (\<lambda>_. returnM ()))"

definition with_obj :: "string \<Rightarrow> (db \<Rightarrow> 'r table) \<Rightarrow> nat \<Rightarrow> (nat \<times> 'r \<Rightarrow> 'a op) \<Rightarrow> unit op" where
  "with_obj nm tab k f = bindM (get_row nm tab k) (\<lambda>r. bindM (f (k, r)) (\<lambda>_. returnM ()))"

fun run_request :: "(string \<Rightarrow> string) \<Rightarrow> nat option \<Rightarrow> request \<Rightarrow> unit op" where
  "run_request hash by (ReqCreateVm r) = bindM (create_vm r) (\<lambda>_. returnM ())"
| "run_request hash by (ReqCreateVmFromTemplate tk q) =
     with_obj ''Template'' templates tk (\<lambda>(k, t). create_vm_from_template k t q)"
| "run_request hash by (ReqStart k) = with_vm k (\<lambda>v. start_vm v by)"
| "run_request hash by (ReqStop k force) = with_vm k (\<lambda>v. stop_vm v by force)"
| "run_request hash by (ReqReboot k force) = with_vm k (\<lambda>v. reboot_vm v by force)"
| "run_request hash by (ReqPause k) = with_vm k (\<lambda>v. pause_vm v by)"
| "run_request hash by (ReqResume k) = with_vm k (\<lambda>v. resume_vm v by)"
| "run_request hash by (ReqDelete k) = with_vm k (\<lambda>v. delete_vm v by)"
| "run_request hash by (ReqClone k nm linked) = with_vm k (\<lambda>v. clone_vm v by nm linked)"
| "run_request hash by (ReqMigrate k nk) = with_vm k (\<lambda>v. with_obj ''Node'' nodes nk (\<lambda>n. migrate_vm v n))"
| "run_request hash by (ReqAttachDisk k st gb bus) = with_vm k (\<lambda>v. attach_disk v st gb bus by)"
| "run_request hash by (ReqDetachDisk k dk) = with_vm k (\<lambda>v. with_obj ''VMDisk'' disks dk (\<lambda>r. detach_disk v r by))"
| "run_request hash by (ReqResizeDisk k dk gb) = with_vm k (\<lambda>v. with_obj ''VMDisk'' disks dk (\<lambda>r. resize_disk v r gb by))"
| "run_request hash by (ReqAttachNic k net md vl rt) = with_vm k (\<lambda>v. attach_nic v net md vl rt by)"
| "run_request hash by (ReqDetachNic k nk) = with_vm k (\<lambda>v. with_obj ''VMNic'' nics nk (\<lambda>n. detach_nic v n by))"
| "run_request hash by (ReqCreateSnapshot k nm ds) = with_vm k (\<lambda>v. create_snapshot v nm ds by)"
| "run_request hash by (ReqDeleteSnapshot sk) = with_obj ''Snapshot'' snapshots sk (\<lambda>s. delete_snapshot s by)"
| "run_request hash by (ReqRollbackSnapshot sk) = with_obj ''Snapshot'' snapshots sk (\<lambda>s. rollback_snapshot s by)"
| "run_request hash by (ReqCreateBackup k tg ty) = with_vm k (\<lambda>v. create_backup v tg ty by)"
| "run_request hash by (ReqRestoreBackup bk) = with_obj ''Backup'' backups bk (\<lambda>b. restore_backup b by)"
| "run_request hash by (ReqDeleteBackup bk) = delete_backup bk"
| "run_request hash by (ReqCreateSchedule org k tg ty cron tz ret) =
     bindM (create_schedule org k tg ty cron tz ret) (\<lambda>_. returnM ())"
| "run_request hash by (ReqUpdateSchedule sk p) = with_obj ''BackupSchedule'' backup_schedules sk (\<lambda>s. update_schedule s p)"
| "run_request hash by (ReqDeleteSchedule sk) = with_obj ''BackupSchedule'' backup_schedules sk (\<lambda>s. delete_schedule s)"
| "run_request hash by (ReqCreateNetwork nk nm ty br vl dh) =
     with_obj ''Node'' nodes nk (\<lambda>n. create_network n nm ty br vl dh by)"
| "run_request hash by (ReqDeleteNetwork k) = with_obj ''Network'' networks k (\<lambda>n. delete_network n by)"
| "run_request hash by (ReqCreatePool nk nm ty pa sh en ca) =
     with_obj ''Node'' nodes nk (\<lambda>n. create_storage_pool n nm ty pa sh en ca by)"
| "run_request hash by (ReqCancelJob k) = with_obj ''Job'' jobs k request_cancel"
| "run_request hash by (ReqHeartbeat ak hb) = with_obj ''Agent'' agents ak (\<lambda>(k, a). record_heartbeat k a hb)"
| "run_request hash by (ReqMetrics ak samples) = with_obj ''Agent'' agents ak (\<lambda>(k, a). record_vm_metrics_batch a samples)"
| "run_request hash by (ReqRegisterAgent nk) = bindM (register_agent hash nk) (\<lambda>_. returnM ())"
| "run_request hash by (ReqRevokeAgent ak) = revoke_agent ak"

subsection \<open>Every operation moves jobs along the state machine and keeps the queue in order\<close>

lemma keeps_with_vm: "(\<And>v. keeps job_safe (f v)) \<Longrightarrow> keeps job_safe (with_vm k f)"
  unfolding with_vm_def by (intro op_frame)

lemma keeps_with_obj: "(\<And>r. keeps job_safe (f r)) \<Longrightarrow> keeps job_safe (with_obj nm tab k f)"
  unfolding with_obj_def by (intro op_frame)

lemma keeps_case_list:
  "keeps R n \<Longrightarrow> (\<And>x xs. keeps R (f x xs)) \<Longrightarrow> keeps R (case l of [] \<Rightarrow> n | x # xs \<Rightarrow> f x xs)"
  by (cases l) simp_all

lemma keeps_agent_requests:
  "keeps job_safe (record_heartbeat ak a hb)" "keeps job_safe (record_vm_metrics_batch a samples)"
  "keeps job_safe (register_agent hash nk)" "keeps job_safe (revoke_agent ak)"
proof -
  have save: "keeps job_safe (save_agent k f)" for k f
    unfolding save_agent_def by (intro op_frame) simp
  show "keeps job_safe (record_heartbeat ak a hb)"
    unfolding record_heartbeat_def check_agent_version_compatible_def broadcast_node_status_def Let_def
    by (intro op_frame event_frame keeps_record_node_sample) simp_all
  show "keeps job_safe (record_vm_metrics_batch a samples)"
    unfolding record_vm_metrics_batch_def by (intro op_frame keeps_countM keeps_record_vm_sample)
  show "keeps job_safe (register_agent hash nk)"
    unfolding register_agent_def get_or_create_agent_def rotate_token_def generate_token_def Let_def
    by (intro op_frame keeps_case_list keeps_case_prod save) simp_all
  show "keeps job_safe (revoke_agent ak)"
    unfolding revoke_agent_def by (intro op_frame save)
qed

lemmas request_frame = vm_request_frame snapshot_request_frame backup_request_frame network_request_frame
  keeps_agent_requests keeps_request_cancel

lemma keeps_run_request: "keeps job_safe (run_request hash by q)"
  by (cases q; simp only: run_request.simps; intro keeps_with_vm keeps_with_obj keeps_case_prod request_frame op_frame)

lemma keeps_run_beat: "keeps job_safe (run_beat b)"
  by (cases b; simp only: run_beat.simps;
      intro op_frame keeps_sweeps keeps_apply_retention keeps_refresh_pools keeps_run_scheduled_backup)

lemmas task_defs = start_vm_task_def pause_vm_task_def resume_vm_task_def

lemma celery_run_bound:
  assumes "celery_job c = Some jk"
  shows "keeps job_safe (run_celery E n t c) \<and>
    (has_job jk w \<longrightarrow> (\<exists>w'. run_celery E n t c w = (Inr (), w') \<and> terminal_in jk w'))"
  using assms
  by (cases c)
    (simp_all add: run_celery_def task_defs provision.run_safe provision.run_terminal lifecycle.run_safe
      lifecycle.run_terminal stop.run_safe stop.run_terminal reboot.run_safe reboot.run_terminal delete.run_safe
      delete.run_terminal clone.run_safe clone.run_terminal attach_disk.run_safe attach_disk.run_terminal
      detach_disk.run_safe detach_disk.run_terminal resize_disk.run_safe resize_disk.run_terminal
      attach_nic.run_safe attach_nic.run_terminal detach_nic.run_safe detach_nic.run_terminal
      create_snapshot.run_safe create_snapshot.run_terminal delete_snapshot.run_safe delete_snapshot.run_terminal
      rollback_snapshot.run_safe rollback_snapshot.run_terminal create_backup.run_safe create_backup.run_terminal
      restore_backup.run_safe restore_backup.run_terminal create_pool.run_safe create_pool.run_terminal
      create_network.run_safe create_network.run_terminal delete_network.run_safe delete_network.run_terminal)

lemma keeps_run_celery: "keeps job_safe (run_celery E n t c)"
proof (cases "celery_job c")
  case None
  then obtain k m where "c = DeliverWebhook k m" by (cases c) simp_all
  then show ?thesis by (simp add: run_celery_def) (intro op_frame keeps_delivery)
next
  case (Some jk)
  then show ?thesis using celery_run_bound by blast
qed

subsection \<open>The transition system\<close>

inductive sys_step :: "http_env \<Rightarrow> (string \<Rightarrow> string) \<Rightarrow> world \<Rightarrow> world \<Rightarrow> bool" for E hash where
  Request: "sys_step E hash w (snd (run_request hash by q w))"
| Beat: "sys_step E hash w (snd (run_beat b w))"
| Worker: "c \<in> set (queue (wdb w)) \<Longrightarrow> sys_step E hash w (ack c (snd (run_celery E n t c w)))"
| Redelivered: "c \<in> set (queue (wdb w)) \<Longrightarrow> sys_step E hash w (snd (run_celery E n t c w))"
| Wait: "sys_step E hash w (advance dt w)"

inductive_cases sys_stepE: "sys_step E hash w w'"

text \<open>The invariant: job rows are well formed, every queued call has its job, and every job is finished
  or has its call in the queue.\<close>

definition system_inv :: "world \<Rightarrow> bool" where
  "system_inv w \<longleftrightarrow> jobs_wf w \<and>
     list_all (\<lambda>c. case celery_job c of None \<Rightarrow> True | Some k \<Rightarrow> has_job k w) (queue (wdb w)) \<and>
     list_all (\<lambda>(k, j). terminal_in k w \<or> queued_job k w) (jobs (wdb w))"

lemma has_job_iff: "has_job k w \<longleftrightarrow> k \<in> fst ` set (jobs (wdb w))"
  by (simp add: has_job_def row_get_def map_of_eq_None_iff)

lemma system_inv_iff:
  "system_inv w \<longleftrightarrow> jobs_wf w \<and>
     (\<forall>c k. c \<in> set (queue (wdb w)) \<longrightarrow> celery_job c = Some k \<longrightarrow> has_job k w) \<and>
     (\<forall>k. has_job k w \<longrightarrow> terminal_in k w \<or> queued_job k w)"
  unfolding system_inv_def has_job_iff
  by (auto simp: list_all_iff has_job_iff split: option.splits)

lemma job_safe_inv:
  assumes s: "job_safe w w'" and i: "system_inv w"
  shows "system_inv w'"
proof -
  have q: "queue_grows w w'" and e: "job_evolves w w'" using s by (simp_all add: job_safe_def)
  have sub: "set (queue (wdb w)) \<subseteq> set (queue (wdb w'))" using q by (simp add: queue_grows_def)
  have "has_job k w'" if "c \<in> set (queue (wdb w'))" "celery_job c = Some k" for c k
    using that q i job_evolves_has [OF e, of k] unfolding queue_grows_def system_inv_iff by blast
  moreover have "terminal_in k w' \<or> queued_job k w'" if "has_job k w'" for k
    using that q i queued_job_mono [OF sub, of k] terminal_in_safe [OF s, of k]
    unfolding queue_grows_def system_inv_iff by blast
  moreover have "jobs_wf w'" using s i by (simp add: job_safe_def system_inv_iff)
  ultimately show ?thesis by (simp add: system_inv_iff)
qed

lemma ack_inv:
  assumes i: "system_inv w" and t: "\<And>k. celery_job c = Some k \<Longrightarrow> terminal_in k w"
  shows "system_inv (ack c w)"
proof -
  have same: "jobs_wf (ack c w) = jobs_wf w" "has_job k (ack c w) = has_job k w" "terminal_in k (ack c w) = terminal_in k w" for k
    by (simp_all add: ack_def jobs_wf_def has_job_def terminal_in_def)
  have q: "set (queue (wdb (ack c w))) \<subseteq> set (queue (wdb w))"
    by (simp add: ack_def set_remove1_subset)
  have "terminal_in k w \<or> queued_job k (ack c w)" if h: "has_job k w" for k
  proof (cases "celery_job c = Some k")
    case True
    then show ?thesis using t by blast
  next
    case False
    have "queued_job k (ack c w)" if "queued_job k w"
    proof -
      obtain c' where c': "c' \<in> set (queue (wdb w))" "celery_job c' = Some k"
        using \<open>queued_job k w\<close> by (auto simp: queued_job_def list_ex_iff)
      with False have "c' \<noteq> c" by blast
      with c' have "c' \<in> set (queue (wdb (ack c w)))" by (simp add: ack_def)
      with c'(2) show ?thesis by (auto simp: queued_job_def list_ex_iff)
    qed
    then show ?thesis using i h unfolding system_inv_iff by blast
  qed
  then show ?thesis using i q unfolding system_inv_iff same by blast
qed

lemma worker_terminal:
  assumes "system_inv w" and "c \<in> set (queue (wdb w))" and "celery_job c = Some k"
  shows "terminal_in k (snd (run_celery E n t c w))"
proof -
  have "has_job k w" using assms unfolding system_inv_iff by blast
  then show ?thesis using celery_run_bound [OF assms(3), of E n t w] by auto
qed

lemma sys_step_inv: "sys_step E hash w w' \<Longrightarrow> system_inv w \<Longrightarrow> system_inv w'"
proof (induction rule: sys_step.induct)
  case (Request w "by" q)
  then show ?case by (rule job_safe_inv [OF keepsD2 [OF keeps_run_request]])
next
  case (Beat w b)
  then show ?case by (rule job_safe_inv [OF keepsD2 [OF keeps_run_beat]])
next
  case (Worker c w n t)
  have "system_inv (snd (run_celery E n t c w))"
    using Worker.prems by (rule job_safe_inv [OF keepsD2 [OF keeps_run_celery]])
  then show ?case by (rule ack_inv) (rule worker_terminal [OF Worker.prems Worker.hyps])
next
  case (Redelivered c w n t)
  then show ?case by (intro job_safe_inv [OF keepsD2 [OF keeps_run_celery]])
next
  case (Wait w dt)
  then show ?case by (rule job_safe_inv [OF js.R_advance])
qed

lemma sys_step_evolves: "sys_step E hash w w' \<Longrightarrow> job_evolves w w'"
proof (induction rule: sys_step.induct)
  case (Worker c w n t)
  have "job_evolves w (snd (run_celery E n t c w))"
    using keepsD2 [OF keeps_run_celery] by (auto simp: job_safe_def)
  then show ?case by (simp add: job_evolves_def ack_def)
qed (use keepsD2 [OF keeps_run_request] keepsD2 [OF keeps_run_beat] keepsD2 [OF keeps_run_celery] js.R_advance
     in \<open>auto simp: job_safe_def\<close>)

end
