(* ===== verification/Confirmation.thy ===== *)
theory Confirmation
  imports System
begin

section \<open>Confirmation: nothing succeeds unless an agent says so\<close>

text \<open>
  The rule that runs through the code base: an operation is never reported as done before the node's agent
  has confirmed it. An environment is \<open>unconfirming\<close> when no reply that is stored, under way or
  yet to be given by any agent reports success: agents may be silent, slow, disconnected, or answer
  with errors and nonsense. In such an environment no job of any kind ends successfully, and the
  lifecycle tasks leave every VM status as it was.
\<close>

subsection \<open>Environments without confirmation\<close>

definition confirms_json :: "json \<Rightarrow> bool" where
  "confirms_json m = (case from_wire m of Inl e \<Rightarrow> False | Inr r \<Rightarrow> rsp_success r)"

definition confirms_val :: "rval \<Rightarrow> bool" where
  "confirms_val v = (case v of RJson m \<Rightarrow> confirms_json m | _ \<Rightarrow> False)"

definition confirms_reply :: "json option \<Rightarrow> bool" where
  "confirms_reply f = (case f of Some m \<Rightarrow> confirms_json m | None \<Rightarrow> False)"

definition confirms_ext :: "ext \<Rightarrow> bool" where
  "confirms_ext e = (case e of AgentFrame u f \<Rightarrow> confirms_reply f | _ \<Rightarrow> False)"

definition unconfirming :: "world \<Rightarrow> bool" where
  "unconfirming w \<longleftrightarrow> (\<forall>(k, v, e) \<in> set (redis w). \<not> confirms_val v) \<and> (\<forall>(t, x) \<in> set (sched w). \<not> confirms_ext x) \<and>
     (\<forall>u n x. \<forall>(d, f) \<in> set (agent_env w u n x). \<not> confirms_reply f)"

lemma unconf_same:
  "redis w' = redis w \<and> sched w' = sched w \<and> agent_env w' = agent_env w \<Longrightarrow> unconfirming w \<Longrightarrow> unconfirming w'"
  by (simp add: unconfirming_def)

lemma unconf_db [simp]: "unconfirming (db_upd f w) = unconfirming w" "unconfirming (w\<lparr>wdb := d\<rparr>) = unconfirming w"
  by (simp_all add: unconfirming_def)

lemma unconf_put: "unconfirming w \<Longrightarrow> \<not> confirms_val v \<Longrightarrow> unconfirming (redis_put k v t w)"
  by (auto simp: unconfirming_def redis_put_def)

lemma unconf_drop: "unconfirming w \<Longrightarrow> unconfirming (redis_drop k w)"
  by (auto simp: unconfirming_def redis_drop_def)

lemma unconf_lookup: "unconfirming w \<Longrightarrow> redis_lookup w k = Some v \<Longrightarrow> \<not> confirms_val v"
  by (auto simp: unconfirming_def redis_lookup_def dest!: map_of_SomeD split: option.splits if_splits)

lemma unconf_expire: "unconfirming w \<Longrightarrow> unconfirming (redis_expire k t w)"
  by (auto simp: redis_expire_def unconf_put unconf_lookup split: option.splits)

lemma unconf_relay: "unconfirming w \<Longrightarrow> unconfirming (relay_console_data m w)"
  by (auto simp: relay_console_data_def unconfirming_def split: option.splits json.splits)

lemma unconf_receive:
  assumes "unconfirming w" and "\<not> confirms_reply f"
  shows "unconfirming (agent_receive u f w)"
proof (cases f)
  case None
  with assms show ?thesis by (simp add: agent_receive_def)
next
  case (Some m)
  let ?w = "redis_expire (connection_key u) 120000 w"
  have "unconfirming ?w" using assms(1) by (rule unconf_expire)
  moreover have "\<not> confirms_val (RJson m)" using assms(2) Some by (simp add: confirms_val_def confirms_reply_def)
  ultimately show ?thesis
    using Some by (cases m) (auto simp: agent_receive_def Let_def unconf_put unconf_relay split: option.splits)
qed

lemma unconf_cancel: "unconfirming w \<Longrightarrow> unconfirming (snd (request_cancel jo w))"
proof -
  have "redis (snd (request_cancel jo w)) = redis w \<and> sched (snd (request_cancel jo w)) = sched w \<and>
      agent_env (snd (request_cancel jo w)) = agent_env w"
    by (cases jo) (auto simp: request_cancel_def transition_def atomicM_def bindM_def get_row_apply Let_def
        job_broadcast_def group_send_def whenM_def split: option.splits)
  then show "unconfirming w \<Longrightarrow> ?thesis" by (rule unconf_same)
qed

lemma unconf_transition: "unconfirming w \<Longrightarrow> unconfirming (snd (transition k s msg err w))"
proof -
  have "redis (snd (transition k s msg err w)) = redis w \<and> sched (snd (transition k s msg err w)) = sched w \<and>
      agent_env (snd (transition k s msg err w)) = agent_env w"
    by (auto simp: transition_def atomicM_def bindM_def get_row_apply Let_def job_broadcast_def group_send_def
        split: option.splits)
  then show "unconfirming w \<Longrightarrow> ?thesis" by (rule unconf_same)
qed

lemma unconf_apply_ext:
  assumes "unconfirming w" and "\<not> confirms_ext e"
  shows "unconfirming (apply_ext e w)"
proof (cases e)
  case (AgentFrame u f)
  with assms show ?thesis by (simp add: apply_ext_def confirms_ext_def unconf_receive)
next
  case (CancelRequest k)
  with assms show ?thesis by (auto simp: apply_ext_def unconf_cancel split: option.splits)
qed (use assms in \<open>simp_all add: apply_ext_def agent_disconnect_def agent_accepted_def unconf_drop unconf_put
    confirms_val_def set_nx_def release_script_def\<close>)

lemma unconf_fold: "unconfirming w \<Longrightarrow> (\<forall>(t, x) \<in> set es. \<not> confirms_ext x) \<Longrightarrow> unconfirming (fold apply_at es w)"
proof (induction es arbitrary: w)
  case (Cons te es)
  have "unconfirming (w\<lparr>clock := max (clock w) (fst te)\<rparr>)" using Cons.prems(1) by (simp add: unconfirming_def)
  then have "unconfirming (apply_at te w)"
    using Cons.prems(2) unfolding apply_at_def by (intro unconf_apply_ext) (auto simp: case_prod_unfold)
  with Cons show ?case by simp
qed simp

lemma unconf_advance: "unconfirming w \<Longrightarrow> unconfirming (advance dt w)"
proof -
  assume u: "unconfirming w"
  let ?t = "clock w + dt"
  have "unconfirming (w\<lparr>sched := not_due ?t (sched w)\<rparr>)"
    using u by (auto simp: unconfirming_def not_due_def)
  moreover have "\<forall>(t, x) \<in> set (due ?t (sched w)). \<not> confirms_ext x"
    using u by (auto simp: unconfirming_def due_def)
  ultimately have "unconfirming (fold apply_at (due ?t (sched w)) (w\<lparr>sched := not_due ?t (sched w)\<rparr>))"
    by (rule unconf_fold)
  then show ?thesis by (simp add: advance_def Let_def unconfirming_def)
qed

lemma unconf_answers:
  "unconfirming w \<Longrightarrow>
     unconfirming (w\<lparr>rpcs := r, sched := sched w @ map (\<lambda>(delay, fr). (t + delay, AgentFrame u fr)) (agent_env w u n x)\<rparr>)"
  by (fastforce simp: unconfirming_def confirms_ext_def)

subsection \<open>Relations in such an environment\<close>

definition quietly :: "(world \<Rightarrow> world \<Rightarrow> bool) \<Rightarrow> world \<Rightarrow> world \<Rightarrow> bool" where
  "quietly P w w' \<longleftrightarrow> (unconfirming w \<longrightarrow> unconfirming w' \<and> P w w')"

locale quiet_ops = job_ops P for P :: "world \<Rightarrow> world \<Rightarrow> bool"

sublocale quiet_ops \<subseteq> q: job_ops "quietly P"
proof unfold_locales
  show "quietly P w w''" if "quietly P w w'" "quietly P w' w''" for w w' w''
    using that R_trans by (auto simp: quietly_def)
  show "keeps (quietly P) (transition k s msg err)" if "s \<noteq> JS_SUCCESS" for k s msg err
    using R_step [OF that] by (auto simp: keeps_def quietly_def unconf_transition)
  show "quietly P w (db_upd (\<lambda>d. d\<lparr>jobs := row_mod k f (jobs d)\<rparr>) w)"
    if "\<And>j. job_status (f j) = job_status j \<and> same_job j (f j)" "\<And>j. job_wf j \<Longrightarrow> job_wf (f j)" for f w k
    using R_job_row [of f, OF that] by (simp add: quietly_def)
qed (auto simp: quietly_def R_refl R_db R_rollback R_text R_drop R_answers R_advance unconf_put
    unconf_drop unconf_answers unconf_advance confirms_val_def intro: unconf_same)

locale quiet_task = task_frame P for P :: "world \<Rightarrow> world \<Rightarrow> bool"

sublocale quiet_task \<subseteq> quiet_ops P
  by unfold_locales

sublocale quiet_task \<subseteq> q: task_frame "quietly P"
  by unfold_locales (auto simp: quietly_def R_nojobs R_call)

text \<open>An operation that cannot return normally in such an environment.\<close>

definition stuck :: "'a op \<Rightarrow> bool" where
  "stuck m \<longleftrightarrow> (\<forall>w. unconfirming w \<longrightarrow> (\<exists>e. fst (m w) = Inl e))"

lemma poll_unconf: "unconfirming w \<Longrightarrow> fst (poll_loop k d w) = Some v \<Longrightarrow> \<not> confirms_val v"
proof (induction k d w rule: poll_loop.induct)
  case (1 k d w)
  show ?case
  proof (cases "clock w < d \<and> redis_lookup w k = None")
    case True
    then have "poll_loop k d w = poll_loop k d (advance 200 w)" by (subst poll_loop.simps) simp
    with 1 True show ?thesis by (simp add: unconf_advance)
  next
    case False
    with 1 show ?thesis by (subst (asm) (2) poll_loop.simps) (auto dest: unconf_lookup split: option.splits if_splits)
  qed
qed

lemma read_reply_unconf: "(\<And>v. raw = Some v \<Longrightarrow> \<not> confirms_val v) \<Longrightarrow> \<exists>e. read_reply n oper raw = Inl e"
  by (auto simp: read_reply_def confirms_val_def confirms_json_def split: option.splits rval.splits sum.splits)

lemma stuck_send: "stuck (send_operation nd oper rid p t)"
  unfolding stuck_def
proof (intro allI impI)
  fix w
  assume u: "unconfirming w"
  show "\<exists>e. fst (send_operation nd oper rid p t w) = Inl e"
  proof (cases "\<exists>n. reachable_node w nd n")
    case False
    then show ?thesis using send_operation_unreachable [of w nd oper rid p t] by auto
  next
    case True
    then obtain n where n: "reachable_node w nd n" by blast
    have "unconfirming (w\<lparr>uuid_next := uuid_next w + 1\<rparr>)" using u by (simp add: unconfirming_def)
    then have "unconfirming (published n oper rid p w)"
      unfolding published_def publish_def agent_answers_def by (rule unconf_answers)
    then show ?thesis
      unfolding send_operation_reachable [OF n] polled_def fst_conv by (intro read_reply_unconf) (rule poll_unconf)
  qed
qed

lemma stuck_raise: "stuck (raiseM e)"
  by (simp add: stuck_def)

lemma stuck_here: "stuck m \<Longrightarrow> stuck (bindM m f)"
  unfolding stuck_def bindM_def by (fastforce split: prod.splits sum.splits)

lemma stuck_later:
  assumes "keeps (quietly P) m" and "\<And>x. stuck (f x)"
  shows "stuck (bindM m f)"
  unfolding stuck_def
proof (intro allI impI)
  fix w
  assume u: "unconfirming w"
  obtain r w' where m: "m w = (r, w')" by fastforce
  then have "unconfirming w'" using keepsD [OF assms(1) m] u by (simp add: quietly_def)
  with m show "\<exists>e. fst (bindM m f w) = Inl e" using assms(2) by (cases r) (auto simp: bindM_def stuck_def)
qed

lemma stuck_seq_here: "stuck m \<Longrightarrow> stuck (seqM (m # ms))"
  by (simp add: stuck_here)

lemma stuck_seq_later: "keeps (quietly P) m \<Longrightarrow> stuck (seqM ms) \<Longrightarrow> stuck (seqM (m # ms))"
  by (simp add: stuck_later)

lemma stuck_finally: "stuck m \<Longrightarrow> stuck (finallyM m c)"
  unfolding stuck_def finallyM_def by (fastforce split: prod.splits sum.splits)

lemma stuck_try:
  assumes "stuck m" and "keeps (quietly P) m" and "\<And>e. stuck (h e)"
  shows "stuck (tryM m h)"
  unfolding stuck_def
proof (intro allI impI)
  fix w
  assume u: "unconfirming w"
  obtain r w' where m: "m w = (r, w')" by fastforce
  then have "unconfirming w'" using keepsD [OF assms(2) m] u by (simp add: quietly_def)
  with m assms(1,3) u show "\<exists>e. fst (tryM m h w) = Inl e" by (cases r) (force simp: tryM_def stuck_def)+
qed

context quiet_ops
begin

lemma stuck_with_lock:
  "keeps (quietly P) mk \<Longrightarrow> stuck m \<Longrightarrow> stuck (with_lock mk m)"
  unfolding with_lock_def
  by (rule stuck_later, assumption, rule stuck_later [OF q.keeps_acquire]) (simp add: stuck_finally stuck_raise)

lemma stuck_job_run:
  assumes "stuck m" and "keeps (quietly P) m"
  shows "stuck (job_run jo step m)"
proof -
  have "keeps (quietly P) (is_cancel_requested k)" for k by (simp add: is_cancel_requested_def q.keeps_getdb)
  moreover have "stuck (bindM (if is_job_cancelled e then transition k JS_CANCELED a b else transition k JS_FAILED c d) (\<lambda>_. raiseM e))"
    for e k a b c d
    by (rule stuck_later [OF q.keeps_if stuck_raise]) (rule q.R_step, simp)+
  ultimately show ?thesis
    unfolding job_run_def
    by (cases jo) (auto intro!: stuck_later [where P = P] stuck_raise stuck_try [OF assms] q.keeps_rules q.R_step
        q.tf_set_progress q.tf_append_log)
qed

text \<open>The shape of all tasks: work that cannot finish, then a success that is never reported, and the handler.\<close>

lemma quiet_body:
  assumes "stuck m" and "keeps (quietly P) m"
  shows "keeps (quietly P) (bindM m f)"
  unfolding keeps_def
proof
  fix w
  obtain r w' where m: "m w = (r, w')" by fastforce
  then have "quietly P w w'" using assms(2) by (rule keepsD [rotated])
  with m assms(1) show "quietly P w (snd (bindM m f w))"
    by (cases r) (auto simp: bindM_def quietly_def stuck_def)
qed

lemma quiet_task_shape:
  "stuck m \<Longrightarrow> keeps (quietly P) m \<Longrightarrow> (\<And>e. keeps (quietly P) (h e)) \<Longrightarrow> keeps (quietly P) (tryM (bindM m f) h)"
  by (intro q.keeps_try quiet_body)

end

subsection \<open>No job succeeds\<close>

definition succeeded :: "nat \<Rightarrow> world \<Rightarrow> bool" where
  "succeeded k w \<longleftrightarrow> map_option job_status (row_get k (jobs (wdb w))) = Some JS_SUCCESS"

definition no_success :: "world \<Rightarrow> world \<Rightarrow> bool" where
  "no_success w w' \<longleftrightarrow> (\<forall>k. succeeded k w' \<longrightarrow> succeeded k w)"

lemma no_success_transition: "s \<noteq> JS_SUCCESS \<Longrightarrow> no_success w (snd (transition k s msg err w))"
  by (auto simp: no_success_def succeeded_def transition_def atomicM_def bindM_def get_row_apply Let_def job_broadcast_def
      group_send_def tbl.get_md split: option.splits if_splits)

interpretation ns: plain_wait no_success
proof unfold_locales
  show "no_success w (snd (request_cancel jo w))" for w jo
  proof (cases jo)
    case (Pair k j)
    have "no_success w (snd (transition k JS_CANCELING msg err w))" for msg err by (rule no_success_transition) simp
    with Pair show ?thesis
      by (auto simp: request_cancel_def bindM_def whenM_def group_send_def no_success_def succeeded_def
          split: prod.splits sum.splits) (metis snd_conv)+
  qed
qed (auto simp: no_success_def succeeded_def)

interpretation ns: quiet_task no_success
proof unfold_locales
  show "keeps no_success (transition k s msg err)" if "s \<noteq> JS_SUCCESS" for k s msg err
    using no_success_transition [OF that] by (simp add: keeps_def)
  show "no_success w (db_upd (\<lambda>d. d\<lparr>jobs := row_mod k f (jobs d)\<rparr>) w)"
    if "\<And>j. job_status (f j) = job_status j \<and> same_job j (f j)" "\<And>j. job_wf j \<Longrightarrow> job_wf (f j)" for f w k
    using that(1) by (auto simp: no_success_def succeeded_def tbl.get_md split: if_splits)
qed (auto simp: no_success_def succeeded_def)

subsection \<open>Every task waits for its agent\<close>

lemma stuck_op: "stuck (bindM (send_operation nd oper rid p t) f)"
  by (rule stuck_here [OF stuck_send])

lemma stuck_getdb: "(\<And>x. stuck (f x)) \<Longrightarrow> stuck (bindM (getdb g) f)"
  by (simp add: stuck_def getdb_def bindM_def)

context quiet_task
begin

lemmas q_frame = q.tf_op q.tf_job q.tf_lock q.tf_rpc q.tf_event q.keeps_loc q.keeps_save_vm q.keeps_set_state
  q.keeps_emit_vm_event q.keeps_delete_disk_op keeps_case_prod

lemma quiet_get: "(\<And>r. keeps (quietly P) (f r)) \<Longrightarrow> keeps (quietly P) (bindM (get_row nm tab k) f)"
  by (intro q_frame)

lemma quiet_put: "(\<And>r. keeps (quietly P) (f r)) \<Longrightarrow> keeps (quietly P) (bindM (put_loc_vm v) f)"
  by (intro q_frame)

text \<open>A list of steps the first of which cannot finish, as the body of a task.\<close>

lemma quiet_seq_shape:
  "stuck m \<Longrightarrow> keeps (quietly P) m \<Longrightarrow> (\<And>e. keeps (quietly P) (h e)) \<Longrightarrow> keeps (quietly P) (tryM (seqM (m # ms)) h)"
  by (cases ms) (simp_all add: quiet_task_shape q.keeps_try)

lemma stuck_locked_run:
  "keeps (quietly P) lk \<Longrightarrow> stuck m \<Longrightarrow> keeps (quietly P) m \<Longrightarrow> stuck (with_lock lk (job_run jo step m))"
  by (intro stuck_with_lock stuck_job_run)

lemma quiet_lifecycle: "keeps (quietly P) (simple_lifecycle_task jk vmk oper rs sm et)"
  unfolding simple_lifecycle_task_def
  by (intro quiet_get quiet_put quiet_task_shape)
    (intro stuck_locked_run stuck_op q_frame)+

lemma stuck_provision: "stuck (seqM (provision_steps vmk jo v))"
  unfolding provision_steps_def
  by (rule stuck_seq_later [where P = P], intro q_frame, rule stuck_seq_later [where P = P], intro q_frame q.keeps_provision_disk,
      rule stuck_seq_later [where P = P], intro q_frame, rule stuck_seq_here)
    (intro stuck_job_run stuck_getdb stuck_op q_frame)+

lemma quiet_provision: "keeps (quietly P) (provision_vm jk vmk)"
  unfolding provision_vm_def
  by (intro quiet_get quiet_put quiet_task_shape)
    (intro stuck_with_lock stuck_provision q_frame q.keeps_provision_steps q.keeps_provision_failed q.R_step; simp)+

lemma quiet_delete: "keeps (quietly P) (delete_vm_task jk vmk)"
  unfolding delete_vm_task_def
  by (intro quiet_get quiet_put quiet_seq_shape)
    (intro stuck_with_lock stuck_locked_run stuck_seq_later [where P = P] stuck_seq_here stuck_op q_frame)+

lemma stuck_clone: "stuck (clone_steps jk vmk j v nm linked)"
  unfolding clone_steps_def
  by (rule stuck_later [where P = P], intro q_frame q.keeps_clone_prepare, rule stuck_here)
    (rule stuck_seq_later [where P = P], intro q_frame q.keeps_clone_disk q.keeps_save_clone,
     rule stuck_seq_later [where P = P], intro q_frame q.keeps_clone_nic q.keeps_save_clone,
     rule stuck_seq_here, intro stuck_job_run stuck_getdb stuck_op q_frame q.keeps_save_clone)

lemma quiet_clone: "keeps (quietly P) (clone_vm_task jk vmk nm linked)"
  unfolding clone_vm_task_def
  by (intro quiet_get quiet_task_shape) (intro stuck_with_lock stuck_clone q_frame q.keeps_clone_steps)+

lemma quiet_disk_or_nic:
  "(\<And>v. stuck (run_op v)) \<Longrightarrow> (\<And>v. keeps (quietly P) (run_op v)) \<Longrightarrow> keeps (quietly P) (disk_or_nic_task jk vmk step run_op)"
  unfolding disk_or_nic_task_def
  by (intro quiet_get quiet_task_shape) (intro stuck_locked_run q_frame; assumption)+

lemma stuck_runs:
  "stuck (attach_disk_run dk r v)" "stuck (detach_disk_run dk r v)" "stuck (resize_disk_run dk r n v)"
  "stuck (attach_nic_run nc v)" "stuck (detach_nic_run nk nc v)"
  unfolding attach_disk_run_def detach_disk_run_def resize_disk_run_def attach_nic_run_def detach_nic_run_def
  by (intro stuck_getdb stuck_op stuck_seq_here)+

lemma quiet_hotplug:
  "keeps (quietly P) (attach_disk_task jk dk)" "keeps (quietly P) (detach_disk_task jk dk)"
  "keeps (quietly P) (resize_disk_task jk dk n)" "keeps (quietly P) (attach_nic_task jk nk)"
  "keeps (quietly P) (detach_nic_task jk nk)"
  unfolding attach_disk_task_def detach_disk_task_def resize_disk_task_def attach_nic_task_def detach_nic_task_def
  by (intro quiet_get quiet_disk_or_nic stuck_runs q.run_frame)+

lemma quiet_snapshots:
  "keeps (quietly P) (create_snapshot_task jk sk)" "keeps (quietly P) (delete_snapshot_task jk sk)"
  "keeps (quietly P) (rollback_snapshot_task jk sk)"
  unfolding create_snapshot_task_def delete_snapshot_task_def rollback_snapshot_task_def
  by (intro quiet_get quiet_task_shape quiet_seq_shape;
      intro stuck_with_lock stuck_locked_run stuck_job_run stuck_seq_later [where P = P] stuck_seq_here stuck_op q_frame
        q.keeps_save_snapshot q.keeps_set_snapshot_status)+

lemma stuck_backup_runs: "stuck (create_backup_run bk b vmk v)" "stuck (restore_backup_run bk b vmk v)"
proof -
  have opt: "stuck (case x of None \<Rightarrow> raiseM e | Some r \<Rightarrow> f r)" if "\<And>r. stuck (f r)" for x e and f :: "vm_disk \<Rightarrow> unit op"
    using that by (cases x) (simp_all add: stuck_raise)
  show "stuck (create_backup_run bk b vmk v)"
    unfolding create_backup_run_def
    by (rule stuck_later [where P = P], intro q_frame, rule stuck_later [where P = P], intro q_frame q.keeps_save_backup,
        intro stuck_getdb opt, rule stuck_later [where P = P], intro q_frame, rule stuck_op)
  show "stuck (restore_backup_run bk b vmk v)"
    unfolding restore_backup_run_def
    by (rule stuck_later [where P = P], intro q.keeps_set_backup_status,
        intro stuck_getdb opt, rule stuck_later [where P = P], intro q_frame, rule stuck_op)
qed

lemma quiet_backups: "keeps (quietly P) (create_backup_task jk bk)" "keeps (quietly P) (restore_backup_task jk bk)"
  unfolding create_backup_task_def restore_backup_task_def
  by (intro quiet_get quiet_task_shape;
      intro stuck_locked_run stuck_backup_runs q_frame q.keeps_create_backup_run q.keeps_restore_backup_run
        q.keeps_save_backup q.keeps_set_backup_status q.keeps_emit_backup)+

lemma quiet_networks:
  "keeps (quietly P) (create_network_task jk k)" "keeps (quietly P) (delete_network_task jk k)"
  unfolding create_network_task_def delete_network_task_def
  by (intro quiet_get quiet_task_shape quiet_seq_shape;
      intro stuck_job_run stuck_seq_here stuck_op q_frame q.keeps_set_network_status q.keeps_emit_network)+

lemma quiet_pool: "keeps (quietly P) (create_storage_pool_task jk k)"
proof -
  have "stuck (refresh_storage_pool_info (k, p))" for k p
    unfolding refresh_storage_pool_info_def by (simp add: stuck_op)
  then show ?thesis
    unfolding create_storage_pool_task_def
    by (intro quiet_get quiet_task_shape;
        intro stuck_job_run q_frame q.keeps_refresh_pool q.keeps_save_pool q.keeps_emit_pool)
      (simp add: stuck_here stuck_op)
qed

lemma quiet_celery_body: "celery_job c = Some jk \<Longrightarrow> keeps (quietly P) (celery_body E n c)"
  by (cases c) (simp_all add: task_defs stop_vm_task_def reboot_vm_task_def Let_def quiet_get quiet_lifecycle
      quiet_provision quiet_delete quiet_clone quiet_hotplug quiet_snapshots quiet_backups quiet_networks quiet_pool)

lemma quiet_run_celery: "celery_job c = Some jk \<Longrightarrow> keeps (quietly P) (run_celery E n t c)"
  by (simp add: run_celery_def q.tf_run_bound_task quiet_celery_body)

end

subsection \<open>The lifecycle tasks and VM statuses\<close>

definition vm_states :: "db \<Rightarrow> (nat \<times> VMStatus) list" where
  "vm_states d = map (\<lambda>(k, v). (k, vm_status v)) (vms d)"

interpretation st: off_events vm_states
  by unfold_locales (simp_all add: vm_states_def)

interpretation st: quiet_ops "same_on vm_states"
proof unfold_locales
  show "keeps (same_on vm_states) (transition k s msg err)" if "s \<noteq> JS_SUCCESS" for k s msg err
    by (rule st.so_transition)
qed (simp_all add: same_on_def vm_states_def)

lemma vm_states_mod: "(\<And>v. vm_status (f v) = vm_status v) \<Longrightarrow> vm_states (vms_update (row_mod k f) d) = vm_states d"
  by (simp add: vm_states_def row_mod_def comp_def case_prod_unfold)

lemma st_loc: "keeps (quietly (same_on vm_states)) (put_loc_vm v)" "keeps (quietly (same_on vm_states)) (set_loc_vm f)"
  unfolding put_loc_vm_def set_loc_vm_def by (intro st.q.keeps_mod_same; simp)+

lemma st_save:
  assumes "\<And>v r. vm_status (fs v r) = vm_status r"
  shows "keeps (quietly (same_on vm_states)) (save_vm vmk fs)"
proof -
  have "quietly (same_on vm_states) w (db_upd (vms_update (row_mod k (fs v))) w)" for w v k
    using assms by (simp add: quietly_def same_on_def vm_states_mod)
  then show ?thesis unfolding save_vm_def loc_vm_def by (intro st.q.keeps_rules st.q.keeps_save_row)
qed

lemmas st_frame = st.q.keeps_rules st.q.keeps_world st.q.tf_job st.q.tf_lock st.q.tf_rpc st_loc

lemma st_lifecycle: "keeps (quietly (same_on vm_states)) (simple_lifecycle_task jk vmk oper rs sm et)"
proof -
  let ?keeps = "\<lambda>m. keeps (quietly (same_on vm_states)) m"
  have err: "?keeps (save_vm vmk f_error)" by (rule st_save) (simp add: f_error_def)
  have body: "?keeps (bindM (send_operation nd oper rid p tm) f)" for nd rid p tm and f :: "json \<Rightarrow> unit op"
    by (rule st.quiet_body [OF stuck_send]) (rule st.q.keeps_send_operation)
  have shape: "?keeps (tryM (bindM (with_lock lk (job_run jo sm (bindM (send_operation nd oper rid p tm) f))) g)
      (\<lambda>e. seqM [set_loc_vm (h e), save_vm vmk f_error, fail_unless_terminal jk (str_exn e), raiseM e]))"
    if "?keeps lk" for lk jo nd rid p tm h and f :: "json \<Rightarrow> unit op" and g
    by (rule st.quiet_task_shape)
      (intro st.stuck_with_lock st.stuck_job_run stuck_op that body err st.q.tf_job st.q.keeps_with_lock st_loc
        st.q.keeps_rules)+
  show ?thesis
    unfolding simple_lifecycle_task_def
    by (rule st.q.keeps_bind, rule st.q.keeps_get_row, rule st.q.keeps_bind, rule st.q.keeps_get_row,
        rule st.q.keeps_bind, rule st_loc, rule shape, intro st.q.tf_lock)
qed

definition is_lifecycle :: "celery_call \<Rightarrow> bool" where
  "is_lifecycle c = (case c of StartVm jk k \<Rightarrow> True | StopVm jk k \<Rightarrow> True | RebootVm jk k \<Rightarrow> True | PauseVm jk k \<Rightarrow> True
     | ResumeVm jk k \<Rightarrow> True | _ \<Rightarrow> False)"

lemma st_run_celery: "is_lifecycle c \<Longrightarrow> keeps (quietly (same_on vm_states)) (run_celery E n t c)"
  by (cases c) (simp_all add: is_lifecycle_def run_celery_def st.q.tf_run_bound_task task_defs stop_vm_task_def reboot_vm_task_def
      Let_def st.q.keeps_bind st.q.keeps_get_row st_lifecycle)

lemma vm_states_get: "map_of (vm_states d) i = map_option vm_status (row_get i (vms d))"
  by (simp add: vm_states_def row_get_def map_of_map)

end
