(* ===== verification/Policies.thy ===== *)
theory Policies
  imports Webhooks
begin

section \<open>Policies: role-based access control and its cache\<close>

text \<open>
  \<open>backend/apps/permissions/catalog.py\<close>, \<open>policies.py\<close> and the \<open>seed_rbac\<close> command. Django's cache is the
  same Redis, under its versioned key; the pickled \<open>frozenset\<close> of codenames is kept as the list of its
  elements. A user is the pair of primary key and row, and \<open>None\<close> stands for \<open>AnonymousUser\<close>.
\<close>

subsection \<open>The catalog\<close>

definition PERMISSION_CATALOG :: "(string \<times> string) list" where
  "PERMISSION_CATALOG = [
     (''node.view'', ''View hypervisor nodes''),
     (''node.manage'', ''Register, update, and remove hypervisor nodes''),
     (''vm.view'', ''View virtual machines''),
     (''vm.create'', ''Create virtual machines''),
     (''vm.update'', ''Update virtual machine configuration''),
     (''vm.delete'', ''Delete virtual machines''),
     (''vm.start'', ''Start virtual machines''),
     (''vm.stop'', ''Stop virtual machines''),
     (''vm.reboot'', ''Reboot virtual machines''),
     (''vm.console'', ''Open the interactive VM console''),
     (''vm.snapshot'', ''Create, delete, and roll back VM snapshots''),
     (''vm.clone'', ''Clone virtual machines''),
     (''vm.migrate'', ''Migrate virtual machines between nodes''),
     (''storage.view'', ''View storage pools and volumes''),
     (''storage.manage'', ''Create and modify storage pools and volumes''),
     (''network.view'', ''View networks and IP allocations''),
     (''network.manage'', ''Create and modify networks and IP allocations''),
     (''image.view'', ''View the image/ISO library''),
     (''image.upload'', ''Upload images and ISOs''),
     (''image.delete'', ''Delete images and ISOs''),
     (''template.view'', ''View VM templates''),
     (''template.manage'', ''Create and modify VM templates''),
     (''backup.view'', ''View backups''),
     (''backup.create'', ''Create backups''),
     (''backup.restore'', ''Restore from a backup''),
     (''backup.delete'', ''Delete backups''),
     (''user.view'', ''View platform users''),
     (''user.manage'', ''Create, update, and remove platform users''),
     (''organization.manage'', ''Manage organizations, projects, memberships, and quotas''),
     (''audit.view'', ''View the audit log''),
     (''job.view'', ''View background jobs''),
     (''job.manage'', ''Cancel and retry background jobs''),
     (''webhook.manage'', ''Configure webhooks''),
     (''event.view'', ''View the event stream'')]"

definition DEFAULT_ROLES :: "(string \<times> string list) list" where
  "DEFAULT_ROLES = [
     (''Admin'', map fst PERMISSION_CATALOG),
     (''Operator'', [''node.view'', ''vm.view'', ''vm.create'', ''vm.update'', ''vm.delete'', ''vm.start'', ''vm.stop'',
        ''vm.reboot'', ''vm.console'', ''vm.snapshot'', ''vm.clone'', ''storage.view'', ''network.view'', ''network.manage'',
        ''image.view'', ''image.upload'', ''template.view'', ''backup.view'', ''backup.create'', ''backup.restore'',
        ''job.view'', ''job.manage'', ''event.view'']),
     (''Viewer'', [''node.view'', ''vm.view'', ''storage.view'', ''network.view'', ''image.view'', ''template.view'',
        ''backup.view'', ''job.view'', ''event.view''])]"

text \<open>\<open>seed_rbac\<close>: \<open>role.permissions.set(Permission.objects.filter(codename__in=...))\<close> once every codename of
  the catalog has a row.\<close>

definition seed_role :: "string \<times> string list \<Rightarrow> bool op" where
  "seed_role rc = (case rc of (nm, codenames) \<Rightarrow>
     bindM (getdb (\<lambda>d. rows_where (\<lambda>r. rol_name r = nm \<and> rol_organization r = None) (roles d))) (\<lambda>rs.
     let perms = filter (\<lambda>c. c \<in> fst ` set PERMISSION_CATALOG) codenames
     in case rs of
       [] \<Rightarrow> bindM uuid4 (\<lambda>u. bindM now (\<lambda>t. bindM fresh_pk (\<lambda>k.
              bindM (moddb (\<lambda>d. d\<lparr>roles := row_add k \<lparr> uuid = u, created_at = t, updated_at = t, rol_name = nm,
                 rol_organization = None, rol_permissions = perms, rol_is_system = True \<rparr> (roles d)\<rparr>)) (\<lambda>_. returnM True))))
     | [(k, r)] \<Rightarrow> bindM (moddb (\<lambda>d. d\<lparr>roles := row_mod k (\<lambda>x. x\<lparr>rol_is_system := True, rol_permissions := perms\<rparr>) (roles d)\<rparr>))
              (\<lambda>_. returnM False)
     | _ \<Rightarrow> raiseM (OtherError ''MultipleObjectsReturned'')))"

definition seed_rbac :: "nat op" where
  "seed_rbac = atomicM (bindM (mapM seed_role DEFAULT_ROLES) (\<lambda>bs. returnM (length (filter (\<lambda>b. b) bs))))"

subsection \<open>Policy decisions\<close>

definition CACHE_TTL_SECONDS :: nat where
  "CACHE_TTL_SECONDS = 30"

text \<open>\<open>cache_key\<close>, with the version prefix Django's cache adds.\<close>

definition cache_key :: "nat \<Rightarrow> nat \<Rightarrow> nat option \<Rightarrow> string" where
  "cache_key user_id org_id project_id = '':1:nodepilot:rbac:'' @ show_nat user_id @ '':'' @ show_nat org_id @ '':'' @
     (case project_id of None \<Rightarrow> ''None'' | Some p \<Rightarrow> show_nat p)"

definition models_q_project :: "nat option \<Rightarrow> role_assignment \<Rightarrow> bool" where
  "models_q_project project a = (case project of
     None \<Rightarrow> ras_project a = None
   | Some p \<Rightarrow> ras_project a = None \<or> ras_project a = Some p)"

definition role_codenames :: "db \<Rightarrow> nat \<Rightarrow> string list" where
  "role_codenames d rk = (case row_get rk (roles d) of Some r \<Rightarrow> rol_permissions r | None \<Rightarrow> [])"

definition assigned_codenames :: "db \<Rightarrow> nat \<Rightarrow> nat \<Rightarrow> nat option \<Rightarrow> string list" where
  "assigned_codenames d uk ok pk = remdups (concat (map (\<lambda>(k, a). role_codenames d (ras_role a))
     (rows_where (\<lambda>a. ras_user a = uk \<and> ras_organization a = ok \<and> models_q_project pk a) (role_assignments d))))"

definition cached_codes :: "rval \<Rightarrow> string list" where
  "cached_codes v = (case v of RJson (JArr xs) \<Rightarrow> concat (map (\<lambda>j. case j of JStr s \<Rightarrow> [s] | _ \<Rightarrow> []) xs) | _ \<Rightarrow> [])"

text \<open>
  What a view passes as the organization: an \<open>Organization\<close> with its primary key, or a value that is not
  a model instance.
\<close>

datatype org_ref = OrgRow nat | NotAModel

definition codenames_for :: "nat \<Rightarrow> org_ref option \<Rightarrow> nat option \<Rightarrow> string list op" where
  "codenames_for uk organization project = (case organization of
     None \<Rightarrow> returnM []
   | Some NotAModel \<Rightarrow> raiseM (AttributeError ''int object has no attribute pk'')
   | Some (OrgRow ok) \<Rightarrow>
       bindM (getM (\<lambda>w. redis_lookup w (cache_key uk ok project))) (\<lambda>cached. case cached of
         Some v \<Rightarrow> returnM (cached_codes v)
       | None \<Rightarrow>
           bindM (getdb (\<lambda>d. assigned_codenames d uk ok project)) (\<lambda>cs.
           bindM (modM (redis_put (cache_key uk ok project) (RJson (jstrs cs)) (Some (CACHE_TTL_SECONDS * 1000)))) (\<lambda>_.
           returnM cs))))"

type_synonym principal = "(nat \<times> user) option"

definition has_permission :: "principal \<Rightarrow> org_ref option \<Rightarrow> string \<Rightarrow> nat option \<Rightarrow> bool op" where
  "has_permission usr organization codename project = (case usr of
     None \<Rightarrow> returnM False
   | Some (uk, u) \<Rightarrow>
       if usr_is_superuser u then returnM True
       else if organization = None then returnM False
       else bindM (codenames_for uk organization project) (\<lambda>cs. returnM (codename \<in> set cs)))"

definition require_permission :: "principal \<Rightarrow> org_ref option \<Rightarrow> string \<Rightarrow> nat option \<Rightarrow> unit op" where
  "require_permission usr organization codename project = bindM (has_permission usr organization codename project) (\<lambda>ok.
     if ok then returnM () else raiseM (api_exn PermissionDeniedError (''Missing required permission: '' @ codename)))"

definition member_orgs :: "db \<Rightarrow> nat \<Rightarrow> nat list" where
  "member_orgs d uk = map (\<lambda>(k, m). mem_organization m) (rows_where (\<lambda>m. mem_user m = uk) (memberships d))"

definition organizations_with_permission :: "nat \<times> user \<Rightarrow> string \<Rightarrow> nat list option \<Rightarrow> nat list op" where
  "organizations_with_permission usr codename candidate_ids = (case usr of (uk, u) \<Rightarrow>
     bindM (case candidate_ids of None \<Rightarrow> getdb (\<lambda>d. member_orgs d uk) | Some os \<Rightarrow> returnM os) (\<lambda>os.
     if usr_is_superuser u then returnM (remdups os)
     else bindM (mapM (\<lambda>i. bindM (has_permission (Some (uk, u)) (Some (OrgRow i)) codename None) (\<lambda>b. returnM (i, b))) os) (\<lambda>rs.
          returnM (remdups (map fst (filter snd rs))))))"

subsection \<open>Cache keys\<close>

lemma sep_unique: "c \<notin> set xs \<Longrightarrow> c \<notin> set ys \<Longrightarrow> xs @ c # as = ys @ c # bs \<Longrightarrow> xs = ys \<and> as = bs"
proof (induction xs arbitrary: ys)
  case Nil
  then show ?case by (cases ys) auto
next
  case (Cons x xs)
  then show ?case by (cases ys) auto
qed

lemma show_nat_no_colon: "CHR '':'' \<notin> set (show_nat n)"
  using show_nat_digits [of "CHR '':''" n] by (auto simp: is_digit_def)

lemma show_nat_not_None: "show_nat n \<noteq> ''None''"
  using show_nat_digits [of "CHR ''N''" n] by (auto simp: is_digit_def)

lemma cache_key_inj: "cache_key u i p = cache_key u' i' p' \<longleftrightarrow> u = u' \<and> i = i' \<and> p = p'"
proof
  assume k: "cache_key u i p = cache_key u' i' p'"
  let ?r = "\<lambda>p. case p of None \<Rightarrow> ''None'' | Some n \<Rightarrow> show_nat n"
  have "show_nat u @ CHR '':'' # (show_nat i @ CHR '':'' # ?r p) = show_nat u' @ CHR '':'' # (show_nat i' @ CHR '':'' # ?r p')"
    using k by (simp add: cache_key_def)
  then have 1: "show_nat u = show_nat u'" "show_nat i @ CHR '':'' # ?r p = show_nat i' @ CHR '':'' # ?r p'"
    using sep_unique [OF show_nat_no_colon show_nat_no_colon] by blast+
  then have "show_nat i = show_nat i'" "?r p = ?r p'"
    using sep_unique [OF show_nat_no_colon show_nat_no_colon] by blast+
  with 1(1) show "u = u' \<and> i = i' \<and> p = p'"
    by (auto dest: show_nat_inj simp: show_nat_not_None show_nat_not_None [symmetric] split: option.splits)
qed simp

lemma cached_codes_jstrs [simp]: "cached_codes (RJson (jstrs cs)) = cs"
  by (induction cs) (simp_all add: cached_codes_def jstrs_def)

subsection \<open>Decisions as functions of the state\<close>

text \<open>What the policy says at this moment: the cache while it is live, the tables otherwise.\<close>

definition current_codes :: "world \<Rightarrow> nat \<Rightarrow> nat \<Rightarrow> nat option \<Rightarrow> string list" where
  "current_codes w uk ok pk = (case redis_lookup w (cache_key uk ok pk) of
     Some v \<Rightarrow> cached_codes v | None \<Rightarrow> assigned_codenames (wdb w) uk ok pk)"

definition remember :: "nat \<Rightarrow> nat \<Rightarrow> nat option \<Rightarrow> world \<Rightarrow> world" where
  "remember uk ok pk w = (case redis_lookup w (cache_key uk ok pk) of
     Some v \<Rightarrow> w
   | None \<Rightarrow> redis_put (cache_key uk ok pk) (RJson (jstrs (assigned_codenames (wdb w) uk ok pk))) (Some 30000) w)"

lemma codenames_for_run: "codenames_for uk (Some (OrgRow ok)) pk w = (Inr (current_codes w uk ok pk), remember uk ok pk w)"
  by (simp add: codenames_for_def current_codes_def remember_def bindM_def CACHE_TTL_SECONDS_def split: option.splits)

lemma has_permission_run:
  "\<not> usr_is_superuser u \<Longrightarrow>
     has_permission (Some (uk, u)) (Some (OrgRow ok)) c pk w = (Inr (c \<in> set (current_codes w uk ok pk)), remember uk ok pk w)"
  by (simp add: has_permission_def bindM_def codenames_for_run)

lemma remember_wdb [simp]: "wdb (remember uk ok pk w) = wdb w" "clock (remember uk ok pk w) = clock w"
  by (simp_all add: remember_def split: option.splits)

lemma current_codes_remember [simp]: "current_codes (remember uk ok pk w) u' o' p' = current_codes w u' o' p'"
  by (auto simp: current_codes_def remember_def redis_lookup_put cache_key_inj split: option.splits)

text \<open>A member of the sample organization with the role \<open>Viewer\<close>, and a state with an empty cache.\<close>

definition ex_user :: user where
  "ex_user = \<lparr> uuid = ''us1'', created_at = 0, updated_at = 0, usr_username = ''ana'', usr_is_superuser = False,
     usr_is_staff = False, usr_is_active = True, usr_is_service_account = False \<rparr>"

definition ex_role :: role where
  "ex_role = \<lparr> uuid = ''ro1'', created_at = 0, updated_at = 0, rol_name = ''Viewer'', rol_organization = None,
     rol_permissions = [''vm.view'', ''organization.manage''], rol_is_system = True \<rparr>"

definition ex_assignment :: role_assignment where
  "ex_assignment = \<lparr> uuid = ''ra1'', created_at = 0, updated_at = 0, ras_user = 5, ras_organization = 1,
     ras_project = None, ras_role = 7 \<rparr>"

definition ex_membership :: membership where
  "ex_membership = \<lparr> uuid = ''me1'', created_at = 0, updated_at = 0, mem_user = 5, mem_organization = 1 \<rparr>"

definition ex_acl :: world where
  "ex_acl = db_upd (\<lambda>d. d\<lparr>users := [(5, ex_user)], memberships := [(6, ex_membership)], roles := [(7, ex_role)],
     role_assignments := [(8, ex_assignment)]\<rparr>) (ex_world\<lparr>redis := []\<rparr>)"

lemmas ex_acl_simps = ex_acl_def ex_user_def ex_role_def ex_assignment_def ex_membership_def

lemma ex_acl_cache [simp]: "redis ex_acl = []" "redis_lookup ex_acl k = None"
  by (simp_all add: ex_acl_def redis_lookup_def)

lemma ex_user_plain [simp]: "\<not> usr_is_superuser ex_user"
  by (simp add: ex_user_def)

lemma ex_acl_codes: "assigned_codenames (wdb ex_acl) 5 1 None = [''vm.view'', ''organization.manage'']"
  by (simp add: ex_acl_simps assigned_codenames_def rows_where_def role_codenames_def models_q_project_def)

subsection \<open>Staleness\<close>

text \<open>
  Any interleaving of policy checks with changes to the tables and with time: a change may do anything
  except write another value into the cache. \<open>policy_run\<close> keeps the history, latest state first.
\<close>

inductive policy_step :: "world \<Rightarrow> world \<Rightarrow> bool" where
  Check: "policy_step w (remember uk ok pk w)"
| Change: "clock w \<le> clock w' \<Longrightarrow>
    \<forall>uk ok pk. map_of (redis w') (cache_key uk ok pk) \<in> {None, map_of (redis w) (cache_key uk ok pk)} \<Longrightarrow> policy_step w w'"

inductive policy_run :: "world list \<Rightarrow> bool" where
  Start: "\<forall>uk ok pk. map_of (redis w) (cache_key uk ok pk) = None \<Longrightarrow> policy_run [w]"
| Step: "policy_run (w # h) \<Longrightarrow> policy_step w w' \<Longrightarrow> policy_run (w' # w # h)"

text \<open>Every cached entry was computed from the tables of an earlier state, thirty seconds before it expires.\<close>

definition cache_sound :: "world list \<Rightarrow> bool" where
  "cache_sound ws \<longleftrightarrow> (\<forall>uk ok pk v e. map_of (redis (hd ws)) (cache_key uk ok pk) = Some (v, e) \<longrightarrow>
     (\<exists>w0 \<in> set ws. e = Some (clock w0 + 30000) \<and> v = RJson (jstrs (assigned_codenames (wdb w0) uk ok pk))))"

lemma remember_entry:
  "map_of (redis (remember uk ok pk w)) (cache_key u' o' p') =
     (if redis_lookup w (cache_key uk ok pk) = None \<and> u' = uk \<and> o' = ok \<and> p' = pk
      then Some (RJson (jstrs (assigned_codenames (wdb w) uk ok pk)), Some (clock w + 30000))
      else map_of (redis w) (cache_key u' o' p'))"
  by (auto simp: remember_def redis_put_def map_of_filter_key cache_key_inj split: option.splits)

lemma cache_sound_step:
  assumes "policy_step w w'" and s: "cache_sound (w # h)"
  shows "cache_sound (w' # w # h)"
  using assms(1)
proof (cases rule: policy_step.cases)
  case (Check uk ok pk)
  with s show ?thesis unfolding cache_sound_def by (fastforce simp: remember_entry split: if_splits)
next
  case Change
  show ?thesis
    unfolding cache_sound_def
  proof (intro allI impI)
    fix uk ok pk v e
    assume "map_of (redis (hd (w' # w # h))) (cache_key uk ok pk) = Some (v, e)"
    then have "map_of (redis w) (cache_key uk ok pk) = Some (v, e)" using Change(2) [rule_format, of uk ok pk] by auto
    then show "\<exists>w0 \<in> set (w' # w # h). e = Some (clock w0 + 30000) \<and> v = RJson (jstrs (assigned_codenames (wdb w0) uk ok pk))"
      using s unfolding cache_sound_def by fastforce
  qed
qed

lemma policy_run_sound: "policy_run ws \<Longrightarrow> cache_sound ws"
  by (induction rule: policy_run.induct) (simp add: cache_sound_def, erule (1) cache_sound_step)

text \<open>
  C33. Authorization is at most thirty seconds stale: however policy checks, changes of roles, assignments
  and memberships and the passing of time interleave, the answer for a user who is not a superuser is the
  answer the tables gave at some state of the run less than \<open>CACHE_TTL_SECONDS\<close> ago. A grant that was
  revoked thirty seconds ago therefore no longer authorizes anything.
\<close>

theorem decision_at_most_30s_stale:
  assumes "policy_run (w # h)" and "\<not> usr_is_superuser u"
  shows "\<exists>w0 \<in> set (w # h). clock w < clock w0 + CACHE_TTL_SECONDS * 1000 \<and>
     fst (has_permission (Some (uk, u)) (Some (OrgRow ok)) c pk w) = Inr (c \<in> set (assigned_codenames (wdb w0) uk ok pk))"
proof (cases "redis_lookup w (cache_key uk ok pk)")
  case None
  then have "current_codes w uk ok pk = assigned_codenames (wdb w) uk ok pk" by (simp add: current_codes_def)
  then show ?thesis
    using has_permission_run [OF assms(2)] by (intro bexI [of _ w]) (simp_all add: CACHE_TTL_SECONDS_def)
next
  case (Some v)
  then obtain e where e: "map_of (redis w) (cache_key uk ok pk) = Some (v, e)" "live (clock w) e"
    by (auto simp: redis_lookup_def split: option.splits if_splits)
  then obtain w0 where w0: "w0 \<in> set (w # h)" "e = Some (clock w0 + 30000)" "v = RJson (jstrs (assigned_codenames (wdb w0) uk ok pk))"
    using policy_run_sound [OF assms(1)] unfolding cache_sound_def by fastforce
  then have "current_codes w uk ok pk = assigned_codenames (wdb w0) uk ok pk" using Some by (simp add: current_codes_def)
  then show ?thesis
    using has_permission_run [OF assms(2)] w0 e(2) by (intro bexI [of _ w0]) (simp_all add: CACHE_TTL_SECONDS_def live_def)
qed

theorem decision_at_most_30s_stale_witness:
  "\<exists>w0 \<in> set [ex_acl]. clock ex_acl < clock w0 + CACHE_TTL_SECONDS * 1000 \<and>
     fst (has_permission (Some (5, ex_user)) (Some (OrgRow 1)) ''vm.view'' None ex_acl) =
       Inr (''vm.view'' \<in> set (assigned_codenames (wdb w0) 5 1 None))"
  by (rule decision_at_most_30s_stale [OF policy_run.Start]) simp_all

lemma role_codenames_iff: "c \<in> set (role_codenames d k) \<longleftrightarrow> (\<exists>r. row_get k (roles d) = Some r \<and> c \<in> set (rol_permissions r))"
  by (cases "row_get k (roles d)") (simp_all add: role_codenames_def)

text \<open>The reference: what the assignments say, without cache or query.\<close>

definition granted :: "db \<Rightarrow> nat \<Rightarrow> user \<Rightarrow> nat \<Rightarrow> nat option \<Rightarrow> string \<Rightarrow> bool" where
  "granted d uk u ok pk c \<longleftrightarrow> usr_is_superuser u \<or>
     (\<exists>(ak, a) \<in> set (role_assignments d). ras_user a = uk \<and> ras_organization a = ok \<and> (ras_project a = None \<or> ras_project a = pk) \<and>
        (\<exists>r. row_get (ras_role a) (roles d) = Some r \<and> c \<in> set (rol_permissions r)))"

text \<open>
  C39. The policy grants exactly what is assigned: with nothing cached, a user holds a codename in an
  organization if and only if the user is a superuser, or some role assignment of that user in that
  organization, for the whole organization or for the project asked about, names a role that carries the
  codename. Anonymous users and, for all but superusers, a missing organization are refused.
\<close>

theorem has_permission_iff_assigned:
  assumes "redis_lookup w (cache_key uk ok pk) = None"
  shows "fst (has_permission (Some (uk, u)) (Some (OrgRow ok)) c pk w) = Inr (granted (wdb w) uk u ok pk c) \<and>
     fst (has_permission None og c pk w) = Inr False \<and>
     fst (has_permission (Some (uk, u)) None c pk w) = Inr (usr_is_superuser u)"
proof -
  have cur: "current_codes w uk ok pk = assigned_codenames (wdb w) uk ok pk" using assms by (simp add: current_codes_def)
  have proj: "models_q_project pk a \<longleftrightarrow> ras_project a = None \<or> ras_project a = pk" for a
    by (auto simp: models_q_project_def split: option.splits)
  have "usr_is_superuser u \<or> c \<in> set (assigned_codenames (wdb w) uk ok pk) \<longleftrightarrow> granted (wdb w) uk u ok pk c"
    unfolding assigned_codenames_def rows_where_def granted_def by (auto simp: role_codenames_iff proj)
  then have "fst (has_permission (Some (uk, u)) (Some (OrgRow ok)) c pk w) = Inr (granted (wdb w) uk u ok pk c)"
    by (cases "usr_is_superuser u") (simp add: has_permission_def granted_def, simp add: has_permission_run cur)
  then show ?thesis by (simp add: has_permission_def)
qed

theorem has_permission_iff_assigned_witness:
  "fst (has_permission (Some (5, ex_user)) (Some (OrgRow 1)) ''vm.view'' None ex_acl) = Inr True"
  using has_permission_iff_assigned [OF ex_acl_cache(2), where u = ex_user and c = "''vm.view''" and og = None] by (simp add: ex_acl_simps granted_def)

end
