(* ===== verification/Access.thy ===== *)
theory Access
  imports Policies
begin

section \<open>Access: who may reach which resource\<close>

text \<open>
  \<open>backend/apps/common/permissions.py\<close> (\<open>HasResourcePermission\<close>) and \<open>backend/apps/common/viewsets.py\<close>
  (\<open>OrganizationScopedQuerysetMixin\<close>), with the permission map and the organization path of every viewset.
  A model instance is its class and primary key; \<open>getattr\<close> follows the foreign keys of the tables.
\<close>

subsection \<open>Model instances and their attributes\<close>

datatype model_obj =
    MOrganization nat | MProject nat | MMembership nat | MQuota nat | MRole nat | MRoleAssignment nat
  | MNode nat | MStoragePool nat | MNetwork nat | MSubnet nat | MIPPool nat | MIPAddress nat
  | MImage nat | MTemplate nat | MVirtualMachine nat | MSnapshot nat
  | MBackupTarget nat | MBackup nat | MBackupSchedule nat | MJob nat | MEvent nat | MWebhook nat
  | MInt nat

text \<open>\<open>getattr(obj, name, None)\<close> for the attributes that an organization path can name.\<close>

fun getattr :: "db \<Rightarrow> model_obj \<Rightarrow> string \<Rightarrow> model_obj option" where
  "getattr d (MOrganization k) a = (if a = ''id'' then Some (MInt k) else None)"
| "getattr d (MProject k) a = (if a = ''organization'' then map_option (\<lambda>r. MOrganization (prj_organization r)) (row_get k (projects d)) else None)"
| "getattr d (MMembership k) a = (if a = ''organization'' then map_option (\<lambda>r. MOrganization (mem_organization r)) (row_get k (memberships d)) else None)"
| "getattr d (MQuota k) a = (if a = ''organization'' then map_option (\<lambda>r. MOrganization (quo_organization r)) (row_get k (quotas d))
     else if a = ''project'' then Option.bind (row_get k (quotas d)) (\<lambda>r. map_option MProject (quo_project r)) else None)"
| "getattr d (MRole k) a = (if a = ''organization'' then Option.bind (row_get k (roles d)) (\<lambda>r. map_option MOrganization (rol_organization r)) else None)"
| "getattr d (MRoleAssignment k) a = (if a = ''organization'' then map_option (\<lambda>r. MOrganization (ras_organization r)) (row_get k (role_assignments d)) else None)"
| "getattr d (MNode k) a = (if a = ''organization'' then map_option (\<lambda>r. MOrganization (nod_organization r)) (row_get k (nodes d)) else None)"
| "getattr d (MStoragePool k) a = (if a = ''node'' then map_option (\<lambda>r. MNode (sto_node r)) (row_get k (storage_pools d)) else None)"
| "getattr d (MNetwork k) a = (if a = ''node'' then map_option (\<lambda>r. MNode (net_node r)) (row_get k (networks d)) else None)"
| "getattr d (MSubnet k) a = (if a = ''network'' then map_option (\<lambda>r. MNetwork (sub_network r)) (row_get k (subnets d)) else None)"
| "getattr d (MIPPool k) a = (if a = ''subnet'' then map_option (\<lambda>r. MSubnet (poo_subnet r)) (row_get k (ip_pools d)) else None)"
| "getattr d (MIPAddress k) a = (if a = ''subnet'' then map_option (\<lambda>r. MSubnet (adr_subnet r)) (row_get k (ip_addresses d)) else None)"
| "getattr d (MImage k) a = (if a = ''organization'' then map_option (\<lambda>r. MOrganization (img_organization r)) (row_get k (images d)) else None)"
| "getattr d (MTemplate k) a = (if a = ''organization'' then map_option (\<lambda>r. MOrganization (tpl_organization r)) (row_get k (templates d)) else None)"
| "getattr d (MVirtualMachine k) a = (if a = ''organization'' then map_option (\<lambda>r. MOrganization (vm_organization r)) (row_get k (vms d))
     else if a = ''project'' then map_option (\<lambda>r. MProject (vm_project r)) (row_get k (vms d))
     else if a = ''node'' then Option.bind (row_get k (vms d)) (\<lambda>r. map_option MNode (vm_node r)) else None)"
| "getattr d (MSnapshot k) a = (if a = ''vm'' then map_option (\<lambda>r. MVirtualMachine (snp_vm r)) (row_get k (snapshots d)) else None)"
| "getattr d (MBackupTarget k) a = (if a = ''organization'' then map_option (\<lambda>r. MOrganization (bkt_organization r)) (row_get k (backup_targets d)) else None)"
| "getattr d (MBackup k) a = (if a = ''vm'' then map_option (\<lambda>r. MVirtualMachine (bkp_vm r)) (row_get k (backups d))
     else if a = ''target'' then map_option (\<lambda>r. MBackupTarget (bkp_target r)) (row_get k (backups d)) else None)"
| "getattr d (MBackupSchedule k) a = (if a = ''organization'' then map_option (\<lambda>r. MOrganization (bks_organization r)) (row_get k (backup_schedules d))
     else if a = ''vm'' then map_option (\<lambda>r. MVirtualMachine (bks_vm r)) (row_get k (backup_schedules d))
     else if a = ''target'' then map_option (\<lambda>r. MBackupTarget (bks_target r)) (row_get k (backup_schedules d)) else None)"
| "getattr d (MJob k) a = (if a = ''organization'' then map_option (\<lambda>r. MOrganization (job_organization r)) (row_get k (jobs d)) else None)"
| "getattr d (MEvent k) a = (if a = ''organization'' then map_option (\<lambda>r. MOrganization (evt_organization r)) (row_get k (events d)) else None)"
| "getattr d (MWebhook k) a = (if a = ''organization'' then map_option (\<lambda>r. MOrganization (whk_organization r)) (row_get k (webhooks d)) else None)"
| "getattr d (MInt n) a = None"

fun walk :: "db \<Rightarrow> model_obj \<Rightarrow> string list \<Rightarrow> model_obj option" where
  "walk d x [] = Some x"
| "walk d x (p # ps) = (case getattr d x p of None \<Rightarrow> None | Some y \<Rightarrow> walk d y ps)"

text \<open>\<open>path.split("__")\<close>.\<close>

fun split_dunder :: "string \<Rightarrow> string list" where
  "split_dunder [] = [[]]"
| "split_dunder [c] = [[c]]"
| "split_dunder (c # c' # cs) =
     (if c = CHR ''_'' \<and> c' = CHR ''_'' then [] # split_dunder cs
      else (case split_dunder (c' # cs) of [] \<Rightarrow> [[c]] | p # ps \<Rightarrow> (c # p) # ps))"

subsection \<open>Views\<close>

record view =
  vw_name :: string
  vw_permission_map :: "(string \<times> string) list"
  vw_required_permission :: "string option"
  vw_organization_field_path :: string

definition crud :: "string \<Rightarrow> string \<Rightarrow> string \<Rightarrow> (string \<times> string) list" where
  "crud v c r = [(''list'', v), (''retrieve'', v), (''create'', c), (''update'', c), (''partial_update'', c), (''destroy'', r)]"

definition manages :: "string \<Rightarrow> (string \<times> string) list" where
  "manages c = crud c c c"

definition VirtualMachineViewSet :: view where
  "VirtualMachineViewSet = \<lparr> vw_name = ''VirtualMachineViewSet'', vw_permission_map =
     [(''list'', ''vm.view''), (''retrieve'', ''vm.view''), (''create'', ''vm.create''), (''update'', ''vm.update''),
      (''partial_update'', ''vm.update''), (''destroy'', ''vm.delete''), (''start'', ''vm.start''), (''stop'', ''vm.stop''),
      (''reboot'', ''vm.reboot''), (''pause'', ''vm.stop''), (''resume'', ''vm.start''), (''clone'', ''vm.clone''),
      (''migrate'', ''vm.migrate''), (''console'', ''vm.console''), (''attach_disk'', ''vm.update''),
      (''resize_disk'', ''vm.update''), (''remove_disk'', ''vm.update''), (''attach_nic'', ''vm.update''),
      (''remove_nic'', ''vm.update'')],
     vw_required_permission = None, vw_organization_field_path = ''organization'' \<rparr>"

definition NodeViewSet :: view where
  "NodeViewSet = \<lparr> vw_name = ''NodeViewSet'', vw_permission_map =
     [(''list'', ''node.view''), (''retrieve'', ''node.view''), (''create'', ''node.manage''), (''update'', ''node.manage''),
      (''partial_update'', ''node.manage''), (''destroy'', ''node.manage''), (''maintenance'', ''node.manage''),
      (''register_agent'', ''node.manage''), (''revoke_agent'', ''node.manage'')],
     vw_required_permission = None, vw_organization_field_path = ''organization'' \<rparr>"

definition StoragePoolViewSet :: view where
  "StoragePoolViewSet = \<lparr> vw_name = ''StoragePoolViewSet'', vw_permission_map = crud ''storage.view'' ''storage.manage'' ''storage.manage'',
     vw_required_permission = None, vw_organization_field_path = ''node__organization'' \<rparr>"

definition NetworkViewSet :: view where
  "NetworkViewSet = \<lparr> vw_name = ''NetworkViewSet'', vw_permission_map = crud ''network.view'' ''network.manage'' ''network.manage'',
     vw_required_permission = None, vw_organization_field_path = ''node__organization'' \<rparr>"

definition SubnetViewSet :: view where
  "SubnetViewSet = \<lparr> vw_name = ''SubnetViewSet'', vw_permission_map = crud ''network.view'' ''network.manage'' ''network.manage'' @
       [(''allocate'', ''network.manage''), (''reserve'', ''network.manage'')],
     vw_required_permission = None, vw_organization_field_path = ''network__node__organization'' \<rparr>"

definition IPPoolViewSet :: view where
  "IPPoolViewSet = \<lparr> vw_name = ''IPPoolViewSet'', vw_permission_map = crud ''network.view'' ''network.manage'' ''network.manage'',
     vw_required_permission = None, vw_organization_field_path = ''subnet__network__node__organization'' \<rparr>"

definition IPAddressViewSet :: view where
  "IPAddressViewSet = \<lparr> vw_name = ''IPAddressViewSet'', vw_permission_map = crud ''network.view'' ''network.manage'' ''network.manage'' @
       [(''release'', ''network.manage'')],
     vw_required_permission = None, vw_organization_field_path = ''subnet__network__node__organization'' \<rparr>"

definition ImageViewSet :: view where
  "ImageViewSet = \<lparr> vw_name = ''ImageViewSet'', vw_permission_map =
     [(''list'', ''image.view''), (''retrieve'', ''image.view''), (''destroy'', ''image.delete''), (''download'', ''image.view'')],
     vw_required_permission = None, vw_organization_field_path = ''organization'' \<rparr>"

definition TemplateViewSet :: view where
  "TemplateViewSet = \<lparr> vw_name = ''TemplateViewSet'', vw_permission_map = crud ''template.view'' ''template.manage'' ''template.manage'' @
       [(''deploy'', ''vm.create'')],
     vw_required_permission = None, vw_organization_field_path = ''organization'' \<rparr>"

definition SnapshotViewSet :: view where
  "SnapshotViewSet = \<lparr> vw_name = ''SnapshotViewSet'', vw_permission_map =
     [(''list'', ''vm.view''), (''retrieve'', ''vm.view''), (''create'', ''vm.snapshot''), (''destroy'', ''vm.snapshot''),
      (''rollback'', ''vm.snapshot'')],
     vw_required_permission = None, vw_organization_field_path = ''vm__organization'' \<rparr>"

definition BackupTargetViewSet :: view where
  "BackupTargetViewSet = \<lparr> vw_name = ''BackupTargetViewSet'', vw_permission_map = crud ''backup.view'' ''backup.create'' ''backup.delete'',
     vw_required_permission = None, vw_organization_field_path = ''organization'' \<rparr>"

definition BackupViewSet :: view where
  "BackupViewSet = \<lparr> vw_name = ''BackupViewSet'', vw_permission_map =
     [(''list'', ''backup.view''), (''retrieve'', ''backup.view''), (''create'', ''backup.create''), (''destroy'', ''backup.delete''),
      (''restore'', ''backup.restore'')],
     vw_required_permission = None, vw_organization_field_path = ''vm__organization'' \<rparr>"

definition BackupScheduleViewSet :: view where
  "BackupScheduleViewSet = \<lparr> vw_name = ''BackupScheduleViewSet'', vw_permission_map = crud ''backup.view'' ''backup.create'' ''backup.delete'',
     vw_required_permission = None, vw_organization_field_path = ''organization'' \<rparr>"

definition JobViewSet :: view where
  "JobViewSet = \<lparr> vw_name = ''JobViewSet'', vw_permission_map =
     [(''list'', ''job.view''), (''retrieve'', ''job.view''), (''cancel'', ''job.manage'')],
     vw_required_permission = None, vw_organization_field_path = ''organization'' \<rparr>"

definition EventViewSet :: view where
  "EventViewSet = \<lparr> vw_name = ''EventViewSet'', vw_permission_map = [(''list'', ''event.view''), (''retrieve'', ''event.view'')],
     vw_required_permission = None, vw_organization_field_path = ''organization'' \<rparr>"

definition WebhookViewSet :: view where
  "WebhookViewSet = \<lparr> vw_name = ''WebhookViewSet'', vw_permission_map = manages ''webhook.manage'' @ [(''deliveries'', ''webhook.manage'')],
     vw_required_permission = None, vw_organization_field_path = ''organization'' \<rparr>"

definition RoleViewSet :: view where
  "RoleViewSet = \<lparr> vw_name = ''RoleViewSet'', vw_permission_map = manages ''organization.manage'',
     vw_required_permission = None, vw_organization_field_path = ''organization'' \<rparr>"

definition RoleAssignmentViewSet :: view where
  "RoleAssignmentViewSet = \<lparr> vw_name = ''RoleAssignmentViewSet'', vw_permission_map = manages ''organization.manage'',
     vw_required_permission = None, vw_organization_field_path = ''organization'' \<rparr>"

definition OrganizationViewSet :: view where
  "OrganizationViewSet = \<lparr> vw_name = ''OrganizationViewSet'', vw_permission_map = manages ''organization.manage'',
     vw_required_permission = None, vw_organization_field_path = ''id'' \<rparr>"

definition ProjectViewSet :: view where
  "ProjectViewSet = \<lparr> vw_name = ''ProjectViewSet'', vw_permission_map = manages ''organization.manage'',
     vw_required_permission = None, vw_organization_field_path = ''organization'' \<rparr>"

definition MembershipViewSet :: view where
  "MembershipViewSet = \<lparr> vw_name = ''MembershipViewSet'', vw_permission_map = manages ''organization.manage'',
     vw_required_permission = None, vw_organization_field_path = ''organization'' \<rparr>"

definition QuotaViewSet :: view where
  "QuotaViewSet = \<lparr> vw_name = ''QuotaViewSet'', vw_permission_map = manages ''organization.manage'',
     vw_required_permission = None, vw_organization_field_path = ''organization'' \<rparr>"

subsection \<open>The permission class\<close>

text \<open>
  What the permission class reads of a request: the user, the API token if one authenticated it, query
  parameters, body fields (as strings: the fields it looks up are uuids), and the action.
\<close>

record request =
  rq_user :: principal
  rq_token :: "api_token option"
  rq_query :: "(string \<times> string) list"
  rq_data :: "(string \<times> string) list"
  rq_action :: "string option"
  rq_detail :: bool

definition resolve_codename :: "view \<Rightarrow> request \<Rightarrow> string option" where
  "resolve_codename vw rq = (if vw_permission_map vw \<noteq> []
     then (case rq_action rq of None \<Rightarrow> None | Some a \<Rightarrow> map_of (vw_permission_map vw) a)
     else vw_required_permission vw)"

definition token_permits :: "request \<Rightarrow> string \<Rightarrow> bool" where
  "token_permits rq codename = (case rq_token rq of
     None \<Rightarrow> True
   | Some t \<Rightarrow> tok_scopes t = [] \<or> codename \<in> set (tok_scopes t))"

text \<open>What \<open>policies.has_permission\<close> is handed: the attribute path may end in something that is not an
  organization.\<close>

definition as_org :: "model_obj option \<Rightarrow> org_ref option" where
  "as_org x = (case x of None \<Rightarrow> None | Some (MOrganization k) \<Rightarrow> Some (OrgRow k) | Some _ \<Rightarrow> Some NotAModel)"

definition resolve_organization_from_object :: "db \<Rightarrow> view \<Rightarrow> model_obj \<Rightarrow> org_ref option" where
  "resolve_organization_from_object d vw x = as_org (walk d x (split_dunder (vw_organization_field_path vw)))"

definition has_object_permission :: "request \<Rightarrow> view \<Rightarrow> model_obj \<Rightarrow> bool op" where
  "has_object_permission rq vw x = (case resolve_codename vw rq of
     None \<Rightarrow> returnM False
   | Some codename \<Rightarrow>
       if \<not> token_permits rq codename then returnM False
       else bindM (getdb (\<lambda>d. resolve_organization_from_object d vw x)) (\<lambda>organization.
            has_permission (rq_user rq) organization codename None))"

definition organization_by_uuid :: "db \<Rightarrow> string \<Rightarrow> org_ref option" where
  "organization_by_uuid d u = (case rows_where (\<lambda>r. uuid r = u) (organizations d) of (k, r) # _ \<Rightarrow> Some (OrgRow k) | [] \<Rightarrow> None)"

text \<open>\<open>d.get(k)\<close> with the empty string read as absent.\<close>

definition get_nonempty :: "string \<Rightarrow> (string \<times> string) list \<Rightarrow> string option" where
  "get_nonempty k d = (case map_of d k of Some s \<Rightarrow> if s = '''' then None else Some s | None \<Rightarrow> None)"

text \<open>\<open>related_model.objects.filter(uuid=...).first()\<close> for the first field of a viewset's organization path.\<close>

definition first_uuid :: "(nat \<Rightarrow> model_obj) \<Rightarrow> 'a nodepilot_model_scheme table \<Rightarrow> string \<Rightarrow> model_obj option" where
  "first_uuid mk t u = (case rows_where (\<lambda>r. uuid r = u) t of (k, r) # _ \<Rightarrow> Some (mk k) | [] \<Rightarrow> None)"

definition related_by_uuid :: "db \<Rightarrow> string \<Rightarrow> string \<Rightarrow> model_obj option" where
  "related_by_uuid d fld u =
     (if fld = ''node'' then first_uuid MNode (nodes d) u
      else if fld = ''network'' then first_uuid MNetwork (networks d) u
      else if fld = ''subnet'' then first_uuid MSubnet (subnets d) u
      else if fld = ''vm'' then first_uuid MVirtualMachine (vms d) u
      else None)"

definition get_organization :: "db \<Rightarrow> view \<Rightarrow> request \<Rightarrow> org_ref option" where
  "get_organization d vw rq = (case get_nonempty ''organization'' (rq_query rq) of
     Some u \<Rightarrow> organization_by_uuid d u
   | None \<Rightarrow>
       let path_parts = split_dunder (vw_organization_field_path vw); first_field = hd path_parts
       in if first_field = ''organization'' \<and> length path_parts = 1
          then (case get_nonempty ''organization'' (rq_data rq) of None \<Rightarrow> None | Some u \<Rightarrow> organization_by_uuid d u)
          else (case get_nonempty first_field (rq_data rq) of
                  None \<Rightarrow> None
                | Some u \<Rightarrow> (case related_by_uuid d first_field u of
                     None \<Rightarrow> None
                   | Some x \<Rightarrow> as_org (walk d x (tl path_parts)))))"

text \<open>\<open>VirtualMachineViewSet.get_organization\<close>: creation is scoped by the project.\<close>

definition vm_get_organization :: "db \<Rightarrow> request \<Rightarrow> org_ref option" where
  "vm_get_organization d rq = (case get_nonempty ''project'' (rq_data rq) of
     None \<Rightarrow> None
   | Some u \<Rightarrow> (case rows_where (\<lambda>r. uuid r = u) (projects d) of
        (k, r) # _ \<Rightarrow> Some (OrgRow (prj_organization r)) | [] \<Rightarrow> None))"

definition has_view_permission :: "request \<Rightarrow> view \<Rightarrow> (db \<Rightarrow> org_ref option) \<Rightarrow> bool op" where
  "has_view_permission rq vw resolve = (case rq_user rq of
     None \<Rightarrow> returnM False
   | Some _ \<Rightarrow> (case resolve_codename vw rq of
        None \<Rightarrow> returnM False
      | Some codename \<Rightarrow>
          if \<not> token_permits rq codename then returnM False
          else if rq_detail rq then returnM True
          else if rq_action rq = Some ''list'' then returnM True
          else bindM (getdb resolve) (\<lambda>organization. has_permission (rq_user rq) organization codename None)))"

subsection \<open>Querysets\<close>

text \<open>The organization ids a queryset is restricted to, and the filter \<open><path>_id__in=org_ids\<close>.\<close>

definition visible_orgs :: "nat \<times> user \<Rightarrow> view \<Rightarrow> request \<Rightarrow> nat list op" where
  "visible_orgs usr vw rq = (case usr of (uk, u) \<Rightarrow>
     bindM (getdb (\<lambda>d. member_orgs d uk)) (\<lambda>os.
     if rq_action rq = Some ''list''
     then (case (case map_of (vw_permission_map vw) ''list'' of Some c \<Rightarrow> Some c | None \<Rightarrow> vw_required_permission vw) of
             None \<Rightarrow> returnM os
           | Some codename \<Rightarrow> organizations_with_permission (uk, u) codename (Some os))
     else returnM os))"

definition in_orgs :: "db \<Rightarrow> view \<Rightarrow> nat list \<Rightarrow> model_obj \<Rightarrow> bool" where
  "in_orgs d vw os x = (case walk d x (split_dunder (vw_organization_field_path vw)) of
     Some (MOrganization k) \<Rightarrow> k \<in> set os | _ \<Rightarrow> False)"

definition get_queryset :: "view \<Rightarrow> request \<Rightarrow> model_obj list \<Rightarrow> model_obj list op" where
  "get_queryset vw rq objects = (case rq_user rq of
     None \<Rightarrow> raiseM (TypeError ''Field id expected a number but got AnonymousUser'')
   | Some (uk, u) \<Rightarrow>
       if usr_is_superuser u then returnM objects
       else bindM (visible_orgs (uk, u) vw rq) (\<lambda>os. bindM (getdb (\<lambda>d. in_orgs d vw os)) (\<lambda>ok. returnM (filter ok objects))))"

subsection \<open>Ownership\<close>

text \<open>The organization a resource belongs to, read off the data model.\<close>

definition node_owner :: "db \<Rightarrow> nat \<Rightarrow> nat option" where
  "node_owner d nk = map_option nod_organization (row_get nk (nodes d))"

definition network_owner :: "db \<Rightarrow> nat \<Rightarrow> nat option" where
  "network_owner d k = Option.bind (row_get k (networks d)) (\<lambda>r. node_owner d (net_node r))"

definition subnet_owner :: "db \<Rightarrow> nat \<Rightarrow> nat option" where
  "subnet_owner d k = Option.bind (row_get k (subnets d)) (\<lambda>r. network_owner d (sub_network r))"

definition vm_owner :: "db \<Rightarrow> nat \<Rightarrow> nat option" where
  "vm_owner d k = map_option vm_organization (row_get k (vms d))"

fun owner :: "db \<Rightarrow> model_obj \<Rightarrow> nat option" where
  "owner d (MOrganization k) = Some k"
| "owner d (MProject k) = map_option prj_organization (row_get k (projects d))"
| "owner d (MMembership k) = map_option mem_organization (row_get k (memberships d))"
| "owner d (MQuota k) = map_option quo_organization (row_get k (quotas d))"
| "owner d (MRole k) = Option.bind (row_get k (roles d)) rol_organization"
| "owner d (MRoleAssignment k) = map_option ras_organization (row_get k (role_assignments d))"
| "owner d (MNode k) = node_owner d k"
| "owner d (MStoragePool k) = Option.bind (row_get k (storage_pools d)) (\<lambda>r. node_owner d (sto_node r))"
| "owner d (MNetwork k) = network_owner d k"
| "owner d (MSubnet k) = subnet_owner d k"
| "owner d (MIPPool k) = Option.bind (row_get k (ip_pools d)) (\<lambda>r. subnet_owner d (poo_subnet r))"
| "owner d (MIPAddress k) = Option.bind (row_get k (ip_addresses d)) (\<lambda>r. subnet_owner d (adr_subnet r))"
| "owner d (MImage k) = map_option img_organization (row_get k (images d))"
| "owner d (MTemplate k) = map_option tpl_organization (row_get k (templates d))"
| "owner d (MVirtualMachine k) = vm_owner d k"
| "owner d (MSnapshot k) = Option.bind (row_get k (snapshots d)) (\<lambda>r. vm_owner d (snp_vm r))"
| "owner d (MBackupTarget k) = map_option bkt_organization (row_get k (backup_targets d))"
| "owner d (MBackup k) = Option.bind (row_get k (backups d)) (\<lambda>r. vm_owner d (bkp_vm r))"
| "owner d (MBackupSchedule k) = map_option bks_organization (row_get k (backup_schedules d))"
| "owner d (MJob k) = map_option job_organization (row_get k (jobs d))"
| "owner d (MEvent k) = map_option evt_organization (row_get k (events d))"
| "owner d (MWebhook k) = map_option whk_organization (row_get k (webhooks d))"
| "owner d (MInt k) = None"

text \<open>The viewset that serves each class.\<close>

fun view_of :: "model_obj \<Rightarrow> view option" where
  "view_of (MOrganization k) = Some OrganizationViewSet"
| "view_of (MProject k) = Some ProjectViewSet"
| "view_of (MMembership k) = Some MembershipViewSet"
| "view_of (MQuota k) = Some QuotaViewSet"
| "view_of (MRole k) = Some RoleViewSet"
| "view_of (MRoleAssignment k) = Some RoleAssignmentViewSet"
| "view_of (MNode k) = Some NodeViewSet"
| "view_of (MStoragePool k) = Some StoragePoolViewSet"
| "view_of (MNetwork k) = Some NetworkViewSet"
| "view_of (MSubnet k) = Some SubnetViewSet"
| "view_of (MIPPool k) = Some IPPoolViewSet"
| "view_of (MIPAddress k) = Some IPAddressViewSet"
| "view_of (MImage k) = Some ImageViewSet"
| "view_of (MTemplate k) = Some TemplateViewSet"
| "view_of (MVirtualMachine k) = Some VirtualMachineViewSet"
| "view_of (MSnapshot k) = Some SnapshotViewSet"
| "view_of (MBackupTarget k) = Some BackupTargetViewSet"
| "view_of (MBackup k) = Some BackupViewSet"
| "view_of (MBackupSchedule k) = Some BackupScheduleViewSet"
| "view_of (MJob k) = Some JobViewSet"
| "view_of (MEvent k) = Some EventViewSet"
| "view_of (MWebhook k) = Some WebhookViewSet"
| "view_of (MInt k) = None"

lemmas view_defs = OrganizationViewSet_def ProjectViewSet_def MembershipViewSet_def QuotaViewSet_def RoleViewSet_def
  RoleAssignmentViewSet_def NodeViewSet_def StoragePoolViewSet_def NetworkViewSet_def SubnetViewSet_def IPPoolViewSet_def
  IPAddressViewSet_def ImageViewSet_def TemplateViewSet_def VirtualMachineViewSet_def SnapshotViewSet_def
  BackupTargetViewSet_def BackupViewSet_def BackupScheduleViewSet_def JobViewSet_def EventViewSet_def WebhookViewSet_def

lemma paths [simp]:
  "split_dunder ''organization'' = [''organization'']" "split_dunder ''node__organization'' = [''node'', ''organization'']"
  "split_dunder ''vm__organization'' = [''vm'', ''organization'']"
  "split_dunder ''network__node__organization'' = [''network'', ''node'', ''organization'']"
  "split_dunder ''subnet__network__node__organization'' = [''subnet'', ''network'', ''node'', ''organization'']"
  "split_dunder ''id'' = [''id'']"
  by simp_all

lemma path_owner:
  assumes "view_of x = Some vw" and "\<And>k. x \<noteq> MOrganization k"
  shows "walk d x (split_dunder (vw_organization_field_path vw)) = map_option MOrganization (owner d x)"
  using assms
  by (cases x) (auto simp: view_defs node_owner_def network_owner_def subnet_owner_def vm_owner_def simp del: split_dunder.simps
      split: option.splits bind_splits)

subsection \<open>Properties\<close>

text \<open>
  C4. Tenant isolation of detail requests: when the permission class lets a user who is not a superuser
  reach an object, the action's codename is in the scopes of the API token in use (if that token has
  scopes), the object belongs to an organization, and the policy grants the user that codename in that
  very organization. Query parameters and the request body have no influence on the decision.
\<close>

theorem object_permission_tenant:
  assumes "has_object_permission rq vw x w = (Inr True, w')" and "rq_user rq = Some (uk, u)" and "\<not> usr_is_superuser u"
    and "view_of x = Some vw" and "\<And>k. x \<noteq> MOrganization k"
  shows "(\<exists>c ok. resolve_codename vw rq = Some c \<and> owner (wdb w) x = Some ok \<and> c \<in> set (current_codes w uk ok None) \<and>
       (case rq_token rq of None \<Rightarrow> True | Some t \<Rightarrow> tok_scopes t = [] \<or> c \<in> set (tok_scopes t))) \<and>
     has_object_permission (rq\<lparr>rq_query := q, rq_data := b\<rparr>) vw x w = (Inr True, w')"
proof -
  obtain c where c: "resolve_codename vw rq = Some c" "token_permits rq c"
    using assms(1) by (auto simp: has_object_permission_def split: option.splits if_splits)
  let ?o = "resolve_organization_from_object (wdb w) vw x"
  have "has_permission (Some (uk, u)) ?o c None w = (Inr True, w')"
    using assms(1,2) c by (simp add: has_object_permission_def)
  moreover have o: "?o = map_option OrgRow (owner (wdb w) x)"
    unfolding resolve_organization_from_object_def path_owner [OF assms(4,5)] by (simp add: as_org_def split: option.splits)
  ultimately obtain ok where ok: "owner (wdb w) x = Some ok" "c \<in> set (current_codes w uk ok None)"
    using has_permission_run [OF assms(3)] assms(3) by (cases "owner (wdb w) x") (auto simp: has_permission_def)
  have c': "resolve_codename vw (rq\<lparr>rq_query := q, rq_data := b\<rparr>) = Some c" "token_permits (rq\<lparr>rq_query := q, rq_data := b\<rparr>) c"
    using c by (simp_all add: resolve_codename_def token_permits_def split: if_splits)
  have "has_object_permission (rq\<lparr>rq_query := q, rq_data := b\<rparr>) vw x w = (Inr True, w')"
    using assms(1) c c' by (simp add: has_object_permission_def)
  with c ok show ?thesis by (auto simp: token_permits_def)
qed

definition ex_request :: request where
  "ex_request = \<lparr> rq_user = Some (5, ex_user), rq_token = None, rq_query = [], rq_data = [], rq_action = Some ''retrieve'', rq_detail = True \<rparr>"

theorem object_permission_tenant_witness:
  "(\<exists>c ok. resolve_codename VirtualMachineViewSet ex_request = Some c \<and> owner (wdb ex_acl) (MVirtualMachine 20) = Some ok \<and>
       c \<in> set (current_codes ex_acl 5 ok None) \<and>
       (case rq_token ex_request of None \<Rightarrow> True | Some t \<Rightarrow> tok_scopes t = [] \<or> c \<in> set (tok_scopes t))) \<and>
     has_object_permission (ex_request\<lparr>rq_query := [(''organization'', ''other'')], rq_data := []\<rparr>) VirtualMachineViewSet (MVirtualMachine 20) ex_acl =
       (Inr True, remember 5 1 None ex_acl)"
proof (rule object_permission_tenant [where u = ex_user])
  have "row_get 20 (vms (wdb ex_acl)) = Some ex_vm" by (simp add: ex_acl_def)
  moreover have "''vm.view'' \<in> set (current_codes ex_acl 5 1 None)" by (simp add: current_codes_def ex_acl_codes del: One_nat_def)
  ultimately show "has_object_permission ex_request VirtualMachineViewSet (MVirtualMachine 20) ex_acl = (Inr True, remember 5 1 None ex_acl)"
    by (simp add: has_object_permission_def ex_request_def resolve_codename_def VirtualMachineViewSet_def token_permits_def
        resolve_organization_from_object_def as_org_def ex_vm_def has_permission_run)
qed (simp_all add: ex_request_def)

lemma mapM_permission:
  "\<not> usr_is_superuser u \<Longrightarrow>
   \<exists>w'. mapM (\<lambda>i. bindM (has_permission (Some (uk, u)) (Some (OrgRow i)) c None) (\<lambda>b. returnM (i, b))) os w =
     (Inr (map (\<lambda>i. (i, c \<in> set (current_codes w uk i None))) os), w') \<and> wdb w' = wdb w \<and>
     (\<forall>i. current_codes w' uk i None = current_codes w uk i None)"
proof (induction os arbitrary: w)
  case (Cons i os)
  let ?w = "remember uk i None w"
  obtain w' where "mapM (\<lambda>i. bindM (has_permission (Some (uk, u)) (Some (OrgRow i)) c None) (\<lambda>b. returnM (i, b))) os ?w =
      (Inr (map (\<lambda>i. (i, c \<in> set (current_codes ?w uk i None))) os), w')" "wdb w' = wdb ?w"
      "\<forall>i. current_codes w' uk i None = current_codes ?w uk i None"
    using Cons by blast
  then show ?case by (simp add: bindM_def has_permission_run [OF Cons.prems])
qed simp

lemma organizations_with_permission_run:
  assumes "\<not> usr_is_superuser u"
  shows "\<exists>w'. organizations_with_permission (uk, u) c (Some os) w =
     (Inr (remdups (filter (\<lambda>i. c \<in> set (current_codes w uk i None)) os)), w') \<and> wdb w' = wdb w"
proof -
  obtain w' where w': "mapM (\<lambda>i. bindM (has_permission (Some (uk, u)) (Some (OrgRow i)) c None) (\<lambda>b. returnM (i, b))) os w =
     (Inr (map (\<lambda>i. (i, c \<in> set (current_codes w uk i None))) os), w')" "wdb w' = wdb w"
    using mapM_permission [OF assms] by blast
  have "map fst (filter snd (map (\<lambda>i. (i, c \<in> set (current_codes w uk i None))) os)) = filter (\<lambda>i. c \<in> set (current_codes w uk i None)) os"
    by (induction os) auto
  with w' assms show ?thesis by (simp add: organizations_with_permission_def bindM_def)
qed



text \<open>
  The organization detail endpoint never works for members: the organization path of
  \<open>OrganizationViewSet\<close> is the primary key itself, so that the permission class hands an integer to the
  policy, and every detail request of a user who is not a superuser ends in an \<open>AttributeError\<close>, whatever
  roles the user holds.
\<close>

theorem organization_detail_crashes:
  assumes "rq_user rq = Some (uk, u)" and "\<not> usr_is_superuser u" and "rq_token rq = None"
    and "rq_action rq \<in> {Some ''retrieve'', Some ''update'', Some ''partial_update'', Some ''destroy''}"
  shows "has_object_permission rq OrganizationViewSet (MOrganization k) w = (Inl (AttributeError ''int object has no attribute pk''), w)"
  using assms by (auto simp: has_object_permission_def OrganizationViewSet_def manages_def crud_def resolve_codename_def
      token_permits_def resolve_organization_from_object_def as_org_def has_permission_def codenames_for_def bindM_def)

theorem organization_detail_crashes_witness:
  "has_object_permission ex_request OrganizationViewSet (MOrganization 1) ex_acl =
     (Inl (AttributeError ''int object has no attribute pk''), ex_acl)"
  by (rule organization_detail_crashes [where u = ex_user]) (simp_all add: ex_request_def)

text \<open>
  Creation can borrow a permission from another organization: with an \<open>organization\<close> query parameter,
  the permission for \<open>create\<close> is decided in the organization of the parameter, while the row is created
  from the body, whatever organization that names.
\<close>

theorem create_checks_query_organization:
  assumes "get_nonempty ''organization'' (rq_query rq) = Some a" and "organization_by_uuid (wdb w) a = Some (OrgRow ok)"
    and "rq_user rq = Some (uk, u)" and "\<not> usr_is_superuser u" and "rq_token rq = None" and "\<not> rq_detail rq"
    and "rq_action rq = Some ''create''" and "map_of (vw_permission_map vw) ''create'' = Some c"
  shows "has_view_permission (rq\<lparr>rq_data := b\<rparr>) vw (\<lambda>d. get_organization d vw (rq\<lparr>rq_data := b\<rparr>)) w =
     (Inr (c \<in> set (current_codes w uk ok None)), remember uk ok None w)"
proof -
  have "resolve_codename vw (rq\<lparr>rq_data := b\<rparr>) = Some c" using assms(7,8) by (auto simp: resolve_codename_def)
  then show ?thesis
    using assms by (simp add: has_view_permission_def token_permits_def get_organization_def has_permission_run)
qed

theorem create_checks_query_organization_witness:
  "has_view_permission (ex_request\<lparr>rq_query := [(''organization'', ''o1'')], rq_action := Some ''create'', rq_detail := False,
       rq_data := [(''organization'', ''another'')]\<rparr>) RoleAssignmentViewSet
     (\<lambda>d. get_organization d RoleAssignmentViewSet (ex_request\<lparr>rq_query := [(''organization'', ''o1'')],
       rq_action := Some ''create'', rq_detail := False, rq_data := [(''organization'', ''another'')]\<rparr>)) ex_acl =
     (Inr (''organization.manage'' \<in> set (current_codes ex_acl 5 1 None)), remember 5 1 None ex_acl)"
  by (rule create_checks_query_organization [where u = ex_user and a = "''o1''"])
    (simp_all add: ex_request_def RoleAssignmentViewSet_def manages_def crud_def get_nonempty_def organization_by_uuid_def
      rows_where_def ex_acl_def ex_db_def ex_org_def)

end
