(* ===== verification/Base64.thy ===== *)
theory Base64
  imports Prelude
begin

section \<open>Base64: the framing of console bytes\<close>

text \<open>
  Python's \<open>base64.b64encode\<close> and \<open>base64.b64decode\<close>, with which \<open>ConsoleConsumer\<close> and the agent's
  \<open>console.py\<close> frame console traffic. The decoder is \<open>binascii.a2b_base64\<close> in its lenient mode:
  characters outside the alphabet are skipped, a complete padding ends the input, and a group that
  is left incomplete is an error.
\<close>

text \<open>The alphabet \<open>A-Z a-z 0-9 + /\<close>, by code point.\<close>

definition b64_char :: "nat \<Rightarrow> char" where
  "b64_char n = char_of (if n < 26 then n + 65 else if n < 52 then n + 71 else if n < 62 then n - 4 else if n = 62 then 43 else 47)"

definition b64_val :: "char \<Rightarrow> nat option" where
  "b64_val c = (let n = (of_char c :: nat) in
     if 65 \<le> n \<and> n \<le> 90 then Some (n - 65)
     else if 97 \<le> n \<and> n \<le> 122 then Some (n - 71)
     else if 48 \<le> n \<and> n \<le> 57 then Some (n + 4)
     else if n = 43 then Some 62 else if n = 47 then Some 63 else None)"

fun enc_bytes :: "nat list \<Rightarrow> string" where
  "enc_bytes [] = []"
| "enc_bytes [a] = [b64_char (a div 4), b64_char (a mod 4 * 16), CHR ''='', CHR ''='']"
| "enc_bytes [a, b] = [b64_char (a div 4), b64_char (a mod 4 * 16 + b div 16), b64_char (b mod 16 * 4), CHR ''='']"
| "enc_bytes (a # b # c # bs) =
     [b64_char (a div 4), b64_char (a mod 4 * 16 + b div 16), b64_char (b mod 16 * 4 + c div 64), b64_char (c mod 64)] @ enc_bytes bs"

definition b64encode :: "string \<Rightarrow> string" where
  "b64encode s = enc_bytes (map of_char s)"

text \<open>\<open>quad_pos\<close>, \<open>pads\<close> and \<open>leftchar\<close> are the variables of the C loop.\<close>

fun dec_loop :: "nat \<Rightarrow> nat \<Rightarrow> nat \<Rightarrow> string \<Rightarrow> nat list option" where
  "dec_loop quad_pos pads leftchar [] = (if quad_pos = 0 then Some [] else None)"
| "dec_loop quad_pos pads leftchar (c # cs) =
     (if c = CHR ''='' then
        (if 2 \<le> quad_pos \<and> 4 \<le> quad_pos + (pads + 1) then Some []
         else dec_loop quad_pos (if 2 \<le> quad_pos then pads + 1 else pads) leftchar cs)
      else case b64_val c of
        None \<Rightarrow> dec_loop quad_pos pads leftchar cs
      | Some v \<Rightarrow>
          if quad_pos = 0 then dec_loop 1 0 v cs
          else if quad_pos = 1 then map_option ((#) (leftchar * 4 + v div 16)) (dec_loop 2 0 (v mod 16) cs)
          else if quad_pos = 2 then map_option ((#) (leftchar * 16 + v div 4)) (dec_loop 3 0 (v mod 4) cs)
          else map_option ((#) (leftchar * 64 + v)) (dec_loop 0 0 0 cs))"

definition b64decode :: "string \<Rightarrow> string option" where
  "b64decode s = map_option (map char_of) (dec_loop 0 0 0 s)"

lemma b64_table: "n < 64 \<Longrightarrow> b64_val (b64_char n) = Some n"
  by (auto simp: b64_val_def b64_char_def of_char_of Let_def)

lemma b64_not_pad: "n < 64 \<Longrightarrow> b64_char n \<noteq> CHR ''=''"
  using b64_table [of n] by (auto simp: b64_val_def Let_def)

lemma dec_digit [simp]:
  "v < 64 \<Longrightarrow> dec_loop q p l (b64_char v # cs) =
     (if q = 0 then dec_loop 1 0 v cs
      else if q = 1 then map_option ((#) (l * 4 + v div 16)) (dec_loop 2 0 (v mod 16) cs)
      else if q = 2 then map_option ((#) (l * 16 + v div 4)) (dec_loop 3 0 (v mod 4) cs)
      else map_option ((#) (l * 64 + v)) (dec_loop 0 0 0 cs))"
  using b64_table [of v] b64_not_pad [of v] by simp

lemma dec_pads [simp]: "dec_loop 2 0 l ''=='' = Some []" "dec_loop 3 0 l ''='' = Some []"
  by simp_all

declare dec_loop.simps(2) [simp del]

lemma dec_group:
  assumes "v1 < 64" and "v2 < 64"
  shows "dec_loop 0 0 0 (b64_char v1 # b64_char v2 # cs) = map_option ((#) (v1 * 4 + v2 div 16)) (dec_loop 2 0 (v2 mod 16) cs)"
    and "v3 < 64 \<Longrightarrow> dec_loop 2 0 l (b64_char v3 # cs) = map_option ((#) (l * 16 + v3 div 4)) (dec_loop 3 0 (v3 mod 4) cs)"
    and "v4 < 64 \<Longrightarrow> dec_loop 3 0 l (b64_char v4 # cs) = map_option ((#) (l * 64 + v4)) (dec_loop 0 0 0 cs)"
  using assms by simp_all

lemma byte_split:
  fixes a b c :: nat
  assumes "a < 256" and "b < 256" and "c < 256"
  shows "a div 4 < 64" "a mod 4 * 16 < 64" "a mod 4 * 16 + b div 16 < 64" "b mod 16 * 4 < 64" "b mod 16 * 4 + c div 64 < 64"
    "c mod 64 < 64" "(a mod 4 * 16 + b div 16) div 16 = a mod 4" "(a mod 4 * 16 + b div 16) mod 16 = b div 16"
    "(b mod 16 * 4 + c div 64) div 4 = b mod 16" "(b mod 16 * 4 + c div 64) mod 4 = c div 64"
proof -
  have "b div 16 < 16" "c div 64 < 4" "a mod 4 < 4" "b mod 16 < 16" using assms by (auto simp: div_less_iff_less_mult)
  then show "a div 4 < 64" "a mod 4 * 16 < 64" "a mod 4 * 16 + b div 16 < 64" "b mod 16 * 4 < 64" "b mod 16 * 4 + c div 64 < 64"
    "c mod 64 < 64" "(a mod 4 * 16 + b div 16) div 16 = a mod 4" "(a mod 4 * 16 + b div 16) mod 16 = b div 16"
    "(b mod 16 * 4 + c div 64) div 4 = b mod 16" "(b mod 16 * 4 + c div 64) mod 4 = c div 64"
    using assms by auto
qed

lemma dec_enc: "(\<forall>b \<in> set bs. b < 256) \<Longrightarrow> dec_loop 0 0 0 (enc_bytes bs) = Some bs"
proof (induction bs rule: enc_bytes.induct)
  case (4 a b c bs)
  then have "a < 256" "b < 256" "c < 256" "dec_loop 0 0 0 (enc_bytes bs) = Some bs" by simp_all
  note s = byte_split [OF this(1-3)] and ih = this(4)
  show ?case unfolding enc_bytes.simps append.simps dec_group(1) [OF s(1,3)] dec_group(2) [OF s(1,3) s(5)]
      dec_group(3) [OF s(1,3) s(6)] ih s(7-10) by simp
next
  case (3 a b)
  then have "a < 256" "b < 256" "0 < (256::nat)" by simp_all
  note s = byte_split [OF this]
  show ?case unfolding enc_bytes.simps dec_group(1) [OF s(1,3)] dec_group(2) [OF s(1,3) s(4)] s(7,8) by simp
next
  case (2 a)
  then have "a < 256" "0 < (256::nat)" by simp_all
  note s = byte_split [OF this this(2)]
  show ?case unfolding enc_bytes.simps dec_group(1) [OF s(1,2)] by simp
qed simp

lemma b64_roundtrip [simp]: "b64decode (b64encode s) = Some s"
proof -
  have "\<forall>b \<in> set (map of_char s). b < (256::nat)" by auto
  then have "dec_loop 0 0 0 (b64encode s) = Some (map of_char s)" unfolding b64encode_def by (rule dec_enc)
  then show ?thesis by (simp add: b64decode_def comp_def)
qed

end
