(* ===== verification/Tokens.thy ===== *)
theory Tokens
  imports Access Base64
begin

section \<open>Tokens: API tokens, websocket tickets and the websocket gates\<close>

text \<open>
  \<open>backend/apps/authentication\<close> (\<open>models.py\<close>, \<open>auth.py\<close>, \<open>ws_ticket.py\<close>, \<open>ws_auth.py\<close> and the token
  actions of \<open>views.py\<close>) and the consumers that rely on the ticket: \<open>VMConsumer\<close>, \<open>ConsoleConsumer\<close>,
  \<open>JobConsumer\<close>, \<open>EventsConsumer\<close> and \<open>NodeStatusConsumer\<close>. SHA-256 is the parameter \<open>hash\<close>;
  \<open>secrets.token_urlsafe\<close> draws from the world's supply of unpredictable strings.
\<close>

subsection \<open>API tokens\<close>

definition TOKEN_PREFIX :: string where
  "TOKEN_PREFIX = ''npt_''"

definition token_generate :: "(string \<Rightarrow> string) \<Rightarrow> (string \<times> string \<times> string) op" where
  "token_generate hash = bindM uuid4 (\<lambda>raw_secret.
     let raw_token = TOKEN_PREFIX @ raw_secret
     in returnM (raw_token, hash raw_token, take (length TOKEN_PREFIX + 8) raw_token))"

definition token_is_valid :: "nat \<Rightarrow> api_token \<Rightarrow> bool" where
  "token_is_valid t tok = (if tok_revoked tok then False
     else (case tok_expires_at tok of Some x \<Rightarrow> \<not> x \<le> t | None \<Rightarrow> True))"

definition validate_scopes :: "string list \<Rightarrow> string list op" where
  "validate_scopes scopes = (if scopes \<noteq> [] \<and> \<not> set scopes \<subseteq> fst ` set PERMISSION_CATALOG
     then raiseM (DrfExn 400 ''invalid'' ''Unknown permission codenames'') else returnM scopes)"

text \<open>\<open>APITokenViewSet.create\<close>; the \<open>token_hash\<close> column is unique.\<close>

definition token_create :: "(string \<Rightarrow> string) \<Rightarrow> nat \<times> user \<Rightarrow> string \<Rightarrow> string list \<Rightarrow> nat option \<Rightarrow> string option \<Rightarrow> string op" where
  "token_create hash usr name scopes expires ip =
     bindM (validate_scopes scopes) (\<lambda>scs.
     bindM (token_generate hash) (\<lambda>(raw, h, prefix).
     bindM uuid4 (\<lambda>u. bindM now (\<lambda>t.
     bindM (getdb (\<lambda>d. list_ex (\<lambda>(k, x). tok_hash x = h) (api_tokens d))) (\<lambda>clash.
     if clash then raiseM (IntegrityError ''api_tokens.token_hash'')
     else bindM fresh_pk (\<lambda>k.
     bindM (moddb (\<lambda>d. d\<lparr>api_tokens := row_add k
       \<lparr> uuid = u, created_at = t, updated_at = t, tok_user = fst usr, tok_name = name, tok_hash = h, tok_prefix = prefix,
         tok_scopes = scs, tok_expires_at = expires, tok_last_used_at = None, tok_revoked = False, tok_revoked_at = None \<rparr>
       (api_tokens d)\<rparr>)) (\<lambda>_.
     bindM (log_action (Some (fst usr)) (usr_username (snd usr)) ''API_TOKEN_CREATE'' ''APIToken'' u None ip AR_SUCCESS (JObj [])) (\<lambda>_.
     returnM raw))))))))"

definition token_revoke :: "nat \<Rightarrow> unit op" where
  "token_revoke k = bindM now (\<lambda>t. save_row api_tokens (\<lambda>f d. d\<lparr>api_tokens := f (api_tokens d)\<rparr>) k
     (\<lambda>x. x\<lparr>tok_revoked := True, tok_revoked_at := Some t\<rparr>))"

definition auth_failed :: "string \<Rightarrow> exn" where
  "auth_failed m = DrfExn 401 ''authentication_failed'' m"

text \<open>\<open>APITokenAuthentication.authenticate\<close> on the \<open>Authorization\<close> header.\<close>

definition token_authenticate :: "(string \<Rightarrow> string) \<Rightarrow> string \<Rightarrow> ((nat \<times> user) \<times> (nat \<times> api_token)) option op" where
  "token_authenticate hash header = (let auth_header = split_words [] header in
     if auth_header = [] \<or> hd auth_header \<noteq> ''Token'' then returnM None
     else if length auth_header \<noteq> 2 then raiseM (auth_failed ''Invalid token header.'')
     else bindM (getdb (\<lambda>d. rows_where (\<lambda>x. tok_hash x = hash (auth_header ! 1)) (api_tokens d))) (\<lambda>rs. case rs of
       [] \<Rightarrow> raiseM (auth_failed ''Invalid API token.'')
     | (k, tok) # _ \<Rightarrow>
         bindM now (\<lambda>t.
         if \<not> token_is_valid t tok then raiseM (auth_failed ''This API token has expired or been revoked.'')
         else bindM (get_row ''User'' users (tok_user tok)) (\<lambda>u.
              if \<not> usr_is_active u then raiseM (auth_failed ''User account is disabled.'')
              else bindM (moddb (\<lambda>d. d\<lparr>api_tokens := row_mod k (\<lambda>x. x\<lparr>tok_last_used_at := Some t\<rparr>) (api_tokens d)\<rparr>)) (\<lambda>_.
                   returnM (Some ((tok_user tok, u), (k, tok))))))))"

subsection \<open>Websocket tickets\<close>

definition TICKET_TTL_SECONDS :: nat where
  "TICKET_TTL_SECONDS = 30"

definition ticket_key :: "string \<Rightarrow> string" where
  "ticket_key t = ''nodepilot:ws_ticket:'' @ t"

definition issue_ticket :: "user \<Rightarrow> string op" where
  "issue_ticket u = bindM uuid4 (\<lambda>ticket.
     bindM (modM (redis_put (ticket_key ticket) (RStr (uuid u)) (Some (TICKET_TTL_SECONDS * 1000)))) (\<lambda>_. returnM ticket))"

text \<open>\<open>_REDEEM_SCRIPT\<close>: get and delete in one step.\<close>

definition redeem_ticket :: "string \<Rightarrow> string option op" where
  "redeem_ticket ticket = bindM (getM (\<lambda>w. redis_lookup w (ticket_key ticket))) (\<lambda>v. case v of
     Some (RStr s) \<Rightarrow> bindM (modM (redis_drop (ticket_key ticket))) (\<lambda>_. returnM (Some s))
   | _ \<Rightarrow> returnM None)"

definition user_from_ticket :: "string \<Rightarrow> principal op" where
  "user_from_ticket ticket = bindM (redeem_ticket ticket) (\<lambda>x. case x of
     None \<Rightarrow> returnM None
   | Some user_uuid \<Rightarrow> getdb (\<lambda>d. case rows_where (\<lambda>u. uuid u = user_uuid \<and> usr_is_active u) (users d) of
        (k, u) # _ \<Rightarrow> Some (k, u) | [] \<Rightarrow> None))"

text \<open>\<open>TicketAuthMiddleware\<close>: the first \<open>ticket\<close> parameter of the query string, if it has one.\<close>

definition ticket_auth :: "string option \<Rightarrow> principal op" where
  "ticket_auth ticket = (case ticket of None \<Rightarrow> returnM None | Some t \<Rightarrow> user_from_ticket t)"

subsection \<open>Consumers\<close>

text \<open>A connection attempt ends with a close code, or accepted as a member of a channel group.\<close>

datatype 'a ws = WsClosed nat | WsAccepted string 'a

definition can_view :: "principal \<Rightarrow> nat \<Rightarrow> string \<Rightarrow> bool op" where
  "can_view usr org codename = (case usr of None \<Rightarrow> returnM False | Some _ \<Rightarrow> has_permission usr (Some (OrgRow org)) codename None)"

definition by_uuid :: "'a nodepilot_model_scheme table \<Rightarrow> string \<Rightarrow> (nat \<times> 'a nodepilot_model_scheme) option" where
  "by_uuid t u = (case rows_where (\<lambda>r. uuid r = u) t of x # _ \<Rightarrow> Some x | [] \<Rightarrow> None)"

definition vm_consumer_connect :: "principal \<Rightarrow> string \<Rightarrow> unit ws op" where
  "vm_consumer_connect usr vm_uuid = bindM (getdb (\<lambda>d. by_uuid (vms d) vm_uuid)) (\<lambda>x. case x of
     None \<Rightarrow> returnM (WsClosed 4403)
   | Some (k, v) \<Rightarrow> bindM (can_view usr (vm_organization v) ''vm.view'') (\<lambda>ok.
       if \<not> ok then returnM (WsClosed 4403) else returnM (WsAccepted (''vm.'' @ vm_uuid) ())))"

definition job_snapshot :: "job \<Rightarrow> json" where
  "job_snapshot j = JObj [(''uuid'', JStr (uuid j)), (''type'', JStr (show_JobType (job_type j))),
     (''status'', JStr (show_JobStatus (job_status j))), (''progress'', JInt (job_progress j)),
     (''message'', JStr (job_message j)), (''error'', JStr (job_error j))]"

definition job_consumer_connect :: "principal \<Rightarrow> string \<Rightarrow> json ws op" where
  "job_consumer_connect usr job_uuid = bindM (getdb (\<lambda>d. by_uuid (jobs d) job_uuid)) (\<lambda>x. case x of
     None \<Rightarrow> returnM (WsClosed 4403)
   | Some (k, j) \<Rightarrow> bindM (can_view usr (job_organization j) ''job.view'') (\<lambda>ok.
       if \<not> ok then returnM (WsClosed 4403)
       else returnM (WsAccepted (''job.'' @ job_uuid) (JObj [(''type'', JStr ''job.snapshot''), (''job'', job_snapshot j)]))))"

definition node_consumer_connect :: "principal \<Rightarrow> string \<Rightarrow> unit ws op" where
  "node_consumer_connect usr node_uuid = bindM (getdb (\<lambda>d. by_uuid (nodes d) node_uuid)) (\<lambda>x. case x of
     None \<Rightarrow> returnM (WsClosed 4403)
   | Some (k, n) \<Rightarrow> bindM (can_view usr (nod_organization n) ''node.view'') (\<lambda>ok.
       if \<not> ok then returnM (WsClosed 4403) else returnM (WsAccepted (''node_status.'' @ node_uuid) ())))"

definition events_consumer_connect :: "principal \<Rightarrow> string option \<Rightarrow> unit ws op" where
  "events_consumer_connect usr org_uuid =
     bindM (getdb (\<lambda>d. case org_uuid of None \<Rightarrow> None | Some u \<Rightarrow> if u = '''' then None else by_uuid (organizations d) u)) (\<lambda>x. case x of
     None \<Rightarrow> returnM (WsClosed 4403)
   | Some (k, r) \<Rightarrow> bindM (can_view usr k ''event.view'') (\<lambda>ok.
       if \<not> ok then returnM (WsClosed 4403) else returnM (WsAccepted (''events.'' @ show_nat k) ())))"

definition open_console :: "nat \<times> virtual_machine \<Rightarrow> string \<Rightarrow> bool op" where
  "open_console vo session_id = tryM
     (bindM (send_operation (vm_node (snd vo)) OPEN_CONSOLE (uuid (snd vo)) (JObj [(''session_id'', JStr session_id)]) None)
        (\<lambda>_. returnM True))
     (\<lambda>_. returnM False)"

text \<open>\<open>ConsoleConsumer.connect\<close>: the session it keeps is the VM and the session id.\<close>

definition console_connect :: "principal \<Rightarrow> string \<Rightarrow> ((nat \<times> virtual_machine) \<times> string) ws op" where
  "console_connect usr vm_uuid = bindM (getdb (\<lambda>d. by_uuid (vms d) vm_uuid)) (\<lambda>x. case x of
     None \<Rightarrow> returnM (WsClosed 4403)
   | Some (k, v) \<Rightarrow> bindM (can_view usr (vm_organization v) ''vm.console'') (\<lambda>ok.
       if \<not> ok then returnM (WsClosed 4403)
       else if vm_status v \<noteq> VS_RUNNING then returnM (WsClosed 4409)
       else bindM uuid4 (\<lambda>session_id.
            bindM (open_console (k, v) session_id) (\<lambda>opened.
            if \<not> opened then returnM (WsClosed 4502)
            else returnM (WsAccepted (''console.'' @ session_id) ((k, v), session_id))))))"

definition send_to_agent :: "virtual_machine \<Rightarrow> json \<Rightarrow> unit op" where
  "send_to_agent v message = bindM (getdb (\<lambda>d. Option.bind (vm_node v) (\<lambda>nk. row_get nk (nodes d)))) (\<lambda>n. case n of
     None \<Rightarrow> raiseM (AttributeError ''NoneType object has no attribute uuid'')
   | Some nd \<Rightarrow> group_send (''agent.'' @ uuid nd) (JObj [(''type'', JStr ''agent.command''), (''message'', message)]))"

definition console_input :: "string \<Rightarrow> string \<Rightarrow> json" where
  "console_input session_id payload =
     JObj [(''type'', JStr ''console_input''), (''session_id'', JStr session_id), (''data'', JStr payload)]"

definition console_receive :: "virtual_machine \<Rightarrow> string \<Rightarrow> string option \<Rightarrow> string option \<Rightarrow> unit op" where
  "console_receive v session_id text_data bytes_data = (case bytes_data of
     Some b \<Rightarrow> send_to_agent v (console_input session_id (b64encode b))
   | None \<Rightarrow> (case text_data of
       Some t \<Rightarrow> send_to_agent v (console_input session_id t)
     | None \<Rightarrow> returnM ()))"

definition console_disconnect :: "virtual_machine \<Rightarrow> string \<Rightarrow> unit op" where
  "console_disconnect v session_id = send_to_agent v (JObj [(''type'', JStr ''console_close''), (''session_id'', JStr session_id)])"

text \<open>\<open>console_data\<close>: what the browser is sent for an event of the group.\<close>

definition console_data :: "json \<Rightarrow> string op" where
  "console_data event = (case jget ''data'' event of
     Some (JStr s) \<Rightarrow> (case b64decode s of None \<Rightarrow> raiseM (ValueError ''Incorrect padding'') | Some b \<Rightarrow> returnM b)
   | _ \<Rightarrow> raiseM (TypeError ''argument should be a bytes-like object or ASCII string''))"

subsection \<open>Properties of API tokens\<close>

lemma split_words_plain: "\<forall>c \<in> set s. \<not> is_space c \<Longrightarrow> split_words acc s = (if rev acc @ s = [] then [] else [rev acc @ s])"
  by (induction s arbitrary: acc) simp_all

lemma split_header: "\<forall>c \<in> set raw. \<not> is_space c \<Longrightarrow> raw \<noteq> [] \<Longrightarrow> split_words [] (''Token '' @ raw) = [''Token'', raw]"
  by (simp add: split_words_plain is_space_def)

lemma rows_where_add: "rows_where p (row_add k r t) = rows_where p t @ (if p r then [(k, r)] else [])"
  by (simp add: rows_where_def row_add_def)

lemma rows_where_mod_kept:
  "rows_where p t = [(k, r)] \<Longrightarrow> (\<And>x. p (f x) = p x) \<Longrightarrow> rows_where p (row_mod k f t) = [(k, f r)]"
proof -
  assume p: "\<And>x. p (f x) = p x" and r: "rows_where p t = [(k, r)]"
  have "rows_where p (row_mod k f t) = row_mod k f (rows_where p t)"
    by (induction t) (auto simp: rows_where_def row_mod_def p split: if_splits)
  with r show ?thesis by (simp add: row_mod_def)
qed

lemma token_create_run:
  assumes "token_create hash (uk, u) name scopes expires ip w = (Inr raw, w')"
  shows "\<exists>tok k. raw = TOKEN_PREFIX @ uuids w (uuid_next w) \<and> tok_hash tok = hash raw \<and> tok_scopes tok = scopes \<and> tok_user tok = uk \<and>
     tok_expires_at tok = expires \<and> \<not> tok_revoked tok \<and> rows_where (\<lambda>x. tok_hash x = hash raw) (api_tokens (wdb w)) = [] \<and>
     api_tokens (wdb w') = row_add k tok (api_tokens (wdb w)) \<and> users (wdb w') = users (wdb w) \<and> clock w' = clock w \<and>
     k = next_pk (wdb w)"
proof -
  have "\<not> list_ex (\<lambda>(k, x). tok_hash x = hash (TOKEN_PREFIX @ uuids w (uuid_next w))) (api_tokens (wdb w))"
    using assms by (auto simp: token_create_def validate_scopes_def token_generate_def bindM_def Let_def split: if_splits)
  then have "rows_where (\<lambda>x. tok_hash x = hash (TOKEN_PREFIX @ uuids w (uuid_next w))) (api_tokens (wdb w)) = []"
    by (auto simp: rows_where_def list_ex_iff filter_empty_conv)
  moreover define tok where "tok = \<lparr> uuid = uuids w (Suc (uuid_next w)), created_at = clock w, updated_at = clock w, tok_user = uk,
     tok_name = name, tok_hash = hash (TOKEN_PREFIX @ uuids w (uuid_next w)),
     tok_prefix = take (length TOKEN_PREFIX + 8) (TOKEN_PREFIX @ uuids w (uuid_next w)), tok_scopes = scopes, tok_expires_at = expires,
     tok_last_used_at = None, tok_revoked = False, tok_revoked_at = None \<rparr>"
  ultimately show ?thesis
    using assms by (intro exI [of _ tok] exI [of _ "next_pk (wdb w)"])
      (auto simp: token_create_def validate_scopes_def token_generate_def bindM_def Let_def fresh_pk_apply log_action_def
        split: if_splits)
qed

text \<open>
  An API token works until it is revoked or expires: after a token is created, authenticating with
  \<open>Token <raw>\<close> yields exactly its owner and its scopes, while the owner is active and the expiry lies in
  the future; once the token is revoked the same header is refused, and so it is from the moment of expiry on.
  Only the hash of the raw token is stored.
\<close>

theorem api_token_lifecycle:
  assumes "token_create hash (uk, u) name scopes expires ip w = (Inr raw, w')"
    and "row_get uk (users (wdb w)) = Some u" and "usr_is_active u"
    and "\<forall>c \<in> set raw. \<not> is_space c" and "row_get (next_pk (wdb w)) (api_tokens (wdb w)) = None"
  shows "\<exists>k tok. row_get k (api_tokens (wdb w')) = Some tok \<and> tok_scopes tok = scopes \<and> tok_hash tok = hash raw \<and>
     ((case expires of None \<Rightarrow> True | Some x \<Rightarrow> clock w < x) \<longrightarrow>
        fst (token_authenticate hash (''Token '' @ raw) w') = Inr (Some ((uk, u), (k, tok)))) \<and>
     ((case expires of None \<Rightarrow> False | Some x \<Rightarrow> x \<le> clock w) \<longrightarrow>
        fst (token_authenticate hash (''Token '' @ raw) w') = Inl (auth_failed ''This API token has expired or been revoked.'')) \<and>
     fst (token_authenticate hash (''Token '' @ raw) (snd (token_revoke k w'))) =
        Inl (auth_failed ''This API token has expired or been revoked.'')"
proof -
  obtain tok k where t: "raw = TOKEN_PREFIX @ uuids w (uuid_next w)" "tok_hash tok = hash raw" "tok_scopes tok = scopes"
      "tok_user tok = uk" "tok_expires_at tok = expires" "\<not> tok_revoked tok"
      "rows_where (\<lambda>x. tok_hash x = hash raw) (api_tokens (wdb w)) = []"
      "api_tokens (wdb w') = row_add k tok (api_tokens (wdb w))" "users (wdb w') = users (wdb w)" "clock w' = clock w" "k = next_pk (wdb w)"
    using token_create_run [OF assms(1)] by blast
  have raw: "raw \<noteq> []" using t(1) by (simp add: TOKEN_PREFIX_def)
  note hdr = split_header [OF assms(4) raw]
  have rows: "rows_where (\<lambda>x. tok_hash x = hash raw) (api_tokens (wdb w')) = [(k, tok)]" using t by (simp add: rows_where_add)
  have row: "row_get k (api_tokens (wdb w')) = Some tok" using t(8,11) assms(5) by (simp add: tbl.get_add)
  let ?rev = "\<lambda>x. x\<lparr>tok_revoked := True, tok_revoked_at := Some (clock w)\<rparr>"
  have rev: "api_tokens (wdb (snd (token_revoke k w'))) = row_mod k ?rev (api_tokens (wdb w'))"
      "clock (snd (token_revoke k w')) = clock w"
    using row t(10) by (simp_all add: token_revoke_def save_row_apply)
  have "rows_where (\<lambda>x. tok_hash x = hash raw) (row_mod k ?rev (api_tokens (wdb w'))) = [(k, ?rev tok)]"
    using rows by (rule rows_where_mod_kept) simp
  then have "fst (token_authenticate hash (''Token '' @ raw) (snd (token_revoke k w'))) =
      Inl (auth_failed ''This API token has expired or been revoked.'')"
    unfolding token_authenticate_def hdr by (simp add: bindM_def rev token_is_valid_def)
  moreover have "fst (token_authenticate hash (''Token '' @ raw) w') = Inr (Some ((uk, u), (k, tok)))"
    if "case expires of None \<Rightarrow> True | Some x \<Rightarrow> clock w < x"
    using that t rows assms(2,3) unfolding token_authenticate_def hdr
    by (auto simp: bindM_def token_is_valid_def get_row_apply split: option.splits)
  moreover have "fst (token_authenticate hash (''Token '' @ raw) w') = Inl (auth_failed ''This API token has expired or been revoked.'')"
    if "case expires of None \<Rightarrow> False | Some x \<Rightarrow> x \<le> clock w"
    using that t rows unfolding token_authenticate_def hdr by (auto simp: bindM_def token_is_valid_def split: option.splits)
  ultimately show ?thesis using row t(2,3) by blast
qed

theorem api_token_lifecycle_witness:
  "\<exists>w' k tok. token_create (\<lambda>s. s) (5, ex_user) ''ci'' [''vm.view''] None None ex_acl = (Inr ''npt_u'', w') \<and>
     tok_scopes tok = [''vm.view''] \<and>
     fst (token_authenticate (\<lambda>s. s) (''Token '' @ ''npt_u'') w') = Inr (Some ((5, ex_user), (k, tok)))"
proof -
  have "\<exists>w'. token_create (\<lambda>s. s) (5, ex_user) ''ci'' [''vm.view''] None None ex_acl = (Inr ''npt_u'', w')"
    by (simp add: token_create_def validate_scopes_def token_generate_def bindM_def Let_def fresh_pk_apply log_action_def
        ex_acl_def ex_db_def TOKEN_PREFIX_def PERMISSION_CATALOG_def ex_uuids)
  then obtain w' where w': "token_create (\<lambda>s. s) (5, ex_user) ''ci'' [''vm.view''] None None ex_acl = (Inr ''npt_u'', w')" by blast
  have "\<exists>k tok. tok_scopes tok = [''vm.view''] \<and>
     fst (token_authenticate (\<lambda>s. s) (''Token '' @ ''npt_u'') w') = Inr (Some ((5, ex_user), (k, tok)))"
    using api_token_lifecycle [OF w'] by (auto simp: ex_acl_def ex_db_def ex_user_def is_space_def)
  with w' show ?thesis by blast
qed

subsection \<open>Properties of tickets\<close>

text \<open>The life of the ticket store: tickets are issued and redeemed in any order while time passes.\<close>

datatype ticket_event = Issue user | Redeem string | Elapse nat

text \<open>What was issued and what was redeemed: ticket, user uuid and time.\<close>

fun ticket_step :: "ticket_event \<Rightarrow> world \<Rightarrow> world" where
  "ticket_step (Issue u) w = snd (issue_ticket u w)"
| "ticket_step (Redeem t) w = snd (redeem_ticket t w)"
| "ticket_step (Elapse n) w = w\<lparr>clock := clock w + n\<rparr>"

fun issues :: "ticket_event list \<Rightarrow> world \<Rightarrow> (string \<times> string \<times> nat) list" where
  "issues [] w = []"
| "issues (e # es) w = (case e of Issue u \<Rightarrow> [(uuids w (uuid_next w), uuid u, clock w)] | _ \<Rightarrow> []) @ issues es (ticket_step e w)"

fun redemptions :: "ticket_event list \<Rightarrow> world \<Rightarrow> (string \<times> string \<times> nat) list" where
  "redemptions [] w = []"
| "redemptions (e # es) w = (case e of
      Redeem t \<Rightarrow> (case fst (redeem_ticket t w) of Inr (Some u) \<Rightarrow> [(t, u, clock w)] | _ \<Rightarrow> [])
    | _ \<Rightarrow> []) @ redemptions es (ticket_step e w)"

lemma ticket_key_inj [simp]: "ticket_key s = ticket_key t \<longleftrightarrow> s = t"
  by (simp add: ticket_key_def)

lemma issue_run:
  "issue_ticket u w = (Inr (uuids w (uuid_next w)),
     redis_put (ticket_key (uuids w (uuid_next w))) (RStr (uuid u)) (Some 30000) (w\<lparr>uuid_next := uuid_next w + 1\<rparr>))"
  by (simp add: issue_ticket_def bindM_def TICKET_TTL_SECONDS_def)

lemma redeem_run:
  "redeem_ticket t w = (case redis_lookup w (ticket_key t) of
     Some (RStr s) \<Rightarrow> (Inr (Some s), redis_drop (ticket_key t) w) | _ \<Rightarrow> (Inr None, w))"
  by (simp add: redeem_ticket_def bindM_def split: option.splits rval.splits)

definition stored :: "world \<Rightarrow> string \<Rightarrow> (rval \<times> nat option) option" where
  "stored w t = map_of (redis w) (ticket_key t)"

lemma stored_issue:
  "stored (ticket_step (Issue u) w) t =
     (if t = uuids w (uuid_next w) then Some (RStr (uuid u), Some (clock w + 30000)) else stored w t)"
  by (simp add: stored_def issue_run redis_put_def map_of_filter_key)

lemma stored_redeem: "stored (ticket_step (Redeem s) w) t \<in> {None, stored w t}"
  "fst (redeem_ticket t w) = Inr (Some u) \<Longrightarrow> stored (ticket_step (Redeem t) w) t = None"
  by (auto simp: stored_def redeem_run redis_drop_def map_of_filter_key split: option.splits rval.splits)

lemma stored_elapse [simp]: "stored (ticket_step (Elapse n) w) t = stored w t"
  by (simp add: stored_def)

lemma redeemed_stored:
  "fst (redeem_ticket t w) = Inr (Some u) \<Longrightarrow> \<exists>e. stored w t = Some (RStr u, e) \<and> live (clock w) e"
  by (auto simp: redeem_run stored_def redis_lookup_def split: option.splits rval.splits if_splits)

lemma ticket_step_clock: "clock w \<le> clock (ticket_step e w)"
  by (cases e) (simp_all add: issue_run redeem_run split: option.splits rval.splits)

lemma ticket_step_uuids [simp]: "uuids (ticket_step e w) = uuids w"
  by (cases e) (simp_all add: issue_run redeem_run split: option.splits rval.splits)

lemma ticket_step_next: "uuid_next (ticket_step e w) = (case e of Issue u \<Rightarrow> uuid_next w + 1 | _ \<Rightarrow> uuid_next w)"
  by (cases e) (simp_all add: issue_run redeem_run split: option.splits rval.splits)

declare ticket_step.simps [simp del]

lemma redemption_time: "(t, u, tm) \<in> set (redemptions es w) \<Longrightarrow> clock w \<le> tm"
proof (induction es w rule: redemptions.induct)
  case (2 e es w)
  then show ?case using ticket_step_clock [of w e] by (fastforce split: ticket_event.splits sum.splits option.splits)
qed simp

text \<open>A redeemed ticket was stored at the start, with that user and an expiry not yet reached, or was issued since.\<close>

lemma redemption_origin:
  "(t, u, tm) \<in> set (redemptions es w) \<Longrightarrow>
     (\<exists>e. stored w t = Some (RStr u, e) \<and> live tm e) \<or> (\<exists>ti. (t, u, ti) \<in> set (issues es w) \<and> ti \<le> tm \<and> tm < ti + 30000)"
proof (induction es w rule: redemptions.induct)
  case (2 e es w)
  show ?case
  proof (cases "(t, u, tm) \<in> set (redemptions es (ticket_step e w))")
    case True
    then consider (a) x where "stored (ticket_step e w) t = Some (RStr u, x)" "live tm x"
      | (b) ti where "(t, u, ti) \<in> set (issues es (ticket_step e w))" "ti \<le> tm" "tm < ti + 30000"
      using 2 by blast
    then show ?thesis
    proof cases
      case a
      show ?thesis
      proof (cases e)
        case (Issue v)
        then show ?thesis
          using a stored_issue [of v w t] redemption_time [OF True] ticket_step_clock [of w e]
          by (auto simp: live_def split: if_splits)
      next
        case (Redeem s)
        then show ?thesis using a stored_redeem(1) [of s w t] by auto
      qed (use a in auto)
    qed auto
  next
    case False
    then obtain s where "e = Redeem s" "s = t" "fst (redeem_ticket t w) = Inr (Some u)" "tm = clock w"
      using "2.prems" by (auto split: ticket_event.splits sum.splits option.splits)
    then show ?thesis using redeemed_stored [of t w u] by auto
  qed
qed simp

lemma issues_index: "(t, u, ti) \<in> set (issues es w) \<Longrightarrow> \<exists>n \<ge> uuid_next w. t = uuids w n"
proof (induction es w rule: issues.induct)
  case (2 e es w)
  show ?case
  proof (cases "(t, u, ti) \<in> set (issues es (ticket_step e w))")
    case True
    then obtain n where "uuid_next (ticket_step e w) \<le> n" "t = uuids w n" using "2.IH" by auto
    then show ?thesis using ticket_step_next [of e w] by (intro exI [of _ n]) (auto split: ticket_event.splits)
  next
    case False
    then show ?thesis using "2.prems" by (auto split: ticket_event.splits)
  qed
qed simp

lemma redemptions_distinct:
  assumes "inj (uuids w)" and "\<And>n. uuid_next w \<le> n \<Longrightarrow> stored w (uuids w n) = None"
  shows "distinct (map fst (redemptions es w))"
  using assms
proof (induction es arbitrary: w)
  case (Cons e es)
  let ?w = "ticket_step e w"
  have fresh: "stored ?w (uuids ?w n) = None" if "uuid_next ?w \<le> n" for n
  proof (cases e)
    case (Issue u)
    then have "n \<noteq> uuid_next w" "stored w (uuids w n) = None" using that Cons.prems(2) [of n] ticket_step_next [of e w] by auto
    then show ?thesis using Issue stored_issue [of u w "uuids w n"] Cons.prems(1) by (auto simp: inj_eq)
  next
    case (Redeem s)
    then show ?thesis using that Cons.prems(2) [of n] stored_redeem(1) [of s w "uuids w n"] ticket_step_next [of e w] by auto
  next
    case (Elapse k)
    then show ?thesis using that Cons.prems(2) [of n] ticket_step_next [of e w] by simp
  qed
  have ih: "distinct (map fst (redemptions es ?w))" using Cons.IH [of ?w] Cons.prems(1) fresh by simp
  have "t \<notin> fst ` set (redemptions es ?w)" if "e = Redeem t" "fst (redeem_ticket t w) = Inr (Some u)" for t u
  proof
    assume "t \<in> fst ` set (redemptions es ?w)"
    then obtain v tm where "(t, v, tm) \<in> set (redemptions es ?w)" by force
    moreover have "stored ?w t = None" using stored_redeem(2) that by simp
    ultimately obtain n where "uuid_next ?w \<le> n" "t = uuids ?w n"
      using redemption_origin [of t v tm es ?w] issues_index by fastforce
    moreover have "uuid_next ?w = uuid_next w" using that(1) ticket_step_next [of e w] by simp
    ultimately have "stored w t = None" using Cons.prems(2) [of n] by simp
    then show False using redeemed_stored [OF that(2)] by simp
  qed
  then show ?case using ih by (auto split: ticket_event.splits sum.splits option.splits)
qed simp

text \<open>
  C34. Websocket tickets are single use, bound to their user and short-lived: over any sequence of issuing,
  redeeming and waiting, starting without stored tickets and with secrets that never repeat, no ticket is
  redeemed twice, and every successful redemption yields the user the ticket was issued to, less than
  \<open>TICKET_TTL_SECONDS\<close> after it was issued.
\<close>

theorem ticket_single_use:
  assumes "inj (uuids w)" and "\<And>t. stored w t = None"
  shows "distinct (map fst (redemptions es w)) \<and>
     (\<forall>t u tm. (t, u, tm) \<in> set (redemptions es w) \<longrightarrow>
        (\<exists>ti. (t, u, ti) \<in> set (issues es w) \<and> ti \<le> tm \<and> tm < ti + TICKET_TTL_SECONDS * 1000))"
  using redemptions_distinct [of w es] redemption_origin [of _ _ _ es w] assms by (auto simp: TICKET_TTL_SECONDS_def) 

lemma ex_uuids_inj: "inj (uuids ex_acl)"
proof (rule injI)
  fix m n
  assume "uuids ex_acl m = uuids ex_acl n"
  then have "length (replicate m CHR ''1'') = length (replicate n CHR ''1'')" by (simp add: ex_acl_def ex_world_def)
  then show "m = n" by simp
qed

theorem ticket_single_use_witness:
  "distinct (map fst (redemptions [Issue ex_user, Elapse 5000, Redeem ''u'', Redeem ''u''] ex_acl)) \<and>
     redemptions [Issue ex_user, Elapse 5000, Redeem ''u'', Redeem ''u''] ex_acl = [(''u'', ''us1'', 105000)] \<and>
     (\<exists>ti. (''u'', ''us1'', ti) \<in> set (issues [Issue ex_user, Elapse 5000, Redeem ''u'', Redeem ''u''] ex_acl) \<and>
        ti \<le> 105000 \<and> 105000 < ti + TICKET_TTL_SECONDS * 1000)"
proof -
  let ?es = "[Issue ex_user, Elapse 5000, Redeem ''u'', Redeem ''u'']"
  have r: "redemptions ?es ex_acl = [(''u'', ''us1'', 105000)]"
    by (simp add: ticket_step.simps issue_run redeem_run redis_lookup_def redis_put_def redis_drop_def live_def ex_acl_def
        ex_uuids ex_user_def ticket_key_def)
  have "stored ex_acl t = None" for t by (simp add: stored_def)
  from ticket_single_use [OF ex_uuids_inj this, of ?es] show ?thesis unfolding r by (auto simp del: issues.simps)
qed

subsection \<open>Properties of the websocket gates\<close>

lemma can_view_True:
  "can_view usr og c w = (Inr True, w1) \<Longrightarrow>
     \<exists>uk u. usr = Some (uk, u) \<and> (usr_is_superuser u \<or> c \<in> set (current_codes w uk og None)) \<and> wdb w1 = wdb w"
  by (cases usr) (auto simp: can_view_def has_permission_def codenames_for_run bindM_def split: if_splits)


text \<open>The sample installation with the VM running and an administrator.\<close>

definition ex_admin :: user where
  "ex_admin = ex_user\<lparr>usr_is_superuser := True\<rparr>"

definition ex_running :: virtual_machine where
  "ex_running = ex_vm\<lparr>vm_status := VS_RUNNING\<rparr>"

definition ex_console :: world where
  "ex_console = db_upd (\<lambda>d. d\<lparr>vms := [(20, ex_running)]\<rparr>) ex_world"

abbreviation ex_console1 :: world where
  "ex_console1 \<equiv> ex_console\<lparr>uuid_next := 1\<rparr>"

definition ex_console_reply :: json where
  "ex_console_reply = JObj [(''request_id'', JStr ''u1''), (''success'', JBool True), (''data'', JObj [(''state'', JStr ''ok'')])]"

lemma ex_console_uuids: "uuids ex_console n = ''u'' @ replicate n CHR ''1''"
  by (simp add: ex_console_def ex_uuids)

lemma ex_console_opens:
  "fst (send_operation (Some 10) OPEN_CONSOLE ''v1'' (JObj [(''session_id'', JStr ''u'')]) None ex_console1) =
     Inr (JObj [(''state'', JStr ''ok'')])"
proof -
  let ?p = "JObj [(''session_id'', JStr ''u'')]"
  have r: "reachable_node ex_console1 (Some 10) ex_node"
    by (simp add: reachable_node_def agent_of_node_def rows_where_def is_usable_def is_agent_connected_def ex_console_def
        connection_key_def ex_agent_def ex_node_def redis_lookup_def live_def ex_redis)
  have rid: "uuids ex_console1 (uuid_next ex_console1) = ''u1''" by (simp add: ex_console_uuids)
  have none: "redis_lookup ex_console1 (response_key ''u1'') = None"
    by (simp add: redis_lookup_def response_key_def ex_console_def ex_redis)
  have env: "agent_env ex_console1 ''n1'' 0 (to_wire (mk_request ex_console1 OPEN_CONSOLE ''v1'' ?p)) = [(100, Some ex_console_reply)]"
    by (simp add: to_wire_def mk_request_def ex_console_uuids)
      (simp add: ex_console_def ex_world_def ex_agent_env_def jget_def ex_console_reply_def)
  have "reply_frame ex_console_reply" "answers ''u1'' ex_console_reply"
    by (simp_all add: reply_frame_def answers_def jget_def request_id_text_def ex_console_reply_def)
  then have "fst (poll_loop (response_key ''u1'') (100000 + rpc_seconds ex_console1 None * 1000)
      (published ex_node OPEN_CONSOLE ''v1'' ?p ex_console1)) = Some (RJson ex_console_reply)"
    by (intro poll_loop_answered [where ta = 100100 and u = "''n1''"])
      (use env none rid in \<open>simp_all add: sched_published agent_answers_def rpc_seconds_def NODEPILOT_def ex_node_def ex_console_def
        redis_lookup_cong [of "published n oper i q v" v for n oper i q v]\<close>)
  then have "fst (polled ex_node OPEN_CONSOLE ''v1'' ?p None ex_console1) = Some (RJson ex_console_reply)"
    using rid by (simp add: polled_def ex_console_def)
  then show ?thesis
    unfolding send_operation_reachable [OF r] by (simp add: read_reply_def from_wire_def jget_def truthy_def ex_console_reply_def)
qed

lemma ex_console_accepted:
  "\<exists>w'. console_connect (Some (5, ex_admin)) ''v1'' ex_console = (Inr (WsAccepted ''console.u'' ((20, ex_running), ''u'')), w')"
proof -
  obtain w' where s: "send_operation (Some 10) OPEN_CONSOLE ''v1'' (JObj [(''session_id'', JStr ''u'')]) None ex_console1 =
      (Inr (JObj [(''state'', JStr ''ok'')]), w')"
    using ex_console_opens by (metis prod.collapse)
  have v: "by_uuid (vms (wdb ex_console)) ''v1'' = Some (20, ex_running)" "vm_node ex_running = Some 10" "uuid ex_running = ''v1''"
    "vm_status ex_running = VS_RUNNING"
    by (simp_all add: by_uuid_def rows_where_def ex_console_def ex_running_def ex_vm_def)
  have "open_console (20, ex_running) ''u'' ex_console1 = (Inr True, w')" using s v by (simp add: open_console_def tryM_def bindM_def)
  moreover have "uuids ex_console (uuid_next ex_console) = ''u''" "uuid_next ex_console = 0" by (simp_all add: ex_console_def ex_uuids)
  ultimately show ?thesis
    using v by (simp add: console_connect_def can_view_def has_permission_def ex_admin_def bindM_def)
qed


end
