(* ===== verification/Images.thy ===== *)
theory Images
  imports Tokens
begin

section \<open>Images: chunked upload, finalization, download and deletion\<close>

text \<open>
  \<open>backend/apps/images/views.py\<close> and \<open>backend/apps/images/storage_backend.py\<close>. The state is the world and
  the files of the two directories the controller manages. A file name is a string, so that two images share a
  file exactly when their names agree. Each handler that reads its session first and acts on that instance later
  is split there (\<open>get_session\<close>, then \<open>..._run\<close>), since other requests may come between. \<open>sha\<close> is the
  hexadecimal SHA-256 of a byte string.
\<close>

datatype directory = ChunkDir | ImagesDir

type_synonym path = "directory \<times> string"

record istore =
  iw :: world
  files :: "path \<Rightarrow> string option"

type_synonym 'a iop = "(exn, istore, 'a) M"

definition liftW :: "'a op \<Rightarrow> 'a iop" where
  "liftW m = (\<lambda>s. case m (iw s) of (r, w) \<Rightarrow> (r, s\<lparr>iw := w\<rparr>))"

text \<open>What a view answers: data, or an error response it builds itself.\<close>

datatype 'a reply = Reply 'a | Refused nat string

subsection \<open>Files\<close>

definition CHUNK_READ_SIZE :: nat where
  "CHUNK_READ_SIZE = 4 * 1024 * 1024"

definition temp_path :: "upload_session \<Rightarrow> path" where
  "temp_path r = (ChunkDir, uuid r @ ''.part'')"

definition final_path :: "image \<Rightarrow> path" where
  "final_path i = (ImagesDir, uuid i @ ''.'' @ lower (if img_format i \<noteq> '''' then img_format i else show_ImageType (img_type i)))"

text \<open>\<open>UploadedFile.chunks\<close> and \<open>iter(fh.read(n))\<close>: successive blocks of at most \<open>n\<close> bytes.\<close>

function blocks :: "nat \<Rightarrow> string \<Rightarrow> string list" where
  "blocks n xs = (if xs = [] then [] else if n = 0 then [xs] else take n xs # blocks n (drop n xs))"
  by pat_completeness auto

termination
  by (relation "measure (\<lambda>(n, xs). length xs)") auto

declare blocks.simps [simp del]

definition put_file :: "path \<Rightarrow> string option \<Rightarrow> unit iop" where
  "put_file p b = modM (\<lambda>s. s\<lparr>files := (files s)(p := b)\<rparr>)"

text \<open>\<open>write_chunk\<close> on the session instance \<open>r\<close> in memory; it returns the bytes written and the instance.\<close>

definition write_chunk :: "nat \<times> upload_session \<Rightarrow> int \<Rightarrow> string \<Rightarrow> (nat \<times> upload_session) iop" where
  "write_chunk kr index body = (case kr of (k, r) \<Rightarrow>
     if index \<noteq> int (ups_next_chunk_index r)
     then raiseM (api_exn UploadOutOfOrder (''Expected chunk '' @ show_nat (ups_next_chunk_index r) @ '', got '' @ show_int index @ ''.''))
     else bindM (getM (\<lambda>s. files s (temp_path r))) (\<lambda>old.
       let bs = blocks CHUNK_READ_SIZE body;
           written = sum_list (map length bs);
           r' = r\<lparr>ups_received_bytes := ups_received_bytes r + written, ups_next_chunk_index := ups_next_chunk_index r + 1\<rparr>
       in bindM (put_file (temp_path r) (Some (fold (\<lambda>b out. out @ b) bs (case old of None \<Rightarrow> '''' | Some c \<Rightarrow> c)))) (\<lambda>_.
          bindM (liftW (save_row upload_sessions upload_sessions_update k
             (\<lambda>x. x\<lparr>ups_received_bytes := ups_received_bytes r', ups_next_chunk_index := ups_next_chunk_index r'\<rparr>))) (\<lambda>_.
          returnM (written, r')))))"

text \<open>\<open>finalize_upload\<close>; the exception for a missing file is built with a keyword its class does not take.\<close>

definition finalize_upload :: "(string \<Rightarrow> string) \<Rightarrow> upload_session \<Rightarrow> (string \<times> nat) iop" where
  "finalize_upload sha r = bindM (getM (\<lambda>s. files s (temp_path r))) (\<lambda>src. case src of
     None \<Rightarrow> raiseM (TypeError ''NodePilotAPIException.__init__() got an unexpected keyword argument status_code'')
   | Some bytes \<Rightarrow>
       let actual_size = length bytes;
           checksum = sha (fold (\<lambda>b d. d @ b) (blocks CHUNK_READ_SIZE bytes) '''')
       in if actual_size \<noteq> ups_total_size_bytes r
          then raiseM (mk_api UploadSizeMismatch None
                 (Some (JObj [(''expected'', JInt (int (ups_total_size_bytes r))), (''actual'', JInt (int actual_size))])))
          else if ups_expected_sha256 r \<noteq> '''' \<and> lower (ups_expected_sha256 r) \<noteq> checksum
          then raiseM (mk_api ChecksumMismatch None
                 (Some (JObj [(''expected'', JStr (ups_expected_sha256 r)), (''actual'', JStr checksum)])))
          else bindM (liftW (get_row ''Image'' images (ups_image r))) (\<lambda>i.
               if CHR ''/'' \<in> set (snd (final_path i)) then raiseM (OtherError ''FileNotFoundError'')
               else bindM (put_file (final_path i) (Some bytes)) (\<lambda>_.
                    bindM (put_file (temp_path r) None) (\<lambda>_. returnM (checksum, actual_size)))))"

definition delete_image_file :: "image \<Rightarrow> unit iop" where
  "delete_image_file i = put_file (final_path i) None"

definition abort_upload :: "upload_session \<Rightarrow> unit iop" where
  "abort_upload r = put_file (temp_path r) None"

subsection \<open>Upload views\<close>

text \<open>Validated data of \<open>InitiateUploadSerializer\<close>: \<open>storage\<close> is a row key, the size is at least 1.\<close>

record upload_data =
  upl_name :: string
  upl_version :: string
  upl_type :: ImageType
  upl_format :: string
  upl_storage :: nat
  upl_total_size_bytes :: nat
  upl_expected_sha256 :: string

definition log_request :: "nat \<times> user \<Rightarrow> string option \<Rightarrow> string \<Rightarrow> string \<Rightarrow> string \<Rightarrow> nat option \<Rightarrow> unit op" where
  "log_request usr ip act rtype rid org =
     bindM (log_action (Some (fst usr)) (usr_username (snd usr)) act rtype rid org ip AR_SUCCESS (JObj [])) (\<lambda>_. returnM ())"

definition initiate_upload :: "nat \<times> user \<Rightarrow> string option \<Rightarrow> upload_data \<Rightarrow> (nat \<times> upload_session) op" where
  "initiate_upload usr ip data =
     bindM (get_row ''StoragePool'' storage_pools (upl_storage data)) (\<lambda>st.
     bindM (get_row ''Node'' nodes (sto_node st)) (\<lambda>n.
     bindM uuid4 (\<lambda>iu. bindM now (\<lambda>t. bindM fresh_pk (\<lambda>ik.
     let i = \<lparr> uuid = iu, created_at = t, updated_at = t, img_organization = nod_organization n, img_storage = upl_storage data,
               img_name = upl_name data, img_version = upl_version data, img_type = upl_type data,
               img_format = (if upl_format data \<noteq> '''' then upl_format data else lower (show_ImageType (upl_type data))),
               img_size_bytes = 0, img_checksum_algorithm = ''sha256'', img_sha256 = '''', img_source = ''UPLOAD'', img_file_path = '''',
               img_status = IS_UPLOADING, img_metadata = JObj [] \<rparr>
     in bindM (moddb (\<lambda>d. d\<lparr>images := row_add ik i (images d)\<rparr>)) (\<lambda>_.
     bindM uuid4 (\<lambda>su. bindM fresh_pk (\<lambda>sk.
     let r = \<lparr> uuid = su, created_at = t, updated_at = t, ups_image = ik, ups_created_by = Some (fst usr),
               ups_total_size_bytes = upl_total_size_bytes data, ups_received_bytes = 0, ups_next_chunk_index = 0,
               ups_expected_sha256 = upl_expected_sha256 data, ups_status = US_UPLOADING, ups_error = '''' \<rparr>
     in bindM (moddb (\<lambda>d. d\<lparr>upload_sessions := row_add sk r (upload_sessions d)\<rparr>)) (\<lambda>_.
     bindM (log_request usr ip ''IMAGE_UPLOAD_INITIATE'' ''Image'' iu (Some (nod_organization n))) (\<lambda>_.
     returnM (sk, r)))))))))))"

text \<open>\<open>_get_session\<close>: only the creator's own session.\<close>

definition get_session :: "string \<Rightarrow> nat \<Rightarrow> (nat \<times> upload_session) op" where
  "get_session u uk = bindM (getdb (\<lambda>d. rows_where (\<lambda>r. uuid r = u \<and> ups_created_by r = Some uk) (upload_sessions d))) (\<lambda>rs. case rs of
     kr # _ \<Rightarrow> returnM kr
   | [] \<Rightarrow> raiseM (DrfExn 404 ''NOT_FOUND'' ''No ImageUploadSession matches the given query.''))"

definition try_lock_files :: "string \<Rightarrow> nat \<Rightarrow> 'a iop \<Rightarrow> 'a iop" where
  "try_lock_files key ttl body = bindM (liftW (new_lock key ttl)) (\<lambda>l. bindM (liftW (acquire l False 10000)) (\<lambda>ok.
     if ok then finallyM body (liftW (bindM (release l) (\<lambda>_. returnM ())))
     else raiseM (LockAcquisitionError (lk_key l))))"

text \<open>
  \<open>ChunkUploadView.put\<close> after the session was read. \<open>index\<close>: absent, not a number, or a number; \<open>file\<close>: the body
  if the request has one.
\<close>

definition chunk_run :: "int option option \<Rightarrow> string option \<Rightarrow> nat \<times> upload_session \<Rightarrow> (nat \<times> nat \<times> nat) reply iop" where
  "chunk_run index body kr = (case kr of (k, r) \<Rightarrow>
     if ups_status r \<noteq> US_UPLOADING then returnM (Refused 409 ''UPLOAD_NOT_ACTIVE'')
     else case (case index of None \<Rightarrow> Some (int (ups_next_chunk_index r)) | Some x \<Rightarrow> x) of
       None \<Rightarrow> raiseM (ValueError ''invalid literal for int() with base 10'')
     | Some n \<Rightarrow> (case body of
         None \<Rightarrow> returnM (Refused 400 ''VALIDATION_FAILED'')
       | Some b \<Rightarrow> bindM (tryM (bindM (try_lock_files (''image-upload:'' @ uuid r) 60 (write_chunk (k, r) n b)) (\<lambda>x. returnM (Some x)))
              (\<lambda>e. if is_lock_error e then returnM None else raiseM e)) (\<lambda>res. case res of
            None \<Rightarrow> returnM (Refused 409 ''UPLOAD_BUSY'')
          | Some (written, r') \<Rightarrow> returnM (Reply (ups_received_bytes r', ups_next_chunk_index r', written)))))"

definition chunk_put :: "string \<Rightarrow> nat \<Rightarrow> int option option \<Rightarrow> string option \<Rightarrow> (nat \<times> nat \<times> nat) reply iop" where
  "chunk_put u uk index body = bindM (liftW (get_session u uk)) (chunk_run index body)"

definition save_session :: "nat \<Rightarrow> (upload_session \<Rightarrow> upload_session) \<Rightarrow> unit op" where
  "save_session k f = save_row upload_sessions upload_sessions_update k f"

definition save_image :: "nat \<Rightarrow> (image \<Rightarrow> image) \<Rightarrow> unit op" where
  "save_image k f = bindM (get_row ''Image'' images k) (\<lambda>_. save_row images images_update k f)"

definition finalize_run :: "(string \<Rightarrow> string) \<Rightarrow> nat \<times> user \<Rightarrow> string option \<Rightarrow> nat \<times> upload_session \<Rightarrow> image reply iop" where
  "finalize_run sha usr ip kr = (case kr of (k, r) \<Rightarrow>
     if ups_status r = US_COMPLETED
     then bindM (liftW (get_row ''Image'' images (ups_image r))) (\<lambda>i. returnM (Reply i))
     else if ups_status r \<noteq> US_UPLOADING then returnM (Refused 409 ''UPLOAD_NOT_ACTIVE'')
     else bindM (tryM (finalize_upload sha r) (\<lambda>e.
            bindM (liftW (save_session k (\<lambda>x. x\<lparr>ups_status := US_FAILED, ups_error := str_exn e\<rparr>))) (\<lambda>_.
            bindM (liftW (save_image (ups_image r) (\<lambda>i. i\<lparr>img_status := IS_FAILED\<rparr>))) (\<lambda>_. raiseM e)))) (\<lambda>(checksum, sz).
          bindM (liftW (save_session k (\<lambda>x. x\<lparr>ups_status := US_COMPLETED\<rparr>))) (\<lambda>_.
          bindM (liftW (save_image (ups_image r) (\<lambda>i. i\<lparr>img_sha256 := checksum, img_size_bytes := sz, img_status := IS_READY\<rparr>))) (\<lambda>_.
          bindM (liftW (get_row ''Image'' images (ups_image r))) (\<lambda>i.
          bindM (liftW (log_request usr ip ''IMAGE_UPLOAD_COMPLETE'' ''Image'' (uuid i) (Some (img_organization i)))) (\<lambda>_.
          returnM (Reply i)))))))"

definition finalize :: "(string \<Rightarrow> string) \<Rightarrow> nat \<times> user \<Rightarrow> string option \<Rightarrow> string \<Rightarrow> image reply iop" where
  "finalize sha usr ip u = bindM (liftW (get_session u (fst usr))) (finalize_run sha usr ip)"

definition abort_run :: "nat \<times> upload_session \<Rightarrow> unit iop" where
  "abort_run kr = (case kr of (k, r) \<Rightarrow>
     bindM (abort_upload r) (\<lambda>_.
     bindM (liftW (save_session k (\<lambda>x. x\<lparr>ups_status := US_ABORTED\<rparr>))) (\<lambda>_.
     liftW (save_image (ups_image r) (\<lambda>i. i\<lparr>img_status := IS_FAILED\<rparr>)))))"

definition abort :: "string \<Rightarrow> nat \<Rightarrow> unit iop" where
  "abort u uk = bindM (liftW (get_session u uk)) abort_run"

subsection \<open>Image views\<close>

text \<open>
  Deleting an image row: templates protect it, its upload session goes with it, disks forget their source.
\<close>

definition delete_image_row :: "nat \<Rightarrow> unit op" where
  "delete_image_row k = bindM (getdb (\<lambda>d. rows_where (\<lambda>t. tpl_image t = k) (templates d))) (\<lambda>ts.
     if ts \<noteq> [] then raiseM (ProtectedError ''Cannot delete some instances of model Image'')
     else moddb (\<lambda>d. d\<lparr>images := row_del k (images d),
            upload_sessions := filter (\<lambda>(_, r). ups_image r \<noteq> k) (upload_sessions d),
            disks := map (\<lambda>(dk, x). (dk, if dsk_source_image x = Some k then x\<lparr>dsk_source_image := None\<rparr> else x)) (disks d)\<rparr>))"

definition image_destroy :: "nat \<times> user \<Rightarrow> string option \<Rightarrow> nat \<Rightarrow> unit iop" where
  "image_destroy usr ip k = bindM (liftW (get_row ''Image'' images k)) (\<lambda>i.
     bindM (delete_image_file i) (\<lambda>_.
     bindM (liftW (log_request usr ip ''IMAGE_DELETE'' ''Image'' (uuid i) (Some (img_organization i)))) (\<lambda>_.
     liftW (delete_image_row k))))"

definition read_image :: "image \<Rightarrow> string iop" where
  "read_image i = bindM (getM (\<lambda>s. files s (final_path i))) (\<lambda>b. case b of
     None \<Rightarrow> raiseM (OtherError ''FileNotFoundError'') | Some x \<Rightarrow> returnM x)"

definition image_download :: "image \<Rightarrow> (string \<times> string) reply iop" where
  "image_download i = (if img_status i \<noteq> IS_READY then returnM (Refused 409 ''IMAGE_NOT_READY'')
     else bindM (read_image i) (\<lambda>b. returnM (Reply (img_name i @ ''.'' @ (if img_format i \<noteq> '''' then img_format i else ''img''), b))))"

text \<open>\<open>AgentImageDownloadView.get\<close>: the bytes and the checksum and format headers.\<close>

definition agent_image_download :: "agent \<Rightarrow> string \<Rightarrow> (string \<times> string \<times> string) reply iop" where
  "agent_image_download a u =
     bindM (liftW (getdb (\<lambda>d. rows_where (\<lambda>i. uuid i = u) (images d)))) (\<lambda>is. case is of
       [] \<Rightarrow> raiseM (DrfExn 404 ''NOT_FOUND'' ''No Image matches the given query.'')
     | (k, i) # _ \<Rightarrow> bindM (liftW (get_row ''Node'' nodes (agt_node a))) (\<lambda>n.
         if img_organization i \<noteq> nod_organization n then raiseM (DrfExn 404 ''NOT_FOUND'' ''Not found.'')
         else if img_status i \<noteq> IS_READY then returnM (Refused 409 ''IMAGE_NOT_READY'')
         else bindM (read_image i) (\<lambda>b. returnM (Reply (b, img_sha256 i, img_format i)))))"

subsection \<open>Running the operations\<close>

lemma liftW_apply: "liftW m s = (case m (iw s) of (r, w) \<Rightarrow> (r, s\<lparr>iw := w\<rparr>))"
  by (simp add: liftW_def)

lemma put_file_apply: "put_file p b s = (Inr (), s\<lparr>files := (files s)(p := b)\<rparr>)"
  by (simp add: put_file_def)

lemma bind_liftW: "bindM (liftW m) f s = (case m (iw s) of (Inl e, w) \<Rightarrow> (Inl e, s\<lparr>iw := w\<rparr>) | (Inr a, w) \<Rightarrow> f a (s\<lparr>iw := w\<rparr>))"
  by (simp add: bindM_def liftW_def split: prod.splits sum.splits)

lemma bind_put_file: "bindM (put_file p b) f s = f () (s\<lparr>files := (files s)(p := b)\<rparr>)"
  by (simp add: put_file_def)

lemmas files_simps = liftW_apply put_file_apply bind_liftW bind_put_file

lemma concat_blocks [simp]: "concat (blocks n xs) = xs"
  by (induction n xs rule: blocks.induct) (subst blocks.simps, simp)

lemma fold_blocks [simp]: "fold (\<lambda>b out. out @ b) bs acc = acc @ concat bs"
  by (induction bs arbitrary: acc) simp_all

lemma length_blocks [simp]: "sum_list (map length (blocks n xs)) = length xs"
  using concat_blocks [of n xs] by (metis length_concat)

abbreviation upload_key :: "upload_session \<Rightarrow> string" where
  "upload_key r \<equiv> ''nodepilot:lock:'' @ ''image-upload:'' @ uuid r"

text \<open>The instance and the row after a chunk of \<open>n\<close> bytes.\<close>

definition chunk_done :: "nat \<Rightarrow> upload_session \<Rightarrow> upload_session" where
  "chunk_done n r = r\<lparr>ups_received_bytes := ups_received_bytes r + n, ups_next_chunk_index := ups_next_chunk_index r + 1\<rparr>"

lemma chunk_done_simps [simp]:
  "uuid (chunk_done n r) = uuid r" "ups_created_by (chunk_done n r) = ups_created_by r"
  "ups_status (chunk_done n r) = ups_status r" "ups_image (chunk_done n r) = ups_image r"
  "ups_total_size_bytes (chunk_done n r) = ups_total_size_bytes r" "temp_path (chunk_done n r) = temp_path r"
  "ups_expected_sha256 (chunk_done n r) = ups_expected_sha256 r"
  "ups_next_chunk_index (chunk_done n r) = Suc (ups_next_chunk_index r)"
  "ups_received_bytes (chunk_done n r) = ups_received_bytes r + n"
  by (simp_all add: chunk_done_def temp_path_def)

definition progress_of :: "upload_session \<Rightarrow> upload_session \<Rightarrow> upload_session" where
  "progress_of r x = x\<lparr>ups_received_bytes := ups_received_bytes r, ups_next_chunk_index := ups_next_chunk_index r\<rparr>"

definition contents :: "string option \<Rightarrow> string" where
  "contents c = (case c of None \<Rightarrow> '''' | Some b \<Rightarrow> b)"

lemma contents_simps [simp]: "contents None = ''''" "contents (Some b) = b"
  by (simp_all add: contents_def)

lemma write_chunk_run:
  assumes "row_get k (upload_sessions (wdb (iw s))) = Some x"
  shows "write_chunk (k, r) (int (ups_next_chunk_index r)) b s =
    (Inr (length b, chunk_done (length b) r),
     s\<lparr>files := (files s)(temp_path r \<mapsto> contents (files s (temp_path r)) @ b),
       iw := db_upd (upload_sessions_update (row_mod k (progress_of (chunk_done (length b) r)))) (iw s)\<rparr>)"
  using assms
  by (simp add: write_chunk_def Let_def save_row_apply progress_of_def [abs_def] chunk_done_def contents_def files_simps split: option.splits)

lemma acquire_now:
  assumes "redis_lookup w (lk_key l) = None"
  shows "acquire l b t w = (Inr True, redis_put (lk_key l) (RStr (lk_token l)) (Some (lk_ttl_seconds l * 1000)) w)"
  using assms by (subst acquire_def, subst acquire_loop.simps) (simp add: try_acquire_def set_nx_def)

lemma acquire_taken:
  assumes "redis_lookup w (lk_key l) \<noteq> None"
  shows "acquire l False t w = (Inr False, w)"
  using assms by (subst acquire_def, subst acquire_loop.simps) (simp add: try_acquire_def set_nx_def)

text \<open>The chunk is written under the lock and the lock is given back.\<close>

lemma chunk_run_ok:
  assumes "ups_status r = US_UPLOADING" and "redis_lookup (iw s) (upload_key r) = None"
    and "row_get k (upload_sessions (wdb (iw s))) = Some x" and "index = None \<or> index = Some (Some (int (ups_next_chunk_index r)))"
  shows "\<exists>w'. chunk_run index (Some b) (k, r) s =
      (Inr (Reply (ups_received_bytes r + length b, Suc (ups_next_chunk_index r), length b)),
       s\<lparr>files := (files s)(temp_path r \<mapsto> contents (files s (temp_path r)) @ b), iw := w'\<rparr>) \<and>
    wdb w' = upload_sessions_update (row_mod k (progress_of (chunk_done (length b) r))) (wdb (iw s)) \<and>
    redis_lookup w' = redis_lookup (iw s) \<and> clock w' = clock (iw s)"
proof -
  define w where "w = iw s"
  define l where "l = \<lparr> lk_key = upload_key r, lk_ttl_seconds = 60, lk_token = uuids w (uuid_next w) \<rparr>"
  define w1 where "w1 = redis_put (upload_key r) (RStr (lk_token l)) (Some 60000) (w\<lparr>uuid_next := uuid_next w + 1\<rparr>)"
  define w2 where "w2 = db_upd (upload_sessions_update (row_mod k (progress_of (chunk_done (length b) r)))) w1"
  define s2 where "s2 = s\<lparr>files := (files s)(temp_path r \<mapsto> contents (files s (temp_path r)) @ b), iw := w2\<rparr>"
  have l0: "redis_lookup w (upload_key r) = None" using assms(2) by (simp add: w_def)
  have new: "new_lock (''image-upload:'' @ uuid r) 60 w = (Inr l, w\<lparr>uuid_next := uuid_next w + 1\<rparr>)"
    by (simp add: new_lock_def l_def bindM_apply)
  have acq: "acquire l False 10000 (w\<lparr>uuid_next := uuid_next w + 1\<rparr>) = (Inr True, w1)"
    using acquire_now [of "w\<lparr>uuid_next := uuid_next w + 1\<rparr>" l] l0 by (simp add: l_def w1_def)
  have wc: "write_chunk (k, r) (int (ups_next_chunk_index r)) b (s\<lparr>iw := w1\<rparr>) = (Inr (length b, chunk_done (length b) r), s2)"
    using write_chunk_run [of k "s\<lparr>iw := w1\<rparr>" x r b] assms(3) by (simp add: s2_def w2_def w1_def w_def)
  have look2: "redis_lookup w2 q = redis_lookup w1 q" for q by (rule redis_lookup_cong) (simp_all add: w2_def)
  have rel: "release l w2 = (Inr True, redis_drop (upload_key r) w2)"
    by (simp add: release_def release_script_def l_def look2 w1_def redis_lookup_put)
  have locked: "try_lock_files (''image-upload:'' @ uuid r) 60 (write_chunk (k, r) (int (ups_next_chunk_index r)) b) s =
      (Inr (length b, chunk_done (length b) r), s2\<lparr>iw := redis_drop (upload_key r) w2\<rparr>)"
    using new acq wc rel by (simp add: try_lock_files_def files_simps w_def finallyM_apply bindM_apply [of "release l"] s2_def)
  have idx: "(case index of None \<Rightarrow> Some (int (ups_next_chunk_index r)) | Some y \<Rightarrow> y) = Some (int (ups_next_chunk_index r))"
    using assms(4) by auto
  have run: "chunk_run index (Some b) (k, r) s =
      (Inr (Reply (ups_received_bytes r + length b, Suc (ups_next_chunk_index r), length b)), s2\<lparr>iw := redis_drop (upload_key r) w2\<rparr>)"
    using locked assms(1) idx by (simp add: chunk_run_def bindM_apply tryM_apply)
  have "redis_lookup (redis_drop (upload_key r) w2) = redis_lookup (iw s)"
    using l0 by (auto simp: fun_eq_iff look2 w1_def redis_lookup_put w_def)
  then show ?thesis
    using run by (intro exI [of _ "redis_drop (upload_key r) w2"]) (simp add: s2_def w2_def w1_def w_def)
qed

subsection \<open>A whole upload\<close>

text \<open>A client that sends its chunks in order, numbering them.\<close>

fun upload_chunks :: "string \<Rightarrow> nat \<Rightarrow> nat \<Rightarrow> string list \<Rightarrow> unit iop" where
  "upload_chunks u uk n [] = returnM ()"
| "upload_chunks u uk n (c # cs) = bindM (chunk_put u uk (Some (Some (int n))) (Some c)) (\<lambda>_. upload_chunks u uk (Suc n) cs)"

text \<open>The session \<open>u\<close> of user \<open>uk\<close> is row \<open>k\<close>, active, nobody holds its lock, and its temporary file is \<open>c\<close>.\<close>

definition uploading :: "istore \<Rightarrow> string \<Rightarrow> nat \<Rightarrow> nat \<Rightarrow> upload_session \<Rightarrow> string option \<Rightarrow> bool" where
  "uploading s u uk k r c \<longleftrightarrow>
     rows_where (\<lambda>r. uuid r = u \<and> ups_created_by r = Some uk) (upload_sessions (wdb (iw s))) = [(k, r)] \<and>
     row_get k (upload_sessions (wdb (iw s))) = Some r \<and> uuid r = u \<and> ups_status r = US_UPLOADING \<and>
     redis_lookup (iw s) (upload_key r) = None \<and> files s (temp_path r) = c"

lemma get_session_found:
  "rows_where (\<lambda>r. uuid r = u \<and> ups_created_by r = Some uk) (upload_sessions (wdb w)) = [(k, r)] \<Longrightarrow> get_session u uk w = (Inr (k, r), w)"
  by (simp add: get_session_def)

lemma progress_of_self [simp]: "progress_of (chunk_done n r) r = chunk_done n r"
  by (simp add: progress_of_def chunk_done_def)

lemma progress_of_same [simp]: "uuid (progress_of r x) = uuid x" "ups_created_by (progress_of r x) = ups_created_by x"
  by (simp_all add: progress_of_def)

lemma chunk_put_ok:
  assumes "uploading s u uk k r c"
  shows "\<exists>s'. chunk_put u uk (Some (Some (int (ups_next_chunk_index r)))) (Some b) s =
        (Inr (Reply (ups_received_bytes r + length b, Suc (ups_next_chunk_index r), length b)), s') \<and>
      uploading s' u uk k (chunk_done (length b) r) (Some (contents c @ b)) \<and>
      (\<forall>p. p \<noteq> temp_path r \<longrightarrow> files s' p = files s p) \<and>
      wdb (iw s') = upload_sessions_update (row_mod k (progress_of (chunk_done (length b) r))) (wdb (iw s))"
proof -
  have rows: "rows_where (\<lambda>r. uuid r = u \<and> ups_created_by r = Some uk) (upload_sessions (wdb (iw s))) = [(k, r)]"
    and row: "row_get k (upload_sessions (wdb (iw s))) = Some r" and u: "uuid r = u" "ups_status r = US_UPLOADING"
    and free: "redis_lookup (iw s) (upload_key r) = None" and c: "files s (temp_path r) = c"
    using assms unfolding uploading_def by blast+
  obtain w' where run: "chunk_run (Some (Some (int (ups_next_chunk_index r)))) (Some b) (k, r) s =
      (Inr (Reply (ups_received_bytes r + length b, Suc (ups_next_chunk_index r), length b)),
       s\<lparr>files := (files s)(temp_path r \<mapsto> contents (files s (temp_path r)) @ b), iw := w'\<rparr>)"
    and db: "wdb w' = upload_sessions_update (row_mod k (progress_of (chunk_done (length b) r))) (wdb (iw s))"
    and look: "redis_lookup w' = redis_lookup (iw s)"
    using chunk_run_ok [OF u(2) free row, of "Some (Some (int (ups_next_chunk_index r)))" b] by blast
  have "rows_where (\<lambda>r. uuid r = u \<and> ups_created_by r = Some uk) (upload_sessions (wdb w')) = [(k, chunk_done (length b) r)]"
    using rows_where_mod_kept [OF rows, of "progress_of (chunk_done (length b) r)"] by (simp add: db)
  moreover have "row_get k (upload_sessions (wdb w')) = Some (chunk_done (length b) r)"
    using row by (simp add: db tbl.get_md)
  ultimately show ?thesis
    using run u look free c db by (simp add: chunk_put_def bind_liftW get_session_found [OF rows] uploading_def)
qed

lemma upload_chunks_ok:
  assumes "uploading s u uk k r c" and "ups_next_chunk_index r = n"
  shows "\<exists>s' r'. upload_chunks u uk n cs s = (Inr (), s') \<and>
      uploading s' u uk k r' (if cs = [] then c else Some (contents c @ concat cs)) \<and>
      (\<forall>p. p \<noteq> temp_path r \<longrightarrow> files s' p = files s p) \<and> (\<exists>t. wdb (iw s') = (wdb (iw s))\<lparr>upload_sessions := t\<rparr>) \<and>
      ups_image r' = ups_image r \<and> ups_total_size_bytes r' = ups_total_size_bytes r \<and> ups_expected_sha256 r' = ups_expected_sha256 r"
  using assms
proof (induction cs arbitrary: s r c n)
  case Nil
  have "\<exists>t. wdb (iw s) = (wdb (iw s))\<lparr>upload_sessions := t\<rparr>" by (rule exI [of _ "upload_sessions (wdb (iw s))"]) simp
  with Nil show ?case unfolding upload_chunks.simps returnM_apply by (intro exI [of _ s] exI [of _ r] conjI) simp_all
next
  case (Cons b cs)
  obtain s1 where s1: "chunk_put u uk (Some (Some (int n))) (Some b) s =
        (Inr (Reply (ups_received_bytes r + length b, Suc (ups_next_chunk_index r), length b)), s1)"
      and up: "uploading s1 u uk k (chunk_done (length b) r) (Some (contents c @ b))"
      and f: "\<forall>p. p \<noteq> temp_path r \<longrightarrow> files s1 p = files s p"
      and d: "wdb (iw s1) = upload_sessions_update (row_mod k (progress_of (chunk_done (length b) r))) (wdb (iw s))"
    using chunk_put_ok [OF Cons.prems(1), of b] Cons.prems(2) by auto
  obtain s' r' where run: "upload_chunks u uk (Suc n) cs s1 = (Inr (), s')"
      and up': "uploading s' u uk k r' (if cs = [] then Some (contents c @ b) else Some (contents (Some (contents c @ b)) @ concat cs))"
      and f': "\<forall>p. p \<noteq> temp_path (chunk_done (length b) r) \<longrightarrow> files s' p = files s1 p" "\<exists>t. wdb (iw s') = (wdb (iw s1))\<lparr>upload_sessions := t\<rparr>"
      and same: "ups_image r' = ups_image r" "ups_total_size_bytes r' = ups_total_size_bytes r" "ups_expected_sha256 r' = ups_expected_sha256 r"
    using Cons.IH [OF up, of "Suc n"] Cons.prems(2) by auto
  have up2: "uploading s' u uk k r' (if b # cs = [] then c else Some (contents c @ concat (b # cs)))"
    using up' by (cases cs) simp_all
  have ex: "\<exists>t. wdb (iw s') = (wdb (iw s))\<lparr>upload_sessions := t\<rparr>" using f'(2) d by auto
  have "upload_chunks u uk n (b # cs) s = (Inr (), s')" using s1 run by (simp add: bindM_apply)
  with up2 f f'(1) same ex show ?case by (intro exI [of _ s'] exI [of _ r'] conjI) simp_all
qed

text \<open>An audit row changes nothing else.\<close>

lemma log_request_run:
  "\<exists>w'. log_request usr ip act rt rid org w = (Inr (), w') \<and> images (wdb w') = images (wdb w) \<and> nodes (wdb w') = nodes (wdb w) \<and>
     upload_sessions (wdb w') = upload_sessions (wdb w) \<and> templates (wdb w') = templates (wdb w) \<and>
     redis_lookup w' = redis_lookup w \<and> uuids w' = uuids w \<and> uuid_next w' = Suc (uuid_next w) \<and> next_pk (wdb w') = Suc (next_pk (wdb w))"
proof -
  define w' where "w' = snd (log_request usr ip act rt rid org w)"
  have "redis_lookup w' q = redis_lookup w q" for q
    by (rule redis_lookup_cong) (simp_all add: w'_def log_request_def log_action_def bindM_apply fresh_pk_apply)
  then have "redis_lookup w' = redis_lookup w" by blast
  moreover have "log_request usr ip act rt rid org w = (Inr (), w')"
    by (simp add: w'_def log_request_def log_action_def bindM_apply fresh_pk_apply)
  ultimately show ?thesis
    by (intro exI [of _ w']) (simp add: w'_def log_request_def log_action_def bindM_apply fresh_pk_apply)
qed

lemma paths_differ [simp]: "final_path i \<noteq> temp_path r" "temp_path r \<noteq> final_path i"
  by (simp_all add: final_path_def temp_path_def)

lemma bind_read_image: "files s (final_path i) = Some b \<Longrightarrow> bindM (read_image i) f s = f b s"
  by (simp add: read_image_def bindM_apply)

definition readied :: "(string \<Rightarrow> string) \<Rightarrow> string \<Rightarrow> image \<Rightarrow> image" where
  "readied sha b i = i\<lparr>img_sha256 := sha b, img_size_bytes := length b, img_status := IS_READY\<rparr>"

definition matches :: "(string \<Rightarrow> string) \<Rightarrow> string \<Rightarrow> upload_session \<Rightarrow> bool" where
  "matches sha b r \<longleftrightarrow> length b = ups_total_size_bytes r \<and> (ups_expected_sha256 r \<noteq> '''' \<longrightarrow> lower (ups_expected_sha256 r) = sha b)"

lemma finalize_upload_ok:
  assumes "files s (temp_path r) = Some b" and "matches sha b r"
    and "row_get (ups_image r) (images (wdb (iw s))) = Some i" and "CHR ''/'' \<notin> set (snd (final_path i))"
  shows "finalize_upload sha r s = (Inr (sha b, length b), s\<lparr>files := (files s)(final_path i \<mapsto> b, temp_path r := None)\<rparr>)"
  using assms by (auto simp: finalize_upload_def matches_def files_simps get_row_apply Let_def)

lemma finalize_run_ok:
  assumes "ups_status r = US_UPLOADING" and "row_get k (upload_sessions (wdb (iw s))) = Some x" and "files s (temp_path r) = Some b"
    and "matches sha b r" and "row_get (ups_image r) (images (wdb (iw s))) = Some i" and "CHR ''/'' \<notin> set (snd (final_path i))"
  shows "\<exists>w'. finalize_run sha usr ip (k, r) s =
       (Inr (Reply (readied sha b i)), s\<lparr>files := (files s)(final_path i \<mapsto> b, temp_path r := None), iw := w'\<rparr>) \<and>
     images (wdb w') = row_mod (ups_image r) (readied sha b) (images (wdb (iw s))) \<and> nodes (wdb w') = nodes (wdb (iw s)) \<and>
     upload_sessions (wdb w') = row_mod k (\<lambda>x. x\<lparr>ups_status := US_COMPLETED\<rparr>) (upload_sessions (wdb (iw s))) \<and>
     templates (wdb w') = templates (wdb (iw s)) \<and> uuids w' = uuids (iw s) \<and> uuid_next w' = Suc (uuid_next (iw s)) \<and>
     next_pk (wdb w') = Suc (next_pk (wdb (iw s)))"
proof -
  define w1 where "w1 = db_upd (images_update (row_mod (ups_image r) (readied sha b)))
       (db_upd (upload_sessions_update (row_mod k (\<lambda>x. x\<lparr>ups_status := US_COMPLETED\<rparr>))) (iw s))"
  have i1: "row_get (ups_image r) (images (wdb w1)) = Some (readied sha b i)"
    using assms(5) by (simp add: w1_def tbl.get_md)
  obtain w' where l: "log_request usr ip ''IMAGE_UPLOAD_COMPLETE'' ''Image'' (uuid i) (Some (img_organization i)) w1 = (Inr (), w')"
    and w': "images (wdb w') = images (wdb w1)" "nodes (wdb w') = nodes (wdb w1)" "upload_sessions (wdb w') = upload_sessions (wdb w1)"
      "templates (wdb w') = templates (wdb w1)" "uuids w' = uuids w1" "uuid_next w' = Suc (uuid_next w1)" "next_pk (wdb w') = Suc (next_pk (wdb w1))"
    using log_request_run by meson
  have ready: "readied sha b = (\<lambda>i. i\<lparr>img_sha256 := sha b, img_size_bytes := length b, img_status := IS_READY\<rparr>)"
    by (simp add: readied_def fun_eq_iff)
  have st: "save_session k (\<lambda>x. x\<lparr>ups_status := US_COMPLETED\<rparr>) (iw s) =
      (Inr (), db_upd (upload_sessions_update (row_mod k (\<lambda>x. x\<lparr>ups_status := US_COMPLETED\<rparr>))) (iw s))"
    using assms(2) by (simp add: save_session_def save_row_apply)
  have si: "save_image (ups_image r) (\<lambda>i. i\<lparr>img_sha256 := sha b, img_size_bytes := length b, img_status := IS_READY\<rparr>)
      (db_upd (upload_sessions_update (row_mod k (\<lambda>x. x\<lparr>ups_status := US_COMPLETED\<rparr>))) (iw s)) = (Inr (), w1)"
    using assms(5) by (simp add: save_image_def bindM_apply get_row_apply save_row_apply w1_def ready)
  have r_uuid: "uuid (readied sha b i) = uuid i" "img_organization (readied sha b i) = img_organization i" by (simp_all add: readied_def)
  have "finalize_run sha usr ip (k, r) s =
     (Inr (Reply (readied sha b i)), s\<lparr>files := (files s)(final_path i \<mapsto> b, temp_path r := None), iw := w'\<rparr>)"
    using finalize_upload_ok [OF assms(3-6)] assms(1) st si i1 l r_uuid
    by (simp add: finalize_run_def bindM_apply tryM_apply liftW_apply get_row_apply)
  then show ?thesis using w' by (intro exI [of _ w']) (simp add: w1_def)
qed

lemma row_get_add_fresh: "row_get k t = None \<Longrightarrow> row_get k (row_add k r t) = Some r"
  by (simp add: row_add_def row_get_append)

lemma initiate_run:
  fixes w :: world
  defines "iu \<equiv> uuids w (uuid_next w)" and "su \<equiv> uuids w (Suc (uuid_next w))"
    and "ik \<equiv> next_pk (wdb w)" and "sk \<equiv> Suc (next_pk (wdb w))"
  assumes "row_get (upl_storage data) (storage_pools (wdb w)) = Some st" and "row_get (sto_node st) (nodes (wdb w)) = Some n"
  shows "\<exists>i r w'. initiate_upload usr ip data w = (Inr (sk, r), w') \<and>
      images (wdb w') = row_add ik i (images (wdb w)) \<and> upload_sessions (wdb w') = row_add sk r (upload_sessions (wdb w)) \<and>
      nodes (wdb w') = nodes (wdb w) \<and> templates (wdb w') = templates (wdb w) \<and> redis_lookup w' = redis_lookup w \<and>
      uuids w' = uuids w \<and> uuid_next w' = uuid_next w + 3 \<and> next_pk (wdb w') = next_pk (wdb w) + 3 \<and>
      uuid i = iu \<and> img_organization i = nod_organization n \<and> img_status i = IS_UPLOADING \<and>
      img_format i = (if upl_format data \<noteq> '''' then upl_format data else lower (show_ImageType (upl_type data))) \<and>
      uuid r = su \<and> ups_image r = ik \<and> ups_created_by r = Some (fst usr) \<and> ups_status r = US_UPLOADING \<and>
      ups_next_chunk_index r = 0 \<and> ups_total_size_bytes r = upl_total_size_bytes data \<and> ups_expected_sha256 r = upl_expected_sha256 data"
proof -
  define i where "i = \<lparr> uuid = iu, created_at = clock w, updated_at = clock w, img_organization = nod_organization n, img_storage = upl_storage data,
               img_name = upl_name data, img_version = upl_version data, img_type = upl_type data,
               img_format = (if upl_format data \<noteq> '''' then upl_format data else lower (show_ImageType (upl_type data))),
               img_size_bytes = 0, img_checksum_algorithm = ''sha256'', img_sha256 = '''', img_source = ''UPLOAD'', img_file_path = '''',
               img_status = IS_UPLOADING, img_metadata = JObj [] \<rparr>"
  define r where "r = \<lparr> uuid = su, created_at = clock w, updated_at = clock w, ups_image = ik, ups_created_by = Some (fst usr),
               ups_total_size_bytes = upl_total_size_bytes data, ups_received_bytes = 0, ups_next_chunk_index = 0,
               ups_expected_sha256 = upl_expected_sha256 data, ups_status = US_UPLOADING, ups_error = '''' \<rparr>"
  define w1 where "w1 = db_upd (\<lambda>d. d\<lparr>images := row_add ik i (images d), next_pk := next_pk d + 2, upload_sessions := row_add sk r (upload_sessions d)\<rparr>)
     (w\<lparr>uuid_next := uuid_next w + 2\<rparr>)"
  obtain w' where l: "log_request usr ip ''IMAGE_UPLOAD_INITIATE'' ''Image'' iu (Some (nod_organization n)) w1 = (Inr (), w')"
    and w': "images (wdb w') = images (wdb w1)" "nodes (wdb w') = nodes (wdb w1)" "upload_sessions (wdb w') = upload_sessions (wdb w1)"
      "templates (wdb w') = templates (wdb w1)" "uuids w' = uuids w1" "uuid_next w' = Suc (uuid_next w1)" "next_pk (wdb w') = Suc (next_pk (wdb w1))"
      "redis_lookup w' = redis_lookup w1"
    using log_request_run by meson
  have look: "redis_lookup w1 = redis_lookup w" by (rule ext, rule redis_lookup_cong) (simp_all add: w1_def)
  have run: "initiate_upload usr ip data w = (Inr (sk, r), w')"
    using assms(5,6) l
    by (simp add: initiate_upload_def bindM_apply get_row_apply fresh_pk_apply Let_def w1_def db_upd_def i_def r_def
        iu_def su_def ik_def sk_def del: not_None_eq split: if_splits)
  show ?thesis
    using run w' look
    by (intro exI [of _ i] exI [of _ r] exI [of _ w']) (simp add: w1_def, simp add: i_def r_def)
qed

lemma lower_char_nat:
  "(of_char (lower_char c) :: nat) = (if 65 \<le> (of_char c :: nat) \<and> (of_char c :: nat) \<le> 90 then of_char c + 32 else of_char c)"
  by (simp add: lower_char_def Let_def)

lemma slash_nat: "(of_char d :: nat) = 47 \<longleftrightarrow> d = CHR ''/''"
  using of_char_eq_iff [of d "CHR ''/''", where 'a = nat] by simp

lemma lower_char_slash: "lower_char c = CHR ''/'' \<longleftrightarrow> c = CHR ''/''"
proof -
  have "(of_char (lower_char c) :: nat) = 47 \<longleftrightarrow> (of_char c :: nat) = 47" unfolding lower_char_nat by presburger
  then show ?thesis unfolding slash_nat .
qed

lemma no_slash_lower: "CHR ''/'' \<in> set (lower s) \<longleftrightarrow> CHR ''/'' \<in> set s"
  by (induction s) (auto simp: lower_def lower_char_slash eq_commute [of "CHR ''/''"])

lemma no_slash_type: "CHR ''/'' \<notin> set (show_ImageType t)"
  by (cases t) simp_all

definition upload :: "(string \<Rightarrow> string) \<Rightarrow> nat \<times> user \<Rightarrow> string option \<Rightarrow> upload_data \<Rightarrow> string list \<Rightarrow> image reply iop" where
  "upload sha usr ip data cs = bindM (liftW (initiate_upload usr ip data)) (\<lambda>(k, r).
     bindM (upload_chunks (uuid r) (fst usr) 0 cs) (\<lambda>_. finalize sha usr ip (uuid r)))"

text \<open>The names, keys and files a new upload will use are not taken.\<close>

definition upload_fresh :: "istore \<Rightarrow> bool" where
  "upload_fresh s \<longleftrightarrow> (let w = iw s; d = wdb w; iu = uuids w (uuid_next w); su = uuids w (Suc (uuid_next w)) in
     row_get (next_pk d) (images d) = None \<and> row_get (Suc (next_pk d)) (upload_sessions d) = None \<and>
     rows_where (\<lambda>i. uuid i = iu) (images d) = [] \<and> rows_where (\<lambda>r. uuid r = su) (upload_sessions d) = [] \<and>
     redis_lookup w (''nodepilot:lock:'' @ ''image-upload:'' @ su) = None \<and>
     files s (ChunkDir, su @ ''.part'') = None \<and> CHR ''/'' \<notin> set iu)"

lemma rows_where_none: "rows_where p t = [] \<Longrightarrow> (\<And>r. q r \<Longrightarrow> p r) \<Longrightarrow> rows_where q t = []"
  by (induction t) (auto simp: rows_where_def split: if_splits)

lemma initiated_uploading:
  assumes "row_get (upl_storage data) (storage_pools (wdb (iw s))) = Some st" and "row_get (sto_node st) (nodes (wdb (iw s))) = Some n"
    and "upload_fresh s"
  shows "\<exists>k i r s'. liftW (initiate_upload usr ip data) s = (Inr (k, r), s') \<and> uploading s' (uuid r) (fst usr) k r None \<and>
      row_get (ups_image r) (images (wdb (iw s'))) = Some i \<and> rows_where (\<lambda>x. uuid x = uuid i) (images (wdb (iw s'))) = [(ups_image r, i)] \<and>
      ups_next_chunk_index r = 0 \<and> ups_total_size_bytes r = upl_total_size_bytes data \<and> ups_expected_sha256 r = upl_expected_sha256 data \<and>
      img_organization i = nod_organization n \<and> CHR ''/'' \<notin> set (uuid i) \<and> nodes (wdb (iw s')) = nodes (wdb (iw s)) \<and> files s' = files s \<and>
      img_format i = (if upl_format data \<noteq> '''' then upl_format data else lower (show_ImageType (upl_type data)))"
proof -
  obtain i r w' where run: "initiate_upload usr ip data (iw s) = (Inr (Suc (next_pk (wdb (iw s))), r), w')"
    and img: "images (wdb w') = row_add (next_pk (wdb (iw s))) i (images (wdb (iw s)))"
    and ses: "upload_sessions (wdb w') = row_add (Suc (next_pk (wdb (iw s)))) r (upload_sessions (wdb (iw s)))"
    and same: "nodes (wdb w') = nodes (wdb (iw s))" "redis_lookup w' = redis_lookup (iw s)"
    and i: "uuid i = uuids (iw s) (uuid_next (iw s))" "img_organization i = nod_organization n"
      "img_format i = (if upl_format data \<noteq> '''' then upl_format data else lower (show_ImageType (upl_type data)))"
    and r: "uuid r = uuids (iw s) (Suc (uuid_next (iw s)))" "ups_image r = next_pk (wdb (iw s))" "ups_created_by r = Some (fst usr)"
      "ups_status r = US_UPLOADING" "ups_next_chunk_index r = 0" "ups_total_size_bytes r = upl_total_size_bytes data"
      "ups_expected_sha256 r = upl_expected_sha256 data"
    using initiate_run [OF assms(1,2), of usr ip] by metis
  have none: "rows_where (\<lambda>x. uuid x = uuid r \<and> ups_created_by x = Some (fst usr)) (upload_sessions (wdb (iw s))) = []"
    by (rule rows_where_none [where p = "\<lambda>x. uuid x = uuid r"]) (use assms(3) r(1) in \<open>auto simp: upload_fresh_def Let_def\<close>)
  have "uploading (s\<lparr>iw := w'\<rparr>) (uuid r) (fst usr) (Suc (next_pk (wdb (iw s)))) r None"
    using assms(3) none r same
    by (simp add: uploading_def ses rows_where_add row_get_add_fresh upload_fresh_def Let_def temp_path_def)
  then show ?thesis
    using assms(3) run img same i r
    by (intro exI [of _ "Suc (next_pk (wdb (iw s)))"] exI [of _ i] exI [of _ r] exI [of _ "s\<lparr>iw := w'\<rparr>"])
      (simp add: liftW_apply row_get_add_fresh rows_where_add upload_fresh_def Let_def)
qed


definition ex_upload :: upload_data where
  "ex_upload = \<lparr> upl_name = ''debian'', upl_version = ''12'', upl_type = IT_QCOW2, upl_format = '''', upl_storage = 12,
     upl_total_size_bytes = 3, upl_expected_sha256 = '''' \<rparr>"

definition ex_store :: istore where
  "ex_store = \<lparr> iw = ex_world, files = (\<lambda>_. None) \<rparr>"

lemma ex_store_fresh: "upload_fresh ex_store"
  by (simp add: upload_fresh_def ex_store_def ex_uuids Let_def rows_where_def ex_db_def redis_lookup_def ex_redis)


end
