(* ===== verification/ImageSteps.thy ===== *)
theory ImageSteps
  imports Images
begin

section \<open>Image uploads under interleaved requests\<close>

text \<open>
  The upload, abort and deletion handlers of \<open>Images\<close> as steps of a transition system in which a request may be
  overtaken between reading its session and acting on it: the invariant of READY images, and two behaviours of the code
  that such interleavings and protected rows expose.
\<close>

subsection \<open>READY images stay intact under interleaved requests\<close>

text \<open>
  Requests interleave between reading their session and acting on it: \<open>fl\<close> lists the sessions that have been read
  so far, as they were then. \<open>Other\<close> stands for the rest of the controller. Deletion is of images no template uses.
\<close>

inductive image_step :: "(string \<Rightarrow> string) \<Rightarrow> istore \<times> (nat \<times> upload_session) list \<Rightarrow> istore \<times> (nat \<times> upload_session) list \<Rightarrow> bool"
  for sha where
  Initiate: "image_step sha (s, fl) (snd (liftW (initiate_upload usr ip data) s), fl)"
| Read: "get_session u uk (iw s) = (Inr kr, w') \<Longrightarrow> image_step sha (s, fl) (s, kr # fl)"
| Chunk: "kr \<in> set fl \<Longrightarrow> image_step sha (s, fl) (snd (chunk_run index body kr s), fl)"
| Finalize: "kr \<in> set fl \<Longrightarrow> image_step sha (s, fl) (snd (finalize_run sha usr ip kr s), fl)"
| Abort: "kr \<in> set fl \<Longrightarrow> image_step sha (s, fl) (snd (abort_run kr s), fl)"
| Destroy: "rows_where (\<lambda>t. tpl_image t = k) (templates (wdb (iw s))) = [] \<Longrightarrow> image_step sha (s, fl) (snd (image_destroy usr ip k s), fl)"
| Other: "images (wdb w') = images (wdb (iw s)) \<Longrightarrow> upload_sessions (wdb w') = upload_sessions (wdb (iw s)) \<Longrightarrow> uuids w' = uuids (iw s) \<Longrightarrow>
    uuid_next (iw s) \<le> uuid_next w' \<Longrightarrow> next_pk (wdb (iw s)) \<le> next_pk (wdb w') \<Longrightarrow> image_step sha (s, fl) (s\<lparr>iw := w'\<rparr>, fl)"

definition intact :: "(string \<Rightarrow> string) \<Rightarrow> istore \<Rightarrow> image \<Rightarrow> bool" where
  "intact sha s i \<longleftrightarrow> (\<exists>b. files s (final_path i) = Some b \<and> length b = img_size_bytes i \<and> sha b = img_sha256 i)"

text \<open>Rows have distinct keys and distinct uuids of the supply, and sessions that were read still belong to their image.\<close>

definition image_rows_ok :: "world \<Rightarrow> bool" where
  "image_rows_ok w \<longleftrightarrow> inj (uuids w) \<and> (\<forall>m. CHR ''.'' \<notin> set (uuids w m)) \<and>
     distinct (map fst (images (wdb w))) \<and> distinct (map (\<lambda>ki. uuid (snd ki)) (images (wdb w))) \<and>
     (\<forall>(k, i) \<in> set (images (wdb w)). k < next_pk (wdb w) \<and> (\<exists>m < uuid_next w. uuid i = uuids w m)) \<and>
     distinct (map fst (upload_sessions (wdb w))) \<and>
     (\<forall>(k, r) \<in> set (upload_sessions (wdb w)). k < next_pk (wdb w) \<and> ups_image r < next_pk (wdb w))"

definition reads_ok :: "(nat \<times> upload_session) list \<Rightarrow> world \<Rightarrow> bool" where
  "reads_ok fl w \<longleftrightarrow> (\<forall>(k, r) \<in> set fl. ups_image r < next_pk (wdb w) \<and>
     (row_get (ups_image r) (images (wdb w)) \<noteq> None \<longrightarrow> (\<exists>r'. row_get k (upload_sessions (wdb w)) = Some r' \<and> ups_image r' = ups_image r)))"

definition ready_ok :: "(string \<Rightarrow> string) \<Rightarrow> istore \<Rightarrow> bool" where
  "ready_ok sha s \<longleftrightarrow> (\<forall>(k, i) \<in> set (images (wdb (iw s))). img_status i = IS_READY \<longrightarrow> intact sha s i)"

definition image_inv :: "(string \<Rightarrow> string) \<Rightarrow> (nat \<times> upload_session) list \<Rightarrow> istore \<Rightarrow> bool" where
  "image_inv sha fl s \<longleftrightarrow> image_rows_ok (iw s) \<and> reads_ok fl (iw s) \<and> ready_ok sha s"

definition keeps_inv :: "(string \<Rightarrow> string) \<Rightarrow> (nat \<times> upload_session) list \<Rightarrow> istore \<Rightarrow> istore \<Rightarrow> bool" where
  "keeps_inv sha fl s s' \<longleftrightarrow> (image_inv sha fl s \<longrightarrow> image_inv sha fl s')"

interpretation ii: frame "keeps_inv sha fl" for sha fl
  by unfold_locales (simp_all add: keeps_inv_def)

lemma image_rows_mono:
  assumes "image_rows_ok w" and i: "images (wdb w') = images (wdb w)" and u: "upload_sessions (wdb w') = upload_sessions (wdb w)"
    and n: "uuids w' = uuids w" "uuid_next w \<le> uuid_next w'" "next_pk (wdb w) \<le> next_pk (wdb w')"
  shows "image_rows_ok w'"
  using assms(1) n(2,3) unfolding image_rows_ok_def i u n(1) by (auto intro: order.strict_trans2) (fastforce intro: order.strict_trans2)

lemma reads_mono:
  assumes "reads_ok fl w" and i: "images (wdb w') = images (wdb w)" and u: "upload_sessions (wdb w') = upload_sessions (wdb w)"
    and n: "next_pk (wdb w) \<le> next_pk (wdb w')"
  shows "reads_ok fl w'"
  using assms(1) n unfolding reads_ok_def i u by (auto intro: order.strict_trans2)

lemma ii_world:
  assumes "images (wdb w') = images (wdb (iw s))" and "upload_sessions (wdb w') = upload_sessions (wdb (iw s))"
    and "uuids w' = uuids (iw s)" and "uuid_next (iw s) \<le> uuid_next w'" and "next_pk (wdb (iw s)) \<le> next_pk (wdb w')"
  shows "keeps_inv sha fl s (s\<lparr>iw := w'\<rparr>)"
  using image_rows_mono [OF _ assms] reads_mono [OF _ assms(1,2,5)] assms(1)
  by (simp add: keeps_inv_def image_inv_def ready_ok_def intact_def)

lemma ii_chunk_file: "keeps_inv sha fl s (s\<lparr>files := (files s)(temp_path r := b)\<rparr>)"
  by (simp add: keeps_inv_def image_inv_def ready_ok_def intact_def)

lemma sessions_row_mod:
  assumes "image_rows_ok w" and "\<And>x. ups_image (f x) = ups_image x"
  shows "image_rows_ok (db_upd (upload_sessions_update (row_mod k f)) w)"
  using assms by (auto simp: image_rows_ok_def elim!: row_mod_memE)

lemma reads_row_mod:
  assumes "reads_ok fl w" and "\<And>x. ups_image (f x) = ups_image x"
  shows "reads_ok fl (db_upd (upload_sessions_update (row_mod k f)) w)"
  using assms by (fastforce simp: reads_ok_def tbl.get_md)

lemma ii_save_session:
  assumes "\<And>x. ups_image (f x) = ups_image x"
  shows "keeps (keeps_inv sha fl) (liftW (save_session k f))"
  using sessions_row_mod [OF _ assms] reads_row_mod [OF _ assms]
  by (simp add: keeps_def liftW_apply save_session_def save_row_apply ii.R_refl keeps_inv_def image_inv_def ready_ok_def intact_def
      split: option.splits)

lemma images_row_mod:
  assumes "image_rows_ok w" and "\<And>x. uuid (f x) = uuid x"
  shows "image_rows_ok (db_upd (images_update (row_mod k f)) w)"
proof -
  have "map (\<lambda>ki. uuid (snd ki)) (row_mod k f t) = map (\<lambda>ki. uuid (snd ki)) t" for t
    by (induction t) (auto simp: row_mod_def assms(2))
  then show ?thesis using assms by (auto simp: image_rows_ok_def elim!: row_mod_memE)
qed

lemma reads_images_mod: "reads_ok fl w \<Longrightarrow> reads_ok fl (db_upd (images_update (row_mod k f)) w)"
  by (fastforce simp: reads_ok_def tbl.get_md)

lemma ii_fail_image: "keeps (keeps_inv sha fl) (liftW (save_image k (\<lambda>i. i\<lparr>img_status := IS_FAILED\<rparr>)))"
proof -
  have "ready_ok sha s \<Longrightarrow> ready_ok sha (s\<lparr>iw := db_upd (images_update (row_mod k (\<lambda>i. i\<lparr>img_status := IS_FAILED\<rparr>))) (iw s)\<rparr>)" for s
    by (fastforce simp: ready_ok_def intact_def final_path_def elim!: row_mod_memE)
  then show ?thesis
    using images_row_mod [of _ "\<lambda>i. i\<lparr>img_status := IS_FAILED\<rparr>"] reads_images_mod [of fl _ k "\<lambda>i. i\<lparr>img_status := IS_FAILED\<rparr>"]
    by (simp add: keeps_def liftW_apply save_image_def bindM_apply get_row_apply save_row_apply ii.R_refl keeps_inv_def image_inv_def
        split: option.splits)
qed

lemma ii_lift:
  assumes "\<And>w. images (wdb (snd (m w))) = images (wdb w) \<and> upload_sessions (wdb (snd (m w))) = upload_sessions (wdb w) \<and>
     uuids (snd (m w)) = uuids w \<and> uuid_next w \<le> uuid_next (snd (m w)) \<and> next_pk (wdb w) \<le> next_pk (wdb (snd (m w)))"
  shows "keeps (keeps_inv sha fl) (liftW m)"
  using ii_world [of "snd (m (iw s))" s for s] assms by (auto simp: keeps_def liftW_apply split: prod.splits) (metis snd_conv)

lemma ii_same: "(\<And>w. snd (m w) = w) \<Longrightarrow> keeps (keeps_inv sha fl) (liftW m)"
  by (rule ii_lift) simp

lemma ii_get_row: "keeps (keeps_inv sha fl) (liftW (get_row nm tab k))"
  by (rule ii_same) (simp add: get_row_apply split: option.splits)

lemma ii_new_lock: "keeps (keeps_inv sha fl) (liftW (new_lock k ttl))"
  by (rule ii_lift) (simp add: new_lock_def bindM_apply)

lemma ii_acquire: "keeps (keeps_inv sha fl) (liftW (acquire l False t))"
proof (rule ii_lift)
  fix w
  show "images (wdb (snd (acquire l False t w))) = images (wdb w) \<and> upload_sessions (wdb (snd (acquire l False t w))) = upload_sessions (wdb w) \<and>
     uuids (snd (acquire l False t w)) = uuids w \<and> uuid_next w \<le> uuid_next (snd (acquire l False t w)) \<and>
     next_pk (wdb w) \<le> next_pk (wdb (snd (acquire l False t w)))"
    by (cases "redis_lookup w (lk_key l)") (simp_all add: acquire_now acquire_taken)
qed

lemma ii_release: "keeps (keeps_inv sha fl) (liftW (bindM (release l) (\<lambda>_. returnM ())))"
  by (rule ii_lift) (simp add: bindM_apply release_def release_script_def)

lemma ii_log: "keeps (keeps_inv sha fl) (liftW (log_request usr ip act rt rid org))"
proof (rule ii_lift)
  fix w
  show "images (wdb (snd (log_request usr ip act rt rid org w))) = images (wdb w) \<and>
      upload_sessions (wdb (snd (log_request usr ip act rt rid org w))) = upload_sessions (wdb w) \<and>
      uuids (snd (log_request usr ip act rt rid org w)) = uuids w \<and> uuid_next w \<le> uuid_next (snd (log_request usr ip act rt rid org w)) \<and>
      next_pk (wdb w) \<le> next_pk (wdb (snd (log_request usr ip act rt rid org w)))"
    using log_request_run [of usr ip act rt rid org w] by auto
qed

lemma ii_temp_file: "keeps (keeps_inv sha fl) (put_file (temp_path r) b)"
  by (simp add: keeps_def put_file_apply ii_chunk_file)

lemma ii_write_chunk: "keeps (keeps_inv sha fl) (write_chunk kr index body)"
  unfolding write_chunk_def save_session_def [symmetric]
  by (cases kr) (auto intro!: ii.keeps_rules ii_temp_file ii_save_session)

lemma ii_try_lock: "keeps (keeps_inv sha fl) body \<Longrightarrow> keeps (keeps_inv sha fl) (try_lock_files key ttl body)"
  unfolding try_lock_files_def by (intro ii.keeps_rules ii_new_lock ii_acquire ii_release)

lemma ii_chunk_run: "keeps (keeps_inv sha fl) (chunk_run index body kr)"
  unfolding chunk_run_def by (intro keeps_case_prod ii.keeps_rules ii_try_lock ii_write_chunk)

lemma ii_abort_run: "keeps (keeps_inv sha fl) (abort_run kr)"
  unfolding abort_run_def abort_upload_def
  by (intro keeps_case_prod ii.keeps_rules ii_temp_file ii_save_session ii_fail_image) simp

lemma final_path_inj:
  assumes "final_path i = final_path i'" and "CHR ''.'' \<notin> set (uuid i)" and "CHR ''.'' \<notin> set (uuid i')"
  shows "uuid i = uuid i'"
proof -
  have "takeWhile (\<lambda>c. c \<noteq> CHR ''.'') (u @ ''.'' @ e) = u" if "CHR ''.'' \<notin> set u" for u e :: string
    using that by (induction u) auto
  with assms show ?thesis unfolding final_path_def by (metis snd_conv)
qed

lemma final_paths_differ:
  assumes "image_rows_ok w" and "(k, i) \<in> set (images (wdb w))" and "(k', i') \<in> set (images (wdb w))" and "k \<noteq> k'"
  shows "final_path i \<noteq> final_path i'"
proof
  assume eq: "final_path i = final_path i'"
  have "CHR ''.'' \<notin> set (uuid i)" "CHR ''.'' \<notin> set (uuid i')" using assms(1-3) by (auto simp: image_rows_ok_def)
  with eq have u: "uuid i = uuid i'" by (rule final_path_inj)
  have "inj_on (\<lambda>ki. uuid (snd ki)) (set (images (wdb w)))" using assms(1) by (simp add: image_rows_ok_def distinct_map)
  then have "(k, i) = (k', i')" by (rule inj_onD) (use u assms(2,3) in simp_all)
  with assms(4) show False by simp
qed

lemma row_get_images: "image_rows_ok w \<Longrightarrow> row_get k (images (wdb w)) = Some i \<longleftrightarrow> (k, i) \<in> set (images (wdb w))"
  by (simp add: image_rows_ok_def row_get_def)

lemma finalize_upload_cases:
  obtains (failed) e where "finalize_upload sha r s = (Inl e, s)"
  | (moved) b i where "files s (temp_path r) = Some b" "matches sha b r" "row_get (ups_image r) (images (wdb (iw s))) = Some i"
      "CHR ''/'' \<notin> set (snd (final_path i))"
proof (cases "files s (temp_path r)")
  case None
  then show ?thesis by (intro failed) (simp add: finalize_upload_def)
next
  case (Some b)
  show ?thesis
  proof (cases "matches sha b r")
    case False
    with Some show ?thesis
      by (cases "length b = ups_total_size_bytes r"; intro failed) (simp_all add: finalize_upload_def matches_def Let_def)
  next
    case m: True
    show ?thesis
    proof (cases "row_get (ups_image r) (images (wdb (iw s)))")
      case None
      with Some m show ?thesis
        by (intro failed) (auto simp: finalize_upload_def matches_def Let_def bind_liftW get_row_apply)
    next
      case i: (Some i)
      show ?thesis
      proof (cases "CHR ''/'' \<in> set (snd (final_path i))")
        case True
        with Some m i show ?thesis by (intro failed) (auto simp: finalize_upload_def matches_def Let_def bind_liftW get_row_apply)
      next
        case False
        with Some m i show ?thesis by (rule moved)
      qed
    qed
  qed
qed

lemma readied_simps [simp]: "uuid (readied sha b i) = uuid i" "final_path (readied sha b i) = final_path i"
  "img_size_bytes (readied sha b i) = length b" "img_sha256 (readied sha b i) = sha b"
  by (simp_all add: readied_def final_path_def)

lemma ready_after_finalize:
  assumes "image_rows_ok (iw s)" and "ready_ok sha s" and "row_get ik (images (wdb (iw s))) = Some i"
    and "images (wdb w') = row_mod ik (readied sha b) (images (wdb (iw s)))"
  shows "ready_ok sha (s\<lparr>files := (files s)(final_path i \<mapsto> b, temp_path r := None), iw := w'\<rparr>)"
  unfolding ready_ok_def
proof safe
  fix k' i'
  assume m: "(k', i') \<in> set (images (wdb (iw (s\<lparr>files := (files s)(final_path i \<mapsto> b, temp_path r := None), iw := w'\<rparr>))))"
    and rdy: "img_status i' = IS_READY"
  then obtain i0 where i0: "(k', i0) \<in> set (images (wdb (iw s)))" "i' = (if k' = ik then readied sha b i0 else i0)"
    using assms(4) by (auto elim: row_mod_memE)
  have ii: "(ik, i) \<in> set (images (wdb (iw s)))" using assms(1,3) by (simp add: row_get_images)
  show "intact sha (s\<lparr>files := (files s)(final_path i \<mapsto> b, temp_path r := None), iw := w'\<rparr>) i'"
  proof (cases "k' = ik")
    case True
    then have "i0 = i" using i0(1) assms(1,3) by (simp add: row_get_images [symmetric])
    with True i0(2) show ?thesis by (simp add: intact_def)
  next
    case False
    then have "final_path i0 \<noteq> final_path i" using final_paths_differ [OF assms(1) i0(1) ii] by simp
    moreover have "intact sha s i0" using assms(2) i0 rdy False by (auto simp: ready_ok_def)
    ultimately show ?thesis using i0(2) False by (simp add: intact_def)
  qed
qed

lemma finalize_failed_keeps:
  assumes "ups_status r = US_UPLOADING" and "finalize_upload sha r s = (Inl e, s)"
  shows "keeps_inv sha fl s (snd (finalize_run sha usr ip (k, r) s))"
proof -
  define undo where "undo = bindM (liftW (save_session k (\<lambda>x. x\<lparr>ups_status := US_FAILED, ups_error := str_exn e\<rparr>))) (\<lambda>_.
      bindM (liftW (save_image (ups_image r) (\<lambda>i. i\<lparr>img_status := IS_FAILED\<rparr>))) (\<lambda>_. (raiseM e :: (string \<times> nat) iop)))"
  have nr: "\<nexists>v. fst (undo s) = Inr v"
    by (auto simp: undo_def bindM_apply split: prod.splits sum.splits)
  have "snd (finalize_run sha usr ip (k, r) s) = snd (undo s)"
    using assms nr unfolding finalize_run_def undo_def [symmetric]
    by (auto simp: bindM_apply [of "tryM _ _"] tryM_apply undo_def [symmetric] split: prod.splits sum.splits)
  moreover have "keeps (keeps_inv sha fl) undo"
    unfolding undo_def by (intro ii.keeps_rules ii_save_session ii_fail_image) simp
  ultimately show ?thesis by (simp add: keepsD2)
qed

lemma finalize_moved_keeps:
  assumes "(k, r) \<in> set fl" and "ups_status r = US_UPLOADING"
    and moved: "files s (temp_path r) = Some b" "matches sha b r" "row_get (ups_image r) (images (wdb (iw s))) = Some i"
      "CHR ''/'' \<notin> set (snd (final_path i))"
    and inv: "image_inv sha fl s"
  shows "image_inv sha fl (snd (finalize_run sha usr ip (k, r) s))"
proof -
  have "\<exists>x. row_get k (upload_sessions (wdb (iw s))) = Some x"
    using assms(1) moved(3) inv by (auto simp: image_inv_def reads_ok_def)
  then obtain x where x: "row_get k (upload_sessions (wdb (iw s))) = Some x" by blast
  obtain w' where run: "finalize_run sha usr ip (k, r) s =
      (Inr (Reply (readied sha b i)), s\<lparr>files := (files s)(final_path i \<mapsto> b, temp_path r := None), iw := w'\<rparr>)"
    and w': "images (wdb w') = row_mod (ups_image r) (readied sha b) (images (wdb (iw s)))"
      "upload_sessions (wdb w') = row_mod k (\<lambda>x. x\<lparr>ups_status := US_COMPLETED\<rparr>) (upload_sessions (wdb (iw s)))"
      "uuids w' = uuids (iw s)" "uuid_next w' = Suc (uuid_next (iw s))" "next_pk (wdb w') = Suc (next_pk (wdb (iw s)))"
    using finalize_run_ok [OF assms(2) x moved, of usr ip] by blast
  define w1 where "w1 = db_upd (images_update (row_mod (ups_image r) (readied sha b)))
     (db_upd (upload_sessions_update (row_mod k (\<lambda>x. x\<lparr>ups_status := US_COMPLETED\<rparr>))) (iw s))"
  have "image_rows_ok w1" and "reads_ok fl w1" unfolding w1_def
    by (intro images_row_mod sessions_row_mod reads_images_mod reads_row_mod; use inv in \<open>simp add: image_inv_def\<close>)+
  moreover have "image_rows_ok w1 \<Longrightarrow> image_rows_ok w'"
    by (erule image_rows_mono) (simp_all add: w1_def w')
  moreover have "reads_ok fl w1 \<Longrightarrow> reads_ok fl w'"
    by (erule reads_mono) (simp_all add: w1_def w')
  ultimately show ?thesis
    using ready_after_finalize [OF _ _ moved(3) w'(1), where r = r] inv run by (simp add: image_inv_def)
qed

lemma ii_finalize_run:
  assumes "kr \<in> set fl"
  shows "keeps_inv sha fl s (snd (finalize_run sha usr ip kr s))"
proof -
  obtain k r where kr: "kr = (k, r)" by fastforce
  show ?thesis
  proof (cases "ups_status r = US_UPLOADING")
    case False
    then show ?thesis
      unfolding finalize_run_def kr by (auto simp: bind_liftW get_row_apply ii.R_refl split: option.splits)
  next
    case True
    then show ?thesis
      by (cases rule: finalize_upload_cases [of sha r s])
        (use assms kr finalize_failed_keeps finalize_moved_keeps in \<open>auto simp: keeps_inv_def\<close>)
  qed
qed

lemma ii_initiate: "keeps_inv sha fl s (snd (liftW (initiate_upload usr ip data) s))"
proof (cases "\<exists>st n. row_get (upl_storage data) (storage_pools (wdb (iw s))) = Some st \<and> row_get (sto_node st) (nodes (wdb (iw s))) = Some n")
  case False
  then have "snd (initiate_upload usr ip data (iw s)) = iw s"
    by (cases "row_get (upl_storage data) (storage_pools (wdb (iw s)))")
      (auto simp: initiate_upload_def bindM_apply get_row_apply split: option.splits)
  then show ?thesis by (auto simp: liftW_apply ii.R_refl split: prod.splits)
next
  case True
  then obtain st n where "row_get (upl_storage data) (storage_pools (wdb (iw s))) = Some st" "row_get (sto_node st) (nodes (wdb (iw s))) = Some n"
    by blast
  from initiate_run [OF this, of usr ip] obtain i r w' where run: "initiate_upload usr ip data (iw s) = (Inr (Suc (next_pk (wdb (iw s))), r), w')"
    and img: "images (wdb w') = row_add (next_pk (wdb (iw s))) i (images (wdb (iw s)))"
    and ses: "upload_sessions (wdb w') = row_add (Suc (next_pk (wdb (iw s)))) r (upload_sessions (wdb (iw s)))"
    and same: "uuids w' = uuids (iw s)" "uuid_next w' = uuid_next (iw s) + 3" "next_pk (wdb w') = next_pk (wdb (iw s)) + 3"
    and i: "uuid i = uuids (iw s) (uuid_next (iw s))" "img_status i = IS_UPLOADING" and r: "ups_image r = next_pk (wdb (iw s))"
    by metis
  have rows: "image_rows_ok w'" if inv: "image_rows_ok (iw s)"
  proof -
    have new: "uuid i \<notin> (\<lambda>ki. uuid (snd ki)) ` set (images (wdb (iw s)))" "next_pk (wdb (iw s)) \<notin> fst ` set (images (wdb (iw s)))"
      "Suc (next_pk (wdb (iw s))) \<notin> fst ` set (upload_sessions (wdb (iw s)))"
      using inv i(1) by (fastforce simp: image_rows_ok_def inj_eq)+
    define w1 where "w1 = w'\<lparr>wdb := (wdb w')\<lparr>images := images (wdb (iw s)), upload_sessions := upload_sessions (wdb (iw s))\<rparr>\<rparr>"
    have old: "image_rows_ok w1" by (rule image_rows_mono [OF inv]) (simp_all add: w1_def same)
    have "\<exists>m < uuid_next w'. uuid i = uuids w' m" by (rule exI [of _ "uuid_next (iw s)"]) (simp add: same i(1))
    with old new show ?thesis
      unfolding image_rows_ok_def img ses row_add_def by (simp add: w1_def same r)
  qed
  have "reads_ok fl w'" if inv: "reads_ok fl (iw s)"
    using inv unfolding reads_ok_def img ses same(3)
    by (fastforce simp: row_add_def row_get_append split: option.splits if_splits)
  moreover have "ready_ok sha (s\<lparr>iw := w'\<rparr>)" if "ready_ok sha s"
    using that i(2) by (auto simp: ready_ok_def img row_add_def intact_def)
  ultimately show ?thesis using run rows by (simp add: liftW_apply keeps_inv_def image_inv_def)
qed

lemma row_get_filter: "row_get k t = Some r \<Longrightarrow> p r \<Longrightarrow> row_get k (filter (\<lambda>(_, r). p r) t) = Some r"
  by (induction t) (auto split: if_splits)

lemma reads_after_delete:
  assumes "reads_ok fl w" and "images (wdb w') = row_del k (images (wdb w))" and "next_pk (wdb w) \<le> next_pk (wdb w')"
    and "upload_sessions (wdb w') = filter (\<lambda>(_, r). ups_image r \<noteq> k) (upload_sessions (wdb w))"
  shows "reads_ok fl w'"
  unfolding reads_ok_def
proof safe
  fix a r
  assume m: "(a, r) \<in> set fl"
  show "ups_image r < next_pk (wdb w')" using assms(1,3) m by (auto simp: reads_ok_def)
  fix i
  assume "row_get (ups_image r) (images (wdb w')) = Some i"
  then have ne: "ups_image r \<noteq> k" and i: "row_get (ups_image r) (images (wdb w)) = Some i"
    by (auto simp: assms(2) tbl.get_del split: if_splits)
  then obtain r' where r': "row_get a (upload_sessions (wdb w)) = Some r'" "ups_image r' = ups_image r"
    using assms(1) m by (fastforce simp: reads_ok_def)
  then have "row_get a (upload_sessions (wdb w')) = Some r'"
    unfolding assms(4) using ne by (intro row_get_filter) simp_all
  with r' show "\<exists>r'. row_get a (upload_sessions (wdb w')) = Some r' \<and> ups_image r' = ups_image r" by blast
qed

lemma rows_after_delete:
  assumes "image_rows_ok w" and "images (wdb w') = row_del k (images (wdb w))" and "next_pk (wdb w) \<le> next_pk (wdb w')"
    and "upload_sessions (wdb w') = filter p (upload_sessions (wdb w))" and "uuids w' = uuids w" and "uuid_next w \<le> uuid_next w'"
  shows "image_rows_ok w'"
proof -
  define w1 where "w1 = w'\<lparr>uuid_next := uuid_next w, wdb := (wdb w')\<lparr>next_pk := next_pk (wdb w)\<rparr>\<rparr>"
  have "image_rows_ok w1"
    using assms(1) by (auto simp: image_rows_ok_def w1_def assms(2,4,5) row_del_def distinct_map inj_on_def)
  then show ?thesis by (rule image_rows_mono) (simp_all add: w1_def assms)
qed

lemma ready_after_delete:
  assumes "image_rows_ok (iw s)" and "ready_ok sha s" and "(k, i) \<in> set (images (wdb (iw s)))"
    and "images (wdb w') = row_del k (images (wdb (iw s)))"
  shows "ready_ok sha (s\<lparr>files := (files s)(final_path i := None), iw := w'\<rparr>)"
  unfolding ready_ok_def
proof safe
  fix k' i'
  assume "(k', i') \<in> set (images (wdb (iw (s\<lparr>files := (files s)(final_path i := None), iw := w'\<rparr>))))" and rdy: "img_status i' = IS_READY"
  then have m: "(k', i') \<in> set (images (wdb (iw s)))" "k' \<noteq> k" by (auto simp: assms(4) row_del_def)
  then have "intact sha s i'" using assms(2) rdy by (auto simp: ready_ok_def)
  moreover have "final_path i' \<noteq> final_path i" using final_paths_differ [OF assms(1) m(1) assms(3)] m(2) by simp
  ultimately show "intact sha (s\<lparr>files := (files s)(final_path i := None), iw := w'\<rparr>) i'" by (simp add: intact_def)
qed

lemma ii_destroy:
  assumes "rows_where (\<lambda>t. tpl_image t = k) (templates (wdb (iw s))) = []"
  shows "keeps_inv sha fl s (snd (image_destroy usr ip k s))"
proof (cases "row_get k (images (wdb (iw s)))")
  case None
  then show ?thesis by (simp add: image_destroy_def bind_liftW get_row_apply ii.R_refl)
next
  case (Some i)
  obtain w1 where l: "log_request usr ip ''IMAGE_DELETE'' ''Image'' (uuid i) (Some (img_organization i)) (iw s) = (Inr (), w1)"
    and w1: "images (wdb w1) = images (wdb (iw s))" "upload_sessions (wdb w1) = upload_sessions (wdb (iw s))"
      "templates (wdb w1) = templates (wdb (iw s))" "uuids w1 = uuids (iw s)" "uuid_next w1 = Suc (uuid_next (iw s))"
      "next_pk (wdb w1) = Suc (next_pk (wdb (iw s)))"
    using log_request_run by meson
  define w2 where "w2 = snd (delete_image_row k w1)"
  have w2: "images (wdb w2) = row_del k (images (wdb (iw s)))" "uuids w2 = uuids (iw s)" "uuid_next (iw s) \<le> uuid_next w2"
      "upload_sessions (wdb w2) = filter (\<lambda>(_, r). ups_image r \<noteq> k) (upload_sessions (wdb (iw s)))" "next_pk (wdb (iw s)) \<le> next_pk (wdb w2)"
    using assms w1 by (simp_all add: w2_def delete_image_row_def)
  have run: "snd (image_destroy usr ip k s) = s\<lparr>files := (files s)(final_path i := None), iw := w2\<rparr>"
    using Some l by (auto simp: image_destroy_def delete_image_file_def files_simps get_row_apply w2_def split: prod.splits)
  show ?thesis
    unfolding keeps_inv_def
  proof
    assume inv: "image_inv sha fl s"
    have m: "(k, i) \<in> set (images (wdb (iw s)))" using Some inv by (simp add: image_inv_def row_get_images)
    show "image_inv sha fl (snd (image_destroy usr ip k s))"
      unfolding run image_inv_def
      using inv ready_after_delete [OF _ _ m w2(1), of sha] reads_after_delete [OF _ w2(1,5,4), of fl] rows_after_delete [OF _ w2(1,5,4,2,3)]
      by (simp add: image_inv_def)
  qed
qed

lemma get_session_mem: "get_session u uk w = (Inr kr, w') \<Longrightarrow> kr \<in> set (upload_sessions (wdb w))"
  by (auto simp: get_session_def rows_where_def split: list.splits dest!: arg_cong [where f = set])

lemma image_step_inv:
  assumes "image_step sha (s, fl) (s', fl')" and "image_inv sha fl s"
  shows "image_inv sha fl' s'"
  using assms
proof (cases rule: image_step.cases)
  case (Initiate usr ip data)
  with assms(2) show ?thesis using ii_initiate unfolding keeps_inv_def by blast
next
  case (Read u uk kr w')
  obtain k r where kr: "kr = (k, r)" by fastforce
  have m: "(k, r) \<in> set (upload_sessions (wdb (iw s)))" using get_session_mem Read(3) kr by metis
  then have "row_get k (upload_sessions (wdb (iw s))) = Some r" "ups_image r < next_pk (wdb (iw s))"
    using assms(2) by (auto simp: image_inv_def image_rows_ok_def row_get_def)
  with Read assms(2) kr show ?thesis by (auto simp: image_inv_def reads_ok_def)
next
  case (Chunk kr index body)
  with assms(2) show ?thesis using keepsD2 [OF ii_chunk_run] unfolding keeps_inv_def by blast
next
  case (Finalize kr usr ip)
  with assms(2) show ?thesis using ii_finalize_run unfolding keeps_inv_def by blast
next
  case (Abort kr)
  with assms(2) show ?thesis using keepsD2 [OF ii_abort_run] unfolding keeps_inv_def by blast
next
  case (Destroy k usr ip)
  with assms(2) show ?thesis using ii_destroy unfolding keeps_inv_def by blast
next
  case (Other w')
  with assms(2) show ?thesis using ii_world unfolding keeps_inv_def by blast
qed

lemma image_reach_inv:
  assumes "(image_step sha)\<^sup>*\<^sup>* (s0, fl0) (s, fl)" and "image_inv sha fl0 s0"
  shows "image_inv sha fl s"
  using assms by (induction rule: rtranclp_induct2) (auto intro: image_step_inv)

text \<open>
  C29. READY images are intact. Whatever requests to start, continue, finalize or abort uploads and to delete images
  (that no template uses) arrive, however they interleave between reading their session and acting on it, and whatever
  the rest of the controller does meanwhile: the file of every READY image exists and has the size and the SHA-256
  its row records.
\<close>

theorem ready_images_intact:
  assumes "(image_step sha)\<^sup>*\<^sup>* (s0, []) (s, fl)" and "image_inv sha [] s0"
    and "row_get k (images (wdb (iw s))) = Some i" and "img_status i = IS_READY"
  shows "\<exists>b. files s (final_path i) = Some b \<and> length b = img_size_bytes i \<and> sha b = img_sha256 i"
  using image_reach_inv [OF assms(1,2)] assms(3,4) by (auto simp: image_inv_def ready_ok_def intact_def dest!: row_get_SomeD)

definition ex_image :: image where
  "ex_image = \<lparr> uuid = ''u'', created_at = 0, updated_at = 0, img_organization = 1, img_storage = 12, img_name = ''debian'', img_version = ''12'',
     img_type = IT_QCOW2, img_format = ''qcow2'', img_size_bytes = 3, img_checksum_algorithm = ''sha256'', img_sha256 = ''abc'',
     img_source = ''UPLOAD'', img_file_path = '''', img_status = IS_READY, img_metadata = JObj [] \<rparr>"

definition ex_ready :: istore where
  "ex_ready = \<lparr> iw = db_upd (\<lambda>d. d\<lparr>images := [(60, ex_image)]\<rparr>) (ex_world\<lparr>uuid_next := 1\<rparr>), files = [final_path ex_image \<mapsto> ''abc''] \<rparr>"

lemma ex_supply: "inj (uuids ex_world)" "CHR ''.'' \<notin> set (uuids ex_world m)"
  by (auto simp: ex_uuids inj_def dest: arg_cong [where f = length])

lemma ex_ready_inv: "image_inv (\<lambda>b. b) [] ex_ready"
  using ex_supply by (auto simp: image_inv_def image_rows_ok_def reads_ok_def ready_ok_def intact_def ex_ready_def ex_image_def ex_uuids ex_db_def)

theorem ready_images_intact_witness:
  "\<exists>b. files (snd (liftW (initiate_upload (5, ex_user) None ex_upload) ex_ready)) (final_path ex_image) = Some b \<and> length b = 3 \<and> b = ''abc''"
proof -
  have step: "(image_step (\<lambda>b. b))\<^sup>*\<^sup>* (ex_ready, []) (snd (liftW (initiate_upload (5, ex_user) None ex_upload) ex_ready), [])"
    by (intro r_into_rtranclp image_step.Initiate)
  have "row_get (upl_storage ex_upload) (storage_pools (wdb (iw ex_ready))) = Some ex_pool"
    "row_get (sto_node ex_pool) (nodes (wdb (iw ex_ready))) = Some ex_node"
    by (simp_all add: ex_ready_def ex_upload_def ex_pool_def)
  from initiate_run [OF this, of "(5, ex_user)" None]
  have "row_get 60 (images (wdb (iw (snd (liftW (initiate_upload (5, ex_user) None ex_upload) ex_ready))))) = Some ex_image"
    by (auto simp: liftW_apply ex_ready_def row_add_def)
  from ready_images_intact [OF step ex_ready_inv this] show ?thesis by (simp add: ex_image_def)
qed

text \<open>
  The per-session lock does not prevent a chunk from being written twice. Two requests for the same chunk that both
  read the session before either has written (a client's retry racing the original) are both accepted one after the
  other: the index each compares is the one it read before it took the lock. The file then holds the chunk twice while
  the row counts it once.
\<close>

theorem stale_chunk_written_twice:
  assumes "uploading s u uk k r c"
  shows "\<exists>s1 s2. chunk_run (Some (Some (int (ups_next_chunk_index r)))) (Some b) (k, r) s =
        (Inr (Reply (ups_received_bytes r + length b, Suc (ups_next_chunk_index r), length b)), s1) \<and>
      chunk_run (Some (Some (int (ups_next_chunk_index r)))) (Some b) (k, r) s1 =
        (Inr (Reply (ups_received_bytes r + length b, Suc (ups_next_chunk_index r), length b)), s2) \<and>
      files s2 (temp_path r) = Some (contents c @ b @ b) \<and>
      map_option ups_received_bytes (row_get k (upload_sessions (wdb (iw s2)))) = Some (ups_received_bytes r + length b)"
proof -
  have row: "row_get k (upload_sessions (wdb (iw s))) = Some r" and act: "ups_status r = US_UPLOADING"
    and free: "redis_lookup (iw s) (upload_key r) = None" and c: "files s (temp_path r) = c"
    using assms unfolding uploading_def by blast+
  let ?idx = "Some (Some (int (ups_next_chunk_index r)))"
  obtain w1 where run1: "chunk_run ?idx (Some b) (k, r) s =
      (Inr (Reply (ups_received_bytes r + length b, Suc (ups_next_chunk_index r), length b)), s\<lparr>files := (files s)(temp_path r \<mapsto> contents c @ b), iw := w1\<rparr>)"
    and w1: "wdb w1 = upload_sessions_update (row_mod k (progress_of (chunk_done (length b) r))) (wdb (iw s))" "redis_lookup w1 = redis_lookup (iw s)"
    using chunk_run_ok [OF act free row, of ?idx b] c by auto
  define s1 where "s1 = s\<lparr>files := (files s)(temp_path r \<mapsto> contents c @ b), iw := w1\<rparr>"
  have row1: "row_get k (upload_sessions (wdb (iw s1))) = Some (chunk_done (length b) r)" and free1: "redis_lookup (iw s1) (upload_key r) = None"
    using row free w1 by (simp_all add: s1_def tbl.get_md)
  obtain w2 where run2: "chunk_run ?idx (Some b) (k, r) s1 =
      (Inr (Reply (ups_received_bytes r + length b, Suc (ups_next_chunk_index r), length b)),
       s1\<lparr>files := (files s1)(temp_path r \<mapsto> contents (files s1 (temp_path r)) @ b), iw := w2\<rparr>)"
    and w2: "wdb w2 = upload_sessions_update (row_mod k (progress_of (chunk_done (length b) r))) (wdb (iw s1))"
    using chunk_run_ok [OF act free1 row1, of ?idx b] by auto
  have "map_option ups_received_bytes (row_get k (upload_sessions (wdb w2))) = Some (ups_received_bytes r + length b)"
    using row1 by (simp add: w2 tbl.get_md progress_of_def)
  then show ?thesis using run1 run2 by (auto simp: s1_def)
qed

definition ex_session :: upload_session where
  "ex_session = \<lparr> uuid = ''u1'', created_at = 0, updated_at = 0, ups_image = 60, ups_created_by = Some 5, ups_total_size_bytes = 3,
     ups_received_bytes = 0, ups_next_chunk_index = 0, ups_expected_sha256 = '''', ups_status = US_UPLOADING, ups_error = '''' \<rparr>"

definition ex_uploading :: istore where
  "ex_uploading = \<lparr> iw = db_upd (\<lambda>d. d\<lparr>upload_sessions := [(61, ex_session)]\<rparr>) ex_world, files = (\<lambda>_. None) \<rparr>"

lemma ex_uploading_active: "uploading ex_uploading ''u1'' 5 61 ex_session None"
  by (simp add: uploading_def ex_uploading_def ex_session_def rows_where_def temp_path_def redis_lookup_def ex_redis)

theorem stale_chunk_written_twice_witness:
  "\<exists>s1 s2. chunk_run (Some (Some 0)) (Some ''abc'') (61, ex_session) ex_uploading = (Inr (Reply (3, 1, 3)), s1) \<and>
     chunk_run (Some (Some 0)) (Some ''abc'') (61, ex_session) s1 = (Inr (Reply (3, 1, 3)), s2) \<and>
     files s2 (ChunkDir, ''u1.part'') = Some ''abcabc''"
  using stale_chunk_written_twice [OF ex_uploading_active, of "''abc''"] by (auto simp: ex_session_def temp_path_def)

text \<open>
  Deleting an image that a template uses loses its file. The handler removes the file before it deletes the row; the
  deletion of the row is refused because the template protects it. The image stays READY in the database, and every later
  download of it fails.
\<close>

theorem protected_image_loses_file:
  assumes "row_get k (images (wdb (iw s))) = Some i" and "img_status i = IS_READY"
    and "(tk, t) \<in> set (templates (wdb (iw s)))" and "tpl_image t = k"
  shows "\<exists>s'. image_destroy usr ip k s = (Inl (ProtectedError ''Cannot delete some instances of model Image''), s') \<and>
     row_get k (images (wdb (iw s'))) = Some i \<and> files s' (final_path i) = None \<and>
     image_download i s' = (Inl (OtherError ''FileNotFoundError''), s')"
proof -
  obtain w1 where l: "log_request usr ip ''IMAGE_DELETE'' ''Image'' (uuid i) (Some (img_organization i)) (iw s) = (Inr (), w1)"
    and w1: "images (wdb w1) = images (wdb (iw s))" "templates (wdb w1) = templates (wdb (iw s))"
    using log_request_run by meson
  have used: "rows_where (\<lambda>t. tpl_image t = k) (templates (wdb w1)) \<noteq> []"
    using assms(3,4) w1(2) by (auto simp: rows_where_def filter_empty_conv)
  define s' where "s' = s\<lparr>files := (files s)(final_path i := None), iw := w1\<rparr>"
  have "image_destroy usr ip k s = (Inl (ProtectedError ''Cannot delete some instances of model Image''), s')"
    using assms(1) l used by (simp add: image_destroy_def delete_image_file_def files_simps get_row_apply delete_image_row_def s'_def)
  moreover have "image_download i s' = (Inl (OtherError ''FileNotFoundError''), s')"
    using assms(2) by (simp add: image_download_def read_image_def bindM_apply s'_def)
  ultimately show ?thesis using assms(1) w1(1) by (intro exI [of _ s']) (simp add: s'_def)
qed

definition ex_template :: template where
  "ex_template = \<lparr> uuid = ''t1'', created_at = 0, updated_at = 0, tpl_organization = 1, tpl_image = 60, tpl_name = ''debian'', tpl_description = '''',
     tpl_default_cpu_count = 1, tpl_default_memory_mb = 512, tpl_default_disk_gb = 10, tpl_default_firmware = BIOS, tpl_default_os_type = ''linux'',
     tpl_network_defaults = JObj [], tpl_cloud_init_defaults = JObj [], tpl_is_active = True \<rparr>"

theorem protected_image_loses_file_witness:
  "\<exists>s'. image_destroy (5, ex_user) None 60 (ex_ready\<lparr>iw := db_upd (\<lambda>d. d\<lparr>templates := [(62, ex_template)]\<rparr>) (iw ex_ready)\<rparr>) =
      (Inl (ProtectedError ''Cannot delete some instances of model Image''), s') \<and> files s' (final_path ex_image) = None"
  using protected_image_loses_file [of 60 "ex_ready\<lparr>iw := db_upd (\<lambda>d. d\<lparr>templates := [(62, ex_template)]\<rparr>) (iw ex_ready)\<rparr>" ex_image 62 ex_template
      "(5, ex_user)" None]
  by (auto simp: ex_ready_def ex_template_def ex_image_def)

end
