(* ===== verification/AgentHost.thy ===== *)
theory AgentHost
  imports Errors
begin

section \<open>AgentHost: the host a node agent runs on\<close>

text \<open>
  What \<open>agent/nodepilot_agent\<close> does to its host goes through a handful of primitives: commands run with an argument
  list, calls of the libvirt API, calls of \<open>os\<close> and \<open>shutil\<close>, and HTTP and S3 transfers. The model records each of
  them in \<open>trace\<close>; what the host answers is the arbitrary function \<open>respond\<close> of everything done before and the call.
  A theorem about an arbitrary host therefore holds whatever commands, libvirt and the file system do.
  Payload fields are read at the type the controller sends; a value of another type is a \<open>TypeError\<close>.
\<close>

datatype aexn =
    StorageOperationError string
  | NetworkOperationError string
  | LibvirtOperationError string
  | LibvirtUnavailable
  | LibvirtError string
  | SystemExit string
  | CloudInitError string
  | NotImplementedError string
  | AKeyError string
  | ATypeError string
  | AValueError string
  | AOSError string

fun str_aexn :: "aexn \<Rightarrow> string" where
  "str_aexn (StorageOperationError m) = m"
| "str_aexn (NetworkOperationError m) = m"
| "str_aexn (LibvirtOperationError m) = m"
| "str_aexn LibvirtUnavailable =
     ''libvirt-python is not installed on this host; install the '' @ quoted ''libvirt'' @ '' extra to manage VMs.''"
| "str_aexn (LibvirtError m) = m"
| "str_aexn (SystemExit m) = m"
| "str_aexn (CloudInitError m) = m"
| "str_aexn (NotImplementedError m) = m"
| "str_aexn (AKeyError m) = quoted m"
| "str_aexn (ATypeError m) = m"
| "str_aexn (AValueError m) = m"
| "str_aexn (AOSError m) = m"

text \<open>Calls of the libvirt API; the string first is the domain's uuid.\<close>

datatype lvcall =
    LvOpen string | LvIsAlive | LvClose | ConnType | ConnLibVersion | LvLookup string | DefineXML string | IsActive string | Destroy string
  | Undefine string | UndefineFlags string | Create string | Shutdown string | Reboot string | Reset string
  | Suspend string | Resume string | DomInfo string | AttachDeviceFlags string string bool bool
  | DetachDeviceFlags string string bool bool | SnapshotCreateXML string string | SnapshotLookup string string
  | SnapshotDelete string string | RevertToSnapshot string string | XMLDesc string | GetInfo
  | ListAllDomains | MemoryStats string | CPUStats string

datatype hcall =
    Exec "string list"
  | Lv lvcall
  | PathExists string | RealPath string | RemoveFile string | MakeDirs string | RmTree string | GetSize string | DiskUsage string
  | MkDTemp string | Sha256File string | WriteText string string | Which string
  | FetchImage string string string | ImportBoto3 | S3Upload json string string string | S3Download json string string
  | ZfsSendReceive string string

text \<open>An answer: a value, an exception of the library, a process that exited, or one that was killed after its timeout.\<close>

datatype hreply = Res json | Raised string | Exited int string string | TimedOut

record host =
  trace :: "hcall list"
  respond :: "hcall list \<Rightarrow> hcall \<Rightarrow> hreply"
  libvirt_available :: bool
  lv_conn :: bool

type_synonym 'a aop = "(aexn, host, 'a) M"

definition hostM :: "hcall \<Rightarrow> hreply aop" where
  "hostM c = (\<lambda>h. (Inr (respond h (trace h) c), h\<lparr>trace := trace h @ [c]\<rparr>))"

text \<open>A call of \<open>os\<close>, \<open>shutil\<close> or an HTTP library: its value, or the exception it raises.\<close>

definition osM :: "hcall \<Rightarrow> json aop" where
  "osM c = bindM (hostM c) (\<lambda>r. case r of
     Res j \<Rightarrow> returnM j | Raised m \<Rightarrow> raiseM (AOSError m) | Exited n out err \<Rightarrow> raiseM (AOSError err) | TimedOut \<Rightarrow> raiseM (AOSError ''timed out''))"

subsection \<open>Payloads\<close>

definition pget :: "string \<Rightarrow> json \<Rightarrow> json aop" where
  "pget k p = (case jget k p of None \<Rightarrow> raiseM (AKeyError k) | Some v \<Rightarrow> returnM v)"

definition as_str :: "json \<Rightarrow> string aop" where
  "as_str j = (case j of JStr s \<Rightarrow> returnM s | _ \<Rightarrow> raiseM (ATypeError ''expected str''))"

definition as_int :: "json \<Rightarrow> int aop" where
  "as_int j = (case j of JInt i \<Rightarrow> returnM i | _ \<Rightarrow> raiseM (ATypeError ''expected int''))"

definition pstr :: "string \<Rightarrow> json \<Rightarrow> string aop" where
  "pstr k p = bindM (pget k p) as_str"

definition pint :: "string \<Rightarrow> json \<Rightarrow> int aop" where
  "pint k p = bindM (pget k p) as_int"

text \<open>\<open>payload.get(k, default)\<close> used as a string; \<open>d\<close> is \<open>None\<close> for a missing default.\<close>

definition pstr_or :: "string \<Rightarrow> json \<Rightarrow> string \<Rightarrow> string aop" where
  "pstr_or k p d = (case jget k p of None \<Rightarrow> returnM d | Some v \<Rightarrow> as_str v)"

definition pflag :: "string \<Rightarrow> json \<Rightarrow> bool" where
  "pflag k p = (case jget k p of None \<Rightarrow> False | Some v \<Rightarrow> truthy v)"

subsection \<open>Strings\<close>

definition upper_char :: "char \<Rightarrow> char" where
  "upper_char c = (let n = (of_char c :: nat) in if 97 \<le> n \<and> n \<le> 122 then char_of (n - 32) else c)"

definition upper :: "string \<Rightarrow> string" where
  "upper s = map upper_char s"

text \<open>
  \<open>^[A-Za-z0-9][...]{0,n}$\<close> with \<open>re.match\<close>: the dollar sign also matches before a newline that ends the string.
\<close>

definition alnum :: "char \<Rightarrow> bool" where
  "alnum c \<longleftrightarrow> is_alpha c \<or> is_digit c"

definition token_char :: "char \<Rightarrow> bool" where
  "token_char c \<longleftrightarrow> alnum c \<or> c = CHR ''.'' \<or> c = CHR ''_'' \<or> c = CHR ''-''"

definition token :: "nat \<Rightarrow> string \<Rightarrow> bool" where
  "token n s = (case s of [] \<Rightarrow> False | c # cs \<Rightarrow> alnum c \<and> length cs \<le> n \<and> list_all token_char cs)"

definition re_token :: "nat \<Rightarrow> string \<Rightarrow> bool" where
  "re_token n s \<longleftrightarrow> token n s \<or> (s \<noteq> [] \<and> last s = CHR 0x0A \<and> token n (butlast s))"

definition rstrip_slash :: "string \<Rightarrow> string" where
  "rstrip_slash s = rev (dropWhile (\<lambda>c. c = CHR ''/'') (rev s))"

definition path_join :: "string \<Rightarrow> string \<Rightarrow> string" where
  "path_join a b = (if b \<noteq> [] \<and> hd b = CHR ''/'' then b
     else if a = [] \<or> last a = CHR ''/'' then a @ b else a @ ''/'' @ b)"

subsection \<open>What an operation does to the host\<close>

text \<open>\<open>issues P\<close>: the operation only appends calls that satisfy \<open>P\<close>.\<close>

definition issues :: "(hcall \<Rightarrow> bool) \<Rightarrow> host \<Rightarrow> host \<Rightarrow> bool" where
  "issues P h h' \<longleftrightarrow> respond h' = respond h \<and> (\<exists>cs. trace h' = trace h @ cs \<and> list_all P cs)"

interpretation iss: frame "issues P" for P
proof unfold_locales
  show "issues P h h" for h by (auto simp: issues_def)
  show "issues P h h' \<Longrightarrow> issues P h' h'' \<Longrightarrow> issues P h h''" for h h' h'' by (fastforce simp: issues_def)
qed

lemma iss_hostM: "P c \<Longrightarrow> keeps (issues P) (hostM c)"
  by (simp add: keeps_def hostM_def issues_def)

lemma iss_osM: "P c \<Longrightarrow> keeps (issues P) (osM c)"
  unfolding osM_def by (intro iss.keeps_bind iss_hostM) (auto intro!: iss.keeps_rules split: hreply.splits)

lemma iss_as: "keeps (issues P) (as_str j)" "keeps (issues P) (as_int j)"
  by (auto simp: as_str_def as_int_def intro!: iss.keeps_rules split: json.splits)

lemma iss_payload: "keeps (issues P) (pget k p)" "keeps (issues P) (pstr k p)" "keeps (issues P) (pint k p)" "keeps (issues P) (pstr_or k p d)"
  unfolding pstr_def pint_def pstr_or_def pget_def by (intro iss.keeps_rules iss_as)+

lemmas iss_rules = iss.keeps_rules iss_hostM iss_osM iss_as iss_payload keeps_case_prod

lemma issues_weaken: "issues P h h' \<Longrightarrow> (\<And>c. P c \<Longrightarrow> Q c) \<Longrightarrow> issues Q h h'"
  by (auto simp: issues_def list_all_iff)

lemma issues_Exec:
  assumes "issues (\<lambda>c. c \<in> Exec ` S) h h'"
  shows "\<exists>cs. trace h' = trace h @ map Exec cs \<and> set cs \<subseteq> S"
proof -
  have "\<exists>as. cs = map Exec as \<and> set as \<subseteq> S" if "list_all (\<lambda>c. c \<in> Exec ` S) cs" for cs
    using that
  proof (induction cs)
    case (Cons c cs)
    then obtain as a where "cs = map Exec as" "set as \<subseteq> S" "c = Exec a" "a \<in> S" by auto
    then show ?case by (intro exI [of _ "a # as"]) simp
  qed simp
  with assms show ?thesis unfolding issues_def by blast
qed

lemma hostM_apply [simp]: "hostM c h = (Inr (respond h (trace h) c), h\<lparr>trace := trace h @ [c]\<rparr>)"
  by (simp add: hostM_def)

lemma bind_hostM [simp]: "bindM (hostM c) f h = f (respond h (trace h) c) (h\<lparr>trace := trace h @ [c]\<rparr>)"
  by (simp add: bindM_apply)

end
