(* ===== verification/AgentNetwork.thy ===== *)
theory AgentNetwork
  imports AgentHost
begin

section \<open>AgentNetwork: bridges and VLANs on the node\<close>

text \<open>
  \<open>agent/nodepilot_agent/network.py\<close>. Interface names are validated before any command runs; a VLAN network is a
  dedicated bridge with a tagged sub-interface of the parent bridge as its uplink.
\<close>

definition validate_iface :: "string \<Rightarrow> string aop" where
  "validate_iface nm = (if re_token 14 nm then returnM nm
     else raiseM (NetworkOperationError (''Unsafe/invalid interface name: '' @ quoted nm)))"

text \<open>\<open>_run\<close>: exit status and output; with \<open>check\<close>, a non-zero status is an error.\<close>

definition net_run :: "string list \<Rightarrow> bool \<Rightarrow> (int \<times> string) aop" where
  "net_run args check = bindM (hostM (Exec args)) (\<lambda>r. case r of
     Exited code out err \<Rightarrow> if check \<and> code \<noteq> 0
        then raiseM (NetworkOperationError (join_with '' '' args @ '' failed: '' @ err)) else returnM (code, out)
   | TimedOut \<Rightarrow> raiseM (NetworkOperationError (join_with '' '' args @ '' timed out''))
   | Raised m \<Rightarrow> raiseM (AOSError m)
   | Res j \<Rightarrow> raiseM (AOSError ''subprocess.run''))"

definition strip_ws :: "string \<Rightarrow> string" where
  "strip_ws s = (let f = dropWhile (\<lambda>c. c \<in> {CHR '' '', CHR 0x09, CHR 0x0A, CHR 0x0D}) in rev (f (rev (f s))))"

definition shown :: "int \<times> string \<Rightarrow> bool" where
  "shown r \<longleftrightarrow> fst r = 0 \<and> strip_ws (snd r) \<notin> {'''', ''[]''}"

definition bridge_exists :: "string \<Rightarrow> bool aop" where
  "bridge_exists nm = bindM (validate_iface nm) (\<lambda>nm.
     bindM (net_run [''ip'', ''-json'', ''link'', ''show'', ''type'', ''bridge'', nm] False) (\<lambda>r. returnM (shown r)))"

definition iface_exists :: "string \<Rightarrow> bool aop" where
  "iface_exists nm = bindM (net_run [''ip'', ''-json'', ''link'', ''show'', nm] False) (\<lambda>r. returnM (shown r))"

definition create_bridge :: "string \<Rightarrow> unit aop" where
  "create_bridge nm = bindM (validate_iface nm) (\<lambda>nm. bindM (bridge_exists nm) (\<lambda>ex.
     if ex then returnM ()
     else bindM (net_run [''ip'', ''link'', ''add'', ''name'', nm, ''type'', ''bridge''] True) (\<lambda>_.
          bindM (net_run [''ip'', ''link'', ''set'', nm, ''up''] True) (\<lambda>_. returnM ()))))"

definition delete_bridge :: "string \<Rightarrow> unit aop" where
  "delete_bridge nm = bindM (validate_iface nm) (\<lambda>nm.
     bindM (net_run [''ip'', ''link'', ''set'', nm, ''down''] False) (\<lambda>_.
     bindM (net_run [''ip'', ''link'', ''delete'', nm, ''type'', ''bridge''] True) (\<lambda>_. returnM ())))"

definition vlan_interface_name :: "string \<Rightarrow> int \<Rightarrow> string aop" where
  "vlan_interface_name par vlan = validate_iface (par @ ''.'' @ show_int vlan)"

definition create_vlan_interface :: "string \<Rightarrow> int \<Rightarrow> string aop" where
  "create_vlan_interface par vlan = bindM (validate_iface par) (\<lambda>par.
     if \<not> (1 \<le> vlan \<and> vlan \<le> 4094) then raiseM (NetworkOperationError (''VLAN id out of range: '' @ show_int vlan))
     else bindM (vlan_interface_name par vlan) (\<lambda>iface. bindM (iface_exists iface) (\<lambda>ex.
       if ex then returnM iface
       else bindM (net_run [''ip'', ''link'', ''add'', ''link'', par, ''name'', iface, ''type'', ''vlan'', ''id'', show_int vlan] True) (\<lambda>_.
            bindM (net_run [''ip'', ''link'', ''set'', iface, ''up''] True) (\<lambda>_. returnM iface)))))"

definition delete_vlan_interface :: "string \<Rightarrow> int \<Rightarrow> unit aop" where
  "delete_vlan_interface par vlan = bindM (vlan_interface_name par vlan) (\<lambda>iface.
     bindM (net_run [''ip'', ''link'', ''set'', iface, ''down''] False) (\<lambda>_.
     bindM (net_run [''ip'', ''link'', ''delete'', iface] False) (\<lambda>_. returnM ())))"

definition attach_to_bridge :: "string \<Rightarrow> string \<Rightarrow> unit aop" where
  "attach_to_bridge iface bridge = bindM (validate_iface iface) (\<lambda>iface. bindM (validate_iface bridge) (\<lambda>bridge.
     bindM (net_run [''ip'', ''link'', ''set'', iface, ''master'', bridge] True) (\<lambda>_. returnM ())))"

definition vlan_bridge_name :: "string \<Rightarrow> int \<Rightarrow> string aop" where
  "vlan_bridge_name par vlan = validate_iface (par @ ''.'' @ show_int vlan @ ''b'')"

definition ensure_vlan_network :: "string \<Rightarrow> int \<Rightarrow> string aop" where
  "ensure_vlan_network par vlan = bindM (create_bridge par) (\<lambda>_.
     bindM (create_vlan_interface par vlan) (\<lambda>uplink.
     bindM (vlan_bridge_name par vlan) (\<lambda>dedicated_bridge.
     bindM (create_bridge dedicated_bridge) (\<lambda>_.
     bindM (attach_to_bridge uplink dedicated_bridge) (\<lambda>_. returnM dedicated_bridge)))))"

definition teardown_vlan_network :: "string \<Rightarrow> int \<Rightarrow> unit aop" where
  "teardown_vlan_network par vlan = bindM (vlan_bridge_name par vlan) (\<lambda>b.
     bindM (delete_bridge b) (\<lambda>_. delete_vlan_interface par vlan))"

subsection \<open>Names\<close>

lemma validate_iface_Inr: "validate_iface nm h = (Inr x, h') \<longleftrightarrow> re_token 14 nm \<and> x = nm \<and> h' = h"
  by (auto simp: validate_iface_def)

definition vlan_uplink :: "string \<Rightarrow> int \<Rightarrow> string" where
  "vlan_uplink p v = p @ ''.'' @ show_int v"

definition vlan_bridge :: "string \<Rightarrow> int \<Rightarrow> string" where
  "vlan_bridge p v = p @ ''.'' @ show_int v @ ''b''"

lemma show_int_chars: "c \<in> set (show_int v) \<Longrightarrow> is_digit c \<or> c = CHR ''-''"
  by (auto simp: show_int_def split: if_splits dest: show_nat_digits)

lemma show_int_no: "CHR ''.'' \<notin> set (show_int v)" "CHR ''b'' \<notin> set (show_int v)"
  using show_int_chars [of "CHR ''.''" v] show_int_chars [of "CHR ''b''" v] by (auto simp: is_digit_def)

lemma show_int_nonempty [simp]: "show_int v \<noteq> []"
  by (simp add: show_int_def)

lemma last_dot_unique:
  assumes "p @ ''.'' @ s = p' @ ''.'' @ s'" and "CHR ''.'' \<notin> set s" and "CHR ''.'' \<notin> set s'"
  shows "p = p' \<and> s = s'"
proof -
  have "rev s @ CHR ''.'' # rev p = rev s' @ CHR ''.'' # rev p'" using arg_cong [OF assms(1), of rev] by simp
  moreover have "takeWhile (\<lambda>c. c \<noteq> CHR ''.'') (rev s @ CHR ''.'' # q) = rev s" "takeWhile (\<lambda>c. c \<noteq> CHR ''.'') (rev s' @ CHR ''.'' # q) = rev s'" for q
    using assms(2,3) by (subst takeWhile_append2; auto)+
  ultimately have "rev s = rev s'" by metis
  with assms(1) show ?thesis by simp
qed

text \<open>Uplinks and dedicated bridges of different VLAN networks never share a name.\<close>

lemma vlan_names:
  "vlan_bridge p v = vlan_bridge p' v' \<longleftrightarrow> p = p' \<and> v = v'" "vlan_uplink p v = vlan_uplink p' v' \<longleftrightarrow> p = p' \<and> v = v'"
  "vlan_bridge p v \<noteq> vlan_uplink p' v'" "vlan_bridge p v \<noteq> p" "vlan_uplink p v \<noteq> p"
proof -
  show "vlan_bridge p v = vlan_bridge p' v' \<longleftrightarrow> p = p' \<and> v = v'"
    using last_dot_unique [of p "show_int v @ ''b''" p' "show_int v' @ ''b''"] show_int_no show_int_inj by (auto simp: vlan_bridge_def)
  show "vlan_uplink p v = vlan_uplink p' v' \<longleftrightarrow> p = p' \<and> v = v'"
    using last_dot_unique [of p "show_int v" p' "show_int v'"] show_int_no show_int_inj by (auto simp: vlan_uplink_def)
  show "vlan_bridge p v \<noteq> vlan_uplink p' v'"
  proof
    assume "vlan_bridge p v = vlan_uplink p' v'"
    then have "show_int v @ ''b'' = show_int v'"
      using last_dot_unique [of p "show_int v @ ''b''" p' "show_int v'"] show_int_no by (auto simp: vlan_bridge_def vlan_uplink_def)
    then have "CHR ''b'' \<in> set (show_int v')" by (metis in_set_conv_decomp append_Nil2)
    with show_int_no(2) show False by simp
  qed
qed (simp_all add: vlan_bridge_def vlan_uplink_def)

lemma iss_validate: "keeps (issues P) (validate_iface nm)"
  unfolding validate_iface_def by (intro iss_rules)

lemma iss_net_run: "P (Exec args) \<Longrightarrow> keeps (issues P) (net_run args check)"
  unfolding net_run_def by (intro iss.keeps_bind iss_hostM) (auto intro!: iss.keeps_rules split: hreply.splits)

text \<open>A validated name is the name itself.\<close>

lemma keeps_validated:
  assumes "keeps (issues P) (f nm)"
  shows "keeps (issues P) (bindM (validate_iface nm) f)"
  using assms by (auto simp: validate_iface_def keeps_def iss.R_refl)

definition teardown_commands :: "string \<Rightarrow> int \<Rightarrow> string list list" where
  "teardown_commands p v =
     [[''ip'', ''link'', ''set'', vlan_bridge p v, ''down''], [''ip'', ''link'', ''delete'', vlan_bridge p v, ''type'', ''bridge''],
      [''ip'', ''link'', ''set'', vlan_uplink p v, ''down''], [''ip'', ''link'', ''delete'', vlan_uplink p v]]"

lemma teardown_issues: "keeps (issues (\<lambda>c. c \<in> Exec ` set (teardown_commands p v))) (teardown_vlan_network p v)"
  unfolding teardown_vlan_network_def vlan_bridge_name_def delete_bridge_def delete_vlan_interface_def vlan_interface_name_def
  by (intro keeps_validated iss.keeps_rules iss_net_run) (simp_all add: teardown_commands_def vlan_bridge_def vlan_uplink_def)

text \<open>
  C30. VLAN networks are kept apart on the node. Removing the VLAN network of a bridge runs, whatever the host answers, only
  commands whose device is that network's own dedicated bridge or its own tagged uplink. Neither is the parent bridge,
  and neither is the dedicated bridge or the uplink of any other VLAN network, on the same or another parent.
\<close>

theorem vlan_teardown_confined:
  assumes "(p, v) \<noteq> (p', v')"
  shows "(\<exists>cs. trace (snd (teardown_vlan_network p v h)) = trace h @ map Exec cs \<and>
     (\<forall>args \<in> set cs. args ! 3 \<in> {vlan_bridge p v, vlan_uplink p v})) \<and>
     {vlan_bridge p v, vlan_uplink p v} \<inter> {p, vlan_bridge p' v', vlan_uplink p' v'} = {}"
proof -
  obtain cs where t: "trace (snd (teardown_vlan_network p v h)) = trace h @ map Exec cs" and cs: "set cs \<subseteq> set (teardown_commands p v)"
    using issues_Exec [OF keepsD2 [OF teardown_issues]] by blast
  have "args ! 3 \<in> {vlan_bridge p v, vlan_uplink p v}" if "args \<in> set cs" for args
    using that cs by (auto simp: teardown_commands_def)
  moreover have "{vlan_bridge p v, vlan_uplink p v} \<inter> {p, vlan_bridge p' v', vlan_uplink p' v'} = {}"
    using assms vlan_names(1-2) vlan_names(3) [of p v p' v'] vlan_names(3) [of p' v' p v] vlan_names(4,5) [of p v] by auto
  ultimately show ?thesis using t by blast
qed

theorem vlan_teardown_confined_witness:
  "{vlan_bridge ''vmbr0'' 5, vlan_uplink ''vmbr0'' 5} \<inter> {''vmbr0'', vlan_bridge ''vmbr0'' 6, vlan_uplink ''vmbr0'' 6} = {}"
  using vlan_teardown_confined [of "''vmbr0''" 5 "''vmbr0''" 6] by simp

end
