(* ===== verification/AgentXml.thy ===== *)
theory AgentXml
  imports AgentNetwork
begin

section \<open>AgentXml: libvirt domain XML\<close>

text \<open>
  \<open>agent/nodepilot_agent/domain_xml.py\<close>: the domain, disk, CD-ROM and interface documents the agent hands to libvirt,
  as strings. To say what a reader of such a document sees, the second half defines the tokens of the XML that occurs
  here, how they print and a lexer that reads them back, and shows which tokens each document has.
\<close>

subsection \<open>Escaping\<close>

definition replace_char :: "char \<Rightarrow> string \<Rightarrow> string \<Rightarrow> string" where
  "replace_char c r s = concat (map (\<lambda>x. if x = c then r else [x]) s)"

text \<open>\<open>xml.sax.saxutils.escape\<close>: one replacement after the other, ampersands first.\<close>

definition sax_escape :: "(char \<times> string) list \<Rightarrow> string \<Rightarrow> string" where
  "sax_escape entities s = fold (\<lambda>(c, r). replace_char c r)
     ([(CHR ''&'', ''&amp;''), (CHR ''>'', ''&gt;''), (CHR ''<'', ''&lt;'')] @ entities) s"

definition escape :: "string \<Rightarrow> string" where
  "escape s = sax_escape [(CHR 0x22, ''&quot;''), (CHR 0x27, ''&apos;'')] s"

subsection \<open>Documents\<close>

definition BUS_DEVICE_PREFIX :: "(string \<times> string) list" where
  "BUS_DEVICE_PREFIX = [(''VIRTIO'', ''vd''), (''VIRTIO_SCSI'', ''sd''), (''SATA'', ''sd''), (''IDE'', ''hd'')]"

definition BUS_XML_NAME :: "(string \<times> string) list" where
  "BUS_XML_NAME = [(''VIRTIO'', ''virtio''), (''VIRTIO_SCSI'', ''scsi''), (''SATA'', ''sata''), (''IDE'', ''ide'')]"

definition BOOT_DEV_XML_NAME :: "(string \<times> string) list" where
  "BOOT_DEV_XML_NAME = [(''disk'', ''hd''), (''cdrom'', ''cdrom''), (''network'', ''network''), (''floppy'', ''fd'')]"

definition BLOCK_BACKED_STORAGE_TYPES :: "string list" where
  "BLOCK_BACKED_STORAGE_TYPES = [''LVM'', ''LVM_THIN'', ''ZFS'', ''CEPH_RBD'']"

definition dict_get :: "(string \<times> string) list \<Rightarrow> string \<Rightarrow> string \<Rightarrow> string" where
  "dict_get d k def = (case map_of d k of None \<Rightarrow> def | Some v \<Rightarrow> v)"

definition resolve_nic_bridge :: "json \<Rightarrow> string aop" where
  "resolve_nic_bridge nic = bindM (pstr_or ''bridge'' nic ''vmbr0'') (\<lambda>bridge.
     if pflag ''vlan'' nic then bindM (pint ''vlan'' nic) (vlan_bridge_name bridge) else returnM bridge)"

text \<open>The argument is \<open>nic.get("rate_limit_mbps")\<close>; a missing, null or zero limit leaves the element out.\<close>

definition bandwidth_xml :: "int option \<Rightarrow> string" where
  \<open>bandwidth_xml limit = (case limit of None \<Rightarrow> '''' | Some mbps \<Rightarrow> if mbps = 0 then '''' else
     let kbps = show_int (mbps * 1000 div 8)
     in ''<bandwidth><inbound average="'' @ kbps @ ''"/><outbound average="'' @ kbps @ ''"/></bandwidth>'')\<close>

definition rate_limit :: "json \<Rightarrow> int option aop" where
  "rate_limit nic = (if pflag ''rate_limit_mbps'' nic then bindM (pint ''rate_limit_mbps'' nic) (\<lambda>i. returnM (Some i)) else returnM None)"

definition is_block :: "string option \<Rightarrow> bool" where
  "is_block storage_type = (case storage_type of None \<Rightarrow> False | Some t \<Rightarrow> t \<in> set BLOCK_BACKED_STORAGE_TYPES)"

text \<open>\<open>_disk_source\<close>: the disk type, the source element and the driver format.\<close>

definition disk_source :: "string option \<Rightarrow> string \<Rightarrow> string option \<Rightarrow> string \<times> string \<times> string" where
  \<open>disk_source storage_type volume_id format =
     (let disk_format = (case format of Some f \<Rightarrow> if f \<noteq> '''' then f else if is_block storage_type then ''raw'' else ''qcow2''
                         | None \<Rightarrow> if is_block storage_type then ''raw'' else ''qcow2'')
      in if is_block storage_type then (''block'', ''<source dev="'' @ escape volume_id @ ''"/>'', disk_format)
         else (''file'', ''<source file="'' @ escape volume_id @ ''"/>'', disk_format))\<close>

text \<open>\<open>chr(ord("a") + index)\<close>; past the alphabet the name is no longer a letter.\<close>

definition next_device_name :: "string \<Rightarrow> nat \<Rightarrow> string" where
  "next_device_name pre index = pre @ [char_of (97 + index)]"

definition opt_str :: "string \<Rightarrow> json \<Rightarrow> string option aop" where
  "opt_str k p = (case jget k p of None \<Rightarrow> returnM None | Some JNull \<Rightarrow> returnM None | Some v \<Rightarrow> bindM (as_str v) (\<lambda>s. returnM (Some s)))"

definition disk_xml :: "nat \<Rightarrow> json \<Rightarrow> string aop" where
  \<open>disk_xml index disk =
     bindM (pstr_or ''bus'' disk ''VIRTIO'') (\<lambda>bus.
     bindM (if pflag ''device'' disk then pstr ''device'' disk
            else returnM (next_device_name (dict_get BUS_DEVICE_PREFIX bus ''vd'') index)) (\<lambda>device_name.
     bindM (opt_str ''storage_type'' disk) (\<lambda>storage_type.
     bindM (pstr_or ''volume_id'' disk '''') (\<lambda>volume_id.
     bindM (opt_str ''format'' disk) (\<lambda>format.
     let discard_attr = (if pflag ''discard'' disk then '' discard="unmap"'' else '''');
         iothread_attr = (if pflag ''iothread'' disk then '' iothread="1"'' else '''');
         readonly_tag = (if pflag ''readonly'' disk then ''<readonly/>'' else '''');
         (disk_type_attr, source_xml, driver_format) = disk_source storage_type volume_id format
     in returnM (''<disk type="'' @ disk_type_attr @ ''" device="disk">'' @
          ''<driver name="qemu" type="'' @ driver_format @ ''"'' @ discard_attr @ iothread_attr @ ''/>'' @
          source_xml @
          ''<target dev="'' @ device_name @ ''" bus="'' @ dict_get BUS_XML_NAME bus ''virtio'' @ ''"/>'' @
          readonly_tag @ ''</disk>''))))))\<close>

definition nic_xml :: "json \<Rightarrow> string aop" where
  \<open>nic_xml nic =
     bindM (pstr_or ''model'' nic ''VIRTIO'') (\<lambda>model.
     bindM (resolve_nic_bridge nic) (\<lambda>bridge.
     bindM (pstr ''mac_address'' nic) (\<lambda>mac.
     bindM (rate_limit nic) (\<lambda>limit.
     returnM (''<interface type="bridge">'' @ ''<source bridge="'' @ escape bridge @ ''"/>'' @
        ''<mac address="'' @ escape mac @ ''"/>'' @ ''<model type="'' @ lower model @ ''"/>'' @
        bandwidth_xml limit @ ''</interface>'')))))\<close>

definition plist :: "string \<Rightarrow> json \<Rightarrow> json list aop" where
  "plist k p = (case jget k p of None \<Rightarrow> returnM [] | Some (JArr xs) \<Rightarrow> returnM xs | Some _ \<Rightarrow> raiseM (ATypeError ''expected list''))"

definition boot_devices :: "json \<Rightarrow> string list aop" where
  "boot_devices payload = bindM (if pflag ''boot_order'' payload then bindM (plist ''boot_order'' payload) (mapM as_str) else returnM [''disk''])
     (\<lambda>ds. returnM (map (\<lambda>d. dict_get BOOT_DEV_XML_NAME d ''hd'') ds))"

definition os_xml :: "string \<Rightarrow> string \<Rightarrow> string list \<Rightarrow> string" where
  \<open>os_xml firmware machine_type devs =
     (let boot_xml = concat (map (\<lambda>d. ''<boot dev="'' @ d @ ''"/>'') devs)
      in (if firmware = ''BIOS'' then ''<os>'' else ''<os firmware="efi">'') @
         ''<type arch="x86_64" machine="'' @ escape machine_type @ ''">hvm</type>'' @ boot_xml @ ''</os>'')\<close>

definition build_domain_xml :: "json \<Rightarrow> string aop" where
  \<open>build_domain_xml payload =
     bindM (pstr ''name'' payload) (\<lambda>nm.
     bindM (pstr ''domain_uuid'' payload) (\<lambda>domain_uuid.
     bindM (pint ''memory_mb'' payload) (\<lambda>memory_mb.
     bindM (case jget ''cpu'' payload of None \<Rightarrow> returnM 1
            | Some cpu \<Rightarrow> (case jget ''count'' cpu of None \<Rightarrow> returnM 1 | Some n \<Rightarrow> as_int n)) (\<lambda>vcpu.
     bindM (pstr_or ''machine_type'' payload ''q35'') (\<lambda>machine_type.
     bindM (pstr_or ''firmware'' payload ''BIOS'') (\<lambda>firmware.
     bindM (plist ''disks'' payload) (\<lambda>disks.
     bindM (mapM (\<lambda>(i, d). disk_xml i d) (enumerate 0 disks)) (\<lambda>disks_xml.
     bindM (plist ''nics'' payload) (\<lambda>nics.
     bindM (mapM nic_xml nics) (\<lambda>nics_xml.
     bindM (boot_devices payload) (\<lambda>devs.
     returnM (''<domain type="kvm">'' @ ''<name>'' @ escape nm @ ''</name>'' @ ''<uuid>'' @ domain_uuid @ ''</uuid>'' @
       ''<memory unit="MiB">'' @ show_int memory_mb @ ''</memory>'' @
       ''<currentMemory unit="MiB">'' @ show_int memory_mb @ ''</currentMemory>'' @
       ''<vcpu placement="static">'' @ show_int vcpu @ ''</vcpu>'' @
       (if list_ex (pflag ''iothread'') disks then ''<iothreads>1</iothreads>'' else '''') @
       os_xml firmware machine_type devs @
       ''<cpu mode="host-passthrough"/>'' @ ''<on_poweroff>destroy</on_poweroff>'' @ ''<on_reboot>restart</on_reboot>'' @
       ''<on_crash>restart</on_crash>'' @ ''<devices>'' @ ''<emulator>/usr/bin/qemu-system-x86_64</emulator>'' @
       concat disks_xml @ concat nics_xml @
       ''<console type="pty"><target type="serial" port="0"/></console>'' @
       ''<graphics type="vnc" port="-1" autoport="yes" listen="127.0.0.1"/>'' @
       (if (case jget ''ballooning_enabled'' payload of None \<Rightarrow> True | Some b \<Rightarrow> truthy b)
        then ''<memballoon model="virtio"/>'' else ''<memballoon model="none"/>'') @
       ''</devices>'' @ ''</domain>''))))))))))))\<close>

definition build_disk_xml :: "string \<Rightarrow> string \<Rightarrow> string \<Rightarrow> string option \<Rightarrow> string option \<Rightarrow> string" where
  \<open>build_disk_xml volume_path device bus storage_type format =
     (let (disk_type_attr, source_xml, driver_format) = disk_source storage_type volume_path format
      in ''<disk type="'' @ disk_type_attr @ ''" device="disk">'' @ ''<driver name="qemu" type="'' @ driver_format @ ''"/>'' @
         source_xml @ ''<target dev="'' @ escape device @ ''" bus="'' @ dict_get BUS_XML_NAME bus ''virtio'' @ ''"/>'' @ ''</disk>'')\<close>

definition build_cdrom_xml :: "string \<Rightarrow> string \<Rightarrow> string" where
  \<open>build_cdrom_xml iso_path device =
     ''<disk type="file" device="cdrom">'' @ ''<driver name="qemu" type="raw"/>'' @ ''<source file="'' @ escape iso_path @ ''"/>'' @
     ''<target dev="'' @ escape device @ ''" bus="sata"/>'' @ ''<readonly/>'' @ ''</disk>''\<close>

definition build_nic_xml :: "string \<Rightarrow> string \<Rightarrow> string \<Rightarrow> int option \<Rightarrow> string" where
  \<open>build_nic_xml bridge mac_address model limit =
     ''<interface type="bridge">'' @ ''<source bridge="'' @ escape bridge @ ''"/>'' @ ''<mac address="'' @ escape mac_address @ ''"/>'' @
     ''<model type="'' @ escape (lower model) @ ''"/>'' @ bandwidth_xml limit @ ''</interface>''\<close>

subsection \<open>Escaping is invertible and leaves no markup\<close>

definition esc_char :: "char \<Rightarrow> string" where
  "esc_char c = (if c = CHR ''&'' then ''&amp;'' else if c = CHR ''>'' then ''&gt;'' else if c = CHR ''<'' then ''&lt;''
     else if c = CHR 0x22 then ''&quot;'' else if c = CHR 0x27 then ''&apos;'' else [c])"

lemma replace_concat: "replace_char c r (concat (map f s)) = concat (map (\<lambda>x. replace_char c r (f x)) s)"
  by (induction s) (simp_all add: replace_char_def)

lemma escape_charwise: "escape s = concat (map esc_char s)"
proof -
  have "escape s = concat (map (\<lambda>x. escape [x]) s)"
  proof -
    have id: "s = concat (map (\<lambda>x. [x]) s)" by simp
    show ?thesis unfolding escape_def sax_escape_def by (subst id) (simp only: append.simps fold_simps replace_concat case_prod_conv id_apply comp_apply)
  qed
  moreover have "escape [x] = esc_char x" for x
    by (simp add: escape_def sax_escape_def esc_char_def replace_char_def)
  ultimately show ?thesis by simp
qed

lemma escape_simps [simp]: "escape [] = []" "escape (c # s) = esc_char c @ escape s"
  by (simp_all add: escape_charwise)

lemma escape_no_markup: "CHR 0x22 \<notin> set (escape s)" "CHR 0x27 \<notin> set (escape s)" "CHR ''<'' \<notin> set (escape s)" "CHR ''>'' \<notin> set (escape s)"
  by (induction s) (simp_all add: esc_char_def)

fun unescape :: "string \<Rightarrow> string" where
  "unescape [] = []"
| "unescape (c # cs) =
     (if c \<noteq> CHR ''&'' then c # unescape cs
      else if take 4 cs = ''amp;'' then CHR ''&'' # unescape (drop 4 cs)
      else if take 3 cs = ''gt;'' then CHR ''>'' # unescape (drop 3 cs)
      else if take 3 cs = ''lt;'' then CHR ''<'' # unescape (drop 3 cs)
      else if take 5 cs = ''quot;'' then CHR 0x22 # unescape (drop 5 cs)
      else if take 5 cs = ''apos;'' then CHR 0x27 # unescape (drop 5 cs)
      else c # unescape cs)"

lemma unescape_escape [simp]: "unescape (escape s) = s"
  by (induction s) (simp_all add: esc_char_def)

subsection \<open>Tokens\<close>

datatype xtoken = XOpen string "(string \<times> string) list" bool | XClose string | XText string

definition print_attr :: "string \<times> string \<Rightarrow> string" where
  \<open>print_attr kv = '' '' @ fst kv @ ''="'' @ escape (snd kv) @ ''"''\<close>

fun print_token :: "xtoken \<Rightarrow> string" where
  "print_token (XOpen n attrs self) = ''<'' @ n @ concat (map print_attr attrs) @ (if self then ''/>'' else ''>'')"
| "print_token (XClose n) = ''</'' @ n @ ''>''"
| "print_token (XText s) = escape s"

definition print_tokens :: "xtoken list \<Rightarrow> string" where
  "print_tokens ts = concat (map print_token ts)"

fun lex_attrs :: "nat \<Rightarrow> string \<Rightarrow> ((string \<times> string) list \<times> bool \<times> string) option" where
  "lex_attrs 0 s = None"
| "lex_attrs (Suc n) s =
     (if take 2 s = ''/>'' then Some ([], True, drop 2 s)
      else if take 1 s = ''>'' then Some ([], False, drop 1 s)
      else if take 1 s = '' '' then
        (let k = takeWhile (\<lambda>c. c \<noteq> CHR ''='') (drop 1 s); r = drop (Suc (length k)) s
         in if take 2 r \<noteq> [CHR ''='', CHR 0x22] then None
            else let v = takeWhile (\<lambda>c. c \<noteq> CHR 0x22) (drop 2 r); r' = drop (2 + length v) r
                 in if r' = [] then None
                    else (case lex_attrs n (tl r') of None \<Rightarrow> None | Some (attrs, self, rest) \<Rightarrow> Some ((k, unescape v) # attrs, self, rest)))
      else None)"

fun lexf :: "nat \<Rightarrow> string \<Rightarrow> xtoken list option" where
  "lexf 0 s = None"
| "lexf (Suc n) s =
     (if s = [] then Some []
      else if take 2 s = ''</'' then
        (let nm = takeWhile (\<lambda>c. c \<noteq> CHR ''>'') (drop 2 s); r = drop (2 + length nm) s
         in if r = [] then None else map_option (\<lambda>ts. XClose nm # ts) (lexf n (tl r)))
      else if hd s = CHR ''<'' then
        (let nm = takeWhile (\<lambda>c. c \<noteq> CHR '' '' \<and> c \<noteq> CHR ''/'' \<and> c \<noteq> CHR ''>'') (tl s)
         in case lex_attrs n (drop (Suc (length nm)) s) of
              None \<Rightarrow> None | Some (attrs, self, r) \<Rightarrow> map_option (\<lambda>ts. XOpen nm attrs self # ts) (lexf n r))
      else (let t = takeWhile (\<lambda>c. c \<noteq> CHR ''<'') s
            in map_option (\<lambda>ts. XText (unescape t) # ts) (lexf n (drop (length t) s))))"

text \<open>The fuel is one unit for each token and attribute, so that the length of the document is enough.\<close>

definition lex :: "string \<Rightarrow> xtoken list option" where
  "lex s = lexf (Suc (length s)) s"

definition xml_name :: "string \<Rightarrow> bool" where
  "xml_name n \<longleftrightarrow> n \<noteq> [] \<and> list_all (\<lambda>c. c \<noteq> CHR '' '' \<and> c \<noteq> CHR ''/'' \<and> c \<noteq> CHR ''>'' \<and> c \<noteq> CHR ''='' \<and> c \<noteq> CHR ''<'') n"

fun wf_tokens :: "xtoken list \<Rightarrow> bool" where
  "wf_tokens [] \<longleftrightarrow> True"
| "wf_tokens (XOpen n attrs self # ts) \<longleftrightarrow> xml_name n \<and> list_all (\<lambda>kv. xml_name (fst kv)) attrs \<and> wf_tokens ts"
| "wf_tokens (XClose n # ts) \<longleftrightarrow> xml_name n \<and> wf_tokens ts"
| "wf_tokens (XText s # ts) \<longleftrightarrow> s \<noteq> [] \<and> (case ts of XText _ # _ \<Rightarrow> False | _ \<Rightarrow> True) \<and> wf_tokens ts"

lemma takeWhile_stop: "list_all p xs \<Longrightarrow> \<not> p y \<Longrightarrow> takeWhile p (xs @ y # ys) = xs"
  by (induction xs) simp_all

lemma takeWhile_all: "list_all p xs \<Longrightarrow> takeWhile p xs = xs"
  by (induction xs) simp_all

lemma name_until_eq: "xml_name k \<Longrightarrow> takeWhile (\<lambda>c. c \<noteq> CHR ''='') (k @ CHR ''='' # r) = k"
  by (rule takeWhile_stop) (auto simp: xml_name_def list_all_iff)

lemma value_until_quote: "takeWhile (\<lambda>c. c \<noteq> CHR 0x22) (escape v @ CHR 0x22 # r) = escape v"
  by (rule takeWhile_stop) (use escape_no_markup(1) [of v] in \<open>auto simp: list_all_iff\<close>)

lemma print_attr_pair: "print_attr (k, v) = CHR '' '' # k @ CHR ''='' # CHR 0x22 # escape v @ [CHR 0x22]"
  by (simp add: print_attr_def)

lemma lex_attrs_print:
  assumes "list_all (\<lambda>kv. xml_name (fst kv)) attrs" and "length attrs < n"
  shows "lex_attrs n (concat (map print_attr attrs) @ (if self then ''/>'' else ''>'') @ rest) = Some (attrs, self, rest)"
  using assms
proof (induction attrs arbitrary: n)
  case Nil
  then show ?case by (cases n) simp_all
next
  case (Cons kv attrs)
  obtain k v where kv: "kv = (k, v)" by fastforce
  obtain m where n: "n = Suc m" using Cons.prems(2) by (cases n) auto
  have "lex_attrs m (concat (map print_attr attrs) @ (if self then ''/>'' else ''>'') @ rest) = Some (attrs, self, rest)"
    using Cons.IH [of m] Cons.prems n by simp
  moreover have "xml_name k" using Cons.prems(1) kv by simp
  ultimately show ?case
    by (cases self) (simp_all add: kv n print_attr_pair name_until_eq value_until_quote Let_def)
qed

fun cost :: "xtoken list \<Rightarrow> nat" where
  "cost [] = 0"
| "cost (XOpen n attrs self # ts) = Suc (length attrs + cost ts)"
| "cost (t # ts) = Suc (cost ts)"

lemma lex_fuel: "wf_tokens ts \<Longrightarrow> cost ts \<le> length (print_tokens ts)"
proof (induction ts rule: wf_tokens.induct)
  case (2 n attrs self ts)
  have "length attrs \<le> length (concat (map print_attr attrs))" by (induction attrs) (simp_all add: print_attr_def)
  with 2 show ?case by (simp add: print_tokens_def)
next
  case (4 s ts)
  have "escape s \<noteq> []" using "4.prems" by (cases s) (simp_all add: esc_char_def)
  then have "Suc 0 + cost ts \<le> length (escape s) + length (print_tokens ts)" using 4 by (intro add_mono) (auto simp: Suc_le_eq)
  then show ?case by (simp add: print_tokens_def)
qed (simp_all add: print_tokens_def)

lemma name_until_end:
  assumes "xml_name n" and "s = CHR '' '' # r \<or> s = CHR ''/'' # r \<or> s = CHR ''>'' # r"
  shows "takeWhile (\<lambda>c. c \<noteq> CHR '' '' \<and> c \<noteq> CHR ''/'' \<and> c \<noteq> CHR ''>'') (n @ s) = n"
proof -
  have "takeWhile (\<lambda>c. c \<noteq> CHR '' '' \<and> c \<noteq> CHR ''/'' \<and> c \<noteq> CHR ''>'') (n @ y # r) = n" if "y \<in> {CHR '' '', CHR ''/'', CHR ''>''}" for y
    by (rule takeWhile_stop) (use that assms(1) in \<open>auto simp: xml_name_def list_all_iff\<close>)
  with assms(2) show ?thesis by blast
qed

lemma text_until_tag:
  "s = [] \<or> hd s = CHR ''<'' \<Longrightarrow> takeWhile (\<lambda>c. c \<noteq> CHR ''<'') (escape t @ s) = escape t"
  using escape_no_markup(3) [of t] by (cases s) (auto simp: list_all_iff takeWhile_all intro!: takeWhile_stop)

lemma print_starts: "wf_tokens ts \<Longrightarrow> (case ts of XText _ # _ \<Rightarrow> False | _ \<Rightarrow> True) \<Longrightarrow> print_tokens ts = [] \<or> hd (print_tokens ts) = CHR ''<''"
  by (cases ts rule: wf_tokens.cases) (simp_all add: print_tokens_def)

lemma print_attrs_start:
  "\<exists>r. concat (map print_attr attrs) @ (if self then ''/>'' else ''>'') @ rest = CHR '' '' # r \<or>
       concat (map print_attr attrs) @ (if self then ''/>'' else ''>'') @ rest = CHR ''/'' # r \<or>
       concat (map print_attr attrs) @ (if self then ''/>'' else ''>'') @ rest = CHR ''>'' # r"
  by (cases attrs) (auto simp: print_attr_def)

lemma escape_first: "t \<noteq> [] \<Longrightarrow> escape t \<noteq> [] \<and> hd (escape t) \<noteq> CHR ''<''"
  using escape_no_markup(3) [of t] by (cases t) (auto simp: esc_char_def)

text \<open>Reading back what was printed gives the tokens, whatever the attribute values and texts are.\<close>

lemma lexf_print: "wf_tokens ts \<Longrightarrow> cost ts < n \<Longrightarrow> lexf n (print_tokens ts) = Some ts"
proof (induction ts arbitrary: n rule: wf_tokens.induct)
  case 1
  then show ?case by (cases n) (simp_all add: print_tokens_def)
next
  case (2 nm attrs self ts)
  obtain m where n: "n = Suc m" using "2.prems"(2) by (cases n) auto
  define tail where "tail = concat (map print_attr attrs) @ (if self then ''/>'' else ''>'') @ print_tokens ts"
  have p: "print_tokens (XOpen nm attrs self # ts) = CHR ''<'' # nm @ tail" by (simp add: print_tokens_def tail_def)
  have nm: "xml_name nm" using "2.prems"(1) by simp
  then have first: "take 2 (CHR ''<'' # nm @ tail) \<noteq> ''</''" by (cases nm) (auto simp: xml_name_def)
  have stop: "takeWhile (\<lambda>c. c \<noteq> CHR '' '' \<and> c \<noteq> CHR ''/'' \<and> c \<noteq> CHR ''>'') (nm @ tail) = nm"
    unfolding tail_def using print_attrs_start [of attrs self "print_tokens ts"] by (elim exE) (rule name_until_end [OF nm])
  have "lex_attrs m tail = Some (attrs, self, print_tokens ts)"
    unfolding tail_def by (rule lex_attrs_print) (use "2.prems" n in simp_all)
  moreover have "lexf m (print_tokens ts) = Some ts" using "2.IH" "2.prems" n by simp
  ultimately show ?case unfolding p n using first stop by (simp add: Let_def)
next
  case (3 nm ts)
  obtain m where n: "n = Suc m" using "3.prems"(2) by (cases n) auto
  have "takeWhile (\<lambda>c. c \<noteq> CHR ''>'') (nm @ CHR ''>'' # print_tokens ts) = nm"
    by (rule takeWhile_stop) (use "3.prems"(1) in \<open>auto simp: xml_name_def list_all_iff\<close>)
  moreover have "lexf m (print_tokens ts) = Some ts" using "3.IH" "3.prems" n by simp
  moreover have "print_tokens (XClose nm # ts) = CHR ''<'' # CHR ''/'' # nm @ CHR ''>'' # print_tokens ts" by (simp add: print_tokens_def)
  ultimately show ?case by (simp add: n Let_def)
next
  case (4 t ts)
  obtain m where n: "n = Suc m" using "4.prems"(2) by (cases n) auto
  have first: "escape t \<noteq> []" "hd (escape t) \<noteq> CHR ''<''" using escape_first [of t] "4.prems"(1) by auto
  have p: "print_tokens (XText t # ts) = escape t @ print_tokens ts" by (simp add: print_tokens_def)
  have no: "take 2 (escape t @ print_tokens ts) \<noteq> ''</''" using first by (cases "escape t") auto
  have "takeWhile (\<lambda>c. c \<noteq> CHR ''<'') (escape t @ print_tokens ts) = escape t"
    using "4.prems"(1) print_starts [of ts] by (intro text_until_tag) simp
  moreover have "lexf m (print_tokens ts) = Some ts" using "4.IH" "4.prems" n by simp
  ultimately show ?case unfolding p n using first no by (simp add: Let_def)
qed

lemma lex_print: "wf_tokens ts \<Longrightarrow> lex (print_tokens ts) = Some ts"
  unfolding lex_def by (rule lexf_print) (simp_all add: lex_fuel less_Suc_eq_le)

subsection \<open>The documents as tokens\<close>

text \<open>Text that escaping leaves alone; the code inserts some values without escaping them.\<close>

definition plain :: "string \<Rightarrow> bool" where
  "plain s \<longleftrightarrow> escape s = s"

lemma plainI: "list_all (\<lambda>c. c \<noteq> CHR ''&'' \<and> c \<noteq> CHR ''<'' \<and> c \<noteq> CHR ''>'' \<and> c \<noteq> CHR 0x22 \<and> c \<noteq> CHR 0x27) s \<Longrightarrow> plain s"
  unfolding plain_def by (induction s) (simp_all add: esc_char_def)

lemma plain_int [simp]: "escape (show_int v) = show_int v"
proof -
  have "list_all (\<lambda>c. c \<noteq> CHR ''&'' \<and> c \<noteq> CHR ''<'' \<and> c \<noteq> CHR ''>'' \<and> c \<noteq> CHR 0x22 \<and> c \<noteq> CHR 0x27) (show_int v)"
    unfolding list_all_iff
  proof
    fix c assume "c \<in> set (show_int v)"
    from show_int_chars [OF this] show "c \<noteq> CHR ''&'' \<and> c \<noteq> CHR ''<'' \<and> c \<noteq> CHR ''>'' \<and> c \<noteq> CHR 0x22 \<and> c \<noteq> CHR 0x27"
      by (auto simp: is_digit_def)
  qed
  then show ?thesis using plainI by (simp add: plain_def)
qed

lemma plain_dict: "\<lbrakk>list_all (\<lambda>kv. plain (snd kv)) d; plain def\<rbrakk> \<Longrightarrow> escape (dict_get d k def) = dict_get d k def"
  by (auto simp: dict_get_def list_all_iff plain_def dest!: map_of_SomeD split: option.splits)

lemma plain_bus [simp]: "escape (dict_get BUS_XML_NAME k ''virtio'') = dict_get BUS_XML_NAME k ''virtio''"
  by (rule plain_dict) (simp_all add: BUS_XML_NAME_def plain_def esc_char_def)

lemma plain_boot [simp]: "escape (dict_get BOOT_DEV_XML_NAME k ''hd'') = dict_get BOOT_DEV_XML_NAME k ''hd''"
  by (rule plain_dict) (simp_all add: BOOT_DEV_XML_NAME_def plain_def esc_char_def)

definition bandwidth_tokens :: "int option \<Rightarrow> xtoken list" where
  "bandwidth_tokens limit = (case limit of None \<Rightarrow> [] | Some mbps \<Rightarrow> if mbps = 0 then [] else
     [XOpen ''bandwidth'' [] False, XOpen ''inbound'' [(''average'', show_int (mbps * 1000 div 8))] True,
      XOpen ''outbound'' [(''average'', show_int (mbps * 1000 div 8))] True, XClose ''bandwidth''])"

definition nic_tokens :: "string \<Rightarrow> string \<Rightarrow> string \<Rightarrow> int option \<Rightarrow> xtoken list" where
  "nic_tokens bridge mac model limit = [XOpen ''interface'' [(''type'', ''bridge'')] False, XOpen ''source'' [(''bridge'', bridge)] True,
     XOpen ''mac'' [(''address'', mac)] True, XOpen ''model'' [(''type'', lower model)] True] @ bandwidth_tokens limit @ [XClose ''interface'']"

definition driver_format :: "string option \<Rightarrow> string option \<Rightarrow> string" where
  "driver_format storage_type format = snd (snd (disk_source storage_type '''' format))"

definition source_token :: "string option \<Rightarrow> string \<Rightarrow> xtoken" where
  "source_token storage_type volume = XOpen ''source'' [(if is_block storage_type then ''dev'' else ''file'', volume)] True"

definition disk_tokens :: "string \<Rightarrow> string \<Rightarrow> string \<Rightarrow> string option \<Rightarrow> string option \<Rightarrow> xtoken list" where
  "disk_tokens volume device bus storage_type format =
     [XOpen ''disk'' [(''type'', if is_block storage_type then ''block'' else ''file''), (''device'', ''disk'')] False,
      XOpen ''driver'' [(''name'', ''qemu''), (''type'', driver_format storage_type format)] True, source_token storage_type volume,
      XOpen ''target'' [(''dev'', device), (''bus'', dict_get BUS_XML_NAME bus ''virtio'')] True, XClose ''disk'']"

definition cdrom_tokens :: "string \<Rightarrow> string \<Rightarrow> xtoken list" where
  "cdrom_tokens iso_path device = [XOpen ''disk'' [(''type'', ''file''), (''device'', ''cdrom'')] False, XOpen ''driver'' [(''name'', ''qemu''), (''type'', ''raw'')] True,
     XOpen ''source'' [(''file'', iso_path)] True, XOpen ''target'' [(''dev'', device), (''bus'', ''sata'')] True, XOpen ''readonly'' [] True, XClose ''disk'']"

lemma bandwidth_print: "bandwidth_xml limit = print_tokens (bandwidth_tokens limit)"
  by (simp add: bandwidth_xml_def bandwidth_tokens_def print_tokens_def print_attr_pair Let_def split: option.splits)

lemma nic_print: "build_nic_xml bridge mac model limit = print_tokens (nic_tokens bridge mac model limit)"
  unfolding build_nic_xml_def nic_tokens_def bandwidth_print by (simp add: print_tokens_def print_attr_pair esc_char_def)

lemma cdrom_print: "build_cdrom_xml iso_path device = print_tokens (cdrom_tokens iso_path device)"
  unfolding build_cdrom_xml_def cdrom_tokens_def by (simp add: print_tokens_def print_attr_pair esc_char_def)

lemma disk_print:
  assumes "plain (driver_format storage_type format)"
  shows "build_disk_xml volume device bus storage_type format = print_tokens (disk_tokens volume device bus storage_type format)"
  using assms unfolding build_disk_xml_def disk_tokens_def source_token_def plain_def driver_format_def
  by (cases "is_block storage_type") (simp_all add: print_tokens_def print_attr_pair esc_char_def disk_source_def Let_def)

lemma wf_documents:
  "wf_tokens (nic_tokens bridge mac model limit)" "wf_tokens (cdrom_tokens iso_path device)" "wf_tokens (disk_tokens volume device bus storage_type format)"
  by (simp_all add: nic_tokens_def bandwidth_tokens_def cdrom_tokens_def disk_tokens_def source_token_def xml_name_def split: option.splits)

text \<open>
  C31. What the agent writes into a device document cannot change its structure. Reading back the interface, CD-ROM and disk
  documents the agent hands to libvirt gives exactly the intended elements with exactly the given bridge, address, model,
  volume, device and image path as attribute values, whatever characters those strings contain. For disks this needs the
  driver format, which the code inserts as it is, to be free of markup; without a format it is raw or qcow2.
\<close>

theorem device_documents_faithful:
  "lex (build_nic_xml bridge mac model limit) = Some (nic_tokens bridge mac model limit) \<and>
   lex (build_cdrom_xml iso_path device) = Some (cdrom_tokens iso_path device) \<and>
   (plain (driver_format storage_type format) \<longrightarrow>
      lex (build_disk_xml volume device bus storage_type format) = Some (disk_tokens volume device bus storage_type format)) \<and>
   plain (driver_format storage_type None)"
proof -
  have "plain (driver_format storage_type None)"
    by (simp add: driver_format_def disk_source_def Let_def plain_def esc_char_def)
  then show ?thesis by (simp add: nic_print cdrom_print disk_print lex_print wf_documents)
qed

theorem device_documents_faithful_witness:
  \<open>plain (driver_format (Some ''DIRECTORY'') (Some ''qcow2'')) \<and>
   lex (build_disk_xml ''/pool/a"/><x'' ''vda'' ''VIRTIO'' (Some ''DIRECTORY'') (Some ''qcow2'')) =
     Some (disk_tokens ''/pool/a"/><x'' ''vda'' ''VIRTIO'' (Some ''DIRECTORY'') (Some ''qcow2''))\<close>
proof -
  have "plain (driver_format (Some ''DIRECTORY'') (Some ''qcow2''))"
    by (simp add: driver_format_def disk_source_def is_block_def BLOCK_BACKED_STORAGE_TYPES_def plain_def esc_char_def)
  then show ?thesis
    using device_documents_faithful [of _ _ _ _ _ _ "Some ''DIRECTORY''" "Some ''qcow2''"] by simp
qed

end
