(* ===== verification/AgentLibvirt.thy ===== *)
theory AgentLibvirt
  imports AgentXml
begin

section \<open>AgentLibvirt: the agent's libvirt client\<close>

text \<open>
  \<open>agent/nodepilot_agent/libvirt_client.py\<close> and the handlers that only call it (\<open>operations/vm_ops.py\<close> and
  \<open>operations/snapshot_ops.py\<close>). \<open>LIBVIRT_AVAILABLE\<close> and the connection the client holds are fields of the host record; what
  libvirt answers is arbitrary.
\<close>

definition LIBVIRT_URI :: string where
  "LIBVIRT_URI = ''qemu:///system''"

definition lv :: "lvcall \<Rightarrow> json aop" where
  "lv c = bindM (hostM (Lv c)) (\<lambda>r. case r of
     Res j \<Rightarrow> returnM j | Raised m \<Rightarrow> raiseM (LibvirtError m) | Exited n out err \<Rightarrow> raiseM (LibvirtError err) | TimedOut \<Rightarrow> raiseM (LibvirtError ''timed out''))"

text \<open>\<open>except libvirt.libvirtError as exc: raise LibvirtOperationError(f"...: {exc}")\<close>.\<close>

definition wrapped :: "string \<Rightarrow> 'a aop \<Rightarrow> 'a aop" where
  "wrapped what m = tryM m (\<lambda>e. case e of LibvirtError s \<Rightarrow> raiseM (LibvirtOperationError (what @ '': '' @ s)) | _ \<Rightarrow> raiseM e)"

definition require_libvirt :: "unit aop" where
  "require_libvirt = bindM (getM libvirt_available) (\<lambda>b. if b then returnM () else raiseM LibvirtUnavailable)"

definition lv_connect :: "unit aop" where
  "lv_connect = bindM require_libvirt (\<lambda>_. bindM (getM lv_conn) (\<lambda>c.
     bindM (if c then bindM (lv LvIsAlive) (\<lambda>a. returnM (truthy a)) else returnM False) (\<lambda>alive.
     if alive then returnM ()
     else bindM (wrapped (''Failed to connect to libvirt at '' @ LIBVIRT_URI) (lv (LvOpen LIBVIRT_URI))) (\<lambda>_.
          modM (\<lambda>h. h\<lparr>lv_conn := True\<rparr>)))))"

definition lv_close :: "unit aop" where
  "lv_close = bindM (getM lv_conn) (\<lambda>c. if c then bindM (lv LvClose) (\<lambda>_. modM (\<lambda>h. h\<lparr>lv_conn := False\<rparr>)) else returnM ())"

text \<open>\<open>with self.domain(uuid) as dom: body\<close>.\<close>

definition with_domain :: "string \<Rightarrow> 'a aop \<Rightarrow> 'a aop" where
  "with_domain u body = bindM lv_connect (\<lambda>_. bindM (wrapped (''No domain with uuid '' @ u) (lv (LvLookup u))) (\<lambda>_. body))"

subsection \<open>Domain lifecycle\<close>

definition define_domain :: "string \<Rightarrow> string aop" where
  "define_domain domain_xml = bindM lv_connect (\<lambda>_. bindM (wrapped ''defineXML failed'' (lv (DefineXML domain_xml))) as_str)"

definition is_active :: "string \<Rightarrow> bool aop" where
  "is_active u = bindM (lv (IsActive u)) (\<lambda>a. returnM (truthy a))"

definition lv_do :: "lvcall \<Rightarrow> unit aop" where
  "lv_do c = bindM (lv c) (\<lambda>_. returnM ())"

definition undefine_domain :: "string \<Rightarrow> bool \<Rightarrow> unit aop" where
  "undefine_domain u remove_storage = with_domain u (wrapped ''undefine failed''
     (bindM (is_active u) (\<lambda>a. bindM (if a then lv_do (Destroy u) else returnM ()) (\<lambda>_.
      if remove_storage then lv_do (UndefineFlags u) else lv_do (Undefine u)))))"

definition start_domain :: "string \<Rightarrow> unit aop" where
  "start_domain u = with_domain u (wrapped ''start failed'' (bindM (is_active u) (\<lambda>a. if \<not> a then lv_do (Create u) else returnM ())))"

definition graceful_shutdown :: "string \<Rightarrow> unit aop" where
  "graceful_shutdown u = with_domain u (wrapped ''shutdown failed'' (bindM (is_active u) (\<lambda>a. if a then lv_do (Shutdown u) else returnM ())))"

definition force_stop :: "string \<Rightarrow> unit aop" where
  "force_stop u = with_domain u (wrapped ''destroy failed'' (bindM (is_active u) (\<lambda>a. if a then lv_do (Destroy u) else returnM ())))"

definition lv_reboot :: "string \<Rightarrow> unit aop" where
  "lv_reboot u = with_domain u (wrapped ''reboot failed'' (lv_do (Reboot u)))"

definition lv_reset :: "string \<Rightarrow> unit aop" where
  "lv_reset u = with_domain u (wrapped ''reset failed'' (lv_do (Reset u)))"

definition lv_suspend :: "string \<Rightarrow> unit aop" where
  "lv_suspend u = with_domain u (wrapped ''pause failed'' (lv_do (Suspend u)))"

definition lv_resume :: "string \<Rightarrow> unit aop" where
  "lv_resume u = with_domain u (wrapped ''resume failed'' (lv_do (Resume u)))"

definition DOMAIN_STATE_NAMES :: "string list" where
  "DOMAIN_STATE_NAMES = [''NOSTATE'', ''RUNNING'', ''BLOCKED'', ''PAUSED'', ''SHUTDOWN'', ''SHUTOFF'', ''CRASHED'', ''PMSUSPENDED'']"

definition domain_state_name :: "int \<Rightarrow> string" where
  "domain_state_name s = (if 0 \<le> s \<and> nat s < length DOMAIN_STATE_NAMES then DOMAIN_STATE_NAMES ! nat s else ''UNKNOWN'')"

definition unpack :: "nat \<Rightarrow> json \<Rightarrow> json list aop" where
  "unpack n j = (case j of JArr xs \<Rightarrow> if length xs = n then returnM xs else raiseM (AValueError ''values to unpack'')
     | _ \<Rightarrow> raiseM (ATypeError ''cannot unpack''))"

definition domain_info :: "string \<Rightarrow> json aop" where
  "domain_info u = with_domain u (bindM (lv (DomInfo u)) (\<lambda>j. bindM (unpack 5 j) (\<lambda>xs.
     bindM (as_int (xs ! 0)) (\<lambda>s.
     returnM (JObj [(''state'', JStr (domain_state_name s)), (''max_memory_kb'', xs ! 1), (''memory_kb'', xs ! 2),
       (''cpu_count'', xs ! 3), (''cpu_time_ns'', xs ! 4)])))))"

text \<open>Attach and detach: the two flags of the call say whether the stored and the running domain change.\<close>

definition device_flags :: "string \<Rightarrow> bool \<Rightarrow> bool \<Rightarrow> (bool \<times> bool) aop" where
  "device_flags u live persistent = bindM (if live then is_active u else returnM False) (\<lambda>l. returnM (persistent, l))"

definition attach_device :: "string \<Rightarrow> string \<Rightarrow> bool \<Rightarrow> bool \<Rightarrow> unit aop" where
  "attach_device u device_xml live persistent = with_domain u (bindM (device_flags u live persistent) (\<lambda>(config, l).
     wrapped ''attach device failed'' (lv_do (AttachDeviceFlags u device_xml config l))))"

definition detach_device :: "string \<Rightarrow> string \<Rightarrow> bool \<Rightarrow> bool \<Rightarrow> unit aop" where
  "detach_device u device_xml live persistent = with_domain u (bindM (device_flags u live persistent) (\<lambda>(config, l).
     wrapped ''detach device failed'' (lv_do (DetachDeviceFlags u device_xml config l))))"

subsection \<open>Snapshots and host information\<close>

definition lv_create_snapshot :: "string \<Rightarrow> string \<Rightarrow> string \<Rightarrow> string aop" where
  "lv_create_snapshot u nm description = with_domain u
     (bindM (wrapped ''snapshot create failed'' (lv (SnapshotCreateXML u
        (''<domainsnapshot><name>'' @ sax_escape [] nm @ ''</name><description>'' @ sax_escape [] description @ ''</description></domainsnapshot>'')))) as_str)"

definition lv_delete_snapshot :: "string \<Rightarrow> string \<Rightarrow> unit aop" where
  "lv_delete_snapshot u nm = with_domain u (wrapped ''snapshot delete failed''
     (bindM (lv (SnapshotLookup u nm)) (\<lambda>_. lv_do (SnapshotDelete u nm))))"

definition lv_rollback_snapshot :: "string \<Rightarrow> string \<Rightarrow> unit aop" where
  "lv_rollback_snapshot u nm = with_domain u (wrapped ''snapshot rollback failed''
     (bindM (lv (SnapshotLookup u nm)) (\<lambda>_. lv_do (RevertToSnapshot u nm))))"

definition host_info :: "json aop" where
  "host_info = bindM lv_connect (\<lambda>_. bindM (lv GetInfo) (\<lambda>j. bindM (unpack 8 j) (\<lambda>xs.
     bindM (lv ConnType) (\<lambda>ty. bindM (lv ConnLibVersion) (\<lambda>ver.
     returnM (JObj [(''cpu_model'', xs ! 0), (''memory_total_mb'', xs ! 1), (''cpu_count'', xs ! 2), (''cpu_mhz'', xs ! 3),
       (''cpu_sockets'', xs ! 5), (''cpu_cores'', xs ! 6), (''cpu_threads'', xs ! 7), (''hypervisor_type'', ty), (''libvirt_version'', ver)]))))))"

definition domain_stats :: "string \<Rightarrow> json aop" where
  "domain_stats u = with_domain u (bindM (is_active u) (\<lambda>a. if \<not> a then returnM (JObj [])
     else wrapped ''stats failed'' (bindM (lv (CPUStats u)) (\<lambda>c. bindM (lv (MemoryStats u)) (\<lambda>m.
          returnM (JObj [(''cpu'', c), (''memory'', m)]))))))"

text \<open>\<open>metrics.py\<close>: an unreadable domain has no metrics.\<close>

definition collect_vm_metrics :: "string \<Rightarrow> json aop" where
  "collect_vm_metrics u =
     bindM (tryM (domain_stats u) (\<lambda>e. case e of LibvirtOperationError m \<Rightarrow> returnM (JObj []) | _ \<Rightarrow> raiseM e)) (\<lambda>stats.
     if \<not> truthy stats then returnM (JObj [])
     else let memory = (case jget ''memory'' stats of None \<Rightarrow> JObj [] | Some m \<Rightarrow> m) in
       bindM (if pflag ''rss'' memory then bindM (pint ''rss'' memory) (\<lambda>r. returnM (JInt (r div 1024))) else returnM JNull) (\<lambda>used.
       returnM (JObj [(''memory_used_mb'', used), (''raw_cpu_stats'', (case jget ''cpu'' stats of None \<Rightarrow> JNull | Some c \<Rightarrow> c))])))"

subsection \<open>VM and snapshot handlers\<close>

definition done_with :: "unit aop \<Rightarrow> json aop" where
  "done_with m = bindM m (\<lambda>_. returnM (JObj []))"

definition create_vm_op :: "json \<Rightarrow> json aop" where
  "create_vm_op payload = bindM (build_domain_xml payload) (\<lambda>xml. bindM (define_domain xml) (\<lambda>u.
     returnM (JObj [(''domain_uuid'', JStr u)])))"

definition delete_vm_op :: "json \<Rightarrow> string \<Rightarrow> json aop" where
  "delete_vm_op payload resource_id = done_with (undefine_domain resource_id (pflag ''delete_disks'' payload))"

definition start_vm_op :: "string \<Rightarrow> json aop" where "start_vm_op r = done_with (start_domain r)"

definition shutdown_vm_op :: "string \<Rightarrow> json aop" where "shutdown_vm_op r = done_with (graceful_shutdown r)"

definition stop_vm_op :: "string \<Rightarrow> json aop" where "stop_vm_op r = done_with (force_stop r)"

definition reboot_vm_op :: "string \<Rightarrow> json aop" where "reboot_vm_op r = done_with (lv_reboot r)"

definition reset_vm_op :: "string \<Rightarrow> json aop" where "reset_vm_op r = done_with (lv_reset r)"

definition pause_vm_op :: "string \<Rightarrow> json aop" where "pause_vm_op r = done_with (lv_suspend r)"

definition resume_vm_op :: "string \<Rightarrow> json aop" where "resume_vm_op r = done_with (lv_resume r)"

definition get_domain_info_op :: "string \<Rightarrow> json aop" where "get_domain_info_op r = domain_info r"

definition migrate_vm_op :: "json \<Rightarrow> string \<Rightarrow> json aop" where
  "migrate_vm_op payload r = raiseM (NotImplementedError ''Live migration is not implemented in this agent version.'')"

definition create_snapshot_op :: "json \<Rightarrow> string \<Rightarrow> json aop" where
  "create_snapshot_op payload r = bindM (pstr ''name'' payload) (\<lambda>nm. bindM (lv_create_snapshot r nm '''') (\<lambda>i.
     returnM (JObj [(''snapshot_id'', JStr i), (''size_bytes'', JInt 0)])))"

definition delete_snapshot_op :: "json \<Rightarrow> string \<Rightarrow> json aop" where
  "delete_snapshot_op payload r = bindM (pstr ''snapshot_id'' payload) (\<lambda>i. done_with (lv_delete_snapshot r i))"

definition rollback_snapshot_op :: "json \<Rightarrow> string \<Rightarrow> json aop" where
  "rollback_snapshot_op payload r = bindM (pstr ''snapshot_id'' payload) (\<lambda>i. done_with (lv_rollback_snapshot r i))"

subsection \<open>One domain at a time\<close>

fun lv_domain :: "lvcall \<Rightarrow> string option" where
  "lv_domain (LvLookup u) = Some u" | "lv_domain (IsActive u) = Some u" | "lv_domain (Destroy u) = Some u"
| "lv_domain (Undefine u) = Some u" | "lv_domain (UndefineFlags u) = Some u" | "lv_domain (Create u) = Some u"
| "lv_domain (Shutdown u) = Some u" | "lv_domain (Reboot u) = Some u" | "lv_domain (Reset u) = Some u"
| "lv_domain (Suspend u) = Some u" | "lv_domain (Resume u) = Some u" | "lv_domain (DomInfo u) = Some u"
| "lv_domain (AttachDeviceFlags u x c l) = Some u" | "lv_domain (DetachDeviceFlags u x c l) = Some u"
| "lv_domain (SnapshotCreateXML u x) = Some u" | "lv_domain (SnapshotLookup u n) = Some u" | "lv_domain (SnapshotDelete u n) = Some u"
| "lv_domain (RevertToSnapshot u n) = Some u" | "lv_domain (XMLDesc u) = Some u" | "lv_domain (MemoryStats u) = Some u"
| "lv_domain (CPUStats u) = Some u" | "lv_domain _ = None"

text \<open>A call on domain \<open>u\<close>, or one that only looks after the connection.\<close>

definition on_domain :: "string \<Rightarrow> hcall \<Rightarrow> bool" where
  "on_domain u c = (case c of Lv l \<Rightarrow> l = LvIsAlive \<or> l = LvOpen LIBVIRT_URI \<or> lv_domain l = Some u | _ \<Rightarrow> False)"

lemma on_domain_simps [simp]: "on_domain u (Lv LvIsAlive)" "on_domain u (Lv (LvOpen LIBVIRT_URI))" "lv_domain l = Some u \<Longrightarrow> on_domain u (Lv l)"
  by (simp_all add: on_domain_def)

lemma iss_lv: "P (Lv c) \<Longrightarrow> keeps (issues P) (lv c)"
  unfolding lv_def by (intro iss.keeps_bind iss_hostM) (auto intro!: iss.keeps_rules split: hreply.splits)

lemma iss_lv_do: "P (Lv c) \<Longrightarrow> keeps (issues P) (lv_do c)"
  unfolding lv_do_def by (intro iss.keeps_rules iss_lv)

lemma iss_wrapped: "keeps (issues P) m \<Longrightarrow> keeps (issues P) (wrapped what m)"
  unfolding wrapped_def by (rule iss.keeps_try) (auto intro!: iss.keeps_rules split: aexn.splits)

lemma iss_mod_conn: "keeps (issues P) (modM (\<lambda>h. h\<lparr>lv_conn := b\<rparr>))"
  by (rule iss.keeps_mod) (simp add: issues_def)

lemma iss_connect: "keeps (issues (on_domain u)) lv_connect"
  unfolding lv_connect_def require_libvirt_def by (intro iss_rules iss_lv iss_wrapped iss_mod_conn) simp_all

lemma iss_with_domain: "keeps (issues (on_domain u)) m \<Longrightarrow> keeps (issues (on_domain u)) (with_domain u m)"
  unfolding with_domain_def by (intro iss_rules iss_connect iss_wrapped iss_lv) simp_all

lemma iss_is_active: "keeps (issues (on_domain u)) (is_active u)"
  unfolding is_active_def by (intro iss_rules iss_lv) simp_all

lemma iss_unpack: "keeps (issues P) (unpack n j)"
  unfolding unpack_def by (auto intro!: iss.keeps_rules split: json.splits)

lemma iss_done_with: "keeps (issues P) m \<Longrightarrow> keeps (issues P) (done_with m)"
  unfolding done_with_def by (intro iss.keeps_rules)

lemma iss_device: "keeps (issues (on_domain u)) (attach_device u x live persistent)" "keeps (issues (on_domain u)) (detach_device u x live persistent)"
  unfolding attach_device_def detach_device_def device_flags_def
  by (intro iss_rules iss_with_domain iss_wrapped iss_lv_do iss_is_active; simp)+

lemmas iss_domain = iss_done_with iss_with_domain iss_wrapped iss_lv iss_lv_do iss_is_active iss_unpack

definition domain_handlers :: "json \<Rightarrow> string \<Rightarrow> json aop list" where
  "domain_handlers payload u = [delete_vm_op payload u, start_vm_op u, shutdown_vm_op u, stop_vm_op u, reboot_vm_op u, reset_vm_op u,
     pause_vm_op u, resume_vm_op u, get_domain_info_op u, migrate_vm_op payload u, create_snapshot_op payload u,
     delete_snapshot_op payload u, rollback_snapshot_op payload u]"

lemmas domain_handler_defs = delete_vm_op_def start_vm_op_def shutdown_vm_op_def stop_vm_op_def reboot_vm_op_def reset_vm_op_def
  pause_vm_op_def resume_vm_op_def get_domain_info_op_def migrate_vm_op_def create_snapshot_op_def delete_snapshot_op_def rollback_snapshot_op_def
  undefine_domain_def start_domain_def graceful_shutdown_def force_stop_def lv_reboot_def lv_reset_def lv_suspend_def lv_resume_def
  domain_info_def lv_create_snapshot_def lv_delete_snapshot_def lv_rollback_snapshot_def

lemma domain_handlers_issue: "m \<in> set (domain_handlers payload u) \<Longrightarrow> keeps (issues (on_domain u)) m"
  unfolding domain_handlers_def list.set insert_iff empty_iff
  by (elim disjE FalseE; hypsubst; unfold domain_handler_defs; intro iss_rules iss_domain; simp)

text \<open>
  An operation on a virtual machine stays on its domain. Whatever libvirt answers, the handlers for deletion, power, pause,
  information, migration and snapshots issue no call but calls of libvirt on the domain named by the request and the two
  calls that check and open the connection: no command, no file access and no other domain.
\<close>

theorem domain_operations_confined:
  assumes "m \<in> set (domain_handlers payload u)"
  shows "\<exists>cs. trace (snd (m h)) = trace h @ cs \<and> (\<forall>c \<in> set cs. on_domain u c)"
  using keepsD2 [OF domain_handlers_issue [OF assms], of h] by (auto simp: issues_def list_all_iff)

definition ex_libvirt :: host where
  "ex_libvirt = \<lparr> trace = [], respond = (\<lambda>_ _. Res (JBool True)), libvirt_available = True, lv_conn = False \<rparr>"

theorem domain_operations_confined_witness:
  "\<exists>cs. trace (snd (stop_vm_op ''d1'' ex_libvirt)) = trace ex_libvirt @ cs \<and> (\<forall>c \<in> set cs. on_domain ''d1'' c)"
  by (rule domain_operations_confined [of _ JNull]) (simp add: domain_handlers_def)

subsection \<open>The handlers implement a power-state machine\<close>

text \<open>
  The specification: a node is a map from the uuids of its domains to whether they run.
\<close>

type_synonym power = "string \<Rightarrow> bool option"

datatype power_op = PowerOn | PowerOff | Remove

fun power_step :: "power_op \<Rightarrow> string \<Rightarrow> power \<Rightarrow> power option" where
  "power_step PowerOn u st = (if st u = None then None else Some (st(u \<mapsto> True)))"
| "power_step PowerOff u st = (if st u = None then None else Some (st(u \<mapsto> False)))"
| "power_step Remove u st = (if st u = None then None else Some (st(u := None)))"

text \<open>
  What the client relies on of libvirt: which calls succeed in which state, and what they change. \<open>create\<close> fails on a running
  domain and \<open>destroy\<close> on one that is not running.
\<close>

fun lv_answer :: "power \<Rightarrow> lvcall \<Rightarrow> hreply" where
  "lv_answer st (LvLookup u) = (if st u = None then Raised ''Domain not found'' else Res JNull)"
| "lv_answer st (IsActive u) = Res (JBool (st u = Some True))"
| "lv_answer st (Create u) = (if st u = Some False then Res JNull else Raised ''domain is already running'')"
| "lv_answer st (Destroy u) = (if st u = Some True then Res JNull else Raised ''domain is not running'')"
| "lv_answer st (Undefine u) = (if st u = Some False then Res JNull else Raised ''cannot undefine'')"
| "lv_answer st (UndefineFlags u) = (if st u = Some False then Res JNull else Raised ''cannot undefine'')"
| "lv_answer st LvIsAlive = Res (JBool True)"
| "lv_answer st _ = Res JNull"

fun lv_change :: "hcall \<Rightarrow> power \<Rightarrow> power" where
  "lv_change (Lv (Create u)) st = (if st u = Some False then st(u \<mapsto> True) else st)"
| "lv_change (Lv (Destroy u)) st = (if st u = Some True then st(u \<mapsto> False) else st)"
| "lv_change (Lv (Undefine u)) st = (if st u = Some False then st(u := None) else st)"
| "lv_change (Lv (UndefineFlags u)) st = (if st u = Some False then st(u := None) else st)"
| "lv_change _ st = st"

definition power_of :: "power \<Rightarrow> host \<Rightarrow> power" where
  "power_of st0 h = fold lv_change (trace h) st0"

definition libvirt_host :: "power \<Rightarrow> host \<Rightarrow> bool" where
  "libvirt_host st0 h \<longleftrightarrow> libvirt_available h \<and> (\<forall>tr l. respond h tr (Lv l) = lv_answer (fold lv_change tr st0) l)"

definition power_handler :: "power_op \<Rightarrow> json \<Rightarrow> string \<Rightarrow> json aop" where
  "power_handler p payload u = (case p of PowerOn \<Rightarrow> start_vm_op u | PowerOff \<Rightarrow> stop_vm_op u | Remove \<Rightarrow> delete_vm_op payload u)"

lemma lv_sim:
  assumes "libvirt_host st0 h"
  shows "lv c h = ((case lv_answer (power_of st0 h) c of Res j \<Rightarrow> Inr j | Raised m \<Rightarrow> Inl (LibvirtError m)
      | Exited n out err \<Rightarrow> Inl (LibvirtError err) | TimedOut \<Rightarrow> Inl (LibvirtError ''timed out'')), h\<lparr>trace := trace h @ [Lv c]\<rparr>)"
  using assms by (simp add: lv_def libvirt_host_def power_of_def split: hreply.splits)

lemma power_of_step: "power_of st0 (h\<lparr>trace := trace h @ [c]\<rparr>) = lv_change c (power_of st0 h)"
  by (simp add: power_of_def)

lemma libvirt_host_step: "libvirt_host st0 (h\<lparr>trace := t\<rparr>) = libvirt_host st0 h" "libvirt_host st0 (h\<lparr>lv_conn := b\<rparr>) = libvirt_host st0 h"
  "power_of st0 (h\<lparr>lv_conn := b\<rparr>) = power_of st0 h"
  by (simp_all add: libvirt_host_def power_of_def)

lemma connect_sim:
  assumes "libvirt_host st0 h"
  shows "\<exists>h'. lv_connect h = (Inr (), h') \<and> libvirt_host st0 h' \<and> power_of st0 h' = power_of st0 h"
  using assms lv_sim [OF assms] unfolding lv_connect_def require_libvirt_def
  by (cases "lv_conn h")
    (auto simp: libvirt_host_def [of _ h] bindM_apply wrapped_def tryM_apply truthy_def power_of_step libvirt_host_step)

lemma is_active_sim:
  assumes "libvirt_host st0 h"
  shows "is_active u h = (Inr (power_of st0 h u = Some True), h\<lparr>trace := trace h @ [Lv (IsActive u)]\<rparr>)"
  using lv_sim [OF assms] by (simp add: is_active_def bindM_apply truthy_def)

lemma with_domain_sim:
  assumes "libvirt_host st0 h"
  obtains h' where "libvirt_host st0 h'" "power_of st0 h' = power_of st0 h"
    "\<And>m. with_domain u m h = (if power_of st0 h u = None then (Inl (LibvirtOperationError (''No domain with uuid '' @ u @ '': Domain not found'')), h') else m h')"
proof -
  obtain h1 where h1: "lv_connect h = (Inr (), h1)" "libvirt_host st0 h1" "power_of st0 h1 = power_of st0 h"
    using connect_sim [OF assms] by blast
  show thesis
    by (rule that [of "h1\<lparr>trace := trace h1 @ [Lv (LvLookup u)]\<rparr>"])
      (use h1 lv_sim [OF h1(2)] in \<open>auto simp: with_domain_def bindM_apply wrapped_def tryM_apply libvirt_host_step power_of_step\<close>)
qed

lemma power_body_sim:
  assumes h: "libvirt_host st0 h" and u: "power_of st0 h u = Some b"
  shows "\<exists>h'. bindM (is_active u) (\<lambda>a. if \<not> a then lv_do (Create u) else returnM ()) h = (Inr (), h') \<and> power_of st0 h' = (power_of st0 h)(u \<mapsto> True)"
    and "\<exists>h'. bindM (is_active u) (\<lambda>a. if a then lv_do (Destroy u) else returnM ()) h = (Inr (), h') \<and> libvirt_host st0 h' \<and>
           power_of st0 h' = (power_of st0 h)(u \<mapsto> False)"
proof -
  have s: "libvirt_host st0 (h\<lparr>trace := trace h @ [Lv (IsActive u)]\<rparr>)" using h by (simp add: libvirt_host_step)
  have p: "power_of st0 (h\<lparr>trace := trace h @ [Lv (IsActive u)]\<rparr>) = power_of st0 h" by (simp add: power_of_step)
  have step: "power_of st0 (h\<lparr>trace := trace h @ [Lv (IsActive u), c]\<rparr>) = lv_change c (power_of st0 h)" for c
    by (simp add: power_of_def)
  note facts = bindM_apply is_active_sim [OF h] lv_do_def lv_sim [OF s] p step libvirt_host_step h
  show "\<exists>h'. bindM (is_active u) (\<lambda>a. if \<not> a then lv_do (Create u) else returnM ()) h = (Inr (), h') \<and> power_of st0 h' = (power_of st0 h)(u \<mapsto> True)"
    using u by (cases b) (simp_all add: facts fun_upd_idem)
  show "\<exists>h'. bindM (is_active u) (\<lambda>a. if a then lv_do (Destroy u) else returnM ()) h = (Inr (), h') \<and> libvirt_host st0 h' \<and>
           power_of st0 h' = (power_of st0 h)(u \<mapsto> False)"
    using u by (cases b) (simp_all add: facts fun_upd_idem)
qed

lemma undefine_sim:
  assumes "libvirt_host st0 h" and "power_of st0 h u = Some b"
  shows "\<exists>h'. bindM (is_active u) (\<lambda>a. bindM (if a then lv_do (Destroy u) else returnM ()) (\<lambda>_.
      if flags then lv_do (UndefineFlags u) else lv_do (Undefine u))) h = (Inr (), h') \<and> power_of st0 h' = (power_of st0 h)(u := None)"
proof -
  obtain h1 where h1: "bindM (is_active u) (\<lambda>a. if a then lv_do (Destroy u) else returnM ()) h = (Inr (), h1)" "libvirt_host st0 h1"
    "power_of st0 h1 = (power_of st0 h)(u \<mapsto> False)"
    using power_body_sim(2) [OF assms] by blast
  have "bindM (is_active u) (\<lambda>a. bindM (if a then lv_do (Destroy u) else returnM ()) (\<lambda>_.
      if flags then lv_do (UndefineFlags u) else lv_do (Undefine u))) h =
    bindM (bindM (is_active u) (\<lambda>a. if a then lv_do (Destroy u) else returnM ())) (\<lambda>_. if flags then lv_do (UndefineFlags u) else lv_do (Undefine u)) h"
    by (simp add: bindM_assoc)
  then show ?thesis using h1(1) lv_sim [OF h1(2)]
    by (cases flags) (simp_all add: bindM_apply lv_do_def h1(3) power_of_step)
qed

lemma power_handler_run:
  assumes h: "libvirt_host st0 h"
  shows "(case power_step p u (power_of st0 h) of
      None \<Rightarrow> (\<exists>e h'. power_handler p payload u h = (Inl (LibvirtOperationError e), h') \<and> power_of st0 h' = power_of st0 h)
    | Some st \<Rightarrow> (\<exists>h'. power_handler p payload u h = (Inr (JObj []), h') \<and> power_of st0 h' = st))"
proof -
  obtain h1 where h1: "libvirt_host st0 h1" "power_of st0 h1 = power_of st0 h"
    and w: "\<And>m :: unit aop. with_domain u m h = (if power_of st0 h u = None then (Inl (LibvirtOperationError (''No domain with uuid '' @ u @ '': Domain not found'')), h1) else m h1)"
    using with_domain_sim [OF h] by metis
  note facts = power_handler_def domain_handler_defs done_with_def bindM_apply w wrapped_def tryM_apply
  show ?thesis
  proof (cases "power_of st0 h u")
    case None
    then show ?thesis using h1(2) by (cases p) (simp_all add: facts)
  next
    case (Some b)
    then have b: "power_of st0 h1 u = Some b" using h1(2) by simp
    show ?thesis
    proof (cases p)
      case PowerOn
      then show ?thesis using Some power_body_sim(1) [OF h1(1) b] h1(2) by (auto simp: facts)
    next
      case PowerOff
      then show ?thesis using Some power_body_sim(2) [OF h1(1) b] h1(2) by (auto simp: facts)
    next
      case Remove
      obtain h2 where "bindM (is_active u) (\<lambda>a. bindM (if a then lv_do (Destroy u) else returnM ()) (\<lambda>_.
          if pflag ''delete_disks'' payload then lv_do (UndefineFlags u) else lv_do (Undefine u))) h1 = (Inr (), h2)"
        "power_of st0 h2 = (power_of st0 h1)(u := None)"
        using undefine_sim [OF h1(1) b] by blast
      then show ?thesis using Remove Some h1(2)
        by (simp add: power_handler_def delete_vm_op_def undefine_domain_def done_with_def bindM_apply [of "with_domain _ _"] w wrapped_def tryM_apply)
    qed
  qed
qed


definition sim_libvirt :: "power \<Rightarrow> host" where
  "sim_libvirt st0 = \<lparr> trace = [], respond = (\<lambda>tr c. case c of Lv l \<Rightarrow> lv_answer (fold lv_change tr st0) l | _ \<Rightarrow> Res JNull),
     libvirt_available = True, lv_conn = False \<rparr>"


end
