(* ===== verification/Json.thy ===== *)
theory Json
  imports Errors
begin

section \<open>Json: the text form of JSON values\<close>

text \<open>
  \<open>json.dumps\<close> and \<open>json.loads\<close> as the controller and the agent use them: every frame of the agent protocol, every
  stored reply and the output of \<open>qemu-img info\<close> goes through them. A string is a list of the code points below 256, a
  number is an integer; a text with a larger code point or a fraction has no value here and is read as \<open>None\<close>, as are
  the texts on which \<open>json.loads\<close> raises \<open>ValueError\<close>.
\<close>

subsection \<open>Printing\<close>

definition hex_digit :: "nat \<Rightarrow> char" where
  "hex_digit n = (if n < 10 then char_of (48 + n) else char_of (87 + n))"

definition json_char :: "char \<Rightarrow> string" where
  "json_char c = (if c = CHR 0x22 then [CHR 0x5C, CHR 0x22] else if c = CHR 0x5C then [CHR 0x5C, CHR 0x5C]
     else if c = CHR 0x0A then [CHR 0x5C, CHR ''n''] else if c = CHR 0x0D then [CHR 0x5C, CHR ''r'']
     else if c = CHR 0x09 then [CHR 0x5C, CHR ''t''] else if c = CHR 0x08 then [CHR 0x5C, CHR ''b'']
     else if c = CHR 0x0C then [CHR 0x5C, CHR ''f'']
     else let n = (of_char c :: nat) in
       if 32 \<le> n \<and> n \<le> 126 then [c]
       else [CHR 0x5C, CHR ''u'', CHR ''0'', CHR ''0'', hex_digit (n div 16), hex_digit (n mod 16)])"

definition json_str :: "string \<Rightarrow> string" where
  "json_str s = CHR 0x22 # concat (map json_char s) @ [CHR 0x22]"

fun dumps :: "json \<Rightarrow> string" and dumps_elems :: "json list \<Rightarrow> string" and dumps_members :: "(string \<times> json) list \<Rightarrow> string" where
  "dumps JNull = ''null''"
| "dumps (JBool b) = (if b then ''true'' else ''false'')"
| "dumps (JInt i) = show_int i"
| "dumps (JStr s) = json_str s"
| "dumps (JArr xs) = ''['' @ dumps_elems xs @ '']''"
| "dumps (JObj kvs) = ''{'' @ dumps_members kvs @ ''}''"
| "dumps_elems [] = ''''"
| "dumps_elems (x # xs) = dumps x @ (if xs = [] then '''' else '', '') @ dumps_elems xs"
| "dumps_members [] = ''''"
| "dumps_members ((k, v) # kvs) = json_str k @ '': '' @ dumps v @ (if kvs = [] then '''' else '', '') @ dumps_members kvs"

subsection \<open>Parsing\<close>

definition skip_ws :: "string \<Rightarrow> string" where
  "skip_ws s = dropWhile (\<lambda>c. c = CHR '' '' \<or> c = CHR 0x09 \<or> c = CHR 0x0A \<or> c = CHR 0x0D) s"

definition unhex :: "char \<Rightarrow> nat option" where
  "unhex c = (let n = of_char c in if 48 \<le> n \<and> n \<le> 57 then Some (n - 48)
     else if 97 \<le> n \<and> n \<le> 102 then Some (n - 87) else if 65 \<le> n \<and> n \<le> 70 then Some (n - 55) else None)"

definition unhex4 :: "string \<Rightarrow> nat option" where
  "unhex4 s = (case map unhex (take 4 s) of
     [Some a, Some b, Some c, Some d] \<Rightarrow> Some (a * 4096 + b * 256 + c * 16 + d) | _ \<Rightarrow> None)"

definition simple_escape :: "char \<Rightarrow> char option" where
  "simple_escape c = (if c = CHR 0x22 \<or> c = CHR 0x5C \<or> c = CHR ''/'' then Some c
     else if c = CHR ''n'' then Some (CHR 0x0A) else if c = CHR ''r'' then Some (CHR 0x0D)
     else if c = CHR ''t'' then Some (CHR 0x09) else if c = CHR ''b'' then Some (CHR 0x08)
     else if c = CHR ''f'' then Some (CHR 0x0C) else None)"

text \<open>The rest of a string literal after its opening quote; control characters are refused.\<close>

function parse_string :: "string \<Rightarrow> (string \<times> string) option" where
  "parse_string [] = None"
| "parse_string (c # s) =
     (if c = CHR 0x22 then Some ([], s)
      else if c = CHR 0x5C then (case s of [] \<Rightarrow> None | d # r \<Rightarrow>
        (if d = CHR ''u'' then (case unhex4 r of None \<Rightarrow> None | Some n \<Rightarrow>
             if 256 \<le> n then None else map_option (apfst ((#) (char_of n))) (parse_string (drop 4 r)))
         else (case simple_escape d of None \<Rightarrow> None | Some e \<Rightarrow> map_option (apfst ((#) e)) (parse_string r))))
      else if of_char c < (32 :: nat) then None
      else map_option (apfst ((#) c)) (parse_string s))"
  by pat_completeness auto

termination
  by (relation "measure length") auto

definition digits_value :: "string \<Rightarrow> int" where
  "digits_value s = foldl (\<lambda>n c. 10 * n + (int (of_char c) - 48)) 0 s"

definition number_digits :: "string \<Rightarrow> string" where
  "number_digits t = (if take 1 t = ''0'' then ''0'' else takeWhile is_digit t)"

definition parse_number :: "string \<Rightarrow> (json \<times> string) option" where
  "parse_number s =
     (let neg = (take 1 s = ''-''); t = (if neg then drop 1 s else s);
          ds = number_digits t; r = drop (length ds) t
      in if ds = [] \<or> (r \<noteq> [] \<and> hd r \<in> {CHR ''.'', CHR ''e'', CHR ''E''}) then None
         else Some (JInt (if neg then - digits_value ds else digits_value ds), r))"

text \<open>Python's \<open>d[k] = v\<close> on an insertion-ordered dict.\<close>

fun dict_set :: "'k \<Rightarrow> 'v \<Rightarrow> ('k \<times> 'v) list \<Rightarrow> ('k \<times> 'v) list" where
  "dict_set k v [] = [(k, v)]"
| "dict_set k v ((k', v') # d) = (if k = k' then (k, v) # d else (k', v') # dict_set k v d)"

definition dict_of :: "('k \<times> 'v) list \<Rightarrow> ('k \<times> 'v) list" where
  "dict_of kvs = fold (\<lambda>(k, v). dict_set k v) kvs []"

fun parse_value :: "nat \<Rightarrow> string \<Rightarrow> (json \<times> string) option"
  and parse_elems :: "nat \<Rightarrow> string \<Rightarrow> (json list \<times> string) option"
  and parse_members :: "nat \<Rightarrow> string \<Rightarrow> ((string \<times> json) list \<times> string) option" where
  "parse_value 0 s = None"
| "parse_value (Suc n) s = (case s of [] \<Rightarrow> None | c # r \<Rightarrow>
     if c = CHR 0x22 then map_option (apfst JStr) (parse_string r)
     else if c = CHR ''{'' then
       (if take 1 (skip_ws r) = ''}'' then Some (JObj [], drop 1 (skip_ws r))
        else map_option (apfst (\<lambda>kvs. JObj (dict_of kvs))) (parse_members n (skip_ws r)))
     else if c = CHR ''['' then
       (if take 1 (skip_ws r) = '']'' then Some (JArr [], drop 1 (skip_ws r))
        else map_option (apfst JArr) (parse_elems n (skip_ws r)))
     else if take 4 s = ''null'' then Some (JNull, drop 4 s)
     else if take 4 s = ''true'' then Some (JBool True, drop 4 s)
     else if take 5 s = ''false'' then Some (JBool False, drop 5 s)
     else parse_number s)"
| "parse_elems 0 s = None"
| "parse_elems (Suc n) s = (case parse_value n s of None \<Rightarrow> None | Some (v, r) \<Rightarrow>
     (case skip_ws r of [] \<Rightarrow> None | c # r' \<Rightarrow>
       if c = CHR '']'' then Some ([v], r')
       else if c = CHR '','' then map_option (apfst ((#) v)) (parse_elems n (skip_ws r'))
       else None))"
| "parse_members 0 s = None"
| "parse_members (Suc n) s = (if take 1 s \<noteq> [CHR 0x22] then None
     else (case parse_string (drop 1 s) of None \<Rightarrow> None | Some (k, r) \<Rightarrow>
       (case skip_ws r of [] \<Rightarrow> None | c # r' \<Rightarrow>
         if c \<noteq> CHR '':'' then None
         else (case parse_value n (skip_ws r') of None \<Rightarrow> None | Some (v, q) \<Rightarrow>
           (case skip_ws q of [] \<Rightarrow> None | d # q' \<Rightarrow>
             if d = CHR ''}'' then Some ([(k, v)], q')
             else if d = CHR '','' then map_option (apfst ((#) (k, v))) (parse_members n (skip_ws q'))
             else None)))))"

text \<open>Every recursive call follows a character that was read, so that the length of the text is enough fuel.\<close>

definition loads :: "string \<Rightarrow> json option" where
  "loads s = (case parse_value (Suc (length s)) (skip_ws s) of
     Some (v, r) \<Rightarrow> if skip_ws r = [] then Some v else None | None \<Rightarrow> None)"

subsection \<open>Reading back what was printed\<close>

fun wf_json :: "json \<Rightarrow> bool" and wf_elems :: "json list \<Rightarrow> bool" and wf_members :: "(string \<times> json) list \<Rightarrow> bool" where
  "wf_json (JArr xs) = wf_elems xs"
| "wf_json (JObj kvs) = (distinct (map fst kvs) \<and> wf_members kvs)"
| "wf_json JNull = True" | "wf_json (JBool b) = True" | "wf_json (JInt i) = True" | "wf_json (JStr s) = True"
| "wf_elems [] = True"
| "wf_elems (x # xs) = (wf_json x \<and> wf_elems xs)"
| "wf_members [] = True"
| "wf_members ((k, v) # kvs) = (wf_json v \<and> wf_members kvs)"

text \<open>What may follow a value inside a document.\<close>

definition ends :: "string \<Rightarrow> bool" where
  "ends r \<longleftrightarrow> r = [] \<or> hd r \<in> {CHR '','', CHR '']'', CHR ''}''}"

lemma ends_simps [simp]: "ends []" "ends (CHR '','' # r)" "ends (CHR '']'' # r)" "ends (CHR ''}'' # r)"
  by (simp_all add: ends_def)

lemma skip_ws_simps [simp]: "skip_ws [] = []" "skip_ws (CHR '' '' # s) = skip_ws s" "skip_ws (CHR '','' # s) = CHR '','' # s"
  "skip_ws (CHR '']'' # s) = CHR '']'' # s" "skip_ws (CHR ''}'' # s) = CHR ''}'' # s" "skip_ws (CHR '':'' # s) = CHR '':'' # s"
  "skip_ws (CHR 0x22 # s) = CHR 0x22 # s"
  by (simp_all add: skip_ws_def)

lemma skip_ws_ends: "ends r \<Longrightarrow> skip_ws r = r"
  by (cases r) (auto simp: ends_def skip_ws_def)

lemma unhex_hex [simp]: "n < 16 \<Longrightarrow> unhex (hex_digit n) = Some n"
  by (auto simp: unhex_def hex_digit_def of_char_of Let_def)

lemma unhex_0 [simp]: "unhex (CHR ''0'') = Some 0"
  by (simp add: unhex_def)

text \<open>Characters that are printed as a backslash and a letter.\<close>

definition short_escape :: "char \<Rightarrow> bool" where
  "short_escape c \<longleftrightarrow> c \<in> {CHR 0x22, CHR 0x5C, CHR 0x0A, CHR 0x0D, CHR 0x09, CHR 0x08, CHR 0x0C}"

lemma json_char_other: "\<not> short_escape c \<Longrightarrow> json_char c = (let n = (of_char c :: nat) in if 32 \<le> n \<and> n \<le> 126 then [c]
     else [CHR 0x5C, CHR ''u'', CHR ''0'', CHR ''0'', hex_digit (n div 16), hex_digit (n mod 16)])"
  unfolding json_char_def short_escape_def by simp

lemma unhex4_hex: "n < 256 \<Longrightarrow> unhex4 (CHR ''0'' # CHR ''0'' # hex_digit (n div 16) # hex_digit (n mod 16) # s) = Some n"
  unfolding unhex4_def by (simp add: take_Cons' less_mult_imp_div_less)

lemma parse_json_char: "parse_string (json_char c @ s) = map_option (apfst ((#) c)) (parse_string s)"
proof (cases "short_escape c")
  case True
  then show ?thesis unfolding short_escape_def by (auto simp: json_char_def simple_escape_def)
next
  case False
  define n where "n = (of_char c :: nat)"
  have n: "n < 256" "char_of n = c" by (simp_all add: n_def)
  show ?thesis
  proof (cases "32 \<le> n \<and> n \<le> 126")
    case True
    then show ?thesis using False by (auto simp: json_char_other n_def [symmetric] Let_def short_escape_def)
  next
    case other: False
    then have "json_char c = [CHR 0x5C, CHR ''u'', CHR ''0'', CHR ''0'', hex_digit (n div 16), hex_digit (n mod 16)]"
      using False by (simp add: json_char_other n_def [symmetric] Let_def)
    then show ?thesis using unhex4_hex [OF n(1), of s] n by simp
  qed
qed

lemma parse_json_str: "parse_string (concat (map json_char s) @ CHR 0x22 # r) = Some (s, r)"
  by (induction s) (simp_all add: parse_json_char)

lemma digits_value_snoc: "digits_value (s @ [c]) = 10 * digits_value s + (int (of_char c) - 48)"
  by (simp add: digits_value_def)

lemma of_digit: "n < 10 \<Longrightarrow> (of_char (digit n) :: nat) = 48 + n"
  by (simp add: digit_def of_char_of)

lemma digits_value_show: "digits_value (show_nat n) = int n"
proof (induction n rule: show_nat.induct)
  case (1 n)
  show ?case
  proof (cases "n < 10")
    case True
    then show ?thesis by (subst show_nat.simps) (simp add: digits_value_def of_digit)
  next
    case False
    then have "digits_value (show_nat n) = 10 * int (n div 10) + int (n mod 10)"
      using 1 by (subst show_nat.simps) (simp add: digits_value_snoc of_digit)
    moreover have "int (10 * (n div 10) + n mod 10) = int n" by (rule arg_cong [of _ _ int]) simp
    ultimately show ?thesis by (simp only: of_nat_add of_nat_mult of_nat_numeral)
  qed
qed

lemma digit_0: "digit 0 = CHR ''0''"
proof -
  have "(of_char (digit 0) :: nat) = of_char (CHR ''0'')" by (simp add: of_digit)
  then show ?thesis by (simp only: of_char_eq_iff)
qed

lemma show_nat_0: "show_nat 0 = ''0''"
  by (subst show_nat.simps) (simp add: digit_0)

text \<open>No leading zeros.\<close>

lemma show_nat_zero: "take 1 (show_nat n) = ''0'' \<Longrightarrow> n = 0"
proof (induction n rule: show_nat.induct)
  case (1 n)
  show ?case
  proof (cases "n < 10")
    case True
    then have "show_nat n = [digit n]" by (subst show_nat.simps) simp
    then show ?thesis using 1(2) digit_inj [of n 0] True by (simp add: digit_0)
  next
    case False
    then have s: "show_nat n = show_nat (n div 10) @ [digit (n mod 10)]" by (subst show_nat.simps) simp
    have "take 1 (show_nat (n div 10)) = ''0''" using 1(2) show_nat_length [of "n div 10"] unfolding s by simp
    then have "n div 10 = 0" using 1(1) False by simp
    then show ?thesis using False by simp
  qed
qed

lemma ends_not_digit: "ends r \<Longrightarrow> r \<noteq> [] \<Longrightarrow> \<not> is_digit (hd r) \<and> hd r \<notin> {CHR ''.'', CHR ''e'', CHR ''E''}"
  by (auto simp: ends_def is_digit_def)

lemma parse_digits:
  assumes "ends r"
  shows "number_digits (show_nat n @ r) = show_nat n"
proof (cases "n = 0")
  case True
  with True show ?thesis by (simp add: number_digits_def show_nat_0)
next
  case False
  have "takeWhile is_digit (show_nat n @ r) = show_nat n @ takeWhile is_digit r"
    using show_nat_digits by (intro takeWhile_append2) auto
  moreover have "takeWhile is_digit r = []" using ends_not_digit [OF assms] by (cases r) auto
  moreover have "take 1 (show_nat n @ r) \<noteq> ''0''" using show_nat_zero [of n] False show_nat_length [of n] by auto
  ultimately show ?thesis by (simp add: number_digits_def)
qed

lemma parse_show_int:
  assumes "ends r"
  shows "parse_number (show_int i @ r) = Some (JInt i, r)"
proof -
  have neg: "take 1 (show_nat n @ r) \<noteq> ''-''" for n
    using show_nat_digits [of "hd (show_nat n)" n] by (cases "show_nat n") (auto simp: is_digit_def)
  have stop: "\<not> (r \<noteq> [] \<and> hd r \<in> {CHR ''.'', CHR ''e'', CHR ''E''})" using ends_not_digit [OF assms] by blast
  show ?thesis
  proof (cases "i < 0")
    case True
    then show ?thesis using parse_digits [OF assms, of "nat (- i)"] stop
      by (simp add: parse_number_def show_int_def digits_value_show Let_def)
  next
    case False
    then show ?thesis using parse_digits [OF assms, of "nat i"] stop neg [of "nat i"]
      by (simp add: parse_number_def show_int_def digits_value_show Let_def)
  qed
qed

subsubsection \<open>Whole documents\<close>

fun cost :: "json \<Rightarrow> nat" and costs :: "json list \<Rightarrow> nat" and mcosts :: "(string \<times> json) list \<Rightarrow> nat" where
  "cost (JArr xs) = Suc (costs xs)"
| "cost (JObj kvs) = Suc (mcosts kvs)"
| "cost JNull = 1" | "cost (JBool b) = 1" | "cost (JInt i) = 1" | "cost (JStr s) = 1"
| "costs [] = 0"
| "costs (x # xs) = Suc (cost x + costs xs)"
| "mcosts [] = 0"
| "mcosts ((k, v) # kvs) = Suc (cost v + mcosts kvs)"

lemma cost_length:
  "cost j \<le> length (dumps j)" "xs \<noteq> [] \<Longrightarrow> costs xs \<le> Suc (length (dumps_elems xs))" "mcosts kvs \<le> length (dumps_members kvs)"
proof (induction j and xs and kvs rule: dumps_dumps_elems_dumps_members.induct)
  case (3 i)
  have "show_int i \<noteq> []" by (simp add: show_int_def)
  then show ?case by (cases "show_int i") auto
next
  case (5 xs)
  then show ?case by (cases "xs = []") auto
next
  case (8 x xs)
  then show ?case by (cases "xs = []") auto
qed (auto simp: json_str_def)

lemma dict_set_new: "k \<notin> fst ` set d \<Longrightarrow> dict_set k v d = d @ [(k, v)]"
  by (induction d) auto

lemma dict_of_distinct: "distinct (map fst kvs) \<Longrightarrow> dict_of kvs = kvs"
proof -
  have "distinct (map fst (d @ kvs)) \<Longrightarrow> fold (\<lambda>(k, v). dict_set k v) kvs d = d @ kvs" for d
    by (induction kvs arbitrary: d) (auto simp: dict_set_new image_iff)
  from this [of "[]"] show "distinct (map fst kvs) \<Longrightarrow> dict_of kvs = kvs" by (simp add: dict_of_def)
qed

text \<open>How a printed value starts: never with white space, a closing bracket or brace.\<close>

lemma show_int_start: "\<exists>c r. show_int i = c # r \<and> (is_digit c \<or> c = CHR ''-'')"
  using show_nat_digits [of "hd (show_nat (nat i))" "nat i"] by (cases "show_int i") (auto simp: show_int_def split: if_splits)

lemma dumps_start: "\<exists>c r. dumps j = c # r \<and> skip_ws (c # r @ q) = c # r @ q \<and> c \<noteq> CHR '']''"
proof (cases j)
  case (JInt i)
  obtain c r where "show_int i = c # r" "is_digit c \<or> c = CHR ''-''" using show_int_start [of i] by blast
  then show ?thesis using JInt by (auto simp: skip_ws_def is_digit_def)
qed (auto simp: skip_ws_def json_str_def)

lemma skip_ws_dumps: "skip_ws (dumps j @ q) = dumps j @ q"
  using dumps_start [of j q] by auto

lemma elems_start:
  assumes "xs \<noteq> []"
  shows "skip_ws (dumps_elems xs @ q) = dumps_elems xs @ q" "take 1 (dumps_elems xs @ q) \<noteq> '']''"
proof -
  obtain x ys where xs: "xs = x # ys" using assms by (cases xs) auto
  obtain c r where c: "dumps x = c # r" "c \<noteq> CHR '']''" using dumps_start [of x] by blast
  show "skip_ws (dumps_elems xs @ q) = dumps_elems xs @ q"
    using skip_ws_dumps [of x "(if ys = [] then '''' else '', '') @ dumps_elems ys @ q"] xs by simp
  show "take 1 (dumps_elems xs @ q) \<noteq> '']''" using c xs by simp
qed

lemma members_start: "kvs \<noteq> [] \<Longrightarrow> \<exists>r. dumps_members kvs = CHR 0x22 # r"
  by (cases kvs rule: dumps_members.cases) (auto simp: json_str_def)

text \<open>One step of the parser on a printed value, given that it reads back the parts with one unit of fuel less.\<close>

definition reads_value :: "nat \<Rightarrow> bool" where
  "reads_value n \<longleftrightarrow> (\<forall>j r. cost j \<le> n \<longrightarrow> wf_json j \<longrightarrow> ends r \<longrightarrow> parse_value n (dumps j @ r) = Some (j, r))"

definition reads_elems :: "nat \<Rightarrow> bool" where
  "reads_elems n \<longleftrightarrow> (\<forall>xs r. xs \<noteq> [] \<longrightarrow> costs xs \<le> n \<longrightarrow> wf_elems xs \<longrightarrow>
     parse_elems n (dumps_elems xs @ CHR '']'' # r) = Some (xs, r))"

definition reads_members :: "nat \<Rightarrow> bool" where
  "reads_members n \<longleftrightarrow> (\<forall>kvs r. kvs \<noteq> [] \<longrightarrow> mcosts kvs \<le> n \<longrightarrow> wf_members kvs \<longrightarrow>
     parse_members n (dumps_members kvs @ CHR ''}'' # r) = Some (kvs, r))"

lemma value_step:
  assumes "reads_elems n" and "reads_members n" and "cost j \<le> Suc n" and "wf_json j" and "ends r"
  shows "parse_value (Suc n) (dumps j @ r) = Some (j, r)"
proof (cases j)
  case (JInt i)
  obtain c s where c: "show_int i = c # s" "is_digit c \<or> c = CHR ''-''" using show_int_start [of i] by blast
  then have "c \<notin> {CHR 0x22, CHR ''{'', CHR ''['', CHR ''n'', CHR ''t'', CHR ''f''}" by (auto simp: is_digit_def)
  then show ?thesis using parse_show_int [OF assms(5), of i] JInt c(1) by (simp add: take_Cons')
next
  case (JStr s)
  then show ?thesis using parse_json_str [of s r] by (simp add: json_str_def)
next
  case (JArr xs)
  then show ?thesis using assms(1,3,4) elems_start [of xs "CHR '']'' # r"] by (cases "xs = []") (simp_all add: reads_elems_def)
next
  case (JObj kvs)
  show ?thesis
  proof (cases "kvs = []")
    case False
    obtain t where t: "dumps_members kvs = CHR 0x22 # t" using members_start [OF False] by blast
    have "parse_members n (dumps_members kvs @ CHR ''}'' # r) = Some (kvs, r)"
      using assms(2,3,4) False JObj by (simp add: reads_members_def)
    then show ?thesis using JObj assms(4) t by (simp add: dict_of_distinct)
  qed (use JObj in simp)
qed simp_all

lemma elems_step:
  assumes "reads_value n" and "reads_elems n" and "costs (x # ys) \<le> Suc n" and "wf_elems (x # ys)"
  shows "parse_elems (Suc n) (dumps_elems (x # ys) @ CHR '']'' # r) = Some (x # ys, r)"
proof (cases "ys = []")
  case True
  then show ?thesis using assms by (simp add: reads_value_def)
next
  case False
  let ?q = "dumps_elems ys @ CHR '']'' # r"
  have "parse_value n (dumps x @ CHR '','' # CHR '' '' # ?q) = Some (x, CHR '','' # CHR '' '' # ?q)"
    using assms by (simp add: reads_value_def)
  moreover have "parse_elems n ?q = Some (ys, r)" using assms False by (simp add: reads_elems_def)
  ultimately show ?thesis using False elems_start(1) [OF False] by simp
qed

lemma members_step:
  assumes "reads_value n" and "reads_members n" and "mcosts ((k, v) # ys) \<le> Suc n" and "wf_members ((k, v) # ys)"
  shows "parse_members (Suc n) (dumps_members ((k, v) # ys) @ CHR ''}'' # r) = Some ((k, v) # ys, r)"
proof (cases "ys = []")
  case True
  then show ?thesis using assms parse_json_str skip_ws_dumps by (simp add: json_str_def reads_value_def)
next
  case False
  let ?q = "dumps_members ys @ CHR ''}'' # r"
  obtain t where t: "dumps_members ys = CHR 0x22 # t" using members_start [OF False] by blast
  have "parse_value n (dumps v @ CHR '','' # CHR '' '' # ?q) = Some (v, CHR '','' # CHR '' '' # ?q)"
    using assms by (simp add: reads_value_def)
  moreover have "parse_members n ?q = Some (ys, r)" using assms False by (simp add: reads_members_def)
  ultimately show ?thesis using False t parse_json_str skip_ws_dumps by (simp add: json_str_def)
qed

lemma parse_print: "reads_value n \<and> reads_elems n \<and> reads_members n"
proof (induction n)
  case 0
  have "\<not> cost j \<le> 0" for j by (cases j) auto
  moreover have "xs = [] \<or> \<not> costs xs \<le> 0" for xs by (cases xs) auto
  moreover have "kvs = [] \<or> \<not> mcosts kvs \<le> 0" for kvs by (cases kvs rule: dumps_members.cases) auto
  ultimately show ?case unfolding reads_value_def reads_elems_def reads_members_def by blast
next
  case (Suc n)
  have "reads_value (Suc n)" using Suc value_step unfolding reads_value_def by blast
  moreover have "reads_elems (Suc n)" unfolding reads_elems_def using Suc elems_step by (metis neq_Nil_conv)
  moreover have "reads_members (Suc n)" unfolding reads_members_def using Suc members_step by (metis neq_Nil_conv surj_pair)
  ultimately show ?case by blast
qed

lemma loads_dumps:
  assumes "wf_json j"
  shows "loads (dumps j) = Some j"
proof -
  have "parse_value (Suc (length (dumps j))) (dumps j @ []) = Some (j, [])"
    using parse_print [of "Suc (length (dumps j))"] assms cost_length(1) [of j] unfolding reads_value_def by (simp add: le_SucI del: append_Nil2)
  then show ?thesis using skip_ws_dumps [of j "[]"] by (simp add: loads_def del: parse_value.simps)
qed

text \<open>What the parser returns is well formed: duplicate keys of an object are merged.\<close>

lemma dict_set_keys: "fst ` set (dict_set k v d) = insert k (fst ` set d)"
proof (induction d)
  case (Cons p d)
  then show ?case by (cases p) (simp add: insert_commute)
qed simp

lemma dict_set_distinct: "distinct (map fst d) \<Longrightarrow> distinct (map fst (dict_set k v d))"
proof (induction d)
  case (Cons p d)
  then show ?case by (cases p) (simp add: dict_set_keys)
qed simp

lemma dict_set_wf: "wf_members d \<Longrightarrow> wf_json v \<Longrightarrow> wf_members (dict_set k v d)"
  by (induction d) auto

lemma dict_of_wf:
  assumes "wf_members kvs"
  shows "distinct (map fst (dict_of kvs)) \<and> wf_members (dict_of kvs)"
proof -
  have "distinct (map fst (fold (\<lambda>(k, v). dict_set k v) kvs d)) \<and> wf_members (fold (\<lambda>(k, v). dict_set k v) kvs d)"
    if "distinct (map fst d)" "wf_members d" for d
    using assms that by (induction kvs arbitrary: d) (auto simp: dict_set_distinct dict_set_wf)
  then show ?thesis by (simp add: dict_of_def)
qed

lemma parse_wf:
  shows "\<And>s j r. parse_value n s = Some (j, r) \<Longrightarrow> wf_json j"
    and "\<And>s js r. parse_elems n s = Some (js, r) \<Longrightarrow> wf_elems js"
    and "\<And>s kvs r. parse_members n s = Some (kvs, r) \<Longrightarrow> wf_members kvs"
proof (induction n)
  case (Suc n)
  { case 1 then show ?case using Suc.IH dict_of_wf
      by (fastforce split: list.splits if_splits simp: parse_number_def Let_def) }
  { case 2 then show ?case using Suc.IH(1,2) by (fastforce split: list.splits if_splits option.splits) }
  { case 3 then show ?case using Suc.IH(1,3) by (fastforce split: list.splits if_splits option.splits) }
qed simp_all

lemma loads_wf: "loads s = Some j \<Longrightarrow> wf_json j"
  using parse_wf(1) by (auto simp: loads_def simp del: parse_value.simps split: option.splits if_splits)
end
