(* ===== verification/AgentStorage.thy ===== *)
theory AgentStorage
  imports AgentNetwork Json
begin

section \<open>AgentStorage: the storage backends of the node agent\<close>

text \<open>
  \<open>agent/nodepilot_agent/storage\<close>: one constructor of \<open>backend\<close> per backend class, carrying what its constructor keeps,
  and one definition per method, dispatching on the class. Commands run through \<open>run\<close> with an argument list.
\<close>

text \<open>\<open>run\<close>: the standard output; a command that cannot be started raises an \<open>OSError\<close>.\<close>

definition run :: "string list \<Rightarrow> bool \<Rightarrow> nat \<Rightarrow> string aop" where
  "run args check timeout = bindM (hostM (Exec args)) (\<lambda>r. case r of
     Exited code out err \<Rightarrow> if check \<and> code \<noteq> 0
        then raiseM (StorageOperationError (join_with '' '' args @ '' failed (exit '' @ show_int code @ ''): '' @ err)) else returnM out
   | TimedOut \<Rightarrow> raiseM (StorageOperationError (join_with '' '' args @ '' timed out after '' @ show_nat timeout @ ''s''))
   | Raised m \<Rightarrow> raiseM (AOSError m)
   | Res j \<Rightarrow> raiseM (AOSError ''subprocess.run''))"

abbreviation run_ok :: "string list \<Rightarrow> string aop" where
  "run_ok args \<equiv> run args True 300"

record volume_info =
  volume_id :: string
  vol_size_bytes :: int
  vol_format :: string

record pool_info =
  capacity_bytes :: int
  used_bytes :: int
  available_bytes :: int

definition validate_name :: "string \<Rightarrow> string aop" where
  "validate_name nm = (if re_token 127 nm then returnM nm else raiseM (StorageOperationError (''Unsafe volume name: '' @ quoted nm)))"

text \<open>\<open>LVMThin vg thinpool\<close> keeps the two parts of its pool path.\<close>

datatype backend = Directory string | NFS string | LVM string | LVMThin string string | ZFS string

definition get_backend :: "string \<Rightarrow> string \<Rightarrow> backend aop" where
  "get_backend storage_type pool_path = (let t = upper storage_type in
     if t = ''DIRECTORY'' then returnM (Directory pool_path)
     else if t = ''NFS'' then returnM (NFS pool_path)
     else if t = ''LVM'' then returnM (LVM pool_path)
     else if t = ''LVM_THIN'' then
       (case partition_at CHR ''/'' pool_path of (vg, _, thinpool) \<Rightarrow>
          if thinpool = [] then raiseM (StorageOperationError (''LVM-thin pool_path must be '' @ quoted ''vg/thinpool'' @ '', got '' @ quoted pool_path))
          else returnM (LVMThin vg thinpool))
     else if t = ''ZFS'' then returnM (ZFS pool_path)
     else raiseM (StorageOperationError (''Unsupported storage type: '' @ quoted storage_type)))"

subsection \<open>Output of commands\<close>

text \<open>\<open>int(text)\<close>: optional sign and digits between white space.\<close>

definition parse_int :: "string \<Rightarrow> int aop" where
  "parse_int s = (let t = strip_ws s; neg = (take 1 t = ''-''); ds = (if take 1 t = ''-'' \<or> take 1 t = ''+'' then drop 1 t else t)
     in if ds \<noteq> [] \<and> list_all is_digit ds then returnM (if neg then - digits_value ds else digits_value ds)
        else raiseM (AValueError (''invalid literal for int() with base 10: '' @ quoted s)))"

text \<open>\<open>str.split()\<close>.\<close>

definition is_ws :: "char \<Rightarrow> bool" where
  "is_ws c \<longleftrightarrow> c = CHR '' '' \<or> c = CHR 0x09 \<or> c = CHR 0x0A \<or> c = CHR 0x0D"

definition ws_split :: "string \<Rightarrow> string list" where
  "ws_split s = filter (\<lambda>w. w \<noteq> []) (split_on CHR '' '' (map (\<lambda>c. if is_ws c then CHR '' '' else c) s))"

definition two_fields :: "string \<Rightarrow> (string \<times> string) aop" where
  "two_fields out = (case ws_split out of [a, b] \<Rightarrow> returnM (a, b)
     | ws \<Rightarrow> raiseM (AValueError (if length ws < 2 then ''not enough values to unpack (expected 2)'' else ''too many values to unpack (expected 2)'')))"

text \<open>\<open>float(text)\<close> for a decimal such as \<open>12.34\<close>, as its digits and the power of ten below them.\<close>

definition parse_decimal :: "string \<Rightarrow> (int \<times> nat) aop" where
  "parse_decimal s = (case partition_at CHR ''.'' s of (a, _, b) \<Rightarrow>
     if a @ b \<noteq> [] \<and> list_all is_digit (a @ b) then returnM (digits_value (a @ b), length b)
     else raiseM (AValueError (''could not convert string to float: '' @ quoted s)))"

subsection \<open>Guards\<close>

text \<open>
  \<open>os.path.commonpath([pool, volume]) != pool\<close> for two real paths, which are absolute and without dots: the components of
  the pool must come first.
\<close>

definition path_parts :: "string \<Rightarrow> string list" where
  "path_parts p = filter (\<lambda>c. c \<noteq> []) (split_on CHR ''/'' p)"

definition below :: "string \<Rightarrow> string \<Rightarrow> bool" where
  "below pool p \<longleftrightarrow> take (length (path_parts pool)) (path_parts p) = path_parts pool"

definition real_path :: "string \<Rightarrow> string aop" where
  "real_path p = bindM (osM (RealPath p)) as_str"

definition assert_within_pool :: "string \<Rightarrow> string \<Rightarrow> unit aop" where
  "assert_within_pool pool_path v =
     bindM (real_path pool_path) (\<lambda>real_pool. bindM (real_path v) (\<lambda>real_volume.
     if below real_pool real_volume then returnM ()
     else raiseM (StorageOperationError (''Refusing to operate outside the storage pool: '' @ quoted v))))"

definition assert_within_vg :: "string \<Rightarrow> string \<Rightarrow> unit aop" where
  "assert_within_vg vg v = (if hd (split_on CHR ''/'' v) = vg then returnM ()
     else raiseM (StorageOperationError (''Refusing to operate on a volume outside this pool's volume group: '' @ quoted v)))"

definition assert_within_dataset :: "string \<Rightarrow> string \<Rightarrow> unit aop" where
  "assert_within_dataset pool_path dataset =
     (if dataset = pool_path \<or> take (length pool_path + 1) dataset \<noteq> pool_path @ ''/''
      then raiseM (StorageOperationError (''Refusing to operate on a dataset outside this pool: '' @ quoted dataset))
      else returnM ())"

subsection \<open>Volumes\<close>

definition path_for :: "string \<Rightarrow> string \<Rightarrow> string aop" where
  "path_for pool_path nm = bindM (validate_name nm) (\<lambda>n. returnM (path_join pool_path n))"

definition dir_create_volume :: "string \<Rightarrow> string \<Rightarrow> int \<Rightarrow> string \<Rightarrow> volume_info aop" where
  "dir_create_volume pool_path nm sz format = bindM (path_for pool_path nm) (\<lambda>path.
     bindM (run_ok [''qemu-img'', ''create'', ''-f'', format, path, show_int sz]) (\<lambda>_.
     returnM \<lparr> volume_id = path, vol_size_bytes = sz, vol_format = format \<rparr>))"

definition lvm_create_volume :: "string \<Rightarrow> string \<Rightarrow> int \<Rightarrow> string \<Rightarrow> volume_info aop" where
  "lvm_create_volume vg nm sz format = bindM (validate_name nm) (\<lambda>n.
     bindM (run_ok [''lvcreate'', ''-y'', ''-L'', show_int sz @ ''B'', ''-n'', n, vg]) (\<lambda>_.
     returnM \<lparr> volume_id = vg @ ''/'' @ n, vol_size_bytes = sz, vol_format = ''raw'' \<rparr>))"

definition thin_create_volume :: "string \<Rightarrow> string \<Rightarrow> string \<Rightarrow> int \<Rightarrow> string \<Rightarrow> volume_info aop" where
  "thin_create_volume vg tp nm sz format = bindM (validate_name nm) (\<lambda>n.
     bindM (run_ok [''lvcreate'', ''-y'', ''-T'', vg @ ''/'' @ tp, ''-V'', show_int sz @ ''B'', ''-n'', n]) (\<lambda>_.
     returnM \<lparr> volume_id = vg @ ''/'' @ n, vol_size_bytes = sz, vol_format = ''raw'' \<rparr>))"

definition zfs_create_volume :: "string \<Rightarrow> string \<Rightarrow> int \<Rightarrow> string \<Rightarrow> volume_info aop" where
  "zfs_create_volume p nm sz format = bindM (validate_name nm) (\<lambda>n.
     bindM (run_ok [''zfs'', ''create'', ''-V'', show_int sz @ ''B'', ''-s'', p @ ''/'' @ n]) (\<lambda>_.
     returnM \<lparr> volume_id = p @ ''/'' @ n, vol_size_bytes = sz, vol_format = ''raw'' \<rparr>))"

fun create_volume :: "backend \<Rightarrow> string \<Rightarrow> int \<Rightarrow> string \<Rightarrow> volume_info aop" where
  "create_volume (Directory p) nm sz format = dir_create_volume p nm sz format"
| "create_volume (NFS p) nm sz format = dir_create_volume p nm sz format"
| "create_volume (LVM vg) nm sz format = lvm_create_volume vg nm sz format"
| "create_volume (LVMThin vg tp) nm sz format = thin_create_volume vg tp nm sz format"
| "create_volume (ZFS p) nm sz format = zfs_create_volume p nm sz format"

definition dir_delete_volume :: "string \<Rightarrow> string \<Rightarrow> unit aop" where
  "dir_delete_volume pool_path v = bindM (assert_within_pool pool_path v) (\<lambda>_.
     bindM (osM (PathExists v)) (\<lambda>ex. if truthy ex then bindM (osM (RemoveFile v)) (\<lambda>_. returnM ()) else returnM ()))"

definition lvm_delete_volume :: "string \<Rightarrow> string \<Rightarrow> unit aop" where
  "lvm_delete_volume vg v = bindM (assert_within_vg vg v) (\<lambda>_. bindM (run_ok [''lvremove'', ''-f'', v]) (\<lambda>_. returnM ()))"

definition thin_delete_volume :: "string \<Rightarrow> string \<Rightarrow> string \<Rightarrow> unit aop" where
  "thin_delete_volume vg tp v = bindM (assert_within_vg vg v) (\<lambda>_. bindM (run_ok [''lvremove'', ''-f'', v]) (\<lambda>_. returnM ()))"

definition zfs_delete_volume :: "string \<Rightarrow> string \<Rightarrow> unit aop" where
  "zfs_delete_volume p v = bindM (assert_within_dataset p v) (\<lambda>_. bindM (run_ok [''zfs'', ''destroy'', ''-r'', v]) (\<lambda>_. returnM ()))"

fun delete_volume :: "backend \<Rightarrow> string \<Rightarrow> unit aop" where
  "delete_volume (Directory p) v = dir_delete_volume p v"
| "delete_volume (NFS p) v = dir_delete_volume p v"
| "delete_volume (LVM vg) v = lvm_delete_volume vg v"
| "delete_volume (LVMThin vg tp) v = thin_delete_volume vg tp v"
| "delete_volume (ZFS p) v = zfs_delete_volume p v"

definition dir_resize_volume :: "string \<Rightarrow> string \<Rightarrow> int \<Rightarrow> unit aop" where
  "dir_resize_volume pool_path v n = bindM (assert_within_pool pool_path v) (\<lambda>_.
     bindM (run_ok [''qemu-img'', ''resize'', v, show_int n]) (\<lambda>_. returnM ()))"

definition lvm_resize_volume :: "string \<Rightarrow> string \<Rightarrow> int \<Rightarrow> unit aop" where
  "lvm_resize_volume vg v n = bindM (assert_within_vg vg v) (\<lambda>_.
     bindM (run_ok [''lvextend'', ''-L'', show_int n @ ''B'', v]) (\<lambda>_. returnM ()))"

definition thin_resize_volume :: "string \<Rightarrow> string \<Rightarrow> string \<Rightarrow> int \<Rightarrow> unit aop" where
  "thin_resize_volume vg tp v n = bindM (assert_within_vg vg v) (\<lambda>_.
     bindM (run_ok [''lvextend'', ''-L'', show_int n @ ''B'', v]) (\<lambda>_. returnM ()))"

definition zfs_resize_volume :: "string \<Rightarrow> string \<Rightarrow> int \<Rightarrow> unit aop" where
  "zfs_resize_volume p v n = bindM (assert_within_dataset p v) (\<lambda>_.
     bindM (run_ok [''zfs'', ''set'', ''volsize='' @ show_int n, v]) (\<lambda>_. returnM ()))"

fun resize_volume :: "backend \<Rightarrow> string \<Rightarrow> int \<Rightarrow> unit aop" where
  "resize_volume (Directory p) v n = dir_resize_volume p v n"
| "resize_volume (NFS p) v n = dir_resize_volume p v n"
| "resize_volume (LVM vg) v n = lvm_resize_volume vg v n"
| "resize_volume (LVMThin vg tp) v n = thin_resize_volume vg tp v n"
| "resize_volume (ZFS p) v n = zfs_resize_volume p v n"

text \<open>\<open>sub in text\<close>.\<close>

definition contains :: "string \<Rightarrow> string \<Rightarrow> bool" where
  "contains sub s = list_ex (\<lambda>i. take (length sub) (drop i s) = sub) [0..<Suc (length s)]"

definition qcow2_virtual_size :: "string \<Rightarrow> int aop" where
  "qcow2_virtual_size path = bindM (run_ok [''qemu-img'', ''info'', ''--output=json'', path]) (\<lambda>out.
     case loads out of
       None \<Rightarrow> raiseM (AValueError ''json'')
     | Some (JObj kvs) \<Rightarrow> (case map_of kvs ''virtual-size'' of None \<Rightarrow> returnM 0 | Some v \<Rightarrow> as_int v)
     | Some _ \<Rightarrow> raiseM (ATypeError ''expected dict''))"

definition dir_clone_volume :: "string \<Rightarrow> string \<Rightarrow> string \<Rightarrow> bool \<Rightarrow> volume_info aop" where
  \<open>dir_clone_volume pool_path src new_name linked =
     bindM (assert_within_pool pool_path src) (\<lambda>_.
     bindM (path_for pool_path new_name) (\<lambda>dest.
     bindM (run_ok [''qemu-img'', ''info'', ''--output=json'', src]) (\<lambda>info.
     let fmt = (if contains ''"format": "qcow2"'' info then ''qcow2'' else ''raw'') in
     bindM (if linked \<and> fmt = ''qcow2''
            then run_ok [''qemu-img'', ''create'', ''-f'', ''qcow2'', ''-b'', src, ''-F'', ''qcow2'', dest]
            else run_ok [''qemu-img'', ''convert'', ''-O'', fmt, src, dest]) (\<lambda>_.
     bindM (if \<not> linked then bindM (osM (GetSize dest)) as_int else qcow2_virtual_size dest) (\<lambda>sz.
     returnM \<lparr> volume_id = dest, vol_size_bytes = sz, vol_format = fmt \<rparr>)))))\<close>

definition lv_size_bytes :: "string \<Rightarrow> int aop" where
  "lv_size_bytes v = bindM (run_ok [''lvs'', ''--noheadings'', ''--units'', ''b'', ''--nosuffix'', ''-o'', ''lv_size'', v]) parse_int"

definition volsize_bytes :: "string \<Rightarrow> int aop" where
  "volsize_bytes dataset = bindM (run_ok [''zfs'', ''get'', ''-H'', ''-p'', ''-o'', ''value'', ''volsize'', dataset]) parse_int"

definition copy_block_device :: "string \<Rightarrow> string \<Rightarrow> string aop" where
  "copy_block_device src dest = run_ok [''dd'', ''if='' @ src, ''of='' @ dest, ''bs=4M'', ''conv=fsync'']"

definition pipe_send_receive :: "string \<Rightarrow> string \<Rightarrow> unit aop" where
  "pipe_send_receive src dest = (let snap = src @ ''@full-clone-tmp'' in
     bindM (run_ok [''zfs'', ''snapshot'', snap]) (\<lambda>_.
     finallyM
       (bindM (hostM (ZfsSendReceive snap dest)) (\<lambda>r. case r of
          Exited code out err \<Rightarrow> if code \<noteq> 0 then raiseM (StorageOperationError (''zfs receive failed: '' @ err)) else returnM ()
        | Raised m \<Rightarrow> raiseM (AOSError m) | TimedOut \<Rightarrow> raiseM (AOSError ''timed out'') | Res j \<Rightarrow> raiseM (AOSError ''subprocess'')))
       (bindM (run [''zfs'', ''destroy'', snap] False 300) (\<lambda>_. returnM ()))))"

definition lvm_clone_volume :: "string \<Rightarrow> string \<Rightarrow> string \<Rightarrow> bool \<Rightarrow> volume_info aop" where
  "lvm_clone_volume vg src new_name linked = (if linked then raiseM (NotImplementedError ''Linked clones are not supported on plain LVM; use an LVM-thin pool.'')
      else bindM (validate_name new_name) (\<lambda>n. bindM (lv_size_bytes src) (\<lambda>sz.
        let dest = vg @ ''/'' @ n in
        bindM (run_ok [''lvcreate'', ''-y'', ''-L'', show_int sz @ ''B'', ''-n'', n, vg]) (\<lambda>_.
        bindM (copy_block_device src dest) (\<lambda>_.
        returnM \<lparr> volume_id = dest, vol_size_bytes = sz, vol_format = ''raw'' \<rparr>)))))"

definition thin_clone_volume :: "string \<Rightarrow> string \<Rightarrow> string \<Rightarrow> string \<Rightarrow> bool \<Rightarrow> volume_info aop" where
  "thin_clone_volume vg tp src new_name linked = bindM (validate_name new_name) (\<lambda>n.
     let dest = vg @ ''/'' @ n in
     bindM (if linked then run_ok [''lvcreate'', ''-y'', ''-s'', ''-n'', n, src]
            else bindM (lv_size_bytes src) (\<lambda>sz.
                 bindM (run_ok [''lvcreate'', ''-y'', ''-T'', vg @ ''/'' @ tp, ''-V'', show_int sz @ ''B'', ''-n'', n]) (\<lambda>_.
                 copy_block_device src dest))) (\<lambda>_.
     bindM (lv_size_bytes dest) (\<lambda>sz.
     returnM \<lparr> volume_id = dest, vol_size_bytes = sz, vol_format = ''raw'' \<rparr>)))"

definition zfs_clone_volume :: "string \<Rightarrow> string \<Rightarrow> string \<Rightarrow> bool \<Rightarrow> volume_info aop" where
  "zfs_clone_volume p src new_name linked = bindM (validate_name new_name) (\<lambda>n.
     let dest = p @ ''/'' @ n; snap = src @ ''@clone-base-'' @ n in
     bindM (if linked then bindM (run_ok [''zfs'', ''snapshot'', snap]) (\<lambda>_. bindM (run_ok [''zfs'', ''clone'', snap, dest]) (\<lambda>_. returnM ()))
            else pipe_send_receive src dest) (\<lambda>_.
     bindM (volsize_bytes dest) (\<lambda>sz.
     returnM \<lparr> volume_id = dest, vol_size_bytes = sz, vol_format = ''raw'' \<rparr>)))"

fun clone_volume :: "backend \<Rightarrow> string \<Rightarrow> string \<Rightarrow> bool \<Rightarrow> volume_info aop" where
  "clone_volume (Directory p) src new_name linked = dir_clone_volume p src new_name linked"
| "clone_volume (NFS p) src new_name linked = dir_clone_volume p src new_name linked"
| "clone_volume (LVM vg) src new_name linked = lvm_clone_volume vg src new_name linked"
| "clone_volume (LVMThin vg tp) src new_name linked = thin_clone_volume vg tp src new_name linked"
| "clone_volume (ZFS p) src new_name linked = zfs_clone_volume p src new_name linked"

subsection \<open>Snapshots and capacity\<close>

fun backend_class :: "backend \<Rightarrow> string" where
  "backend_class (Directory p) = ''DirectoryBackend''"
| "backend_class (NFS p) = ''NFSBackend''"
| "backend_class (LVM vg) = ''LVMBackend''"
| "backend_class (LVMThin vg tp) = ''LVMThinBackend''"
| "backend_class (ZFS p) = ''ZFSBackend''"

definition no_snapshots :: "backend \<Rightarrow> 'a aop" where
  "no_snapshots b = raiseM (NotImplementedError (backend_class b @ '' does not support snapshots''))"

definition thin_create_snapshot :: "string \<Rightarrow> string \<Rightarrow> string \<Rightarrow> string aop" where
  "thin_create_snapshot vg v snapshot_name = bindM (validate_name snapshot_name) (\<lambda>n.
     bindM (run_ok [''lvcreate'', ''-y'', ''-s'', ''-n'', n, v]) (\<lambda>_. returnM (vg @ ''/'' @ n)))"

definition zfs_create_snapshot :: "string \<Rightarrow> string \<Rightarrow> string aop" where
  "zfs_create_snapshot v snapshot_name = bindM (validate_name snapshot_name) (\<lambda>n.
     bindM (run_ok [''zfs'', ''snapshot'', v @ ''@'' @ n]) (\<lambda>_. returnM (v @ ''@'' @ n)))"

definition thin_delete_snapshot :: "string \<Rightarrow> string \<Rightarrow> unit aop" where
  "thin_delete_snapshot vg snapshot_name = bindM (run_ok [''lvremove'', ''-f'', vg @ ''/'' @ snapshot_name]) (\<lambda>_. returnM ())"

definition zfs_delete_snapshot :: "string \<Rightarrow> string \<Rightarrow> unit aop" where
  "zfs_delete_snapshot v snapshot_name = bindM (run_ok [''zfs'', ''destroy'', v @ ''@'' @ snapshot_name]) (\<lambda>_. returnM ())"

definition thin_rollback_snapshot :: "string \<Rightarrow> string \<Rightarrow> unit aop" where
  "thin_rollback_snapshot vg snapshot_name = bindM (run_ok [''lvconvert'', ''--merge'', vg @ ''/'' @ snapshot_name]) (\<lambda>_. returnM ())"

definition zfs_rollback_snapshot :: "string \<Rightarrow> string \<Rightarrow> unit aop" where
  "zfs_rollback_snapshot v snapshot_name = bindM (run_ok [''zfs'', ''rollback'', ''-r'', v @ ''@'' @ snapshot_name]) (\<lambda>_. returnM ())"

definition create_snapshot :: "backend \<Rightarrow> string \<Rightarrow> string \<Rightarrow> string aop" where
  "create_snapshot b v snapshot_name = (case b of LVMThin vg tp \<Rightarrow> thin_create_snapshot vg v snapshot_name
     | ZFS p \<Rightarrow> zfs_create_snapshot v snapshot_name | _ \<Rightarrow> no_snapshots b)"

definition delete_snapshot :: "backend \<Rightarrow> string \<Rightarrow> string \<Rightarrow> unit aop" where
  "delete_snapshot b v snapshot_name = (case b of LVMThin vg tp \<Rightarrow> thin_delete_snapshot vg snapshot_name
     | ZFS p \<Rightarrow> zfs_delete_snapshot v snapshot_name | _ \<Rightarrow> no_snapshots b)"

definition rollback_snapshot :: "backend \<Rightarrow> string \<Rightarrow> string \<Rightarrow> unit aop" where
  "rollback_snapshot b v snapshot_name = (case b of LVMThin vg tp \<Rightarrow> thin_rollback_snapshot vg snapshot_name
     | ZFS p \<Rightarrow> zfs_rollback_snapshot v snapshot_name | _ \<Rightarrow> no_snapshots b)"

definition dir_pool_info :: "string \<Rightarrow> pool_info aop" where
  "dir_pool_info pool_path = bindM (osM (DiskUsage pool_path)) (\<lambda>u.
     bindM (pint ''total'' u) (\<lambda>t. bindM (pint ''used'' u) (\<lambda>us. bindM (pint ''free'' u) (\<lambda>f.
     returnM \<lparr> capacity_bytes = t, used_bytes = us, available_bytes = f \<rparr>))))"

text \<open>\<open>int(total * (float(pct) / 100))\<close> in exact arithmetic; the code computes it in floating point.\<close>

definition percent_of :: "int \<Rightarrow> int \<times> nat \<Rightarrow> int" where
  "percent_of t pct = (case pct of (ds, k) \<Rightarrow> t * ds div (100 * 10 ^ k))"

definition lvm_pool_info :: "string \<Rightarrow> pool_info aop" where
  "lvm_pool_info vg = bindM (run_ok [''vgs'', ''--noheadings'', ''--units'', ''b'', ''--nosuffix'', ''-o'', ''vg_size,vg_free'', vg]) (\<lambda>out.
     bindM (two_fields out) (\<lambda>(total_str, free_str).
     bindM (parse_int total_str) (\<lambda>t. bindM (parse_int free_str) (\<lambda>f.
     returnM \<lparr> capacity_bytes = t, used_bytes = t - f, available_bytes = f \<rparr>))))"

definition thin_pool_info :: "string \<Rightarrow> string \<Rightarrow> pool_info aop" where
  "thin_pool_info vg tp = bindM (run_ok [''lvs'', ''--noheadings'', ''--units'', ''b'', ''--nosuffix'', ''-o'', ''lv_size,data_percent'', vg @ ''/'' @ tp]) (\<lambda>out.
     bindM (two_fields out) (\<lambda>(size_str, used_pct_str).
     bindM (parse_int size_str) (\<lambda>t. bindM (parse_decimal used_pct_str) (\<lambda>pct.
     let us = percent_of t pct in
     returnM \<lparr> capacity_bytes = t, used_bytes = us, available_bytes = t - us \<rparr>))))"

definition zfs_pool_info :: "string \<Rightarrow> pool_info aop" where
  "zfs_pool_info p = bindM (run_ok [''zfs'', ''list'', ''-H'', ''-p'', ''-o'', ''avail,used'', p]) (\<lambda>out.
     bindM (two_fields out) (\<lambda>(avail_str, used_str).
     bindM (parse_int avail_str) (\<lambda>a. bindM (parse_int used_str) (\<lambda>us.
     returnM \<lparr> capacity_bytes = a + us, used_bytes = us, available_bytes = a \<rparr>))))"

fun pool_info_of :: "backend \<Rightarrow> pool_info aop" where
  "pool_info_of (Directory p) = dir_pool_info p"
| "pool_info_of (NFS p) = dir_pool_info p"
| "pool_info_of (LVM vg) = lvm_pool_info vg"
| "pool_info_of (LVMThin vg tp) = thin_pool_info vg tp"
| "pool_info_of (ZFS p) = zfs_pool_info p"

lemmas backend_defs = lvm_create_volume_def thin_create_volume_def zfs_create_volume_def lvm_delete_volume_def
  thin_delete_volume_def zfs_delete_volume_def lvm_resize_volume_def thin_resize_volume_def zfs_resize_volume_def
  lvm_clone_volume_def thin_clone_volume_def zfs_clone_volume_def lvm_pool_info_def thin_pool_info_def zfs_pool_info_def

declare backend_defs [simp]

subsection \<open>Nothing outside the pool\<close>

text \<open>Calls that change the host; the others only look.\<close>

definition effect :: "hcall \<Rightarrow> bool" where
  "effect c = (case c of RealPath p \<Rightarrow> False | PathExists p \<Rightarrow> False | GetSize p \<Rightarrow> False | DiskUsage p \<Rightarrow> False
     | Sha256File p \<Rightarrow> False | Which p \<Rightarrow> False | _ \<Rightarrow> True)"

lemma effect_simps [simp]: "effect (Exec args)" "effect (RemoveFile p)" "\<not> effect (RealPath p)" "\<not> effect (PathExists p)"
  by (simp_all add: effect_def)

definition delete_effect :: "backend \<Rightarrow> string \<Rightarrow> hcall" where
  "delete_effect b v = (case b of Directory p \<Rightarrow> RemoveFile v | NFS p \<Rightarrow> RemoveFile v
     | LVM vg \<Rightarrow> Exec [''lvremove'', ''-f'', v] | LVMThin vg tp \<Rightarrow> Exec [''lvremove'', ''-f'', v]
     | ZFS p \<Rightarrow> Exec [''zfs'', ''destroy'', ''-r'', v])"

definition resize_effect :: "backend \<Rightarrow> string \<Rightarrow> int \<Rightarrow> hcall" where
  "resize_effect b v n = (case b of Directory p \<Rightarrow> Exec [''qemu-img'', ''resize'', v, show_int n] | NFS p \<Rightarrow> Exec [''qemu-img'', ''resize'', v, show_int n]
     | LVM vg \<Rightarrow> Exec [''lvextend'', ''-L'', show_int n @ ''B'', v] | LVMThin vg tp \<Rightarrow> Exec [''lvextend'', ''-L'', show_int n @ ''B'', v]
     | ZFS p \<Rightarrow> Exec [''zfs'', ''set'', ''volsize='' @ show_int n, v])"

text \<open>
  A volume of the pool: a real path below the real path of the directory, a name of the volume group, or a dataset strictly
  below the pool's.
\<close>

definition real_below :: "host \<Rightarrow> string \<Rightarrow> string \<Rightarrow> bool" where
  "real_below h p v \<longleftrightarrow> (\<exists>rp rv. respond h (trace h) (RealPath p) = Res (JStr rp) \<and>
     respond h (trace h @ [RealPath p]) (RealPath v) = Res (JStr rv) \<and> below rp rv)"

definition in_pool :: "host \<Rightarrow> backend \<Rightarrow> string \<Rightarrow> bool" where
  "in_pool h b v = (case b of Directory p \<Rightarrow> real_below h p v | NFS p \<Rightarrow> real_below h p v
     | LVM vg \<Rightarrow> hd (split_on CHR ''/'' v) = vg | LVMThin vg tp \<Rightarrow> hd (split_on CHR ''/'' v) = vg
     | ZFS p \<Rightarrow> \<exists>s. v = p @ ''/'' @ s)"

lemma osM_run: "osM c h = (case respond h (trace h) c of Res j \<Rightarrow> Inr j | Raised m \<Rightarrow> Inl (AOSError m)
     | Exited n out err \<Rightarrow> Inl (AOSError err) | TimedOut \<Rightarrow> Inl (AOSError ''timed out''), h\<lparr>trace := trace h @ [c]\<rparr>)"
  by (simp add: osM_def split: hreply.splits)

lemma as_str_run: "as_str j h = ((case j of JStr s \<Rightarrow> Inr s | _ \<Rightarrow> Inl (ATypeError ''expected str'')), h)"
  by (simp add: as_str_def split: json.splits)

lemma run_trace: "\<exists>r. run args check t h = (r, h\<lparr>trace := trace h @ [Exec args]\<rparr>)"
  by (simp add: run_def split: hreply.splits)

lemma within_pool_run:
  "\<exists>cs r. assert_within_pool p v h = (r, h\<lparr>trace := trace h @ cs\<rparr>) \<and> filter effect cs = [] \<and> (r = Inr () \<longrightarrow> real_below h p v)"
  unfolding assert_within_pool_def real_path_def
  by (auto simp: bindM_apply osM_run as_str_run real_below_def split: hreply.splits json.splits)

lemma starts_with: "take (Suc (length p)) v = p @ ''/'' \<Longrightarrow> \<exists>s. v = p @ CHR ''/'' # s"
  using append_take_drop_id [of "Suc (length p)" v] by (intro exI [of _ "drop (Suc (length p)) v"]) simp

text \<open>What a guarded command leaves in the trace.\<close>

definition guarded :: "host \<Rightarrow> (aexn + unit) \<times> host \<Rightarrow> hcall \<Rightarrow> bool \<Rightarrow> bool" where
  "guarded h res c ok \<longleftrightarrow> (\<exists>cs. trace (snd res) = trace h @ cs \<and> (filter effect cs = [] \<or> filter effect cs = [c] \<and> ok))"

lemma guarded_run:
  assumes "\<And>r h'. m h = (r, h') \<Longrightarrow> h' = h \<and> (r = Inr () \<longrightarrow> ok)"
  shows "guarded h (bindM m (\<lambda>_. bindM (run args check t) (\<lambda>_. returnM ())) h) (Exec args) ok"
proof (cases "m h")
  case (Pair r h')
  moreover obtain r1 where "run args check t h = (r1, h\<lparr>trace := trace h @ [Exec args]\<rparr>)" using run_trace by blast
  ultimately show ?thesis using assms [OF Pair] by (cases r; cases r1) (auto simp: guarded_def bindM_apply)
qed

lemma guarded_pool_run: "guarded h (bindM (assert_within_pool p v) (\<lambda>_. bindM (run args check t) (\<lambda>_. returnM ())) h) (Exec args) (real_below h p v)"
proof -
  obtain cs r where a: "assert_within_pool p v h = (r, h\<lparr>trace := trace h @ cs\<rparr>)" "filter effect cs = []" "r = Inr () \<longrightarrow> real_below h p v"
    using within_pool_run by blast
  moreover obtain r1 where "run args check t (h\<lparr>trace := trace h @ cs\<rparr>) = (r1, h\<lparr>trace := (trace h @ cs) @ [Exec args]\<rparr>)"
    using run_trace [of args check t "h\<lparr>trace := trace h @ cs\<rparr>"] by auto
  ultimately show ?thesis by (cases r; cases r1) (auto simp: guarded_def bindM_apply)
qed

lemma guarded_dir_delete: "guarded h (dir_delete_volume p v h) (RemoveFile v) (real_below h p v)"
proof -
  obtain cs r where "assert_within_pool p v h = (r, h\<lparr>trace := trace h @ cs\<rparr>)" "filter effect cs = []" "r = Inr () \<longrightarrow> real_below h p v"
    using within_pool_run by blast
  then show ?thesis unfolding dir_delete_volume_def
    by (cases r) (auto simp: guarded_def bindM_apply osM_run split: hreply.splits)
qed

lemma vg_run: "assert_within_vg vg v h = (r, h') \<Longrightarrow> h' = h \<and> (r = Inr () \<longrightarrow> hd (split_on CHR ''/'' v) = vg)"
  by (auto simp: assert_within_vg_def split: if_splits)

lemma dataset_run: "assert_within_dataset p v h = (r, h') \<Longrightarrow> h' = h \<and> (r = Inr () \<longrightarrow> (\<exists>s. v = p @ CHR ''/'' # s))"
  by (auto simp: assert_within_dataset_def dest: starts_with split: if_splits)

text \<open>
  C25. Deleting and resizing a volume cannot leave the pool. Whatever the host answers, \<open>delete_volume\<close> and \<open>resize_volume\<close>
  change the host by at most one call, the one that removes or resizes exactly the volume that was named, and only after
  the guard found it in the pool: its real path lies below the real path of the pool's directory, its first component is the
  pool's volume group, or it is a dataset below the pool's dataset and not that dataset itself.
\<close>

theorem volume_commands_confined:
  "guarded h (delete_volume b v h) (delete_effect b v) (in_pool h b v) \<and>
   guarded h (resize_volume b v n h) (resize_effect b v n) (in_pool h b v)"
proof (cases b)
  case (LVM vg)
  then show ?thesis by (simp add: delete_effect_def resize_effect_def in_pool_def) (intro conjI; rule guarded_run; erule vg_run)
next
  case (LVMThin vg tp)
  then show ?thesis by (simp add: delete_effect_def resize_effect_def in_pool_def) (intro conjI; rule guarded_run; erule vg_run)
next
  case (ZFS p)
  then show ?thesis by (simp add: delete_effect_def resize_effect_def in_pool_def) (intro conjI; rule guarded_run; erule dataset_run)
qed (simp_all add: delete_effect_def resize_effect_def in_pool_def guarded_dir_delete dir_resize_volume_def guarded_pool_run)

text \<open>
  The volume-group guard is weaker than the one for datasets. Asked to delete the volume whose id is the bare name of the
  pool's volume group, the LVM backends run \<open>lvremove -f\<close> on the whole group, while the ZFS backend refuses the pool's
  own dataset without running anything. A group written as a device path makes the guard refuse every volume the
  backend creates itself.
\<close>

theorem lvm_guard_accepts_group:
  "(CHR ''/'' \<notin> set vg \<longrightarrow>
      trace (snd (delete_volume (LVM vg) vg h)) = trace h @ [Exec [''lvremove'', ''-f'', vg]] \<and>
      trace (snd (delete_volume (LVMThin vg tp) vg h)) = trace h @ [Exec [''lvremove'', ''-f'', vg]]) \<and>
   trace (snd (delete_volume (ZFS p) p h)) = trace h \<and>
   (\<exists>e. delete_volume (LVM (''/dev/'' @ vg)) (''/dev/'' @ vg @ ''/'' @ nm) h = (Inl e, h))"
proof -
  have "hd (split_on CHR ''/'' vg) = vg" if "CHR ''/'' \<notin> set vg"
    using that by (induction vg) (auto simp: Let_def split: list.splits)
  moreover obtain r where "run_ok [''lvremove'', ''-f'', vg] h = (r, h\<lparr>trace := trace h @ [Exec [''lvremove'', ''-f'', vg]]\<rparr>)"
    using run_trace by blast
  ultimately show ?thesis
    by (cases r) (auto simp: assert_within_vg_def assert_within_dataset_def bindM_apply)
qed

theorem lvm_guard_accepts_group_witness:
  "\<exists>h. trace (snd (delete_volume (LVM ''vg0'') ''vg0'' h)) = trace h @ [Exec [''lvremove'', ''-f'', ''vg0'']]"
  using lvm_guard_accepts_group [of "''vg0''"] by simp

subsection \<open>A created volume can be managed\<close>

definition volume_of :: "backend \<Rightarrow> string \<Rightarrow> string" where
  "volume_of b nm = (case b of Directory p \<Rightarrow> path_join p nm | NFS p \<Rightarrow> path_join p nm | LVM vg \<Rightarrow> vg @ ''/'' @ nm
     | LVMThin vg tp \<Rightarrow> vg @ ''/'' @ nm | ZFS p \<Rightarrow> p @ ''/'' @ nm)"

definition block_backed :: "backend \<Rightarrow> bool" where
  "block_backed b = (case b of Directory p \<Rightarrow> False | NFS p \<Rightarrow> False | _ \<Rightarrow> True)"

text \<open>
  What the managing operations rely on: a volume group's name has no slash, and for directories that the file system answers as
  documented: the new file exists and its real path is the real path of the directory followed by its name.
\<close>

definition answers_path :: "host \<Rightarrow> string \<Rightarrow> string \<Rightarrow> bool" where
  "answers_path h p nm \<longleftrightarrow> (\<exists>rp. respond h (trace h) (RealPath p) = Res (JStr rp) \<and>
     respond h (trace h @ [RealPath p]) (RealPath (path_join p nm)) = Res (JStr (rp @ ''/'' @ nm)) \<and>
     respond h (trace h @ [RealPath p, RealPath (path_join p nm)]) (PathExists (path_join p nm)) = Res (JBool True))"

definition manageable :: "host \<Rightarrow> backend \<Rightarrow> string \<Rightarrow> bool" where
  "manageable h b nm = (case b of Directory p \<Rightarrow> answers_path h p nm | NFS p \<Rightarrow> answers_path h p nm
     | LVM vg \<Rightarrow> CHR ''/'' \<notin> set vg | LVMThin vg tp \<Rightarrow> CHR ''/'' \<notin> set vg | ZFS p \<Rightarrow> True)"

lemma split_on_append: "split_on c (a @ c # b) = split_on c a @ split_on c b"
  by (induction a) (auto simp: Let_def split: list.splits)

lemma path_parts_append: "path_parts (a @ CHR ''/'' # b) = path_parts a @ path_parts b"
  by (simp add: path_parts_def split_on_append)

lemma below_append: "below p (p @ CHR ''/'' # n)"
  by (simp add: below_def path_parts_append)

lemma hd_split_on: "CHR ''/'' \<notin> set a \<Longrightarrow> hd (split_on CHR ''/'' (a @ CHR ''/'' # b)) = a"
proof -
  have "CHR ''/'' \<notin> set a \<Longrightarrow> split_on CHR ''/'' a = [a]" by (induction a) auto
  then show "CHR ''/'' \<notin> set a \<Longrightarrow> hd (split_on CHR ''/'' (a @ CHR ''/'' # b)) = a" by (simp add: split_on_append)
qed

lemma token_no_slash: "re_token n nm \<Longrightarrow> CHR ''/'' \<notin> set nm"
proof -
  have ok: "token_char c \<Longrightarrow> c \<noteq> CHR ''/''" "alnum c \<Longrightarrow> c \<noteq> CHR ''/''" for c
    by (auto simp: token_char_def alnum_def is_alpha_def is_digit_def)
  then have t: "token n s \<Longrightarrow> CHR ''/'' \<notin> set s" for s by (cases s) (auto simp: token_def list_all_iff)
  assume "re_token n nm"
  then show ?thesis
  proof (unfold re_token_def, elim disjE conjE)
    assume "nm \<noteq> []" "last nm = CHR 0x0A" "token n (butlast nm)"
    then have "set nm = insert (CHR 0x0A) (set (butlast nm))" by (metis append_butlast_last_id set_append list.set Un_insert_right sup_bot_right)
    with t [OF \<open>token n (butlast nm)\<close>] show ?thesis by simp
  qed (rule t)
qed

lemma token_not_dots: "re_token n nm \<Longrightarrow> nm \<notin> {[], ''.'', ''..''}"
  by (auto simp: re_token_def token_def alnum_def is_alpha_def is_digit_def)

lemma validate_name_Inr: "validate_name nm h = (Inr x, h') \<longleftrightarrow> re_token 127 nm \<and> x = nm \<and> h' = h"
  by (auto simp: validate_name_def)

lemma create_volume_ok:
  assumes "create_volume b nm sz f h = (Inr info, h')"
  shows "re_token 127 nm \<and> info = \<lparr> volume_id = volume_of b nm, vol_size_bytes = sz, vol_format = (if block_backed b then ''raw'' else f) \<rparr>"
  using assms
  by (cases b) (auto simp: dir_create_volume_def path_for_def volume_of_def block_backed_def validate_name_Inr elim!: bindM_InrE)

lemma run_after: "trace (snd (bindM (run args check t) (\<lambda>_. returnM ()) h)) = trace h @ [Exec args]"
proof -
  obtain r where "run args check t h = (r, h\<lparr>trace := trace h @ [Exec args]\<rparr>)" using run_trace by blast
  then show ?thesis by (cases r) (simp_all add: bindM_apply)
qed

lemma within_pool_ok:
  assumes "answers_path h p nm"
  shows "assert_within_pool p (path_join p nm) h = (Inr (), h\<lparr>trace := trace h @ [RealPath p, RealPath (path_join p nm)]\<rparr>)"
  using assms unfolding assert_within_pool_def real_path_def answers_path_def
  by (auto simp: bindM_apply osM_run as_str_run below_append)

lemma managed_commands:
  assumes "manageable h b nm"
  shows "delete_effect b (volume_of b nm) \<in> set (trace (snd (delete_volume b (volume_of b nm) h)))"
    and "resize_effect b (volume_of b nm) n \<in> set (trace (snd (resize_volume b (volume_of b nm) n h)))"
proof -
  have dir: "RemoveFile (path_join p nm) \<in> set (trace (snd (dir_delete_volume p (path_join p nm) h)))"
    "Exec [''qemu-img'', ''resize'', path_join p nm, show_int n] \<in> set (trace (snd (dir_resize_volume p (path_join p nm) n h)))"
    if "answers_path h p nm" for p
    using that run_after by (auto simp: dir_delete_volume_def dir_resize_volume_def bindM_apply within_pool_ok osM_run answers_path_def truthy_def split: hreply.splits)
  show "delete_effect b (volume_of b nm) \<in> set (trace (snd (delete_volume b (volume_of b nm) h)))"
    "resize_effect b (volume_of b nm) n \<in> set (trace (snd (resize_volume b (volume_of b nm) n h)))"
    using assms dir run_after
    by (cases b; auto simp: manageable_def delete_effect_def resize_effect_def volume_of_def assert_within_vg_def assert_within_dataset_def hd_split_on)+
qed

text \<open>
  C27. A volume the agent created stays manageable. When \<open>create_volume\<close> returns, on any backend, the volume's name was a
  safe token, so that its id is the pool followed by that one component, which has no slash and is not a dot entry; and
  deleting or resizing the volume by the id that was returned passes the guard and runs the removal or the resize on exactly that
  volume, provided the host reports the paths of a directory pool as documented and a volume group is given by name.
\<close>

theorem created_volume_manageable:
  assumes "create_volume b nm sz format h = (Inr info, h')" and "manageable h' b nm"
  shows "volume_id info = volume_of b nm \<and> vol_size_bytes info = sz \<and> CHR ''/'' \<notin> set nm \<and> nm \<notin> {[], ''.'', ''..''} \<and>
    delete_effect b (volume_id info) \<in> set (trace (snd (delete_volume b (volume_id info) h'))) \<and>
    resize_effect b (volume_id info) n \<in> set (trace (snd (resize_volume b (volume_id info) n h')))"
proof -
  have "re_token 127 nm" "volume_id info = volume_of b nm" "vol_size_bytes info = sz" using create_volume_ok [OF assms(1)] by auto
  then show ?thesis using managed_commands [OF assms(2)] token_no_slash token_not_dots by presburger
qed

definition ex_host :: host where
  "ex_host = \<lparr> trace = [], respond = (\<lambda>_ c. case c of Exec args \<Rightarrow> Exited 0 '''' '''' | _ \<Rightarrow> Res JNull), libvirt_available = True, lv_conn = False \<rparr>"

theorem created_volume_manageable_witness:
  "Exec [''zfs'', ''destroy'', ''-r'', ''tank/vol1''] \<in>
     set (trace (snd (delete_volume (ZFS ''tank'') ''tank/vol1'' (snd (create_volume (ZFS ''tank'') ''vol1'' 10 ''raw'' ex_host)))))"
proof -
  have "create_volume (ZFS ''tank'') ''vol1'' 10 ''raw'' ex_host =
      (Inr \<lparr> volume_id = ''tank/vol1'', vol_size_bytes = 10, vol_format = ''raw'' \<rparr>, snd (create_volume (ZFS ''tank'') ''vol1'' 10 ''raw'' ex_host))"
    by (simp add: ex_host_def run_def validate_name_def re_token_def token_def alnum_def token_char_def is_alpha_def is_digit_def bindM_apply)
  from created_volume_manageable [OF this, where n = 20] show ?thesis
    by (simp add: manageable_def delete_effect_def volume_of_def del: create_volume.simps delete_volume.simps)
qed

text \<open>Reported figures of a block pool add up.\<close>

lemma pool_info_balanced:
  assumes "pool_info_of b h = (Inr i, h')" and "block_backed b"
  shows "capacity_bytes i = used_bytes i + available_bytes i"
  using assms by (cases b) (auto simp: block_backed_def Let_def split: prod.splits elim!: bindM_InrE)

end
