(* ===== verification/AgentOps.thy ===== *)
theory AgentOps
  imports AgentLibvirt AgentStorage
begin

section \<open>AgentOps: configuration and the handlers for disks, pools, networks, backups and cloud-init\<close>

text \<open>
  \<open>agent/nodepilot_agent/config.py\<close>, \<open>image_fetch.py\<close>, \<open>cloud_init.py\<close> and the handlers of
  \<open>operations/disk_ops.py\<close>, \<open>storage_ops.py\<close>, \<open>network_ops.py\<close>, \<open>backup_ops.py\<close> and
  \<open>cloud_init_ops.py\<close>. PyYAML's \<open>safe_dump\<close> is the parameter \<open>dump\<close> (its first argument is \<open>sort_keys\<close>).
\<close>

subsection \<open>Configuration\<close>

record agent_config =
  controller_url :: string
  node_id :: string
  agent_token :: string
  agent_version :: string
  protocol_version :: string
  heartbeat_interval_seconds :: int
  reconnect_backoff_seconds :: nat
  reconnect_backoff_max_seconds :: nat
  tls_verify :: bool
  ca_bundle_path :: "string option"
  storage_pool_root :: string
  cloud_init_workdir :: string
  log_level :: string

text \<open>\<open>str.replace\<close> of every occurrence, left to right.\<close>

function replace_all :: "string \<Rightarrow> string \<Rightarrow> string \<Rightarrow> string" where
  "replace_all old new s = (if s = [] \<or> old = [] then s
     else if take (length old) s = old then new @ replace_all old new (drop (length old) s)
     else hd s # replace_all old new (tl s))"
  by pat_completeness auto

termination
  by (relation "measure (\<lambda>(old, new, s). length s)") auto

declare replace_all.simps [simp del]

definition controller_ws_url :: "agent_config \<Rightarrow> string" where
  "controller_ws_url c = replace_all ''http://'' ''ws://'' (replace_all ''https://'' ''wss://'' (rstrip_slash (controller_url c))) @
     ''/ws/agent/'' @ node_id c @ ''/?token='' @ agent_token c"

definition controller_heartbeat_url :: "agent_config \<Rightarrow> string" where
  "controller_heartbeat_url c = rstrip_slash (controller_url c) @ ''/api/v1/agent/heartbeat/''"

text \<open>
  \<open>get\<close> of \<open>load_config\<close>: the environment first (cast from its text), then the file, then the default.
\<close>

datatype cast = AsStr | AsInt | AsBool

definition cfg_get :: "(string \<Rightarrow> string option) \<Rightarrow> (string \<times> json) list \<Rightarrow> string \<Rightarrow> json \<Rightarrow> cast \<Rightarrow> json aop" where
  "cfg_get env file_values key def cast = (case env (''NODEPILOT_AGENT_'' @ upper key) of
     Some raw \<Rightarrow> (case cast of
         AsBool \<Rightarrow> returnM (JBool (lower (strip_ws raw) \<in> {''1'', ''true'', ''yes'', ''on''}))
       | AsInt \<Rightarrow> bindM (parse_int raw) (\<lambda>i. returnM (JInt i))
       | AsStr \<Rightarrow> returnM (JStr raw))
   | None \<Rightarrow> returnM (case map_of file_values key of Some v \<Rightarrow> v | None \<Rightarrow> def))"

definition missing_config :: string where
  "missing_config = ''Missing required agent configuration. Set NODEPILOT_AGENT_CONTROLLER_URL, NODEPILOT_AGENT_NODE_ID and NODEPILOT_AGENT_AGENT_TOKEN (or provide /etc/nodepilot/agent.yaml with controller_url/node_id/agent_token). Run `nodepilot agent register` on the controller to obtain a token.''"

definition as_bool :: "json \<Rightarrow> bool aop" where
  "as_bool j = returnM (truthy j)"

definition as_opt_str :: "json \<Rightarrow> string option aop" where
  "as_opt_str j = (case j of JNull \<Rightarrow> returnM None | _ \<Rightarrow> bindM (as_str j) (\<lambda>s. returnM (Some s)))"

definition load_config :: "(string \<Rightarrow> string option) \<Rightarrow> (string \<times> json) list \<Rightarrow> agent_config aop" where
  "load_config env file_values =
     bindM (cfg_get env file_values ''controller_url'' JNull AsStr) (\<lambda>url.
     bindM (cfg_get env file_values ''node_id'' JNull AsStr) (\<lambda>nid.
     bindM (cfg_get env file_values ''agent_token'' JNull AsStr) (\<lambda>tok1.
     bindM (if truthy tok1 then returnM tok1 else cfg_get env file_values ''token'' JNull AsStr) (\<lambda>tok.
     if \<not> truthy url \<or> \<not> truthy nid \<or> \<not> truthy tok then raiseM (SystemExit missing_config)
     else bindM (as_str url) (\<lambda>url. bindM (as_str nid) (\<lambda>nid. bindM (as_str tok) (\<lambda>tok.
     bindM (bindM (cfg_get env file_values ''agent_version'' (JStr ''1.0.0'') AsStr) as_str) (\<lambda>ver.
     bindM (bindM (cfg_get env file_values ''heartbeat_interval_seconds'' (JInt 10) AsInt) as_int) (\<lambda>hb.
     bindM (bindM (cfg_get env file_values ''tls_verify'' (JBool True) AsBool) as_bool) (\<lambda>tls.
     bindM (bindM (cfg_get env file_values ''ca_bundle_path'' JNull AsStr) as_opt_str) (\<lambda>ca.
     bindM (bindM (cfg_get env file_values ''storage_pool_root'' (JStr ''/var/lib/nodepilot/pools'') AsStr) as_str) (\<lambda>root.
     bindM (bindM (cfg_get env file_values ''cloud_init_workdir'' (JStr ''/var/lib/nodepilot/cloud-init'') AsStr) as_str) (\<lambda>ci.
     bindM (bindM (cfg_get env file_values ''log_level'' (JStr ''INFO'') AsStr) as_str) (\<lambda>lvl.
     returnM \<lparr> controller_url = url, node_id = nid, agent_token = tok, agent_version = ver, protocol_version = ''1.0'',
       heartbeat_interval_seconds = hb, reconnect_backoff_seconds = 2, reconnect_backoff_max_seconds = 60, tls_verify = tls,
       ca_bundle_path = ca, storage_pool_root = root, cloud_init_workdir = ci, log_level = lvl \<rparr>))))))))))))))"

subsection \<open>Temporary directories and image download\<close>

text \<open>\<open>shutil.rmtree(path, ignore_errors=True)\<close>.\<close>

definition rmtree_quiet :: "string \<Rightarrow> unit aop" where
  "rmtree_quiet p = bindM (hostM (RmTree p)) (\<lambda>_. returnM ())"

definition mkdtemp :: "string \<Rightarrow> string aop" where
  "mkdtemp pre = bindM (osM (MkDTemp pre)) as_str"

text \<open>\<open>with tempfile.TemporaryDirectory(prefix=pre) as tmpdir\<close>.\<close>

definition with_tmpdir :: "string \<Rightarrow> (string \<Rightarrow> 'a aop) \<Rightarrow> 'a aop" where
  "with_tmpdir pre body = bindM (mkdtemp pre) (\<lambda>d. finallyM (body d) (bindM (osM (RmTree d)) (\<lambda>_. returnM ())))"

text \<open>
  The streamed GET into \<open>path\<close>: the status and the SHA-256 of the bytes written; \<open>Raised\<close> is an \<open>httpx.HTTPError\<close>, the other
  answers are exceptions of another kind.
\<close>

definition fetch_into :: "agent_config \<Rightarrow> string \<Rightarrow> string \<Rightarrow> string aop" where
  "fetch_into cfg image_uuid path =
     bindM (hostM (FetchImage (rstrip_slash (controller_url cfg) @ ''/api/v1/agent/images/'' @ image_uuid @ ''/download/'')
                    (''Agent '' @ agent_token cfg) path)) (\<lambda>r. case r of
       Res j \<Rightarrow> bindM (pint ''status'' j) (\<lambda>st.
         if st \<noteq> 200 then raiseM (StorageOperationError (''Failed to download image '' @ image_uuid @ '': HTTP '' @ show_int st))
         else pstr ''sha256'' j)
     | Raised m \<Rightarrow> raiseM (StorageOperationError (''Failed to download image '' @ image_uuid @ '': '' @ m))
     | Exited n out err \<Rightarrow> raiseM (AOSError err) | TimedOut \<Rightarrow> raiseM (AOSError ''timed out''))"

definition download_image :: "agent_config \<Rightarrow> string \<Rightarrow> string \<Rightarrow> string aop" where
  "download_image cfg image_uuid expected_sha256 =
     bindM (mkdtemp ''nodepilot-image-'') (\<lambda>tmp_dir. let path = path_join tmp_dir ''image'' in
     bindM (tryM (fetch_into cfg image_uuid path) (\<lambda>e. bindM (rmtree_quiet tmp_dir) (\<lambda>_. raiseM e))) (\<lambda>actual.
     if expected_sha256 \<noteq> '''' \<and> lower expected_sha256 \<noteq> actual
     then bindM (rmtree_quiet tmp_dir) (\<lambda>_. raiseM (StorageOperationError
            (''Image '' @ image_uuid @ '' checksum mismatch: expected '' @ expected_sha256 @ '', got '' @ actual)))
     else returnM path))"

subsection \<open>Disks and pools\<close>

definition path_dirname :: "string \<Rightarrow> string" where
  "path_dirname p = (let h = rev (dropWhile (\<lambda>c. c \<noteq> CHR ''/'') (rev p)) in if list_all (\<lambda>c. c = CHR ''/'') h then h else rstrip_slash h)"

definition seed_from_image :: "agent_config \<Rightarrow> string \<Rightarrow> string \<Rightarrow> string \<Rightarrow> string \<Rightarrow> string \<Rightarrow> unit aop" where
  "seed_from_image cfg vol target_format image_uuid image_format expected_sha256 =
     bindM (download_image cfg image_uuid expected_sha256) (\<lambda>downloaded_path.
     finallyM
       (bindM (run ([''qemu-img'', ''convert'', ''-n''] @ (if image_format \<noteq> '''' then [''-f'', image_format] else []) @
                    [''-O'', target_format, downloaded_path, vol]) True 3600) (\<lambda>_. returnM ()))
       (rmtree_quiet (path_dirname downloaded_path)))"

definition payload_backend :: "json \<Rightarrow> backend aop" where
  "payload_backend payload = bindM (pstr ''storage_type'' payload) (\<lambda>t. bindM (pstr ''storage_path'' payload) (\<lambda>p. get_backend t p))"

definition create_disk_op :: "json \<Rightarrow> agent_config option \<Rightarrow> json aop" where
  "create_disk_op payload config =
     bindM (payload_backend payload) (\<lambda>b.
     bindM (pstr ''disk_uuid'' payload) (\<lambda>volume_name.
     bindM (pint ''size_bytes'' payload) (\<lambda>sz.
     bindM (pstr_or ''format'' payload ''qcow2'') (\<lambda>fmt.
     bindM (create_volume b volume_name sz fmt) (\<lambda>info.
     bindM (if pflag ''image_uuid'' payload then
              (case config of
                None \<Rightarrow> raiseM (StorageOperationError ''Cannot seed a disk from an image: no agent config (controller URL/token) available.'')
              | Some cfg \<Rightarrow>
                  bindM (pstr ''image_uuid'' payload) (\<lambda>iu. bindM (pstr_or ''image_format'' payload '''') (\<lambda>ifm.
                  bindM (pstr_or ''image_sha256'' payload '''') (\<lambda>sha.
                  seed_from_image cfg (volume_id info) (vol_format info) iu ifm sha))))
            else returnM ()) (\<lambda>_.
     returnM (JObj [(''volume_id'', JStr (volume_id info)), (''device'', JStr ''''), (''size_bytes'', JInt (vol_size_bytes info)),
       (''format'', JStr (vol_format info))])))))))"

definition delete_disk_op :: "json \<Rightarrow> json aop" where
  "delete_disk_op payload = bindM (payload_backend payload) (\<lambda>b. bindM (pstr ''volume_id'' payload) (\<lambda>v. done_with (delete_volume b v)))"

definition resize_disk_op :: "json \<Rightarrow> json aop" where
  "resize_disk_op payload = bindM (payload_backend payload) (\<lambda>b. bindM (pstr ''volume_id'' payload) (\<lambda>v.
     bindM (pint ''new_size_bytes'' payload) (\<lambda>n. done_with (resize_volume b v n))))"

definition clone_disk_op :: "json \<Rightarrow> json aop" where
  "clone_disk_op payload = bindM (payload_backend payload) (\<lambda>b.
     bindM (pstr ''source_volume_id'' payload) (\<lambda>src. bindM (pstr ''new_name'' payload) (\<lambda>nm.
     bindM (clone_volume b src nm (pflag ''linked'' payload)) (\<lambda>info.
     returnM (JObj [(''volume_id'', JStr (volume_id info)), (''size_bytes'', JInt (vol_size_bytes info))])))))"

definition payload_disk_xml :: "json \<Rightarrow> string aop" where
  "payload_disk_xml payload = bindM (pstr ''volume_id'' payload) (\<lambda>v. bindM (pstr ''device'' payload) (\<lambda>d.
     bindM (pstr_or ''bus'' payload ''VIRTIO'') (\<lambda>bus. bindM (opt_str ''storage_type'' payload) (\<lambda>t.
     bindM (opt_str ''format'' payload) (\<lambda>f. returnM (build_disk_xml v d bus t f))))))"

definition attach_disk_op :: "json \<Rightarrow> json aop" where
  "attach_disk_op payload = bindM (payload_disk_xml payload) (\<lambda>xml. bindM (pstr ''domain_uuid'' payload) (\<lambda>u.
     done_with (attach_device u xml True True)))"

definition detach_disk_op :: "json \<Rightarrow> json aop" where
  "detach_disk_op payload = bindM (payload_disk_xml payload) (\<lambda>xml. bindM (pstr ''domain_uuid'' payload) (\<lambda>u.
     done_with (detach_device u xml True True)))"

definition get_storage_pool_info_op :: "json \<Rightarrow> json aop" where
  "get_storage_pool_info_op payload = bindM (payload_backend payload) (\<lambda>b. bindM (pool_info_of b) (\<lambda>i.
     returnM (JObj [(''capacity_bytes'', JInt (capacity_bytes i)), (''used_bytes'', JInt (used_bytes i)), (''available_bytes'', JInt (available_bytes i))])))"

definition create_storage_pool_op :: "json \<Rightarrow> json aop" where
  "create_storage_pool_op payload = bindM (pstr ''storage_type'' payload) (\<lambda>t.
     if t = ''DIRECTORY'' then bindM (pstr ''storage_path'' payload) (\<lambda>p. bindM (osM (MakeDirs p)) (\<lambda>_. returnM (JObj [])))
     else raiseM (NotImplementedError (''Creating a '' @ t @ '' pool must be done on the host; register the existing pool instead.'')))"

definition delete_storage_pool_op :: "json \<Rightarrow> json aop" where
  "delete_storage_pool_op payload = raiseM (NotImplementedError ''Deleting a storage pool is an intentionally manual, host-level operation.'')"

subsection \<open>Networks\<close>

definition create_network_op :: "json \<Rightarrow> json aop" where
  "create_network_op payload = bindM (pstr ''bridge'' payload) (\<lambda>bridge.
     if pflag ''vlan_id'' payload
     then bindM (pint ''vlan_id'' payload) (\<lambda>v. bindM (ensure_vlan_network bridge v) (\<lambda>b. returnM (JObj [(''bridge'', JStr b)])))
     else bindM (create_bridge bridge) (\<lambda>_. returnM (JObj [(''bridge'', JStr bridge)])))"

definition delete_network_op :: "json \<Rightarrow> json aop" where
  "delete_network_op payload = (if pflag ''vlan_id'' payload
     then bindM (pstr ''bridge'' payload) (\<lambda>b. bindM (pint ''vlan_id'' payload) (\<lambda>v. done_with (teardown_vlan_network b v)))
     else bindM (pstr ''bridge'' payload) (\<lambda>b. done_with (delete_bridge b)))"

definition nic_target_bridge :: "json \<Rightarrow> string aop" where
  "nic_target_bridge payload = bindM (pstr ''bridge'' payload) (\<lambda>bridge.
     if pflag ''vlan'' payload then bindM (pint ''vlan'' payload) (vlan_bridge_name bridge) else returnM bridge)"

definition payload_nic_xml :: "json \<Rightarrow> string aop" where
  "payload_nic_xml payload = bindM (nic_target_bridge payload) (\<lambda>bridge. bindM (pstr ''mac_address'' payload) (\<lambda>mac.
     bindM (pstr_or ''model'' payload ''VIRTIO'') (\<lambda>model. bindM (rate_limit payload) (\<lambda>limit.
     returnM (build_nic_xml bridge mac model limit)))))"

definition attach_nic_op :: "json \<Rightarrow> json aop" where
  "attach_nic_op payload = bindM (payload_nic_xml payload) (\<lambda>xml. bindM (pstr ''domain_uuid'' payload) (\<lambda>u.
     done_with (attach_device u xml True True)))"

definition detach_nic_op :: "json \<Rightarrow> json aop" where
  "detach_nic_op payload = bindM (payload_nic_xml payload) (\<lambda>xml. bindM (pstr ''domain_uuid'' payload) (\<lambda>u.
     done_with (detach_device u xml True True)))"

subsection \<open>Backups\<close>

definition FILE_BASED_TARGETS :: "string list" where
  "FILE_BASED_TARGETS = [''LOCAL'', ''NFS'']"

definition S3_COMPATIBLE_TARGETS :: "string list" where
  "S3_COMPATIBLE_TARGETS = [''S3'', ''MINIO'', ''CEPH'']"

definition sha256_file :: "string \<Rightarrow> string aop" where
  "sha256_file p = bindM (osM (Sha256File p)) as_str"

definition get_size :: "string \<Rightarrow> int aop" where
  "get_size p = bindM (osM (GetSize p)) as_int"

text \<open>\<open>_s3_client\<close>: the client is built from the target's configuration, which the transfer calls below carry.\<close>

definition s3_client :: "unit aop" where
  "s3_client = bindM (hostM ImportBoto3) (\<lambda>r. case r of Raised m \<Rightarrow> raiseM (StorageOperationError
     (''boto3 is not installed on this agent; install the '' @ quoted ''s3'' @ '' extra to use S3/MinIO/Ceph backup targets.'')) | _ \<Rightarrow> returnM ())"

definition backup_result :: "string \<Rightarrow> int \<Rightarrow> string \<Rightarrow> json" where
  "backup_result ref sz checksum = JObj [(''backup_ref'', JStr ref), (''size_bytes'', JInt sz), (''checksum'', JStr checksum)]"

definition unsupported_target :: "string \<Rightarrow> 'a aop" where
  "unsupported_target t = raiseM (NotImplementedError (''Backup target type '' @ quoted t @ '' is not supported by this agent version.''))"

definition create_backup_op :: "json \<Rightarrow> string \<Rightarrow> json aop" where
  "create_backup_op payload resource_id = bindM (pstr ''target_type'' payload) (\<lambda>target_type.
     if \<not> pflag ''volume_id'' payload
     then raiseM (StorageOperationError ''create_backup requires the VM's primary disk volume_id in the payload.'')
     else bindM (pstr ''volume_id'' payload) (\<lambda>vol.
     if target_type \<in> set FILE_BASED_TARGETS then
       bindM (pget ''target'' payload) (\<lambda>tgt. bindM (pstr ''path'' tgt) (\<lambda>target_dir.
       bindM (osM (MakeDirs target_dir)) (\<lambda>_.
       bindM (pstr ''backup_uuid'' payload) (\<lambda>bu. let dest = path_join target_dir (bu @ ''.qcow2'') in
       bindM (run_ok [''qemu-img'', ''convert'', ''-O'', ''qcow2'', vol, dest]) (\<lambda>_.
       bindM (sha256_file dest) (\<lambda>checksum. bindM (get_size dest) (\<lambda>sz. returnM (backup_result dest sz checksum))))))))
     else if target_type \<in> set S3_COMPATIBLE_TARGETS then
       bindM (pget ''target'' payload) (\<lambda>config. bindM s3_client (\<lambda>_.
       bindM (pstr_or ''prefix'' config ''nodepilot-backups'') (\<lambda>pre.
       bindM (pstr ''backup_uuid'' payload) (\<lambda>bu. let key = rstrip_slash pre @ ''/'' @ bu @ ''.qcow2'' in
       with_tmpdir ''nodepilot-backup-'' (\<lambda>tmpdir. let local_path = path_join tmpdir ''backup.qcow2'' in
         bindM (run_ok [''qemu-img'', ''convert'', ''-O'', ''qcow2'', vol, local_path]) (\<lambda>_.
         bindM (sha256_file local_path) (\<lambda>checksum. bindM (get_size local_path) (\<lambda>sz.
         bindM (pstr ''bucket'' config) (\<lambda>bucket.
         bindM (osM (S3Upload config local_path bucket key)) (\<lambda>_. returnM (backup_result key sz checksum)))))))))))
     else unsupported_target target_type))"

definition restore_backup_op :: "json \<Rightarrow> string \<Rightarrow> json aop" where
  "restore_backup_op payload resource_id = bindM (pstr ''target_type'' payload) (\<lambda>target_type.
     bindM (pstr ''backup_ref'' payload) (\<lambda>backup_ref.
     if \<not> pflag ''volume_id'' payload \<and> \<not> pflag ''destination_volume_id'' payload
     then raiseM (StorageOperationError ''restore_backup requires the destination volume_id in the payload.'')
     else bindM (if pflag ''volume_id'' payload then pstr ''volume_id'' payload else pstr ''destination_volume_id'' payload) (\<lambda>dest.
     bindM (pstr_or ''format'' payload ''qcow2'') (\<lambda>fmt.
     if target_type \<in> set FILE_BASED_TARGETS then
       bindM (osM (PathExists backup_ref)) (\<lambda>ex.
       if \<not> truthy ex then raiseM (StorageOperationError (''Backup artifact not found: '' @ backup_ref))
       else bindM (run_ok [''qemu-img'', ''convert'', ''-O'', fmt, backup_ref, dest]) (\<lambda>_. returnM (JObj [])))
     else if target_type \<in> set S3_COMPATIBLE_TARGETS then
       bindM (pget ''target'' payload) (\<lambda>config. bindM s3_client (\<lambda>_.
       with_tmpdir ''nodepilot-restore-'' (\<lambda>tmpdir. let local_path = path_join tmpdir ''backup.qcow2'' in
         bindM (pstr ''bucket'' config) (\<lambda>bucket.
         bindM (osM (S3Download config backup_ref local_path)) (\<lambda>_.
         bindM (run_ok [''qemu-img'', ''convert'', ''-O'', fmt, local_path, dest]) (\<lambda>_. returnM (JObj [])))))))
     else unsupported_target target_type))))"

subsection \<open>Cloud-init\<close>

definition hostname_of :: "json \<Rightarrow> json" where
  "hostname_of config = (case jget ''hostname'' config of Some v \<Rightarrow> v | None \<Rightarrow> JStr ''nodepilot-vm'')"

definition given :: "string \<Rightarrow> json \<Rightarrow> (string \<times> json) list" where
  "given k config = (case jget k config of Some v \<Rightarrow> if truthy v then [(k, v)] else [] | None \<Rightarrow> [])"

definition user_entry :: "json \<Rightarrow> json \<Rightarrow> json" where
  "user_entry config username = JObj ([(''name'', username), (''sudo'', JStr ''ALL=(ALL) NOPASSWD:ALL''), (''shell'', JStr ''/bin/bash'')] @
     map (\<lambda>kv. (''ssh_authorized_keys'', snd kv)) (given ''ssh_keys'' config) @
     concat (map (\<lambda>kv. [(''lock_passwd'', JBool False), (''plain_text_passwd'', snd kv)]) (given ''password'' config)))"

definition build_user_data :: "(bool \<Rightarrow> json \<Rightarrow> string) \<Rightarrow> json \<Rightarrow> string" where
  "build_user_data dump config = ''#cloud-config'' @ [CHR 0x0A] @ dump False (JObj (
     [(''hostname'', hostname_of config)] @
     (if given ''users'' config \<noteq> [] then given ''users'' config
      else map (\<lambda>kv. (''users'', JArr [user_entry config (snd kv)])) (given ''username'' config)) @
     given ''packages'' config @ given ''write_files'' config @ given ''runcmd'' config))"

definition build_network_config :: "(bool \<Rightarrow> json \<Rightarrow> string) \<Rightarrow> json \<Rightarrow> string option" where
  "build_network_config dump config = (case given ''network'' config of [] \<Rightarrow> None
     | kv # _ \<Rightarrow> Some (dump False (JObj [(''version'', JInt 2), (''ethernets'', snd kv)])))"

text \<open>\<open>shutil.which\<close>: the path of the tool, if any.\<close>

fun which_first :: "string list \<Rightarrow> string aop" where
  "which_first [] = raiseM (CloudInitError ''None of genisoimage/mkisofs/xorriso is installed; cannot build a cloud-init ISO.'')"
| "which_first (t # ts) = bindM (osM (Which t)) (\<lambda>p. if truthy p then as_str p else which_first ts)"

definition write_text :: "string \<Rightarrow> string \<Rightarrow> unit aop" where
  "write_text p s = bindM (osM (WriteText p s)) (\<lambda>_. returnM ())"

definition meta_data :: "json \<Rightarrow> json" where
  "meta_data config = JObj [(''instance-id'', (case jget ''instance_id'' config of Some v \<Rightarrow> v | None \<Rightarrow> hostname_of config)),
     (''local-hostname'', hostname_of config)]"

definition generate_nocloud_iso :: "(bool \<Rightarrow> json \<Rightarrow> string) \<Rightarrow> json \<Rightarrow> string \<Rightarrow> string aop" where
  "generate_nocloud_iso dump config output_path =
     bindM (which_first [''genisoimage'', ''mkisofs'', ''xorriso'']) (\<lambda>tool.
     bindM (with_tmpdir ''nodepilot-cloudinit-'' (\<lambda>tmp.
       let net = build_network_config dump config;
           netfile = (case net of None \<Rightarrow> [] | Some t \<Rightarrow> if t \<noteq> '''' then [(path_join tmp ''network-config'', t)] else [])
       in bindM (write_text (path_join tmp ''user-data'') (build_user_data dump config)) (\<lambda>_.
          bindM (write_text (path_join tmp ''meta-data'') (dump True (meta_data config))) (\<lambda>_.
          bindM (forM netfile (\<lambda>(p, t). write_text p t)) (\<lambda>_.
          bindM (hostM (Exec ([tool, ''-output'', output_path, ''-volid'', ''cidata'', ''-joliet'', ''-rock'', path_join tmp ''user-data'', path_join tmp ''meta-data''] @ map fst netfile))) (\<lambda>r. case r of
            Exited code out err \<Rightarrow> if code \<noteq> 0 then raiseM (CloudInitError (''Failed to build cloud-init ISO: '' @ err)) else returnM ()
          | Raised m \<Rightarrow> raiseM (AOSError m) | TimedOut \<Rightarrow> raiseM (AOSError ''timed out after 60 seconds'') | Res j \<Rightarrow> raiseM (AOSError ''subprocess.run''))))))) (\<lambda>_.
     returnM output_path))"

definition generate_cloud_init_op :: "(bool \<Rightarrow> json \<Rightarrow> string) \<Rightarrow> json \<Rightarrow> string \<Rightarrow> string \<Rightarrow> json aop" where
  "generate_cloud_init_op dump payload resource_id workdir =
     bindM (osM (MakeDirs workdir)) (\<lambda>_. let iso_path = path_join workdir (resource_id @ ''.iso'') in
     bindM (generate_nocloud_iso dump (case jget ''cloud_init'' payload of Some c \<Rightarrow> c | None \<Rightarrow> JObj []) iso_path) (\<lambda>_.
     bindM (attach_device resource_id (build_cdrom_xml iso_path ''sda'') False True) (\<lambda>_.
     returnM (JObj [(''iso_path'', JStr iso_path)]))))"

subsection \<open>Temporary directories do not outlive an operation\<close>

text \<open>The directories made and not yet removed, from the calls (latest first) and their answers.\<close>

fun tmps :: "(hcall list \<Rightarrow> hcall \<Rightarrow> hreply) \<Rightarrow> hcall list \<Rightarrow> string list" where
  "tmps r [] = []"
| "tmps r (c # cs) = (case c of
     MkDTemp p \<Rightarrow> (case r (rev cs) c of Res (JStr d) \<Rightarrow> d # tmps r cs | _ \<Rightarrow> tmps r cs)
   | RmTree d \<Rightarrow> filter (\<lambda>x. x \<noteq> d) (tmps r cs) | _ \<Rightarrow> tmps r cs)"

definition open_tmp :: "host \<Rightarrow> string set" where
  "open_tmp h = set (tmps (respond h) (rev (trace h)))"

definition mkdtemp_ok :: "host \<Rightarrow> bool" where
  "mkdtemp_ok h \<longleftrightarrow> (\<forall>tr p d. respond h tr (MkDTemp p) = Res (JStr d) \<longrightarrow> d \<noteq> [] \<and> last d \<noteq> CHR ''/'')"

definition tidy :: "host \<Rightarrow> host \<Rightarrow> bool" where
  "tidy h h' \<longleftrightarrow> mkdtemp_ok h \<longrightarrow> respond h' = respond h \<and> open_tmp h' \<subseteq> open_tmp h"

interpretation td: frame tidy
proof unfold_locales
  show "tidy h h" for h by (simp add: tidy_def)
  have "respond h' = respond h \<Longrightarrow> mkdtemp_ok h' = mkdtemp_ok h" for h h' :: host by (simp add: mkdtemp_ok_def)
  then show "tidy h h' \<Longrightarrow> tidy h' h'' \<Longrightarrow> tidy h h''" for h h' h'' unfolding tidy_def by (metis order_trans)
qed

definition tmp_call :: "hcall \<Rightarrow> bool" where
  "tmp_call c = (case c of MkDTemp p \<Rightarrow> True | RmTree d \<Rightarrow> True | _ \<Rightarrow> False)"

lemma open_tmp_step:
  "\<not> tmp_call c \<Longrightarrow> open_tmp (h\<lparr>trace := trace h @ [c]\<rparr>) = open_tmp h"
  "open_tmp (h\<lparr>trace := trace h @ [RmTree d]\<rparr>) = open_tmp h - {d}"
  "respond h (trace h) (MkDTemp p) = Res (JStr d) \<Longrightarrow> open_tmp (h\<lparr>trace := trace h @ [MkDTemp p]\<rparr>) = insert d (open_tmp h)"
  "(\<And>d. respond h (trace h) (MkDTemp p) \<noteq> Res (JStr d)) \<Longrightarrow> open_tmp (h\<lparr>trace := trace h @ [MkDTemp p]\<rparr>) = open_tmp h"
  by (auto simp: open_tmp_def tmp_call_def split: hcall.splits hreply.splits json.splits)

lemma td_hostM: "\<not> tmp_call c \<Longrightarrow> keeps tidy (hostM c)"
  by (simp add: keeps_def tidy_def open_tmp_step)

lemma td_osM: "\<not> tmp_call c \<Longrightarrow> keeps tidy (osM c)"
  unfolding osM_def by (intro td.keeps_bind td_hostM) (auto intro!: td.keeps_rules split: hreply.splits)

lemma td_rmtree: "keeps tidy (rmtree_quiet d)"
  by (auto simp: rmtree_quiet_def keeps_def tidy_def open_tmp_step)

lemma td_as: "keeps tidy (as_str j)" "keeps tidy (as_int j)" "keeps tidy (pget k p)" "keeps tidy (pstr k p)" "keeps tidy (pint k p)"
  "keeps tidy (pstr_or k p d)"
  by (auto simp: as_str_def as_int_def pget_def pstr_def pint_def pstr_or_def intro!: td.keeps_rules split: json.splits option.splits)

lemma td_opt: "keeps tidy (opt_str k p)" "keeps tidy (plist k p)" "keeps tidy (as_opt_str j)"
  unfolding opt_str_def plist_def as_opt_str_def by (auto intro!: td.keeps_rules td.keeps_bind td_as split: json.splits option.splits)

lemma td_run: "keeps tidy (run args check t)"
  unfolding run_def by (intro td.keeps_bind td_hostM) (auto simp: tmp_call_def intro!: td.keeps_rules split: hreply.splits)

lemmas td_rules = td.keeps_rules td_as td_opt td_run td_rmtree keeps_case_prod

lemma mkdtemp_run:
  "(\<exists>d. mkdtemp p h = (Inr d, h\<lparr>trace := trace h @ [MkDTemp p]\<rparr>) \<and> respond h (trace h) (MkDTemp p) = Res (JStr d) \<and>
      open_tmp (h\<lparr>trace := trace h @ [MkDTemp p]\<rparr>) = insert d (open_tmp h)) \<or>
   (\<exists>e. mkdtemp p h = (Inl e, h\<lparr>trace := trace h @ [MkDTemp p]\<rparr>) \<and> open_tmp (h\<lparr>trace := trace h @ [MkDTemp p]\<rparr>) = open_tmp h)"
  unfolding mkdtemp_def
  by (auto simp: bindM_apply osM_run as_str_run open_tmp_step split: hreply.splits json.splits)

lemma td_with_tmpdir:
  assumes "\<And>d. keeps tidy (body d)"
  shows "keeps tidy (with_tmpdir p body)"
  unfolding keeps_def
proof
  fix h :: host
  define h1 where "h1 = h\<lparr>trace := trace h @ [MkDTemp p]\<rparr>"
  show "tidy h (snd (with_tmpdir p body h))"
    using mkdtemp_run [of p h]
  proof (elim disjE exE conjE)
    fix d assume d: "mkdtemp p h = (Inr d, h\<lparr>trace := trace h @ [MkDTemp p]\<rparr>)"
      "open_tmp (h\<lparr>trace := trace h @ [MkDTemp p]\<rparr>) = insert d (open_tmp h)"
    obtain r h2 where b: "body d h1 = (r, h2)" by fastforce
    have t: "tidy h1 h2" using keepsD [OF assms b] .
    have "snd (with_tmpdir p body h) = h2\<lparr>trace := trace h2 @ [RmTree d]\<rparr>"
      using d(1) b by (simp add: with_tmpdir_def bindM_apply finallyM_apply osM_run h1_def split: hreply.splits sum.splits)
    then show ?thesis using t d(2) by (auto simp: tidy_def mkdtemp_ok_def open_tmp_step h1_def)
  next
    fix e assume "mkdtemp p h = (Inl e, h\<lparr>trace := trace h @ [MkDTemp p]\<rparr>)" "open_tmp (h\<lparr>trace := trace h @ [MkDTemp p]\<rparr>) = open_tmp h"
    then show ?thesis by (simp add: with_tmpdir_def bindM_apply tidy_def)
  qed
qed

lemma dirname_join: "d \<noteq> [] \<Longrightarrow> last d \<noteq> CHR ''/'' \<Longrightarrow> path_dirname (path_join d ''image'') = d"
  by (cases d rule: rev_cases) (auto simp: path_join_def path_dirname_def rstrip_slash_def)

lemma td_fetch: "keeps tidy (fetch_into cfg u p)"
  unfolding fetch_into_def
  by (intro td.keeps_bind td_hostM) (auto simp: tmp_call_def intro!: td_rules split: hreply.splits)

text \<open>A finished download leaves its own directory behind; the caller removes it.\<close>

lemma download_run:
  assumes "mkdtemp_ok h" and "download_image cfg u sha h = (r, h')"
  shows "respond h' = respond h \<and> (case r of Inl e \<Rightarrow> open_tmp h' \<subseteq> open_tmp h
    | Inr path \<Rightarrow> open_tmp h' \<subseteq> insert (path_dirname path) (open_tmp h))"
  using mkdtemp_run [of "''nodepilot-image-''" h]
proof (elim disjE exE conjE)
  define h1 where "h1 = h\<lparr>trace := trace h @ [MkDTemp ''nodepilot-image-'']\<rparr>"
  fix d assume d: "mkdtemp ''nodepilot-image-'' h = (Inr d, h\<lparr>trace := trace h @ [MkDTemp ''nodepilot-image-'']\<rparr>)"
    "respond h (trace h) (MkDTemp ''nodepilot-image-'') = Res (JStr d)"
    "open_tmp (h\<lparr>trace := trace h @ [MkDTemp ''nodepilot-image-'']\<rparr>) = insert d (open_tmp h)"
  obtain q h2 where f: "fetch_into cfg u (path_join d ''image'') h1 = (q, h2)" by fastforce
  have "tidy h1 h2" using keepsD [OF td_fetch f] .
  then have h2: "respond h2 = respond h" "open_tmp h2 \<subseteq> insert d (open_tmp h)"
    using assms(1) d(3) by (auto simp: tidy_def mkdtemp_ok_def h1_def)
  have "path_dirname (path_join d ''image'') = d" using assms(1) d(2) by (intro dirname_join) (auto simp: mkdtemp_ok_def)
  then show ?thesis using assms(2) d(1) f h2
    by (auto simp: download_image_def bindM_apply tryM_apply h1_def [symmetric] Let_def rmtree_quiet_def open_tmp_step split: sum.splits if_splits)
qed (use assms(2) in \<open>auto simp: download_image_def bindM_apply\<close>)

lemma td_seed: "keeps tidy (seed_from_image cfg v tf u f sha)"
  unfolding keeps_def
proof
  fix h :: host
  show "tidy h (snd (seed_from_image cfg v tf u f sha h))"
    unfolding tidy_def
  proof
    assume ok: "mkdtemp_ok h"
    obtain r h1 where dl: "download_image cfg u sha h = (r, h1)" by fastforce
    note d = download_run [OF ok dl]
    show "respond (snd (seed_from_image cfg v tf u f sha h)) = respond h \<and> open_tmp (snd (seed_from_image cfg v tf u f sha h)) \<subseteq> open_tmp h"
    proof (cases r)
      case (Inl e)
      then show ?thesis using d dl by (simp add: seed_from_image_def bindM_apply)
    next
      case (Inr path)
      define args where "args = [''qemu-img'', ''convert'', ''-n''] @ (if f \<noteq> '''' then [''-f'', f] else []) @ [''-O'', tf, path, v]"
      obtain r1 where r1: "run args True 3600 h1 = (r1, h1\<lparr>trace := trace h1 @ [Exec args]\<rparr>)" using run_trace by blast
      have "snd (seed_from_image cfg v tf u f sha h) = h1\<lparr>trace := trace h1 @ [Exec args, RmTree (path_dirname path)]\<rparr>"
        using dl Inr r1 by (cases r1) (simp_all add: seed_from_image_def bindM_apply finallyM_apply rmtree_quiet_def args_def)
      moreover have "open_tmp (h1\<lparr>trace := trace h1 @ [Exec args, RmTree q]\<rparr>) = open_tmp h1 - {q}" for q
        using open_tmp_step(2) [of "h1\<lparr>trace := trace h1 @ [Exec args]\<rparr>" q] open_tmp_step(1) [of "Exec args" h1] by (simp add: tmp_call_def)
      ultimately show ?thesis using d Inr by auto
    qed
  qed
qed

text \<open>Every handler, from the bottom up.\<close>

lemma td_case_hreply:
  assumes "\<And>j. keeps tidy (a j)" "\<And>m. keeps tidy (b m)" "\<And>x y z. keeps tidy (c x y z)" "keeps tidy d"
  shows "keeps tidy (case r of Res j \<Rightarrow> a j | Raised m \<Rightarrow> b m | Exited x y z \<Rightarrow> c x y z | TimedOut \<Rightarrow> d)"
  using assms by (cases r) auto

lemma td_host: "keeps tidy (hostM (Exec x))" "keeps tidy (hostM (Lv l))" "keeps tidy (hostM (ZfsSendReceive a b))" "keeps tidy (hostM ImportBoto3)"
  "keeps tidy (osM (RealPath p))" "keeps tidy (osM (PathExists p))" "keeps tidy (osM (RemoveFile p))" "keeps tidy (osM (MakeDirs p))"
  "keeps tidy (osM (GetSize p))" "keeps tidy (osM (DiskUsage p))" "keeps tidy (osM (Sha256File p))" "keeps tidy (osM (WriteText p s))"
  "keeps tidy (osM (Which p))" "keeps tidy (osM (S3Upload j p b k))" "keeps tidy (osM (S3Download j k p))"
  by (simp_all add: td_hostM td_osM tmp_call_def)

lemma td_mod_conn: "keeps tidy (modM (\<lambda>h. h\<lparr>lv_conn := b\<rparr>))"
  by (rule td.keeps_mod) (simp add: tidy_def open_tmp_def)

lemmas td_prims = td_rules td_case_hreply td_host td_mod_conn td_with_tmpdir td_seed td_fetch

lemma td_lv: "keeps tidy (lv c)" "keeps tidy (lv_do c)"
  unfolding lv_do_def lv_def by (intro td_prims)+

lemma td_wrapped: "keeps tidy m \<Longrightarrow> keeps tidy (wrapped what m)"
  unfolding wrapped_def by (rule td.keeps_try) (auto intro!: td.keeps_rules split: aexn.splits)

lemma td_connect: "keeps tidy lv_connect"
  unfolding lv_connect_def require_libvirt_def by (intro td_prims td_lv td_wrapped)

lemma td_with_domain: "keeps tidy m \<Longrightarrow> keeps tidy (with_domain u m)"
  unfolding with_domain_def by (intro td_prims td_lv td_wrapped td_connect)

lemma td_unpack: "keeps tidy (unpack n j)"
  unfolding unpack_def by (auto intro!: td.keeps_rules split: json.splits)

lemma td_done: "keeps tidy m \<Longrightarrow> keeps tidy (done_with m)"
  unfolding done_with_def by (intro td_prims)

lemma td_domain: "m \<in> set (domain_handlers payload u) \<Longrightarrow> keeps tidy m"
  unfolding domain_handlers_def list.set insert_iff empty_iff
  by (elim disjE FalseE; hypsubst; unfold domain_handler_defs is_active_def; intro td_prims td_lv td_wrapped td_with_domain td_unpack td_done)

lemma td_device: "keeps tidy (attach_device u x live persistent)" "keeps tidy (detach_device u x live persistent)"
  unfolding attach_device_def detach_device_def device_flags_def is_active_def by (intro td_prims td_lv td_wrapped td_with_domain)+

lemma td_net: "keeps tidy (validate_iface nm)" "keeps tidy (net_run args check)"
  unfolding validate_iface_def net_run_def by (intro td_prims)+

lemma td_network: "keeps tidy (create_bridge b)" "keeps tidy (delete_bridge b)" "keeps tidy (ensure_vlan_network b v)" "keeps tidy (teardown_vlan_network b v)"
  "keeps tidy (vlan_bridge_name b v)"
  unfolding create_bridge_def delete_bridge_def ensure_vlan_network_def teardown_vlan_network_def vlan_bridge_name_def bridge_exists_def
    create_vlan_interface_def vlan_interface_name_def iface_exists_def attach_to_bridge_def delete_vlan_interface_def
  by (intro td_prims td_net)+

lemma td_xml: "keeps tidy (build_domain_xml payload)"
  unfolding build_domain_xml_def disk_xml_def nic_xml_def resolve_nic_bridge_def rate_limit_def boot_devices_def Let_def
  by (intro td_prims td_network)

lemma td_parse: "keeps tidy (parse_int s)" "keeps tidy (two_fields s)" "keeps tidy (parse_decimal s)" "keeps tidy (validate_name nm)"
  "keeps tidy (get_backend t p)"
  unfolding parse_int_def two_fields_def parse_decimal_def validate_name_def get_backend_def
  by (auto intro!: td.keeps_rules split: prod.splits list.splits simp: Let_def)

lemma td_guard: "keeps tidy (assert_within_pool p v)" "keeps tidy (assert_within_vg p v)" "keeps tidy (assert_within_dataset p v)"
  unfolding assert_within_pool_def real_path_def assert_within_vg_def assert_within_dataset_def by (intro td_prims)+

lemma td_sizes: "keeps tidy (qcow2_virtual_size p)" "keeps tidy (lv_size_bytes p)" "keeps tidy (volsize_bytes p)" "keeps tidy (copy_block_device a b)"
  "keeps tidy (pipe_send_receive a b)"
  unfolding lv_size_bytes_def volsize_bytes_def copy_block_device_def pipe_send_receive_def Let_def
  by (auto simp: qcow2_virtual_size_def intro!: td_prims td_parse split: option.splits json.splits)

lemmas td_storage = td_prims td_parse td_guard td_sizes

lemma td_volumes: "keeps tidy (create_volume b nm sz f)" "keeps tidy (delete_volume b v)" "keeps tidy (resize_volume b v n)"
  "keeps tidy (clone_volume b v nm linked)" "keeps tidy (pool_info_of b)"
  by (cases b; simp only: create_volume.simps delete_volume.simps resize_volume.simps clone_volume.simps pool_info_of.simps
      backend_defs dir_create_volume_def dir_delete_volume_def dir_resize_volume_def dir_clone_volume_def dir_pool_info_def path_for_def Let_def;
      intro td_storage)+

end
