(* ===== verification/AgentLoop.thy ===== *)
theory AgentLoop
  imports Tokens AgentOps
begin

section \<open>AgentLoop: protocol, dispatcher, console sessions and command channel of the agent\<close>

text \<open>
  \<open>agent/nodepilot_agent/protocol.py\<close>, \<open>operations/dispatcher.py\<close>, \<open>console.py\<close> and \<open>transport.py\<close>. The process is its
  host, its console sessions and the frames it sent. A request is handled to its end when it arrives: the event loop
  starts handlers concurrently, and their interleaving is not modelled. The members of the agent's \<open>OperationType\<close> are
  those of the controller's, of \<open>AgentClient\<close>.
\<close>

subsection \<open>Protocol\<close>

definition OPERATIONS :: "OperationType list" where
  "OPERATIONS = [GET_HOST_INFO, GET_DOMAIN_INFO, CREATE_VM, DELETE_VM, START_VM, STOP_VM, SHUTDOWN_VM, REBOOT_VM, RESET_VM, PAUSE_VM,
     RESUME_VM, MIGRATE_VM, CREATE_DISK, DELETE_DISK, RESIZE_DISK, ATTACH_DISK, DETACH_DISK, CLONE_DISK, ATTACH_ISO, DETACH_ISO,
     CREATE_NETWORK, DELETE_NETWORK, ATTACH_NIC, DETACH_NIC, CREATE_SNAPSHOT, DELETE_SNAPSHOT, ROLLBACK_SNAPSHOT, CREATE_STORAGE_POOL,
     DELETE_STORAGE_POOL, GET_STORAGE_POOL_INFO, GENERATE_CLOUD_INIT, OPEN_CONSOLE, CREATE_BACKUP, RESTORE_BACKUP]"

text \<open>\<open>OperationType(value)\<close>.\<close>

definition parse_OperationType :: "json \<Rightarrow> OperationType option" where
  "parse_OperationType j = (case j of JStr s \<Rightarrow> find (\<lambda>t. show_OperationType t = s) OPERATIONS | _ \<Rightarrow> None)"

record agent_request =
  rq_request_id :: json
  rq_operation :: OperationType
  rq_resource_id :: json
  rq_payload :: json

definition request_from_wire :: "json \<Rightarrow> aexn + agent_request" where
  "request_from_wire m = (case jget ''request_id'' m of None \<Rightarrow> Inl (AKeyError ''request_id'')
   | Some rid \<Rightarrow> (case jget ''operation'' m of None \<Rightarrow> Inl (AKeyError ''operation'')
   | Some t \<Rightarrow> (case parse_OperationType t of None \<Rightarrow> Inl (AValueError ''is not a valid OperationType'')
   | Some oper \<Rightarrow> Inr \<lparr> rq_request_id = rid, rq_operation = oper,
       rq_resource_id = (case jget ''resource_id'' m of None \<Rightarrow> JStr '''' | Some r \<Rightarrow> r),
       rq_payload = (case jget ''payload'' m of None \<Rightarrow> JObj [] | Some p \<Rightarrow> if truthy p then p else JObj []) \<rparr>)))"

definition response_to_wire :: "AgentResponse \<Rightarrow> json" where
  "response_to_wire r = JObj [(''request_id'', rsp_request_id r), (''success'', JBool (rsp_success r)), (''data'', rsp_data r), (''error'', rsp_error r)]"

definition response_ok :: "json \<Rightarrow> json \<Rightarrow> AgentResponse" where
  "response_ok rid data = \<lparr> rsp_request_id = rid, rsp_success = True, rsp_data = (if truthy data then data else JObj []), rsp_error = JNull \<rparr>"

definition response_fail :: "json \<Rightarrow> string \<Rightarrow> AgentResponse" where
  "response_fail rid err = \<lparr> rsp_request_id = rid, rsp_success = False, rsp_data = JObj [], rsp_error = JStr err \<rparr>"

subsection \<open>Console sessions\<close>

text \<open>
  A session is waiting for its port, connected to it, or ended; \<open>con_inbound\<close> is its queue and \<open>con_written\<close> what was
  written to the VNC server.
\<close>

record console_session =
  con_domain :: string
  con_inbound :: "string list"
  con_port :: "int option"
  con_written :: string

record agent_proc =
  ap_host :: host
  ap_sessions :: "(string \<times> console_session) list"
  ap_sent :: "json list"

type_synonym 'a pop = "(aexn, agent_proc, 'a) M"

definition liftH :: "'a aop \<Rightarrow> 'a pop" where
  "liftH m = (\<lambda>a. case m (ap_host a) of (r, h) \<Rightarrow> (r, a\<lparr>ap_host := h\<rparr>))"

definition is_quote :: "string \<Rightarrow> bool" where
  "is_quote s \<longleftrightarrow> s \<noteq> [] \<and> (hd s = CHR 0x22 \<or> hd s = CHR 0x27)"

text \<open>
  \<open>_VNC_PORT_RE\<close>: inside a \<open>graphics\<close> tag, a VNC type attribute and after it a port attribute with digits; the greedy
  repetition takes the last such attribute of the tag, the search the first tag that has one.
\<close>

definition port_at :: "string \<Rightarrow> string option" where
  "port_at s = (let ds = takeWhile is_digit (drop 6 s) in
     if take 5 s = ''port='' \<and> is_quote (drop 5 s) \<and> ds \<noteq> [] \<and> is_quote (drop (6 + length ds) s) then Some ds else None)"

definition vnc_type_at :: "string \<Rightarrow> bool" where
  "vnc_type_at s \<longleftrightarrow> take 5 s = ''type='' \<and> is_quote (drop 5 s) \<and> take 3 (drop 6 s) = ''vnc'' \<and> is_quote (drop 9 s)"

definition suffixes_of :: "string \<Rightarrow> string list" where
  "suffixes_of s = map (\<lambda>i. drop i s) [0..<Suc (length s)]"

definition graphics_port :: "string \<Rightarrow> string option" where
  "graphics_port body = (case find vnc_type_at (suffixes_of body) of None \<Rightarrow> None
     | Some s \<Rightarrow> (case List.map_filter port_at (suffixes_of (drop 10 s)) of [] \<Rightarrow> None | ps \<Rightarrow> Some (last ps)))"

definition vnc_port_text :: "string \<Rightarrow> string option" where
  "vnc_port_text xml = (case List.map_filter
       (\<lambda>s. if take 9 s = ''<graphics'' then graphics_port (takeWhile (\<lambda>c. c \<noteq> CHR ''>'') (drop 9 s)) else None) (suffixes_of xml)
     of [] \<Rightarrow> None | p # _ \<Rightarrow> Some p)"

definition vnc_port :: "string \<Rightarrow> int aop" where
  "vnc_port u = bindM (with_domain u (bindM (lv (XMLDesc u)) as_str)) (\<lambda>xml. case vnc_port_text xml of
     None \<Rightarrow> raiseM (LibvirtOperationError ''Domain has no active VNC port (is it running?).'')
   | Some ds \<Rightarrow> returnM (digits_value ds))"

definition open_session :: "string \<Rightarrow> string \<Rightarrow> unit pop" where
  "open_session sid u = bindM (getM (\<lambda>a. map_of (ap_sessions a) sid)) (\<lambda>s. case s of
     Some _ \<Rightarrow> returnM ()
   | None \<Rightarrow> modM (\<lambda>a. a\<lparr>ap_sessions := dict_set sid \<lparr> con_domain = u, con_inbound = [], con_port = None, con_written = '''' \<rparr> (ap_sessions a)\<rparr>))"

definition drop_session :: "string \<Rightarrow> unit pop" where
  "drop_session sid = modM (\<lambda>a. a\<lparr>ap_sessions := filter (\<lambda>ks. fst ks \<noteq> sid) (ap_sessions a)\<rparr>)"

text \<open>The first part of \<open>_run_session\<close>; \<open>connects\<close> is whether \<open>asyncio.open_connection\<close> succeeds on the port.\<close>

definition start_session :: "(int \<Rightarrow> bool) \<Rightarrow> string \<Rightarrow> unit pop" where
  "start_session connects sid = bindM (getM (\<lambda>a. map_of (ap_sessions a) sid)) (\<lambda>s. case s of
     None \<Rightarrow> returnM ()
   | Some c \<Rightarrow> tryM (bindM (liftH (vnc_port (con_domain c))) (\<lambda>p.
       if connects p then modM (\<lambda>a. a\<lparr>ap_sessions := dict_set sid (c\<lparr>con_port := Some p\<rparr>) (ap_sessions a)\<rparr>)
       else raiseM (AOSError ''connection refused''))) (\<lambda>e. drop_session sid))"

definition feed_input :: "string \<Rightarrow> string \<Rightarrow> unit pop" where
  "feed_input sid data_b64 = bindM (getM (\<lambda>a. map_of (ap_sessions a) sid)) (\<lambda>s. case s of
     None \<Rightarrow> returnM ()
   | Some c \<Rightarrow> (case b64decode data_b64 of
       None \<Rightarrow> raiseM (AValueError ''Incorrect padding'')
     | Some bytes \<Rightarrow> modM (\<lambda>a. a\<lparr>ap_sessions := dict_set sid (c\<lparr>con_inbound := con_inbound c @ [bytes]\<rparr>) (ap_sessions a)\<rparr>)))"

text \<open>One round of \<open>pump_inbound\<close> and one of \<open>pump_outbound\<close> that read \<open>chunk\<close>.\<close>

definition pump_inbound :: "string \<Rightarrow> unit pop" where
  "pump_inbound sid = bindM (getM (\<lambda>a. map_of (ap_sessions a) sid)) (\<lambda>s. case s of
     Some c \<Rightarrow> (case con_inbound c of
        x # xs \<Rightarrow> if con_port c = None then returnM ()
          else modM (\<lambda>a. a\<lparr>ap_sessions := dict_set sid (c\<lparr>con_inbound := xs, con_written := con_written c @ x\<rparr>) (ap_sessions a)\<rparr>)
      | [] \<Rightarrow> returnM ())
   | None \<Rightarrow> returnM ())"

definition pump_outbound :: "string \<Rightarrow> string \<Rightarrow> unit pop" where
  "pump_outbound sid chunk = bindM (getM (\<lambda>a. map_of (ap_sessions a) sid)) (\<lambda>s. case s of
     Some c \<Rightarrow> if con_port c = None \<or> chunk = '''' then returnM ()
       else modM (\<lambda>a. a\<lparr>ap_sent := ap_sent a @ [JObj [(''type'', JStr ''console_data''), (''session_id'', JStr sid), (''data'', JStr (b64encode chunk))]]\<rparr>)
   | None \<Rightarrow> returnM ())"

definition close_session :: "string \<Rightarrow> unit pop" where
  "close_session sid = drop_session sid"

subsection \<open>Dispatcher\<close>

definition run_operation :: "(bool \<Rightarrow> json \<Rightarrow> string) \<Rightarrow> agent_config \<Rightarrow> OperationType \<Rightarrow> json \<Rightarrow> string \<Rightarrow> json aop" where
  "run_operation dump cfg oper payload rid = (case oper of
     GET_HOST_INFO \<Rightarrow> host_info
   | GET_DOMAIN_INFO \<Rightarrow> get_domain_info_op rid
   | CREATE_VM \<Rightarrow> create_vm_op payload
   | DELETE_VM \<Rightarrow> delete_vm_op payload rid
   | START_VM \<Rightarrow> start_vm_op rid
   | SHUTDOWN_VM \<Rightarrow> shutdown_vm_op rid
   | STOP_VM \<Rightarrow> stop_vm_op rid
   | REBOOT_VM \<Rightarrow> reboot_vm_op rid
   | RESET_VM \<Rightarrow> reset_vm_op rid
   | PAUSE_VM \<Rightarrow> pause_vm_op rid
   | RESUME_VM \<Rightarrow> resume_vm_op rid
   | MIGRATE_VM \<Rightarrow> migrate_vm_op payload rid
   | CREATE_DISK \<Rightarrow> create_disk_op payload (Some cfg)
   | DELETE_DISK \<Rightarrow> delete_disk_op payload
   | RESIZE_DISK \<Rightarrow> resize_disk_op payload
   | CLONE_DISK \<Rightarrow> clone_disk_op payload
   | ATTACH_DISK \<Rightarrow> attach_disk_op payload
   | DETACH_DISK \<Rightarrow> detach_disk_op payload
   | CREATE_NETWORK \<Rightarrow> create_network_op payload
   | DELETE_NETWORK \<Rightarrow> delete_network_op payload
   | ATTACH_NIC \<Rightarrow> attach_nic_op payload
   | DETACH_NIC \<Rightarrow> detach_nic_op payload
   | CREATE_SNAPSHOT \<Rightarrow> create_snapshot_op payload rid
   | DELETE_SNAPSHOT \<Rightarrow> delete_snapshot_op payload rid
   | ROLLBACK_SNAPSHOT \<Rightarrow> rollback_snapshot_op payload rid
   | GET_STORAGE_POOL_INFO \<Rightarrow> get_storage_pool_info_op payload
   | CREATE_STORAGE_POOL \<Rightarrow> create_storage_pool_op payload
   | DELETE_STORAGE_POOL \<Rightarrow> delete_storage_pool_op payload
   | GENERATE_CLOUD_INIT \<Rightarrow> generate_cloud_init_op dump payload rid (cloud_init_workdir cfg)
   | CREATE_BACKUP \<Rightarrow> create_backup_op payload rid
   | RESTORE_BACKUP \<Rightarrow> restore_backup_op payload rid
   | _ \<Rightarrow> raiseM (NotImplementedError (''Unhandled operation: OperationType.'' @ show_OperationType oper)))"

definition dispatcher_run :: "(bool \<Rightarrow> json \<Rightarrow> string) \<Rightarrow> agent_config \<Rightarrow> agent_request \<Rightarrow> json pop" where
  "dispatcher_run dump cfg r = (if rq_operation r = OPEN_CONSOLE
     then bindM (liftH (pstr ''session_id'' (rq_payload r))) (\<lambda>sid. bindM (liftH (as_str (rq_resource_id r))) (\<lambda>u.
          bindM (open_session sid u) (\<lambda>_. returnM (JObj []))))
     else bindM (liftH (as_str (rq_resource_id r))) (\<lambda>rid. liftH (run_operation dump cfg (rq_operation r) (rq_payload r) rid)))"

definition dispatch :: "(bool \<Rightarrow> json \<Rightarrow> string) \<Rightarrow> agent_config \<Rightarrow> agent_request \<Rightarrow> AgentResponse pop" where
  "dispatch dump cfg r = tryM (bindM (dispatcher_run dump cfg r) (\<lambda>data. returnM (response_ok (rq_request_id r) data)))
     (\<lambda>e. returnM (response_fail (rq_request_id r) (str_aexn e)))"

subsection \<open>Command channel\<close>

definition send_frame :: "json \<Rightarrow> unit pop" where
  "send_frame j = modM (\<lambda>a. a\<lparr>ap_sent := ap_sent a @ [j]\<rparr>)"

text \<open>
  One iteration of \<open>_receive_loop\<close>. An exception that it raises ends the connection; a message that is no object has no
  \<open>get\<close>.
\<close>

definition receive_message :: "(bool \<Rightarrow> json \<Rightarrow> string) \<Rightarrow> agent_config \<Rightarrow> string \<Rightarrow> unit pop" where
  "receive_message dump cfg raw = (case loads raw of
     None \<Rightarrow> returnM ()
   | Some message \<Rightarrow> (case message of
       JObj _ \<Rightarrow>
         if jget ''type'' message = Some (JStr ''console_input'') then
           bindM (liftH (pstr ''session_id'' message)) (\<lambda>sid. bindM (liftH (pstr ''data'' message)) (\<lambda>d. feed_input sid d))
         else if jget ''type'' message = Some (JStr ''console_close'') then
           bindM (liftH (pstr ''session_id'' message)) (\<lambda>sid. close_session sid)
         else (case request_from_wire message of
             Inl e \<Rightarrow> returnM ()
           | Inr r \<Rightarrow> bindM (dispatch dump cfg r) (\<lambda>resp. send_frame (response_to_wire resp)))
     | _ \<Rightarrow> raiseM (ATypeError ''object has no attribute get'')))"

text \<open>
  \<open>run_transport\<close>: each attempt either connected (and the connection ended later) or not; the result is how long it sleeps
  before each new attempt.
\<close>

definition next_backoff :: "agent_config \<Rightarrow> nat \<Rightarrow> nat" where
  "next_backoff cfg b = min (b * 2) (reconnect_backoff_max_seconds cfg)"

fun transport_sleeps :: "agent_config \<Rightarrow> nat \<Rightarrow> bool list \<Rightarrow> nat list" where
  "transport_sleeps cfg b [] = []"
| "transport_sleeps cfg b (connected # rest) =
     (let b1 = (if connected then reconnect_backoff_seconds cfg else b)
      in b1 # transport_sleeps cfg (next_backoff cfg b1) rest)"

definition run_transport :: "agent_config \<Rightarrow> bool list \<Rightarrow> nat list" where
  "run_transport cfg attempts = transport_sleeps cfg (reconnect_backoff_seconds cfg) attempts"

subsection \<open>No temporary directory outlives a request\<close>

lemma td_disk_ops: "keeps tidy (create_disk_op payload c)" "keeps tidy (AgentOps.delete_disk_op payload)" "keeps tidy (resize_disk_op payload)"
  "keeps tidy (clone_disk_op payload)" "keeps tidy (attach_disk_op payload)" "keeps tidy (detach_disk_op payload)"
  unfolding create_disk_op_def AgentOps.delete_disk_op_def resize_disk_op_def clone_disk_op_def attach_disk_op_def detach_disk_op_def
    payload_backend_def payload_disk_xml_def
  by (intro td_prims td_volumes td_parse td_done td_device)+

lemma td_pool_ops: "keeps tidy (get_storage_pool_info_op payload)" "keeps tidy (create_storage_pool_op payload)" "keeps tidy (delete_storage_pool_op payload)"
  unfolding get_storage_pool_info_op_def create_storage_pool_op_def delete_storage_pool_op_def payload_backend_def
  by (intro td_prims td_volumes td_parse)+

lemma td_network_ops: "keeps tidy (create_network_op payload)" "keeps tidy (delete_network_op payload)" "keeps tidy (attach_nic_op payload)"
  "keeps tidy (detach_nic_op payload)"
  unfolding create_network_op_def delete_network_op_def attach_nic_op_def detach_nic_op_def payload_nic_xml_def nic_target_bridge_def rate_limit_def
  by (intro td_prims td_network td_done td_device)+

lemma td_backup_ops: "keeps tidy (create_backup_op payload rid)" "keeps tidy (restore_backup_op payload rid)"
  unfolding create_backup_op_def restore_backup_op_def sha256_file_def get_size_def s3_client_def unsupported_target_def Let_def
  by (intro td_prims)+

lemma td_which: "keeps tidy (which_first ts)"
  by (induction ts) (simp_all only: which_first.simps, (intro td_prims | assumption)+)

lemma td_cloud_init: "keeps tidy (generate_cloud_init_op dump payload rid workdir)"
  unfolding generate_cloud_init_op_def generate_nocloud_iso_def write_text_def Let_def
  by (intro td_prims td_which td_device)

lemma td_vm_ops: "keeps tidy host_info" "keeps tidy (create_vm_op payload)"
  unfolding host_info_def create_vm_op_def define_domain_def by (intro td_prims td_lv td_wrapped td_connect td_unpack td_xml)+

lemma td_domain_ops: "keeps tidy (delete_vm_op payload u)" "keeps tidy (start_vm_op u)" "keeps tidy (shutdown_vm_op u)" "keeps tidy (stop_vm_op u)"
  "keeps tidy (reboot_vm_op u)" "keeps tidy (reset_vm_op u)" "keeps tidy (pause_vm_op u)" "keeps tidy (resume_vm_op u)" "keeps tidy (get_domain_info_op u)"
  "keeps tidy (migrate_vm_op payload u)" "keeps tidy (create_snapshot_op payload u)" "keeps tidy (delete_snapshot_op payload u)"
  "keeps tidy (rollback_snapshot_op payload u)"
  by (rule td_domain [of _ payload u]; simp add: domain_handlers_def)+

lemma td_run_operation: "keeps tidy (run_operation dump cfg oper payload rid)"
  unfolding run_operation_def
  by (cases oper) (simp_all only: OperationType.case td_vm_ops td_domain_ops td_disk_ops td_pool_ops td_network_ops td_backup_ops td_cloud_init td.keeps_raise)

text \<open>
  C26. No request leaves a temporary directory on the node. Whatever the host, libvirt, the controller and the object store answer,
  and whether the handler returns or fails anywhere, every temporary directory that an operation makes (for a downloaded
  image, a backup, a restore or a cloud-init image) has been removed, or its removal attempted, when the operation ends.
\<close>

theorem no_temporary_left:
  assumes "mkdtemp_ok h"
  shows "open_tmp (snd (run_operation dump cfg oper payload rid h)) \<subseteq> open_tmp h"
  using keepsD2 [OF td_run_operation, of h dump cfg oper payload rid] assms by (simp add: tidy_def)

definition ex_config :: agent_config where
  "ex_config = \<lparr> controller_url = ''https://c'', node_id = ''n1'', agent_token = ''t'', agent_version = ''1.0.0'', protocol_version = ''1.0'',
     heartbeat_interval_seconds = 10, reconnect_backoff_seconds = 2, reconnect_backoff_max_seconds = 60, tls_verify = True,
     ca_bundle_path = None, storage_pool_root = ''/var/lib/nodepilot/pools'', cloud_init_workdir = ''/var/lib/nodepilot/cloud-init'', log_level = ''INFO'' \<rparr>"

definition ex_tmp_host :: host where
  "ex_tmp_host = \<lparr> trace = [], respond = (\<lambda>_ c. case c of MkDTemp p \<Rightarrow> Res (JStr ''/tmp/d'') | _ \<Rightarrow> Raised ''down''), libvirt_available = True, lv_conn = False \<rparr>"

theorem no_temporary_left_witness:
  "mkdtemp_ok ex_tmp_host \<and> open_tmp (snd (run_operation (\<lambda>_. dumps) ex_config CREATE_BACKUP (JObj [(''target_type'', JStr ''S3''), (''volume_id'', JStr ''v''),
     (''target'', JObj [(''bucket'', JStr ''b'')]), (''backup_uuid'', JStr ''u'')]) '''' ex_tmp_host)) = {}"
proof -
  have h: "mkdtemp_ok ex_tmp_host" by (simp add: mkdtemp_ok_def ex_tmp_host_def)
  have "open_tmp ex_tmp_host = {}" by (simp add: open_tmp_def ex_tmp_host_def)
  with h no_temporary_left [OF h] show ?thesis by blast
qed

subsection \<open>Requests and responses\<close>

lemma parse_show_OperationType [simp]: "parse_OperationType (JStr (show_OperationType t)) = Some t"
  by (cases t) (simp_all add: parse_OperationType_def OPERATIONS_def)

lemma request_roundtrip:
  "request_from_wire (to_wire r) = Inr \<lparr> rq_request_id = JStr (req_request_id r), rq_operation = req_operation r,
     rq_resource_id = JStr (req_resource_id r), rq_payload = (if truthy (req_payload r) then req_payload r else JObj []) \<rparr>"
  by (simp add: request_from_wire_def to_wire_def jget_def)

lemma wf_request: "wf_json (req_payload r) \<Longrightarrow> wf_json (to_wire r)"
  by (simp add: to_wire_def)

lemma dispatch_run:
  obtains resp a' where "dispatch dump cfg r a = (Inr resp, a')" "snd (dispatcher_run dump cfg r a) = a'"
    "resp = (case fst (dispatcher_run dump cfg r a) of Inr data \<Rightarrow> response_ok (rq_request_id r) data
       | Inl e \<Rightarrow> response_fail (rq_request_id r) (str_aexn e))"
  by (cases "dispatcher_run dump cfg r a"; cases "fst (dispatcher_run dump cfg r a)")
    (auto simp: dispatch_def tryM_apply bindM_apply split: sum.splits)

definition quiet :: "agent_proc \<Rightarrow> agent_proc \<Rightarrow> bool" where
  "quiet a a' \<longleftrightarrow> ap_sent a' = ap_sent a"

interpretation qu: frame quiet
  by unfold_locales (simp_all add: quiet_def)

lemma qu_liftH: "keeps quiet (liftH m)"
  by (simp add: keeps_def quiet_def liftH_def split: prod.splits)

lemma qu_open: "keeps quiet (open_session sid u)"
  by (auto simp: keeps_def quiet_def open_session_def split: option.splits)

lemma dispatcher_run_sent: "ap_sent (snd (dispatcher_run dump cfg r a)) = ap_sent a"
proof -
  have "keeps quiet (dispatcher_run dump cfg r)" unfolding dispatcher_run_def by (intro qu.keeps_rules qu_liftH qu_open)
  then show ?thesis by (simp add: keeps_def quiet_def)
qed

text \<open>A text of the command channel that is a request of the controller.\<close>

definition is_request :: "string \<Rightarrow> agent_request \<Rightarrow> bool" where
  "is_request raw r \<longleftrightarrow> (\<exists>kvs. loads raw = Some (JObj kvs) \<and> jget ''type'' (JObj kvs) \<notin> {Some (JStr ''console_input''), Some (JStr ''console_close'')} \<and>
     request_from_wire (JObj kvs) = Inr r)"

lemma receive_request:
  assumes "is_request raw r"
  shows "\<exists>resp a'. receive_message dump cfg raw a = (Inr (), a') \<and> ap_sent a' = ap_sent a @ [response_to_wire resp] \<and>
    resp = (case fst (dispatcher_run dump cfg r a) of Inr data \<Rightarrow> response_ok (rq_request_id r) data
       | Inl e \<Rightarrow> response_fail (rq_request_id r) (str_aexn e))"
proof -
  obtain resp a' where d: "dispatch dump cfg r a = (Inr resp, a')" "snd (dispatcher_run dump cfg r a) = a'"
    "resp = (case fst (dispatcher_run dump cfg r a) of Inr data \<Rightarrow> response_ok (rq_request_id r) data
       | Inl e \<Rightarrow> response_fail (rq_request_id r) (str_aexn e))"
    by (rule dispatch_run)
  have "ap_sent a' = ap_sent a" using dispatcher_run_sent [of dump cfg r a] d(2) by simp
  then show ?thesis using assms d
    by (auto simp: is_request_def receive_message_def bindM_apply send_frame_def)
qed

text \<open>
  Every request is answered exactly once, under its own id, whatever the handler does. When a text that arrives on the command
  channel is a request, handling it never raises, sends exactly one frame, and that frame carries the request's id and says
  success exactly when the handler returned; a failing handler is reported with the text of its exception.
\<close>

theorem request_answered_once:
  assumes "is_request raw r"
  shows "\<exists>resp a'. receive_message dump cfg raw a = (Inr (), a') \<and> ap_sent a' = ap_sent a @ [response_to_wire resp] \<and>
    rsp_request_id resp = rq_request_id r \<and>
    (case fst (dispatcher_run dump cfg r a) of Inr data \<Rightarrow> rsp_success resp \<and> rsp_data resp = (if truthy data then data else JObj [])
     | Inl e \<Rightarrow> \<not> rsp_success resp \<and> rsp_error resp = JStr (str_aexn e))"
proof -
  obtain resp a' where "receive_message dump cfg raw a = (Inr (), a')" "ap_sent a' = ap_sent a @ [response_to_wire resp]"
    and resp: "resp = (case fst (dispatcher_run dump cfg r a) of Inr data \<Rightarrow> response_ok (rq_request_id r) data
       | Inl e \<Rightarrow> response_fail (rq_request_id r) (str_aexn e))"
    using receive_request [OF assms] by blast
  moreover have "rsp_request_id resp = rq_request_id r \<and>
    (case fst (dispatcher_run dump cfg r a) of Inr data \<Rightarrow> rsp_success resp \<and> rsp_data resp = (if truthy data then data else JObj [])
     | Inl e \<Rightarrow> \<not> rsp_success resp \<and> rsp_error resp = JStr (str_aexn e))"
    unfolding resp by (simp add: response_ok_def response_fail_def split: sum.splits)
  ultimately show ?thesis by blast
qed

definition ex_proc :: agent_proc where
  "ex_proc = \<lparr> ap_host = sim_libvirt [''v1'' \<mapsto> False], ap_sessions = [], ap_sent = [] \<rparr>"

definition ex_request :: AgentRequest where
  "ex_request = \<lparr> req_operation = START_VM, req_resource_id = ''v1'', req_payload = JObj [], req_request_id = ''u'' \<rparr>"

lemma controller_request:
  assumes "wf_json (req_payload r)"
  shows "is_request (dumps (to_wire r)) \<lparr> rq_request_id = JStr (req_request_id r), rq_operation = req_operation r,
     rq_resource_id = JStr (req_resource_id r), rq_payload = (if truthy (req_payload r) then req_payload r else JObj []) \<rparr>"
proof -
  have "loads (dumps (to_wire r)) = Some (to_wire r)" by (rule loads_dumps [OF wf_request [OF assms]])
  moreover have "\<exists>kvs. to_wire r = JObj kvs" "jget ''type'' (to_wire r) = None" by (simp_all add: to_wire_def jget_def)
  ultimately show ?thesis using request_roundtrip [of r] by (auto simp: is_request_def)
qed

theorem request_answered_once_witness:
  "\<exists>resp a'. receive_message (\<lambda>_. dumps) ex_config (dumps (to_wire ex_request)) ex_proc = (Inr (), a') \<and>
     ap_sent a' = [response_to_wire resp] \<and> rsp_request_id resp = JStr ''u''"
proof -
  have "is_request (dumps (to_wire ex_request)) \<lparr> rq_request_id = JStr ''u'', rq_operation = START_VM, rq_resource_id = JStr ''v1'', rq_payload = JObj [] \<rparr>"
    using controller_request [of ex_request] by (simp add: ex_request_def truthy_def)
  from request_answered_once [OF this, of "\<lambda>_. dumps" ex_config ex_proc] show ?thesis by (auto simp: ex_proc_def)
qed

subsection \<open>A call of the controller is the handler's call\<close>

text \<open>The frames a process sends when the text of a command arrives, as the controller reads them.\<close>

definition agent_frames :: "(bool \<Rightarrow> json \<Rightarrow> string) \<Rightarrow> agent_config \<Rightarrow> agent_proc \<Rightarrow> json \<Rightarrow> json option list" where
  "agent_frames dump cfg a wire = map (\<lambda>j. loads (dumps j))
     (drop (length (ap_sent a)) (ap_sent (snd (receive_message dump cfg (dumps wire) a))))"

text \<open>What a handler's outcome is for the caller on the controller.\<close>

definition as_call_result :: "aexn + json \<Rightarrow> exn + json" where
  "as_call_result res = (case res of
     Inr data \<Rightarrow> Inr (if truthy data then data else JObj [])
   | Inl e \<Rightarrow> Inl (mk_api AgentOperationFailed
       (Some (if str_aexn e = '''' then ''The agent reported an unspecified error.'' else str_aexn e)) (Some (JObj []))))"

lemma dispatcher_operation:
  assumes "rq_operation r \<noteq> OPEN_CONSOLE" and "rq_resource_id r = JStr rid"
  shows "fst (dispatcher_run dump cfg r a) = fst (run_operation dump cfg (rq_operation r) (rq_payload r) rid (ap_host a))"
  using assms by (simp add: dispatcher_run_def liftH_def bindM_apply as_str_def split: prod.splits)

lemma wire_frame:
  assumes "rsp_request_id resp = JStr u" and "u \<noteq> ''''"
  shows "reply_frame (response_to_wire resp)" and "answers u (response_to_wire resp)"
  using assms by (simp_all add: reply_frame_def answers_def response_to_wire_def jget_def request_id_text_def)

lemma wf_response: "\<lbrakk>rsp_request_id resp = JStr u; wf_json (rsp_data resp); wf_json (rsp_error resp)\<rbrakk> \<Longrightarrow> wf_json (response_to_wire resp)"
  by (simp add: response_to_wire_def)

lemma read_response:
  "read_reply n oper (Some (RJson (response_to_wire (response_ok (JStr u) data)))) = as_call_result (Inr data)"
  "read_reply n oper (Some (RJson (response_to_wire (response_fail (JStr u) (str_aexn e))))) = as_call_result (Inl e)"
  by (simp_all add: read_reply_def from_wire_def response_to_wire_def response_ok_def response_fail_def jget_def truthy_def
      as_call_result_def error_text_def)

lemma truthy_empty: "\<not> truthy (JObj [])"
  by (simp add: truthy_def)

text \<open>
  C10. A remote call means what the handler does. Let a node's process run the agent and answer with the frames it sends when the
  text of the command arrives, within the call's time limit. Then \<open>send_operation\<close> on the controller ends exactly as
  the handler on the node does: with the handler's data, or with \<open>AgentOperationFailed\<close> carrying the text of the handler's
  exception. The command and the response go through the JSON text on both sides.
\<close>

theorem remote_call_is_handler_call:
  assumes "reachable_node w nk n" and "sched w = []"
    and "redis_lookup w (response_key (uuids w (uuid_next w))) = None"
    and "oper \<noteq> OPEN_CONSOLE" and "wf_json payload \<and> uuids w (uuid_next w) \<noteq> ''''"
    and "agent_env w (uuid n) (length (rpcs w)) (to_wire (mk_request w oper rid payload)) =
      map (\<lambda>f. (delay, f)) (agent_frames dump cfg a (to_wire (mk_request w oper rid payload)))"
    and "delay + 200 < rpc_seconds w timeout * 1000"
    and "\<forall>data. fst (run_operation dump cfg oper (if truthy payload then payload else JObj []) rid (ap_host a)) = Inr data \<longrightarrow> wf_json data"
  shows "fst (send_operation nk oper rid payload timeout w) =
    as_call_result (fst (run_operation dump cfg oper (if truthy payload then payload else JObj []) rid (ap_host a)))"
proof -
  define q where "q = mk_request w oper rid payload"
  define u where "u = uuids w (uuid_next w)"
  define r where "r = \<lparr> rq_request_id = JStr u, rq_operation = oper, rq_resource_id = JStr rid, rq_payload = (if truthy payload then payload else JObj []) \<rparr>"
  define res where "res = fst (run_operation dump cfg oper (if truthy payload then payload else JObj []) rid (ap_host a))"
  have req: "is_request (dumps (to_wire q)) r"
    using controller_request [of q] assms(5) by (cases "truthy payload") (simp_all add: q_def mk_request_def r_def u_def truthy_empty)
  have d: "fst (dispatcher_run dump cfg r a) = res" using dispatcher_operation [of r rid] assms(4) by (simp add: r_def res_def)
  have rid: "rq_request_id r = JStr u" by (simp add: r_def)
  obtain resp a' where rcv: "receive_message dump cfg (dumps (to_wire q)) a = (Inr (), a')" "ap_sent a' = ap_sent a @ [response_to_wire resp]"
    and resp: "resp = (case res of Inr data \<Rightarrow> response_ok (JStr u) data | Inl e \<Rightarrow> response_fail (JStr u) (str_aexn e))"
    using receive_request [OF req, of dump cfg a, unfolded d rid] by blast
  have id: "rsp_request_id resp = JStr u" unfolding resp by (simp add: response_ok_def response_fail_def split: sum.splits)
  have "wf_json (response_to_wire resp)"
    by (rule wf_response [OF id]) (use assms(8) in \<open>auto simp: resp response_ok_def response_fail_def res_def [symmetric] split: sum.splits\<close>)
  then have "agent_frames dump cfg a (to_wire q) = [Some (response_to_wire resp)]"
    using rcv by (simp add: agent_frames_def loads_dumps)
  then have env: "agent_env w (uuid n) (length (rpcs w)) (to_wire (mk_request w oper rid payload)) = [(delay, Some (response_to_wire resp))]"
    using assms(6) by (simp add: q_def)
  have "fst (send_operation nk oper rid payload timeout w) = read_reply n oper (Some (RJson (response_to_wire resp)))"
    using send_operation_answered [OF assms(1-3) env wire_frame(1) [OF id]] wire_frame(2) [OF id] assms(5,7) by (simp add: u_def)
  also have "\<dots> = as_call_result res" by (cases res) (simp_all add: resp read_response)
  finally show ?thesis by (simp add: res_def)
qed

definition ex_agent_world :: world where
  "ex_agent_world = ex_world\<lparr>agent_env := \<lambda>u n wire. map (\<lambda>f. (100, f)) (agent_frames (\<lambda>_. dumps) ex_config ex_proc wire)\<rparr>"

lemma ex_start_handler: "fst (run_operation (\<lambda>_. dumps) ex_config START_VM (JObj []) ''v1'' (ap_host ex_proc)) = Inr (JObj [])"
proof -
  have h: "libvirt_host [''v1'' \<mapsto> False] (sim_libvirt [''v1'' \<mapsto> False])" by (simp add: libvirt_host_def sim_libvirt_def)
  have p: "power_of [''v1'' \<mapsto> False] (sim_libvirt [''v1'' \<mapsto> False]) = [''v1'' \<mapsto> False]" by (simp add: power_of_def sim_libvirt_def)
  from power_handler_run [OF h, where p = PowerOn and u = "''v1''" and payload = JNull] show ?thesis
    by (auto simp: p run_operation_def power_handler_def ex_proc_def)
qed

theorem remote_call_is_handler_call_witness:
  "fst (send_operation (Some 10) START_VM ''v1'' (JObj []) None ex_agent_world) = Inr (JObj [])"
proof -
  have r: "reachable_node ex_agent_world (Some 10) ex_node"
    using ex_reachable redis_lookup_cong [of ex_agent_world ex_world] by (simp add: reachable_node_def is_agent_connected_def ex_agent_world_def)
  have l: "redis_lookup ex_agent_world (response_key (uuids ex_agent_world (uuid_next ex_agent_world))) = None"
    using ex_no_reply redis_lookup_cong [of ex_agent_world ex_world] by (simp add: ex_agent_world_def)
  have "fst (send_operation (Some 10) START_VM ''v1'' (JObj []) None ex_agent_world) =
      as_call_result (fst (run_operation (\<lambda>_. dumps) ex_config START_VM (if truthy (JObj []) then JObj [] else JObj []) ''v1'' (ap_host ex_proc)))"
    by (rule remote_call_is_handler_call [OF r _ l, where delay = 100])
      (use ex_start_handler in \<open>simp_all add: ex_agent_world_def rpc_seconds_def NODEPILOT_def truthy_def ex_uuids\<close>)
  then show ?thesis using ex_start_handler by (simp add: as_call_result_def truthy_def)
qed

subsection \<open>Reconnecting\<close>

lemma backoff_repeat: "b \<le> reconnect_backoff_max_seconds cfg \<Longrightarrow>
  transport_sleeps cfg b (replicate k False) = map (\<lambda>i. min (b * 2 ^ i) (reconnect_backoff_max_seconds cfg)) [0..<k]"
proof (induction k arbitrary: b)
  case (Suc k)
  have "next_backoff cfg b \<le> reconnect_backoff_max_seconds cfg" by (simp add: next_backoff_def)
  moreover have "min (next_backoff cfg b * 2 ^ i) (reconnect_backoff_max_seconds cfg) = min (b * 2 ^ Suc i) (reconnect_backoff_max_seconds cfg)" for i
  proof (cases "b * 2 \<le> reconnect_backoff_max_seconds cfg")
    case True
    then show ?thesis by (simp add: next_backoff_def ac_simps)
  next
    case False
    define m where "m = reconnect_backoff_max_seconds cfg"
    have "m \<le> m * 2 ^ i" "m \<le> b * 2 ^ Suc i" using False mult_le_mono [of m "b * 2" 1 "2 ^ i"] by (auto simp: m_def ac_simps)
    moreover have "next_backoff cfg b = m" using False by (simp add: next_backoff_def m_def)
    ultimately show ?thesis unfolding m_def [symmetric] by (simp only: min_absorb2)
  qed
  moreover have "[0..<Suc k] = 0 # map Suc [0..<k]" by (rule upt_rec [THEN trans]) (simp add: map_Suc_upt)
  ultimately show ?case using Suc.prems Suc.IH [of "next_backoff cfg b"] by (simp add: Let_def o_def)
qed simp

lemma backoff_le: "b \<le> m \<Longrightarrow> reconnect_backoff_seconds cfg \<le> m \<Longrightarrow> reconnect_backoff_max_seconds cfg \<le> m \<Longrightarrow>
  \<forall>s \<in> set (transport_sleeps cfg b as). s \<le> m"
proof (induction as arbitrary: b)
  case (Cons c as)
  then have "next_backoff cfg x \<le> m" for x by (simp add: next_backoff_def min_le_iff_disj)
  with Cons show ?case by (cases c) (simp_all add: Let_def, blast+)
qed simp

text \<open>
  Reconnection backs off exponentially and stays within its limit. The agent never sleeps longer than the configured maximum
  between two attempts; after an attempt that connected, the sleeps of the following failures start again at the initial delay and
  double up to the maximum.
\<close>

theorem reconnect_backoff_bounded:
  assumes "reconnect_backoff_seconds cfg \<le> reconnect_backoff_max_seconds cfg"
  shows "(\<forall>s \<in> set (run_transport cfg attempts). s \<le> reconnect_backoff_max_seconds cfg) \<and>
    run_transport cfg (attempts @ True # replicate k False) = run_transport cfg attempts @
      map (\<lambda>i. min (reconnect_backoff_seconds cfg * 2 ^ i) (reconnect_backoff_max_seconds cfg)) [0..<Suc k]"
proof -
  define b0 where "b0 = reconnect_backoff_seconds cfg"
  have "transport_sleeps cfg b (True # replicate k False) = transport_sleeps cfg b0 (replicate (Suc k) False)" for b
    by (simp add: Let_def b0_def)
  then have "transport_sleeps cfg b (attempts @ True # replicate k False) = transport_sleeps cfg b attempts @ transport_sleeps cfg b0 (replicate (Suc k) False)" for b
    by (induction attempts arbitrary: b) (simp_all add: Let_def del: replicate.simps)
  then show ?thesis using backoff_repeat [OF assms, of "Suc k"] backoff_le [of _ "reconnect_backoff_max_seconds cfg" cfg] assms
    by (simp add: run_transport_def b0_def)
qed

theorem reconnect_backoff_bounded_witness:
  "run_transport ex_config ([] @ True # replicate 5 False) = [2, 4, 8, 16, 32, 60]"
proof -
  have "reconnect_backoff_seconds ex_config \<le> reconnect_backoff_max_seconds ex_config" by (simp add: ex_config_def)
  from reconnect_backoff_bounded [OF this, of "[]" 5] show ?thesis by (simp add: ex_config_def run_transport_def upt_rec)
qed

subsection \<open>The console relay\<close>

fun receive_all :: "(bool \<Rightarrow> json \<Rightarrow> string) \<Rightarrow> agent_config \<Rightarrow> string list \<Rightarrow> unit pop" where
  "receive_all dump cfg [] = returnM ()"
| "receive_all dump cfg (t # ts) = bindM (receive_message dump cfg t) (\<lambda>_. receive_all dump cfg ts)"

fun pump_times :: "nat \<Rightarrow> string \<Rightarrow> unit pop" where
  "pump_times 0 sid = returnM ()"
| "pump_times (Suc n) sid = bindM (pump_inbound sid) (\<lambda>_. pump_times n sid)"

lemma map_of_dict_set: "map_of (dict_set k v d) k' = (if k' = k then Some v else map_of d k')"
  by (induction d) auto

lemma dict_set_twice: "dict_set k v (dict_set k x d) = dict_set k v d"
  by (induction d) auto

lemma dict_set_same: "map_of d k = Some v \<Longrightarrow> dict_set k v d = d"
  by (induction d) (auto split: if_splits)

definition with_session :: "string \<Rightarrow> console_session \<Rightarrow> agent_proc \<Rightarrow> agent_proc" where
  "with_session sid c a = a\<lparr>ap_sessions := dict_set sid c (ap_sessions a)\<rparr>"

lemma with_session_simps [simp]: "map_of (ap_sessions (with_session sid c a)) sid = Some c"
  "with_session sid c' (with_session sid c a) = with_session sid c' a" "ap_sent (with_session sid c a) = ap_sent a"
  by (simp_all add: with_session_def map_of_dict_set dict_set_twice)

text \<open>One frame of the browser's keystrokes, through the text of the channel.\<close>

lemma receive_console_input:
  assumes "map_of (ap_sessions a) sid = Some c"
  shows "receive_message dump cfg (dumps (console_input sid (b64encode x))) a = (Inr (), with_session sid (c\<lparr>con_inbound := con_inbound c @ [x]\<rparr>) a)"
proof -
  have "loads (dumps (console_input sid (b64encode x))) = Some (console_input sid (b64encode x))"
    by (rule loads_dumps) (simp add: console_input_def)
  then show ?thesis using assms
    by (simp add: receive_message_def console_input_def jget_def liftH_def bindM_apply pstr_def pget_def as_str_def feed_input_def with_session_def)
qed

lemma receive_console_inputs:
  assumes "map_of (ap_sessions a) sid = Some c"
  shows "receive_all dump cfg (map (\<lambda>x. dumps (console_input sid (b64encode x))) xs) a =
    (Inr (), with_session sid (c\<lparr>con_inbound := con_inbound c @ xs\<rparr>) a)"
  using assms
proof (induction xs arbitrary: a c)
  case Nil
  then show ?case by (simp add: with_session_def dict_set_same)
next
  case (Cons x xs)
  then show ?case by (simp add: bindM_apply receive_console_input)
qed

lemma pump_all:
  assumes "map_of (ap_sessions a) sid = Some c" and "con_port c \<noteq> None" and "con_inbound c = xs"
  shows "pump_times (length xs) sid a = (Inr (), with_session sid (c\<lparr>con_inbound := [], con_written := con_written c @ concat xs\<rparr>) a)"
  using assms
proof (induction xs arbitrary: a c)
  case Nil
  then have "c\<lparr>con_inbound := []\<rparr> = c" by simp
  with Nil show ?case by (simp add: with_session_def dict_set_same)
next
  case (Cons x xs)
  define c1 where "c1 = c\<lparr>con_inbound := xs, con_written := con_written c @ x\<rparr>"
  have "pump_inbound sid a = (Inr (), with_session sid c1 a)"
    using Cons.prems by (auto simp: pump_inbound_def with_session_def c1_def)
  moreover have "pump_times (length xs) sid (with_session sid c1 a) =
      (Inr (), with_session sid (c1\<lparr>con_inbound := [], con_written := con_written c1 @ concat xs\<rparr>) (with_session sid c1 a))"
    using Cons.prems by (intro Cons.IH) (simp_all add: c1_def)
  ultimately show ?case by (simp add: bindM_apply c1_def)
qed

text \<open>
  Console input arrives unchanged and in order. The binary frames that a browser sends to an open, connected session are
  base64-encoded by the controller, travel as JSON texts on the command channel, and what the agent then writes to the VNC
  server is exactly their concatenation, whatever bytes they hold; no other session and no response is touched.
\<close>

theorem console_input_delivered:
  assumes "map_of (ap_sessions a) sid = Some c" and "con_port c \<noteq> None" and "con_inbound c = []"
  shows "\<exists>a'. bindM (receive_all dump cfg (map (\<lambda>x. dumps (console_input sid (b64encode x))) xs)) (\<lambda>_. pump_times (length xs) sid) a = (Inr (), a') \<and>
    map_of (ap_sessions a') sid = Some (c\<lparr>con_written := con_written c @ concat xs\<rparr>) \<and>
    (\<forall>s. s \<noteq> sid \<longrightarrow> map_of (ap_sessions a') s = map_of (ap_sessions a) s) \<and> ap_sent a' = ap_sent a"
proof -
  define c1 where "c1 = c\<lparr>con_inbound := xs\<rparr>"
  have r: "receive_all dump cfg (map (\<lambda>x. dumps (console_input sid (b64encode x))) xs) a = (Inr (), with_session sid c1 a)"
    using receive_console_inputs [OF assms(1)] assms(3) by (simp add: c1_def)
  have p: "pump_times (length xs) sid (with_session sid c1 a) =
      (Inr (), with_session sid (c1\<lparr>con_inbound := [], con_written := con_written c1 @ concat xs\<rparr>) (with_session sid c1 a))"
    by (rule pump_all) (use assms(2) in \<open>simp_all add: c1_def\<close>)
  have "c1\<lparr>con_inbound := [], con_written := con_written c1 @ concat xs\<rparr> = c\<lparr>con_written := con_written c @ concat xs\<rparr>"
    using assms(3) by (simp add: c1_def)
  with r p show ?thesis by (auto simp: bindM_apply with_session_def map_of_dict_set dict_set_twice)
qed

definition ex_console :: agent_proc where
  "ex_console = ex_proc\<lparr>ap_sessions := [(''s'', \<lparr> con_domain = ''v1'', con_inbound = [], con_port = Some 5900, con_written = '''' \<rparr>)]\<rparr>"

definition ex_session :: console_session where
  "ex_session = \<lparr> con_domain = ''v1'', con_inbound = [], con_port = Some 5900, con_written = '''' \<rparr>"

theorem console_input_delivered_witness:
  "\<exists>a'. bindM (receive_all (\<lambda>_. dumps) ex_config (map (\<lambda>x. dumps (console_input ''s'' (b64encode x))) [''ab'', ''c'']))
      (\<lambda>_. pump_times (length [''ab'', ''c'']) ''s'') ex_console = (Inr (), a') \<and>
    map_of (ap_sessions a') ''s'' = Some (ex_session\<lparr>con_written := ''abc''\<rparr>)"
proof -
  have s: "map_of (ap_sessions ex_console) ''s'' = Some ex_session" "con_port ex_session \<noteq> None" "con_inbound ex_session = []"
    "con_written ex_session @ concat [''ab'', ''c''] = ''abc''"
    by (simp_all add: ex_console_def ex_session_def)
  show ?thesis using console_input_delivered [OF s(1-3), of "\<lambda>_. dumps" ex_config "[''ab'', ''c'']"] unfolding s(4) by blast
qed

text \<open>
  A text frame of the browser can end the agent's command channel. The controller forwards text frames as they are, the agent
  base64-decodes every frame, and the error is raised out of the receive loop: the connection is dropped, for every VM
  of the node, by typing into one console with a client that sends text.
\<close>

theorem text_frame_drops_channel:
  assumes "map_of (ap_sessions a) sid = Some c" and "b64decode t = None"
  shows "\<exists>e. receive_message dump cfg (dumps (console_input sid t)) a = (Inl e, a)"
proof -
  have "loads (dumps (console_input sid t)) = Some (console_input sid t)" by (rule loads_dumps) (simp add: console_input_def)
  then show ?thesis using assms
    by (simp add: receive_message_def console_input_def jget_def liftH_def bindM_apply pstr_def pget_def as_str_def feed_input_def)
qed

theorem text_frame_drops_channel_witness:
  "\<exists>e. receive_message (\<lambda>_. dumps) ex_config (dumps (console_input ''s'' ''ls -l'')) ex_console = (Inl e, ex_console)"
  by (rule text_frame_drops_channel) (simp_all add: ex_console_def b64decode_def b64_val_def dec_loop.simps)

end
