(* ===== verification/AgentMetrics.thy ===== *)
theory AgentMetrics
  imports AgentLoop
begin

section \<open>AgentMetrics: heartbeat and per-VM metrics of the agent\<close>

text \<open>
  \<open>agent/nodepilot_agent/metrics.py\<close>, \<open>heartbeat.py\<close> and \<open>vm_metrics.py\<close>. Figures of psutil and of the platform are
  inputs. The monotonic clock is in milliseconds, a percentage in tenths, computed exactly and rounded half to even; the
  binary rounding of floats is not modelled.
\<close>

subsection \<open>Heartbeat\<close>

record host_figures =
  hf_cpu_percent :: int
  hf_cpu_count :: int
  hf_memory_total :: nat
  hf_memory_available :: nat
  hf_disk_total :: nat
  hf_disk_free :: nat
  hf_load :: "(int \<times> int \<times> int) option"
  hf_bytes_recv :: int
  hf_bytes_sent :: int

definition collect_host_metrics :: "host_figures \<Rightarrow> json" where
  "collect_host_metrics f = (case (case hf_load f of None \<Rightarrow> (0, 0, 0) | Some l \<Rightarrow> l) of (l1, l5, l15) \<Rightarrow> JObj [
     (''cpu'', JObj [(''percent'', JInt (hf_cpu_percent f)), (''count'', JInt (hf_cpu_count f))]),
     (''memory'', JObj [(''total_mb'', JInt (int (hf_memory_total f div (1024 * 1024)))), (''available_mb'', JInt (int (hf_memory_available f div (1024 * 1024))))]),
     (''storage'', JObj [(''total_gb'', JInt (int (hf_disk_total f div 1024 ^ 3))), (''available_gb'', JInt (int (hf_disk_free f div 1024 ^ 3)))]),
     (''load'', JObj [(''load1'', JInt l1), (''load5'', JInt l5), (''load15'', JInt l15)]),
     (''network'', JObj [(''rx_bytes'', JInt (hf_bytes_recv f)), (''tx_bytes'', JInt (hf_bytes_sent f))])])"

definition running_vm_count :: "int aop" where
  "running_vm_count = bindM (getM libvirt_available) (\<lambda>ok. if \<not> ok then returnM 0
     else tryM (bindM lv_connect (\<lambda>_. bindM (lv ListAllDomains) (\<lambda>j. case j of
            JArr xs \<Rightarrow> returnM (int (length xs)) | _ \<Rightarrow> raiseM (ATypeError ''object has no len()''))))
          (\<lambda>e. returnM 0))"

text \<open>\<open>kernel_release\<close>, \<open>machine\<close> and \<open>processor\<close> are the three calls of \<open>platform\<close>.\<close>

definition heartbeat_payload :: "agent_config \<Rightarrow> string \<Rightarrow> string \<Rightarrow> string \<Rightarrow> host_figures \<Rightarrow> json aop" where
  "heartbeat_payload cfg kernel_release machine processor f = bindM running_vm_count (\<lambda>vms. returnM (JObj [
     (''agent_version'', JStr (agent_version cfg)), (''protocol_version'', JStr (protocol_version cfg)),
     (''kernel'', JStr kernel_release), (''architecture'', JStr machine),
     (''cpu'', JObj [(''percent'', JInt (hf_cpu_percent f)), (''count'', JInt (hf_cpu_count f)),
        (''model'', JStr (if processor \<noteq> '''' then processor else ''unknown'')), (''cores'', JInt (hf_cpu_count f)),
        (''sockets'', JInt 1), (''threads'', JInt 1)]),
     (''memory'', case jget ''memory'' (collect_host_metrics f) of Some m \<Rightarrow> m | None \<Rightarrow> JNull),
     (''storage'', case jget ''storage'' (collect_host_metrics f) of Some s \<Rightarrow> s | None \<Rightarrow> JNull),
     (''vms'', JInt vms)]))"

subsection \<open>CPU utilization of a domain\<close>

text \<open>\<open>_DomainCpuTracker\<close>: the last reading of the CPU counter (in nanoseconds) and its time, per domain.\<close>

type_synonym tracker = "(string \<times> (int \<times> int)) list"

definition cpu_tenths :: "int \<Rightarrow> int \<Rightarrow> int \<Rightarrow> int" where
  "cpu_tenths delta_cpu delta_wall nr_virt_cpu = (let num = delta_cpu * 1000; den = delta_wall * 1000000 * max nr_virt_cpu 1 in
     if 1000 * den < num then 1000 else round_half_even num den)"

definition tracker_sample :: "tracker \<Rightarrow> int \<Rightarrow> string \<Rightarrow> int \<Rightarrow> int \<Rightarrow> int option \<times> tracker" where
  "tracker_sample t clk u cpu_time_ns nr_virt_cpu =
     (let t' = dict_set u (cpu_time_ns, clk) t in
      case map_of t u of
        None \<Rightarrow> (None, t')
      | Some (prev_cpu_time_ns, prev_time) \<Rightarrow>
          let delta_wall = clk - prev_time; delta_cpu = cpu_time_ns - prev_cpu_time_ns
          in if delta_wall \<le> 0 then (None, t')
             else if delta_cpu < 0 then (None, t')
             else (Some (cpu_tenths delta_cpu delta_wall nr_virt_cpu), t'))"

definition forget_missing :: "string list \<Rightarrow> tracker \<Rightarrow> tracker" where
  "forget_missing active t = filter (\<lambda>ur. fst ur \<in> set active) t"

record vm_sample =
  sm_domain_uuid :: string
  sm_cpu_percent :: "int option"
  sm_memory_used_mb :: "int option"

definition safely :: "'a aop \<Rightarrow> 'a option aop" where
  "safely m = tryM (bindM m (\<lambda>x. returnM (Some x))) (\<lambda>e. returnM None)"

definition memory_used :: "string \<Rightarrow> int \<Rightarrow> int option aop" where
  "memory_used u mem_kb = bindM (safely (bindM (lv (MemoryStats u)) (\<lambda>ms.
       if pflag ''rss'' ms then bindM (pint ''rss'' ms) (\<lambda>r. returnM (Some (r div 1024))) else returnM None))) (\<lambda>r.
     returnM (case r of Some (Some x) \<Rightarrow> Some x | _ \<Rightarrow> if mem_kb \<noteq> 0 then Some (mem_kb div 1024) else None))"

text \<open>\<open>dom.info()\<close>: memory, number of virtual CPUs and CPU time; \<open>None\<close> when it failed.\<close>

definition domain_reading :: "string \<Rightarrow> (int \<times> int \<times> int) option aop" where
  "domain_reading u = safely (bindM (lv (DomInfo u)) (\<lambda>j. bindM (unpack 5 j) (\<lambda>xs.
     bindM (as_int (xs ! 2)) (\<lambda>mem. bindM (as_int (xs ! 3)) (\<lambda>cpus. bindM (as_int (xs ! 4)) (\<lambda>t. returnM (mem, cpus, t)))))))"

text \<open>The loop of \<open>_collect_samples\<close>; \<open>clk u\<close> is the clock when the domain \<open>u\<close> is sampled.\<close>

fun collect_loop :: "(string \<Rightarrow> int) \<Rightarrow> string list \<Rightarrow> tracker \<Rightarrow> (vm_sample list \<times> string list \<times> tracker) aop" where
  "collect_loop clk [] t = returnM ([], [], t)"
| "collect_loop clk (u # us) t = bindM (is_active u) (\<lambda>a. if \<not> a then collect_loop clk us t
     else bindM (domain_reading u) (\<lambda>r. case r of
       None \<Rightarrow> bindM (collect_loop clk us t) (\<lambda>(ss, act, t'). returnM (ss, u # act, t'))
     | Some (mem_kb, nr_virt_cpu, cpu_time_ns) \<Rightarrow>
         (case tracker_sample t (clk u) u cpu_time_ns nr_virt_cpu of (cpu, t1) \<Rightarrow>
         bindM (memory_used u mem_kb) (\<lambda>mem.
         bindM (collect_loop clk us t1) (\<lambda>(ss, act, t').
         returnM (\<lparr> sm_domain_uuid = u, sm_cpu_percent = cpu, sm_memory_used_mb = mem \<rparr> # ss, u # act, t'))))))"

definition collect_samples :: "(string \<Rightarrow> int) \<Rightarrow> tracker \<Rightarrow> (vm_sample list \<times> tracker) aop" where
  "collect_samples clk t = bindM lv_connect (\<lambda>_. bindM (lv ListAllDomains) (\<lambda>j. case j of
     JArr xs \<Rightarrow> bindM (mapM as_str xs) (\<lambda>us. bindM (collect_loop clk us t) (\<lambda>(ss, act, t'). returnM (ss, forget_missing act t')))
   | _ \<Rightarrow> raiseM (ATypeError ''object is not iterable'')))"

text \<open>What one round of \<open>vm_metrics_loop\<close> posts, if anything.\<close>

definition metrics_round :: "vm_sample list \<Rightarrow> vm_sample list option" where
  "metrics_round samples = (let ss = filter (\<lambda>s. sm_cpu_percent s \<noteq> None \<or> sm_memory_used_mb s \<noteq> None) samples
     in if ss = [] then None else Some ss)"

subsection \<open>Bounds\<close>

lemma round_half_even_bounds:
  assumes "0 \<le> num" and "0 < den" and "num \<le> m * den"
  shows "0 \<le> round_half_even num den \<and> round_half_even num den \<le> m"
proof -
  define q r where "q = num div den" and "r = num mod den"
  have num: "num = q * den + r" and r: "0 \<le> r" "r < den" using assms(2) by (simp_all add: q_def r_def)
  have q0: "0 \<le> q" using assms(1,2) by (simp add: q_def pos_imp_zdiv_nonneg_iff)
  have qm: "q \<le> m" using zdiv_mono1 [OF assms(3), of den] assms(2) by (simp add: q_def)
  have "q + 1 \<le> m" if "0 < r"
  proof (rule ccontr)
    assume "\<not> q + 1 \<le> m"
    then have "q = m" using qm by simp
    then show False using num that assms(3) by simp
  qed
  moreover have "round_half_even num den = q \<or> (0 < r \<and> round_half_even num den = q + 1)"
    using assms(2) unfolding round_half_even_def Let_def q_def [symmetric] r_def [symmetric] by auto
  ultimately show ?thesis using q0 qm by auto
qed

lemma cpu_tenths_bounds: "0 \<le> delta_cpu \<Longrightarrow> 0 < delta_wall \<Longrightarrow> 0 \<le> cpu_tenths delta_cpu delta_wall n \<and> cpu_tenths delta_cpu delta_wall n \<le> 1000"
  unfolding cpu_tenths_def Let_def using round_half_even_bounds [of "delta_cpu * 1000" "delta_wall * 1000000 * max n 1" 1000]
  by (auto simp: zero_less_mult_iff)

definition percent_ok :: "int option \<Rightarrow> bool" where
  "percent_ok p = (case p of None \<Rightarrow> True | Some x \<Rightarrow> 0 \<le> x \<and> x \<le> 1000)"

lemma tracker_sample_ok: "tracker_sample t clk u cpu n = (p, t') \<Longrightarrow>
  percent_ok p \<and> (map_of t u = None \<longrightarrow> p = None) \<and> (\<forall>v. v \<noteq> u \<longrightarrow> map_of t' v = map_of t v)"
  by (auto simp: tracker_sample_def Let_def percent_ok_def cpu_tenths_bounds map_of_dict_set split: option.splits prod.splits if_splits)

lemma collect_loop_ok:
  assumes "collect_loop clk us t h = (Inr (ss, act, t'), h')" and "distinct us"
  shows "(\<forall>s \<in> set ss. percent_ok (sm_cpu_percent s) \<and> sm_domain_uuid s \<in> set us \<and> (map_of t (sm_domain_uuid s) = None \<longrightarrow> sm_cpu_percent s = None)) \<and>
    set act \<subseteq> set us"
  using assms
proof (induction us arbitrary: t h ss act)
  case (Cons u us)
  from Cons.prems(1) obtain a h1 where a: "is_active u h = (Inr a, h1)"
    and k: "(if \<not> a then collect_loop clk us t else bindM (domain_reading u) (\<lambda>r. case r of
       None \<Rightarrow> bindM (collect_loop clk us t) (\<lambda>(ss, act, t'). returnM (ss, u # act, t'))
     | Some (mem_kb, nr_virt_cpu, cpu_time_ns) \<Rightarrow>
         (case tracker_sample t (clk u) u cpu_time_ns nr_virt_cpu of (cpu, t1) \<Rightarrow>
         bindM (memory_used u mem_kb) (\<lambda>mem.
         bindM (collect_loop clk us t1) (\<lambda>(ss, act, t').
         returnM (\<lparr> sm_domain_uuid = u, sm_cpu_percent = cpu, sm_memory_used_mb = mem \<rparr> # ss, u # act, t')))))) h1 = (Inr (ss, act, t'), h')"
    by (auto elim!: bindM_InrE)
  show ?case
  proof (cases a)
    case False
    then show ?thesis using Cons.IH [of t h1 ss act] k Cons.prems(2) by auto
  next
    case True
    then obtain r h2 where k2: "(case r of
       None \<Rightarrow> bindM (collect_loop clk us t) (\<lambda>(ss, act, t'). returnM (ss, u # act, t'))
     | Some (mem_kb, nr_virt_cpu, cpu_time_ns) \<Rightarrow>
         (case tracker_sample t (clk u) u cpu_time_ns nr_virt_cpu of (cpu, t1) \<Rightarrow>
         bindM (memory_used u mem_kb) (\<lambda>mem.
         bindM (collect_loop clk us t1) (\<lambda>(ss, act, t').
         returnM (\<lparr> sm_domain_uuid = u, sm_cpu_percent = cpu, sm_memory_used_mb = mem \<rparr> # ss, u # act, t'))))) h2 = (Inr (ss, act, t'), h')"
      using k by (auto elim!: bindM_InrE)
    show ?thesis
    proof (cases r)
      case None
      then obtain act1 where "collect_loop clk us t h2 = (Inr (ss, act1, t'), h')" "act = u # act1" using k2 by (auto elim!: bindM_InrE)
      then show ?thesis using Cons.IH [of t h2 ss act1] Cons.prems(2) by auto
    next
      case (Some m)
      obtain mem_kb n cpu_ns where m: "m = (mem_kb, n, cpu_ns)" by (cases m) auto
      obtain cpu t1 where ts: "tracker_sample t (clk u) u cpu_ns n = (cpu, t1)" by fastforce
      obtain mem h3 ss1 act1 where c: "collect_loop clk us t1 h3 = (Inr (ss1, act1, t'), h')" "act = u # act1"
        "ss = \<lparr> sm_domain_uuid = u, sm_cpu_percent = cpu, sm_memory_used_mb = mem \<rparr> # ss1"
        using k2 Some m ts by (auto elim!: bindM_InrE)
      then show ?thesis using Cons.IH [OF c(1)] Cons.prems(2) tracker_sample_ok [OF ts] by auto
    qed
  qed
qed simp

text \<open>
  C32. Reported CPU utilization is a percentage of the VM's own CPUs. Every sample of a collection round carries no figure or one between
  0 and 100 percent (0 and 1000 tenths), whatever counters libvirt returns, also when a counter jumps or runs backwards; a domain that
  was not seen before has none; and afterwards only domains that libvirt listed are still tracked.
\<close>

theorem vm_samples_bounded:
  assumes "collect_samples clk t h = (Inr (ss, t'), h')"
    and "lv ListAllDomains (snd (lv_connect h)) = (Inr (jstrs us), h1)" and "distinct us"
  shows "(\<forall>s \<in> set ss. percent_ok (sm_cpu_percent s) \<and> (map_of t (sm_domain_uuid s) = None \<longrightarrow> sm_cpu_percent s = None)) \<and>
    fst ` set t' \<subseteq> set us"
proof -
  have us: "mapM as_str (map JStr us) g = (Inr us, g)" for g by (induction us) (simp_all add: as_str_def bindM_apply)
  from assms(1,2) obtain act t1 where "collect_loop clk us t h1 = (Inr (ss, act, t1), h')" "t' = forget_missing act t1"
    by (auto simp: collect_samples_def jstrs_def bindM_apply us split: prod.splits sum.splits)
  then show ?thesis using collect_loop_ok [OF _ assms(3)] by (fastforce simp: forget_missing_def)
qed

text \<open>A node with one running domain, read twice a second apart: half of its two CPUs were busy.\<close>

definition ex_metrics_host :: host where
  "ex_metrics_host = \<lparr> trace = [], respond = (\<lambda>_ c. case c of Lv ListAllDomains \<Rightarrow> Res (jstrs [''d1''])
     | Lv (DomInfo u) \<Rightarrow> Res (JArr [JInt 1, JInt 2048, JInt 2048, JInt 2, JInt 1000000000]) | Lv (MemoryStats u) \<Rightarrow> Raised ''no balloon''
     | _ \<Rightarrow> Res (JBool True)), libvirt_available = True, lv_conn = True \<rparr>"

lemma ex_metrics_run:
  "collect_samples (\<lambda>_. 1000) [(''d1'', (0, 0))] ex_metrics_host =
     (Inr ([\<lparr> sm_domain_uuid = ''d1'', sm_cpu_percent = Some 500, sm_memory_used_mb = Some 2 \<rparr>], [(''d1'', (1000000000, 1000))]),
      snd (collect_samples (\<lambda>_. 1000) [(''d1'', (0, 0))] ex_metrics_host))"
  by (simp add: collect_samples_def lv_connect_def require_libvirt_def lv_def ex_metrics_host_def jstrs_def is_active_def domain_reading_def
      memory_used_def safely_def tryM_apply bindM_apply truthy_def as_str_def as_int_def unpack_def tracker_sample_def cpu_tenths_def
      round_half_even_def forget_missing_def)

theorem vm_samples_bounded_witness:
  "collect_samples (\<lambda>_. 1000) [(''d1'', (0, 0))] ex_metrics_host =
     (Inr ([\<lparr> sm_domain_uuid = ''d1'', sm_cpu_percent = Some 500, sm_memory_used_mb = Some 2 \<rparr>], [(''d1'', (1000000000, 1000))]),
      snd (collect_samples (\<lambda>_. 1000) [(''d1'', (0, 0))] ex_metrics_host)) \<and> percent_ok (Some 500)"
proof -
  have l: "lv ListAllDomains (snd (lv_connect ex_metrics_host)) = (Inr (jstrs [''d1'']), snd (lv ListAllDomains (snd (lv_connect ex_metrics_host))))"
    by (simp add: lv_connect_def require_libvirt_def lv_def ex_metrics_host_def bindM_apply truthy_def)
  from vm_samples_bounded [OF ex_metrics_run l] show ?thesis using ex_metrics_run by simp
qed

end
