(* ===== verification/Rest.thy ===== *)
theory Rest
  imports Tokens
begin

section \<open>Rest: the view handlers\<close>

text \<open>
  The methods of the REST viewsets between the permission check and the service call, and the validation the serializers
  add to their declared fields. Two pieces of Django REST framework are arguments: \<open>get_object\<close>, the lookup of the
  object the URL names (its permission decision is \<open>Access.has_object_permission\<close>), and the field-by-field conversion
  of a request body, whose outcome is the record of validated data or the exception it raises. A uuid in a request is a
  string; one that is not the uuid of a row finds nothing.
\<close>

type_synonym response = "nat \<times> json"

record api_request =
  ar_user :: "nat \<times> user"
  ar_ip :: "string option"
  ar_query :: "(string \<times> string) list"
  ar_data :: json
  ar_idempotency_key :: string

abbreviation ar_by :: "api_request \<Rightarrow> nat option" where
  "ar_by rq \<equiv> Some (fst (ar_user rq))"

definition log_from_request :: "api_request \<Rightarrow> string \<Rightarrow> string \<Rightarrow> string \<Rightarrow> nat \<Rightarrow> json \<Rightarrow> unit op" where
  "log_from_request rq act rtype rid org metadata =
     bindM (log_action (ar_by rq) (usr_username (snd (ar_user rq))) act rtype rid (Some org) (ar_ip rq) AR_SUCCESS metadata) (\<lambda>_. returnM ())"

definition bad_request :: "string \<Rightarrow> response" where
  "bad_request msg = (400, envelope ''VALIDATION_FAILED'' msg (JObj []))"

definition not_found :: "string \<Rightarrow> response" where
  "not_found msg = (404, envelope ''NOT_FOUND'' msg (JObj []))"

definition queued :: "job \<Rightarrow> response" where
  "queued j = (202, JObj [(''job_id'', JStr (uuid j)), (''status'', JStr ''queued'')])"

text \<open>\<open>request.data.get(k)\<close> where the source expects a text; anything else counts as absent.\<close>

definition data_text :: "api_request \<Rightarrow> string \<Rightarrow> string" where
  "data_text rq k = (case jget k (ar_data rq) of Some (JStr s) \<Rightarrow> s | _ \<Rightarrow> '''')"

definition find_uuid :: "'a nodepilot_model_scheme table \<Rightarrow> string \<Rightarrow> (nat \<times> 'a nodepilot_model_scheme) option" where
  "find_uuid t u = (if u = '''' then None else by_uuid t u)"

text \<open>\<open>bool(request.data.get(k, False))\<close>.\<close>

definition data_flag :: "api_request \<Rightarrow> string \<Rightarrow> bool \<Rightarrow> bool" where
  "data_flag rq k dflt = (case jget k (ar_data rq) of None \<Rightarrow> dflt | Some j \<Rightarrow> truthy j)"

text \<open>\<open>int(...)\<close> on a JSON value: white space around the digits and single underscores between them are allowed.\<close>

definition int_of_text :: "string \<Rightarrow> int option" where
  "int_of_text s = (let t = rev (dropWhile is_space (rev (dropWhile is_space s)));
        neg = (take 1 t = ''-''); r = (if neg \<or> take 1 t = ''+'' then drop 1 t else t); ps = split_on CHR ''_'' r
     in if list_all (\<lambda>p. p \<noteq> [] \<and> list_all is_digit p) ps
        then Some (if neg then - int (digits_val 0 (concat ps)) else int (digits_val 0 (concat ps))) else None)"

definition py_int :: "json \<Rightarrow> int op" where
  "py_int j = (case j of
     JInt i \<Rightarrow> returnM i
   | JBool b \<Rightarrow> returnM (if b then 1 else 0)
   | JStr s \<Rightarrow> (case int_of_text s of Some i \<Rightarrow> returnM i | None \<Rightarrow> raiseM (ValueError (''invalid literal for int() with base 10: '' @ quoted s)))
   | _ \<Rightarrow> raiseM (TypeError ''int() argument must be a string, a bytes-like object or a real number''))"

definition data_int :: "api_request \<Rightarrow> string \<Rightarrow> int op" where
  "data_int rq k = py_int (opt_or (jget k (ar_data rq)) (JInt 0))"

subsection \<open>Virtual machines: validated data\<close>

record disk_data =
  dd_storage :: nat
  dd_name :: "string option"
  dd_size_gb :: nat
  dd_bus :: DiskBus
  dd_bootable :: bool
  dd_format :: string
  dd_readonly :: bool
  dd_discard :: bool
  dd_iothread :: bool

record nic_data =
  nd_network :: nat
  nd_model :: NicModel
  nd_vlan :: "nat option"
  nd_mac_address :: "string option"
  nd_bootable :: bool
  nd_rate_limit_mbps :: "nat option"

record vm_data =
  vd_name :: string
  vd_project :: "nat \<times> project"
  vd_node :: "nat option"
  vd_template :: "nat option"
  vd_description :: string
  vd_os_type :: string
  vd_firmware :: FirmwareType
  vd_cpu_count :: nat
  vd_memory_mb :: nat
  vd_disks :: "disk_data list"
  vd_nics :: "nic_data list"
  vd_boot_order :: "string list"
  vd_ballooning_enabled :: bool
  vd_cloud_init_enabled :: bool
  vd_cloud_init_config :: json
  vd_autostart :: bool

text \<open>The bounds the fields declare.\<close>

definition disk_fields_ok :: "disk_data \<Rightarrow> bool" where
  "disk_fields_ok d \<longleftrightarrow> dd_size_gb d \<ge> 1 \<and> dd_format d \<in> {''qcow2'', ''raw''} \<and> dd_name d \<noteq> Some ''''"

definition nic_fields_ok :: "nic_data \<Rightarrow> bool" where
  "nic_fields_ok n \<longleftrightarrow> (case nd_rate_limit_mbps n of None \<Rightarrow> True | Some r \<Rightarrow> r \<ge> 1)"

definition vm_fields_ok :: "vm_data \<Rightarrow> bool" where
  "vm_fields_ok v \<longleftrightarrow> vd_name v \<noteq> '''' \<and> length (vd_name v) \<le> 255 \<and> 1 \<le> vd_cpu_count v \<and> vd_cpu_count v \<le> 256 \<and> 128 \<le> vd_memory_mb v \<and>
     list_all disk_fields_ok (vd_disks v) \<and> list_all nic_fields_ok (vd_nics v) \<and>
     list_all (\<lambda>b. b \<in> {''disk'', ''cdrom'', ''network''}) (vd_boot_order v)"

definition serializer_organization :: "db \<Rightarrow> api_request \<Rightarrow> nat option" where
  "serializer_organization d rq =
     (let org_id = (case get_nonempty ''organization'' (ar_query rq) of Some u \<Rightarrow> u | None \<Rightarrow> data_text rq ''organization'')
      in map_option fst (find_uuid (organizations d) org_id))"

definition validate_create :: "api_request \<Rightarrow> vm_data \<Rightarrow> vm_data op" where
  "validate_create rq attrs = bindM (getdb (\<lambda>d. serializer_organization d rq)) (\<lambda>org.
     if org = None \<or> Some (prj_organization (snd (vd_project attrs))) \<noteq> org
     then raiseM (DrfExn 400 ''VALIDATION_FAILED'' ''Project does not belong to the target organization.'')
     else returnM attrs)"

definition disk_spec_of :: "disk_data \<Rightarrow> disk_spec" where
  "disk_spec_of d = \<lparr> ds_storage = Some (dd_storage d), ds_size_bytes = int (dd_size_gb d) * 1024 ^ 3, ds_source_image = None,
     ds_name = Some (opt_or (dd_name d) ''''), ds_bus = Some (dd_bus d), ds_format = Some (dd_format d),
     ds_bootable = Some (dd_bootable d), ds_readonly = Some (dd_readonly d), ds_discard = Some (dd_discard d),
     ds_iothread = Some (dd_iothread d) \<rparr>"

definition nic_spec_of :: "nic_data \<Rightarrow> nic_spec" where
  "nic_spec_of n = \<lparr> ns_network = nd_network n,
     ns_mac_address = (case nd_mac_address n of Some m \<Rightarrow> if m = '''' then None else Some m | None \<Rightarrow> None),
     ns_model = Some (nd_model n), ns_vlan = nd_vlan n, ns_rate_limit_mbps = nd_rate_limit_mbps n, ns_bootable = Some (nd_bootable n) \<rparr>"

definition vm_request_of :: "api_request \<Rightarrow> vm_data \<Rightarrow> vm_request" where
  "vm_request_of rq v = \<lparr> vr_organization = prj_organization (snd (vd_project v)), vr_project = fst (vd_project v),
     vr_name = vd_name v, vr_created_by = ar_by rq, vr_node = vd_node v, vr_template = vd_template v,
     vr_cpu_count = vd_cpu_count v, vr_memory_mb = vd_memory_mb v, vr_disks = map disk_spec_of (vd_disks v),
     vr_nics = map nic_spec_of (vd_nics v), vr_os_type = vd_os_type v, vr_firmware = vd_firmware v,
     vr_boot_order = vd_boot_order v, vr_ballooning_enabled = vd_ballooning_enabled v,
     vr_cloud_init_enabled = vd_cloud_init_enabled v, vr_cloud_init_config = vd_cloud_init_config v,
     vr_autostart = vd_autostart v, vr_idempotency_key = ar_idempotency_key rq \<rparr>"

subsection \<open>Virtual machines: actions\<close>

definition log_vm :: "api_request \<Rightarrow> string \<Rightarrow> virtual_machine \<Rightarrow> unit op" where
  "log_vm rq act v = log_from_request rq act ''VirtualMachine'' (uuid v) (vm_organization v) (JObj [])"

definition created :: "virtual_machine \<Rightarrow> job \<Rightarrow> response" where
  "created v j = (201, JObj [(''id'', JStr (uuid v)), (''status'', JStr (show_VMStatus (vm_status v))), (''job_id'', JStr (uuid j))])"

definition vm_create_view :: "api_request \<Rightarrow> vm_data op \<Rightarrow> response op" where
  "vm_create_view rq is_valid = bindM is_valid (\<lambda>attrs. bindM (validate_create rq attrs) (\<lambda>data.
     bindM (create_vm (vm_request_of rq data)) (\<lambda>(vo, jo).
     bindM (log_vm rq ''VM_CREATE'' (snd vo)) (\<lambda>_. returnM (created (snd vo) (snd jo))))))"

definition job_response :: "api_request \<Rightarrow> job_obj \<Rightarrow> string \<Rightarrow> vm_obj \<Rightarrow> response op" where
  "job_response rq jo act vo = bindM (log_vm rq act (snd vo)) (\<lambda>_. returnM (queued (snd jo)))"

definition start_view :: "api_request \<Rightarrow> vm_obj op \<Rightarrow> response op" where
  "start_view rq get_object = bindM get_object (\<lambda>vo. bindM (start_vm vo (ar_by rq)) (\<lambda>jo. job_response rq jo ''VM_START'' vo))"

definition stop_view :: "api_request \<Rightarrow> vm_obj op \<Rightarrow> response op" where
  "stop_view rq get_object = bindM get_object (\<lambda>vo.
     bindM (stop_vm vo (ar_by rq) (data_flag rq ''force'' False)) (\<lambda>jo. job_response rq jo ''VM_STOP'' vo))"

definition reboot_view :: "api_request \<Rightarrow> vm_obj op \<Rightarrow> response op" where
  "reboot_view rq get_object = bindM get_object (\<lambda>vo.
     bindM (reboot_vm vo (ar_by rq) (data_flag rq ''force'' False)) (\<lambda>jo. job_response rq jo ''VM_REBOOT'' vo))"

definition pause_view :: "api_request \<Rightarrow> vm_obj op \<Rightarrow> response op" where
  "pause_view rq get_object = bindM get_object (\<lambda>vo. bindM (pause_vm vo (ar_by rq)) (\<lambda>jo. job_response rq jo ''VM_PAUSE'' vo))"

definition resume_view :: "api_request \<Rightarrow> vm_obj op \<Rightarrow> response op" where
  "resume_view rq get_object = bindM get_object (\<lambda>vo. bindM (resume_vm vo (ar_by rq)) (\<lambda>jo. job_response rq jo ''VM_RESUME'' vo))"

definition destroy_view :: "api_request \<Rightarrow> vm_obj op \<Rightarrow> response op" where
  "destroy_view rq get_object = bindM get_object (\<lambda>vo. bindM (delete_vm vo (ar_by rq)) (\<lambda>jo.
     bindM (log_vm rq ''VM_DELETE'' (snd vo)) (\<lambda>_. returnM (queued (snd jo)))))"

definition clone_view :: "api_request \<Rightarrow> vm_obj op \<Rightarrow> response op" where
  "clone_view rq get_object = bindM get_object (\<lambda>vo.
     let new_name = data_text rq ''name''
     in if new_name = '''' then returnM (bad_request ''name is required'')
        else bindM (clone_vm vo (ar_by rq) new_name (data_flag rq ''linked'' False)) (\<lambda>jo. job_response rq jo ''VM_CLONE'' vo))"

definition migrate_view :: "api_request \<Rightarrow> vm_obj op \<Rightarrow> response op" where
  "migrate_view rq get_object = bindM get_object (\<lambda>vo.
     bindM (getdb (\<lambda>d. find_uuid (nodes d) (data_text rq ''target_node''))) (\<lambda>target. case target of
       None \<Rightarrow> returnM (bad_request ''target_node not found'')
     | Some n \<Rightarrow> bindM (migrate_vm vo n) (\<lambda>_. returnM (202, JNull))))"

text \<open>
  \<open>bus\<close> and \<open>model\<close> are the body's texts, read as the choices they name; nothing in the source checks that they name
  one.
\<close>

definition attach_disk_view :: "api_request \<Rightarrow> vm_obj op \<Rightarrow> DiskBus \<Rightarrow> response op" where
  "attach_disk_view rq get_object bus = bindM get_object (\<lambda>vo.
     bindM (getdb (\<lambda>d. find_uuid (storage_pools d) (data_text rq ''storage''))) (\<lambda>st. case st of
       None \<Rightarrow> returnM (bad_request ''storage not found'')
     | Some (sk, s) \<Rightarrow> bindM (data_int rq ''size_gb'') (\<lambda>size_gb.
         if size_gb \<le> 0 then returnM (bad_request ''size_gb must be positive'')
         else bindM (attach_disk vo sk (nat size_gb) bus (ar_by rq)) (\<lambda>(dsk, jo).
              bindM (log_vm rq ''VM_DISK_ATTACH'' (snd vo)) (\<lambda>_.
              returnM (202, JObj [(''disk_id'', JStr (uuid (snd dsk))), (''job_id'', JStr (uuid (snd jo))), (''status'', JStr ''queued'')]))))))"

text \<open>\<open>vm.disks.filter(uuid=...).first()\<close> and the same for NICs: only rows of this VM.\<close>

definition own_row :: "(nat \<times> 'a nodepilot_model_scheme) list \<Rightarrow> string \<Rightarrow> (nat \<times> 'a nodepilot_model_scheme) option" where
  "own_row rows u = List.find (\<lambda>(k, r). uuid r = u) rows"

definition resize_disk_view :: "api_request \<Rightarrow> vm_obj op \<Rightarrow> string \<Rightarrow> response op" where
  "resize_disk_view rq get_object disk_uuid = bindM get_object (\<lambda>vo.
     bindM (getdb (\<lambda>d. own_row (vm_disks d (fst vo)) disk_uuid)) (\<lambda>x. case x of
       None \<Rightarrow> returnM (not_found ''disk not found'')
     | Some dsk \<Rightarrow> bindM (data_int rq ''size_gb'') (\<lambda>new_size_gb.
         bindM (resize_disk vo dsk new_size_gb (ar_by rq)) (\<lambda>jo.
         bindM (log_vm rq ''VM_DISK_RESIZE'' (snd vo)) (\<lambda>_. returnM (queued (snd jo)))))))"

definition remove_disk_view :: "api_request \<Rightarrow> vm_obj op \<Rightarrow> string \<Rightarrow> response op" where
  "remove_disk_view rq get_object disk_uuid = bindM get_object (\<lambda>vo.
     bindM (getdb (\<lambda>d. own_row (vm_disks d (fst vo)) disk_uuid)) (\<lambda>x. case x of
       None \<Rightarrow> returnM (not_found ''disk not found'')
     | Some dsk \<Rightarrow> bindM (detach_disk vo dsk (ar_by rq)) (\<lambda>jo.
         bindM (log_vm rq ''VM_DISK_DETACH'' (snd vo)) (\<lambda>_. returnM (queued (snd jo))))))"

definition attach_nic_view :: "api_request \<Rightarrow> vm_obj op \<Rightarrow> NicModel \<Rightarrow> nat option \<Rightarrow> nat option \<Rightarrow> response op" where
  "attach_nic_view rq get_object model vlan rate = bindM get_object (\<lambda>vo.
     bindM (getdb (\<lambda>d. find_uuid (networks d) (data_text rq ''network''))) (\<lambda>x. case x of
       None \<Rightarrow> returnM (bad_request ''network not found'')
     | Some (nk, net) \<Rightarrow> bindM (attach_nic vo nk model vlan rate (ar_by rq)) (\<lambda>(nic, jo).
         bindM (log_vm rq ''VM_NIC_ATTACH'' (snd vo)) (\<lambda>_.
         returnM (202, JObj [(''nic_id'', JStr (uuid (snd nic))), (''job_id'', JStr (uuid (snd jo))), (''status'', JStr ''queued'')])))))"

definition remove_nic_view :: "api_request \<Rightarrow> vm_obj op \<Rightarrow> string \<Rightarrow> response op" where
  "remove_nic_view rq get_object nic_uuid = bindM get_object (\<lambda>vo.
     bindM (getdb (\<lambda>d. own_row (vm_nics d (fst vo)) nic_uuid)) (\<lambda>x. case x of
       None \<Rightarrow> returnM (not_found ''nic not found'')
     | Some nic \<Rightarrow> bindM (detach_nic vo nic (ar_by rq)) (\<lambda>jo.
         bindM (log_vm rq ''VM_NIC_DETACH'' (snd vo)) (\<lambda>_. returnM (queued (snd jo))))))"

definition console_view :: "vm_obj op \<Rightarrow> response op" where
  "console_view get_object = bindM get_object (\<lambda>vo. returnM (200, JObj
     [(''websocket_url'', JStr (''/ws/console/'' @ uuid (snd vo))), (''protocol'', JStr ''nodepilot-console-v1''),
      (''note'', JStr (''Append ?token=<jwt-access-token> to the websocket URL (see apps.authentication.ws_auth); '' @
         ''the relay opens the console on the agent for the duration of the connection.''))]))"

text \<open>\<open>get_throttles\<close>: creating a VM and asking for a console have rates of their own.\<close>

definition vm_throttle_scope :: "string \<Rightarrow> string option" where
  "vm_throttle_scope act = (if act = ''create'' then Some ''vm_create'' else if act = ''console'' then Some ''console_auth'' else None)"

subsection \<open>Templates\<close>

record deploy_data =
  dp_name :: string
  dp_project :: "nat \<times> project"
  dp_node :: "nat option"
  dp_storage :: nat
  dp_network :: nat
  dp_cpu_count :: "nat option"
  dp_memory_mb :: "nat option"
  dp_disk_gb :: "nat option"
  dp_autostart :: bool

definition deploy_request :: "api_request \<Rightarrow> deploy_data \<Rightarrow> template_request" where
  "deploy_request rq d = \<lparr> tr_project = fst (dp_project d), tr_name = dp_name d, tr_storage = dp_storage d, tr_network = dp_network d,
     tr_created_by = ar_by rq, tr_node = dp_node d, tr_cpu_count = dp_cpu_count d, tr_memory_mb = dp_memory_mb d,
     tr_disk_gb = dp_disk_gb d, tr_autostart = dp_autostart d, tr_idempotency_key = ar_idempotency_key rq \<rparr>"

definition deploy_view :: "api_request \<Rightarrow> (nat \<times> template) op \<Rightarrow> deploy_data op \<Rightarrow> response op" where
  "deploy_view rq get_object is_valid = bindM get_object (\<lambda>(tk, t). bindM is_valid (\<lambda>data.
     bindM (create_vm_from_template tk t (deploy_request rq data)) (\<lambda>(vo, jo).
     bindM (log_vm rq ''VM_CREATE_FROM_TEMPLATE'' (snd vo)) (\<lambda>_. returnM (created (snd vo) (snd jo))))))"

subsection \<open>Snapshots\<close>

record snapshot_data =
  sd_vm :: vm_obj
  sd_name :: string
  sd_description :: "string option"

definition snapshot_create_view :: "api_request \<Rightarrow> snapshot_data op \<Rightarrow> response op" where
  "snapshot_create_view rq is_valid = bindM is_valid (\<lambda>data.
     bindM (create_snapshot (sd_vm data) (sd_name data) (opt_or (sd_description data) '''') (ar_by rq)) (\<lambda>jo.
     bindM (log_vm rq ''SNAPSHOT_CREATE'' (snd (sd_vm data))) (\<lambda>_. returnM (queued (snd jo)))))"

text \<open>The audit row of an action on a snapshot or a backup, under the organization of its VM.\<close>

definition log_of_vm :: "api_request \<Rightarrow> string \<Rightarrow> string \<Rightarrow> string \<Rightarrow> nat \<Rightarrow> unit op" where
  "log_of_vm rq act rtype rid vmk = bindM (get_row ''VirtualMachine'' vms vmk) (\<lambda>v.
     log_from_request rq act rtype rid (vm_organization v) (JObj []))"

definition snapshot_destroy_view :: "api_request \<Rightarrow> (nat \<times> snapshot) op \<Rightarrow> response op" where
  "snapshot_destroy_view rq get_object = bindM get_object (\<lambda>so. bindM (delete_snapshot so (ar_by rq)) (\<lambda>jo.
     bindM (log_of_vm rq ''SNAPSHOT_DELETE'' ''Snapshot'' (uuid (snd so)) (snp_vm (snd so))) (\<lambda>_. returnM (queued (snd jo)))))"

definition snapshot_rollback_view :: "api_request \<Rightarrow> (nat \<times> snapshot) op \<Rightarrow> response op" where
  "snapshot_rollback_view rq get_object = bindM get_object (\<lambda>so. bindM (rollback_snapshot so (ar_by rq)) (\<lambda>jo.
     bindM (log_of_vm rq ''SNAPSHOT_ROLLBACK'' ''Snapshot'' (uuid (snd so)) (snp_vm (snd so))) (\<lambda>_. returnM (queued (snd jo)))))"

subsection \<open>Backups\<close>

record backup_data =
  bd_vm :: vm_obj
  bd_target :: nat
  bd_type :: BackupType

definition backup_create_view :: "api_request \<Rightarrow> backup_data op \<Rightarrow> response op" where
  "backup_create_view rq is_valid = bindM is_valid (\<lambda>data.
     bindM (create_backup (bd_vm data) (bd_target data) (bd_type data) (ar_by rq)) (\<lambda>jo.
     bindM (log_vm rq ''BACKUP_CREATE'' (snd (bd_vm data))) (\<lambda>_. returnM (queued (snd jo)))))"

definition backup_destroy_view :: "api_request \<Rightarrow> (nat \<times> backup) op \<Rightarrow> response op" where
  "backup_destroy_view rq get_object = bindM get_object (\<lambda>bo. bindM (delete_backup (fst bo)) (\<lambda>_.
     bindM (log_of_vm rq ''BACKUP_DELETE'' ''Backup'' (uuid (snd bo)) (bkp_vm (snd bo))) (\<lambda>_. returnM (204, JNull))))"

definition backup_restore_view :: "api_request \<Rightarrow> (nat \<times> backup) op \<Rightarrow> response op" where
  "backup_restore_view rq get_object = bindM get_object (\<lambda>bo. bindM (restore_backup bo (ar_by rq)) (\<lambda>jo.
     bindM (log_of_vm rq ''BACKUP_RESTORE'' ''Backup'' (uuid (snd bo)) (bkp_vm (snd bo))) (\<lambda>_. returnM (queued (snd jo)))))"

text \<open>\<open>get_serializer_class\<close>: the credentials of a backup target are shown only by the requests that write them.\<close>

definition target_config_view :: "string \<Rightarrow> (string \<times> string) list \<Rightarrow> (string \<times> string) list" where
  "target_config_view act config = (if act \<in> {''create'', ''update'', ''partial_update''} then config else mask_config config)"

text \<open>
  \<open>validate_cron_expression\<close>. \<open>valid i f\<close> is the verdict of the \<open>i\<close>-th field validator of \<open>django_celery_beat\<close> on the
  text \<open>f\<close>.
\<close>

definition CRON_FIELD_NAMES :: "string list" where
  "CRON_FIELD_NAMES = [''minute'', ''hour'', ''day-of-month'', ''month'', ''day-of-week'']"

definition validate_cron_expression :: "(nat \<Rightarrow> string \<Rightarrow> bool) \<Rightarrow> string \<Rightarrow> string op" where
  "validate_cron_expression valid value = (let ws = split_words [] value in
     if length ws \<noteq> 5
     then raiseM (DrfExn 400 ''VALIDATION_FAILED'' ''Expected a standard 5-field cron expression (minute hour day-of-month month day-of-week).'')
     else case List.find (\<lambda>(i, f). \<not> valid i f) (enumerate 0 ws) of
            Some (i, f) \<Rightarrow> raiseM (DrfExn 400 ''VALIDATION_FAILED'' (''Invalid '' @ CRON_FIELD_NAMES ! i @ '' field '' @ quoted f))
          | None \<Rightarrow> returnM value)"

record schedule_data =
  hd_organization :: nat
  hd_vm :: nat
  hd_target :: nat
  hd_backup_type :: BackupType
  hd_cron_expression :: string
  hd_timezone :: "string option"
  hd_retention_days :: "nat option"

definition schedule_perform_create :: "schedule_data \<Rightarrow> nat op" where
  "schedule_perform_create d = create_schedule (hd_organization d) (hd_vm d) (hd_target d) (hd_backup_type d) (hd_cron_expression d)
     (opt_or (hd_timezone d) ''UTC'') (opt_or (hd_retention_days d) 30)"

definition schedule_perform_update :: "nat \<times> backup_schedule \<Rightarrow> schedule_patch \<Rightarrow> unit op" where
  "schedule_perform_update so data = update_schedule so data"

definition schedule_perform_destroy :: "nat \<times> backup_schedule \<Rightarrow> unit op" where
  "schedule_perform_destroy so = delete_schedule so"

subsection \<open>Jobs\<close>

definition cancel_view :: "api_request \<Rightarrow> job_obj op \<Rightarrow> (nat \<times> job) op" where
  "cancel_view rq get_object = bindM get_object (\<lambda>jo. bindM (request_cancel jo) (\<lambda>updated.
     bindM (log_from_request rq ''JOB_CANCEL'' ''Job'' (uuid (snd jo)) (job_organization (snd jo)) (JObj [])) (\<lambda>_.
     returnM (200, updated))))"

subsection \<open>Storage pools\<close>

record pool_data =
  pd_node :: "nat \<times> node"
  pd_name :: string
  pd_type :: StorageType
  pd_path :: string
  pd_shared :: "bool option"
  pd_enabled :: "bool option"
  pd_capabilities :: "StorageCapability list option"

definition pool_perform_create :: "api_request \<Rightarrow> pool_data \<Rightarrow> nat op" where
  "pool_perform_create rq d =
     bindM (create_storage_pool (pd_node d) (pd_name d) (pd_type d) (pd_path d) (opt_or (pd_shared d) False) (opt_or (pd_enabled d) True)
       (opt_or (pd_capabilities d) []) (ar_by rq)) (\<lambda>(k, jo).
     bindM (get_row ''StoragePool'' storage_pools k) (\<lambda>p.
     bindM (log_from_request rq ''STORAGE_POOL_CREATE'' ''StoragePool'' (uuid p) (nod_organization (snd (pd_node d)))
       (JObj [(''job_id'', JStr (uuid (snd jo)))])) (\<lambda>_. returnM k)))"

subsection \<open>Networks\<close>

text \<open>
  \<open>NetworkSerializer\<close>. \<open>SAFE_IFACE\<close> is the pattern \<open>^[A-Za-z0-9][A-Za-z0-9_.-]{0,14}$\<close>, whose \<open>$\<close> also matches before a
  final newline.
\<close>

definition iface_char :: "char \<Rightarrow> bool" where
  "iface_char c \<longleftrightarrow> is_alpha c \<or> is_digit c \<or> c \<in> {CHR ''_'', CHR ''.'', CHR ''-''}"

definition SAFE_IFACE :: "string \<Rightarrow> bool" where
  "SAFE_IFACE s = (let t = (if s \<noteq> [] \<and> last s = CHR 0x0A then butlast s else s) in
     case t of [] \<Rightarrow> False | c # cs \<Rightarrow> (is_alpha c \<or> is_digit c) \<and> length cs \<le> 14 \<and> list_all iface_char cs)"

definition MAX_IFACE_LEN :: nat where
  "MAX_IFACE_LEN = 15"

definition VLAN_BRIDGE_SUFFIX_LEN :: nat where
  "VLAN_BRIDGE_SUFFIX_LEN = length ''.4094b''"

definition validate_bridge :: "string \<Rightarrow> string op" where
  "validate_bridge value = (if \<not> SAFE_IFACE value
     then raiseM (DrfExn 400 ''VALIDATION_FAILED'' ''Bridge name must be a valid Linux interface name (alphanumeric, '.', '-', '_', max 15 characters).'')
     else returnM value)"

definition validate_vlan_id :: "int option \<Rightarrow> int option op" where
  "validate_vlan_id value = (case value of
     None \<Rightarrow> returnM None
   | Some v \<Rightarrow> if \<not> (1 \<le> v \<and> v \<le> 4094) then raiseM (DrfExn 400 ''VALIDATION_FAILED'' ''vlan_id must be between 1 and 4094.'') else returnM value)"

record network_data =
  nw_node :: "nat \<times> node"
  nw_name :: string
  nw_type :: NetworkType
  nw_bridge :: string
  nw_vlan_id :: "int option"
  nw_dhcp_enabled :: "bool option"

definition validate_network :: "network_data \<Rightarrow> network_data op" where
  "validate_network attrs = (case nw_vlan_id attrs of
     None \<Rightarrow> returnM attrs
   | Some v \<Rightarrow> if v \<noteq> 0 \<and> length (nw_bridge attrs) + VLAN_BRIDGE_SUFFIX_LEN > MAX_IFACE_LEN
       then raiseM (DrfExn 400 ''VALIDATION_FAILED'' (''Bridge name is too long to combine with a VLAN id -- max '' @
              show_nat (MAX_IFACE_LEN - VLAN_BRIDGE_SUFFIX_LEN) @ '' characters when vlan_id is set.''))
       else returnM attrs)"

text \<open>The order in which the framework runs them: the field methods, then \<open>validate\<close>.\<close>

definition network_is_valid :: "network_data \<Rightarrow> network_data op" where
  "network_is_valid d = bindM (validate_bridge (nw_bridge d)) (\<lambda>b. bindM (validate_vlan_id (nw_vlan_id d)) (\<lambda>v.
     validate_network (d\<lparr>nw_bridge := b, nw_vlan_id := v\<rparr>)))"

definition network_perform_create :: "api_request \<Rightarrow> network_data \<Rightarrow> nat op" where
  "network_perform_create rq d =
     bindM (create_network (nw_node d) (nw_name d) (nw_type d) (nw_bridge d) (map_option nat (nw_vlan_id d)) (opt_or (nw_dhcp_enabled d) False) (ar_by rq)) (\<lambda>(k, jo).
     bindM (get_row ''Network'' networks k) (\<lambda>nw.
     bindM (log_from_request rq ''NETWORK_CREATE'' ''Network'' (uuid nw) (nod_organization (snd (nw_node d)))
       (JObj [(''job_id'', JStr (uuid (snd jo)))])) (\<lambda>_. returnM k)))"

definition network_destroy_view :: "api_request \<Rightarrow> (nat \<times> network) op \<Rightarrow> response op" where
  "network_destroy_view rq get_object = bindM get_object (\<lambda>nwo. bindM (delete_network nwo (ar_by rq)) (\<lambda>jo.
     bindM (get_row ''Node'' nodes (net_node (snd nwo))) (\<lambda>n.
     bindM (log_from_request rq ''NETWORK_DELETE'' ''Network'' (uuid (snd nwo)) (nod_organization n) (JObj [])) (\<lambda>_. returnM (queued (snd jo))))))"

text \<open>
  Addresses. \<open>show\<close> and \<open>parse\<close> are the printer and the parser of the \<open>ipaddress\<close> module for the subnet's family,
  \<open>bits\<close> its width.
\<close>

definition allocate_view :: "api_request \<Rightarrow> (nat \<times> subnet) op \<Rightarrow> (nat \<Rightarrow> string) \<Rightarrow> (nat \<times> ip_address) op" where
  "allocate_view rq get_object show = bindM get_object (\<lambda>(sk, s).
     bindM (allocate_ip sk (show (fst (sub_cidr s)) @ ''/'' @ show_nat (snd (sub_cidr s))) None (data_text rq ''note'')) (\<lambda>ip.
     returnM (201, snd ip)))"

definition reserve_view :: "api_request \<Rightarrow> (nat \<times> subnet) op \<Rightarrow> nat \<Rightarrow> (nat \<Rightarrow> string) \<Rightarrow> (string \<Rightarrow> nat option) \<Rightarrow> (nat \<times> ip_address) op" where
  "reserve_view rq get_object bits show parse = bindM get_object (\<lambda>so.
     let address = data_text rq ''address''
     in if address = '''' then raiseM (DrfExn 400 ''VALIDATION_FAILED'' ''This field is required.'')
        else bindM (reserve_ip bits so show address (parse address) (data_text rq ''note'')) (\<lambda>ip. returnM (201, snd ip)))"

definition release_view :: "(nat \<times> ip_address) op \<Rightarrow> (nat \<times> ip_address) op" where
  "release_view get_object = bindM get_object (\<lambda>(k, a). bindM (release_ip k) (\<lambda>_.
     returnM (200, a\<lparr>adr_state := IP_AVAILABLE, adr_note := ''''\<rparr>)))"

subsection \<open>Nodes and agents\<close>

definition log_node :: "api_request \<Rightarrow> string \<Rightarrow> node \<Rightarrow> json \<Rightarrow> unit op" where
  "log_node rq act n md = log_from_request rq act ''Node'' (uuid n) (nod_organization n) md"

definition maintenance_view :: "api_request \<Rightarrow> (nat \<times> node) op \<Rightarrow> (nat \<times> node) op" where
  "maintenance_view rq get_object = bindM get_object (\<lambda>(nk, n).
     let enabled = data_flag rq ''enabled'' True; st = (if enabled then NA_MAINTENANCE else NA_ACTIVE)
     in bindM (save_row nodes nodes_update nk (\<lambda>x. x\<lparr>nod_admin_state := st\<rparr>)) (\<lambda>_.
        bindM (log_node rq ''NODE_MAINTENANCE_TOGGLE'' n (JObj [(''enabled'', JBool enabled)])) (\<lambda>_.
        returnM (200, n\<lparr>nod_admin_state := st\<rparr>))))"

text \<open>\<open>version\<close> is the setting \<open>CONTROLLER_VERSION\<close>.\<close>

definition register_agent_view :: "(string \<Rightarrow> string) \<Rightarrow> string \<Rightarrow> api_request \<Rightarrow> (nat \<times> node) op \<Rightarrow> response op" where
  "register_agent_view hash version rq get_object = bindM get_object (\<lambda>(nk, n).
     bindM (get_or_create_agent nk) (\<lambda>ak. bindM (get_row ''Agent'' agents ak) (\<lambda>a.
     bindM (case agt_agent_id a of Some i \<Rightarrow> returnM i | None \<Rightarrow> uuid4) (\<lambda>aid.
     bindM (rotate_token hash ak) (\<lambda>raw_token.
     bindM (log_node rq ''AGENT_REGISTER'' n (JObj [])) (\<lambda>_.
     returnM (201, JObj [(''node_id'', JStr (uuid n)), (''agent_id'', JStr aid), (''token'', JStr raw_token),
       (''controller_version'', JStr version)])))))))"

definition revoke_agent_view :: "api_request \<Rightarrow> (nat \<times> node) op \<Rightarrow> (node + response) op" where
  "revoke_agent_view rq get_object = bindM get_object (\<lambda>(nk, n).
     bindM (getdb (\<lambda>d. rows_where (\<lambda>a. agt_node a = nk) (agents d))) (\<lambda>rows. case rows of
       [] \<Rightarrow> returnM (Inr (404, JObj [(''detail'', JStr ''No agent registered for this node.'')]))
     | (ak, a) # _ \<Rightarrow> bindM (revoke_agent ak) (\<lambda>_. bindM (log_node rq ''AGENT_REVOKE'' n (JObj [])) (\<lambda>_. returnM (Inl n)))))"

text \<open>The two endpoints of the agents: \<open>IsAgent\<close> admits a request exactly when the agent token authenticated it.\<close>

definition is_agent :: "(nat \<times> agent) option \<Rightarrow> bool" where
  "is_agent a \<longleftrightarrow> a \<noteq> None"

definition heartbeat_view :: "nat \<times> agent \<Rightarrow> heartbeat op \<Rightarrow> response op" where
  "heartbeat_view ao is_valid = bindM is_valid (\<lambda>hb. bindM (record_heartbeat (fst ao) (snd ao) hb) (\<lambda>n.
     bindM (getM (\<lambda>w. effective_status w (agt_node (snd ao)) n)) (\<lambda>st.
     returnM (200, JObj [(''status'', JStr ''ok''), (''node_status'', JStr (show_NodeStatus st))]))))"

definition vm_metrics_view :: "nat \<times> agent \<Rightarrow> vm_sample list op \<Rightarrow> response op" where
  "vm_metrics_view ao is_valid = bindM is_valid (\<lambda>samples. bindM (record_vm_metrics_batch (snd ao) samples) (\<lambda>recorded.
     returnM (200, JObj [(''status'', JStr ''ok''), (''recorded'', JInt (int recorded))])))"

end
