(* ===== verification/Telemetry.thy ===== *)
theory Telemetry
  imports AgentMetrics Rest
begin

section \<open>Telemetry: from the agent's heartbeat to the node's status\<close>

text \<open>
  The loop of \<open>agent/nodepilot_agent/heartbeat.py\<close> and its other end: what \<open>record_heartbeat\<close> of
  \<open>backend/apps/nodes/services.py\<close> reads of the payload. The HTTP exchange is the argument \<open>post\<close>, the figures of psutil are inputs
  (\<open>None\<close> when collecting them raised), and the stop event is the end of the list of rounds.
\<close>

subsection \<open>The loop\<close>

text \<open>Every exception of a round is logged and swallowed; a rejected heartbeat is logged.\<close>

definition heartbeat_round ::
  "agent_config \<Rightarrow> string \<Rightarrow> string \<Rightarrow> string \<Rightarrow> (json \<Rightarrow> nat aop) \<Rightarrow> host_figures option \<Rightarrow> (json \<times> nat) option aop" where
  "heartbeat_round cfg kernel_release machine processor post figures =
     tryM (case figures of
         None \<Rightarrow> raiseM (ATypeError ''psutil'')
       | Some f \<Rightarrow> bindM (heartbeat_payload cfg kernel_release machine processor f) (\<lambda>payload.
           bindM (post payload) (\<lambda>status. returnM (Some (payload, status)))))
       (\<lambda>e. returnM None)"

fun heartbeat_loop ::
  "agent_config \<Rightarrow> string \<Rightarrow> string \<Rightarrow> string \<Rightarrow> (json \<Rightarrow> nat aop) \<Rightarrow> host_figures option list \<Rightarrow> (json \<times> nat) option list aop" where
  "heartbeat_loop cfg kernel_release machine processor post [] = returnM []"
| "heartbeat_loop cfg kernel_release machine processor post (f # fs) =
     bindM (heartbeat_round cfg kernel_release machine processor post f) (\<lambda>r.
     bindM (heartbeat_loop cfg kernel_release machine processor post fs) (\<lambda>rs. returnM (r # rs)))"

lemma heartbeat_round_total: "\<exists>r h'. heartbeat_round cfg k m p post f h = (Inr r, h')"
  by (auto simp: heartbeat_round_def tryM_def split: prod.split sum.split)

text \<open>The loop survives whatever the host, psutil and the network do: it makes one attempt per round.\<close>

theorem heartbeat_loop_never_dies:
  "\<exists>rs h'. heartbeat_loop cfg k m p post fs h = (Inr rs, h') \<and> length rs = length fs"
proof (induction fs arbitrary: h)
  case (Cons f fs)
  obtain r h1 where "heartbeat_round cfg k m p post f h = (Inr r, h1)" using heartbeat_round_total by blast
  moreover obtain rs h' where "heartbeat_loop cfg k m p post fs h1 = (Inr rs, h')" "length rs = length fs" using Cons.IH by blast
  ultimately show ?case by (simp add: bindM_apply)
qed simp

subsection \<open>The metrics loop\<close>

text \<open>
  \<open>vm_metrics_loop\<close>. The tracker is an object that lives across rounds: when a collection raises, it keeps what was recorded before.
  \<open>tracker_after\<close> is its content at the end of the loop over the domains, however that loop ends.
\<close>

fun tracker_after :: "(string \<Rightarrow> int) \<Rightarrow> string list \<Rightarrow> tracker \<Rightarrow> host \<Rightarrow> tracker" where
  "tracker_after clk [] t h = t"
| "tracker_after clk (u # us) t h = (case is_active u h of
     (Inl e, h1) \<Rightarrow> t
   | (Inr a, h1) \<Rightarrow> if \<not> a then tracker_after clk us t h1
       else (case domain_reading u h1 of
          (Inr (Some (mem_kb, nr_virt_cpu, cpu_time_ns)), h2) \<Rightarrow>
            tracker_after clk us (snd (tracker_sample t (clk u) u cpu_time_ns nr_virt_cpu)) (snd (memory_used u mem_kb h2))
        | (_, h2) \<Rightarrow> tracker_after clk us t h2))"

lemma safely_total: "\<exists>r h'. safely m h = (Inr r, h')"
  by (auto simp: safely_def tryM_apply bindM_apply split: prod.split sum.split)

lemma bind_total: "\<exists>r h'. m h = (Inr r, h') \<Longrightarrow> \<exists>r h'. bindM m (\<lambda>x. returnM (f x)) h = (Inr r, h')"
  by (auto simp: bindM_apply)

lemma memory_used_total: "\<exists>r h'. memory_used u m h = (Inr r, h')"
  unfolding memory_used_def by (rule bind_total) (rule safely_total)

text \<open>Where the loop ends normally, this is the tracker it returns.\<close>

lemma tracker_after_normal:
  "collect_loop clk us t h = (Inr (ss, act, t'), h') \<Longrightarrow> tracker_after clk us t h = t' \<and> (\<forall>s \<in> set ss. percent_ok (sm_cpu_percent s))"
proof (induction us arbitrary: t h ss act)
  case (Cons u us)
  from Cons.prems obtain a h1 where a: "is_active u h = (Inr a, h1)" by (auto elim!: bindM_InrE)
  show ?case
  proof (cases a)
    case False
    then show ?thesis using Cons.prems a Cons.IH by (simp add: bindM_apply)
  next
    case True
    obtain r h2 where r: "domain_reading u h1 = (Inr r, h2)" using safely_total unfolding domain_reading_def by blast
    show ?thesis
    proof (cases r)
      case None
      then show ?thesis using Cons.prems a r True Cons.IH [of t h2] by (auto simp: bindM_apply split: prod.splits sum.splits)
    next
      case (Some x)
      obtain mem n cpu where x: "x = (mem, n, cpu)" by (cases x) auto
      obtain p t1 where ts: "tracker_sample t (clk u) u cpu n = (p, t1)" by fastforce
      obtain mu h3 where mu: "memory_used u mem h2 = (Inr mu, h3)" using memory_used_total by blast
      obtain ss1 act1 where c: "collect_loop clk us t1 h3 = (Inr (ss1, act1, t'), h')"
        "ss = \<lparr> sm_domain_uuid = u, sm_cpu_percent = p, sm_memory_used_mb = mu \<rparr> # ss1"
        using Cons.prems a r True Some x ts mu by (auto simp: bindM_apply split: prod.splits sum.splits)
      then show ?thesis using Cons.IH [OF c(1)] a r True Some x ts mu tracker_sample_ok [OF ts] by simp
    qed
  qed
qed simp

text \<open>One round: the tracker, what was posted if anything, and the host. \<open>clk\<close> is the clock at each sampling.\<close>

definition vm_metrics_round :: "(vm_sample list \<Rightarrow> nat aop) \<Rightarrow> (string \<Rightarrow> int) \<Rightarrow> tracker \<Rightarrow> host \<Rightarrow> vm_sample list option \<times> tracker \<times> host" where
  "vm_metrics_round post clk t h = (case bindM lv_connect (\<lambda>_. bindM (lv ListAllDomains) (\<lambda>j. case j of JArr xs \<Rightarrow> mapM as_str xs | _ \<Rightarrow> raiseM (ATypeError ''object is not iterable''))) h of
     (Inl e, h1) \<Rightarrow> (None, t, h1)
   | (Inr us, h1) \<Rightarrow> (case collect_loop clk us t h1 of
        (Inl e, h2) \<Rightarrow> (None, tracker_after clk us t h1, h2)
      | (Inr (ss, act, t'), h2) \<Rightarrow> (case metrics_round ss of
           None \<Rightarrow> (None, forget_missing act t', h2)
         | Some batch \<Rightarrow> (Some batch, forget_missing act t', snd (post batch h2)))))"

fun vm_metrics_loop :: "(vm_sample list \<Rightarrow> nat aop) \<Rightarrow> (string \<Rightarrow> int) list \<Rightarrow> tracker \<Rightarrow> host \<Rightarrow> vm_sample list option list \<times> tracker \<times> host" where
  "vm_metrics_loop post [] t h = ([], t, h)"
| "vm_metrics_loop post (clk # clks) t h = (case vm_metrics_round post clk t h of (b, t1, h1) \<Rightarrow>
     (case vm_metrics_loop post clks t1 h1 of (bs, t', h') \<Rightarrow> (b # bs, t', h')))"

definition vm_metrics :: "(vm_sample list \<Rightarrow> nat aop) \<Rightarrow> (string \<Rightarrow> int) list \<Rightarrow> host \<Rightarrow> vm_sample list option list \<times> tracker \<times> host" where
  "vm_metrics post clks h = (if \<not> libvirt_available h then ([], [], h) else vm_metrics_loop post clks [] h)"

text \<open>The round is the collection of \<open>AgentMetrics\<close>, where that ends normally.\<close>

lemma vm_metrics_round_collect:
  assumes "collect_samples clk t h = (Inr (ss, t'), h')"
  shows "vm_metrics_round post clk t h = (case metrics_round ss of None \<Rightarrow> (None, t', h') | Some batch \<Rightarrow> (Some batch, t', snd (post batch h')))"
  using assms by (auto simp: vm_metrics_round_def collect_samples_def bindM_apply split: prod.splits sum.splits json.splits option.splits)

lemma vm_metrics_round_ok:
  assumes "vm_metrics_round post clk t h = (Some batch, t', h')"
  shows "batch \<noteq> [] \<and> (\<forall>s \<in> set batch. percent_ok (sm_cpu_percent s) \<and> (sm_cpu_percent s \<noteq> None \<or> sm_memory_used_mb s \<noteq> None))"
  using assms tracker_after_normal
  by (fastforce simp: vm_metrics_round_def metrics_round_def Let_def split: prod.splits sum.splits option.splits if_splits)

text \<open>
  Over the whole life of the agent, whatever libvirt, the host and the network do: there is one round per tick, and whatever is posted is a nonempty batch of
  samples that carry a figure, each CPU figure a percentage.
\<close>

theorem metrics_loop_posts_percentages:
  "vm_metrics_loop post clks t h = (bs, t', h') \<Longrightarrow> length bs = length clks \<and>
     (\<forall>batch. Some batch \<in> set bs \<longrightarrow> batch \<noteq> [] \<and> (\<forall>s \<in> set batch. percent_ok (sm_cpu_percent s) \<and> (sm_cpu_percent s \<noteq> None \<or> sm_memory_used_mb s \<noteq> None)))"
proof (induction clks arbitrary: t h bs)
  case (Cons clk clks)
  obtain b t1 h1 where r: "vm_metrics_round post clk t h = (b, t1, h1)" using prod_cases3 by blast
  obtain bs1 t2 h2 where l: "vm_metrics_loop post clks t1 h1 = (bs1, t2, h2)" using prod_cases3 by blast
  then have "bs = b # bs1" "t2 = t'" "h2 = h'" using Cons.prems r by simp_all
  then show ?case using Cons.IH [of t1 h1 bs1] l vm_metrics_round_ok [of post clk t h _ t1 h1] r by auto
qed simp

subsection \<open>The payload as the controller reads it\<close>

definition field_text :: "string \<Rightarrow> json \<Rightarrow> string option" where
  "field_text k j = (case jget k j of Some (JStr s) \<Rightarrow> Some s | _ \<Rightarrow> None)"

definition field_nat :: "string \<Rightarrow> json \<Rightarrow> nat option" where
  "field_nat k j = (case jget k j of Some (JInt i) \<Rightarrow> if 0 \<le> i then Some (nat i) else None | _ \<Rightarrow> None)"

definition section_of :: "string \<Rightarrow> json \<Rightarrow> json" where
  "section_of k j = opt_or (jget k j) (JObj [])"

definition heartbeat_of :: "json \<Rightarrow> heartbeat" where
  "heartbeat_of p = (let cpu = section_of ''cpu'' p; memory = section_of ''memory'' p; storage = section_of ''storage'' p in
     \<lparr> hb_agent_version = opt_or (field_text ''agent_version'' p) '''', hb_protocol_version = opt_or (field_text ''protocol_version'' p) ''1.0'',
       hb_kernel = opt_or (field_text ''kernel'' p) '''', hb_architecture = opt_or (field_text ''architecture'' p) '''',
       hb_cpu_model = field_text ''model'' cpu, hb_cpu_threads = field_nat ''threads'' cpu, hb_cpu_cores = field_nat ''cores'' cpu,
       hb_cpu_sockets = field_nat ''sockets'' cpu, hb_cpu_percent = jget ''percent'' cpu,
       hb_memory_total_mb = field_nat ''total_mb'' memory, hb_memory_available_mb = field_nat ''available_mb'' memory,
       hb_storage_total_gb = field_nat ''total_gb'' storage, hb_storage_available_gb = field_nat ''available_gb'' storage,
       hb_vms = opt_or (field_nat ''vms'' p) 0 \<rparr>)"

lemma heartbeat_of_payload:
  assumes "heartbeat_payload cfg krel mach proc f h = (Inr p, h')" and "0 \<le> hf_cpu_count f"
  shows "hb_agent_version (heartbeat_of p) = agent_version cfg \<and> hb_cpu_cores (heartbeat_of p) = Some (nat (hf_cpu_count f)) \<and>
     hb_memory_total_mb (heartbeat_of p) = Some (hf_memory_total f div (1024 * 1024)) \<and>
     hb_memory_available_mb (heartbeat_of p) = Some (hf_memory_available f div (1024 * 1024)) \<and>
     hb_storage_total_gb (heartbeat_of p) = Some (hf_disk_total f div 1024 ^ 3) \<and>
     hb_storage_available_gb (heartbeat_of p) = Some (hf_disk_free f div 1024 ^ 3)"
  using assms by (auto simp: heartbeat_payload_def collect_host_metrics_def heartbeat_of_def section_of_def field_text_def field_nat_def
      jget_def opt_or_def Let_def nat_div_distrib split: prod.splits elim!: bindM_InrE)

subsection \<open>Ingesting a heartbeat\<close>

text \<open>What does not let time pass: neither the clock nor the settings change.\<close>

definition same_time :: "world \<Rightarrow> world \<Rightarrow> bool" where
  "same_time w w' \<longleftrightarrow> clock w' = clock w \<and> conf w' = conf w"

interpretation tm: frame same_time
  by unfold_locales (simp_all add: same_time_def)

lemma same_time_prims:
  "keeps same_time (moddb f)" "keeps same_time (getdb g)" "keeps same_time now" "keeps same_time uuid4" "keeps same_time (group_send gr m)"
  "keeps same_time fresh_pk" "keeps same_time (enqueue c)" "keeps same_time (metrics_record k s)"
  by (simp_all add: keeps_def same_time_def group_send_def fresh_pk_apply enqueue_def metrics_record_def)

lemma same_time_emit: "keeps same_time (emit_event ty sev rt rid org actor md)"
  unfolding emit_event_def event_broadcast_def dispatch_event_def create_delivery_def Let_def
  by (intro tm.keeps_rules same_time_prims)

lemma emit_event_keeps:
  "\<exists>e w'. emit_event ty sev rt rid org actor md w = (Inr e, w') \<and> nodes (wdb w') = nodes (wdb w) \<and> agents (wdb w') = agents (wdb w) \<and>
     clock w' = clock w \<and> conf w' = conf w"
proof -
  obtain e w' where run: "emit_event ty sev rt rid org actor md w = (Inr e, w')" using emit_event_run by blast
  then show ?thesis using same_onD [OF t_nodes.so_emit_event run] same_onD [OF t_agents.so_emit_event run] keepsD [OF same_time_emit run]
    by (simp add: same_time_def)
qed

text \<open>A heartbeat of a supported version ends normally, and writes the node's and the agent's row.\<close>

lemma record_heartbeat_run:
  assumes "\<not> tuple_less (version_tuple (hb_agent_version hb)) (version_tuple (MIN_SUPPORTED_AGENT_VERSION (conf w)))"
    and "row_get (agt_node a) (nodes (wdb w)) = Some n" and "row_get ak (agents (wdb w)) = Some a"
  shows "\<exists>w'. record_heartbeat ak a hb w = (Inr (heartbeat_node hb (clock w) n), w') \<and> clock w' = clock w \<and> conf w' = conf w \<and>
     nodes (wdb w') = row_mod (agt_node a) (\<lambda>_. heartbeat_node hb (clock w) n) (nodes (wdb w)) \<and>
     agents (wdb w') = row_mod ak (\<lambda>r. r\<lparr>agt_last_heartbeat_at := Some (clock w), agt_protocol_version := hb_protocol_version hb\<rparr>) (agents (wdb w))"
proof -
  let ?n = "heartbeat_node hb (clock w) n"
  let ?w1 = "db_upd (\<lambda>d. d\<lparr>nodes := row_mod (agt_node a) (\<lambda>_. ?n) (nodes d)\<rparr>) w"
  let ?w2 = "db_upd (agents_update (row_mod ak (\<lambda>r. r\<lparr>agt_last_heartbeat_at := Some (clock w), agt_protocol_version := hb_protocol_version hb\<rparr>))) ?w1"
  obtain w3 where w3: "record_node_sample ?n hb ?w2 = (Inr (), w3)" "wdb w3 = wdb ?w2" "clock w3 = clock w" "conf w3 = conf w"
    by (simp add: record_node_sample_def metrics_record_def)
  obtain e w4 where w4: "emit_event ''NODE_ONLINE'' EV_INFO ''Node'' (uuid ?n) (nod_organization ?n) None [(''hostname'', JStr (nod_hostname ?n))] w3 = (Inr e, w4)"
    "nodes (wdb w4) = nodes (wdb w3)" "agents (wdb w4) = agents (wdb w3)" "clock w4 = clock w3" "conf w4 = conf w3"
    using emit_event_keeps by blast
  have check: "check_agent_version_compatible (hb_agent_version hb) w = (Inr (), w)"
    using assms(1) by (simp add: check_agent_version_compatible_def)
  show ?thesis using assms(2,3) w3 w4
    by (simp add: record_heartbeat_def atomicM_def bindM_apply check get_row_apply save_row_apply Let_def moddb_def tryM_apply broadcast_node_status_def
        group_send_def split: if_split)
qed

lemma rows_where_mod:
  assumes "\<And>r. P (f r) = P r"
  shows "rows_where P (row_mod k f t) = row_mod k f (rows_where P t)"
  unfolding rows_where_def row_mod_def filter_map
  by (rule arg_cong [where f = "map _"], rule filter_cong) (auto simp: assms split: if_splits)

lemma agent_of_node_mod:
  assumes "agent_of_node d nk = Some b" and "\<And>r. agt_node (f r) = agt_node r \<and> agt_status (f r) = agt_status r"
    and "agents d' = row_mod ak f (agents d)"
  shows "\<exists>b'. agent_of_node d' nk = Some b' \<and> agt_status b' = agt_status b"
proof -
  have "rows_where (\<lambda>a. agt_node a = nk) (agents d') = row_mod ak f (rows_where (\<lambda>a. agt_node a = nk) (agents d))"
    unfolding assms(3) by (rule rows_where_mod) (simp add: assms(2))
  then show ?thesis using assms(1,2) by (auto simp: agent_of_node_def row_mod_def split: list.splits if_splits)
qed

text \<open>A node that was seen and whose agent is active is online for half the threshold.\<close>

lemma online_since:
  assumes "nod_admin_state n = NA_ACTIVE" and "nod_last_seen n = Some t" and "agent_of_node (wdb w) nk = Some b" and "agt_status b = AS_ACTIVE"
    and "2 * (clock w - t) \<le> OFFLINE_THRESHOLD_SECONDS (conf w) * 1000"
  shows "effective_status w nk n = NS_ONLINE"
proof -
  have "2 * (int (clock w) - int t) \<le> int (OFFLINE_THRESHOLD_SECONDS (conf w)) * 1000" using assms(5) by (cases "t \<le> clock w") (simp_all add: nat_diff_split)
  then show ?thesis using assms(1-4) by (simp add: effective_status_def Let_def)
qed

text \<open>
  C18. A healthy agent keeps its node online. Take any host of an agent with a supported version, whose token belongs to an active agent
  row of an active node, and any world in which its payload arrives. The request is answered with 200 and \<open>ONLINE\<close>; the node's row then
  carries the host's figures; and as long as the row and the agent stay active and at most half the offline threshold passes, the node stays
  online, whatever else happens, and a sweep does not report it.
\<close>

theorem healthy_agent_stays_online:
  assumes "heartbeat_payload cfg krel mach proc f h = (Inr p, h')" and "0 \<le> hf_cpu_count f"
    and "is_valid w = (Inr (heartbeat_of p), w)"
    and "\<not> tuple_less (version_tuple (agent_version cfg)) (version_tuple (MIN_SUPPORTED_AGENT_VERSION (conf w)))"
    and "row_get (agt_node a) (nodes (wdb w)) = Some n" and "nod_admin_state n = NA_ACTIVE"
    and "row_get ak (agents (wdb w)) = Some a" and "agent_of_node (wdb w) (agt_node a) = Some a" and "agt_status a = AS_ACTIVE"
  shows "\<exists>w' n'. heartbeat_view (ak, a) is_valid w = (Inr (200, JObj [(''status'', JStr ''ok''), (''node_status'', JStr ''ONLINE'')]), w') \<and>
     row_get (agt_node a) (nodes (wdb w')) = Some n' \<and>
     nod_cpu_cores n' = nat (hf_cpu_count f) \<and> nod_memory_available_mb n' = hf_memory_available f div (1024 * 1024) \<and>
     nod_storage_available_gb n' = hf_disk_free f div 1024 ^ 3 \<and>
     (\<forall>v n2 b. row_get (agt_node a) (nodes (wdb v)) = Some n2 \<and> nod_admin_state n2 = NA_ACTIVE \<and> nod_last_seen n2 = nod_last_seen n' \<and>
        agent_of_node (wdb v) (agt_node a) = Some b \<and> agt_status b = AS_ACTIVE \<and>
        2 * (clock v - clock w) \<le> OFFLINE_THRESHOLD_SECONDS (conf v) * 1000 \<longrightarrow>
          effective_status v (agt_node a) n2 = NS_ONLINE \<and> mark_offline_if_stale (agt_node a) n2 v = (Inr False, v))"
proof -
  let ?hb = "heartbeat_of p"
  let ?n = "heartbeat_node ?hb (clock w) n"
  note hb = heartbeat_of_payload [OF assms(1,2)]
  obtain w' where w': "record_heartbeat ak a ?hb w = (Inr ?n, w')" "clock w' = clock w" "conf w' = conf w"
    "nodes (wdb w') = row_mod (agt_node a) (\<lambda>_. ?n) (nodes (wdb w))"
    "agents (wdb w') = row_mod ak (\<lambda>r. r\<lparr>agt_last_heartbeat_at := Some (clock w), agt_protocol_version := hb_protocol_version ?hb\<rparr>) (agents (wdb w))"
    using record_heartbeat_run [of ?hb w a n ak] assms(4,5,7) hb by auto
  obtain b where b: "agent_of_node (wdb w') (agt_node a) = Some b" "agt_status b = AS_ACTIVE"
    using agent_of_node_mod [OF assms(8) _ w'(5)] assms(9) by auto
  have seen: "nod_last_seen ?n = Some (clock w)" "nod_admin_state ?n = NA_ACTIVE" using assms(6) by (simp_all add: heartbeat_node_def)
  have "effective_status w' (agt_node a) ?n = NS_ONLINE" by (rule online_since [OF seen(2,1) b]) (simp add: w'(2))
  then have "heartbeat_view (ak, a) is_valid w = (Inr (200, JObj [(''status'', JStr ''ok''), (''node_status'', JStr ''ONLINE'')]), w')"
    using assms(3) w'(1) by (simp add: heartbeat_view_def bindM_apply)
  moreover have "row_get (agt_node a) (nodes (wdb w')) = Some ?n" using assms(5) by (simp add: w'(4) tbl.get_md)
  moreover have "effective_status v (agt_node a) n2 = NS_ONLINE \<and> mark_offline_if_stale (agt_node a) n2 v = (Inr False, v)"
    if "nod_admin_state n2 = NA_ACTIVE" "nod_last_seen n2 = nod_last_seen ?n" "agent_of_node (wdb v) (agt_node a) = Some b" "agt_status b = AS_ACTIVE"
      "2 * (clock v - clock w) \<le> OFFLINE_THRESHOLD_SECONDS (conf v) * 1000" for v n2 b
    using online_since [of n2 "clock w" v "agt_node a" b] that seen by (simp add: mark_offline_if_stale_def bindM_apply)
  moreover have "nod_cpu_cores ?n = nat (hf_cpu_count f) \<and> nod_memory_available_mb ?n = hf_memory_available f div (1024 * 1024) \<and>
     nod_storage_available_gb ?n = hf_disk_free f div 1024 ^ 3"
    using hb by (simp add: heartbeat_node_def opt_or_def)
  ultimately show ?thesis by (intro exI [of _ w'] exI [of _ ?n]) blast
qed

definition ex_figures :: host_figures where
  "ex_figures = \<lparr> hf_cpu_percent = 7, hf_cpu_count = 8, hf_memory_total = 17179869184, hf_memory_available = 8589934592, hf_disk_total = 1099511627776,
     hf_disk_free = 549755813888, hf_load = None, hf_bytes_recv = 0, hf_bytes_sent = 0 \<rparr>"

definition ex_idle_host :: host where
  "ex_idle_host = \<lparr> trace = [], respond = (\<lambda>_ _. Res JNull), libvirt_available = False, lv_conn = False \<rparr>"

definition ex_heartbeat :: json where
  "ex_heartbeat = (case fst (heartbeat_payload ex_config ''6.1'' ''x86_64'' '''' ex_figures ex_idle_host) of Inr p \<Rightarrow> p | Inl e \<Rightarrow> JNull)"

lemma ex_heartbeat_run: "heartbeat_payload ex_config ''6.1'' ''x86_64'' '''' ex_figures ex_idle_host = (Inr ex_heartbeat, ex_idle_host)"
  by (simp add: ex_heartbeat_def heartbeat_payload_def running_vm_count_def bindM_apply ex_idle_host_def)

theorem healthy_agent_stays_online_witness:
  "\<exists>w' n'. heartbeat_view (11, ex_agent) (returnM (heartbeat_of ex_heartbeat)) ex_world =
       (Inr (200, JObj [(''status'', JStr ''ok''), (''node_status'', JStr ''ONLINE'')]), w') \<and>
     row_get 10 (nodes (wdb w')) = Some n' \<and> nod_cpu_cores n' = 8 \<and> nod_memory_available_mb n' = 8192"
proof -
  have node: "agt_node ex_agent = 10" by (simp add: ex_agent_def)
  have "\<exists>w' n'. heartbeat_view (11, ex_agent) (returnM (heartbeat_of ex_heartbeat)) ex_world =
       (Inr (200, JObj [(''status'', JStr ''ok''), (''node_status'', JStr ''ONLINE'')]), w') \<and>
     row_get (agt_node ex_agent) (nodes (wdb w')) = Some n' \<and> nod_cpu_cores n' = nat (hf_cpu_count ex_figures) \<and>
     nod_memory_available_mb n' = hf_memory_available ex_figures div (1024 * 1024)"
    using healthy_agent_stays_online [OF ex_heartbeat_run, of "returnM (heartbeat_of ex_heartbeat)" ex_world ex_agent ex_node 11]
    by (fastforce simp: ex_figures_def ex_config_def ex_agent_def ex_node_def row_get_def agent_of_node_def rows_where_def version_tuple_def NODEPILOT_def)
  then show ?thesis unfolding node by (simp add: ex_figures_def)
qed

end
