(* ===== verification/Middleware.thy ===== *)
theory Middleware
  imports Access Json
begin

section \<open>Middleware: request ids, idempotent replay and throttling\<close>

text \<open>
  \<open>common/middleware.py\<close>, \<open>common/idempotency.py\<close> and \<open>common/throttling.py\<close>. A middleware wraps the rest of the stack,
  which is an argument \<open>view\<close> here. \<open>hr_user\<close> is the user Django's session middleware found: API tokens and JWTs are
  only checked later, inside the view, so that for them it is \<open>None\<close>. Python's built-in \<open>hash\<close> of a string, salted
  anew in every process, and SHA-256 are arguments. A response with \<open>hs_content = None\<close> is a streaming one, which has no
  \<open>content\<close> attribute.
\<close>

record http_request =
  hr_method :: string
  hr_path :: string
  hr_META :: "(string \<times> string) list"
  hr_user :: "(nat \<times> user) option"

record http_response =
  hs_status :: nat
  hs_headers :: "(string \<times> string) list"
  hs_content :: "string option"

subsection \<open>The request context\<close>

record access_log =
  al_request_id :: string
  al_user_id :: "string option"
  al_operation :: string
  al_result :: string
  al_status_code :: nat

text \<open>\<open>uuid.uuid4().hex\<close> is the uuid without its dashes.\<close>

definition context_request :: "http_request \<Rightarrow> string op" where
  "context_request rq = (case get_nonempty ''HTTP_X_REQUEST_ID'' (hr_META rq) of
     Some rid \<Rightarrow> returnM rid
   | None \<Rightarrow> bindM uuid4 (\<lambda>u. returnM (filter (\<lambda>c. c \<noteq> CHR ''-'') u)))"

definition set_header :: "string \<Rightarrow> string \<Rightarrow> http_response \<Rightarrow> http_response" where
  "set_header k v rs = rs\<lparr>hs_headers := (k, v) # filter (\<lambda>p. fst p \<noteq> k) (hs_headers rs)\<rparr>"

definition context_response :: "string \<Rightarrow> http_request \<Rightarrow> http_response \<Rightarrow> http_response \<times> access_log" where
  "context_response rid rq rs = (set_header ''X-Request-ID'' rid rs,
     \<lparr> al_request_id = rid, al_user_id = map_option (\<lambda>(k, u). uuid u) (hr_user rq),
       al_operation = hr_method rq @ '' '' @ hr_path rq,
       al_result = (if hs_status rs < 400 then ''success'' else ''error''), al_status_code = hs_status rs \<rparr>)"

subsection \<open>The idempotency store\<close>

definition IDEMPOTENT_METHODS :: "string list" where
  "IDEMPOTENT_METHODS = [''POST'', ''PUT'', ''PATCH'']"

definition idempotency_text :: "string \<Rightarrow> string \<Rightarrow> string \<Rightarrow> string \<Rightarrow> string" where
  "idempotency_text p m path key = p @ '':'' @ m @ '':'' @ path @ '':'' @ key"

definition idempotency_cache_key :: "(string \<Rightarrow> string) \<Rightarrow> string \<Rightarrow> string \<Rightarrow> string \<Rightarrow> string \<Rightarrow> string" where
  "idempotency_cache_key sha256 p m path key = ''nodepilot:idempotency:'' @ sha256 (idempotency_text p m path key)"

definition get_cached_response :: "(string \<Rightarrow> string) \<Rightarrow> string \<Rightarrow> string \<Rightarrow> string \<Rightarrow> string \<Rightarrow> json option op" where
  "get_cached_response sha256 p m path key =
     bindM (getM (\<lambda>w. redis_lookup w (idempotency_cache_key sha256 p m path key))) (\<lambda>raw. case raw of
       None \<Rightarrow> returnM None
     | Some (RStr s) \<Rightarrow> (case loads s of Some j \<Rightarrow> returnM (Some j) | None \<Rightarrow> raiseM (ValueError ''Expecting value''))
     | Some _ \<Rightarrow> raiseM (TypeError ''the JSON object must be str, bytes or bytearray''))"

definition store_response :: "(string \<Rightarrow> string) \<Rightarrow> string \<Rightarrow> string \<Rightarrow> string \<Rightarrow> string \<Rightarrow> nat \<Rightarrow> json \<Rightarrow> unit op" where
  "store_response sha256 p m path key st body =
     bindM (getM (\<lambda>w. IDEMPOTENCY_KEY_TTL_SECONDS (conf w))) (\<lambda>ttl.
     modM (redis_put (idempotency_cache_key sha256 p m path key)
       (RStr (dumps (JObj [(''status'', JInt (int st)), (''body'', body)]))) (Some (ttl * 1000))))"

subsection \<open>The idempotency middleware\<close>

definition principal_id :: "(string \<Rightarrow> int) \<Rightarrow> http_request \<Rightarrow> string" where
  "principal_id hash rq = (case hr_user rq of
     Some (uk, u) \<Rightarrow> ''user:'' @ show_nat uk
   | None \<Rightarrow> ''anon:'' @ show_int (hash (opt_or (map_of (hr_META rq) ''HTTP_AUTHORIZATION'') '''')))"

text \<open>\<open>JsonResponse\<close> refuses anything but a dict.\<close>

definition json_response :: "json \<Rightarrow> nat \<Rightarrow> http_response op" where
  "json_response j st = (case j of
     JObj kvs \<Rightarrow> returnM \<lparr> hs_status = st, hs_headers = [(''Content-Type'', ''application/json'')], hs_content = Some (dumps j) \<rparr>
   | _ \<Rightarrow> raiseM (TypeError ''In order to allow non-dict objects to be serialized set the safe parameter to False.''))"

text \<open>
  \<open>process_request\<close>: the replayed response, if there is one, and the attributes \<open>_idempotency_key\<close> and
  \<open>_idempotency_principal\<close> it leaves on the request.
\<close>

definition idempotency_request ::
  "(string \<Rightarrow> string) \<Rightarrow> (string \<Rightarrow> int) \<Rightarrow> http_request \<Rightarrow> (http_response option \<times> (string \<times> string) option) op" where
  "idempotency_request sha256 hash rq =
     (if hr_method rq \<notin> set IDEMPOTENT_METHODS then returnM (None, None)
      else case get_nonempty ''HTTP_IDEMPOTENCY_KEY'' (hr_META rq) of
        None \<Rightarrow> returnM (None, None)
      | Some key \<Rightarrow>
          let p = principal_id hash rq
          in bindM (get_cached_response sha256 p (hr_method rq) (hr_path rq) key) (\<lambda>cached. case cached of
               None \<Rightarrow> returnM (None, Some (key, p))
             | Some c \<Rightarrow> (case (jget ''body'' c, jget ''status'' c) of
                 (Some body, Some (JInt st)) \<Rightarrow> bindM (json_response body (nat st)) (\<lambda>rs.
                    returnM (Some (set_header ''Idempotent-Replay'' ''true'' rs), None))
               | _ \<Rightarrow> raiseM (KeyError ''body''))))"

definition idempotency_response ::
  "(string \<Rightarrow> string) \<Rightarrow> (string \<times> string) option \<Rightarrow> http_request \<Rightarrow> http_response \<Rightarrow> http_response op" where
  "idempotency_response sha256 attrs rq rs = (case attrs of
     None \<Rightarrow> returnM rs
   | Some (key, p) \<Rightarrow>
       if 500 \<le> hs_status rs then returnM rs
       else (case hs_content rs of
         None \<Rightarrow> returnM rs
       | Some c \<Rightarrow>
           if 200 \<le> hs_status rs \<and> hs_status rs < 300
           then (case loads (if c = '''' then ''{}'' else c) of
                   None \<Rightarrow> returnM rs
                 | Some body \<Rightarrow> bindM (store_response sha256 p (hr_method rq) (hr_path rq) key (hs_status rs) body) (\<lambda>_. returnM rs))
           else returnM rs))"

text \<open>\<open>MiddlewareMixin.__call__\<close>: a response from \<open>process_request\<close> takes the place of the view's.\<close>

definition idempotency_call ::
  "(string \<Rightarrow> string) \<Rightarrow> (string \<Rightarrow> int) \<Rightarrow> (http_request \<Rightarrow> http_response op) \<Rightarrow> http_request \<Rightarrow> http_response op" where
  "idempotency_call sha256 hash view rq = bindM (idempotency_request sha256 hash rq) (\<lambda>(early, attrs).
     bindM (case early of Some rs \<Rightarrow> returnM rs | None \<Rightarrow> view rq) (\<lambda>rs.
     idempotency_response sha256 attrs rq rs))"

text \<open>The two middlewares in the order of \<open>MIDDLEWARE\<close>.\<close>

definition handle_request ::
  "(string \<Rightarrow> string) \<Rightarrow> (string \<Rightarrow> int) \<Rightarrow> (http_request \<Rightarrow> http_response op) \<Rightarrow> http_request \<Rightarrow> (http_response \<times> access_log) op" where
  "handle_request sha256 hash view rq = bindM (context_request rq) (\<lambda>rid.
     bindM (idempotency_call sha256 hash view rq) (\<lambda>rs. returnM (context_response rid rq rs)))"

subsection \<open>Throttling\<close>

text \<open>
  What the two throttle classes add to the framework's \<open>SimpleRateThrottle\<close>: the key a request is counted under
  (\<open>None\<close>: not counted) and the exemption of operators. The framework's own decision is an argument.
\<close>

definition throttle_key :: "string \<Rightarrow> string \<Rightarrow> string" where
  "throttle_key scope ident = ''throttle_'' @ scope @ ''_'' @ ident"

definition api_token_cache_key :: "request \<Rightarrow> string option" where
  "api_token_cache_key rq = map_option (\<lambda>t. throttle_key ''api_token'' (tok_hash t)) (rq_token rq)"

definition user_cache_key :: "request \<Rightarrow> string option" where
  "user_cache_key rq = map_option (\<lambda>(uk, u). throttle_key ''user'' (show_nat uk)) (rq_user rq)"

definition admin_exempt_allow :: "(request \<Rightarrow> bool op) \<Rightarrow> request \<Rightarrow> bool op" where
  "admin_exempt_allow allow_request rq = (case rq_user rq of
     Some (uk, u) \<Rightarrow> if usr_is_staff u \<or> usr_is_superuser u then returnM True else allow_request rq
   | None \<Rightarrow> allow_request rq)"

subsection \<open>The key of a stored response\<close>

lemma colon_not_digit: "CHR '':'' \<notin> set (show_nat n)" "CHR '':'' \<notin> set (show_int i)"
  using show_nat_digits [of "CHR '':''"] by (auto simp: is_digit_def show_int_def)

text \<open>A principal is a four-letter kind, a colon and a number.\<close>

lemma principal_shape: "\<exists>kind r. principal_id hash rq = kind @ '':'' @ r \<and> length kind = 4 \<and> CHR '':'' \<notin> set r"
proof (cases "hr_user rq")
  case None
  then show ?thesis using colon_not_digit(2)
    by (intro exI [of _ "''anon''"] exI [of _ "show_int (hash (opt_or (map_of (hr_META rq) ''HTTP_AUTHORIZATION'') ''''))"]) (simp add: principal_id_def)
next
  case (Some p)
  then show ?thesis using colon_not_digit(1)
    by (intro exI [of _ "''user''"] exI [of _ "show_nat (fst p)"]) (simp add: principal_id_def split: prod.split)
qed

lemma method_plain: "m \<in> set IDEMPOTENT_METHODS \<Longrightarrow> CHR '':'' \<notin> set m"
  by (auto simp: IDEMPOTENT_METHODS_def)

text \<open>The text before the first colon of two equal texts is the same.\<close>

lemma first_colon:
  assumes "a @ CHR '':'' # x = b @ CHR '':'' # y" and "CHR '':'' \<notin> set a" and "CHR '':'' \<notin> set b"
  shows "a = b \<and> x = y"
proof -
  have "takeWhile (\<lambda>c. c \<noteq> CHR '':'') (a @ CHR '':'' # x) = a" "takeWhile (\<lambda>c. c \<noteq> CHR '':'') (b @ CHR '':'' # y) = b"
    using assms(2,3) by (subst takeWhile_append2; auto)+
  with assms(1) show ?thesis by simp
qed

text \<open>Principal and method can be read off the text that is hashed; path and key are only kept apart by a colon.\<close>

lemma idempotency_text_inj:
  assumes eq: "idempotency_text (principal_id hash rq) m path key = idempotency_text (principal_id hash' rq') m' path' key'"
    and "m \<in> set IDEMPOTENT_METHODS" and "m' \<in> set IDEMPOTENT_METHODS"
  shows "principal_id hash rq = principal_id hash' rq' \<and> m = m' \<and> path @ '':'' @ key = path' @ '':'' @ key'"
proof -
  have tail: "r = r' \<and> m = m' \<and> path @ '':'' @ key = path' @ '':'' @ key'"
    if "r @ CHR '':'' # m @ CHR '':'' # path @ '':'' @ key = r' @ CHR '':'' # m' @ CHR '':'' # path' @ '':'' @ key'"
      "CHR '':'' \<notin> set r" "CHR '':'' \<notin> set r'" for r r'
  proof -
    have "r = r' \<and> m @ CHR '':'' # path @ '':'' @ key = m' @ CHR '':'' # path' @ '':'' @ key'" by (rule first_colon [OF that])
    moreover from this have "m = m' \<and> path @ '':'' @ key = path' @ '':'' @ key'"
      using method_plain [OF assms(2)] method_plain [OF assms(3)] by (intro first_colon) blast+
    ultimately show ?thesis by blast
  qed
  obtain kind r where p: "principal_id hash rq = kind @ '':'' @ r" "length kind = 4" "CHR '':'' \<notin> set r"
    using principal_shape by blast
  obtain kind' r' where p': "principal_id hash' rq' = kind' @ '':'' @ r'" "length kind' = 4" "CHR '':'' \<notin> set r'"
    using principal_shape by blast
  have "kind = kind' \<and> r @ CHR '':'' # m @ CHR '':'' # path @ '':'' @ key = r' @ CHR '':'' # m' @ CHR '':'' # path' @ '':'' @ key'"
  proof -
    have "kind @ CHR '':'' # r @ CHR '':'' # m @ CHR '':'' # path @ '':'' @ key =
        kind' @ CHR '':'' # r' @ CHR '':'' # m' @ CHR '':'' # path' @ '':'' @ key'"
      using eq by (simp add: idempotency_text_def p(1) p'(1))
    moreover have "length kind = length kind'" using p(2) p'(2) by simp
    ultimately show ?thesis by (simp only: append_eq_append_conv list.inject simp_thms)
  qed
  with tail [of r r'] p(1,3) p'(1,3) show ?thesis by metis
qed

subsection \<open>Replay\<close>

lemma idempotency_call_miss:
  assumes "hr_method rq \<in> set IDEMPOTENT_METHODS" and "get_nonempty ''HTTP_IDEMPOTENCY_KEY'' (hr_META rq) = Some key"
    and "redis_lookup w (idempotency_cache_key sha256 (principal_id hash rq) (hr_method rq) (hr_path rq) key) = None"
  shows "idempotency_call sha256 hash view rq w =
     bindM (view rq) (idempotency_response sha256 (Some (key, principal_id hash rq)) rq) w"
  using assms by (simp add: idempotency_call_def idempotency_request_def get_cached_response_def Let_def bindM_apply)

lemma json_response_obj:
  "json_response (JObj kvs) st w =
     (Inr \<lparr> hs_status = st, hs_headers = [(''Content-Type'', ''application/json'')], hs_content = Some (dumps (JObj kvs)) \<rparr>, w)"
  by (simp add: json_response_def del: dumps.simps)

lemma idempotency_call_hit:
  assumes "hr_method rq \<in> set IDEMPOTENT_METHODS" and "get_nonempty ''HTTP_IDEMPOTENCY_KEY'' (hr_META rq) = Some key"
    and "redis_lookup w (idempotency_cache_key sha256 (principal_id hash rq) (hr_method rq) (hr_path rq) key) =
       Some (RStr (dumps (JObj [(''status'', JInt (int st)), (''body'', JObj kvs)])))"
    and "wf_json (JObj kvs)"
  shows "idempotency_call sha256 hash view rq w =
     (Inr \<lparr> hs_status = st, hs_headers = [(''Idempotent-Replay'', ''true''), (''Content-Type'', ''application/json'')],
            hs_content = Some (dumps (JObj kvs)) \<rparr>, w)"
proof -
  let ?j = "JObj [(''status'', JInt (int st)), (''body'', JObj kvs)]"
  have "loads (dumps ?j) = Some ?j" by (rule loads_dumps) (use assms(4) in simp)
  then show ?thesis
    using assms(1-3) by (simp add: idempotency_call_def idempotency_request_def idempotency_response_def get_cached_response_def Let_def
        bindM_apply jget_def json_response_obj set_header_def del: dumps.simps)
qed

lemma idempotency_response_stores:
  assumes "200 \<le> hs_status rs" and "hs_status rs < 300" and "hs_content rs = Some c"
    and "loads (if c = '''' then ''{}'' else c) = Some body"
  shows "idempotency_response sha256 (Some (key, p)) rq rs w =
     (Inr rs, redis_put (idempotency_cache_key sha256 p (hr_method rq) (hr_path rq) key)
        (RStr (dumps (JObj [(''status'', JInt (int (hs_status rs))), (''body'', body)])))
        (Some (IDEMPOTENCY_KEY_TTL_SECONDS (conf w) * 1000)) w)"
  using assms by (simp add: idempotency_response_def store_response_def bindM_apply del: dumps.simps)

lemma redis_put_until:
  assumes "map_of (redis w2) k = map_of (redis (redis_put k v (Some t) w1)) k" and "clock w2 < clock w1 + t"
  shows "redis_lookup w2 k = Some v"
  using assms by (simp add: redis_lookup_def redis_put_def live_def)

text \<open>
  C15. A retry is replayed, not executed. Suppose a POST, PUT or PATCH with an idempotency key, none of whose responses
  is stored, is answered by the view with a 2xx status and a JSON object. Then any later request of the same principal
  with the same method, path and key, at a time before the configured lifetime is over and with the stored entry still
  in Redis, gets the same status and the same JSON object, marked as a replay, and the state of the system does not
  change at all, whatever the view would have done and even in a process that hashes differently.
\<close>

theorem retry_is_replayed:
  assumes "hr_method rq \<in> set IDEMPOTENT_METHODS" and "get_nonempty ''HTTP_IDEMPOTENCY_KEY'' (hr_META rq) = Some key"
    and "redis_lookup w (idempotency_cache_key sha256 (principal_id hash rq) (hr_method rq) (hr_path rq) key) = None"
    and "view rq w = (Inr rs, w0)" and "200 \<le> hs_status rs" and "hs_status rs < 300" and "hs_content rs = Some c"
    and "loads (if c = '''' then ''{}'' else c) = Some (JObj kvs)"
    and "idempotency_call sha256 hash view rq w = (Inr rs, w1)"
    and "hr_method rq' = hr_method rq" and "hr_path rq' = hr_path rq"
    and "get_nonempty ''HTTP_IDEMPOTENCY_KEY'' (hr_META rq') = Some key" and "principal_id hash' rq' = principal_id hash rq"
    and "map_of (redis w2) (idempotency_cache_key sha256 (principal_id hash rq) (hr_method rq) (hr_path rq) key) =
         map_of (redis w1) (idempotency_cache_key sha256 (principal_id hash rq) (hr_method rq) (hr_path rq) key)"
    and "clock w2 < clock w1 + IDEMPOTENCY_KEY_TTL_SECONDS (conf w1) * 1000"
  shows "\<exists>rs' c'. idempotency_call sha256 hash' view' rq' w2 = (Inr rs', w2) \<and> hs_status rs' = hs_status rs \<and>
     hs_content rs' = Some c' \<and> loads c' = Some (JObj kvs) \<and> (''Idempotent-Replay'', ''true'') \<in> set (hs_headers rs')"
proof -
  let ?k = "idempotency_cache_key sha256 (principal_id hash rq) (hr_method rq) (hr_path rq) key"
  let ?v = "RStr (dumps (JObj [(''status'', JInt (int (hs_status rs))), (''body'', JObj kvs)]))"
  have w1: "w1 = redis_put ?k ?v (Some (IDEMPOTENCY_KEY_TTL_SECONDS (conf w0) * 1000)) w0"
    using assms(9) idempotency_call_miss [OF assms(1-3)] assms(4) idempotency_response_stores [OF assms(5-8)]
    by (simp add: bindM_apply del: dumps.simps)
  have "redis_lookup w2 ?k = Some ?v"
    by (rule redis_put_until [of w2 ?k ?v "IDEMPOTENCY_KEY_TTL_SECONDS (conf w0) * 1000" w0]) (use assms(14,15) w1 in simp_all)
  moreover have wf: "wf_json (JObj kvs)" using loads_wf [OF assms(8)] .
  ultimately have "idempotency_call sha256 hash' view' rq' w2 =
     (Inr \<lparr> hs_status = hs_status rs, hs_headers = [(''Idempotent-Replay'', ''true''), (''Content-Type'', ''application/json'')],
            hs_content = Some (dumps (JObj kvs)) \<rparr>, w2)"
    using assms(1,10-13) by (intro idempotency_call_hit) simp_all
  then show ?thesis using loads_dumps [OF wf] by (simp del: dumps.simps)
qed

definition length_hash :: "string \<Rightarrow> int" where
  "length_hash s = int (length s)"

definition ex_create_request :: http_request where
  "ex_create_request = \<lparr> hr_method = ''POST'', hr_path = ''/api/v1/vms/'',
     hr_META = [(''HTTP_IDEMPOTENCY_KEY'', ''k1''), (''HTTP_AUTHORIZATION'', ''Bearer t'')], hr_user = None \<rparr>"

lemma ex_create_request_facts:
  "hr_method ex_create_request = ''POST''" "hr_path ex_create_request = ''/api/v1/vms/''"
  "get_nonempty ''HTTP_IDEMPOTENCY_KEY'' (hr_META ex_create_request) = Some ''k1''" "''POST'' \<in> set IDEMPOTENT_METHODS"
  by (simp_all add: ex_create_request_def get_nonempty_def IDEMPOTENT_METHODS_def)

lemma ex_world_ttl: "IDEMPOTENCY_KEY_TTL_SECONDS NODEPILOT = 86400" "clock ex_world = 100000"
  by (simp_all add: ex_world_def NODEPILOT_def)

text \<open>A view that adds a task to the queue and answers with its number.\<close>

definition ex_view :: "http_request \<Rightarrow> http_response op" where
  "ex_view rq = bindM (enqueue (StartVm 30 20)) (\<lambda>_.
     returnM \<lparr> hs_status = 202, hs_headers = [], hs_content = Some (dumps (JObj [(''job_id'', JInt 7)])) \<rparr>)"

abbreviation ex_accepted :: http_response where
  "ex_accepted \<equiv> \<lparr> hs_status = 202, hs_headers = [], hs_content = Some (dumps (JObj [(''job_id'', JInt 7)])) \<rparr>"

definition ex_idem_key :: string where
  "ex_idem_key = idempotency_cache_key id (principal_id length_hash ex_create_request) ''POST'' ''/api/v1/vms/'' ''k1''"

definition ex_accepted_world :: world where
  "ex_accepted_world = redis_put ex_idem_key
     (RStr (dumps (JObj [(''status'', JInt 202), (''body'', JObj [(''job_id'', JInt 7)])]))) (Some 86400000)
     (db_upd (\<lambda>d. d\<lparr>queue := queue d @ [StartVm 30 20]\<rparr>) ex_world)"

theorem retry_is_replayed_witness:
  "\<exists>rs' c'. idempotency_call id length_hash ex_view ex_create_request (ex_accepted_world\<lparr>clock := 200000\<rparr>) =
       (Inr rs', ex_accepted_world\<lparr>clock := 200000\<rparr>) \<and> hs_status rs' = hs_status ex_accepted \<and>
     hs_content rs' = Some c' \<and> loads c' = Some (JObj [(''job_id'', JInt 7)]) \<and> (''Idempotent-Replay'', ''true'') \<in> set (hs_headers rs')"
proof -
  have obj: "loads (dumps (JObj [(''job_id'', JInt 7)])) = Some (JObj [(''job_id'', JInt 7)])" by (rule loads_dumps) simp
  then have body: "loads (if dumps (JObj [(''job_id'', JInt 7)]) = '''' then ''{}'' else dumps (JObj [(''job_id'', JInt 7)])) =
     Some (JObj [(''job_id'', JInt 7)])" by simp
  have miss: "redis_lookup ex_world ex_idem_key = None"
    by (simp add: ex_world_def redis_lookup_def ex_idem_key_def idempotency_cache_key_def)
  have run: "ex_view ex_create_request ex_world = (Inr ex_accepted, db_upd (\<lambda>d. d\<lparr>queue := queue d @ [StartVm 30 20]\<rparr>) ex_world)"
    by (simp add: ex_view_def enqueue_def bindM_apply del: dumps.simps)
  have call: "idempotency_call id length_hash ex_view ex_create_request ex_world = (Inr ex_accepted, ex_accepted_world)"
    using idempotency_call_miss [of ex_create_request "''k1''" ex_world id length_hash ex_view] miss
      idempotency_response_stores [OF _ _ _ body, of ex_accepted id "''k1''" "principal_id length_hash ex_create_request" ex_create_request]
    by (simp add: ex_create_request_facts run bindM_apply ex_idem_key_def ex_accepted_world_def ex_world_ttl del: dumps.simps)
  show ?thesis
    by (rule retry_is_replayed [where key = "''k1''" and rq = ex_create_request and rs = ex_accepted, OF _ _ _ run _ _ _ body call])
       (use miss in \<open>simp_all add: ex_create_request_facts ex_idem_key_def ex_accepted_world_def ex_world_ttl del: dumps.simps\<close>)
qed

lemma stored_elsewhere:
  assumes "idempotency_response sha256 (Some (key, p)) rq rs w = (r, w')"
    and "k' \<noteq> idempotency_cache_key sha256 p (hr_method rq) (hr_path rq) key"
  shows "redis_lookup w' k' = redis_lookup w k'"
  using assms by (auto simp: idempotency_response_def store_response_def bindM_apply redis_lookup_put split: option.splits if_splits)

text \<open>
  Stored responses are not shared. Whatever a request of one principal leaves in the store, a request of another
  principal, or with another method, or for another combination of path and key, finds exactly what it would have found before, provided the
  two texts that are hashed do not collide under SHA-256.
\<close>

theorem stored_responses_not_shared:
  assumes "inj_on sha256 {idempotency_text (principal_id hash rq) (hr_method rq) (hr_path rq) key,
      idempotency_text (principal_id hash' rq') (hr_method rq') (hr_path rq') key'}"
    and "hr_method rq \<in> set IDEMPOTENT_METHODS" and "hr_method rq' \<in> set IDEMPOTENT_METHODS"
    and "principal_id hash rq \<noteq> principal_id hash' rq' \<or> hr_method rq \<noteq> hr_method rq' \<or> hr_path rq @ '':'' @ key \<noteq> hr_path rq' @ '':'' @ key'"
    and "idempotency_response sha256 (Some (key, principal_id hash rq)) rq rs w = (r, w')"
  shows "fst (get_cached_response sha256 (principal_id hash' rq') (hr_method rq') (hr_path rq') key' w') =
     fst (get_cached_response sha256 (principal_id hash' rq') (hr_method rq') (hr_path rq') key' w)"
proof -
  let ?t = "idempotency_text (principal_id hash rq) (hr_method rq) (hr_path rq) key"
  let ?t' = "idempotency_text (principal_id hash' rq') (hr_method rq') (hr_path rq') key'"
  have "?t \<noteq> ?t'" using assms(4) idempotency_text_inj [OF _ assms(2,3)] by blast
  then have "sha256 ?t' \<noteq> sha256 ?t" using inj_onD [OF assms(1), of ?t ?t'] by fastforce
  then have "redis_lookup w' (idempotency_cache_key sha256 (principal_id hash' rq') (hr_method rq') (hr_path rq') key') =
     redis_lookup w (idempotency_cache_key sha256 (principal_id hash' rq') (hr_method rq') (hr_path rq') key')"
    by (intro stored_elsewhere [OF assms(5)]) (simp add: idempotency_cache_key_def)
  then show ?thesis by (simp add: get_cached_response_def bindM_apply split: option.split rval.split)
qed

definition ex_session_request :: http_request where
  "ex_session_request = ex_create_request\<lparr>hr_user := Some (5, ex_user)\<rparr>"

theorem stored_responses_not_shared_witness:
  "fst (get_cached_response id (principal_id length_hash ex_session_request) (hr_method ex_session_request) (hr_path ex_session_request) ''k1''
        (snd (idempotency_response id (Some (''k1'', principal_id length_hash ex_create_request)) ex_create_request ex_accepted ex_world))) =
     fst (get_cached_response id (principal_id length_hash ex_session_request) (hr_method ex_session_request) (hr_path ex_session_request) ''k1'' ex_world)"
proof (rule stored_responses_not_shared [where key = "''k1''" and rq = ex_create_request, OF _ _ _ _ surjective_pairing])
  have "principal_id length_hash ex_create_request \<noteq> principal_id length_hash ex_session_request"
    by (simp add: principal_id_def ex_session_request_def ex_create_request_def)
  then show "principal_id length_hash ex_create_request \<noteq> principal_id length_hash ex_session_request \<or>
     hr_method ex_create_request \<noteq> hr_method ex_session_request \<or>
     hr_path ex_create_request @ '':'' @ ''k1'' \<noteq> hr_path ex_session_request @ '':'' @ ''k1''" ..
qed (simp_all add: ex_session_request_def ex_create_request_facts)

text \<open>
  The cache follows the process, not the user, for requests without a session: the principal of a request with a bearer
  token is Python's \<open>hash\<close> of the header, and two processes with different salts give it different names, so that the
  retry that reaches another worker process is executed again.
\<close>

theorem retry_in_other_process_executes:
  assumes "hr_user rq = None" and "hr_method rq \<in> set IDEMPOTENT_METHODS"
    and "get_nonempty ''HTTP_IDEMPOTENCY_KEY'' (hr_META rq) = Some key"
    and "hash (opt_or (map_of (hr_META rq) ''HTTP_AUTHORIZATION'') '''') \<noteq> hash' (opt_or (map_of (hr_META rq) ''HTTP_AUTHORIZATION'') '''')"
    and "inj sha256"
    and "idempotency_response sha256 (Some (key, principal_id hash rq)) rq rs w = (r, w')"
    and "redis_lookup w (idempotency_cache_key sha256 (principal_id hash' rq) (hr_method rq) (hr_path rq) key) = None"
  shows "idempotency_call sha256 hash' view rq w' =
     bindM (view rq) (idempotency_response sha256 (Some (key, principal_id hash' rq)) rq) w'"
proof (rule idempotency_call_miss [OF assms(2,3)])
  have "principal_id hash' rq \<noteq> principal_id hash rq" using assms(1,4) show_int_inj by (auto simp: principal_id_def)
  then have "idempotency_text (principal_id hash' rq) (hr_method rq) (hr_path rq) key \<noteq> idempotency_text (principal_id hash rq) (hr_method rq) (hr_path rq) key"
    using idempotency_text_inj [OF _ assms(2,2)] by blast
  then show "redis_lookup w' (idempotency_cache_key sha256 (principal_id hash' rq) (hr_method rq) (hr_path rq) key) = None"
    using stored_elsewhere [OF assms(6)] assms(5,7) by (simp add: idempotency_cache_key_def inj_eq)
qed

end
