(* ===== verification/Logging.thy ===== *)
theory Logging
  imports Middleware
begin

section \<open>Logging: structured log lines\<close>

text \<open>
  \<open>backend/apps/common/logging_utils.py\<close> and the access log of \<open>common/middleware.py\<close>: the context filter, the formatter that prints one
  JSON object per line, and \<open>log_operation\<close>. The formatted time, the message with its arguments filled in and the text of a traceback are inputs;
  durations are integers (the code rounds to four decimals).
\<close>

record log_context =
  cv_request_id :: "string option"
  cv_user_id :: "string option"
  cv_organization_id :: "string option"

record log_record =
  lr_timestamp :: string
  lr_level :: string
  lr_logger :: string
  lr_message :: string
  lr_ids :: log_context
  lr_context :: "(string \<times> json) list"
  lr_exception :: "string option"

definition context_filter :: "log_context \<Rightarrow> log_record \<Rightarrow> log_record" where
  "context_filter vars r = r\<lparr>lr_ids := vars\<rparr>"

definition null_or :: "string option \<Rightarrow> json" where
  "null_or x = (case x of Some s \<Rightarrow> JStr s | None \<Rightarrow> JNull)"

definition dict_update :: "(string \<times> json) list \<Rightarrow> (string \<times> json) list \<Rightarrow> (string \<times> json) list" where
  "dict_update extra d = fold (\<lambda>(k, v). dict_set k v) extra d"

definition log_payload :: "log_record \<Rightarrow> (string \<times> json) list" where
  "log_payload r =
     (let payload = dict_update (lr_context r)
        [(''timestamp'', JStr (lr_timestamp r)), (''level'', JStr (lr_level r)), (''logger'', JStr (lr_logger r)), (''message'', JStr (lr_message r)),
         (''request_id'', null_or (cv_request_id (lr_ids r))), (''user_id'', null_or (cv_user_id (lr_ids r))),
         (''organization_id'', null_or (cv_organization_id (lr_ids r)))]
      in case lr_exception r of Some e \<Rightarrow> dict_set ''exception'' (JStr e) payload | None \<Rightarrow> payload)"

definition format_record :: "log_record \<Rightarrow> string" where
  "format_record r = dumps (JObj (log_payload r))"

text \<open>\<open>log_operation\<close>: the message and the context of the record it makes.\<close>

definition log_operation :: "string \<Rightarrow> json \<Rightarrow> string \<Rightarrow> (string \<times> json) list \<Rightarrow> string \<times> (string \<times> json) list" where
  "log_operation operation duration outcome context =
     (operation @ '' '' @ outcome, dict_update context [(''operation'', JStr operation), (''duration'', duration), (''result'', JStr outcome)])"

text \<open>The record of a request, from the access log entry of \<open>Middleware\<close>. No code sets the organization.\<close>

definition access_record :: "string \<Rightarrow> int \<Rightarrow> access_log \<Rightarrow> log_record" where
  "access_record time duration a = context_filter \<lparr> cv_request_id = Some (al_request_id a), cv_user_id = al_user_id a, cv_organization_id = None \<rparr>
     \<lparr> lr_timestamp = time, lr_level = ''INFO'', lr_logger = ''nodepilot.request'', lr_message = al_operation a @ '' -> '' @ show_nat (al_status_code a),
       lr_ids = \<lparr> cv_request_id = None, cv_user_id = None, cv_organization_id = None \<rparr>,
       lr_context = [(''operation'', JStr (al_operation a)), (''duration'', JInt duration), (''result'', JStr (al_result a)),
         (''status_code'', JInt (int (al_status_code a)))],
       lr_exception = None \<rparr>"

subsection \<open>One record, one line\<close>

definition printable :: "char \<Rightarrow> bool" where
  "printable c \<longleftrightarrow> 32 \<le> (of_char c :: nat) \<and> (of_char c :: nat) \<le> 126"

lemma hex_digit_printable: "n < 16 \<Longrightarrow> printable (Json.hex_digit n)"
  by (auto simp: printable_def Json.hex_digit_def of_char_of)

lemma json_char_printable: "c \<in> set (json_char d) \<Longrightarrow> printable c"
proof -
  assume c: "c \<in> set (json_char d)"
  have "(of_char d :: nat) < 256" by simp
  then have "of_char d div 16 < (16 :: nat)" by (simp add: less_mult_imp_div_less)
  then have "printable (Json.hex_digit (of_char d div 16))" "printable (Json.hex_digit (of_char d mod 16))" by (simp_all add: hex_digit_printable)
  then show ?thesis using c by (auto simp: json_char_def Let_def printable_def split: if_splits)
qed

lemma json_str_printable: "c \<in> set (json_str s) \<Longrightarrow> printable c"
  by (auto simp: json_str_def printable_def dest: json_char_printable [unfolded printable_def])

lemma show_int_printable: "c \<in> set (show_int i) \<Longrightarrow> printable c"
  by (auto simp: show_int_def printable_def is_digit_def Let_def dest!: show_nat_digits split: if_splits)

lemma dumps_printable:
  shows "c \<in> set (dumps j) \<Longrightarrow> printable c"
    and "c \<in> set (dumps_elems js) \<Longrightarrow> printable c"
    and "c \<in> set (dumps_members kvs) \<Longrightarrow> printable c"
  by (induction j and js and kvs rule: dumps_dumps_elems_dumps_members.induct)
     (auto simp: printable_def dest: json_str_printable [unfolded printable_def] show_int_printable [unfolded printable_def] split: if_splits)

lemma dict_update_wf:
  assumes "wf_members extra" and "distinct (map fst d)" and "wf_members d"
  shows "distinct (map fst (dict_update extra d)) \<and> wf_members (dict_update extra d)"
  unfolding dict_update_def using assms by (induction extra arbitrary: d) (auto simp: dict_set_distinct dict_set_wf)

lemma log_payload_wf:
  assumes "wf_members (lr_context r)"
  shows "wf_json (JObj (log_payload r))"
proof -
  let ?base = "[(''timestamp'', JStr (lr_timestamp r)), (''level'', JStr (lr_level r)), (''logger'', JStr (lr_logger r)), (''message'', JStr (lr_message r)),
         (''request_id'', null_or (cv_request_id (lr_ids r))), (''user_id'', null_or (cv_user_id (lr_ids r))),
         (''organization_id'', null_or (cv_organization_id (lr_ids r)))]"
  have "distinct (map fst (dict_update (lr_context r) ?base)) \<and> wf_members (dict_update (lr_context r) ?base)"
    by (rule dict_update_wf [OF assms]) (simp_all add: null_or_def split: option.split)
  then show ?thesis by (auto simp: log_payload_def Let_def dict_set_distinct dict_set_wf split: option.split)
qed


text \<open>The access log of a request whose path tries to start a second record.\<close>

definition ex_forged :: log_record where
  "ex_forged = access_record ''2025-01-01T00:00:00+0000'' 12 \<lparr> al_request_id = ''r1'', al_user_id = None,
     al_operation = ''GET /x'' @ [CHR 0x0A] @ [CHR 0x7B, CHR 0x22], al_result = ''error'', al_status_code = 404 \<rparr>"


text \<open>Every access record qualifies, and the message survives unless the context names a field of its own with that key, which it does not.\<close>

lemma access_record_shown:
  "jget ''message'' (JObj (log_payload (access_record t n a))) = Some (JStr (al_operation a @ '' -> '' @ show_nat (al_status_code a))) \<and>
   jget ''organization_id'' (JObj (log_payload (access_record t n a))) = Some JNull"
  by (simp add: log_payload_def access_record_def context_filter_def dict_update_def jget_def null_or_def Let_def)

end
