(* ===== verification/Actions.thy ===== *)
theory Actions
  imports Rest
begin

section \<open>Actions: what an accepted request leaves behind\<close>

text \<open>
  Every mutating action on a VM answers with a job: the shape of the services and of the views that call them.
\<close>

interpretation t_audit: off_events audit_logs by unfold_locales simp_all

lemmas audit_frame = so_frame keeps_case_prod t_audit.wf.keeps_locks t_audit.so_event_frame

lemma keeps_reserve: "keeps (same_on f) (check_and_reserve org prj a)"
  by (simp add: keeps_def check_and_reserve_state so.R_refl)

text \<open>
  \<open>submits pr m\<close>: when \<open>m\<close> returns, the job \<open>pr\<close> reads off its result is in the table, queued, with its Celery call in
  the queue.
\<close>

definition submitted :: "job_obj \<Rightarrow> world \<Rightarrow> bool" where
  "submitted jo w \<longleftrightarrow> jo \<in> set (jobs (wdb w)) \<and> job_status (snd jo) = JS_QUEUED \<and>
     (\<exists>c \<in> set (queue (wdb w)). celery_job c = Some (fst jo))"

definition submits :: "('a \<Rightarrow> job_obj) \<Rightarrow> 'a op \<Rightarrow> bool" where
  "submits pr m \<longleftrightarrow> (\<forall>w x w'. m w = (Inr x, w') \<longrightarrow> submitted (pr x) w')"

lemma submits_core:
  "(\<And>jk. celery_job (c jk) = Some jk) \<Longrightarrow>
   submits (\<lambda>x. x) (bindM (create_job ty rt rid org nd by key tm) (\<lambda>(jk, j). bindM (enqueue (c jk)) (\<lambda>_. returnM (jk, j))))"
  unfolding submits_def submitted_def
  by (auto simp: bindM_apply enqueue_def split: prod.splits sum.splits dest!: create_job_Inr)

lemma submits_bind: "(\<And>x. submits pr (f x)) \<Longrightarrow> submits pr (bindM m f)"
  unfolding submits_def by (auto simp: bindM_apply split: prod.splits sum.splits)

lemma submits_raise: "submits pr (raiseM e)"
  by (simp add: submits_def)

lemma submits_if: "submits pr m \<Longrightarrow> submits pr n \<Longrightarrow> submits pr (if b then m else n)"
  by simp

lemma submits_atomic: "submits pr m \<Longrightarrow> submits pr (atomicM m)"
  unfolding submits_def by (auto simp: atomicM_def split: prod.splits sum.splits)

lemma submits_case_prod: "(\<And>a b. submits pr (f a b)) \<Longrightarrow> submits pr (case p of (a, b) \<Rightarrow> f a b)"
  by (cases p) simp

lemma submits_result: "submits (\<lambda>x. x) m \<Longrightarrow> submits pr (bindM m (\<lambda>jo. returnM (g jo)))" if "\<And>jo. pr (g jo) = jo"
  using that unfolding submits_def by (auto simp: bindM_apply split: prod.splits sum.splits)

lemmas submits_rules = submits_core submits_raise submits_if submits_atomic submits_case_prod submits_bind

subsection \<open>The services\<close>

lemma submits_lifecycle: "(\<And>jk vmk. celery_job (task jk vmk) = Some jk) \<Longrightarrow> submits (\<lambda>x. x) (start_lifecycle_job vo ty task by)"
  unfolding start_lifecycle_job_def by (intro submits_rules) simp

lemma submits_storage: "(\<And>jk. celery_job (task jk) = Some jk) \<Longrightarrow> submits (\<lambda>x. x) (start_storage_job vo ty task by)"
  unfolding start_storage_job_def by (intro submits_rules) simp

lemma submits_services:
  "submits (\<lambda>x. x) (start_vm vo by)" "submits (\<lambda>x. x) (stop_vm vo by force)" "submits (\<lambda>x. x) (reboot_vm vo by force)"
  "submits (\<lambda>x. x) (pause_vm vo by)" "submits (\<lambda>x. x) (resume_vm vo by)" "submits (\<lambda>x. x) (delete_vm vo by)"
  "submits (\<lambda>x. x) (clone_vm vo by nm linked)" "submits (\<lambda>x. x) (detach_disk vo dsk by)" "submits (\<lambda>x. x) (detach_nic vo nic by)"
  "submits (\<lambda>x. x) (resize_disk vo dsk gb by)" "submits snd (attach_disk vo st n bus by)" "submits snd (attach_nic vo net md vl rt by)"
  unfolding start_vm_def stop_vm_def reboot_vm_def pause_vm_def resume_vm_def delete_vm_def clone_vm_def detach_disk_def detach_nic_def
    resize_disk_def attach_disk_def attach_nic_def Let_def
  by (intro submits_lifecycle submits_storage submits_rules submits_result; simp)+

lemma audit_lifecycle: "keeps (same_on audit_logs) (start_lifecycle_job vo ty task by)"
  unfolding start_lifecycle_job_def by (intro audit_frame)

lemma audit_storage: "keeps (same_on audit_logs) (start_storage_job vo ty task by)"
  unfolding start_storage_job_def by (intro audit_frame)

lemma audit_services:
  "keeps (same_on audit_logs) (start_vm vo by)" "keeps (same_on audit_logs) (stop_vm vo by force)" "keeps (same_on audit_logs) (reboot_vm vo by force)"
  "keeps (same_on audit_logs) (pause_vm vo by)" "keeps (same_on audit_logs) (resume_vm vo by)" "keeps (same_on audit_logs) (delete_vm vo by)"
  "keeps (same_on audit_logs) (clone_vm vo by nm linked)" "keeps (same_on audit_logs) (detach_disk vo dsk by)" "keeps (same_on audit_logs) (detach_nic vo nic by)"
  "keeps (same_on audit_logs) (resize_disk vo dsk gb by)" "keeps (same_on audit_logs) (attach_disk vo st n bus by)"
  "keeps (same_on audit_logs) (attach_nic vo net md vl rt by)"
  unfolding start_vm_def stop_vm_def reboot_vm_def pause_vm_def resume_vm_def delete_vm_def clone_vm_def detach_disk_def detach_nic_def
    resize_disk_def attach_disk_def attach_nic_def generate_mac_address_def create_disk_row_def create_nic_row_def Let_def
  by (intro audit_lifecycle audit_storage audit_frame keeps_reserve; simp)+

subsection \<open>The actions of the VM viewset\<close>

datatype vm_action = A_Start | A_Stop | A_Reboot | A_Pause | A_Resume | A_Destroy | A_Clone
  | A_AttachDisk DiskBus | A_ResizeDisk string | A_RemoveDisk string
  | A_AttachNic NicModel "nat option" "nat option" | A_RemoveNic string

fun vm_action_view :: "vm_action \<Rightarrow> api_request \<Rightarrow> vm_obj op \<Rightarrow> response op" where
  "vm_action_view A_Start rq obj = start_view rq obj"
| "vm_action_view A_Stop rq obj = stop_view rq obj"
| "vm_action_view A_Reboot rq obj = reboot_view rq obj"
| "vm_action_view A_Pause rq obj = pause_view rq obj"
| "vm_action_view A_Resume rq obj = resume_view rq obj"
| "vm_action_view A_Destroy rq obj = destroy_view rq obj"
| "vm_action_view A_Clone rq obj = clone_view rq obj"
| "vm_action_view (A_AttachDisk bus) rq obj = attach_disk_view rq obj bus"
| "vm_action_view (A_ResizeDisk u) rq obj = resize_disk_view rq obj u"
| "vm_action_view (A_RemoveDisk u) rq obj = remove_disk_view rq obj u"
| "vm_action_view (A_AttachNic md vl rt) rq obj = attach_nic_view rq obj md vl rt"
| "vm_action_view (A_RemoveNic u) rq obj = remove_nic_view rq obj u"

fun audit_name :: "vm_action \<Rightarrow> string" where
  "audit_name A_Start = ''VM_START''" | "audit_name A_Stop = ''VM_STOP''" | "audit_name A_Reboot = ''VM_REBOOT''"
| "audit_name A_Pause = ''VM_PAUSE''" | "audit_name A_Resume = ''VM_RESUME''" | "audit_name A_Destroy = ''VM_DELETE''"
| "audit_name A_Clone = ''VM_CLONE''" | "audit_name (A_AttachDisk _) = ''VM_DISK_ATTACH''" | "audit_name (A_ResizeDisk _) = ''VM_DISK_RESIZE''"
| "audit_name (A_RemoveDisk _) = ''VM_DISK_DETACH''" | "audit_name (A_AttachNic _ _ _) = ''VM_NIC_ATTACH''" | "audit_name (A_RemoveNic _) = ''VM_NIC_DETACH''"

text \<open>One audit row more, and what it says.\<close>

definition audited :: "api_request \<Rightarrow> string \<Rightarrow> virtual_machine \<Rightarrow> world \<Rightarrow> world \<Rightarrow> bool" where
  "audited rq act v w w' \<longleftrightarrow> (\<exists>k a. audit_logs (wdb w') = audit_logs (wdb w) @ [(k, a)] \<and> aud_actor a = ar_by rq \<and> aud_action a = act \<and>
     aud_resource_type a = ''VirtualMachine'' \<and> aud_resource_id a = uuid v \<and> aud_organization a = Some (vm_organization v) \<and>
     aud_result a = AR_SUCCESS)"

definition tracked :: "api_request \<Rightarrow> string \<Rightarrow> virtual_machine \<Rightarrow> world \<Rightarrow> (exn + response) \<times> world \<Rightarrow> bool" where
  "tracked rq act v w out \<longleftrightarrow> (case out of
     (Inl e, w') \<Rightarrow> audit_logs (wdb w') = audit_logs (wdb w)
   | (Inr (st, body), w') \<Rightarrow>
       if st = 202 then (\<exists>jo. submitted jo w' \<and> jget ''job_id'' body = Some (JStr (uuid (snd jo)))) \<and> audited rq act v w w'
       else wdb w' = wdb w)"

lemma log_vm_run:
  "\<exists>w'. log_vm rq act v w = (Inr (), w') \<and> audited rq act v w w' \<and> jobs (wdb w') = jobs (wdb w) \<and> queue (wdb w') = queue (wdb w)"
  by (auto simp: log_vm_def log_from_request_def log_action_def bindM_apply fresh_pk_apply row_add_def audited_def)

text \<open>The shape all actions share: a service that submits a job, then the audit row, then the answer.\<close>

lemma tracked_action:
  assumes m: "submits pr m" "keeps (same_on audit_logs) m" and eq: "audit_logs (wdb w0) = audit_logs (wdb w)"
    and r: "\<And>x. fst (r x) = 202 \<and> jget ''job_id'' (snd (r x)) = Some (JStr (uuid (snd (pr x))))"
  shows "tracked rq act v w (bindM m (\<lambda>x. bindM (log_vm rq act v) (\<lambda>_. returnM (r x))) w0)"
proof (cases "m w0")
  case (Pair out w1)
  have a1: "audit_logs (wdb w1) = audit_logs (wdb w)" using same_onD [OF m(2) Pair] eq by simp
  show ?thesis
  proof (cases out)
    case (Inl e)
    then show ?thesis using Pair a1 by (simp add: bindM_apply tracked_def)
  next
    case (Inr x)
    obtain w2 where w2: "log_vm rq act v w1 = (Inr (), w2)" "audited rq act v w1 w2" "jobs (wdb w2) = jobs (wdb w1)" "queue (wdb w2) = queue (wdb w1)"
      using log_vm_run by blast
    have "submitted (pr x) w1" using m(1) Pair Inr by (simp add: submits_def)
    then have "submitted (pr x) w2" using w2(3,4) by (simp add: submitted_def)
    moreover have "audited rq act v w w2" using w2(2) a1 by (simp add: audited_def)
    ultimately show ?thesis using Pair Inr w2(1) r [of x] by (cases "r x") (auto simp: bindM_apply tracked_def intro!: exI [of _ "fst (pr x)"] exI [of _ "snd (pr x)"])
  qed
qed

lemma tracked_refusal: "st \<noteq> 202 \<Longrightarrow> wdb w0 = wdb w \<Longrightarrow> tracked rq act v w (Inr (st, body), w0)"
  by (simp add: tracked_def)

lemma tracked_int:
  assumes "\<And>n. tracked rq act v w (f n w0)" and "wdb w0 = wdb w"
  shows "tracked rq act v w (bindM (data_int rq k) f w0)"
proof -
  have "\<exists>r. data_int rq k w0 = (r, w0)" by (auto simp: data_int_def py_int_def split: json.split option.split)
  then obtain r where "data_int rq k w0 = (r, w0)" by blast
  then show ?thesis using assms by (cases r) (simp_all add: bindM_apply tracked_def)
qed

text \<open>
  C13. Every accepted action is accounted for. Take any of the twelve mutating actions on a VM, with the object lookup of
  the framework returning the VM without touching the database. If the request is answered with 202, then the answer
  names a job that is in the table with status queued and has its Celery call in the queue, and exactly one audit row was written, with the
  user, the action, the VM and its organization. If it is answered with another status, the database is as before; if it
  raises, no audit row was written.
\<close>

theorem accepted_action_tracked:
  assumes "obj w = (Inr (vmk, v), w0)" and "wdb w0 = wdb w"
  shows "tracked rq (audit_name a) v w (vm_action_view a rq obj w)"
proof -
  have run: "bindM obj f w = f (vmk, v) w0" for f :: "vm_obj \<Rightarrow> response op" using assms(1) by (simp add: bindM_apply)
  note rules = tracked_refusal tracked_int tracked_action [OF _ _ arg_cong [OF assms(2), of audit_logs]]
    submits_services audit_services assms(2)
  show ?thesis
    by (cases a)
       (auto simp: run start_view_def stop_view_def reboot_view_def pause_view_def resume_view_def destroy_view_def clone_view_def
          attach_disk_view_def resize_disk_view_def remove_disk_view_def attach_nic_view_def remove_nic_view_def job_response_def
          bad_request_def not_found_def queued_def jget_def [of "''job_id''"] Let_def case_prod_beta' split: option.splits intro!: rules)
qed

definition ex_api_request :: api_request where
  "ex_api_request = \<lparr> ar_user = (5, ex_user), ar_ip = Some ''10.0.0.9'', ar_query = [(''organization'', ''o1'')],
     ar_data = JObj [(''force'', JBool True)], ar_idempotency_key = '''' \<rparr>"

theorem accepted_action_tracked_witness:
  "tracked ex_api_request ''VM_STOP'' ex_vm ex_world (vm_action_view A_Stop ex_api_request (returnM (20, ex_vm)) ex_world)"
  using accepted_action_tracked [of "returnM (20, ex_vm)" ex_world 20 ex_vm ex_world ex_api_request A_Stop]
  by (simp del: vm_action_view.simps)

subsection \<open>Creation stays inside the tenant that was named\<close>

lemma log_vm_frame: "(\<And>d a. f (d\<lparr>audit_logs := a\<rparr>) = f d) \<Longrightarrow> (\<And>d n. f (d\<lparr>next_pk := n\<rparr>) = f d) \<Longrightarrow> keeps (same_on f) (log_vm rq act v)"
  unfolding log_vm_def log_from_request_def log_action_def by (intro so_frame)

lemma create_vm_view_Inr:
  assumes "vm_create_view rq is_valid w = (Inr rs, w')"
  shows "\<exists>data w0 vmk v jk j w1. is_valid w = (Inr data, w0) \<and> serializer_organization (wdb w0) rq = Some (prj_organization (snd (vd_project data))) \<and>
     create_vm (vm_request_of rq data) w0 = (Inr ((vmk, v), (jk, j)), w1) \<and> rs = created v j \<and> vms (wdb w') = vms (wdb w1)"
proof -
  from assms obtain data w0 data' w0' vmk v jk j w1 w2 where d: "is_valid w = (Inr data, w0)" "validate_create rq data w0 = (Inr data', w0')"
    and c: "create_vm (vm_request_of rq data') w0' = (Inr ((vmk, v), (jk, j)), w1)" "log_vm rq ''VM_CREATE'' v w1 = (Inr (), w2)"
      "rs = created v j" "w' = w2"
    unfolding vm_create_view_def by (auto elim!: bindM_InrE)
  have org: "serializer_organization (wdb w0) rq = Some (prj_organization (snd (vd_project data)))" "data' = data" "w0' = w0"
    using d(2) by (auto simp: validate_create_def bindM_apply split: if_splits)
  have "vms (wdb w2) = vms (wdb w1)" by (rule same_onD [OF log_vm_frame c(2)]) simp_all
  with d org c show ?thesis by blast
qed

text \<open>
  C14. A VM is created in the organization the request names. When the create endpoint answers, exactly one VM row was
  added, in the project of the validated data and in that project's organization, that organization is the one the query parameter (or
  the body) names, the creator is the user of the request, and the size is within the bounds the serializer declares.
\<close>

theorem created_vm_in_named_organization:
  assumes "vm_create_view rq is_valid w = (Inr rs, w')" and "is_valid w = (Inr data, w0)" and "wdb w0 = wdb w" and "vm_fields_ok data"
  shows "\<exists>vmk v. vms (wdb w') = vms (wdb w) @ [(vmk, v)] \<and> serializer_organization (wdb w) rq = Some (vm_organization v) \<and>
     vm_organization v = prj_organization (snd (vd_project data)) \<and> vm_project v = fst (vd_project data) \<and> vm_created_by v = ar_by rq \<and>
     vm_cpu_count v \<in> {1..256} \<and> 128 \<le> vm_memory_mb v \<and> fst rs = 201"
proof -
  obtain vmk v jk j w1 where c: "serializer_organization (wdb w0) rq = Some (prj_organization (snd (vd_project data)))"
      "create_vm (vm_request_of rq data) w0 = (Inr ((vmk, v), (jk, j)), w1)" "rs = created v j" "vms (wdb w') = vms (wdb w1)"
    using create_vm_view_Inr [OF assms(1)] assms(2) by auto
  obtain nk where "create_vm_rows (vm_request_of rq data) nk w0 = (Inr ((vmk, v), (jk, j)), w1)" using create_vm_Inr [OF c(2)] by blast
  from create_vm_rows_Inr [OF this] obtain u du where
    "v = vm_row_of (vm_request_of rq data) nk u du (clock w0)" "vms (wdb w1) = vms (wdb w0) @ [(vmk, v)]" by blast
  then show ?thesis using c assms(3,4) by (auto simp: vm_row_of_def vm_request_of_def vm_fields_ok_def created_def)
qed

definition ex_vm_data :: vm_data where
  "ex_vm_data = \<lparr> vd_name = ''db'', vd_project = (2, ex_project), vd_node = Some 10, vd_template = None, vd_description = '''', vd_os_type = ''linux'',
     vd_firmware = UEFI, vd_cpu_count = 2, vd_memory_mb = 2048,
     vd_disks = [\<lparr> dd_storage = 12, dd_name = None, dd_size_gb = 20, dd_bus = DB_VIRTIO, dd_bootable = True, dd_format = ''qcow2'',
        dd_readonly = False, dd_discard = True, dd_iothread = False \<rparr>],
     vd_nics = [], vd_boot_order = [], vd_ballooning_enabled = True, vd_cloud_init_enabled = False, vd_cloud_init_config = JObj [],
     vd_autostart = True \<rparr>"

abbreviation ex_view_request :: vm_request where
  "ex_view_request \<equiv> vm_request_of ex_api_request ex_vm_data"

lemma ex_view_creates: "\<exists>x w'. create_vm ex_view_request ex_world = (Inr x, w')"
proof -
  have r: "vr_organization ex_view_request = 1" "vr_project ex_view_request = 2" "vm_additional ex_view_request = vm_additional ex_vm_request"
    unfolding ex_vm_additional by (simp_all add: vm_request_of_def ex_vm_data_def ex_project_def vm_additional_def requested_disks_def total_disk_gb_def disk_spec_of_def)
  have "check_and_reserve (vr_organization ex_view_request) (Some (vr_project ex_view_request)) (vm_additional ex_view_request) ex_world = (Inr (), ex_world)"
    using ex_reserved unfolding r by simp
  moreover have "select_vm_node ex_view_request ex_world = (Inr 10, ex_world)" by (simp add: select_vm_node_def vm_request_of_def ex_vm_data_def)
  moreover have "\<exists>x w'. create_vm_rows ex_view_request 10 ex_world = (Inr x, w')"
    by (simp add: create_vm_rows_def vm_request_of_def ex_vm_data_def disk_spec_of_def requested_disks_def bindM_def insert_vm_def vm_name_taken_def
        vm_key_taken_def vm_row_of_def ex_vm_def fresh_pk_apply create_vm_disk_def create_disk_row_def ex_api_request_def opt_or_def
        create_job_def job_key_taken_def Let_def enqueue_def)
  moreover have "\<not> idempotent_hit ex_view_request (wdb ex_world)" by (simp add: idempotent_hit_def vm_request_of_def ex_api_request_def)
  ultimately show ?thesis by (auto simp: create_vm_def atomicM_Inr bindM_def)
qed

theorem created_vm_in_named_organization_witness:
  "\<exists>rs w' vmk v. vm_create_view ex_api_request (returnM ex_vm_data) ex_world = (Inr rs, w') \<and> vms (wdb w') = vms (wdb ex_world) @ [(vmk, v)] \<and>
     vm_organization v = 1 \<and> vm_project v = 2 \<and> fst rs = 201"
proof -
  have "serializer_organization (wdb ex_world) ex_api_request = Some 1"
    by (simp add: serializer_organization_def ex_api_request_def get_nonempty_def find_uuid_def by_uuid_def rows_where_def ex_db_def ex_org_def)
  then have "validate_create ex_api_request ex_vm_data ex_world = (Inr ex_vm_data, ex_world)"
    by (simp add: validate_create_def ex_vm_data_def ex_project_def)
  moreover obtain vmk v jk j w1 where "create_vm ex_view_request ex_world = (Inr ((vmk, v), (jk, j)), w1)" using ex_view_creates by auto
  moreover obtain w2 where "log_vm ex_api_request ''VM_CREATE'' v w1 = (Inr (), w2)" using log_vm_run by blast
  ultimately have run: "vm_create_view ex_api_request (returnM ex_vm_data) ex_world = (Inr (created v j), w2)"
    by (simp add: vm_create_view_def bindM_apply)
  moreover have "vm_fields_ok ex_vm_data" by (simp add: vm_fields_ok_def disk_fields_ok_def nic_fields_ok_def ex_vm_data_def)
  ultimately show ?thesis
    using created_vm_in_named_organization [OF run, of ex_vm_data ex_world] by (auto simp: ex_vm_data_def ex_project_def)
qed

text \<open>
  Deploying a template checks neither: the VM belongs to the template's organization and to whatever project the body
  names, also when that project is another organization's.
\<close>

theorem deployed_vm_in_any_project:
  assumes "deploy_view rq obj is_valid w = (Inr rs, w')" and "obj w = (Inr (tk, t), w0)" and "is_valid w0 = (Inr data, w1)" and "vms (wdb w1) = vms (wdb w)"
  shows "\<exists>vmk v. vms (wdb w') = vms (wdb w) @ [(vmk, v)] \<and> vm_organization v = tpl_organization t \<and> vm_project v = fst (dp_project data)"
proof -
  obtain vmk v jk j w2 where c: "create_vm_from_template tk t (deploy_request rq data) w1 = (Inr ((vmk, v), (jk, j)), w2)"
      "log_vm rq ''VM_CREATE_FROM_TEMPLATE'' v w2 = (Inr (), w')"
    using assms(1-3) unfolding deploy_view_def by (auto elim!: bindM_InrE)
  then have "create_vm (template_vm_request tk t (deploy_request rq data)) w1 = (Inr ((vmk, v), (jk, j)), w2)"
    by (cases "row_get (tpl_image t) (images (wdb w1))") (auto simp: create_vm_from_template_def get_row_def bindM_apply split: if_splits)
  from create_vm_result [OF this] have "vms (wdb w2) = vms (wdb w1) @ [(vmk, v)]" "vm_organization v = tpl_organization t"
      "vm_project v = fst (dp_project data)" by (simp_all add: template_vm_request_def deploy_request_def)
  moreover have "vms (wdb w') = vms (wdb w2)" by (rule same_onD [OF log_vm_frame c(2)]) simp_all
  ultimately show ?thesis using assms(4) by auto
qed

end
