(* ===== verification/Contracts.thy ===== *)
theory Contracts
  imports Actions AgentOps
begin

section \<open>Contracts: what the API accepts and what the agent does with it\<close>

text \<open>
  The two programs check interface and volume names on their own. This theory composes the controller's validation, the
  payload its task sends and the agent's handler.
\<close>

subsection \<open>Interface names\<close>

lemma token_charset: "token_char c \<longleftrightarrow> iface_char c"
  by (auto simp: token_char_def alnum_def iface_char_def)

lemma newline_no_token: "\<not> token n (s @ [CHR 0x0A])"
proof -
  have "\<not> alnum CHR 0x0A" by (simp add: alnum_def is_alpha_def is_digit_def)
  then show ?thesis by (cases s) (auto simp: token_def token_char_def)
qed

text \<open>The controller's pattern is the agent's, as its comment claims.\<close>

lemma SAFE_IFACE_mirror: "SAFE_IFACE s = re_token 14 s"
proof -
  have plain: "token 14 t \<longleftrightarrow> (case t of [] \<Rightarrow> False | c # cs \<Rightarrow> (is_alpha c \<or> is_digit c) \<and> length cs \<le> 14 \<and> list_all iface_char cs)" for t
    unfolding token_def token_charset [abs_def] by (simp add: alnum_def split: list.split)
  show ?thesis
  proof (cases "s \<noteq> [] \<and> last s = CHR 0x0A")
    case True
    then obtain t where t: "s = t @ [CHR 0x0A]" by (metis append_butlast_last_id)
    then show ?thesis using newline_no_token [of 14 t] plain [of t] by (simp add: SAFE_IFACE_def re_token_def Let_def)
  next
    case False
    then show ?thesis using plain [of s] by (auto simp: SAFE_IFACE_def re_token_def Let_def)
  qed
qed

lemma show_int_small: "0 \<le> v \<Longrightarrow> v \<le> 4094 \<Longrightarrow> length (show_int v) \<le> 4"
proof -
  assume v: "0 \<le> v" "v \<le> 4094"
  have "length (show_nat n) \<le> k" if "n < 10 ^ k" "0 < k" for n k
    using that
  proof (induction k arbitrary: n)
    case (Suc k)
    show ?case
    proof (cases "n < 10")
      case True
      then show ?thesis by (subst show_nat.simps) simp
    next
      case False
      then have "0 < k" using Suc.prems by (cases k) auto
      then have "length (show_nat (n div 10)) \<le> k" using Suc.prems by (intro Suc.IH) auto
      then show ?thesis using False by (subst show_nat.simps) simp
    qed
  qed simp
  from this [of "nat v" 4] show ?thesis using v by (simp add: show_int_def)
qed

lemma show_int_tokens: "0 \<le> v \<Longrightarrow> list_all token_char (show_int v)"
  using show_nat_digits by (auto simp: show_int_def list_all_iff token_char_def alnum_def)

text \<open>The names derived from an accepted bridge: the tagged uplink and the dedicated bridge fit.\<close>

lemma vlan_names_fit:
  assumes "token 14 b" and "length b + 6 \<le> 15" and "1 \<le> v" and "v \<le> 4094"
  shows "re_token 14 (vlan_uplink b v)" "re_token 14 (vlan_bridge b v)"
proof -
  have l: "length (show_int v) \<le> 4" "list_all token_char (show_int v)" using show_int_small show_int_tokens assms(3,4) by simp_all
  obtain c cs where b: "b = c # cs" "alnum c" "list_all token_char cs" using assms(1) by (auto simp: token_def split: list.splits)
  have "token_char CHR ''.''" "token_char CHR ''b''" by (simp_all add: token_char_def alnum_def is_alpha_def)
  then show "re_token 14 (vlan_uplink b v)" "re_token 14 (vlan_bridge b v)"
    using b l assms(2) by (simp_all add: re_token_def token_def vlan_uplink_def vlan_bridge_def)
qed

subsection \<open>A host on which every command succeeds\<close>

definition obedient :: "host \<Rightarrow> bool" where
  "obedient h \<longleftrightarrow> (\<forall>t args. \<exists>out err. respond h t (Exec args) = Exited 0 out err)"

definition succeeds :: "('a \<Rightarrow> bool) \<Rightarrow> 'a aop \<Rightarrow> bool" where
  "succeeds P m \<longleftrightarrow> hoare obedient m (\<lambda>a h. obedient h \<and> P a) (\<lambda>e h. False)"

lemma succeedsD: "succeeds P m \<Longrightarrow> obedient h \<Longrightarrow> \<exists>a h'. m h = (Inr a, h') \<and> P a"
  unfolding succeeds_def hoare_def by (cases "m h"; cases "fst (m h)") fastforce+

lemma succeeds_return: "P a \<Longrightarrow> succeeds P (returnM a)"
  unfolding succeeds_def by (rule hoare_return) simp

lemma succeeds_bind: "succeeds S m \<Longrightarrow> (\<And>a. S a \<Longrightarrow> succeeds Q (f a)) \<Longrightarrow> succeeds Q (bindM m f)"
  unfolding succeeds_def by (rule hoare_bind, assumption) (auto simp: hoare_def)

lemma succeeds_net_run: "succeeds (\<lambda>_. True) (net_run args check)"
  unfolding succeeds_def hoare_def net_run_def hostM_def obedient_def
  by (auto simp: bindM_apply split: hreply.splits) (metis hreply.distinct hreply.inject(3))+

lemma succeeds_validate: "re_token 14 nm \<Longrightarrow> succeeds (\<lambda>x. x = nm) (validate_iface nm)"
  by (simp add: validate_iface_def succeeds_return)

lemma succeeds_if: "(b \<Longrightarrow> succeeds P m) \<Longrightarrow> (\<not> b \<Longrightarrow> succeeds P n) \<Longrightarrow> succeeds P (if b then m else n)"
  by simp

lemmas succeeds_rules = succeeds_if succeeds_bind [OF succeeds_net_run] succeeds_bind [OF succeeds_validate] succeeds_return

lemma succeeds_exists: "succeeds (\<lambda>_. True) (iface_exists nm)" "re_token 14 nm \<Longrightarrow> succeeds (\<lambda>_. True) (bridge_exists nm)"
  unfolding iface_exists_def bridge_exists_def by (intro succeeds_rules; simp)+

lemma succeeds_create_bridge: "re_token 14 nm \<Longrightarrow> succeeds (\<lambda>_. True) (create_bridge nm)"
  unfolding create_bridge_def by (intro succeeds_bind [OF succeeds_exists(2)] succeeds_rules) simp_all

lemma succeeds_vlan_network:
  assumes "re_token 14 p" and "re_token 14 (vlan_uplink p v)" and "re_token 14 (vlan_bridge p v)" and "1 \<le> v" and "v \<le> 4094"
  shows "succeeds (\<lambda>b. b = vlan_bridge p v) (ensure_vlan_network p v)"
proof -
  have up: "succeeds (\<lambda>x. x = vlan_uplink p v) (vlan_interface_name p v)" and br: "succeeds (\<lambda>x. x = vlan_bridge p v) (vlan_bridge_name p v)"
    using assms(2,3) by (simp_all add: vlan_interface_name_def vlan_bridge_name_def vlan_uplink_def vlan_bridge_def succeeds_validate)
  have uplink: "succeeds (\<lambda>x. x = vlan_uplink p v) (create_vlan_interface p v)"
    unfolding create_vlan_interface_def
    by (rule succeeds_bind [OF succeeds_validate [OF assms(1)]])
       (use assms(4,5) in \<open>auto intro!: succeeds_bind [OF up] succeeds_bind [OF succeeds_exists(1)] succeeds_rules\<close>)
  have attach: "succeeds (\<lambda>_. True) (attach_to_bridge (vlan_uplink p v) (vlan_bridge p v))"
    unfolding attach_to_bridge_def using assms by (intro succeeds_rules) simp_all
  show ?thesis
    unfolding ensure_vlan_network_def
    by (rule succeeds_bind [OF succeeds_create_bridge [OF assms(1)]], rule succeeds_bind [OF uplink], rule succeeds_bind [OF br], simp,
        rule succeeds_bind [OF succeeds_create_bridge [OF assms(3)]], rule succeeds_bind [OF attach], rule succeeds_return, simp)
qed

lemma network_is_valid_Inr:
  assumes "network_is_valid d w = (Inr d', w')"
  shows "d' = d \<and> SAFE_IFACE (nw_bridge d) \<and> (case nw_vlan_id d of None \<Rightarrow> True | Some v \<Rightarrow> 1 \<le> v \<and> v \<le> 4094 \<and> length (nw_bridge d) + 6 \<le> 15)"
  using assms by (auto simp: network_is_valid_def validate_bridge_def validate_vlan_id_def validate_network_def bindM_apply
      VLAN_BRIDGE_SUFFIX_LEN_def MAX_IFACE_LEN_def split: if_splits option.splits)

text \<open>
  C12. Whatever network the API accepts, the agent can set up. For every network whose bridge name and VLAN id pass the
  serializer (the bridge without the trailing newline that the framework strips), the payload of the creation task makes
  the agent's handler succeed on every host whose commands succeed: no interface name, not even the derived ones of a
  VLAN network, and no VLAN id is refused. The handler reports the dedicated bridge for a VLAN network and the bridge itself
  otherwise.
\<close>

theorem accepted_network_is_provisioned:
  assumes "network_is_valid d w = (Inr d', w')" and "last (nw_bridge d) \<noteq> CHR 0x0A"
    and "net_bridge nw = nw_bridge d'" and "net_vlan_id nw = map_option nat (nw_vlan_id d')" and "obedient h"
  shows "\<exists>h'. create_network_op (network_payload nw) h =
     (Inr (JObj [(''bridge'', JStr (case nw_vlan_id d of None \<Rightarrow> nw_bridge d | Some v \<Rightarrow> vlan_bridge (nw_bridge d) v))]), h')"
proof -
  have v: "d' = d" "SAFE_IFACE (nw_bridge d)" "nw_vlan_id d = Some v \<Longrightarrow> 1 \<le> v \<and> v \<le> 4094 \<and> length (nw_bridge d) + 6 \<le> 15" for v
    using network_is_valid_Inr [OF assms(1)] by auto
  have b: "re_token 14 (nw_bridge d)" "token 14 (nw_bridge d)" using v(2) assms(2) unfolding SAFE_IFACE_mirror by (auto simp: re_token_def)
  show ?thesis
  proof (cases "nw_vlan_id d")
    case None
    obtain h' where "create_bridge (nw_bridge d) h = (Inr (), h')" using succeedsD [OF succeeds_create_bridge [OF b(1)] assms(5)] by auto
    then show ?thesis using None assms(3,4) v(1)
      by (simp add: create_network_op_def network_payload_def pstr_def pget_def as_str_def pflag_def jget_def jopt_int_def truthy_def bindM_apply)
  next
    case (Some i)
    note r = v(3) [OF Some]
    have fit: "re_token 14 (vlan_uplink (nw_bridge d) i)" "re_token 14 (vlan_bridge (nw_bridge d) i)" using vlan_names_fit b(2) r by simp_all
    have "succeeds (\<lambda>x. x = vlan_bridge (nw_bridge d) i) (ensure_vlan_network (nw_bridge d) i)"
      by (rule succeeds_vlan_network) (use b(1) fit r in simp_all)
    from succeedsD [OF this assms(5)]
    obtain h' where "ensure_vlan_network (nw_bridge d) i h = (Inr (vlan_bridge (nw_bridge d) i), h')" by auto
    moreover have "int (nat i) = i" "nat i \<noteq> 0" using r by auto
    ultimately show ?thesis using Some assms(3,4) v(1) r
      by (simp add: create_network_op_def network_payload_def pstr_def pint_def pget_def as_str_def as_int_def pflag_def jget_def jopt_int_def truthy_def bindM_apply)
  qed
qed

definition ex_network_data :: network_data where
  "ex_network_data = \<lparr> nw_node = (10, ex_node), nw_name = ''tenant'', nw_type = NT_BRIDGE, nw_bridge = ''vmbr-blue'', nw_vlan_id = Some 4094, nw_dhcp_enabled = None \<rparr>"

definition ex_obedient :: host where
  "ex_obedient = \<lparr> trace = [], respond = (\<lambda>t c. Exited 0 '''' ''''), libvirt_available = False, lv_conn = False \<rparr>"

theorem accepted_network_is_provisioned_witness:
  "\<exists>h'. create_network_op (network_payload (ex_network\<lparr>net_bridge := ''vmbr-blue'', net_vlan_id := Some 4094\<rparr>)) ex_obedient =
     (Inr (JObj [(''bridge'', JStr (vlan_bridge ''vmbr-blue'' 4094))]), h')"
proof -
  have "network_is_valid ex_network_data ex_world = (Inr ex_network_data, ex_world)"
    by (simp add: network_is_valid_def ex_network_data_def validate_bridge_def validate_vlan_id_def validate_network_def SAFE_IFACE_def iface_char_def
        is_alpha_def is_digit_def VLAN_BRIDGE_SUFFIX_LEN_def MAX_IFACE_LEN_def)
  moreover have "obedient ex_obedient" by (simp add: obedient_def ex_obedient_def)
  ultimately show ?thesis
    using accepted_network_is_provisioned [of ex_network_data ex_world ex_network_data ex_world "ex_network\<lparr>net_bridge := ''vmbr-blue'', net_vlan_id := Some 4094\<rparr>" ex_obedient]
    by (simp add: ex_network_data_def)
qed

subsection \<open>Volume names of clones\<close>

text \<open>Where each backend puts the volume of a given name.\<close>

fun clone_dest :: "backend \<Rightarrow> string \<Rightarrow> string" where
  "clone_dest (Directory p) nm = path_join p nm"
| "clone_dest (NFS p) nm = path_join p nm"
| "clone_dest (LVM vg) nm = vg @ ''/'' @ nm"
| "clone_dest (LVMThin vg tp) nm = vg @ ''/'' @ nm"
| "clone_dest (ZFS p) nm = p @ ''/'' @ nm"

lemma validated_name: "validate_name nm h = (Inr x, h') \<Longrightarrow> x = nm"
  by (simp add: validate_name_def split: if_splits)

lemma clone_volume_dest: "clone_volume b src nm linked h = (Inr info, h') \<Longrightarrow> volume_id info = clone_dest b nm"
  by (cases b) (auto simp: dir_clone_volume_def lvm_clone_volume_def thin_clone_volume_def zfs_clone_volume_def path_for_def Let_def
      elim!: bindM_InrE dest!: validated_name split: if_splits)

lemma clone_disk_op_Inr:
  assumes "clone_disk_op (clone_payload d c linked r) h = (Inr out, h')"
  shows "\<exists>s b. disk_storage d r = Some s \<and> fst (get_backend (show_StorageType (sto_type s)) (sto_path s) h) = Inr b \<and>
     jget ''volume_id'' out = Some (JStr (clone_dest b (uuid (snd c) @ ''-'' @ dsk_name r)))"
proof (cases "disk_storage d r")
  case None
  then show ?thesis using assms
    by (simp add: clone_disk_op_def payload_backend_def clone_payload_def storage_payload_def pstr_def pget_def jget_def as_str_def bindM_apply)
next
  case (Some s)
  then obtain b h1 info where "get_backend (show_StorageType (sto_type s)) (sto_path s) h = (Inr b, h1)"
      "clone_volume b (dsk_volume_id r) (uuid (snd c) @ ''-'' @ dsk_name r) (pflag ''linked'' (clone_payload d c linked r)) h1 = (Inr info, h')"
      "out = JObj [(''volume_id'', JStr (volume_id info)), (''size_bytes'', JInt (vol_size_bytes info))]"
    using assms by (auto simp: clone_disk_op_def payload_backend_def pstr_def pget_def jget_def as_str_def
        clone_payload_def storage_payload_def elim!: bindM_InrE)
  then show ?thesis using Some clone_volume_dest by (auto simp: jget_def)
qed

lemma get_backend_pure: "fst (get_backend t p h) = fst (get_backend t p h')"
  by (simp add: get_backend_def Let_def split: prod.split)

lemma create_vm_disk_row:
  assumes "create_vm_disk vmk (i, disk_spec_of d) w = (Inr (), w')"
  shows "\<exists>k r. disks (wdb w') = disks (wdb w) @ [(k, r)] \<and> dsk_name r = opt_or (dd_name d) '''' \<and> dsk_storage r = dd_storage d"
  using assms by (auto simp: create_vm_disk_def create_disk_row_def disk_spec_of_def bindM_apply fresh_pk_apply Let_def row_add_def opt_or_def)

text \<open>
  C40. Cloning a VM with two unnamed disks loses one of them. A disk that is created without a name through the API is
  stored under the empty name, and the name of a cloned volume is the clone's uuid and the disk's name. So for two disks
  without names on the same pool, whenever the agent performs both clone commands, it reports the same volume for both:
  the second copy is made over the first.
\<close>

theorem unnamed_disks_clone_to_one_volume:
  assumes "dd_name d1 = None" and "dd_name d2 = None" and "dd_storage d1 = dd_storage d2"
    and "create_vm_disk vmk (0, disk_spec_of d1) w = (Inr (), w1)" and "create_vm_disk vmk (1, disk_spec_of d2) w1 = (Inr (), w2)"
    and "disks (wdb w2) = disks (wdb w) @ [(k1, r1), (k2, r2)]"
    and "clone_disk_op (clone_payload d c linked (r1\<lparr>dsk_volume_id := v1\<rparr>)) h = (Inr out1, h1)"
    and "clone_disk_op (clone_payload d c linked (r2\<lparr>dsk_volume_id := v2\<rparr>)) h1 = (Inr out2, h2)"
  shows "\<exists>vol. jget ''volume_id'' out1 = Some (JStr vol) \<and> jget ''volume_id'' out2 = Some (JStr vol)"
proof -
  have r: "dsk_name r1 = ''''" "dsk_name r2 = ''''" "dsk_storage r1 = dsk_storage r2"
    using create_vm_disk_row [OF assms(4)] create_vm_disk_row [OF assms(5)] assms(1-3,6) by (auto simp: opt_or_def)
  then have st: "disk_storage d (r1\<lparr>dsk_volume_id := v1\<rparr>) = disk_storage d (r2\<lparr>dsk_volume_id := v2\<rparr>)" by (simp add: disk_storage_def)
  obtain s b1 where s: "disk_storage d (r1\<lparr>dsk_volume_id := v1\<rparr>) = Some s" "fst (get_backend (show_StorageType (sto_type s)) (sto_path s) h) = Inr b1"
      "jget ''volume_id'' out1 = Some (JStr (clone_dest b1 (uuid (snd c) @ ''-'')))"
    using clone_disk_op_Inr [OF assms(7)] r by auto
  obtain b2 where "fst (get_backend (show_StorageType (sto_type s)) (sto_path s) h1) = Inr b2"
      "jget ''volume_id'' out2 = Some (JStr (clone_dest b2 (uuid (snd c) @ ''-'')))"
    using clone_disk_op_Inr [OF assms(8)] r s(1) st by auto
  with s show ?thesis using get_backend_pure [of "show_StorageType (sto_type s)" "sto_path s" h1 h] by auto
qed

definition ex_unnamed_disk :: disk_data where
  "ex_unnamed_disk = \<lparr> dd_storage = 12, dd_name = None, dd_size_gb = 10, dd_bus = DB_VIRTIO, dd_bootable = False, dd_format = ''raw'',
     dd_readonly = False, dd_discard = True, dd_iothread = False \<rparr>"

definition ex_lvm_db :: db where
  "ex_lvm_db = ex_db\<lparr>storage_pools := [(12, ex_pool\<lparr>sto_type := ST_LVM, sto_path := ''vg0''\<rparr>)]\<rparr>"

definition ex_sized_host :: host where
  "ex_sized_host = \<lparr> trace = [], respond = (\<lambda>t c. Exited 0 ''10'' ''''), libvirt_available = False, lv_conn = False \<rparr>"

lemma ex_clone_runs:
  assumes "dsk_storage r = 12" and "dsk_name r = ''''" and "respond h = respond ex_sized_host" and "uuid (snd c) = ''c1''"
  shows "\<exists>out h'. clone_disk_op (clone_payload ex_lvm_db c False r) h = (Inr out, h') \<and> respond h' = respond ex_sized_host"
proof -
  have "token 127 ''c1-''" by (simp add: token_def token_char_def alnum_def is_alpha_def is_digit_def)
  then have "re_token 127 ''c1-''" by (simp add: re_token_def)
  moreover have "parse_int ''10'' h' = (Inr 10, h')" for h'
    by (simp add: parse_int_def strip_ws_def is_digit_def digits_value_def Let_def)
  ultimately show ?thesis
    using assms by (simp add: clone_disk_op_def payload_backend_def pstr_def pget_def jget_def as_str_def clone_payload_def storage_payload_def
        disk_storage_def ex_lvm_db_def ex_sized_host_def row_get_def get_backend_def upper_def upper_char_def Let_def lvm_clone_volume_def
        validate_name_def lv_size_bytes_def copy_block_device_def AgentStorage.run_def hostM_def bindM_apply pflag_def truthy_def)
qed

theorem unnamed_disks_clone_to_one_volume_witness:
  "\<exists>r1 r2 out1 out2 h1 h2 vol. clone_disk_op (clone_payload ex_lvm_db (50, ex_vm\<lparr>uuid := ''c1''\<rparr>) False r1) ex_sized_host = (Inr out1, h1) \<and>
     clone_disk_op (clone_payload ex_lvm_db (50, ex_vm\<lparr>uuid := ''c1''\<rparr>) False r2) h1 = (Inr out2, h2) \<and>
     dsk_volume_id r1 \<noteq> dsk_volume_id r2 \<and>
     jget ''volume_id'' out1 = Some (JStr vol) \<and> jget ''volume_id'' out2 = Some (JStr vol)"
proof -
  let ?c = "(50 :: nat, ex_vm\<lparr>uuid := ''c1''\<rparr>)"
  have ok: "\<exists>w'. create_vm_disk 20 (i, disk_spec_of ex_unnamed_disk) w = (Inr (), w')" for i w
    by (simp add: create_vm_disk_def create_disk_row_def disk_spec_of_def bindM_apply fresh_pk_apply Let_def)
  obtain w1 where w1: "create_vm_disk 20 (0, disk_spec_of ex_unnamed_disk) ex_world = (Inr (), w1)" using ok by blast
  obtain w2 where w2: "create_vm_disk 20 (1, disk_spec_of ex_unnamed_disk) w1 = (Inr (), w2)" using ok by blast
  obtain k1 r1 where r1: "disks (wdb w1) = disks (wdb ex_world) @ [(k1, r1)]" "dsk_name r1 = ''''" "dsk_storage r1 = 12"
    using create_vm_disk_row [OF w1] by (auto simp: opt_or_def ex_unnamed_disk_def)
  obtain k2 r2 where r2: "disks (wdb w2) = disks (wdb w1) @ [(k2, r2)]" "dsk_name r2 = ''''" "dsk_storage r2 = 12"
    using create_vm_disk_row [OF w2] by (auto simp: opt_or_def ex_unnamed_disk_def)
  obtain out1 h1 where h1: "clone_disk_op (clone_payload ex_lvm_db ?c False (r1\<lparr>dsk_volume_id := ''vg0/a''\<rparr>)) ex_sized_host = (Inr out1, h1)"
      "respond h1 = respond ex_sized_host"
    using ex_clone_runs [of "r1\<lparr>dsk_volume_id := ''vg0/a''\<rparr>" ex_sized_host ?c] r1 by auto
  obtain out2 h2 where h2: "clone_disk_op (clone_payload ex_lvm_db ?c False (r2\<lparr>dsk_volume_id := ''vg0/b''\<rparr>)) h1 = (Inr out2, h2)"
    using ex_clone_runs [of "r2\<lparr>dsk_volume_id := ''vg0/b''\<rparr>" h1 ?c] r2 h1(2) by auto
  have "disks (wdb w2) = disks (wdb ex_world) @ [(k1, r1), (k2, r2)]" using r1(1) r2(1) by simp
  from unnamed_disks_clone_to_one_volume [OF _ _ _ w1 w2 this h1(1) h2]
  obtain vol where "jget ''volume_id'' out1 = Some (JStr vol)" "jget ''volume_id'' out2 = Some (JStr vol)"
    by (auto simp: ex_unnamed_disk_def)
  with h1(1) h2 show ?thesis by (intro exI conjI) (assumption | simp)+
qed

end
