(* ===== verification/Cli.thy ===== *)
theory Cli
  imports Rest Json
begin

section \<open>Cli: the command-line client\<close>

text \<open>
  \<open>cli/nodepilot_cli\<close> and the controller's pagination, which its \<open>paginate\<close> follows. The HTTP exchange is the argument
  \<open>http\<close>: method, path, query parameters and body to status and text. A command returns what it prints: the rows it hands to
  \<open>tabulate\<close>, or its lines.
\<close>

datatype cli_error =
    APIError nat string string json
  | CliRuntimeError string
  | CliKeyError string
  | CliAttributeError string
  | JSONDecodeError string

type_synonym 'a cli = "cli_error + 'a"

definition bindC :: "'a cli \<Rightarrow> ('a \<Rightarrow> 'b cli) \<Rightarrow> 'b cli" where
  "bindC m f = (case m of Inl e \<Rightarrow> Inl e | Inr a \<Rightarrow> f a)"

lemma bindC_simps [simp]: "bindC (Inl e) f = Inl e" "bindC (Inr a) f = f a"
  by (simp_all add: bindC_def)

text \<open>\<open>str(exc)\<close>, which \<open>handle_api_errors\<close> shows.\<close>

fun cli_message :: "cli_error \<Rightarrow> string" where
  "cli_message (APIError st code msg details) = ''['' @ code @ ''] '' @ msg"
| "cli_message (CliRuntimeError msg) = msg"
| "cli_message (CliKeyError k) = quoted k"
| "cli_message (CliAttributeError msg) = msg"
| "cli_message (JSONDecodeError msg) = msg"

subsection \<open>Configuration\<close>

record CLIConfig =
  cc_api_url :: string
  cc_token :: "string option"
  cc_token_type :: string
  cc_verify_tls :: bool

text \<open>\<open>os.environ.get(k, data.get(f, default))\<close>, for the parsed YAML file \<open>data\<close>.\<close>

definition env_or :: "(string \<times> string) list \<Rightarrow> string \<Rightarrow> json \<Rightarrow> string \<Rightarrow> string option \<Rightarrow> string option" where
  "env_or env k data f dflt = (case map_of env k of
     Some s \<Rightarrow> Some s
   | None \<Rightarrow> (case jget f data of Some (JStr s) \<Rightarrow> Some s | Some _ \<Rightarrow> None | None \<Rightarrow> dflt))"

definition cli_load_config :: "(string \<times> string) list \<Rightarrow> json \<Rightarrow> CLIConfig" where
  "cli_load_config env data = \<lparr> cc_api_url = opt_or (env_or env ''NODEPILOT_API_URL'' data ''api_url'' (Some ''https://localhost/api/v1'')) '''',
     cc_token = env_or env ''NODEPILOT_TOKEN'' data ''token'' None,
     cc_token_type = opt_or (env_or env ''NODEPILOT_TOKEN_TYPE'' data ''token_type'' (Some ''Token'')) '''',
     cc_verify_tls = (case jget ''verify_tls'' data of Some j \<Rightarrow> truthy j | None \<Rightarrow> True) \<rparr>"

text \<open>\<open>dataclasses.asdict\<close>: what \<open>save_config\<close> writes.\<close>

definition cli_save_config :: "CLIConfig \<Rightarrow> json" where
  "cli_save_config c = JObj [(''api_url'', JStr (cc_api_url c)), (''token'', case cc_token c of Some t \<Rightarrow> JStr t | None \<Rightarrow> JNull),
     (''token_type'', JStr (cc_token_type c)), (''verify_tls'', JBool (cc_verify_tls c))]"

definition cli_override :: "string option \<Rightarrow> string option \<Rightarrow> CLIConfig \<Rightarrow> CLIConfig" where
  "cli_override api_url token_opt c = c\<lparr>cc_api_url := (case api_url of Some u \<Rightarrow> if u = '''' then cc_api_url c else u | None \<Rightarrow> cc_api_url c),
     cc_token := (case token_opt of Some t \<Rightarrow> if t = '''' then cc_token c else Some t | None \<Rightarrow> cc_token c)\<rparr>"

definition cli_login :: "string \<Rightarrow> string \<Rightarrow> json" where
  "cli_login api_url t = cli_save_config \<lparr> cc_api_url = api_url, cc_token = Some t, cc_token_type = ''Token'', cc_verify_tls = True \<rparr>"

subsection \<open>The client\<close>

type_synonym http = "string \<Rightarrow> string \<Rightarrow> (string \<times> string) list \<Rightarrow> json option \<Rightarrow> nat \<times> string"

definition lstrip_slash :: "string \<Rightarrow> string" where
  "lstrip_slash s = dropWhile (\<lambda>c. c = CHR ''/'') s"

definition rstrip_slashes :: "string \<Rightarrow> string" where
  "rstrip_slashes s = rev (dropWhile (\<lambda>c. c = CHR ''/'') (rev s))"

record client =
  cl_base_url :: string
  cl_authorization :: string

definition new_client :: "CLIConfig \<Rightarrow> client cli" where
  "new_client c = (case cc_token c of
     Some t \<Rightarrow> if t = '''' then Inl (CliRuntimeError ''Not authenticated. Run `nodepilot login` first, or set NODEPILOT_TOKEN.'')
       else Inr \<lparr> cl_base_url = rstrip_slashes (cc_api_url c) @ ''/'', cl_authorization = cc_token_type c @ '' '' @ t \<rparr>
   | None \<Rightarrow> Inl (CliRuntimeError ''Not authenticated. Run `nodepilot login` first, or set NODEPILOT_TOKEN.''))"

text \<open>\<open>d.get(k, default)\<close> on a parsed body, which need not be a dict.\<close>

definition py_get :: "json \<Rightarrow> string \<Rightarrow> json \<Rightarrow> json cli" where
  "py_get d k dflt = (case d of JObj kvs \<Rightarrow> Inr (opt_or (map_of kvs k) dflt) | _ \<Rightarrow> Inl (CliAttributeError ''object has no attribute get''))"

definition text_of :: "json \<Rightarrow> string" where
  "text_of j = (case j of JStr s \<Rightarrow> s | JInt i \<Rightarrow> show_int i | JBool b \<Rightarrow> if b then ''True'' else ''False'' | JNull \<Rightarrow> ''None'' | _ \<Rightarrow> dumps j)"

definition raise_for_error :: "nat \<Rightarrow> string \<Rightarrow> json cli" where
  "raise_for_error st txt = (case loads txt of
     None \<Rightarrow> Inl (APIError st ''UNKNOWN'' txt (JObj []))
   | Some body \<Rightarrow> bindC (py_get body ''error'' (JObj [])) (\<lambda>err.
       bindC (py_get err ''code'' (JStr ''UNKNOWN'')) (\<lambda>code. bindC (py_get err ''message'' (JStr txt)) (\<lambda>msg.
       bindC (py_get err ''details'' JNull) (\<lambda>details.
       Inl (APIError st (text_of code) (text_of msg) (if truthy details then details else JObj [])))))))"

definition read_response :: "nat \<times> string \<Rightarrow> json cli" where
  "read_response r = (case r of (st, txt) \<Rightarrow>
     if 400 \<le> st then raise_for_error st txt
     else if st = 204 \<or> txt = '''' then Inr (JObj [])
     else (case loads txt of Some j \<Rightarrow> Inr j | None \<Rightarrow> Inl (JSONDecodeError ''Expecting value'')))"

definition cli_request :: "http \<Rightarrow> string \<Rightarrow> string \<Rightarrow> (string \<times> string) list \<Rightarrow> json option \<Rightarrow> json cli" where
  "cli_request http m path params body = read_response (http m (lstrip_slash path) params body)"

definition cli_get :: "http \<Rightarrow> string \<Rightarrow> (string \<times> string) list \<Rightarrow> json cli" where
  "cli_get http path params = cli_request http ''GET'' path params None"

definition cli_post :: "http \<Rightarrow> string \<Rightarrow> json option \<Rightarrow> json cli" where
  "cli_post http path body = cli_request http ''POST'' path [] body"

definition cli_delete :: "http \<Rightarrow> string \<Rightarrow> json cli" where
  "cli_delete http path = cli_request http ''DELETE'' path [] None"

text \<open>\<open>next_url.split("/api/v1/", 1)[-1]\<close>.\<close>

fun split_after :: "string \<Rightarrow> string \<Rightarrow> string option" where
  "split_after m [] = None"
| "split_after m (c # s) = (if take (length m) (c # s) = m then Some (drop (length m) (c # s)) else split_after m s)"

definition after_api :: "string \<Rightarrow> string" where
  "after_api url = opt_or (split_after ''/api/v1/'' url) url"

text \<open>The rows of a page and the path of the next one, empty after the last; \<open>results\<close> is a list.\<close>

definition page_parts :: "json \<Rightarrow> (json list \<times> string) cli" where
  "page_parts data = bindC (py_get data ''results'' (JArr [])) (\<lambda>rs. bindC (py_get data ''next'' JNull) (\<lambda>nx.
     case rs of
       JArr xs \<Rightarrow> (if \<not> truthy nx then Inr (xs, '''')
         else case nx of JStr url \<Rightarrow> Inr (xs, after_api url) | _ \<Rightarrow> Inl (CliAttributeError ''object has no attribute split''))
     | _ \<Rightarrow> Inl (CliRuntimeError ''results is not a list'')))"

text \<open>\<open>paginate\<close> ends only when the server stops giving a next link, so that it is a partial function.\<close>

partial_function (option) paginate :: "(string \<Rightarrow> (string \<times> string) list \<Rightarrow> json cli) \<Rightarrow> string \<Rightarrow> (string \<times> string) list \<Rightarrow> json list cli option" where
  "paginate get next_path params =
     (if next_path = '''' then Some (Inr [])
      else case bindC (get next_path params) page_parts of
        Inl e \<Rightarrow> Some (Inl e)
      | Inr (xs, nx) \<Rightarrow> Option.bind (paginate get nx []) (\<lambda>r. Some (bindC r (\<lambda>ys. Inr (xs @ ys)))))"

subsection \<open>Commands\<close>

text \<open>\<open>data[k]\<close> and \<open>data.get(k) or default\<close>.\<close>

definition py_item :: "json \<Rightarrow> string \<Rightarrow> json cli" where
  "py_item d k = (case jget k d of Some j \<Rightarrow> Inr j | None \<Rightarrow> Inl (CliKeyError k))"

definition get_or :: "json \<Rightarrow> string \<Rightarrow> string \<Rightarrow> json" where
  "get_or d k dflt = (case jget k d of Some j \<Rightarrow> if truthy j then j else JStr dflt | None \<Rightarrow> JStr dflt)"

fun py_items :: "json \<Rightarrow> string list \<Rightarrow> json list cli" where
  "py_items d [] = Inr []"
| "py_items d (k # ks) = bindC (py_item d k) (\<lambda>j. bindC (py_items d ks) (\<lambda>js. Inr (j # js)))"

fun mapC :: "('a \<Rightarrow> 'b cli) \<Rightarrow> 'a list \<Rightarrow> 'b list cli" where
  "mapC f [] = Inr []"
| "mapC f (x # xs) = bindC (f x) (\<lambda>y. bindC (mapC f xs) (\<lambda>ys. Inr (y # ys)))"

definition list_rows :: "http \<Rightarrow> CLIConfig \<Rightarrow> string \<Rightarrow> (string \<times> string) list \<Rightarrow> (json \<Rightarrow> 'a cli) \<Rightarrow> 'a list cli option" where
  "list_rows http config path params row = (case new_client config of
     Inl e \<Rightarrow> Some (Inl e)
   | Inr _ \<Rightarrow> map_option (\<lambda>r. bindC r (mapC row)) (paginate (cli_get http) path params))"

definition nonempty_params :: "(string \<times> string option) list \<Rightarrow> (string \<times> string) list" where
  "nonempty_params ps = concat (map (\<lambda>(k, v). case v of Some s \<Rightarrow> if s = '''' then [] else [(k, s)] | None \<Rightarrow> []) ps)"

definition vm_table_row :: "json \<Rightarrow> json list cli" where
  "vm_table_row vm = bindC (py_items vm [''uuid'', ''name'', ''status'', ''cpu_count'', ''memory_mb'']) (\<lambda>cells. Inr (cells @ [get_or vm ''node'' ''-'']))"

definition cli_list_vms :: "http \<Rightarrow> CLIConfig \<Rightarrow> string option \<Rightarrow> string option \<Rightarrow> string option \<Rightarrow> json list list cli option" where
  "cli_list_vms http config organization proj st = list_rows http config ''vms/''
     (nonempty_params [(''organization'', organization), (''project'', proj), (''status'', st)])
     vm_table_row"

definition node_table_row :: "json \<Rightarrow> json list cli" where
  "node_table_row n = bindC (py_items n [''uuid'', ''name'', ''status'', ''cpu_cores'']) (\<lambda>cells.
        bindC (py_items n [''memory_available_mb'', ''memory_total_mb'', ''storage_available_gb'', ''storage_total_gb'']) (\<lambda>ms.
        Inr (cells @ [JStr (text_of (ms ! 0) @ ''/'' @ text_of (ms ! 1)), JStr (text_of (ms ! 2) @ ''/'' @ text_of (ms ! 3))])))"

definition cli_list_nodes :: "http \<Rightarrow> CLIConfig \<Rightarrow> string option \<Rightarrow> json list list cli option" where
  "cli_list_nodes http config organization = list_rows http config ''nodes/'' (nonempty_params [(''organization'', organization)])
     node_table_row"

definition free_gb :: "json \<Rightarrow> json cli" where
  "free_gb j = (case j of JInt i \<Rightarrow> Inr (JInt (i div 1024 ^ 3)) | _ \<Rightarrow> Inl (CliRuntimeError ''unsupported operand''))"

definition pool_table_row :: "json \<Rightarrow> json list cli" where
  "pool_table_row s = bindC (py_items s [''uuid'', ''name'', ''type'', ''status'']) (\<lambda>cells. bindC (py_item s ''available_bytes'') (\<lambda>b. bindC (free_gb b) (\<lambda>gb.
        bindC (py_item s ''shared'') (\<lambda>sh. Inr (cells @ [gb, JStr (if truthy sh then ''yes'' else ''no'')])))))"

definition cli_list_storage :: "http \<Rightarrow> CLIConfig \<Rightarrow> string option \<Rightarrow> json list list cli option" where
  "cli_list_storage http config nod = list_rows http config ''storages/'' (nonempty_params [(''node'', nod)])
     pool_table_row"

definition job_line :: "json \<Rightarrow> string cli" where
  "job_line data = bindC (py_items data [''job_id'', ''status'']) (\<lambda>js.
     Inr (''job_id: '' @ text_of (js ! 0) @ '' (status: '' @ text_of (js ! 1) @ '')''))"

definition with_client :: "CLIConfig \<Rightarrow> 'a cli \<Rightarrow> 'a cli" where
  "with_client config m = bindC (new_client config) (\<lambda>_. m)"

definition cli_start_vm :: "http \<Rightarrow> CLIConfig \<Rightarrow> string \<Rightarrow> string cli" where
  "cli_start_vm http config vm_uuid = with_client config (bindC (cli_post http (''vms/'' @ vm_uuid @ ''/start/'') None) job_line)"

definition cli_stop_vm :: "http \<Rightarrow> CLIConfig \<Rightarrow> string \<Rightarrow> bool \<Rightarrow> string cli" where
  "cli_stop_vm http config vm_uuid force =
     with_client config (bindC (cli_post http (''vms/'' @ vm_uuid @ ''/stop/'') (Some (JObj [(''force'', JBool force)]))) job_line)"

definition cli_reboot_vm :: "http \<Rightarrow> CLIConfig \<Rightarrow> string \<Rightarrow> bool \<Rightarrow> string cli" where
  "cli_reboot_vm http config vm_uuid force =
     with_client config (bindC (cli_post http (''vms/'' @ vm_uuid @ ''/reboot/'') (Some (JObj [(''force'', JBool force)]))) job_line)"

text \<open>\<open>delete\<close> asks first; \<open>confirmed\<close> is the answer. It reads the reply with \<open>get\<close>, so that a missing field prints as \<open>None\<close>.\<close>

definition cli_delete_vm :: "http \<Rightarrow> CLIConfig \<Rightarrow> bool \<Rightarrow> string \<Rightarrow> string cli" where
  "cli_delete_vm http config confirmed vm_uuid = (if \<not> confirmed then Inl (CliRuntimeError ''Aborted!'')
     else with_client config (bindC (cli_delete http (''vms/'' @ vm_uuid @ ''/'')) (\<lambda>data.
        Inr (''job_id: '' @ text_of (opt_or (jget ''job_id'' data) JNull) @ '' (status: '' @ text_of (opt_or (jget ''status'' data) JNull) @ '')''))))"

definition cli_register_agent :: "http \<Rightarrow> CLIConfig \<Rightarrow> string \<Rightarrow> string list cli" where
  "cli_register_agent http config node_uuid = with_client config (bindC (cli_post http (''nodes/'' @ node_uuid @ ''/register-agent/'') None) (\<lambda>data.
     bindC (py_items data [''node_id'', ''agent_id'', ''token'']) (\<lambda>js.
     Inr [''node_id:   '' @ text_of (js ! 0), ''agent_id:  '' @ text_of (js ! 1), ''token:     '' @ text_of (js ! 2),
          ''Store this token now -- it will not be shown again.''])))"

definition cli_agent_status :: "http \<Rightarrow> CLIConfig \<Rightarrow> string \<Rightarrow> (string \<times> json) list cli" where
  "cli_agent_status http config node_uuid = with_client config (bindC (cli_get http (''nodes/'' @ node_uuid @ ''/'') []) (\<lambda>nod.
     let agt = (case jget ''agent'' nod of Some a \<Rightarrow> if truthy a then a else JObj [] | None \<Rightarrow> JObj [])
     in bindC (py_items nod [''name'', ''status'']) (\<lambda>js.
        Inr [(''Node'', js ! 0), (''Status'', js ! 1), (''Agent status'', opt_or (jget ''status'' agt) (JStr ''NOT REGISTERED'')),
             (''Agent version'', get_or nod ''agent_version'' ''-''), (''Last heartbeat'', get_or agt ''last_heartbeat_at'' ''never'')])))"

text \<open>\<open>doctor\<close>: \<open>probe\<close> is the status of a plain GET, \<open>None\<close> when it fails. All three checks count.\<close>

definition cli_doctor :: "(string \<Rightarrow> nat option) \<Rightarrow> http \<Rightarrow> CLIConfig \<Rightarrow> bool" where
  "cli_doctor probe http config \<longleftrightarrow>
     list_all (\<lambda>path. case probe path of Some st \<Rightarrow> st < 400 | None \<Rightarrow> False) [''health/live/'', ''health/ready/''] \<and>
     (case cc_token config of None \<Rightarrow> False | Some t \<Rightarrow> t \<noteq> '''' \<and>
        (case cli_get http ''users/me/'' [] of Inr (JObj me) \<Rightarrow> True | _ \<Rightarrow> False))"

subsection \<open>The controller's pages\<close>

text \<open>
  \<open>StandardResultsPagination.get_paginated_response\<close>. The framework counts the rows, cuts them into pages and builds the
  links: \<open>pg\<close> is what it has computed for this request.
\<close>

record framework_page =
  pg_count :: nat
  pg_number :: nat
  pg_num_pages :: nat
  pg_page_size :: nat
  pg_next_link :: "string option"
  pg_previous_link :: "string option"

definition page_size_default :: nat where
  "page_size_default = 50"

definition max_page_size :: nat where
  "max_page_size = 500"

definition link_json :: "string option \<Rightarrow> json" where
  "link_json l = (case l of Some u \<Rightarrow> JStr u | None \<Rightarrow> JNull)"

definition get_paginated_response :: "framework_page \<Rightarrow> json list \<Rightarrow> json" where
  "get_paginated_response pg data = JObj [(''count'', JInt (int (pg_count pg))), (''page'', JInt (int (pg_number pg))),
     (''num_pages'', JInt (int (pg_num_pages pg))), (''page_size'', JInt (int (pg_page_size pg))),
     (''next'', link_json (pg_next_link pg)), (''previous'', link_json (pg_previous_link pg)), (''results'', JArr data)]"

subsection \<open>Properties\<close>

lemma saved_config_is_loaded: "cli_load_config [] (cli_save_config c) = c"
  by (cases c) (auto simp: cli_load_config_def cli_save_config_def env_or_def jget_def opt_or_def truthy_def split: option.split)

lemma paginate_end: "paginate get '''' params = Some (Inr [])"
  by (subst paginate.simps) simp

lemma page_parts_response:
  "page_parts (get_paginated_response pg xs) = Inr (xs, case pg_next_link pg of Some u \<Rightarrow> if u = '''' then '''' else after_api u | None \<Rightarrow> '''')"
  by (simp add: page_parts_def get_paginated_response_def link_json_def py_get_def opt_or_def truthy_def split: option.split)

lemma paginate_pages:
  assumes served: "\<And>k. 1 \<le> k \<Longrightarrow> k \<le> num \<Longrightarrow>
      get (path k) (if k = 1 then params else []) = Inr (get_paginated_response (pg k) (page k))"
    and next_link: "\<And>k. 1 \<le> k \<Longrightarrow> k < num \<Longrightarrow> \<exists>u. pg_next_link (pg k) = Some u \<and> u \<noteq> '''' \<and> after_api u = path (k + 1)"
    and last_link: "pg_next_link (pg num) = None" and path: "\<And>k. path k \<noteq> ''''" and num: "1 \<le> num"
  shows "paginate get (path 1) params = Some (Inr (concat (map page [1 ..< num + 1])))"
proof -
  have "paginate get (path k) (if k = 1 then params else []) = Some (Inr (concat (map page [k ..< num + 1])))" if "1 \<le> k" "k \<le> num" for k
    using that
  proof (induction "num - k" arbitrary: k)
    case 0
    then show ?case using served [OF 0(2,3)] last_link path [of k]
      by (subst paginate.simps) (simp add: page_parts_response paginate_end)
  next
    case (Suc m)
    then have k: "k < num" by simp
    obtain u where u: "pg_next_link (pg k) = Some u" "u \<noteq> ''''" "after_api u = path (k + 1)" using next_link [OF Suc.prems(1) k] by blast
    have "paginate get (path (k + 1)) [] = Some (Inr (concat (map page [k + 1 ..< num + 1])))"
      using Suc.hyps(1) [of "k + 1"] Suc.hyps(2) Suc.prems(1) k by simp
    moreover have "[k ..< num + 1] = k # [k + 1 ..< num + 1]" using k by (simp add: upt_conv_Cons)
    ultimately show ?case using served [OF Suc.prems] u path [of k] by (subst paginate.simps) (simp add: page_parts_response)
  qed
  from this [of 1] show ?thesis using num by simp
qed

text \<open>
  C16. Listing ends and is complete. Against a server that serves a list in pages, with a link to the next page on every page
  but the last, each under the path the CLI extracts from the link to it, \<open>paginate\<close> terminates and returns the rows of all
  pages in order: no row is lost or repeated at a page boundary, and the query parameters are sent with the first request only.
\<close>

theorem paginate_collects_all:
  assumes "\<And>k. 1 \<le> k \<Longrightarrow> k \<le> num \<Longrightarrow>
      get (path k) (if k = 1 then params else []) = Inr (get_paginated_response (pg k) (page k))"
    and "\<And>k. 1 \<le> k \<Longrightarrow> k < num \<Longrightarrow> \<exists>u. pg_next_link (pg k) = Some u \<and> u \<noteq> '''' \<and> after_api u = path (k + 1)"
    and "pg_next_link (pg num) = None" and "\<And>k. path k \<noteq> ''''" and "1 \<le> num"
    and "concat (map page [1 ..< num + 1]) = rows"
  shows "paginate get (path 1) params = Some (Inr rows)"
  using paginate_pages [of num get path params pg page, OF assms(1-5)] assms(6) by simp

definition ex_pg :: "nat \<Rightarrow> framework_page" where
  "ex_pg k = \<lparr> pg_count = 3, pg_number = k, pg_num_pages = 2, pg_page_size = 2,
     pg_next_link = (if k = 1 then Some ''https://host/api/v1/vms/?page=2'' else None),
     pg_previous_link = (if k = 2 then Some ''https://host/api/v1/vms/'' else None) \<rparr>"

definition ex_page :: "nat \<Rightarrow> json list" where
  "ex_page k = (if k = 1 then [JInt 1, JInt 2] else [JInt 3])"

definition ex_path :: "nat \<Rightarrow> string" where
  "ex_path k = (if k = 1 then ''vms/'' else ''vms/?page=2'')"

definition ex_get :: "string \<Rightarrow> (string \<times> string) list \<Rightarrow> json cli" where
  "ex_get path params = (let k = (if path = ''vms/'' then 1 else 2) in Inr (get_paginated_response (ex_pg k) (ex_page k)))"

theorem paginate_collects_all_witness: "paginate ex_get ''vms/'' [(''status'', ''RUNNING'')] = Some (Inr [JInt 1, JInt 2, JInt 3])"
proof -
  have two: "k = 2" if "1 \<le> k" "k \<le> 2" "k \<noteq> 1" for k :: nat using that by simp
  have "paginate ex_get (ex_path 1) [(''status'', ''RUNNING'')] = Some (Inr [JInt 1, JInt 2, JInt 3])"
  proof (rule paginate_collects_all [where pg = ex_pg and page = ex_page and num = 2])
    show "ex_get (ex_path k) (if k = 1 then [(''status'', ''RUNNING'')] else []) = Inr (get_paginated_response (ex_pg k) (ex_page k))"
      if "1 \<le> k" "k \<le> 2" for k
      using two [OF that] by (cases "k = 1") (simp_all add: ex_get_def ex_path_def)
    show "\<exists>u. pg_next_link (ex_pg k) = Some u \<and> u \<noteq> '''' \<and> after_api u = ex_path (k + 1)" if "1 \<le> k" "k < 2" for k
    proof -
      have "k = 1" using that by simp
      then show ?thesis by (simp add: ex_pg_def ex_path_def after_api_def opt_or_def)
    qed
  qed (simp_all add: ex_pg_def ex_path_def ex_page_def upt_rec)
  then show ?thesis by (simp add: ex_path_def)
qed



text \<open>The line a power command prints for an accepted request.\<close>

lemma stop_prints_job:
  assumes "new_client config = Inr cl" and "http ''POST'' (''vms/'' @ u @ ''/stop/'') [] (Some (JObj [(''force'', JBool force)])) = (fst (queued j), dumps (snd (queued j)))"
  shows "cli_stop_vm http config u force = Inr (''job_id: '' @ uuid j @ '' (status: queued)'')"
proof -
  have "loads (dumps (snd (queued j))) = Some (snd (queued j))" by (rule loads_dumps) (simp add: queued_def)
  moreover have "dumps (snd (queued j)) \<noteq> []" by (simp add: queued_def)
  ultimately show ?thesis using assms
    by (simp add: cli_stop_vm_def with_client_def cli_post_def cli_request_def lstrip_slash_def read_response_def job_line_def py_item_def jget_def
        text_of_def queued_def del: dumps.simps)
qed

end
