(* ===== verification/Views.thy ===== *)
theory Views
  imports Cli
begin

section \<open>Views: what the API shows\<close>

text \<open>
  The representations the serializers give of VMs, nodes and storage pools, the metrics and health endpoints
  (\<open>metrics/views.py\<close>, \<open>api/health.py\<close>), the audit log's queryset (\<open>audit/views.py\<close>) and the throttling of webhook writes.
  \<open>stamp\<close> prints a timestamp, as the framework does. The last section follows a listing from the tables of the controller to
  the rows the command-line client prints.
\<close>

subsection \<open>Representations\<close>

definition opt_json :: "('a \<Rightarrow> json) \<Rightarrow> 'a option \<Rightarrow> json" where
  "opt_json f x = (case x of Some a \<Rightarrow> f a | None \<Rightarrow> JNull)"

definition nat_json :: "nat \<Rightarrow> json" where
  "nat_json n = JInt (int n)"

definition uuid_of :: "'a nodepilot_model_scheme table \<Rightarrow> nat \<Rightarrow> json" where
  "uuid_of t k = opt_json (\<lambda>r. JStr (uuid r)) (row_get k t)"

fun show_NodeAdminState :: "NodeAdminState \<Rightarrow> string" where
  "show_NodeAdminState NA_ACTIVE = ''ACTIVE''"
| "show_NodeAdminState NA_MAINTENANCE = ''MAINTENANCE''"
| "show_NodeAdminState NA_DISABLED = ''DISABLED''"

fun show_StoragePoolStatus :: "StoragePoolStatus \<Rightarrow> string" where
  "show_StoragePoolStatus SP_ONLINE = ''ONLINE''"
| "show_StoragePoolStatus SP_OFFLINE = ''OFFLINE''"
| "show_StoragePoolStatus SP_WARNING = ''WARNING''"
| "show_StoragePoolStatus SP_ERROR = ''ERROR''"

fun show_StorageCapability :: "StorageCapability \<Rightarrow> string" where
  "show_StorageCapability SC_VM_DISK = ''VM_DISK''"
| "show_StorageCapability SC_ISO = ''ISO''"
| "show_StorageCapability SC_BACKUP = ''BACKUP''"
| "show_StorageCapability SC_SNAPSHOT = ''SNAPSHOT''"
| "show_StorageCapability SC_TEMPLATE = ''TEMPLATE''"

definition disk_data_of :: "db \<Rightarrow> vm_disk \<Rightarrow> json" where
  "disk_data_of d k = JObj [(''uuid'', JStr (uuid k)), (''storage'', uuid_of (storage_pools d) (dsk_storage k)), (''name'', JStr (dsk_name k)),
     (''volume_id'', JStr (dsk_volume_id k)), (''bus'', JStr (show_DiskBus (dsk_bus k))), (''device'', JStr (dsk_device k)),
     (''size_bytes'', JInt (dsk_size_bytes k)), (''format'', JStr (dsk_format k)), (''bootable'', JBool (dsk_bootable k)),
     (''readonly'', JBool (dsk_readonly k)), (''discard'', JBool (dsk_discard k)), (''iothread'', JBool (dsk_iothread k)),
     (''boot_index'', nat_json (dsk_boot_index k))]"

definition nic_data_of :: "db \<Rightarrow> vm_nic \<Rightarrow> json" where
  "nic_data_of d n = JObj [(''uuid'', JStr (uuid n)), (''network'', uuid_of (networks d) (nic_network n)), (''mac_address'', JStr (nic_mac_address n)),
     (''model'', JStr (show_NicModel (nic_model n))), (''vlan'', opt_json nat_json (nic_vlan n)),
     (''rate_limit_mbps'', opt_json nat_json (nic_rate_limit_mbps n)), (''bootable'', JBool (nic_bootable n)),
     (''boot_index'', nat_json (nic_boot_index n)), (''ip_address'', opt_json nat_json (nic_ip_address n))]"

definition vm_data_of :: "(nat \<Rightarrow> string) \<Rightarrow> db \<Rightarrow> nat \<times> virtual_machine \<Rightarrow> json" where
  "vm_data_of stamp d vo = (case vo of (vmk, v) \<Rightarrow> JObj
     [(''uuid'', JStr (uuid v)), (''name'', JStr (vm_name v)), (''hostname'', JStr (vm_hostname v)), (''description'', JStr (vm_description v)),
      (''organization'', uuid_of (organizations d) (vm_organization v)), (''project'', uuid_of (projects d) (vm_project v)),
      (''node'', opt_json JStr (Option.bind (vm_node v) (\<lambda>k. map_option uuid (row_get k (nodes d))))),
      (''status'', JStr (show_VMStatus (vm_status v))), (''provisioning_state'', JStr (show_ProvisioningState (vm_provisioning_state v))),
      (''os_type'', JStr (vm_os_type v)), (''firmware'', JStr (show_FirmwareType (vm_firmware v))), (''machine_type'', JStr (vm_machine_type v)),
      (''cpu_count'', nat_json (vm_cpu_count v)), (''cpu_sockets'', nat_json (vm_cpu_sockets v)), (''cpu_cores'', nat_json (vm_cpu_cores v)),
      (''cpu_threads'', nat_json (vm_cpu_threads v)), (''cpu_model'', JStr (vm_cpu_model v)), (''memory_mb'', nat_json (vm_memory_mb v)),
      (''min_memory_mb'', opt_json nat_json (vm_min_memory_mb v)), (''max_memory_mb'', opt_json nat_json (vm_max_memory_mb v)),
      (''ballooning_enabled'', JBool (vm_ballooning_enabled v)), (''boot_order'', JArr (map JStr (vm_boot_order v))),
      (''autostart'', JBool (vm_autostart v)), (''cloud_init_enabled'', JBool (vm_cloud_init_enabled v)),
      (''disks'', JArr (map (\<lambda>(k, r). disk_data_of d r) (vm_disks d vmk))), (''nics'', JArr (map (\<lambda>(k, r). nic_data_of d r) (vm_nics d vmk))),
      (''last_error'', JStr (vm_last_error v)), (''created_at'', JStr (stamp (created_at v))), (''updated_at'', JStr (stamp (updated_at v)))])"

definition agent_data_of :: "(nat \<Rightarrow> string) \<Rightarrow> agent \<Rightarrow> json" where
  "agent_data_of stamp a = JObj [(''uuid'', JStr (uuid a)), (''agent_id'', opt_json JStr (agt_agent_id a)), (''status'', JStr (show_AgentStatus (agt_status a))),
     (''token_prefix'', JStr (agt_token_prefix a)), (''protocol_version'', JStr (agt_protocol_version a)), (''mtls_enabled'', JBool (agt_mtls_enabled a)),
     (''last_heartbeat_at'', opt_json (\<lambda>t. JStr (stamp t)) (agt_last_heartbeat_at a)), (''registered_at'', JStr (stamp (agt_registered_at a)))]"

text \<open>\<open>agent\<close> is a reverse relation: the framework leaves the field out when the node has no agent.\<close>

definition node_data_of :: "(nat \<Rightarrow> string) \<Rightarrow> world \<Rightarrow> nat \<times> node \<Rightarrow> json" where
  "node_data_of stamp w no = (case no of (nk, n) \<Rightarrow> JObj
     ([(''uuid'', JStr (uuid n)), (''organization'', uuid_of (organizations (wdb w)) (nod_organization n)), (''name'', JStr (nod_name n)),
       (''hostname'', JStr (nod_hostname n)), (''fqdn'', JStr (nod_fqdn n)), (''admin_state'', JStr (show_NodeAdminState (nod_admin_state n))),
       (''status'', JStr (show_NodeStatus (effective_status w nk n))), (''agent_version'', JStr (nod_agent_version n)),
       (''kernel'', JStr (nod_kernel n)), (''architecture'', JStr (nod_architecture n)), (''cpu_model'', JStr (nod_cpu_model n)),
       (''cpu_threads'', nat_json (nod_cpu_threads n)), (''cpu_cores'', nat_json (nod_cpu_cores n)), (''cpu_sockets'', nat_json (nod_cpu_sockets n)),
       (''memory_total_mb'', nat_json (nod_memory_total_mb n)), (''memory_available_mb'', nat_json (nod_memory_available_mb n)),
       (''storage_total_gb'', nat_json (nod_storage_total_gb n)), (''storage_available_gb'', nat_json (nod_storage_available_gb n)),
       (''reported_vm_count'', nat_json (nod_reported_vm_count n)), (''last_seen'', opt_json (\<lambda>t. JStr (stamp t)) (nod_last_seen n))]
      @ (case rows_where (\<lambda>a. agt_node a = nk) (agents (wdb w)) of (_, a) # _ \<Rightarrow> [(''agent'', agent_data_of stamp a)] | [] \<Rightarrow> [])
      @ [(''created_at'', JStr (stamp (created_at n))), (''updated_at'', JStr (stamp (updated_at n)))]))"

definition pool_data_of :: "(nat \<Rightarrow> string) \<Rightarrow> db \<Rightarrow> nat \<times> storage_pool \<Rightarrow> json" where
  "pool_data_of stamp d po = (case po of (k, p) \<Rightarrow> JObj
     [(''uuid'', JStr (uuid p)), (''node'', uuid_of (nodes d) (sto_node p)), (''name'', JStr (sto_name p)), (''type'', JStr (show_StorageType (sto_type p))),
      (''path'', JStr (sto_path p)), (''capacity_bytes'', JInt (sto_capacity_bytes p)), (''used_bytes'', JInt (sto_used_bytes p)),
      (''available_bytes'', JInt (sto_available_bytes p)), (''status'', JStr (show_StoragePoolStatus (sto_status p))), (''shared'', JBool (sto_shared p)),
      (''enabled'', JBool (sto_enabled p)), (''capabilities'', JArr (map (\<lambda>c. JStr (show_StorageCapability c)) (sto_capabilities p))),
      (''created_at'', JStr (stamp (created_at p))), (''updated_at'', JStr (stamp (updated_at p)))])"

subsection \<open>Metrics and health\<close>

text \<open>
  \<open>NodeMetricsView\<close> and \<open>VMMetricsView\<close> declare no \<open>detail\<close> attribute: the permission is checked in the organization of the
  object the URL names. \<open>zero or no window\<close> means everything; a window that reaches into the future finds nothing.
\<close>

definition NodeMetricsView :: view where
  "NodeMetricsView = \<lparr> vw_name = ''NodeMetricsView'', vw_permission_map = [], vw_required_permission = Some ''node.view'',
     vw_organization_field_path = ''organization'' \<rparr>"

definition VMMetricsView :: view where
  "VMMetricsView = \<lparr> vw_name = ''VMMetricsView'', vw_permission_map = [], vw_required_permission = Some ''vm.view'',
     vw_organization_field_path = ''organization'' \<rparr>"

definition node_metrics_organization :: "string \<Rightarrow> db \<Rightarrow> org_ref option" where
  "node_metrics_organization u d = map_option (\<lambda>(k, n). OrgRow (nod_organization n)) (by_uuid (nodes d) u)"

definition vm_metrics_organization :: "string \<Rightarrow> db \<Rightarrow> org_ref option" where
  "vm_metrics_organization u d = map_option (\<lambda>(k, v). OrgRow (vm_organization v)) (by_uuid (vms d) u)"

definition since_seconds :: "api_request \<Rightarrow> int option op" where
  "since_seconds rq = (case get_nonempty ''since_seconds'' (ar_query rq) of
     None \<Rightarrow> returnM None
   | Some s \<Rightarrow> bindM (py_int (JStr s)) (\<lambda>i. returnM (Some i)))"

definition samples_since :: "string \<Rightarrow> int option \<Rightarrow> json list op" where
  "samples_since key since = (case since of
     Some i \<Rightarrow> if i < 0 then returnM [] else metrics_query key (Some (nat i))
   | None \<Rightarrow> metrics_query key None)"

definition node_metrics_view :: "api_request \<Rightarrow> string \<Rightarrow> response op" where
  "node_metrics_view rq u = bindM (getdb (\<lambda>d. by_uuid (nodes d) u)) (\<lambda>row. case row of
     None \<Rightarrow> returnM (not_found ''Node not found.'')
   | Some (k, n) \<Rightarrow> bindM (since_seconds rq) (\<lambda>since. bindM (samples_since (node_key n) since) (\<lambda>samples.
       returnM (200, JObj [(''node'', JStr (uuid n)), (''samples'', JArr samples)]))))"

definition vm_metrics_query_view :: "api_request \<Rightarrow> string \<Rightarrow> response op" where
  "vm_metrics_query_view rq u = bindM (getdb (\<lambda>d. by_uuid (vms d) u)) (\<lambda>row. case row of
     None \<Rightarrow> returnM (not_found ''VM not found.'')
   | Some (k, v) \<Rightarrow> bindM (since_seconds rq) (\<lambda>since. bindM (samples_since (vm_key v) since) (\<lambda>samples.
       returnM (200, JObj [(''vm'', JStr (uuid v)), (''samples'', JArr samples)]))))"

definition liveness_view :: response where
  "liveness_view = (200, JObj [(''status'', JStr ''alive'')])"

text \<open>The two checks swallow every exception; their verdicts are the arguments.\<close>

definition readiness_view :: "bool \<Rightarrow> bool \<Rightarrow> response" where
  "readiness_view check_database check_redis =
     (let checks = [(''database'', JBool check_database), (''redis'', JBool check_redis)];
          healthy = list_all (\<lambda>(k, j). truthy j) checks
      in (if healthy then 200 else 503, JObj [(''status'', JStr (if healthy then ''ready'' else ''not_ready'')), (''checks'', JObj checks)]))"

subsection \<open>Audit log and webhooks\<close>

definition AuditLogViewSet :: view where
  "AuditLogViewSet = \<lparr> vw_name = ''AuditLogViewSet'', vw_permission_map = [], vw_required_permission = Some ''audit.view'',
     vw_organization_field_path = ''organization'' \<rparr>"

definition audit_queryset :: "nat \<times> user \<Rightarrow> request \<Rightarrow> (nat \<times> audit_log) list op" where
  "audit_queryset usr rq = (if usr_is_superuser (snd usr) then getdb audit_logs
     else bindM (visible_orgs usr AuditLogViewSet rq) (\<lambda>os.
       getdb (\<lambda>d. rows_where (\<lambda>a. \<exists>ok \<in> set os. aud_organization a = Some ok) (audit_logs d))))"

definition webhook_throttle_scope :: "string \<Rightarrow> string option" where
  "webhook_throttle_scope act = (if act \<in> {''create'', ''update'', ''partial_update''} then Some ''webhook'' else None)"

text \<open>The newest delivery first.\<close>

definition webhook_deliveries :: "db \<Rightarrow> nat \<Rightarrow> webhook_delivery list" where
  "webhook_deliveries d wk = rev (sort_key created_at (map snd (rows_where (\<lambda>r. dlv_webhook r = wk) (deliveries d))))"

text \<open>\<open>InitiateUploadView.get_organization\<close>: an upload is authorized where the storage pool's node is.\<close>

definition upload_organization :: "db \<Rightarrow> request \<Rightarrow> org_ref option" where
  "upload_organization d rq = (case get_nonempty ''storage'' (rq_data rq) of
     None \<Rightarrow> None
   | Some u \<Rightarrow> Option.bind (by_uuid (storage_pools d) u) (\<lambda>(k, p). map_option OrgRow (node_owner d (sto_node p))))"

definition InitiateUploadView :: view where
  "InitiateUploadView = \<lparr> vw_name = ''InitiateUploadView'', vw_permission_map = [], vw_required_permission = Some ''image.upload'',
     vw_organization_field_path = ''organization'' \<rparr>"

subsection \<open>Facts\<close>

lemma wf_elems_map: "wf_elems (map f xs) \<longleftrightarrow> (\<forall>x \<in> set xs. wf_json (f x))"
  by (induction xs) simp_all

lemma wf_opt_json: "(\<And>a. wf_json (f a)) \<Longrightarrow> wf_json (opt_json f x)"
  by (simp add: opt_json_def split: option.split)

lemma wf_nat_json: "wf_json (nat_json n)"
  by (simp add: nat_json_def)

lemma wf_uuid_of: "wf_json (uuid_of t k)"
  by (simp add: uuid_of_def wf_opt_json)

lemmas wf_parts = wf_opt_json wf_nat_json wf_uuid_of wf_elems_map

lemma wf_disk_data: "wf_json (disk_data_of d k)"
  by (simp add: disk_data_of_def wf_parts)

lemma wf_nic_data: "wf_json (nic_data_of d n)"
  by (simp add: nic_data_of_def wf_parts)

lemma wf_vm_data: "wf_json (vm_data_of stamp d vo)"
  by (cases vo) (simp add: vm_data_of_def wf_parts wf_disk_data wf_nic_data case_prod_beta)

lemma wf_agent_data: "wf_json (agent_data_of stamp a)"
  by (simp add: agent_data_of_def wf_parts)

lemma wf_members_append: "wf_members (xs @ ys) \<longleftrightarrow> wf_members xs \<and> wf_members ys"
  by (induction xs) auto

lemma wf_node_data: "wf_json (node_data_of stamp w no)"
  by (cases no) (simp add: node_data_of_def wf_parts wf_agent_data wf_members_append split: list.split)

lemma wf_pool_data: "wf_json (pool_data_of stamp d po)"
  by (cases po) (simp add: pool_data_of_def wf_parts)

lemma wf_page: "wf_elems xs \<Longrightarrow> wf_json (get_paginated_response pg xs)"
  by (simp add: get_paginated_response_def link_json_def split: option.split)

lemma mapC_Inr: "(\<And>x. f (g x) = Inr (h x)) \<Longrightarrow> mapC f (map g xs) = Inr (map h xs)"
  by (induction xs) simp_all

subsection \<open>Recorded samples are shown\<close>

lemma zset_of_put: "0 < ttl \<Longrightarrow> zset_of (redis_put key (RZset z) (Some ttl) w) key = z"
  by (simp add: zset_of_def redis_lookup_def redis_put_def live_def)

text \<open>What an agent reports of a VM comes back from the metrics endpoint, with the time of its arrival.\<close>

theorem recorded_sample_shown:
  assumes "by_uuid (vms (wdb w)) u = Some (k, v)" and "get_nonempty ''since_seconds'' (ar_query rq) = None"
    and "\<forall>p \<in> set (zset_of w (vm_key v)). fst p \<le> clock w" and "0 < METRICS_SAMPLE_MAX_POINTS (conf w)" and "0 < METRICS_RETENTION_SECONDS (conf w)"
    and "metrics_record (vm_key v) s w = (Inr (), w')"
  shows "\<exists>xs. vm_metrics_query_view rq u w' = (Inr (200, JObj [(''vm'', JStr (uuid v)), (''samples'', JArr xs)]), w') \<and>
     JObj (dict_merge [(''ts'', JInt (int (clock w)))] s) \<in> set xs"
proof -
  let ?m = "JObj (dict_merge [(''ts'', JInt (int (clock w)))] s)"
  let ?z = "record_points (conf w) (clock w) ?m (zset_of w (vm_key v))"
  have w': "w' = redis_put (vm_key v) (RZset ?z) (Some (METRICS_RETENTION_SECONDS (conf w) * 1000)) w"
    using assms(6) by (simp add: metrics_record_def)
  have "(clock w, ?m) \<in> set ?z" by (rule record_points_newest [OF assms(3-5)])
  then have "?m \<in> set (map snd (filter (\<lambda>p. fst p \<le> clock w) ?z))" by force
  moreover have "zset_of w' (vm_key v) = ?z" using assms(5) by (simp add: w' zset_of_put)
  moreover have "wdb w' = wdb w" "clock w' = clock w" by (simp_all add: w' redis_put_def)
  ultimately show ?thesis using assms(1,2)
    by (simp add: vm_metrics_query_view_def bindM_apply since_seconds_def samples_since_def metrics_query_def Let_def)
qed

subsection \<open>From the tables to the terminal\<close>

text \<open>
  A server that answers a listing: page \<open>k\<close> of \<open>num\<close> shows the rows \<open>page k\<close>, printed as JSON, and links to the next page.
\<close>

definition serves :: "http \<Rightarrow> (nat \<Rightarrow> string) \<Rightarrow> (string \<times> string) list \<Rightarrow> (nat \<Rightarrow> framework_page) \<Rightarrow> (nat \<Rightarrow> json list) \<Rightarrow> nat \<Rightarrow> bool" where
  "serves http path params pg page num \<longleftrightarrow> 1 \<le> num \<and> pg_next_link (pg num) = None \<and>
     (\<forall>k. path k \<noteq> '''' \<and> lstrip_slash (path k) = path k) \<and>
     (\<forall>k. 1 \<le> k \<longrightarrow> k \<le> num \<longrightarrow> http ''GET'' (path k) (if k = 1 then params else []) None = (200, dumps (get_paginated_response (pg k) (page k)))) \<and>
     (\<forall>k. 1 \<le> k \<longrightarrow> k < num \<longrightarrow> (\<exists>u. pg_next_link (pg k) = Some u \<and> u \<noteq> '''' \<and> after_api u = path (k + 1)))"

lemma list_rows_complete:
  assumes "serves http path params pg (\<lambda>k. map f (page k)) num" and "\<And>x. wf_json (f x)" and "\<And>x. row (f x) = Inr (cells x)"
    and "new_client config = Inr cl"
  shows "list_rows http config (path 1) params row = Some (Inr (map cells (concat (map page [1 ..< num + 1]))))"
proof -
  have get: "cli_get http (path k) (if k = 1 then params else []) = Inr (get_paginated_response (pg k) (map f (page k)))" if "1 \<le> k" "k \<le> num" for k
  proof -
    have "wf_json (get_paginated_response (pg k) (map f (page k)))" by (rule wf_page) (simp add: wf_elems_map assms(2))
    then have "loads (dumps (get_paginated_response (pg k) (map f (page k)))) = Some (get_paginated_response (pg k) (map f (page k)))" by (rule loads_dumps)
    moreover have "dumps (get_paginated_response (pg k) (map f (page k))) \<noteq> []" by (simp add: get_paginated_response_def)
    ultimately show ?thesis using assms(1) that by (simp add: serves_def cli_get_def cli_request_def read_response_def del: dumps.simps)
  qed
  have "paginate (cli_get http) (path 1) params = Some (Inr (concat (map (\<lambda>k. map f (page k)) [1 ..< num + 1])))"
    using assms(1) by (intro paginate_pages [where pg = pg]) (use get in \<open>auto simp: serves_def\<close>)
  moreover have "concat (map (\<lambda>k. map f (page k)) [1 ..< num + 1]) = map f (concat (map page [1 ..< num + 1]))" by (simp add: map_concat comp_def)
  ultimately show ?thesis using assms(4) by (simp add: list_rows_def mapC_Inr [of row f cells, OF assms(3)])
qed

definition vm_cells :: "db \<Rightarrow> nat \<times> virtual_machine \<Rightarrow> json list" where
  "vm_cells d vo = (case vo of (vmk, v) \<Rightarrow>
     [JStr (uuid v), JStr (vm_name v), JStr (show_VMStatus (vm_status v)), JInt (int (vm_cpu_count v)), JInt (int (vm_memory_mb v)),
      JStr (case Option.bind (vm_node v) (\<lambda>k. row_get k (nodes d)) of Some n \<Rightarrow> if uuid n = '''' then ''-'' else uuid n | None \<Rightarrow> ''-'')])"

definition node_cells :: "world \<Rightarrow> nat \<times> node \<Rightarrow> json list" where
  "node_cells w no = (case no of (nk, n) \<Rightarrow>
     [JStr (uuid n), JStr (nod_name n), JStr (show_NodeStatus (effective_status w nk n)), JInt (int (nod_cpu_cores n)),
      JStr (show_int (int (nod_memory_available_mb n)) @ ''/'' @ show_int (int (nod_memory_total_mb n))),
      JStr (show_int (int (nod_storage_available_gb n)) @ ''/'' @ show_int (int (nod_storage_total_gb n)))])"

definition pool_cells :: "nat \<times> storage_pool \<Rightarrow> json list" where
  "pool_cells po = (case po of (k, p) \<Rightarrow>
     [JStr (uuid p), JStr (sto_name p), JStr (show_StorageType (sto_type p)), JStr (show_StoragePoolStatus (sto_status p)),
      JInt (sto_available_bytes p div 1024 ^ 3), JStr (if sto_shared p then ''yes'' else ''no'')])"

lemmas cell_simps = py_item_def jget_def get_or_def opt_json_def nat_json_def truthy_def free_gb_def text_of_def

lemma vm_row: "vm_table_row (vm_data_of stamp d vo) = Inr (vm_cells d vo)"
  by (cases vo) (simp add: vm_table_row_def vm_data_of_def vm_cells_def cell_simps split: Option.bind_splits option.split)

lemma pool_row: "pool_table_row (pool_data_of stamp d po) = Inr (pool_cells po)"
  by (cases po) (simp add: pool_table_row_def pool_data_of_def pool_cells_def cell_simps)

lemma node_row: "node_table_row (node_data_of stamp w no) = Inr (node_cells w no)"
  by (cases no) (simp add: node_table_row_def node_data_of_def node_cells_def cell_simps)

text \<open>
  C24. The terminal shows the tables. Against a controller that serves VMs, nodes and pools in pages of their representations,
  printed as JSON, the three \<open>list\<close> commands end and print one row for every object of every page, in order: every field the
  client looks up is in the representation, the text is read back, and nothing is lost between pages.
\<close>

theorem listings_complete:
  assumes "new_client config = Inr cl"
    and "serves http vpath (nonempty_params [(''organization'', org), (''project'', proj), (''status'', st)]) vpg (\<lambda>k. map (vm_data_of stamp d) (vpage k)) vnum"
    and "serves http npath (nonempty_params [(''organization'', org)]) npg (\<lambda>k. map (node_data_of stamp w) (npage k)) nnum"
    and "serves http spath (nonempty_params [(''node'', nod)]) spg (\<lambda>k. map (pool_data_of stamp d) (spage k)) snum"
    and "vpath 1 = ''vms/''" and "npath 1 = ''nodes/''" and "spath 1 = ''storages/''"
  shows "cli_list_vms http config org proj st = Some (Inr (map (vm_cells d) (concat (map vpage [1 ..< vnum + 1])))) \<and>
     cli_list_nodes http config org = Some (Inr (map (node_cells w) (concat (map npage [1 ..< nnum + 1])))) \<and>
     cli_list_storage http config nod = Some (Inr (map pool_cells (concat (map spage [1 ..< snum + 1]))))"
  unfolding cli_list_vms_def cli_list_nodes_def cli_list_storage_def
  using list_rows_complete [where f = "vm_data_of stamp d" and row = vm_table_row and cells = "vm_cells d", OF assms(2) wf_vm_data vm_row assms(1)]
    list_rows_complete [where f = "node_data_of stamp w" and row = node_table_row and cells = "node_cells w", OF assms(3) wf_node_data node_row assms(1)]
    list_rows_complete [where f = "pool_data_of stamp d" and row = pool_table_row and cells = pool_cells, OF assms(4) wf_pool_data pool_row assms(1)] assms(5-7) by simp

definition ex_stamp :: "nat \<Rightarrow> string" where
  "ex_stamp t = ''2025-01-01T00:00:00Z''"

definition ex_single :: framework_page where
  "ex_single = \<lparr> pg_count = 1, pg_number = 1, pg_num_pages = 1, pg_page_size = 50, pg_next_link = None, pg_previous_link = None \<rparr>"

definition ex_api :: http where
  "ex_api m path params body = (200, dumps (get_paginated_response ex_single
     (if path = ''vms/'' then [vm_data_of ex_stamp (wdb ex_world) (20, ex_vm)]
      else if path = ''nodes/'' then [node_data_of ex_stamp ex_world (10, ex_node)]
      else [pool_data_of ex_stamp (wdb ex_world) (12, ex_pool)])))"

lemma ex_serves:
  assumes "path \<noteq> ''''" and "lstrip_slash path = path" and "ex_api ''GET'' path ps None = (200, dumps (get_paginated_response ex_single js))"
  shows "serves ex_api (\<lambda>k. path) ps (\<lambda>k. ex_single) (\<lambda>k. js) 1"
  using assms by (auto simp: serves_def ex_single_def le_Suc_eq simp del: dumps.simps)

definition ex_cli_config :: CLIConfig where
  "ex_cli_config = \<lparr> cc_api_url = ''https://host/api/v1'', cc_token = Some ''np_1'', cc_token_type = ''Token'', cc_verify_tls = True \<rparr>"

theorem listings_complete_witness:
  "cli_list_vms ex_api ex_cli_config None None None = Some (Inr [[JStr ''v1'', JStr ''web'', JStr ''STOPPED'', JInt 2, JInt 2048, JStr ''n1'']]) \<and>
   cli_list_nodes ex_api ex_cli_config None = Some (Inr [node_cells ex_world (10, ex_node)]) \<and>
   cli_list_storage ex_api ex_cli_config None = Some (Inr [pool_cells (12, ex_pool)])"
proof -
  have "serves ex_api (\<lambda>k. ''vms/'') (nonempty_params [(''organization'', None), (''project'', None), (''status'', None)]) (\<lambda>k. ex_single)
      (\<lambda>k. map (vm_data_of ex_stamp (wdb ex_world)) [(20, ex_vm)]) 1"
    by (rule ex_serves) (simp_all add: lstrip_slash_def ex_api_def del: dumps.simps)
  moreover have "serves ex_api (\<lambda>k. ''nodes/'') (nonempty_params [(''organization'', None)]) (\<lambda>k. ex_single)
      (\<lambda>k. map (node_data_of ex_stamp ex_world) [(10, ex_node)]) 1"
    by (rule ex_serves) (simp_all add: lstrip_slash_def ex_api_def del: dumps.simps)
  moreover have "serves ex_api (\<lambda>k. ''storages/'') (nonempty_params [(''node'', None)]) (\<lambda>k. ex_single)
      (\<lambda>k. map (pool_data_of ex_stamp (wdb ex_world)) [(12, ex_pool)]) 1"
    by (rule ex_serves) (simp_all add: lstrip_slash_def ex_api_def del: dumps.simps)
  moreover obtain cl where "new_client ex_cli_config = Inr cl" by (simp add: new_client_def ex_cli_config_def)
  ultimately have "cli_list_vms ex_api ex_cli_config None None None = Some (Inr (map (vm_cells (wdb ex_world)) (concat (map (\<lambda>k. [(20, ex_vm)]) [1 ..< 1 + 1])))) \<and>
      cli_list_nodes ex_api ex_cli_config None = Some (Inr (map (node_cells ex_world) (concat (map (\<lambda>k. [(10, ex_node)]) [1 ..< 1 + 1])))) \<and>
      cli_list_storage ex_api ex_cli_config None = Some (Inr (map pool_cells (concat (map (\<lambda>k. [(12, ex_pool)]) [1 ..< 1 + 1]))))"
    by (intro listings_complete) simp_all
  moreover have "vm_cells (wdb ex_world) (20, ex_vm) = [JStr ''v1'', JStr ''web'', JStr ''STOPPED'', JInt 2, JInt 2048, JStr ''n1'']"
    by (simp add: vm_cells_def ex_world_def ex_vm_def ex_node_def row_get_def)
  ultimately show ?thesis by simp
qed

end
