(* ===== verification/Settings.thy ===== *)
theory Settings
  imports Views Middleware
begin

section \<open>Settings: configuration from the environment\<close>

text \<open>
  \<open>config/settings/base.py\<close> and \<open>production.py\<close>: how the values the controller's own code and its credentials depend on are read from the environment, what
  production refuses to start with, and the throttle rates against the scopes the views name. Settings that only configure third-party packages are left out.
\<close>

type_synonym environ = "(string \<times> string) list"

definition env_var :: "environ \<Rightarrow> string \<Rightarrow> string option \<Rightarrow> string option" where
  "env_var e k dflt = (case map_of e k of Some s \<Rightarrow> Some s | None \<Rightarrow> dflt)"

definition py_strip :: "string \<Rightarrow> string" where
  "py_strip s = rev (dropWhile is_space (rev (dropWhile is_space s)))"

definition env_bool :: "environ \<Rightarrow> string \<Rightarrow> bool \<Rightarrow> bool" where
  "env_bool e k dflt = (case map_of e k of None \<Rightarrow> dflt | Some s \<Rightarrow> lower (py_strip s) \<in> {''1'', ''true'', ''yes'', ''on''})"

definition env_list :: "environ \<Rightarrow> string \<Rightarrow> string \<Rightarrow> string list" where
  "env_list e k dflt = filter (\<lambda>x. x \<noteq> '''') (map py_strip (split_on CHR '','' (opt_or (map_of e k) dflt)))"

text \<open>\<open>int(env(k, str(d)) or d)\<close>: an empty value means the default, anything that is no integer raises.\<close>

definition env_int :: "environ \<Rightarrow> string \<Rightarrow> nat \<Rightarrow> string + int" where
  "env_int e k dflt = (case opt_or (map_of e k) '''' of
     s \<Rightarrow> if s = '''' then Inr (int dflt) else (case int_of_text s of Some i \<Rightarrow> Inr i | None \<Rightarrow> Inl (''invalid literal for int() with base 10: '' @ quoted s)))"

record base_settings =
  SECRET_KEY :: string
  DEBUG :: bool
  ALLOWED_HOSTS :: "string list"
  CORS_ALLOWED_ORIGINS :: "string list"
  CSRF_TRUSTED_ORIGINS :: "string list"
  SESSION_COOKIE_SECURE :: bool
  CSRF_COOKIE_SECURE :: bool
  ACCESS_TOKEN_LIFETIME_MIN :: int
  REFRESH_TOKEN_LIFETIME_DAYS :: int
  SIGNING_KEY :: string

definition DEV_SECRET_KEY :: string where
  "DEV_SECRET_KEY = ''insecure-dev-key-change-me''"

definition bindS :: "string + 'a \<Rightarrow> ('a \<Rightarrow> string + 'b) \<Rightarrow> string + 'b" where
  "bindS m f = (case m of Inl e \<Rightarrow> Inl e | Inr a \<Rightarrow> f a)"

lemma bindS_simps [simp]: "bindS (Inl e) f = Inl e" "bindS (Inr a) f = f a"
  by (simp_all add: bindS_def)

definition base_of :: "environ \<Rightarrow> string + base_settings" where
  "base_of e = (let secret = opt_or (map_of e ''SECRET_KEY'') DEV_SECRET_KEY in
     bindS (env_int e ''JWT_ACCESS_LIFETIME_MIN'' 15) (\<lambda>minutes. bindS (env_int e ''JWT_REFRESH_LIFETIME_DAYS'' 7) (\<lambda>days.
     Inr \<lparr> SECRET_KEY = secret, DEBUG = env_bool e ''DEBUG'' False, ALLOWED_HOSTS = env_list e ''ALLOWED_HOSTS'' ''localhost,127.0.0.1'',
       CORS_ALLOWED_ORIGINS = env_list e ''CORS_ALLOWED_ORIGINS'' '''', CSRF_TRUSTED_ORIGINS = env_list e ''CSRF_TRUSTED_ORIGINS'' '''',
       SESSION_COOKIE_SECURE = env_bool e ''SECURE_COOKIES'' True, CSRF_COOKIE_SECURE = env_bool e ''SECURE_COOKIES'' True,
       ACCESS_TOKEN_LIFETIME_MIN = minutes, REFRESH_TOKEN_LIFETIME_DAYS = days,
       SIGNING_KEY = opt_or (map_of e ''JWT_SIGNING_KEY'') secret \<rparr>)))"

text \<open>The \<open>NODEPILOT\<close> dictionary. A negative number is no count of seconds or points; the model stops there.\<close>

definition count_of :: "int \<Rightarrow> string + nat" where
  "count_of i = (if 0 \<le> i then Inr (nat i) else Inl ''negative'')"

definition env_count :: "environ \<Rightarrow> string \<Rightarrow> nat \<Rightarrow> string + nat" where
  "env_count e k dflt = bindS (env_int e k dflt) count_of"

definition nodepilot_of :: "environ \<Rightarrow> string + settings" where
  "nodepilot_of e =
     bindS (env_count e ''HEARTBEAT_INTERVAL_SECONDS'' 10) (\<lambda>a. bindS (env_count e ''OFFLINE_THRESHOLD_SECONDS'' 30) (\<lambda>b.
     bindS (env_count e ''AGENT_RPC_TIMEOUT_SECONDS'' 30) (\<lambda>c. bindS (env_count e ''METRICS_RETENTION_SECONDS'' 3600) (\<lambda>d.
     bindS (env_count e ''METRICS_SAMPLE_MAX_POINTS'' 720) (\<lambda>f. bindS (env_count e ''WEBHOOK_MAX_RETRIES'' 6) (\<lambda>g.
     bindS (env_count e ''IDEMPOTENCY_KEY_TTL_SECONDS'' 86400) (\<lambda>h.
     Inr \<lparr> HEARTBEAT_INTERVAL_SECONDS = a, OFFLINE_THRESHOLD_SECONDS = b, AGENT_RPC_TIMEOUT_SECONDS = c,
       MIN_SUPPORTED_AGENT_VERSION = opt_or (map_of e ''MIN_SUPPORTED_AGENT_VERSION'') ''1.0.0'', METRICS_RETENTION_SECONDS = d,
       METRICS_SAMPLE_MAX_POINTS = f, WEBHOOK_MAX_RETRIES = g, IDEMPOTENCY_KEY_TTL_SECONDS = h \<rparr>)))))))"

text \<open>\<open>production.py\<close>.\<close>

record production_settings = base_settings +
  SECURE_SSL_REDIRECT :: bool
  SECURE_HSTS_SECONDS :: int

definition production_of :: "environ \<Rightarrow> string + production_settings" where
  "production_of e = bindS (base_of e) (\<lambda>b. bindS (env_int e ''SECURE_HSTS_SECONDS'' 31536000) (\<lambda>hsts.
     if opt_or (map_of e ''SECRET_KEY'') '''' = '''' then Inl ''SECRET_KEY must be set in production''
     else if SECRET_KEY b = DEV_SECRET_KEY then Inl ''Refusing to start with the default development SECRET_KEY''
     else Inr (base_settings.extend (b\<lparr>DEBUG := False, SESSION_COOKIE_SECURE := True, CSRF_COOKIE_SECURE := True\<rparr>)
       (production_settings.fields (env_bool e ''SECURE_SSL_REDIRECT'' True) hsts))))"

subsection \<open>Throttle rates\<close>

definition DEFAULT_THROTTLE_RATES :: "(string \<times> string) list" where
  "DEFAULT_THROTTLE_RATES = [(''anon'', ''20/min''), (''user'', ''120/min''), (''api_token'', ''300/min''), (''login'', ''10/min''), (''token_create'', ''10/min''),
     (''vm_create'', ''30/min''), (''image_upload'', ''10/min''), (''console_auth'', ''20/min''), (''webhook'', ''60/min'')]"

text \<open>The scopes that views and throttle classes name: fixed ones, and those chosen by the action.\<close>

definition fixed_scopes :: "string list" where
  "fixed_scopes = [''anon'', ''user'', ''api_token'', ''login'', ''token_create'', ''image_upload'']"

definition throttle_scope :: "string \<Rightarrow> bool" where
  "throttle_scope s \<longleftrightarrow> s \<in> set fixed_scopes \<or> (\<exists>act. vm_throttle_scope act = Some s \<or> webhook_throttle_scope act = Some s)"

subsection \<open>Facts\<close>

text \<open>The constant the other theories use is what the code computes in an empty environment.\<close>

lemma nodepilot_defaults: "nodepilot_of [] = Inr NODEPILOT"
  by (simp add: nodepilot_of_def env_count_def env_int_def count_of_def opt_or_def NODEPILOT_def)

text \<open>No view fails for want of a rate: the framework raises for a scope without one.\<close>

theorem every_scope_has_rate: "throttle_scope s \<Longrightarrow> map_of DEFAULT_THROTTLE_RATES s \<noteq> None"
  by (auto simp: throttle_scope_def fixed_scopes_def vm_throttle_scope_def webhook_throttle_scope_def DEFAULT_THROTTLE_RATES_def split: if_splits)

text \<open>
  Production does not start insecurely. Whatever the environment says, a production configuration that loads has a secret key that is neither empty nor the
  published development key, debugging is off, and both cookies are restricted to HTTPS. The key that signs access tokens is not covered: a variable
  that is set but empty replaces it by the empty string, and production starts.
\<close>

theorem production_hardened:
  assumes "production_of e = Inr s"
  shows "SECRET_KEY s \<noteq> '''' \<and> SECRET_KEY s \<noteq> DEV_SECRET_KEY \<and> \<not> DEBUG s \<and> SESSION_COOKIE_SECURE s \<and> CSRF_COOKIE_SECURE s \<and>
     (\<exists>s'. production_of ((''JWT_SIGNING_KEY'', '''') # e) = Inr s' \<and> SIGNING_KEY s' = '''')"
proof -
  let ?e = "(''JWT_SIGNING_KEY'', '''') # e"
  obtain b where b: "base_of e = Inr b" using assms by (cases "base_of e") (simp_all add: production_of_def)
  have int: "env_int ?e k d = env_int e k d" "env_bool ?e k q = env_bool e k q" "env_list ?e k l = env_list e k l" if "k \<noteq> ''JWT_SIGNING_KEY''" for k d q l
    using that by (simp_all add: env_int_def env_bool_def env_list_def split: option.split)
  have b': "base_of ?e = Inr (b\<lparr>SIGNING_KEY := ''''\<rparr>)"
    using b by (auto simp: base_of_def int Let_def opt_or_def bindS_def split: sum.splits)
  have "SECRET_KEY b = opt_or (map_of e ''SECRET_KEY'') DEV_SECRET_KEY" using b by (auto simp: base_of_def Let_def bindS_def split: sum.splits)
  then show ?thesis using assms b b'
    by (auto simp: production_of_def int bindS_def opt_or_def base_settings.defs production_settings.defs split: sum.splits if_splits option.splits)
qed

theorem production_hardened_witness:
  "\<exists>s. production_of [(''SECRET_KEY'', ''k''), (''DEBUG'', ''yes'')] = Inr s \<and> SECRET_KEY s \<noteq> '''' \<and> SECRET_KEY s \<noteq> DEV_SECRET_KEY \<and> \<not> DEBUG s \<and> SESSION_COOKIE_SECURE s \<and> CSRF_COOKIE_SECURE s"
proof -
  have "\<exists>s. production_of [(''SECRET_KEY'', ''k''), (''DEBUG'', ''yes'')] = Inr s"
    by (simp add: production_of_def base_of_def env_int_def opt_or_def DEV_SECRET_KEY_def Let_def)
  then show ?thesis using production_hardened by blast
qed

end
