(* ===== verification/Accounts.thy ===== *)
theory Accounts
  imports Rest
begin

section \<open>Accounts: users, tokens, roles and their endpoints\<close>

text \<open>
  \<open>users/views.py\<close>, the token and ticket endpoints of \<open>authentication/views.py\<close>, and the writable fields of the role,
  role assignment and membership serializers. As in \<open>Rest\<close>, \<open>get_object\<close> is an argument; the plain \<open>serializer.save()\<close> of
  an update writes every field the body carries.
\<close>

subsection \<open>Users\<close>

datatype user_permission = IsAuthenticated | IsAdminUser

definition user_get_permissions :: "string \<Rightarrow> user_permission list" where
  "user_get_permissions act = (if act \<in> {''me'', ''lookup''} then [IsAuthenticated] else [IsAuthenticated, IsAdminUser])"

fun user_permits :: "principal \<Rightarrow> user_permission \<Rightarrow> bool" where
  "user_permits p IsAuthenticated = (p \<noteq> None)"
| "user_permits p IsAdminUser = (case p of Some (k, u) \<Rightarrow> usr_is_staff u | None \<Rightarrow> False)"

definition user_get_object :: "string \<Rightarrow> api_request \<Rightarrow> (nat \<times> user) op \<Rightarrow> (nat \<times> user) op" where
  "user_get_object act rq super_get_object = (if act = ''me'' then returnM (ar_user rq) else super_get_object)"

definition me_view :: "api_request \<Rightarrow> (nat \<times> user) op" where
  "me_view rq = returnM (200, snd (ar_user rq))"

definition lookup_view :: "api_request \<Rightarrow> response op" where
  "lookup_view rq = (let username = strip_spaces (opt_or (map_of (ar_query rq) ''username'') '''')
     in if username = '''' then returnM (bad_request ''username is required'')
        else bindM (getdb (\<lambda>d. rows_where (\<lambda>u. usr_username u = username \<and> usr_is_active u) (users d))) (\<lambda>rows. case rows of
            [] \<Rightarrow> returnM (not_found ''No active user with that username.'')
          | (k, u) # _ \<Rightarrow> returnM (200, JObj [(''uuid'', JStr (uuid u)), (''username'', JStr (usr_username u))])))"

text \<open>\<open>UserCreateSerializer\<close>: a password of at least twelve characters, which \<open>set_password\<close> stores hashed.\<close>

record user_data =
  ud_username :: string
  ud_password :: string
  ud_is_service_account :: bool

definition user_fields_ok :: "user_data \<Rightarrow> bool" where
  "user_fields_ok d \<longleftrightarrow> 12 \<le> length (ud_password d)"

definition user_create :: "user_data \<Rightarrow> nat op" where
  "user_create d =
     bindM (getdb (\<lambda>x. list_ex (\<lambda>(k, r). usr_username r = ud_username d) (users x))) (\<lambda>clash.
     if clash then raiseM (DrfExn 400 ''VALIDATION_FAILED'' ''A user with that username already exists.'')
     else bindM uuid4 (\<lambda>u. bindM now (\<lambda>t. bindM fresh_pk (\<lambda>k. bindM (moddb (\<lambda>x. x\<lparr>users := row_add k
       \<lparr> uuid = u, created_at = t, updated_at = t, usr_username = ud_username d, usr_is_superuser = False, usr_is_staff = False,
         usr_is_active = True, usr_is_service_account = ud_is_service_account d \<rparr> (users x)\<rparr>)) (\<lambda>_. returnM k)))))"

subsection \<open>Tokens and tickets\<close>

text \<open>\<open>get_queryset\<close>: only the user's own tokens.\<close>

definition token_queryset :: "db \<Rightarrow> api_request \<Rightarrow> (nat \<times> api_token) list" where
  "token_queryset d rq = rows_where (\<lambda>t. tok_user t = fst (ar_user rq)) (api_tokens d)"

definition token_destroy_view :: "api_request \<Rightarrow> (nat \<times> api_token) op \<Rightarrow> response op" where
  "token_destroy_view rq get_object = bindM get_object (\<lambda>(k, t). bindM (token_revoke k) (\<lambda>_.
     bindM (log_action (ar_by rq) (usr_username (snd (ar_user rq))) ''API_TOKEN_REVOKE'' ''APIToken'' (uuid t) None (ar_ip rq) AR_SUCCESS (JObj [])) (\<lambda>_.
     returnM (204, JNull))))"

definition ws_ticket_view :: "api_request \<Rightarrow> response op" where
  "ws_ticket_view rq = bindM (issue_ticket (snd (ar_user rq))) (\<lambda>ticket.
     returnM (200, JObj [(''ticket'', JStr ticket), (''expires_in'', JInt (int TICKET_TTL_SECONDS))]))"

subsection \<open>Role assignments and memberships\<close>

text \<open>
  The writable fields, each present in the body or not; \<open>project\<close> may be set to null. The serializer checks the model's
  \<open>unique_together\<close> before it saves, and skips the check when one of the fields is null.
\<close>

record assignment_patch =
  rap_user :: "nat option"
  rap_organization :: "nat option"
  rap_project :: "nat option option"
  rap_role :: "nat option"

definition patch_assignment :: "assignment_patch \<Rightarrow> role_assignment \<Rightarrow> role_assignment" where
  "patch_assignment p a = a\<lparr>ras_user := opt_or (rap_user p) (ras_user a), ras_organization := opt_or (rap_organization p) (ras_organization a),
     ras_project := opt_or (rap_project p) (ras_project a), ras_role := opt_or (rap_role p) (ras_role a)\<rparr>"

definition assignment_taken :: "db \<Rightarrow> nat \<Rightarrow> role_assignment \<Rightarrow> bool" where
  "assignment_taken d k a \<longleftrightarrow> ras_project a \<noteq> None \<and> list_ex (\<lambda>(k', b). k' \<noteq> k \<and> ras_user b = ras_user a \<and> ras_organization b = ras_organization a \<and>
     ras_project b = ras_project a \<and> ras_role b = ras_role a) (role_assignments d)"

definition assignment_update_view :: "(nat \<times> role_assignment) op \<Rightarrow> assignment_patch \<Rightarrow> (nat \<times> role_assignment) op" where
  "assignment_update_view get_object p = bindM get_object (\<lambda>(k, a). let a' = patch_assignment p a in
     bindM (getdb (\<lambda>d. assignment_taken d k a')) (\<lambda>taken.
     if taken then raiseM (DrfExn 400 ''VALIDATION_FAILED'' ''The fields user, organization, project, role must make a unique set.'')
     else bindM (moddb (\<lambda>d. d\<lparr>role_assignments := row_mod k (\<lambda>_. a') (role_assignments d)\<rparr>)) (\<lambda>_. returnM (200, a'))))"

record membership_patch =
  mep_organization :: "nat option"
  mep_user :: "nat option"

definition patch_membership :: "membership_patch \<Rightarrow> membership \<Rightarrow> membership" where
  "patch_membership p m = m\<lparr>mem_organization := opt_or (mep_organization p) (mem_organization m), mem_user := opt_or (mep_user p) (mem_user m)\<rparr>"

definition membership_update_view :: "(nat \<times> membership) op \<Rightarrow> membership_patch \<Rightarrow> (nat \<times> membership) op" where
  "membership_update_view get_object p = bindM get_object (\<lambda>(k, m). let m' = patch_membership p m in
     bindM (getdb (\<lambda>d. list_ex (\<lambda>(k', b). k' \<noteq> k \<and> mem_organization b = mem_organization m' \<and> mem_user b = mem_user m') (memberships d))) (\<lambda>taken.
     if taken then raiseM (DrfExn 400 ''VALIDATION_FAILED'' ''The fields user, organization must make a unique set.'')
     else bindM (moddb (\<lambda>d. d\<lparr>memberships := row_mod k (\<lambda>_. m') (memberships d)\<rparr>)) (\<lambda>_. returnM (200, m'))))"

text \<open>\<open>RoleViewSet.get_queryset\<close> and \<open>OrganizationViewSet.get_queryset\<close>.\<close>

definition role_queryset :: "db \<Rightarrow> nat list \<Rightarrow> (nat \<times> role) list" where
  "role_queryset d scoped = filter (\<lambda>(k, r). k \<in> set scoped \<or> rol_organization r = None) (roles d)"

definition organization_queryset :: "db \<Rightarrow> nat \<times> user \<Rightarrow> (nat \<times> organization) list" where
  "organization_queryset d usr = (if usr_is_superuser (snd usr) then organizations d
     else filter (\<lambda>(k, r). k \<in> set (member_orgs d (fst usr))) (organizations d))"

definition organization_get_organization :: "db \<Rightarrow> string option \<Rightarrow> org_ref option" where
  "organization_get_organization d kwarg = (case kwarg of None \<Rightarrow> None | Some u \<Rightarrow> if u = '''' then None else organization_by_uuid d u)"

subsection \<open>The permission is checked where the assignment was\<close>

text \<open>The lookup of the framework with the queryset and the permission class of \<open>Access\<close>.\<close>

definition checked_object :: "request \<Rightarrow> view \<Rightarrow> (nat \<Rightarrow> model_obj) \<Rightarrow> string \<Rightarrow> (db \<Rightarrow> 'r table) \<Rightarrow> nat \<Rightarrow> (nat \<times> 'r) op" where
  "checked_object rq vw mk nm tab k = bindM (get_queryset vw rq [mk k]) (\<lambda>found.
     if found = [] then raiseM (DrfExn 404 ''NOT_FOUND'' ''Not found.'')
     else bindM (has_object_permission rq vw (mk k)) (\<lambda>ok.
       if ok then bindM (get_row nm tab k) (\<lambda>r. returnM (k, r))
       else raiseM (DrfExn 403 ''PERMISSION_DENIED'' ''You do not have permission to perform this action.'')))"

lemma assigned_from_row:
  assumes "row_get k (role_assignments d) = Some a" and "ras_project a = None" and "row_get (ras_role a) (roles d) = Some r" and "c \<in> set (rol_permissions r)"
  shows "c \<in> set (assigned_codenames d (ras_user a) (ras_organization a) None)"
proof -
  have "(k, a) \<in> set (role_assignments d)" using assms(1) by (auto simp: row_get_def dest: map_of_SomeD)
  then have "(k, a) \<in> set (rows_where (\<lambda>b. ras_user b = ras_user a \<and> ras_organization b = ras_organization a \<and> models_q_project None b) (role_assignments d))"
    using assms(2) by (simp add: rows_where_def models_q_project_def)
  moreover have "c \<in> set (role_codenames d (ras_role a))" using assms(3,4) by (simp add: role_codenames_def)
  ultimately show ?thesis unfolding assigned_codenames_def by fastforce
qed

text \<open>
  A role can be carried into another organization. The permission to change a role assignment is checked in the
  organization the assignment is in, and its \<open>organization\<close> is a writable field. So a user who is not a superuser
  and whose own assignment carries \<open>organization.manage\<close> in one organization can move that assignment to any other
  organization, and afterwards holds every permission of the role there.
\<close>

theorem role_assignment_crosses_tenants:
  assumes "rq_user rq = Some (uk, u)" and "\<not> usr_is_superuser u" and "rq_token rq = None" and "rq_action rq = Some ''partial_update''"
    and "row_get k (role_assignments (wdb w)) = Some a" and "ras_user a = uk" and "ras_project a = None"
    and "row_get (ras_role a) (roles (wdb w)) = Some r" and "''organization.manage'' \<in> set (rol_permissions r)" and "c \<in> set (rol_permissions r)"
    and "redis_lookup w (cache_key uk (ras_organization a) None) = None" and "ras_organization a \<in> set (member_orgs (wdb w) uk)"
  shows "\<exists>w'. assignment_update_view (checked_object rq RoleAssignmentViewSet MRoleAssignment ''RoleAssignment'' role_assignments k)
        \<lparr> rap_user = None, rap_organization = Some b, rap_project = None, rap_role = None \<rparr> w = (Inr (200, a\<lparr>ras_organization := b\<rparr>), w') \<and>
     granted (wdb w') uk u b None c"
proof -
  have "''organization.manage'' \<in> set (current_codes w uk (ras_organization a) None)"
    using assigned_from_row [OF assms(5,7,8,9)] assms(6,11) by (simp add: current_codes_def)
  then have perm: "has_object_permission rq RoleAssignmentViewSet (MRoleAssignment k) w = (Inr True, remember uk (ras_organization a) None w)"
    using assms(1-5) by (simp add: has_object_permission_def resolve_codename_def RoleAssignmentViewSet_def manages_def crud_def token_permits_def
        resolve_organization_from_object_def as_org_def has_permission_run)
  have found: "get_queryset RoleAssignmentViewSet rq [MRoleAssignment k] w = (Inr [MRoleAssignment k], w)"
    using assms(1,2,4,5,12) by (simp add: get_queryset_def visible_orgs_def in_orgs_def RoleAssignmentViewSet_def bindM_apply)
  let ?a = "a\<lparr>ras_organization := b\<rparr>"
  let ?w = "db_upd (\<lambda>d. d\<lparr>role_assignments := row_mod k (\<lambda>_. ?a) (role_assignments d)\<rparr>) (remember uk (ras_organization a) None w)"
  have patch: "patch_assignment \<lparr> rap_user = None, rap_organization = Some b, rap_project = None, rap_role = None \<rparr> a = ?a"
    by (simp add: patch_assignment_def opt_or_def)
  have "assignment_update_view (checked_object rq RoleAssignmentViewSet MRoleAssignment ''RoleAssignment'' role_assignments k)
        \<lparr> rap_user = None, rap_organization = Some b, rap_project = None, rap_role = None \<rparr> w = (Inr (200, ?a), ?w)"
    using perm found assms(5,7) by (simp add: assignment_update_view_def checked_object_def get_row_def bindM_apply patch Let_def assignment_taken_def moddb_def)
  moreover have "granted (wdb ?w) uk u b None c"
  proof -
    have "row_get k (row_mod k (\<lambda>_. ?a) (role_assignments (wdb w))) = Some ?a" using assms(5) tbl.get_md_same by fastforce
    then have "(k, ?a) \<in> set (row_mod k (\<lambda>_. ?a) (role_assignments (wdb w)))" by (auto simp: row_get_def dest: map_of_SomeD)
    then show ?thesis using assms(6-8,10) by (force simp: granted_def)
  qed
  ultimately show ?thesis by blast
qed

definition ex_patch_request :: request where
  "ex_patch_request = ex_request\<lparr>rq_action := Some ''partial_update''\<rparr>"

theorem role_assignment_crosses_tenants_witness:
  "\<not> granted (wdb ex_acl) 5 ex_user 99 None ''vm.view'' \<and>
   (\<exists>w'. assignment_update_view (checked_object ex_patch_request RoleAssignmentViewSet MRoleAssignment ''RoleAssignment'' role_assignments 8)
        \<lparr> rap_user = None, rap_organization = Some 99, rap_project = None, rap_role = None \<rparr> ex_acl = (Inr (200, ex_assignment\<lparr>ras_organization := 99\<rparr>), w') \<and>
     granted (wdb w') 5 ex_user 99 None ''vm.view'')"
proof
  show "\<not> granted (wdb ex_acl) 5 ex_user 99 None ''vm.view''" by (simp add: granted_def ex_acl_simps)
  show "\<exists>w'. assignment_update_view (checked_object ex_patch_request RoleAssignmentViewSet MRoleAssignment ''RoleAssignment'' role_assignments 8)
        \<lparr> rap_user = None, rap_organization = Some 99, rap_project = None, rap_role = None \<rparr> ex_acl = (Inr (200, ex_assignment\<lparr>ras_organization := 99\<rparr>), w') \<and>
     granted (wdb w') 5 ex_user 99 None ''vm.view''"
    by (rule role_assignment_crosses_tenants [where r = ex_role])
       (simp_all add: ex_patch_request_def ex_request_def ex_acl_simps row_get_def member_orgs_def rows_where_def redis_lookup_def)
qed

end
