(* ===== verification/Tenancy.thy ===== *)
theory Tenancy
  imports Accounts
begin

section \<open>Tenancy: creating and deleting the rows that grant access\<close>

text \<open>
  The create and destroy actions of the viewsets of \<open>organizations/views.py\<close> and \<open>permissions/views.py\<close>. They are the framework's, so what is modelled is
  what the repository declares: the permission class with the viewset's organization, the writable fields of the serializer, the unique
  constraints it validates and the row that \<open>save\<close> writes. A slug or uuid in the body is already resolved to its row.
\<close>

subsection \<open>The actions\<close>

text \<open>\<open>check_permissions\<close>, then the body of the action.\<close>

definition checked_create :: "request \<Rightarrow> view \<Rightarrow> (db \<Rightarrow> org_ref option) \<Rightarrow> 'a op \<Rightarrow> 'a op" where
  "checked_create rq vw organization body = bindM (has_view_permission rq vw organization) (\<lambda>ok.
     if ok then body else raiseM (DrfExn 403 ''PERMISSION_DENIED'' ''You do not have permission to perform this action.''))"

definition must_be_unique :: "(db \<Rightarrow> bool) \<Rightarrow> string \<Rightarrow> 'a op \<Rightarrow> 'a op" where
  "must_be_unique taken flds body = bindM (getdb taken) (\<lambda>t.
     if t then raiseM (DrfExn 400 ''VALIDATION_FAILED'' (''The fields '' @ flds @ '' must make a unique set.'')) else body)"

record assignment_data =
  rad_user :: nat
  rad_organization :: nat
  rad_project :: "nat option"
  rad_role :: nat

definition assignment_create :: "assignment_data \<Rightarrow> (nat \<times> role_assignment) op" where
  "assignment_create d = must_be_unique (\<lambda>x. rad_project d \<noteq> None \<and> list_ex (\<lambda>(k, a). ras_user a = rad_user d \<and>
       ras_organization a = rad_organization d \<and> ras_project a = rad_project d \<and> ras_role a = rad_role d) (role_assignments x))
     ''user, organization, project, role''
     (bindM uuid4 (\<lambda>u. bindM now (\<lambda>t. bindM fresh_pk (\<lambda>k.
       let a = \<lparr> uuid = u, created_at = t, updated_at = t, ras_user = rad_user d, ras_organization = rad_organization d,
                 ras_project = rad_project d, ras_role = rad_role d \<rparr>
       in bindM (moddb (\<lambda>x. x\<lparr>role_assignments := row_add k a (role_assignments x)\<rparr>)) (\<lambda>_. returnM (k, a))))))"

definition assignment_destroy :: "(nat \<times> role_assignment) op \<Rightarrow> response op" where
  "assignment_destroy get_object = bindM get_object (\<lambda>(k, a).
     bindM (moddb (\<lambda>x. x\<lparr>role_assignments := row_del k (role_assignments x)\<rparr>)) (\<lambda>_. returnM (204, JNull)))"

definition membership_create :: "nat \<Rightarrow> nat \<Rightarrow> (nat \<times> membership) op" where
  "membership_create ok uk = must_be_unique (\<lambda>x. list_ex (\<lambda>(k, m). mem_user m = uk \<and> mem_organization m = ok) (memberships x)) ''user, organization''
     (bindM uuid4 (\<lambda>u. bindM now (\<lambda>t. bindM fresh_pk (\<lambda>k.
       let m = \<lparr> uuid = u, created_at = t, updated_at = t, mem_user = uk, mem_organization = ok \<rparr>
       in bindM (moddb (\<lambda>x. x\<lparr>memberships := row_add k m (memberships x)\<rparr>)) (\<lambda>_. returnM (k, m))))))"

definition membership_destroy :: "(nat \<times> membership) op \<Rightarrow> response op" where
  "membership_destroy get_object = bindM get_object (\<lambda>(k, m).
     bindM (moddb (\<lambda>x. x\<lparr>memberships := row_del k (memberships x)\<rparr>)) (\<lambda>_. returnM (204, JNull)))"

text \<open>\<open>RoleSerializer\<close>: the permissions are codenames of the catalog; \<open>is_system\<close> is read-only and defaults to false.\<close>

definition role_create :: "string \<Rightarrow> nat option \<Rightarrow> string list \<Rightarrow> (nat \<times> role) op" where
  "role_create nm org codenames = must_be_unique (\<lambda>x. org \<noteq> None \<and> list_ex (\<lambda>(k, r). rol_organization r = org \<and> rol_name r = nm) (roles x)) ''organization, name''
     (bindM uuid4 (\<lambda>u. bindM now (\<lambda>t. bindM fresh_pk (\<lambda>k.
       let r = \<lparr> uuid = u, created_at = t, updated_at = t, rol_name = nm, rol_organization = org, rol_permissions = codenames, rol_is_system = False \<rparr>
       in bindM (moddb (\<lambda>x. x\<lparr>roles := row_add k r (roles x)\<rparr>)) (\<lambda>_. returnM (k, r))))))"

definition project_create :: "nat \<Rightarrow> string \<Rightarrow> string \<Rightarrow> string \<Rightarrow> bool \<Rightarrow> (nat \<times> project) op" where
  "project_create ok nm sl desc active = must_be_unique (\<lambda>x. list_ex (\<lambda>(k, p). prj_organization p = ok \<and> prj_slug p = sl) (projects x)) ''organization, slug''
     (bindM uuid4 (\<lambda>u. bindM now (\<lambda>t. bindM fresh_pk (\<lambda>k.
       let p = \<lparr> uuid = u, created_at = t, updated_at = t, prj_organization = ok, prj_name = nm, prj_slug = sl, prj_description = desc, prj_is_active = active \<rparr>
       in bindM (moddb (\<lambda>x. x\<lparr>projects := row_add k p (projects x)\<rparr>)) (\<lambda>_. returnM (k, p))))))"

record quota_data =
  qd_organization :: nat
  qd_project :: "nat option"
  qd_max_vms :: nat
  qd_max_vcpu :: nat
  qd_max_memory_mb :: nat
  qd_max_storage_gb :: nat
  qd_max_snapshots :: nat

definition quota_create :: "quota_data \<Rightarrow> (nat \<times> quota) op" where
  "quota_create d = must_be_unique (\<lambda>x. qd_project d \<noteq> None \<and> list_ex (\<lambda>(k, q). quo_organization q = qd_organization d \<and> quo_project q = qd_project d) (quotas x))
     ''organization, project''
     (bindM uuid4 (\<lambda>u. bindM now (\<lambda>t. bindM fresh_pk (\<lambda>k.
       let q = \<lparr> uuid = u, created_at = t, updated_at = t, quo_organization = qd_organization d, quo_project = qd_project d, max_vms = qd_max_vms d,
                 max_vcpu = qd_max_vcpu d, max_memory_mb = qd_max_memory_mb d, max_storage_gb = qd_max_storage_gb d, max_snapshots = qd_max_snapshots d \<rparr>
       in bindM (moddb (\<lambda>x. x\<lparr>quotas := row_add k q (quotas x)\<rparr>)) (\<lambda>_. returnM (k, q))))))"

definition organization_create :: "string \<Rightarrow> string \<Rightarrow> string \<Rightarrow> bool \<Rightarrow> (nat \<times> organization) op" where
  "organization_create nm sl desc active = bindM (getdb (\<lambda>x. list_ex (\<lambda>(k, r). org_name r = nm \<or> org_slug r = sl) (organizations x))) (\<lambda>taken.
     if taken then raiseM (DrfExn 400 ''VALIDATION_FAILED'' ''This field must be unique.'')
     else bindM uuid4 (\<lambda>u. bindM now (\<lambda>t. bindM fresh_pk (\<lambda>k.
       let r = \<lparr> uuid = u, created_at = t, updated_at = t, org_name = nm, org_slug = sl, org_description = desc, org_is_active = active \<rparr>
       in bindM (moddb (\<lambda>x. x\<lparr>organizations := row_add k r (organizations x)\<rparr>)) (\<lambda>_. returnM (k, r))))))"

subsection \<open>Which organization is checked\<close>

lemma row_add_in: "(k, r) \<in> set (row_add k r t)"
  by (simp add: row_add_def)

lemma assignment_create_run:
  assumes "rad_project d = None"
  shows "\<exists>k a w'. assignment_create d w = (Inr (k, a), w') \<and> (k, a) \<in> set (role_assignments (wdb w')) \<and> roles (wdb w') = roles (wdb w) \<and>
     ras_user a = rad_user d \<and> ras_organization a = rad_organization d \<and> ras_project a = None \<and> ras_role a = rad_role d"
  using assms by (simp add: assignment_create_def must_be_unique_def bindM_apply fresh_pk_apply moddb_def Let_def row_add_in)

text \<open>
  C22. A manager of one organization can appoint himself in any other. The organization in which a creation is authorized is the one of the query
  parameter \<open>organization\<close> if there is one, while the row is created in the organization of the body. So a user who is no superuser and
  holds \<open>organization.manage\<close> in a single organization creates a role assignment in every other organization, for any user and any role,
  and the policy then grants him every permission of that role there.
\<close>

theorem query_names_another_tenant:
  assumes "rq_user rq = Some (uk, u)" and "\<not> usr_is_superuser u" and "rq_token rq = None" and "rq_action rq = Some ''create''" and "\<not> rq_detail rq"
    and "get_nonempty ''organization'' (rq_query rq) = Some mine" and "organization_by_uuid (wdb w) mine = Some (OrgRow ok)"
    and "''organization.manage'' \<in> set (current_codes w uk ok None)"
    and "row_get rk (roles (wdb w)) = Some r" and "c \<in> set (rol_permissions r)"
  shows "\<exists>k a w'. checked_create rq RoleAssignmentViewSet (\<lambda>d. get_organization d RoleAssignmentViewSet rq)
        (assignment_create \<lparr> rad_user = uk, rad_organization = other, rad_project = None, rad_role = rk \<rparr>) w = (Inr (k, a), w') \<and>
     granted (wdb w') uk u other None c"
proof -
  have org: "get_organization (wdb w) RoleAssignmentViewSet rq = Some (OrgRow ok)" using assms(6,7) by (simp add: get_organization_def)
  have perm: "has_view_permission rq RoleAssignmentViewSet (\<lambda>d. get_organization d RoleAssignmentViewSet rq) w = (Inr True, remember uk ok None w)"
    using assms(1-5,8) org by (simp add: has_view_permission_def resolve_codename_def RoleAssignmentViewSet_def manages_def crud_def token_permits_def
        bindM_apply has_permission_run)
  obtain k a w' where run: "assignment_create \<lparr> rad_user = uk, rad_organization = other, rad_project = None, rad_role = rk \<rparr> (remember uk ok None w) = (Inr (k, a), w')"
    "(k, a) \<in> set (role_assignments (wdb w'))" "roles (wdb w') = roles (wdb w)"
    "ras_user a = uk" "ras_organization a = other" "ras_project a = None" "ras_role a = rk"
    using assignment_create_run [of "\<lparr> rad_user = uk, rad_organization = other, rad_project = None, rad_role = rk \<rparr>" "remember uk ok None w"] by auto
  have "granted (wdb w') uk u other None c" using run assms(9,10) by (force simp: granted_def)
  moreover have "checked_create rq RoleAssignmentViewSet (\<lambda>d. get_organization d RoleAssignmentViewSet rq)
        (assignment_create \<lparr> rad_user = uk, rad_organization = other, rad_project = None, rad_role = rk \<rparr>) w = (Inr (k, a), w')"
    using perm run(1) by (simp add: checked_create_def bindM_apply)
  ultimately show ?thesis by blast
qed

definition ex_appoint :: request where
  "ex_appoint = ex_request\<lparr>rq_action := Some ''create'', rq_detail := False, rq_query := [(''organization'', ''o1'')], rq_data := [(''organization'', ''o99'')]\<rparr>"

theorem query_names_another_tenant_witness:
  "\<not> granted (wdb ex_acl) 5 ex_user 99 None ''vm.view'' \<and>
   (\<exists>k a w'. checked_create ex_appoint RoleAssignmentViewSet (\<lambda>d. get_organization d RoleAssignmentViewSet ex_appoint)
        (assignment_create \<lparr> rad_user = 5, rad_organization = 99, rad_project = None, rad_role = 7 \<rparr>) ex_acl = (Inr (k, a), w') \<and>
     granted (wdb w') 5 ex_user 99 None ''vm.view'')"
proof
  show "\<not> granted (wdb ex_acl) 5 ex_user 99 None ''vm.view''" by (simp add: granted_def ex_acl_simps)
  show "\<exists>k a w'. checked_create ex_appoint RoleAssignmentViewSet (\<lambda>d. get_organization d RoleAssignmentViewSet ex_appoint)
        (assignment_create \<lparr> rad_user = 5, rad_organization = 99, rad_project = None, rad_role = 7 \<rparr>) ex_acl = (Inr (k, a), w') \<and>
     granted (wdb w') 5 ex_user 99 None ''vm.view''"
  proof (rule query_names_another_tenant [where mine = "''o1''" and ok = 1 and r = ex_role])
    show "''organization.manage'' \<in> set (current_codes ex_acl 5 1 None)" by (simp add: current_codes_def ex_acl_codes del: One_nat_def)
    show "organization_by_uuid (wdb ex_acl) ''o1'' = Some (OrgRow 1)" by (simp add: ex_acl_def organization_by_uuid_def rows_where_def ex_db_def ex_org_def)
  qed (simp_all add: ex_appoint_def ex_request_def ex_acl_simps row_get_def get_nonempty_def)
qed

text \<open>Creating an organization has no organization to check, so that only superusers can.\<close>

theorem organization_created_by_superuser:
  assumes "checked_create rq OrganizationViewSet (\<lambda>d. organization_get_organization d None) body w = (Inr x, w')" and "rq_action rq = Some ''create''" and "\<not> rq_detail rq"
  shows "\<exists>uk u. rq_user rq = Some (uk, u) \<and> usr_is_superuser u"
  using assms by (auto simp: checked_create_def has_view_permission_def bindM_apply has_permission_def organization_get_organization_def
      split: option.splits if_splits prod.splits)

text \<open>Deleting the assignment takes back what it alone granted.\<close>

theorem deleted_assignment_grants_nothing:
  assumes "get_object w = (Inr (k, a), w0)" and "assignment_destroy get_object w = (Inr rs, w')" and "\<not> usr_is_superuser u"
    and "\<forall>(k', b) \<in> set (role_assignments (wdb w0)). k' \<noteq> k \<longrightarrow> ras_user b \<noteq> uk \<or> ras_organization b \<noteq> ok"
  shows "\<not> granted (wdb w') uk u ok p c"
  using assms by (auto simp: assignment_destroy_def bindM_apply granted_def row_del_def moddb_def)

end
