(* ===== verification/Deletion.thy ===== *)
theory Deletion
  imports Tenancy
begin

section \<open>Deletion: updates and deletions of tenancy rows\<close>

text \<open>
  The update actions of the role, project, quota and organization viewsets, and the destroy action that the framework gives to every
  viewset that does not define its own. Deleting a row follows the \<open>on_delete\<close> clauses of every model that
  refers to it: \<open>CASCADE\<close> deletes the referring row as well, \<open>SET_NULL\<close> clears the reference, \<open>PROTECT\<close> refuses the deletion as a whole, even if the
  protecting row would be deleted too. As before, \<open>get_object\<close> and the resolution of the fields in the body are arguments.
\<close>

subsection \<open>Updates\<close>

record role_patch =
  rlp_name :: "string option"
  rlp_organization :: "nat option option"
  rlp_permissions :: "string list option"

definition patch_role :: "role_patch \<Rightarrow> role \<Rightarrow> role" where
  "patch_role p r = r\<lparr>rol_name := opt_or (rlp_name p) (rol_name r), rol_organization := opt_or (rlp_organization p) (rol_organization r),
     rol_permissions := opt_or (rlp_permissions p) (rol_permissions r)\<rparr>"

definition role_update :: "(nat \<times> role) op \<Rightarrow> role_patch \<Rightarrow> (nat \<times> role) op" where
  "role_update get_object p = bindM get_object (\<lambda>(k, r). bindM now (\<lambda>t. let r' = (patch_role p r)\<lparr>updated_at := t\<rparr> in
     must_be_unique (\<lambda>d. rol_organization r' \<noteq> None \<and> list_ex (\<lambda>(k', b). k' \<noteq> k \<and> rol_organization b = rol_organization r' \<and> rol_name b = rol_name r') (roles d))
       ''organization, name''
       (bindM (moddb (\<lambda>d. d\<lparr>roles := row_mod k (\<lambda>_. r') (roles d)\<rparr>)) (\<lambda>_. returnM (200, r')))))"

record project_patch =
  prp_organization :: "nat option"
  prp_name :: "string option"
  prp_slug :: "string option"
  prp_description :: "string option"
  prp_is_active :: "bool option"

definition patch_project :: "project_patch \<Rightarrow> project \<Rightarrow> project" where
  "patch_project p r = r\<lparr>prj_organization := opt_or (prp_organization p) (prj_organization r), prj_name := opt_or (prp_name p) (prj_name r),
     prj_slug := opt_or (prp_slug p) (prj_slug r), prj_description := opt_or (prp_description p) (prj_description r),
     prj_is_active := opt_or (prp_is_active p) (prj_is_active r)\<rparr>"

definition project_update :: "(nat \<times> project) op \<Rightarrow> project_patch \<Rightarrow> (nat \<times> project) op" where
  "project_update get_object p = bindM get_object (\<lambda>(k, r). bindM now (\<lambda>t. let r' = (patch_project p r)\<lparr>updated_at := t\<rparr> in
     must_be_unique (\<lambda>d. list_ex (\<lambda>(k', b). k' \<noteq> k \<and> prj_organization b = prj_organization r' \<and> prj_slug b = prj_slug r') (projects d)) ''organization, slug''
       (bindM (moddb (\<lambda>d. d\<lparr>projects := row_mod k (\<lambda>_. r') (projects d)\<rparr>)) (\<lambda>_. returnM (200, r')))))"

record quota_patch =
  qop_organization :: "nat option"
  qop_project :: "nat option option"
  qop_max_vms :: "nat option"
  qop_max_vcpu :: "nat option"
  qop_max_memory_mb :: "nat option"
  qop_max_storage_gb :: "nat option"
  qop_max_snapshots :: "nat option"

definition patch_quota :: "quota_patch \<Rightarrow> quota \<Rightarrow> quota" where
  "patch_quota p q = q\<lparr>quo_organization := opt_or (qop_organization p) (quo_organization q), quo_project := opt_or (qop_project p) (quo_project q),
     max_vms := opt_or (qop_max_vms p) (max_vms q), max_vcpu := opt_or (qop_max_vcpu p) (max_vcpu q), max_memory_mb := opt_or (qop_max_memory_mb p) (max_memory_mb q),
     max_storage_gb := opt_or (qop_max_storage_gb p) (max_storage_gb q), max_snapshots := opt_or (qop_max_snapshots p) (max_snapshots q)\<rparr>"

definition quota_update :: "(nat \<times> quota) op \<Rightarrow> quota_patch \<Rightarrow> (nat \<times> quota) op" where
  "quota_update get_object p = bindM get_object (\<lambda>(k, q). bindM now (\<lambda>t. let q' = (patch_quota p q)\<lparr>updated_at := t\<rparr> in
     must_be_unique (\<lambda>d. quo_project q' \<noteq> None \<and> list_ex (\<lambda>(k', b). k' \<noteq> k \<and> quo_organization b = quo_organization q' \<and> quo_project b = quo_project q') (quotas d))
       ''organization, project''
       (bindM (moddb (\<lambda>d. d\<lparr>quotas := row_mod k (\<lambda>_. q') (quotas d)\<rparr>)) (\<lambda>_. returnM (200, q')))))"

record organization_patch =
  orp_name :: "string option"
  orp_slug :: "string option"
  orp_description :: "string option"
  orp_is_active :: "bool option"

definition patch_organization :: "organization_patch \<Rightarrow> organization \<Rightarrow> organization" where
  "patch_organization p r = r\<lparr>org_name := opt_or (orp_name p) (org_name r), org_slug := opt_or (orp_slug p) (org_slug r),
     org_description := opt_or (orp_description p) (org_description r), org_is_active := opt_or (orp_is_active p) (org_is_active r)\<rparr>"

definition organization_update :: "(nat \<times> organization) op \<Rightarrow> organization_patch \<Rightarrow> (nat \<times> organization) op" where
  "organization_update get_object p = bindM get_object (\<lambda>(k, r). bindM now (\<lambda>t. let r' = (patch_organization p r)\<lparr>updated_at := t\<rparr> in
     bindM (getdb (\<lambda>d. list_ex (\<lambda>(k', b). k' \<noteq> k \<and> (org_name b = org_name r' \<or> org_slug b = org_slug r')) (organizations d))) (\<lambda>taken.
     if taken then raiseM (DrfExn 400 ''VALIDATION_FAILED'' ''This field must be unique.'')
     else bindM (moddb (\<lambda>d. d\<lparr>organizations := row_mod k (\<lambda>_. r') (organizations d)\<rparr>)) (\<lambda>_. returnM (200, r')))))"

subsection \<open>Deletions\<close>

definition keys_where :: "('r \<Rightarrow> bool) \<Rightarrow> 'r table \<Rightarrow> nat list" where
  "keys_where P t = map fst (filter (\<lambda>(k, r). P r) t)"

definition without :: "nat list \<Rightarrow> 'r table \<Rightarrow> 'r table" where
  "without ks t = filter (\<lambda>(k, r). k \<notin> set ks) t"

definition purge :: "('r \<Rightarrow> bool) \<Rightarrow> 'r table \<Rightarrow> 'r table" where
  "purge P t = without (keys_where P t) t"

definition names :: "('r \<Rightarrow> nat option) \<Rightarrow> nat list \<Rightarrow> 'r \<Rightarrow> bool" where
  "names f ks r \<longleftrightarrow> (case f r of Some k \<Rightarrow> k \<in> set ks | None \<Rightarrow> False)"

definition set_null :: "('r \<Rightarrow> nat option) \<Rightarrow> ('r \<Rightarrow> 'r) \<Rightarrow> nat list \<Rightarrow> 'r table \<Rightarrow> 'r table" where
  "set_null f clear ks t = map (\<lambda>(k, r). (k, if names f ks r then clear r else r)) t"

text \<open>The generic \<open>destroy\<close>: the object is deleted with its cascade, unless a protected reference refuses that.\<close>

definition protected_destroy :: "string \<Rightarrow> (nat \<Rightarrow> db \<Rightarrow> bool) \<Rightarrow> (nat \<Rightarrow> db \<Rightarrow> db) \<Rightarrow> (nat \<times> 'r) op \<Rightarrow> response op" where
  "protected_destroy model guarded cascade get_object = bindM get_object (\<lambda>(k, r). bindM (getdb (guarded k)) (\<lambda>refused.
     if refused then raiseM (ProtectedError (''Cannot delete some instances of model '' @ model @ '' because they are referenced through protected foreign keys''))
     else bindM (moddb (cascade k)) (\<lambda>_. returnM (204, JNull))))"

text \<open>The rows that go with a list of virtual machines.\<close>

definition vms_cascade :: "nat list \<Rightarrow> db \<Rightarrow> db" where
  "vms_cascade vs d = d\<lparr>vms := without vs (vms d), disks := purge (\<lambda>r. dsk_vm r \<in> set vs) (disks d), nics := purge (\<lambda>r. nic_vm r \<in> set vs) (nics d),
     snapshots := purge (\<lambda>r. snp_vm r \<in> set vs) (snapshots d), backups := purge (\<lambda>r. bkp_vm r \<in> set vs) (backups d),
     backup_schedules := purge (\<lambda>r. bks_vm r \<in> set vs) (backup_schedules d)\<rparr>"

definition role_cascade :: "nat \<Rightarrow> db \<Rightarrow> db" where
  "role_cascade k d = d\<lparr>roles := without [k] (roles d), role_assignments := purge (\<lambda>a. ras_role a = k) (role_assignments d)\<rparr>"

definition role_destroy :: "(nat \<times> role) op \<Rightarrow> response op" where
  "role_destroy = protected_destroy ''Role'' (\<lambda>k d. False) role_cascade"

definition quota_cascade :: "nat \<Rightarrow> db \<Rightarrow> db" where
  "quota_cascade k d = d\<lparr>quotas := without [k] (quotas d)\<rparr>"

definition quota_destroy :: "(nat \<times> quota) op \<Rightarrow> response op" where
  "quota_destroy = protected_destroy ''Quota'' (\<lambda>k d. False) quota_cascade"

definition project_cascade :: "nat \<Rightarrow> db \<Rightarrow> db" where
  "project_cascade pk d = (vms_cascade (keys_where (\<lambda>v. vm_project v = pk) (vms d)) d)\<lparr>projects := without [pk] (projects d),
     quotas := purge (names quo_project [pk]) (quotas d), role_assignments := purge (names ras_project [pk]) (role_assignments d)\<rparr>"

definition project_destroy :: "(nat \<times> project) op \<Rightarrow> response op" where
  "project_destroy = protected_destroy ''Project'' (\<lambda>k d. False) project_cascade"

text \<open>Deleting a user, which only staff can do.\<close>

definition user_cascade :: "nat \<Rightarrow> db \<Rightarrow> db" where
  "user_cascade uk d = d\<lparr>users := without [uk] (users d), memberships := purge (\<lambda>m. mem_user m = uk) (memberships d),
     role_assignments := purge (\<lambda>a. ras_user a = uk) (role_assignments d), api_tokens := purge (\<lambda>t. tok_user t = uk) (api_tokens d),
     upload_sessions := set_null ups_created_by (ups_created_by_update (\<lambda>_. None)) [uk] (upload_sessions d),
     vms := set_null vm_created_by (vm_created_by_update (\<lambda>_. None)) [uk] (vms d),
     jobs := set_null job_created_by (job_created_by_update (\<lambda>_. None)) [uk] (jobs d),
     events := set_null evt_actor (evt_actor_update (\<lambda>_. None)) [uk] (events d),
     audit_logs := set_null aud_actor (aud_actor_update (\<lambda>_. None)) [uk] (audit_logs d)\<rparr>"

definition user_destroy :: "(nat \<times> user) op \<Rightarrow> response op" where
  "user_destroy = protected_destroy ''User'' (\<lambda>k d. False) user_cascade"

text \<open>Deleting an organization: what it owns, directly or through its projects, nodes, roles, targets, images and webhooks.\<close>

definition org_projects :: "nat \<Rightarrow> db \<Rightarrow> nat list" where
  "org_projects ok d = keys_where (\<lambda>p. prj_organization p = ok) (projects d)"

definition org_vms :: "nat \<Rightarrow> db \<Rightarrow> nat list" where
  "org_vms ok d = keys_where (\<lambda>v. vm_organization v = ok \<or> vm_project v \<in> set (org_projects ok d)) (vms d)"

definition org_nodes :: "nat \<Rightarrow> db \<Rightarrow> nat list" where
  "org_nodes ok d = keys_where (\<lambda>n. nod_organization n = ok) (nodes d)"

definition org_roles :: "nat \<Rightarrow> db \<Rightarrow> nat list" where
  "org_roles ok d = keys_where (\<lambda>r. rol_organization r = Some ok) (roles d)"

definition org_pools :: "nat \<Rightarrow> db \<Rightarrow> nat list" where
  "org_pools ok d = keys_where (\<lambda>p. sto_node p \<in> set (org_nodes ok d)) (storage_pools d)"

definition org_networks :: "nat \<Rightarrow> db \<Rightarrow> nat list" where
  "org_networks ok d = keys_where (\<lambda>n. net_node n \<in> set (org_nodes ok d)) (networks d)"

definition org_subnets :: "nat \<Rightarrow> db \<Rightarrow> nat list" where
  "org_subnets ok d = keys_where (\<lambda>s. sub_network s \<in> set (org_networks ok d)) (subnets d)"

definition org_addresses :: "nat \<Rightarrow> db \<Rightarrow> nat list" where
  "org_addresses ok d = keys_where (\<lambda>a. adr_subnet a \<in> set (org_subnets ok d)) (ip_addresses d)"

definition org_images :: "nat \<Rightarrow> db \<Rightarrow> nat list" where
  "org_images ok d = keys_where (\<lambda>i. img_organization i = ok) (images d)"

definition org_templates :: "nat \<Rightarrow> db \<Rightarrow> nat list" where
  "org_templates ok d = keys_where (\<lambda>t. tpl_organization t = ok) (templates d)"

definition org_targets :: "nat \<Rightarrow> db \<Rightarrow> nat list" where
  "org_targets ok d = keys_where (\<lambda>t. bkt_organization t = ok) (backup_targets d)"

definition org_webhooks :: "nat \<Rightarrow> db \<Rightarrow> nat list" where
  "org_webhooks ok d = keys_where (\<lambda>x. whk_organization x = ok) (webhooks d)"

text \<open>The \<open>PROTECT\<close> references to rows that would go.\<close>

definition organization_protected :: "nat \<Rightarrow> db \<Rightarrow> bool" where
  "organization_protected ok d \<longleftrightarrow>
     list_ex (\<lambda>(k, v). names vm_node (org_nodes ok d) v) (vms d) \<or>
     list_ex (\<lambda>(k, r). dsk_storage r \<in> set (org_pools ok d)) (disks d) \<or> list_ex (\<lambda>(k, i). img_storage i \<in> set (org_pools ok d)) (images d) \<or>
     list_ex (\<lambda>(k, r). nic_network r \<in> set (org_networks ok d)) (nics d) \<or>
     list_ex (\<lambda>(k, b). bkp_target b \<in> set (org_targets ok d)) (backups d) \<or>
     list_ex (\<lambda>(k, t). tpl_image t \<in> set (org_images ok d)) (templates d)"

definition organization_cascade :: "nat \<Rightarrow> db \<Rightarrow> db" where
  "organization_cascade ok d = d\<lparr>
     organizations := without [ok] (organizations d), projects := without (org_projects ok d) (projects d),
     memberships := purge (\<lambda>m. mem_organization m = ok) (memberships d),
     quotas := purge (\<lambda>q. quo_organization q = ok \<or> names quo_project (org_projects ok d) q) (quotas d),
     roles := without (org_roles ok d) (roles d),
     role_assignments := purge (\<lambda>a. ras_organization a = ok \<or> names ras_project (org_projects ok d) a \<or> ras_role a \<in> set (org_roles ok d)) (role_assignments d),
     nodes := without (org_nodes ok d) (nodes d), agents := purge (\<lambda>a. agt_node a \<in> set (org_nodes ok d)) (agents d),
     storage_pools := without (org_pools ok d) (storage_pools d), networks := without (org_networks ok d) (networks d),
     subnets := without (org_subnets ok d) (subnets d), ip_pools := purge (\<lambda>p. poo_subnet p \<in> set (org_subnets ok d)) (ip_pools d),
     ip_addresses := without (org_addresses ok d) (ip_addresses d), images := without (org_images ok d) (images d),
     upload_sessions := purge (\<lambda>s. ups_image s \<in> set (org_images ok d)) (upload_sessions d), templates := without (org_templates ok d) (templates d),
     vms := set_null vm_template (vm_template_update (\<lambda>_. None)) (org_templates ok d) (without (org_vms ok d) (vms d)),
     disks := set_null dsk_source_image (dsk_source_image_update (\<lambda>_. None)) (org_images ok d) (purge (\<lambda>r. dsk_vm r \<in> set (org_vms ok d)) (disks d)),
     nics := set_null nic_ip_address (nic_ip_address_update (\<lambda>_. None)) (org_addresses ok d) (purge (\<lambda>r. nic_vm r \<in> set (org_vms ok d)) (nics d)),
     jobs := set_null job_node (job_node_update (\<lambda>_. None)) (org_nodes ok d) (purge (\<lambda>j. job_organization j = ok) (jobs d)),
     snapshots := purge (\<lambda>s. snp_vm s \<in> set (org_vms ok d)) (snapshots d), backup_targets := without (org_targets ok d) (backup_targets d),
     backups := purge (\<lambda>b. bkp_vm b \<in> set (org_vms ok d)) (backups d),
     backup_schedules := purge (\<lambda>s. bks_organization s = ok \<or> bks_vm s \<in> set (org_vms ok d) \<or> bks_target s \<in> set (org_targets ok d)) (backup_schedules d),
     events := purge (\<lambda>e. evt_organization e = ok) (events d), webhooks := without (org_webhooks ok d) (webhooks d),
     deliveries := purge (\<lambda>x. dlv_webhook x \<in> set (org_webhooks ok d)) (deliveries d),
     audit_logs := set_null aud_organization (aud_organization_update (\<lambda>_. None)) [ok] (audit_logs d)\<rparr>"

definition organization_destroy :: "(nat \<times> organization) op \<Rightarrow> response op" where
  "organization_destroy = protected_destroy ''Organization'' organization_protected organization_cascade"

subsection \<open>References\<close>

definition points :: "('r \<Rightarrow> nat) \<Rightarrow> 'r table \<Rightarrow> 'q table \<Rightarrow> bool" where
  "points f t q \<longleftrightarrow> list_all (\<lambda>(k, r). f r \<in> set (map fst q)) t"

definition may_point :: "('r \<Rightarrow> nat option) \<Rightarrow> 'r table \<Rightarrow> 'q table \<Rightarrow> bool" where
  "may_point f t q \<longleftrightarrow> list_all (\<lambda>(k, r). case f r of Some x \<Rightarrow> x \<in> set (map fst q) | None \<Rightarrow> True) t"

text \<open>Every foreign key between the tables names an existing row.\<close>

definition tenant_refs :: "db \<Rightarrow> bool" where
  "tenant_refs d \<longleftrightarrow> points prj_organization (projects d) (organizations d) \<and> points mem_organization (memberships d) (organizations d) \<and>
     points quo_organization (quotas d) (organizations d) \<and> may_point quo_project (quotas d) (projects d) \<and>
     may_point rol_organization (roles d) (organizations d) \<and> points ras_organization (role_assignments d) (organizations d) \<and>
     may_point ras_project (role_assignments d) (projects d) \<and> points ras_role (role_assignments d) (roles d)"

definition host_refs :: "db \<Rightarrow> bool" where
  "host_refs d \<longleftrightarrow> points nod_organization (nodes d) (organizations d) \<and> points agt_node (agents d) (nodes d) \<and> points sto_node (storage_pools d) (nodes d) \<and>
     points net_node (networks d) (nodes d) \<and> points sub_network (subnets d) (networks d) \<and> points poo_subnet (ip_pools d) (subnets d) \<and>
     points adr_subnet (ip_addresses d) (subnets d) \<and> points img_organization (images d) (organizations d) \<and> points img_storage (images d) (storage_pools d) \<and>
     points ups_image (upload_sessions d) (images d) \<and> points tpl_organization (templates d) (organizations d) \<and> points tpl_image (templates d) (images d)"

definition vm_refs :: "db \<Rightarrow> bool" where
  "vm_refs d \<longleftrightarrow> points vm_organization (vms d) (organizations d) \<and> points vm_project (vms d) (projects d) \<and> may_point vm_node (vms d) (nodes d) \<and>
     may_point vm_template (vms d) (templates d) \<and> points dsk_vm (disks d) (vms d) \<and> points dsk_storage (disks d) (storage_pools d) \<and>
     may_point dsk_source_image (disks d) (images d) \<and> points nic_vm (nics d) (vms d) \<and> points nic_network (nics d) (networks d) \<and>
     may_point nic_ip_address (nics d) (ip_addresses d) \<and> points snp_vm (snapshots d) (vms d)"

definition other_refs :: "db \<Rightarrow> bool" where
  "other_refs d \<longleftrightarrow> points job_organization (jobs d) (organizations d) \<and> may_point job_node (jobs d) (nodes d) \<and>
     points bkt_organization (backup_targets d) (organizations d) \<and> points bkp_vm (backups d) (vms d) \<and> points bkp_target (backups d) (backup_targets d) \<and>
     points bks_organization (backup_schedules d) (organizations d) \<and> points bks_vm (backup_schedules d) (vms d) \<and>
     points bks_target (backup_schedules d) (backup_targets d) \<and> points evt_organization (events d) (organizations d) \<and>
     points whk_organization (webhooks d) (organizations d) \<and> points dlv_webhook (deliveries d) (webhooks d) \<and>
     may_point aud_organization (audit_logs d) (organizations d)"

definition user_refs :: "db \<Rightarrow> bool" where
  "user_refs d \<longleftrightarrow> points mem_user (memberships d) (users d) \<and> points ras_user (role_assignments d) (users d) \<and> points tok_user (api_tokens d) (users d) \<and>
     may_point ups_created_by (upload_sessions d) (users d) \<and> may_point vm_created_by (vms d) (users d) \<and> may_point job_created_by (jobs d) (users d) \<and>
     may_point evt_actor (events d) (users d) \<and> may_point aud_actor (audit_logs d) (users d)"

definition refs_ok :: "db \<Rightarrow> bool" where
  "refs_ok d \<longleftrightarrow> tenant_refs d \<and> host_refs d \<and> vm_refs d \<and> other_refs d \<and> user_refs d"

lemma points_iff: "points f t q \<longleftrightarrow> (\<forall>k r. (k, r) \<in> set t \<longrightarrow> f r \<in> fst ` set q)"
  by (auto simp: points_def list_all_iff)

lemma may_point_iff: "may_point f t q \<longleftrightarrow> (\<forall>k r x. (k, r) \<in> set t \<longrightarrow> f r = Some x \<longrightarrow> x \<in> fst ` set q)"
  by (fastforce simp: may_point_def list_all_iff split: option.splits)

lemma without_keys: "fst ` set (without ks t) = fst ` set t - set ks"
  by (force simp: without_def)

lemma in_without: "(k, r) \<in> set (without ks t) \<longleftrightarrow> (k, r) \<in> set t \<and> k \<notin> set ks"
  by (auto simp: without_def)

lemma in_keys_where: "(k, r) \<in> set t \<Longrightarrow> P r \<Longrightarrow> k \<in> set (keys_where P t)"
  by (force simp: keys_where_def)

lemma in_purgeD: "(k, r) \<in> set (purge P t) \<Longrightarrow> (k, r) \<in> set t \<and> \<not> P r"
  by (auto simp: purge_def in_without dest: in_keys_where)

lemma set_null_keys: "fst ` set (set_null f c ks t) = fst ` set t"
  by (force simp: set_null_def)

lemma in_set_nullE:
  assumes "(k, r) \<in> set (set_null f c ks t)"
  obtains r0 where "(k, r0) \<in> set t" and "r = (if names f ks r0 then c r0 else r0)"
  using assms by (auto simp: set_null_def)

text \<open>The rules behind the three \<open>on_delete\<close> clauses, for a referring table \<open>t'\<close> that is part of \<open>t\<close>.\<close>

definition part_of :: "'r table \<Rightarrow> 'r table \<Rightarrow> bool" where
  "part_of t' t \<longleftrightarrow> set t' \<subseteq> set t"

lemma part_of_rules [intro]: "part_of t t" "part_of (without ks t) t" "part_of (purge P t) t"
  by (auto simp: part_of_def in_without dest: in_purgeD)

lemma points_part: "points f t q \<Longrightarrow> part_of t' t \<Longrightarrow> points f t' q"
  by (auto simp: points_iff part_of_def)

lemma may_point_part: "may_point f t q \<Longrightarrow> part_of t' t \<Longrightarrow> may_point f t' q"
  unfolding may_point_iff part_of_def by blast

lemma points_cascade: "points f t q \<Longrightarrow> (\<And>r. f r \<in> set ks \<Longrightarrow> P r) \<Longrightarrow> points f (purge P t) (without ks q)"
  unfolding points_iff without_keys by (blast dest: in_purgeD)

lemma points_cascade_keys: "points f t q \<Longrightarrow> (\<And>r. f r \<in> set ks \<Longrightarrow> P r) \<Longrightarrow> points f (without (keys_where P t) t) (without ks q)"
  using points_cascade unfolding purge_def .

lemma may_point_cascade: "may_point f t q \<Longrightarrow> (\<And>r. names f ks r \<Longrightarrow> P r) \<Longrightarrow> may_point f (purge P t) (without ks q)"
  unfolding may_point_iff without_keys by (fastforce dest: in_purgeD simp: names_def)

lemma may_point_cascade_keys: "may_point f t q \<Longrightarrow> (\<And>r. names f ks r \<Longrightarrow> P r) \<Longrightarrow> may_point f (without (keys_where P t) t) (without ks q)"
  using may_point_cascade unfolding purge_def .

lemma points_protected: "points f t q \<Longrightarrow> \<not> list_ex (\<lambda>(k, r). f r \<in> set ks) t \<Longrightarrow> part_of t' t \<Longrightarrow> points f t' (without ks q)"
  unfolding points_iff without_keys list_ex_iff part_of_def by blast

lemma may_point_protected: "may_point f t q \<Longrightarrow> \<not> list_ex (\<lambda>(k, r). names f ks r) t \<Longrightarrow> part_of t' t \<Longrightarrow> may_point f t' (without ks q)"
  unfolding may_point_iff without_keys list_ex_iff part_of_def by (fastforce simp: names_def)

lemma may_point_set_null:
  assumes "may_point f t q" and "part_of t' t" and "\<And>r. f (c r) = None"
  shows "may_point f (set_null f c ks t') (without ks q)"
  using assms unfolding may_point_iff without_keys part_of_def by (fastforce elim!: in_set_nullE simp: names_def split: if_splits)

lemma points_set_null: "points f t q \<Longrightarrow> (\<And>r. f (c r) = f r) \<Longrightarrow> points f (set_null g c ks t) q"
  unfolding points_iff by (fastforce elim!: in_set_nullE split: if_splits)

lemma may_point_set_null_other: "may_point f t q \<Longrightarrow> (\<And>r. f (c r) = f r) \<Longrightarrow> may_point f (set_null g c ks t) q"
  unfolding may_point_iff by (fastforce elim!: in_set_nullE split: if_splits)

lemma points_to_set_null: "points f t q \<Longrightarrow> points f t (set_null g c ks q)"
  unfolding points_iff set_null_keys .

lemmas part_simps = points_part [OF _ part_of_rules(2)] points_part [OF _ part_of_rules(3)] may_point_part [OF _ part_of_rules(2)]
  may_point_part [OF _ part_of_rules(3)] points_set_null may_point_set_null_other

text \<open>All deletions but that of a user leave the references to users as they are.\<close>

lemma user_refs_kept:
  assumes "user_refs d"
  shows "user_refs (project_cascade k d)" "user_refs (organization_cascade k d)" "user_refs (role_cascade k d)" "user_refs (quota_cascade k d)"
  using assms by (simp_all add: user_refs_def project_cascade_def vms_cascade_def organization_cascade_def role_cascade_def quota_cascade_def part_simps)

lemma project_cascade_refs:
  assumes "refs_ok d"
  shows "refs_ok (project_cascade pk d)"
proof -
  have a: "tenant_refs d" "host_refs d" "vm_refs d" "other_refs d" using assms by (simp_all add: refs_ok_def)
  have "tenant_refs (project_cascade pk d)"
    using a(1) unfolding tenant_refs_def project_cascade_def vms_cascade_def
    by (auto intro: points_part may_point_part points_cascade may_point_cascade points_part [OF _ part_of_rules(2)])
  moreover have "host_refs (project_cascade pk d)"
    using a(2) by (simp add: host_refs_def project_cascade_def vms_cascade_def)
  moreover have "vm_refs (project_cascade pk d)"
    using a(3) unfolding vm_refs_def project_cascade_def vms_cascade_def
    by (auto intro: points_part may_point_part points_cascade points_cascade_keys)
  moreover have "other_refs (project_cascade pk d)"
    using a(4) unfolding other_refs_def project_cascade_def vms_cascade_def
    by (auto intro: points_part may_point_part points_cascade)
  ultimately show ?thesis using assms user_refs_kept(1) by (simp add: refs_ok_def)
qed

lemma organization_cascade_tenant:
  assumes "tenant_refs d"
  shows "tenant_refs (organization_cascade ok d)"
proof -
  have "points prj_organization (without (org_projects ok d) (projects d)) (without [ok] (organizations d))"
    "may_point rol_organization (without (org_roles ok d) (roles d)) (without [ok] (organizations d))"
    using assms unfolding tenant_refs_def org_projects_def org_roles_def
    by (auto intro!: points_cascade_keys may_point_cascade_keys simp: names_def split: option.splits)
  then show ?thesis using assms unfolding tenant_refs_def
    by (auto simp: organization_cascade_def intro!: points_cascade may_point_cascade)
qed

lemma organization_cascade_host:
  assumes "host_refs d" and "\<not> organization_protected ok d"
  shows "host_refs (organization_cascade ok d)"
proof -
  have "points nod_organization (without (org_nodes ok d) (nodes d)) (without [ok] (organizations d))"
    "points sto_node (without (org_pools ok d) (storage_pools d)) (without (org_nodes ok d) (nodes d))"
    "points net_node (without (org_networks ok d) (networks d)) (without (org_nodes ok d) (nodes d))"
    "points sub_network (without (org_subnets ok d) (subnets d)) (without (org_networks ok d) (networks d))"
    "points adr_subnet (without (org_addresses ok d) (ip_addresses d)) (without (org_subnets ok d) (subnets d))"
    "points img_organization (without (org_images ok d) (images d)) (without [ok] (organizations d))"
    "points tpl_organization (without (org_templates ok d) (templates d)) (without [ok] (organizations d))"
    using assms(1) unfolding host_refs_def org_nodes_def org_pools_def org_networks_def org_subnets_def org_addresses_def org_images_def org_templates_def
    by (auto intro!: points_cascade_keys)
  moreover have "points img_storage (without (org_images ok d) (images d)) (without (org_pools ok d) (storage_pools d))"
    "points tpl_image (without (org_templates ok d) (templates d)) (without (org_images ok d) (images d))"
    using assms unfolding host_refs_def organization_protected_def by (auto intro!: points_protected)
  ultimately show ?thesis using assms(1) unfolding host_refs_def by (auto simp: organization_cascade_def intro!: points_cascade)
qed

lemma organization_cascade_vm:
  assumes "vm_refs d" and "\<not> organization_protected ok d"
  shows "vm_refs (organization_cascade ok d)"
proof -
  have "points vm_organization (without (org_vms ok d) (vms d)) (without [ok] (organizations d))"
    "points vm_project (without (org_vms ok d) (vms d)) (without (org_projects ok d) (projects d))"
    using assms(1) unfolding vm_refs_def org_vms_def by (auto intro!: points_cascade_keys)
  moreover have "may_point vm_node (without (org_vms ok d) (vms d)) (without (org_nodes ok d) (nodes d))"
    "points dsk_storage (purge (\<lambda>r. dsk_vm r \<in> set (org_vms ok d)) (disks d)) (without (org_pools ok d) (storage_pools d))"
    "points nic_network (purge (\<lambda>r. nic_vm r \<in> set (org_vms ok d)) (nics d)) (without (org_networks ok d) (networks d))"
    using assms unfolding vm_refs_def organization_protected_def by (auto intro!: points_protected may_point_protected)
  ultimately show ?thesis using assms(1) unfolding vm_refs_def
    by (simp add: organization_cascade_def points_set_null points_to_set_null may_point_set_null_other points_cascade)
      (auto intro!: may_point_set_null points_set_null points_cascade)
qed

lemma organization_cascade_other:
  assumes "other_refs d" and "\<not> organization_protected ok d"
  shows "other_refs (organization_cascade ok d)"
proof -
  have "points bkp_target (purge (\<lambda>b. bkp_vm b \<in> set (org_vms ok d)) (backups d)) (without (org_targets ok d) (backup_targets d))"
    using assms unfolding other_refs_def organization_protected_def by (auto intro!: points_protected)
  moreover have "points bkt_organization (without (org_targets ok d) (backup_targets d)) (without [ok] (organizations d))"
    "points whk_organization (without (org_webhooks ok d) (webhooks d)) (without [ok] (organizations d))"
    using assms(1) unfolding other_refs_def org_targets_def org_webhooks_def by (auto intro!: points_cascade_keys)
  ultimately show ?thesis using assms(1) unfolding other_refs_def
    by (simp add: organization_cascade_def points_set_null points_to_set_null points_cascade)
      (auto intro!: may_point_set_null points_set_null points_cascade)
qed

subsection \<open>Nodes, pools, subnets, targets, templates and webhooks\<close>

definition node_pools :: "nat \<Rightarrow> db \<Rightarrow> nat list" where
  "node_pools nk d = keys_where (\<lambda>p. sto_node p = nk) (storage_pools d)"

definition node_networks :: "nat \<Rightarrow> db \<Rightarrow> nat list" where
  "node_networks nk d = keys_where (\<lambda>n. net_node n = nk) (networks d)"

definition node_subnets :: "nat \<Rightarrow> db \<Rightarrow> nat list" where
  "node_subnets nk d = keys_where (\<lambda>s. sub_network s \<in> set (node_networks nk d)) (subnets d)"

definition node_addresses :: "nat \<Rightarrow> db \<Rightarrow> nat list" where
  "node_addresses nk d = keys_where (\<lambda>a. adr_subnet a \<in> set (node_subnets nk d)) (ip_addresses d)"

definition pools_protected :: "nat list \<Rightarrow> db \<Rightarrow> bool" where
  "pools_protected ks d \<longleftrightarrow> list_ex (\<lambda>(k, r). dsk_storage r \<in> set ks) (disks d) \<or> list_ex (\<lambda>(k, i). img_storage i \<in> set ks) (images d)"

definition node_protected :: "nat \<Rightarrow> db \<Rightarrow> bool" where
  "node_protected nk d \<longleftrightarrow> list_ex (\<lambda>(k, v). names vm_node [nk] v) (vms d) \<or> pools_protected (node_pools nk d) d \<or>
     list_ex (\<lambda>(k, r). nic_network r \<in> set (node_networks nk d)) (nics d)"

definition node_cascade :: "nat \<Rightarrow> db \<Rightarrow> db" where
  "node_cascade nk d = d\<lparr>nodes := without [nk] (nodes d), agents := purge (\<lambda>a. agt_node a = nk) (agents d),
     storage_pools := without (node_pools nk d) (storage_pools d), networks := without (node_networks nk d) (networks d),
     subnets := without (node_subnets nk d) (subnets d), ip_pools := purge (\<lambda>p. poo_subnet p \<in> set (node_subnets nk d)) (ip_pools d),
     ip_addresses := without (node_addresses nk d) (ip_addresses d),
     nics := set_null nic_ip_address (nic_ip_address_update (\<lambda>_. None)) (node_addresses nk d) (nics d),
     jobs := set_null job_node (job_node_update (\<lambda>_. None)) [nk] (jobs d)\<rparr>"

definition node_destroy :: "(nat \<times> node) op \<Rightarrow> response op" where
  "node_destroy = protected_destroy ''Node'' node_protected node_cascade"

definition pool_cascade :: "nat \<Rightarrow> db \<Rightarrow> db" where
  "pool_cascade k d = d\<lparr>storage_pools := without [k] (storage_pools d)\<rparr>"

definition pool_destroy :: "(nat \<times> storage_pool) op \<Rightarrow> response op" where
  "pool_destroy = protected_destroy ''StoragePool'' (\<lambda>k. pools_protected [k]) pool_cascade"

definition subnet_cascade :: "nat \<Rightarrow> db \<Rightarrow> db" where
  "subnet_cascade k d = (let ads = keys_where (\<lambda>a. adr_subnet a = k) (ip_addresses d) in
     d\<lparr>subnets := without [k] (subnets d), ip_pools := purge (\<lambda>p. poo_subnet p = k) (ip_pools d), ip_addresses := without ads (ip_addresses d),
       nics := set_null nic_ip_address (nic_ip_address_update (\<lambda>_. None)) ads (nics d)\<rparr>)"

definition subnet_destroy :: "(nat \<times> subnet) op \<Rightarrow> response op" where
  "subnet_destroy = protected_destroy ''Subnet'' (\<lambda>k d. False) subnet_cascade"

definition ip_pool_cascade :: "nat \<Rightarrow> db \<Rightarrow> db" where
  "ip_pool_cascade k d = d\<lparr>ip_pools := without [k] (ip_pools d)\<rparr>"

definition ip_pool_destroy :: "(nat \<times> ip_pool) op \<Rightarrow> response op" where
  "ip_pool_destroy = protected_destroy ''IPPool'' (\<lambda>k d. False) ip_pool_cascade"

definition address_cascade :: "nat \<Rightarrow> db \<Rightarrow> db" where
  "address_cascade k d = d\<lparr>ip_addresses := without [k] (ip_addresses d),
     nics := set_null nic_ip_address (nic_ip_address_update (\<lambda>_. None)) [k] (nics d)\<rparr>"

definition address_destroy :: "(nat \<times> ip_address) op \<Rightarrow> response op" where
  "address_destroy = protected_destroy ''IPAddress'' (\<lambda>k d. False) address_cascade"

definition target_cascade :: "nat \<Rightarrow> db \<Rightarrow> db" where
  "target_cascade k d = d\<lparr>backup_targets := without [k] (backup_targets d), backup_schedules := purge (\<lambda>s. bks_target s = k) (backup_schedules d)\<rparr>"

definition target_destroy :: "(nat \<times> backup_target) op \<Rightarrow> response op" where
  "target_destroy = protected_destroy ''BackupTarget'' (\<lambda>k d. list_ex (\<lambda>(_, b). bkp_target b = k) (backups d)) target_cascade"

definition template_cascade :: "nat \<Rightarrow> db \<Rightarrow> db" where
  "template_cascade k d = d\<lparr>templates := without [k] (templates d), vms := set_null vm_template (vm_template_update (\<lambda>_. None)) [k] (vms d)\<rparr>"

definition template_destroy :: "(nat \<times> template) op \<Rightarrow> response op" where
  "template_destroy = protected_destroy ''Template'' (\<lambda>k d. False) template_cascade"

definition webhook_cascade :: "nat \<Rightarrow> db \<Rightarrow> db" where
  "webhook_cascade k d = d\<lparr>webhooks := without [k] (webhooks d), deliveries := purge (\<lambda>x. dlv_webhook x = k) (deliveries d)\<rparr>"

definition webhook_destroy :: "(nat \<times> webhook) op \<Rightarrow> response op" where
  "webhook_destroy = protected_destroy ''Webhook'' (\<lambda>k d. False) webhook_cascade"

lemma node_cascade_host:
  assumes "host_refs d" and "\<not> node_protected nk d"
  shows "host_refs (node_cascade nk d)"
proof -
  have "points sto_node (without (node_pools nk d) (storage_pools d)) (without [nk] (nodes d))"
    "points net_node (without (node_networks nk d) (networks d)) (without [nk] (nodes d))"
    "points sub_network (without (node_subnets nk d) (subnets d)) (without (node_networks nk d) (networks d))"
    "points adr_subnet (without (node_addresses nk d) (ip_addresses d)) (without (node_subnets nk d) (subnets d))"
    using assms(1) unfolding host_refs_def node_pools_def node_networks_def node_subnets_def node_addresses_def
    by (auto intro!: points_cascade_keys)
  moreover have "points img_storage (images d) (without (node_pools nk d) (storage_pools d))"
    using assms unfolding host_refs_def node_protected_def pools_protected_def by (auto intro!: points_protected)
  ultimately show ?thesis using assms(1) unfolding host_refs_def
    by (auto simp: node_cascade_def intro!: points_cascade intro: points_part)
qed

lemma node_cascade_refs:
  assumes "refs_ok d" and "\<not> node_protected nk d"
  shows "refs_ok (node_cascade nk d)"
proof -
  have a: "tenant_refs d" "host_refs d" "vm_refs d" "other_refs d" using assms(1) by (simp_all add: refs_ok_def)
  have "tenant_refs (node_cascade nk d)" using a(1) by (simp add: tenant_refs_def node_cascade_def)
  moreover have "vm_refs (node_cascade nk d)"
  proof -
    have "may_point vm_node (vms d) (without [nk] (nodes d))" "points dsk_storage (disks d) (without (node_pools nk d) (storage_pools d))"
      "points nic_network (nics d) (without (node_networks nk d) (networks d))"
      using a(3) assms(2) unfolding vm_refs_def node_protected_def pools_protected_def by (auto intro!: points_protected may_point_protected)
    then show ?thesis using a(3) unfolding vm_refs_def
      by (simp add: node_cascade_def points_set_null) (auto intro!: may_point_set_null)
  qed
  moreover have "other_refs (node_cascade nk d)"
    using a(4) unfolding other_refs_def by (simp add: node_cascade_def points_set_null) (auto intro!: may_point_set_null)
  moreover have "user_refs (node_cascade nk d)" using assms(1) by (simp add: refs_ok_def user_refs_def node_cascade_def part_simps)
  ultimately show ?thesis using node_cascade_host a(2) assms(2) by (simp add: refs_ok_def)
qed

lemma pool_cascade_refs: "refs_ok d \<Longrightarrow> \<not> pools_protected [k] d \<Longrightarrow> refs_ok (pool_cascade k d)"
  unfolding refs_ok_def tenant_refs_def host_refs_def vm_refs_def other_refs_def user_refs_def pool_cascade_def pools_protected_def
  by (auto intro: points_part intro!: points_protected)

lemma subnet_cascade_refs:
  assumes "refs_ok d"
  shows "refs_ok (subnet_cascade k d)"
proof -
  let ?ads = "keys_where (\<lambda>a. adr_subnet a = k) (ip_addresses d)"
  have a: "host_refs d" "vm_refs d" using assms by (simp_all add: refs_ok_def)
  have "points sub_network (without [k] (subnets d)) (networks d)" "points poo_subnet (purge (\<lambda>p. poo_subnet p = k) (ip_pools d)) (without [k] (subnets d))"
    "points adr_subnet (without ?ads (ip_addresses d)) (without [k] (subnets d))"
    using a(1) unfolding host_refs_def by (auto intro: points_part [OF _ part_of_rules(2)] intro!: points_cascade points_cascade_keys)
  then have "host_refs (subnet_cascade k d)" using a(1) unfolding host_refs_def by (simp add: subnet_cascade_def Let_def)
  moreover have "vm_refs (subnet_cascade k d)" using a(2) unfolding vm_refs_def
    by (simp add: subnet_cascade_def Let_def points_set_null) (auto intro!: may_point_set_null)
  ultimately show ?thesis using assms by (simp add: refs_ok_def tenant_refs_def other_refs_def user_refs_def subnet_cascade_def Let_def)
qed

lemma ip_pool_cascade_refs: "refs_ok d \<Longrightarrow> refs_ok (ip_pool_cascade k d)"
  by (simp add: refs_ok_def tenant_refs_def host_refs_def vm_refs_def other_refs_def user_refs_def ip_pool_cascade_def part_simps)

lemma address_cascade_refs:
  assumes "refs_ok d"
  shows "refs_ok (address_cascade k d)"
proof -
  have a: "host_refs d" "vm_refs d" using assms by (simp_all add: refs_ok_def)
  have "host_refs (address_cascade k d)" using a(1) by (simp add: host_refs_def address_cascade_def part_simps)
  moreover have "vm_refs (address_cascade k d)" using a(2) unfolding vm_refs_def
    by (simp add: address_cascade_def points_set_null) (auto intro!: may_point_set_null)
  ultimately show ?thesis using assms by (simp add: refs_ok_def tenant_refs_def other_refs_def user_refs_def address_cascade_def)
qed

lemma target_cascade_refs:
  assumes "refs_ok d" and "\<not> list_ex (\<lambda>(_, b). bkp_target b = k) (backups d)"
  shows "refs_ok (target_cascade k d)"
proof -
  let ?s = "purge (\<lambda>s. bks_target s = k) (backup_schedules d)"
  have o: "other_refs d" using assms(1) by (simp add: refs_ok_def)
  have "points bkt_organization (without [k] (backup_targets d)) (organizations d)" "points bks_organization ?s (organizations d)" "points bks_vm ?s (vms d)"
    using o unfolding other_refs_def by (auto intro: points_part [OF _ part_of_rules(2)] points_part [OF _ part_of_rules(3)])
  moreover have "points bkp_target (backups d) (without [k] (backup_targets d))" "points bks_target ?s (without [k] (backup_targets d))"
    using o assms(2) unfolding other_refs_def by (auto intro!: points_protected points_cascade)
  ultimately have "other_refs (target_cascade k d)" using o unfolding other_refs_def by (simp add: target_cascade_def)
  then show ?thesis using assms(1) by (simp add: refs_ok_def tenant_refs_def host_refs_def vm_refs_def user_refs_def target_cascade_def)
qed

lemma template_cascade_refs:
  assumes "refs_ok d"
  shows "refs_ok (template_cascade k d)"
proof -
  have a: "points tpl_organization (without [k] (templates d)) (organizations d)" "points tpl_image (without [k] (templates d)) (images d)"
    "may_point vm_template (set_null vm_template (vm_template_update (\<lambda>_. None)) [k] (vms d)) (without [k] (templates d))"
    using assms unfolding refs_ok_def host_refs_def vm_refs_def by (auto intro!: may_point_set_null intro: points_part [OF _ part_of_rules(2)])
  show ?thesis using assms a unfolding refs_ok_def tenant_refs_def host_refs_def vm_refs_def other_refs_def user_refs_def
    by (simp add: template_cascade_def points_set_null points_to_set_null may_point_set_null_other)
qed

lemma webhook_cascade_refs:
  assumes "refs_ok d"
  shows "refs_ok (webhook_cascade k d)"
proof -
  have o: "other_refs d" using assms by (simp add: refs_ok_def)
  have "points whk_organization (without [k] (webhooks d)) (organizations d)" "points dlv_webhook (purge (\<lambda>x. dlv_webhook x = k) (deliveries d)) (without [k] (webhooks d))"
    using o unfolding other_refs_def by (auto intro: points_part [OF _ part_of_rules(2)] intro!: points_cascade)
  then have "other_refs (webhook_cascade k d)" using o unfolding other_refs_def by (simp add: webhook_cascade_def)
  then show ?thesis using assms by (simp add: refs_ok_def tenant_refs_def host_refs_def vm_refs_def user_refs_def webhook_cascade_def)
qed

lemma role_cascade_refs:
  assumes "refs_ok d"
  shows "refs_ok (role_cascade k d)"
proof -
  let ?a = "purge (\<lambda>a. ras_role a = k) (role_assignments d)"
  have t: "tenant_refs d" using assms by (simp add: refs_ok_def)
  have "may_point rol_organization (without [k] (roles d)) (organizations d)" "points ras_organization ?a (organizations d)" "may_point ras_project ?a (projects d)"
    using t unfolding tenant_refs_def
    by (auto intro: points_part [OF _ part_of_rules(3)] may_point_part [OF _ part_of_rules(2)] may_point_part [OF _ part_of_rules(3)])
  moreover have "points ras_role ?a (without [k] (roles d))" using t unfolding tenant_refs_def by (auto intro!: points_cascade)
  ultimately have "tenant_refs (role_cascade k d)" using t unfolding tenant_refs_def by (simp add: role_cascade_def)
  then show ?thesis using assms user_refs_kept(3) by (simp add: refs_ok_def host_refs_def vm_refs_def other_refs_def role_cascade_def)
qed

lemma quota_cascade_refs: "refs_ok d \<Longrightarrow> refs_ok (quota_cascade k d)"
  by (simp add: refs_ok_def tenant_refs_def host_refs_def vm_refs_def other_refs_def user_refs_def quota_cascade_def part_simps)

lemma user_cascade_refs:
  assumes "refs_ok d"
  shows "refs_ok (user_cascade k d)"
proof -
  have a: "tenant_refs d" "host_refs d" "vm_refs d" "other_refs d" "user_refs d" using assms by (simp_all add: refs_ok_def)
  have "tenant_refs (user_cascade k d)" using a(1) by (simp add: tenant_refs_def user_cascade_def part_simps)
  moreover have "host_refs (user_cascade k d)" using a(2) by (simp add: host_refs_def user_cascade_def part_simps)
  moreover have "vm_refs (user_cascade k d)" using a(3) by (simp add: vm_refs_def user_cascade_def part_simps points_to_set_null)
  moreover have "other_refs (user_cascade k d)" using a(4) by (simp add: other_refs_def user_cascade_def part_simps points_to_set_null)
  moreover have "user_refs (user_cascade k d)"
    using a(5) unfolding user_refs_def by (simp add: user_cascade_def) (auto intro!: points_cascade may_point_set_null)
  ultimately show ?thesis by (simp add: refs_ok_def)
qed

lemma organization_cascade_refs: "refs_ok d \<Longrightarrow> \<not> organization_protected ok d \<Longrightarrow> refs_ok (organization_cascade ok d)"
  using organization_cascade_tenant organization_cascade_host organization_cascade_vm organization_cascade_other user_refs_kept(2) by (simp add: refs_ok_def)

subsection \<open>The contract of a deletion\<close>

text \<open>A cascade that keeps every reference intact, unless its guard refuses.\<close>

definition removed_or_refused :: "response op \<Rightarrow> bool \<Rightarrow> world \<Rightarrow> bool" where
  "removed_or_refused act refused w \<longleftrightarrow>
     (if refused then \<exists>m. act w = (Inl (ProtectedError m), w) else \<exists>w'. act w = (Inr (204, JNull), w') \<and> refs_ok (wdb w'))"

locale row_deletion =
  fixes guarded :: "nat \<Rightarrow> db \<Rightarrow> bool" and cascade :: "nat \<Rightarrow> db \<Rightarrow> db"
  assumes keeps_refs: "refs_ok d \<Longrightarrow> \<not> guarded k d \<Longrightarrow> refs_ok (cascade k d)"
begin

lemma destroyed: "refs_ok (wdb w) \<Longrightarrow> removed_or_refused (protected_destroy model guarded cascade (returnM (k, r))) (guarded k (wdb w)) w"
  by (simp add: removed_or_refused_def protected_destroy_def keeps_refs)

end

interpretation del_role: row_deletion "\<lambda>k d. False" role_cascade
  by unfold_locales (rule role_cascade_refs)

interpretation del_user: row_deletion "\<lambda>k d. False" user_cascade
  by unfold_locales (rule user_cascade_refs)

interpretation del_quota: row_deletion "\<lambda>k d. False" quota_cascade
  by unfold_locales (rule quota_cascade_refs)

interpretation del_project: row_deletion "\<lambda>k d. False" project_cascade
  by unfold_locales (rule project_cascade_refs)

interpretation del_organization: row_deletion organization_protected organization_cascade
  by unfold_locales (rule organization_cascade_refs)

interpretation del_node: row_deletion node_protected node_cascade
  by unfold_locales (rule node_cascade_refs)

interpretation del_pool: row_deletion "\<lambda>k. pools_protected [k]" pool_cascade
  by unfold_locales (rule pool_cascade_refs)

interpretation del_subnet: row_deletion "\<lambda>k d. False" subnet_cascade
  by unfold_locales (rule subnet_cascade_refs)

interpretation del_ip_pool: row_deletion "\<lambda>k d. False" ip_pool_cascade
  by unfold_locales (rule ip_pool_cascade_refs)

interpretation del_address: row_deletion "\<lambda>k d. False" address_cascade
  by unfold_locales (rule address_cascade_refs)

interpretation del_target: row_deletion "\<lambda>k d. list_ex (\<lambda>(_, b). bkp_target b = k) (backups d)" target_cascade
  by unfold_locales (rule target_cascade_refs)

interpretation del_template: row_deletion "\<lambda>k d. False" template_cascade
  by unfold_locales (rule template_cascade_refs)

interpretation del_webhook: row_deletion "\<lambda>k d. False" webhook_cascade
  by unfold_locales (rule webhook_cascade_refs)

lemmas destroy_defs = role_destroy_def user_destroy_def subnet_destroy_def ip_pool_destroy_def address_destroy_def quota_destroy_def project_destroy_def organization_destroy_def node_destroy_def pool_destroy_def target_destroy_def
  template_destroy_def webhook_destroy_def

subsection \<open>What deletion does\<close>

definition owned_by :: "nat \<Rightarrow> db \<Rightarrow> bool" where
  "owned_by ok d \<longleftrightarrow> ok \<in> set (map fst (organizations d)) \<or> list_ex (\<lambda>(k, r). prj_organization r = ok) (projects d) \<or>
     list_ex (\<lambda>(k, r). nod_organization r = ok) (nodes d) \<or> list_ex (\<lambda>(k, r). vm_organization r = ok) (vms d) \<or>
     list_ex (\<lambda>(k, r). ras_organization r = ok) (role_assignments d) \<or> list_ex (\<lambda>(k, r). job_organization r = ok) (jobs d)"

lemma points_not_into: "points f t (without ks q) \<Longrightarrow> (k, r) \<in> set t \<Longrightarrow> f r \<notin> set ks"
  unfolding points_iff without_keys by blast

lemma organization_cascade_owned: "refs_ok (organization_cascade ok d) \<Longrightarrow> \<not> owned_by ok (organization_cascade ok d)"
proof -
  assume "refs_ok (organization_cascade ok d)"
  moreover have "organizations (organization_cascade ok d) = without [ok] (organizations d)" by (simp add: organization_cascade_def)
  ultimately show ?thesis
    by (auto simp: owned_by_def refs_ok_def tenant_refs_def host_refs_def vm_refs_def other_refs_def list_ex_iff in_without dest: points_not_into)
qed


text \<open>An organization whose only virtual machine was never placed on a node.\<close>

definition ex_unplaced :: world where
  "ex_unplaced = db_upd (\<lambda>d. d\<lparr>vms := [(20, ex_vm\<lparr>vm_node := None\<rparr>)], users := [(5, ex_user)], disks := [], nics := [], backups := []\<rparr>) ex_world"

lemma ex_unplaced_db:
  "organizations (wdb ex_unplaced) = [(1, ex_org)]" "projects (wdb ex_unplaced) = [(2, ex_project)]" "memberships (wdb ex_unplaced) = []"
  "roles (wdb ex_unplaced) = []" "role_assignments (wdb ex_unplaced) = []" "images (wdb ex_unplaced) = []" "upload_sessions (wdb ex_unplaced) = []"
  "templates (wdb ex_unplaced) = []" "backup_schedules (wdb ex_unplaced) = []" "audit_logs (wdb ex_unplaced) = []"
  "disks (wdb ex_unplaced) = []" "nics (wdb ex_unplaced) = []" "backups (wdb ex_unplaced) = []" "vms (wdb ex_unplaced) = [(20, ex_vm\<lparr>vm_node := None\<rparr>)]"
  by (simp_all add: ex_unplaced_def ex_db_def)

lemma ex_unplaced_rest:
  "quotas (wdb ex_unplaced) = [(3, ex_quota)]" "nodes (wdb ex_unplaced) = [(10, ex_node)]" "agents (wdb ex_unplaced) = [(11, ex_agent)]"
  "storage_pools (wdb ex_unplaced) = [(12, ex_pool)]" "networks (wdb ex_unplaced) = [(13, ex_network)]" "subnets (wdb ex_unplaced) = [(14, ex_subnet)]"
  "ip_pools (wdb ex_unplaced) = [(15, ex_ip_pool)]" "ip_addresses (wdb ex_unplaced) = [(16, ex_address)]" "jobs (wdb ex_unplaced) = [(30, ex_job)]"
  "snapshots (wdb ex_unplaced) = [(35, ex_snapshot)]" "backup_targets (wdb ex_unplaced) = [(40, ex_target)]" "webhooks (wdb ex_unplaced) = [(50, ex_webhook)]"
  "events (wdb ex_unplaced) = []" "deliveries (wdb ex_unplaced) = []" "users (wdb ex_unplaced) = [(5, ex_user)]" "api_tokens (wdb ex_unplaced) = []"
  by (simp_all add: ex_unplaced_def ex_db_def)

lemma ex_unplaced_refs: "refs_ok (wdb ex_unplaced)"
  unfolding refs_ok_def tenant_refs_def host_refs_def vm_refs_def other_refs_def user_refs_def ex_unplaced_db ex_unplaced_rest
  by (simp add: points_def may_point_def ex_rows)


text \<open>
  C23. Deleting a project forgets its machines without stopping them. The deletion always succeeds, whatever its virtual machines are doing: their
  rows are gone and no longer count against any quota, while no command is sent to an agent, no job or task is created to remove them, and the addresses they
  held stay allocated.
\<close>

theorem project_deletion_forgets_machines:
  assumes "get_object w = (Inr (pk, p), w0)"
  shows "\<exists>w'. project_destroy get_object w = (Inr (204, JNull), w') \<and> list_all (\<lambda>(k, v). vm_project v \<noteq> pk) (vms (wdb w')) \<and>
     set (vms (wdb w')) \<subseteq> set (vms (wdb w0)) \<and> usage_vms (current_usage (wdb w') org (Some pk)) = 0 \<and> usage_memory_mb (current_usage (wdb w') org (Some pk)) = 0 \<and>
     outbox w' = outbox w0 \<and> rpcs w' = rpcs w0 \<and> jobs (wdb w') = jobs (wdb w0) \<and> queue (wdb w') = queue (wdb w0) \<and>
     ip_addresses (wdb w') = ip_addresses (wdb w0)"
proof -
  let ?w = "db_upd (project_cascade pk) w0"
  have run: "project_destroy get_object w = (Inr (204, JNull), ?w)" using assms by (simp add: project_destroy_def protected_destroy_def bindM_apply)
  have v: "vms (wdb ?w) = purge (\<lambda>v. vm_project v = pk) (vms (wdb w0))" by (simp add: project_cascade_def vms_cascade_def purge_def)
  then have gone: "list_all (\<lambda>(k, v). vm_project v \<noteq> pk) (vms (wdb ?w))" "set (vms (wdb ?w)) \<subseteq> set (vms (wdb w0))"
    by (auto simp: list_all_iff dest: in_purgeD)
  then have "counted_vms (wdb ?w) org (Some pk) = []" by (auto simp: counted_vms_def rows_where_def list_all_iff filter_empty_conv)
  then have "usage_vms (current_usage (wdb ?w) org (Some pk)) = 0 \<and> usage_memory_mb (current_usage (wdb ?w) org (Some pk)) = 0"
    by (simp add: current_usage_def)
  then show ?thesis using run gone by (intro exI [of _ ?w]) (simp add: db_upd_def project_cascade_def vms_cascade_def)
qed

theorem project_deletion_forgets_machines_witness:
  "vms (wdb ex_world) = [(20, ex_vm)] \<and> vm_project ex_vm = 2 \<and> (\<exists>w'. project_destroy (returnM (2, ex_project)) ex_world = (Inr (204, JNull), w') \<and>
     list_all (\<lambda>(k, v). vm_project v \<noteq> 2) (vms (wdb w')) \<and>
     set (vms (wdb w')) \<subseteq> set (vms (wdb ex_world)) \<and> usage_vms (current_usage (wdb w') 1 (Some 2)) = 0 \<and> usage_memory_mb (current_usage (wdb w') 1 (Some 2)) = 0 \<and>
     outbox w' = outbox ex_world \<and> rpcs w' = rpcs ex_world \<and> jobs (wdb w') = jobs (wdb ex_world) \<and> queue (wdb w') = queue (wdb ex_world) \<and>
     ip_addresses (wdb w') = ip_addresses (wdb ex_world))"
proof (intro conjI)
  show "\<exists>w'. project_destroy (returnM (2, ex_project)) ex_world = (Inr (204, JNull), w') \<and> list_all (\<lambda>(k, v). vm_project v \<noteq> 2) (vms (wdb w')) \<and>
     set (vms (wdb w')) \<subseteq> set (vms (wdb ex_world)) \<and> usage_vms (current_usage (wdb w') 1 (Some 2)) = 0 \<and> usage_memory_mb (current_usage (wdb w') 1 (Some 2)) = 0 \<and>
     outbox w' = outbox ex_world \<and> rpcs w' = rpcs ex_world \<and> jobs (wdb w') = jobs (wdb ex_world) \<and> queue (wdb w') = queue (wdb ex_world) \<and>
     ip_addresses (wdb w') = ip_addresses (wdb ex_world)"
    by (rule project_deletion_forgets_machines) simp
qed (simp_all add: ex_vm_def)

text \<open>An organization that has a machine on one of its own nodes cannot be deleted at all.\<close>

lemma placed_machine_protects:
  assumes "(vk, v) \<in> set (vms d)" and "vm_node v = Some nk" and "(nk, n) \<in> set (nodes d)" and "nod_organization n = ok"
  shows "organization_protected ok d"
proof -
  have "nk \<in> set (org_nodes ok d)" using assms(3,4) unfolding org_nodes_def by (rule in_keys_where)
  then show ?thesis using assms(1,2) by (auto simp: organization_protected_def list_ex_iff names_def intro!: bexI [of _ "(vk, v)"])
qed

end
