(* ===== verification/Resources.thy ===== *)
theory Resources
  imports Deletion
begin

section \<open>Resources: plain creation and update of rows\<close>

text \<open>
  The create and update actions that go through a serializer to the table without a service: nodes, webhooks, templates, backup targets, subnets, address pools,
  addresses, and updates of virtual machines, storage pools and users. What the repository declares is modelled: the writable fields, the validators
  and the unique constraints. References in the body are resolved; \<open>scheme\<close>, the random secret and the parsed CIDR are inputs.
\<close>

subsection \<open>Writing rows\<close>

definition insert_row :: "(('r table \<Rightarrow> 'r table) \<Rightarrow> db \<Rightarrow> db) \<Rightarrow> (string \<Rightarrow> nat \<Rightarrow> 'r) \<Rightarrow> (nat \<times> 'r) op" where
  "insert_row upd mk = bindM uuid4 (\<lambda>u. bindM now (\<lambda>t. bindM fresh_pk (\<lambda>k.
     bindM (moddb (upd (row_add k (mk u t)))) (\<lambda>_. returnM (k, mk u t)))))"

definition write_row :: "(('r table \<Rightarrow> 'r table) \<Rightarrow> db \<Rightarrow> db) \<Rightarrow> nat \<Rightarrow> 'r \<Rightarrow> (nat \<times> 'r) op" where
  "write_row upd k r = bindM (moddb (upd (row_mod k (\<lambda>_. r)))) (\<lambda>_. returnM (200, r))"

subsection \<open>Nodes\<close>

record node_data =
  nda_organization :: nat
  nda_name :: string
  nda_hostname :: string
  nda_fqdn :: string

definition new_node :: "node_data \<Rightarrow> string \<Rightarrow> nat \<Rightarrow> node" where
  "new_node d u t = \<lparr> uuid = u, created_at = t, updated_at = t, nod_organization = nda_organization d, nod_name = nda_name d, nod_hostname = nda_hostname d,
     nod_fqdn = nda_fqdn d, nod_admin_state = NA_ACTIVE, nod_agent_version = '''', nod_kernel = '''', nod_architecture = '''', nod_cpu_model = '''',
     nod_cpu_threads = 0, nod_cpu_cores = 0, nod_cpu_sockets = 0, nod_memory_total_mb = 0, nod_memory_available_mb = 0, nod_storage_total_gb = 0,
     nod_storage_available_gb = 0, nod_reported_vm_count = 0, nod_last_seen = None \<rparr>"

definition node_perform_create :: "api_request \<Rightarrow> node_data \<Rightarrow> (nat \<times> node) op" where
  "node_perform_create rq x = must_be_unique (\<lambda>d. list_ex (\<lambda>(k, n). nod_organization n = nda_organization x \<and> nod_hostname n = nda_hostname x) (nodes d))
     ''organization, hostname''
     (bindM (insert_row nodes_update (new_node x)) (\<lambda>(k, n). bindM (log_node rq ''NODE_CREATE'' n (JObj [])) (\<lambda>_. returnM (k, n))))"

record node_patch =
  ndp_organization :: "nat option"
  ndp_name :: "string option"
  ndp_hostname :: "string option"
  ndp_fqdn :: "string option"
  ndp_admin_state :: "NodeAdminState option"

definition patch_node :: "node_patch \<Rightarrow> node \<Rightarrow> node" where
  "patch_node p n = n\<lparr>nod_organization := opt_or (ndp_organization p) (nod_organization n), nod_name := opt_or (ndp_name p) (nod_name n),
     nod_hostname := opt_or (ndp_hostname p) (nod_hostname n), nod_fqdn := opt_or (ndp_fqdn p) (nod_fqdn n),
     nod_admin_state := opt_or (ndp_admin_state p) (nod_admin_state n)\<rparr>"

definition node_update :: "(nat \<times> node) op \<Rightarrow> node_patch \<Rightarrow> (nat \<times> node) op" where
  "node_update get_object p = bindM get_object (\<lambda>(k, n). bindM now (\<lambda>t. let n' = (patch_node p n)\<lparr>updated_at := t\<rparr> in
     must_be_unique (\<lambda>d. list_ex (\<lambda>(k', b). k' \<noteq> k \<and> nod_organization b = nod_organization n' \<and> nod_hostname b = nod_hostname n') (nodes d))
       ''organization, hostname'' (write_row nodes_update k n')))"

subsection \<open>Webhooks\<close>

record webhook_data =
  wda_organization :: nat
  wda_name :: string
  wda_scheme :: string
  wda_url :: string
  wda_events :: "string list"
  wda_enabled :: bool

text \<open>\<open>save\<close> draws a secret when there is none, so that an update keeps the one it finds.\<close>

definition save_secret :: "string \<Rightarrow> string \<Rightarrow> string" where
  "save_secret drawn old = (if old = '''' then drawn else old)"

definition webhook_create :: "http_env \<Rightarrow> nat \<Rightarrow> string \<Rightarrow> webhook_data \<Rightarrow> (nat \<times> webhook) op" where
  "webhook_create E n drawn x = (case validate_url E n (wda_scheme x) (wda_url x) of
     Inl e \<Rightarrow> raiseM e
   | Inr url \<Rightarrow> (case validate_events (wda_events x) of
        Inl e \<Rightarrow> raiseM e
      | Inr evs \<Rightarrow> insert_row webhooks_update (\<lambda>u t. \<lparr> uuid = u, created_at = t, updated_at = t, whk_organization = wda_organization x, whk_name = wda_name x,
          whk_url = url, whk_secret = save_secret drawn '''', whk_events = evs, whk_enabled = wda_enabled x \<rparr>)))"

record webhook_patch =
  whp_organization :: "nat option"
  whp_name :: "string option"
  whp_url :: "(string \<times> string) option"
  whp_events :: "string list option"
  whp_enabled :: "bool option"

definition patch_webhook :: "string \<Rightarrow> webhook_patch \<Rightarrow> webhook \<Rightarrow> webhook" where
  "patch_webhook drawn p h = h\<lparr>whk_organization := opt_or (whp_organization p) (whk_organization h), whk_name := opt_or (whp_name p) (whk_name h),
     whk_url := opt_or (map_option snd (whp_url p)) (whk_url h), whk_secret := save_secret drawn (whk_secret h),
     whk_events := opt_or (whp_events p) (whk_events h), whk_enabled := opt_or (whp_enabled p) (whk_enabled h)\<rparr>"

definition webhook_update :: "http_env \<Rightarrow> nat \<Rightarrow> string \<Rightarrow> (nat \<times> webhook) op \<Rightarrow> webhook_patch \<Rightarrow> (nat \<times> webhook) op" where
  "webhook_update E n drawn get_object p = bindM get_object (\<lambda>(k, h). bindM now (\<lambda>t.
     case (case whp_url p of Some (scheme, url) \<Rightarrow> validate_url E n scheme url | None \<Rightarrow> Inr '''') of
       Inl e \<Rightarrow> raiseM e
     | Inr _ \<Rightarrow> (case (case whp_events p of Some evs \<Rightarrow> validate_events evs | None \<Rightarrow> Inr []) of
          Inl e \<Rightarrow> raiseM e
        | Inr _ \<Rightarrow> write_row webhooks_update k ((patch_webhook drawn p h)\<lparr>updated_at := t\<rparr>))))"

subsection \<open>Templates and backup targets\<close>

record template_fields =
  tfd_organization :: nat
  tfd_image :: nat
  tfd_name :: string
  tfd_description :: string
  tfd_default_cpu_count :: nat
  tfd_default_memory_mb :: nat
  tfd_default_disk_gb :: nat
  tfd_default_firmware :: FirmwareType
  tfd_default_os_type :: string
  tfd_network_defaults :: json
  tfd_cloud_init_defaults :: json
  tfd_is_active :: bool

definition template_of :: "template_fields \<Rightarrow> string \<Rightarrow> nat \<Rightarrow> nat \<Rightarrow> template" where
  "template_of x u c t = \<lparr> uuid = u, created_at = c, updated_at = t, tpl_organization = tfd_organization x, tpl_image = tfd_image x, tpl_name = tfd_name x,
     tpl_description = tfd_description x, tpl_default_cpu_count = tfd_default_cpu_count x, tpl_default_memory_mb = tfd_default_memory_mb x,
     tpl_default_disk_gb = tfd_default_disk_gb x, tpl_default_firmware = tfd_default_firmware x, tpl_default_os_type = tfd_default_os_type x,
     tpl_network_defaults = tfd_network_defaults x, tpl_cloud_init_defaults = tfd_cloud_init_defaults x, tpl_is_active = tfd_is_active x \<rparr>"

definition template_create :: "template_fields \<Rightarrow> (nat \<times> template) op" where
  "template_create x = must_be_unique (\<lambda>d. list_ex (\<lambda>(k, b). tpl_organization b = tfd_organization x \<and> tpl_name b = tfd_name x) (templates d)) ''organization, name''
     (insert_row templates_update (\<lambda>u t. template_of x u t t))"

text \<open>An update; the fields that the body leaves out have been filled in from the row.\<close>

definition template_update :: "(nat \<times> template) op \<Rightarrow> (template \<Rightarrow> template_fields) \<Rightarrow> (nat \<times> template) op" where
  "template_update get_object body = bindM get_object (\<lambda>(k, r). bindM now (\<lambda>t. let x = body r in
     must_be_unique (\<lambda>d. list_ex (\<lambda>(k', b). k' \<noteq> k \<and> tpl_organization b = tfd_organization x \<and> tpl_name b = tfd_name x) (templates d)) ''organization, name''
       (write_row templates_update k (template_of x (uuid r) (created_at r) t))))"

record target_data =
  tda_organization :: nat
  tda_name :: string
  tda_type :: BackupTargetType
  tda_config :: json
  tda_encryption_key_id :: string
  tda_enabled :: bool

definition target_create :: "target_data \<Rightarrow> (nat \<times> backup_target) op" where
  "target_create x = must_be_unique (\<lambda>d. list_ex (\<lambda>(k, b). bkt_organization b = tda_organization x \<and> bkt_name b = tda_name x) (backup_targets d)) ''organization, name''
     (insert_row backup_targets_update (\<lambda>u t. \<lparr> uuid = u, created_at = t, updated_at = t, bkt_organization = tda_organization x, bkt_name = tda_name x,
        bkt_type = tda_type x, bkt_config = tda_config x, bkt_encryption_key_id = tda_encryption_key_id x, bkt_enabled = tda_enabled x \<rparr>))"

text \<open>The update serializer shows the configuration masked and does not write it.\<close>

record target_patch =
  tap_organization :: "nat option"
  tap_name :: "string option"
  tap_type :: "BackupTargetType option"
  tap_encryption_key_id :: "string option"
  tap_enabled :: "bool option"

definition patch_target :: "target_patch \<Rightarrow> backup_target \<Rightarrow> backup_target" where
  "patch_target p r = r\<lparr>bkt_organization := opt_or (tap_organization p) (bkt_organization r), bkt_name := opt_or (tap_name p) (bkt_name r),
     bkt_type := opt_or (tap_type p) (bkt_type r), bkt_encryption_key_id := opt_or (tap_encryption_key_id p) (bkt_encryption_key_id r),
     bkt_enabled := opt_or (tap_enabled p) (bkt_enabled r)\<rparr>"

definition target_update :: "(nat \<times> backup_target) op \<Rightarrow> target_patch \<Rightarrow> (nat \<times> backup_target) op" where
  "target_update get_object p = bindM get_object (\<lambda>(k, r). bindM now (\<lambda>t. let r' = (patch_target p r)\<lparr>updated_at := t\<rparr> in
     must_be_unique (\<lambda>d. list_ex (\<lambda>(k', b). k' \<noteq> k \<and> bkt_organization b = bkt_organization r' \<and> bkt_name b = bkt_name r') (backup_targets d)) ''organization, name''
       (write_row backup_targets_update k r')))"

subsection \<open>Address management\<close>

text \<open>\<open>ip_network(value, strict=True)\<close> refuses a network address with host bits; \<open>bits\<close> is the width of the address family.\<close>

definition validate_cidr :: "nat \<Rightarrow> nat \<times> nat \<Rightarrow> bool" where
  "validate_cidr bits cidr = (case cidr of (net, plen) \<Rightarrow> plen \<le> bits \<and> net < 2 ^ bits \<and> net mod 2 ^ (bits - plen) = 0)"

definition checked_cidr :: "nat \<Rightarrow> nat \<times> nat \<Rightarrow> 'a op \<Rightarrow> 'a op" where
  "checked_cidr bits cidr body = (if validate_cidr bits cidr then body else raiseM (DrfExn 400 ''VALIDATION_FAILED'' ''has host bits set''))"

record subnet_data =
  sda_network :: nat
  sda_cidr :: "nat \<times> nat"
  sda_gateway :: "nat option"
  sda_dns_servers :: "string list"

definition subnet_of :: "subnet_data \<Rightarrow> string \<Rightarrow> nat \<Rightarrow> nat \<Rightarrow> subnet" where
  "subnet_of x u c t = \<lparr> uuid = u, created_at = c, updated_at = t, sub_network = sda_network x, sub_cidr = sda_cidr x, sub_gateway = sda_gateway x,
     sub_dns_servers = sda_dns_servers x \<rparr>"

definition subnet_create :: "nat \<Rightarrow> subnet_data \<Rightarrow> (nat \<times> subnet) op" where
  "subnet_create bits x = checked_cidr bits (sda_cidr x)
     (must_be_unique (\<lambda>d. list_ex (\<lambda>(k, b). sub_network b = sda_network x \<and> sub_cidr b = sda_cidr x) (subnets d)) ''network, cidr''
       (insert_row subnets_update (\<lambda>u t. subnet_of x u t t)))"

definition subnet_update :: "nat \<Rightarrow> (nat \<times> subnet) op \<Rightarrow> (subnet \<Rightarrow> subnet_data) \<Rightarrow> (nat \<times> subnet) op" where
  "subnet_update bits get_object body = bindM get_object (\<lambda>(k, r). bindM now (\<lambda>t. let x = body r in checked_cidr bits (sda_cidr x)
     (must_be_unique (\<lambda>d. list_ex (\<lambda>(k', b). k' \<noteq> k \<and> sub_network b = sda_network x \<and> sub_cidr b = sda_cidr x) (subnets d)) ''network, cidr''
       (write_row subnets_update k (subnet_of x (uuid r) (created_at r) t)))))"

record ip_pool_data =
  ipd_subnet :: nat
  ipd_name :: string
  ipd_start_address :: nat
  ipd_end_address :: nat

definition ip_pool_of :: "ip_pool_data \<Rightarrow> string \<Rightarrow> nat \<Rightarrow> nat \<Rightarrow> ip_pool" where
  "ip_pool_of x u c t = \<lparr> uuid = u, created_at = c, updated_at = t, poo_subnet = ipd_subnet x, poo_name = ipd_name x,
     poo_start_address = ipd_start_address x, poo_end_address = ipd_end_address x \<rparr>"

definition ip_pool_create :: "ip_pool_data \<Rightarrow> (nat \<times> ip_pool) op" where
  "ip_pool_create x = insert_row ip_pools_update (\<lambda>u t. ip_pool_of x u t t)"

definition ip_pool_update :: "(nat \<times> ip_pool) op \<Rightarrow> (ip_pool \<Rightarrow> ip_pool_data) \<Rightarrow> (nat \<times> ip_pool) op" where
  "ip_pool_update get_object body = bindM get_object (\<lambda>(k, r). bindM now (\<lambda>t.
     write_row ip_pools_update k (ip_pool_of (body r) (uuid r) (created_at r) t)))"

record address_data =
  ada_subnet :: nat
  ada_address :: nat
  ada_note :: string

definition address_create :: "address_data \<Rightarrow> (nat \<times> ip_address) op" where
  "address_create x = must_be_unique (\<lambda>d. list_ex (\<lambda>(k, b). adr_subnet b = ada_subnet x \<and> adr_address b = ada_address x) (ip_addresses d)) ''subnet, address''
     (insert_row ip_addresses_update (\<lambda>u t. \<lparr> uuid = u, created_at = t, updated_at = t, adr_subnet = ada_subnet x, adr_address = ada_address x, adr_state = IP_AVAILABLE,
        adr_note = ada_note x \<rparr>))"

definition address_update :: "(nat \<times> ip_address) op \<Rightarrow> (ip_address \<Rightarrow> address_data) \<Rightarrow> (nat \<times> ip_address) op" where
  "address_update get_object body = bindM get_object (\<lambda>(k, r). bindM now (\<lambda>t. let x = body r in
     must_be_unique (\<lambda>d. list_ex (\<lambda>(k', b). k' \<noteq> k \<and> adr_subnet b = ada_subnet x \<and> adr_address b = ada_address x) (ip_addresses d)) ''subnet, address''
       (write_row ip_addresses_update k (r\<lparr>adr_subnet := ada_subnet x, adr_address := ada_address x, adr_note := ada_note x, updated_at := t\<rparr>))))"

subsection \<open>Updates of virtual machines, storage pools and users\<close>

text \<open>Of a virtual machine only descriptive fields can be written; the name is unique within the project.\<close>

record vm_patch =
  vmp_name :: "string option"
  vmp_hostname :: "string option"
  vmp_description :: "string option"
  vmp_boot_order :: "string list option"
  vmp_autostart :: "bool option"

definition patch_vm :: "vm_patch \<Rightarrow> virtual_machine \<Rightarrow> virtual_machine" where
  "patch_vm p v = v\<lparr>vm_name := opt_or (vmp_name p) (vm_name v), vm_hostname := opt_or (vmp_hostname p) (vm_hostname v),
     vm_description := opt_or (vmp_description p) (vm_description v), vm_boot_order := opt_or (vmp_boot_order p) (vm_boot_order v),
     vm_autostart := opt_or (vmp_autostart p) (vm_autostart v)\<rparr>"

definition vm_update :: "(nat \<times> virtual_machine) op \<Rightarrow> vm_patch \<Rightarrow> (nat \<times> virtual_machine) op" where
  "vm_update get_object p = bindM get_object (\<lambda>(k, v). bindM now (\<lambda>t. let v' = (patch_vm p v)\<lparr>updated_at := t\<rparr> in
     bindM (getdb (\<lambda>d. list_ex (\<lambda>(k', b). k' \<noteq> k \<and> vm_project b = vm_project v' \<and> vm_name b = vm_name v') (vms d))) (\<lambda>taken.
     if taken then raiseM (IntegrityError ''unique_vm_name_per_project'') else write_row vms_update k v')))"

record pool_patch =
  spp_node :: "nat option"
  spp_name :: "string option"
  spp_type :: "StorageType option"
  spp_path :: "string option"
  spp_shared :: "bool option"
  spp_enabled :: "bool option"
  spp_capabilities :: "StorageCapability list option"

definition patch_pool :: "pool_patch \<Rightarrow> storage_pool \<Rightarrow> storage_pool" where
  "patch_pool p r = r\<lparr>sto_node := opt_or (spp_node p) (sto_node r), sto_name := opt_or (spp_name p) (sto_name r), sto_type := opt_or (spp_type p) (sto_type r),
     sto_path := opt_or (spp_path p) (sto_path r), sto_shared := opt_or (spp_shared p) (sto_shared r), sto_enabled := opt_or (spp_enabled p) (sto_enabled r),
     sto_capabilities := opt_or (spp_capabilities p) (sto_capabilities r)\<rparr>"

definition pool_update :: "(nat \<times> storage_pool) op \<Rightarrow> pool_patch \<Rightarrow> (nat \<times> storage_pool) op" where
  "pool_update get_object p = bindM get_object (\<lambda>(k, r). bindM now (\<lambda>t. let r' = (patch_pool p r)\<lparr>updated_at := t\<rparr> in
     must_be_unique (\<lambda>d. list_ex (\<lambda>(k', b). k' \<noteq> k \<and> sto_node b = sto_node r' \<and> sto_name b = sto_name r') (storage_pools d)) ''node, name''
       (write_row storage_pools_update k r')))"

record user_patch =
  usp_username :: "string option"
  usp_is_active :: "bool option"
  usp_is_service_account :: "bool option"

definition patch_user :: "user_patch \<Rightarrow> user \<Rightarrow> user" where
  "patch_user p u = u\<lparr>usr_username := opt_or (usp_username p) (usr_username u), usr_is_active := opt_or (usp_is_active p) (usr_is_active u),
     usr_is_service_account := opt_or (usp_is_service_account p) (usr_is_service_account u)\<rparr>"

definition user_update :: "(nat \<times> user) op \<Rightarrow> user_patch \<Rightarrow> (nat \<times> user) op" where
  "user_update get_object p = bindM get_object (\<lambda>(k, u). let u' = patch_user p u in
     bindM (getdb (\<lambda>d. list_ex (\<lambda>(k', b). k' \<noteq> k \<and> usr_username b = usr_username u') (users d))) (\<lambda>taken.
     if taken then raiseM (DrfExn 400 ''VALIDATION_FAILED'' ''A user with that username already exists.'') else write_row users_update k u'))"

subsection \<open>References\<close>

lemma keys_row_add: "fst ` set (row_add k r t) = insert k (fst ` set t)"
  by (auto simp: row_add_def)

lemma key_set_row_mod: "fst ` set (row_mod k f t) = fst ` set t"
  by (force simp: row_mod_def)

lemma in_row_mod_constD: "(k', r) \<in> set (row_mod k (\<lambda>_. x) t) \<Longrightarrow> (k', r) \<in> set t \<or> r = x"
  by (auto simp: row_mod_def split: if_splits)

lemma points_row_add: "points f (row_add k r t) q \<longleftrightarrow> points f t q \<and> f r \<in> fst ` set q"
  by (auto simp: points_iff row_add_def)

lemma may_point_row_add: "may_point f (row_add k r t) q \<longleftrightarrow> may_point f t q \<and> (\<forall>x. f r = Some x \<longrightarrow> x \<in> fst ` set q)"
  by (auto simp: may_point_iff row_add_def)

lemma points_to_row_add: "points f t q \<Longrightarrow> points f t (row_add k r q)"
  by (auto simp: points_iff keys_row_add)

lemma may_point_to_row_add: "may_point f t q \<Longrightarrow> may_point f t (row_add k r q)"
  by (auto simp: may_point_iff keys_row_add)

lemma points_row_mod: "points f t q \<Longrightarrow> f x \<in> fst ` set q \<Longrightarrow> points f (row_mod k (\<lambda>_. x) t) q"
  unfolding points_iff by (blast dest: in_row_mod_constD)

lemma may_point_row_mod: "may_point f t q \<Longrightarrow> (\<And>y. f x = Some y \<Longrightarrow> y \<in> fst ` set q) \<Longrightarrow> may_point f (row_mod k (\<lambda>_. x) t) q"
  unfolding may_point_iff by (blast dest: in_row_mod_constD)

lemma points_to_row_mod: "points f t (row_mod k g q) \<longleftrightarrow> points f t q"
  by (simp add: points_iff key_set_row_mod)

lemma may_point_to_row_mod: "may_point f t (row_mod k g q) \<longleftrightarrow> may_point f t q"
  by (simp add: may_point_iff key_set_row_mod)

lemmas write_refs = points_row_add may_point_row_add points_to_row_add may_point_to_row_add points_row_mod may_point_row_mod points_to_row_mod may_point_to_row_mod

lemmas refs_defs = refs_ok_def tenant_refs_def host_refs_def vm_refs_def other_refs_def user_refs_def

text \<open>What the serializers resolve: the references of a body name rows.\<close>

abbreviation has_row :: "nat \<Rightarrow> 'r table \<Rightarrow> bool" where
  "has_row k t \<equiv> k \<in> fst ` set t"

definition safe_op :: "'a op \<Rightarrow> world \<Rightarrow> bool" where
  "safe_op m w \<longleftrightarrow> refs_ok (wdb (snd (m w)))"

lemma safe_raise: "refs_ok (wdb w) \<Longrightarrow> safe_op (raiseM e) w"
  by (simp add: safe_op_def raiseM_def)

lemma safe_unique: "refs_ok (wdb w) \<Longrightarrow> safe_op body w \<Longrightarrow> safe_op (must_be_unique taken flds body) w"
  by (simp add: safe_op_def must_be_unique_def raiseM_def)

lemma safe_insert: "(\<And>k u t n. refs_ok (upd (row_add k (mk u t)) ((wdb w)\<lparr>next_pk := n\<rparr>))) \<Longrightarrow> safe_op (insert_row upd mk) w"
  by (simp add: safe_op_def insert_row_def bindM_apply uuid4_def now_def fresh_pk_apply db_upd_def)

lemma safe_write: "refs_ok (upd (row_mod k (\<lambda>_. r)) (wdb w)) \<Longrightarrow> safe_op (write_row upd k r) w"
  by (simp add: safe_op_def write_row_def)

lemma refs_next_pk [simp]: "refs_ok (d\<lparr>next_pk := n\<rparr>) = refs_ok d"
  by (simp add: refs_defs)

lemma add_webhook_refs: "refs_ok d \<Longrightarrow> has_row (whk_organization r) (organizations d) \<Longrightarrow> refs_ok (webhooks_update (row_add k r) d)"
  by (simp add: refs_defs write_refs)

lemma add_template_refs:
  "refs_ok d \<Longrightarrow> has_row (tpl_organization r) (organizations d) \<Longrightarrow> has_row (tpl_image r) (images d) \<Longrightarrow> refs_ok (templates_update (row_add k r) d)"
  by (simp add: refs_defs write_refs)

lemma add_target_refs: "refs_ok d \<Longrightarrow> has_row (bkt_organization r) (organizations d) \<Longrightarrow> refs_ok (backup_targets_update (row_add k r) d)"
  by (simp add: refs_defs write_refs)

lemma add_subnet_refs: "refs_ok d \<Longrightarrow> has_row (sub_network r) (networks d) \<Longrightarrow> refs_ok (subnets_update (row_add k r) d)"
  by (simp add: refs_defs write_refs)

lemma add_ip_pool_refs: "refs_ok d \<Longrightarrow> has_row (poo_subnet r) (subnets d) \<Longrightarrow> refs_ok (ip_pools_update (row_add k r) d)"
  by (simp add: refs_defs write_refs)

lemma add_address_refs: "refs_ok d \<Longrightarrow> has_row (adr_subnet r) (subnets d) \<Longrightarrow> refs_ok (ip_addresses_update (row_add k r) d)"
  by (simp add: refs_defs write_refs)

lemmas add_refs = add_webhook_refs add_template_refs add_target_refs add_subnet_refs add_ip_pool_refs add_address_refs

text \<open>Accepted or refused, a creation whose references resolve leaves every foreign key intact.\<close>

theorem creations_keep_references:
  assumes "refs_ok (wdb w)"
  shows "has_row (wda_organization wd) (organizations (wdb w)) \<Longrightarrow> safe_op (webhook_create E n drawn wd) w"
    and "has_row (tfd_organization td) (organizations (wdb w)) \<Longrightarrow> has_row (tfd_image td) (images (wdb w)) \<Longrightarrow> safe_op (template_create td) w"
    and "has_row (tda_organization bd) (organizations (wdb w)) \<Longrightarrow> safe_op (target_create bd) w"
    and "has_row (sda_network sd) (networks (wdb w)) \<Longrightarrow> safe_op (subnet_create bits sd) w"
    and "has_row (ipd_subnet ipd) (subnets (wdb w)) \<Longrightarrow> safe_op (ip_pool_create ipd) w"
    and "has_row (ada_subnet ad) (subnets (wdb w)) \<Longrightarrow> safe_op (address_create ad) w"
  using assms
  by (auto simp: webhook_create_def template_create_def target_create_def subnet_create_def checked_cidr_def ip_pool_create_def address_create_def
      template_of_def subnet_of_def ip_pool_of_def rev_image_eqI split: sum.split intro!: safe_raise safe_unique safe_insert add_refs)

lemma points_hit: "points f t q \<Longrightarrow> (k, r) \<in> set t \<Longrightarrow> has_row (f r) q"
  by (auto simp: points_iff)

lemma may_point_hit: "may_point f t q \<Longrightarrow> (k, r) \<in> set t \<Longrightarrow> f r = Some x \<Longrightarrow> has_row x q"
  by (auto simp: may_point_iff)

lemma write_vm_refs:
  assumes "refs_ok d" and "(k, v0) \<in> set (vms d)" and "vm_organization v = vm_organization v0" and "vm_project v = vm_project v0"
    and "vm_node v = vm_node v0" and "vm_template v = vm_template v0" and "vm_created_by v = vm_created_by v0"
  shows "refs_ok (vms_update (row_mod k (\<lambda>_. v)) d)"
proof -
  have "vm_refs d" "user_refs d" using assms(1) by (simp_all add: refs_ok_def)
  then have "has_row (vm_organization v) (organizations d)" "has_row (vm_project v) (projects d)" "\<And>x. vm_node v = Some x \<Longrightarrow> has_row x (nodes d)"
    "\<And>x. vm_template v = Some x \<Longrightarrow> has_row x (templates d)" "\<And>x. vm_created_by v = Some x \<Longrightarrow> has_row x (users d)"
    using assms(2) unfolding assms(3-7) vm_refs_def user_refs_def by (blast intro: points_hit may_point_hit)+
  then show ?thesis using assms(1) by (simp add: refs_defs write_refs)
qed

lemma write_node_refs: "refs_ok d \<Longrightarrow> has_row (nod_organization r) (organizations d) \<Longrightarrow> refs_ok (nodes_update (row_mod k (\<lambda>_. r)) d)"
  by (simp add: refs_defs write_refs)

lemma write_pool_refs: "refs_ok d \<Longrightarrow> has_row (sto_node r) (nodes d) \<Longrightarrow> refs_ok (storage_pools_update (row_mod k (\<lambda>_. r)) d)"
  by (simp add: refs_defs write_refs)

lemma write_target_refs: "refs_ok d \<Longrightarrow> has_row (bkt_organization r) (organizations d) \<Longrightarrow> refs_ok (backup_targets_update (row_mod k (\<lambda>_. r)) d)"
  by (simp add: refs_defs write_refs)

lemma write_user_refs: "refs_ok d \<Longrightarrow> refs_ok (users_update (row_mod k (\<lambda>_. r)) d)"
  by (simp add: refs_defs write_refs)

text \<open>Updates keep the keys, and with resolved references also every foreign key.\<close>

theorem updates_keep_references:
  assumes "refs_ok (wdb w)"
  shows "row_get k (vms (wdb w)) = Some v \<Longrightarrow> safe_op (vm_update (returnM (k, v)) vp) w"
    and "has_row (nod_organization (patch_node np n)) (organizations (wdb w)) \<Longrightarrow> safe_op (node_update (returnM (k, n)) np) w"
    and "has_row (sto_node (patch_pool pp p)) (nodes (wdb w)) \<Longrightarrow> safe_op (pool_update (returnM (k, p)) pp) w"
    and "has_row (bkt_organization (patch_target tp t)) (organizations (wdb w)) \<Longrightarrow> safe_op (target_update (returnM (k, t)) tp) w"
    and "safe_op (user_update (returnM (k, u)) up) w"
proof -
  show "safe_op (vm_update (returnM (k, v)) vp) w" if "row_get k (vms (wdb w)) = Some v"
  proof -
    have "(k, v) \<in> set (vms (wdb w))" using that by (simp add: row_get_def map_of_SomeD)
    then have "safe_op (write_row vms_update k ((patch_vm vp v)\<lparr>updated_at := clock w\<rparr>)) w"
      using assms by (intro safe_write, intro write_vm_refs [of _ k v]) (simp_all add: patch_vm_def)
    then show ?thesis using assms by (auto simp: vm_update_def Let_def safe_op_def raiseM_def)
  qed
  show "safe_op (node_update (returnM (k, n)) np) w" if "has_row (nod_organization (patch_node np n)) (organizations (wdb w))"
    using that assms unfolding node_update_def Let_def by (simp add: safe_op_def [of _ w]) (simp add: safe_op_def [symmetric] safe_unique safe_write write_node_refs)
  show "safe_op (pool_update (returnM (k, p)) pp) w" if "has_row (sto_node (patch_pool pp p)) (nodes (wdb w))"
    using that assms unfolding pool_update_def Let_def by (simp add: safe_op_def [of _ w]) (simp add: safe_op_def [symmetric] safe_unique safe_write write_pool_refs)
  show "safe_op (target_update (returnM (k, t)) tp) w" if "has_row (bkt_organization (patch_target tp t)) (organizations (wdb w))"
    using that assms unfolding target_update_def Let_def by (simp add: safe_op_def [of _ w]) (simp add: safe_op_def [symmetric] safe_unique safe_write write_target_refs)
  show "safe_op (user_update (returnM (k, u)) up) w"
    using assms by (auto simp: user_update_def Let_def safe_op_def raiseM_def write_row_def write_user_refs)
qed

subsection \<open>Webhooks stay valid\<close>

definition webhook_ok :: "http_env \<Rightarrow> webhook \<Rightarrow> bool" where
  "webhook_ok E h \<longleftrightarrow> he_hostname E (whk_url h) \<notin> {None, Some ''''} \<and> (whk_events h = [''*''] \<or> set (whk_events h) \<subseteq> set SUPPORTED_EVENTS) \<and> whk_secret h \<noteq> ''''"

definition webhooks_ok :: "http_env \<Rightarrow> world \<Rightarrow> bool" where
  "webhooks_ok E w \<longleftrightarrow> (\<forall>(k, h) \<in> set (webhooks (wdb w)). webhook_ok E h)"

text \<open>The requests that write webhooks, and everything else the controller does.\<close>

inductive webhook_step :: "http_env \<Rightarrow> world \<Rightarrow> world \<Rightarrow> bool" for E where
  Created: "drawn \<noteq> '''' \<Longrightarrow> webhook_create E n drawn x w = (r, w') \<Longrightarrow> webhook_step E w w'"
| Updated: "drawn \<noteq> '''' \<Longrightarrow> (k, h) \<in> set (webhooks (wdb w)) \<Longrightarrow> webhook_update E n drawn (returnM (k, h)) p w = (r, w') \<Longrightarrow> webhook_step E w w'"
| Deleted: "webhook_destroy (returnM (k, h)) w = (r, w') \<Longrightarrow> webhook_step E w w'"
| Other: "webhooks (wdb w') = webhooks (wdb w) \<Longrightarrow> webhook_step E w w'"

lemma validate_url_ok: "validate_url E n scheme url = Inr url' \<Longrightarrow> url' = url \<and> he_hostname E url \<notin> {None, Some ''''}"
  by (auto simp: validate_url_def split: if_splits sum.splits)

lemma validate_events_ok: "validate_events es = Inr es' \<Longrightarrow> es' = es \<and> (es = [''*''] \<or> set es \<subseteq> set SUPPORTED_EVENTS)"
  by (auto simp: validate_events_def list_ex_iff split: if_splits)

lemma insert_row_webhooks: "insert_row webhooks_update mk w = (r, w') \<Longrightarrow> \<exists>k u t. webhooks (wdb w') = row_add k (mk u t) (webhooks (wdb w))"
  by (auto simp: insert_row_def bindM_apply fresh_pk_apply intro!: exI)

lemma webhook_create_ok:
  assumes "webhook_create E n drawn x w = (r, w')" and "drawn \<noteq> ''''" and "webhooks_ok E w"
  shows "webhooks_ok E w'"
proof (cases "\<exists>url evs. validate_url E n (wda_scheme x) (wda_url x) = Inr url \<and> validate_events (wda_events x) = Inr evs")
  case True
  then obtain url evs where v: "validate_url E n (wda_scheme x) (wda_url x) = Inr url" "validate_events (wda_events x) = Inr evs" by blast
  define mk where "mk u t = \<lparr> uuid = u, created_at = t, updated_at = t, whk_organization = wda_organization x, whk_name = wda_name x, whk_url = url,
    whk_secret = save_secret drawn [], whk_events = evs, whk_enabled = wda_enabled x \<rparr>" for u t
  have "insert_row webhooks_update mk w = (r, w')" using assms(1) v by (simp add: webhook_create_def mk_def [abs_def])
  moreover have "webhook_ok E (mk u t)" for u t
    using validate_url_ok [OF v(1)] validate_events_ok [OF v(2)] assms(2) by (auto simp: webhook_ok_def mk_def save_secret_def)
  ultimately show ?thesis using assms(3) by (fastforce simp: webhooks_ok_def row_add_def dest!: insert_row_webhooks)
next
  case False
  then have "w' = w" using assms(1) by (auto simp: webhook_create_def raiseM_def split: sum.splits)
  then show ?thesis using assms(3) by simp
qed

lemma webhook_update_ok:
  assumes "webhook_update E n drawn (returnM (k, h)) p w = (r, w')" and "drawn \<noteq> ''''" and "webhooks_ok E w" and "(k, h) \<in> set (webhooks (wdb w))"
  shows "webhooks_ok E w'"
proof -
  have h: "webhook_ok E h" using assms(3,4) by (auto simp: webhooks_ok_def)
  have "webhook_ok E ((patch_webhook drawn p h)\<lparr>updated_at := t\<rparr>)"
    if "(case whp_url p of Some (scheme, url) \<Rightarrow> validate_url E n scheme url | None \<Rightarrow> Inr '''') = Inr u" and
       "(case whp_events p of Some evs \<Rightarrow> validate_events evs | None \<Rightarrow> Inr []) = Inr es" for t u es
    using that h assms(2) by (auto simp: webhook_ok_def patch_webhook_def save_secret_def opt_or_def split: option.splits dest!: validate_url_ok validate_events_ok)
  then show ?thesis using assms(1,3)
    by (auto simp: webhook_update_def raiseM_def write_row_def webhooks_ok_def split: sum.splits dest!: in_row_mod_constD)
qed

text \<open>
  Every webhook the dispatcher ever sees names a host, subscribes to supported events only (or to all of them) and has a signing secret, whatever sequence of
  requests wrote it.
\<close>

theorem webhooks_stay_valid: "(webhook_step E)\<^sup>*\<^sup>* w0 w \<Longrightarrow> webhooks_ok E w0 \<Longrightarrow> webhooks_ok E w"
proof (induction rule: rtranclp_induct)
  case (step y z)
  then have y: "webhooks_ok E y" by blast
  from step(2) show ?case
  proof cases
    case (Created drawn n x r)
    then show ?thesis using webhook_create_ok y by blast
  next
    case (Updated drawn k h n p r)
    then show ?thesis using webhook_update_ok y by blast
  qed (use y in \<open>auto simp: webhook_destroy_def protected_destroy_def webhook_cascade_def webhooks_ok_def in_without\<close>)
qed

subsection \<open>Address pools are not checked against their subnet\<close>

text \<open>
  A reservation outside the subnet is refused, but a pool is stored whatever its range: if it is the only pool of the subnet, the next allocation hands out
  its first free address, be it inside the subnet or not.
\<close>

theorem pool_outside_subnet_allocated:
  assumes "subnet_pools (wdb w) sk = []" and "is_free (wdb w) sk a" and "a \<le> b" and "\<not> in_subnet bits (sub_cidr s) a"
  shows "(\<exists>m. fst (reserve_ip bits (sk, s) show_address raw (Some a) nt w) = Inl (api_exn InvalidReservation m)) \<and>
     (\<exists>k p w1. ip_pool_create \<lparr> ipd_subnet = sk, ipd_name = nm, ipd_start_address = a, ipd_end_address = b \<rparr> w = (Inr (k, p), w1) \<and>
       ((\<exists>key. fst (allocate_ip sk cidr None nt w1) = Inl (LockAcquisitionError key)) \<or>
        (\<exists>ak r. fst (allocate_ip sk cidr None nt w1) = Inr (ak, r) \<and> adr_address r = a \<and> adr_subnet r = sk \<and> adr_state r = IP_ALLOCATED)))"
proof -
  let ?x = "\<lparr> ipd_subnet = sk, ipd_name = nm, ipd_start_address = a, ipd_end_address = b \<rparr>"
  obtain k p w1 where run: "ip_pool_create ?x w = (Inr (k, p), w1)" "ip_pools (wdb w1) = row_add k p (ip_pools (wdb w))"
    "ip_addresses (wdb w1) = ip_addresses (wdb w)" "poo_subnet p = sk" "poo_start_address p = a" "poo_end_address p = b"
    by (simp add: ip_pool_create_def insert_row_def bindM_apply fresh_pk_apply ip_pool_of_def)
  have "candidates (wdb w1) sk None = address_range p"
    using assms(1) run(2,4) by (simp add: candidates_def pools_for_def subnet_pools_def rows_where_def row_add_def)
  moreover have "address_range p = a # [Suc a..<Suc b]" using run(5,6) assms(3) by (simp add: address_range_def upt_conv_Cons)
  moreover have "is_free (wdb w1) sk a" using assms(2) is_free_cong [OF run(3)] by simp
  ultimately show ?thesis using allocate_ip_outcome [of sk cidr None nt w1] run(1) assms(4) by (auto simp: reserve_ip_def raiseM_def)
qed

end
