(* ===== verification/Feeds.thy ===== *)
theory Feeds
  imports Tokens
begin

section \<open>Feeds: live updates over websockets\<close>

text \<open>
  The consumers that stream updates to the browser (\<open>VMConsumer\<close>, \<open>JobConsumer\<close>, \<open>NodeStatusConsumer\<close>, \<open>EventsConsumer\<close>) over their whole life:
  \<open>connect\<close> joins a channel group after the permission check, the handler forwards what is published to the group, \<open>disconnect\<close> leaves it.
  A run interleaves connections, publications and arbitrary changes of the world. The channel layer delivers a message to the channels that are in the
  group when it is sent.
\<close>

datatype feed = VMFeed string | JobFeed string | NodeFeed string | EventsFeed "string option"

fun ws_map :: "('a \<Rightarrow> 'b) \<Rightarrow> 'a ws \<Rightarrow> 'b ws" where
  "ws_map f (WsClosed c) = WsClosed c"
| "ws_map f (WsAccepted g a) = WsAccepted g (f a)"

text \<open>The connection attempt, with the message the consumer sends right after accepting, if it does.\<close>

fun feed_connect :: "feed \<Rightarrow> principal \<Rightarrow> json option ws op" where
  "feed_connect (VMFeed u) usr = bindM (vm_consumer_connect usr u) (\<lambda>r. returnM (ws_map (\<lambda>_. None) r))"
| "feed_connect (JobFeed u) usr = bindM (job_consumer_connect usr u) (\<lambda>r. returnM (ws_map Some r))"
| "feed_connect (NodeFeed u) usr = bindM (node_consumer_connect usr u) (\<lambda>r. returnM (ws_map (\<lambda>_. None) r))"
| "feed_connect (EventsFeed u) usr = bindM (events_consumer_connect usr u) (\<lambda>r. returnM (ws_map (\<lambda>_. None) r))"

text \<open>The handler the message's type names, and what it sends to the browser; another type or a missing key is an error.\<close>

definition handles :: "string \<Rightarrow> json \<Rightarrow> bool" where
  "handles t m \<longleftrightarrow> jget ''type'' m = Some (JStr t)"

fun feed_forward :: "feed \<Rightarrow> json \<Rightarrow> json option" where
  "feed_forward (VMFeed u) m = (if handles ''vm.status'' m then jget ''data'' m else None)"
| "feed_forward (JobFeed u) m = (if handles ''job.update'' m then Some m else None)"
| "feed_forward (NodeFeed u) m = (if handles ''node.status'' m then jget ''data'' m else None)"
| "feed_forward (EventsFeed u) m = (if handles ''event.message'' m then jget ''event'' m else None)"

record feed_session =
  ses_channel :: nat
  ses_feed :: feed
  ses_user :: principal
  ses_group :: string

record feeds =
  fd_world :: world
  fd_open :: "feed_session list"
  fd_sent :: "(nat \<times> json) list"
  fd_published :: "(string \<times> json) list"
  fd_next :: nat

definition deliveries_of :: "string \<Rightarrow> json \<Rightarrow> feed_session list \<Rightarrow> (nat \<times> json) list" where
  "deliveries_of g m ss = concat (map (\<lambda>x. if ses_group x = g then (case feed_forward (ses_feed x) m of Some j \<Rightarrow> [(ses_channel x, j)] | None \<Rightarrow> []) else []) ss)"

definition opened :: "feed \<Rightarrow> principal \<Rightarrow> string \<Rightarrow> json option \<Rightarrow> world \<Rightarrow> feeds \<Rightarrow> feeds" where
  "opened f p g first w s = s\<lparr>fd_world := w,
     fd_open := \<lparr> ses_channel = fd_next s, ses_feed = f, ses_user = p, ses_group = g \<rparr> # fd_open s,
     fd_sent := fd_sent s @ (case first of Some j \<Rightarrow> [(fd_next s, j)] | None \<Rightarrow> []), fd_next := Suc (fd_next s)\<rparr>"

definition feed_disconnect :: "nat \<Rightarrow> feeds \<Rightarrow> feeds" where
  "feed_disconnect ch s = s\<lparr>fd_open := filter (\<lambda>x. ses_channel x \<noteq> ch) (fd_open s)\<rparr>"

definition publish_group :: "string \<Rightarrow> json \<Rightarrow> feeds \<Rightarrow> feeds" where
  "publish_group g m s = s\<lparr>fd_world := snd (group_send g m (fd_world s)), fd_sent := fd_sent s @ deliveries_of g m (fd_open s),
     fd_published := fd_published s @ [(g, m)]\<rparr>"

text \<open>\<open>Work\<close> is everything else that happens to the controller: any change of its state.\<close>

inductive feed_step :: "feeds \<Rightarrow> feeds \<Rightarrow> bool" where
  Accept: "feed_connect f p (fd_world s) = (Inr (WsAccepted g first), w) \<Longrightarrow> feed_step s (opened f p g first w s)"
| Refuse: "feed_connect f p (fd_world s) = (Inr (WsClosed c), w) \<Longrightarrow> feed_step s (s\<lparr>fd_world := w\<rparr>)"
| Leave: "feed_step s (feed_disconnect ch s)"
| Publish: "feed_step s (publish_group g m s)"
| Work: "feed_step s (s\<lparr>fd_world := w\<rparr>)"

inductive_cases feed_stepE: "feed_step s s'"

subsection \<open>What a feed is about\<close>

text \<open>The organization, the permission and the group of the object a feed names.\<close>

fun feed_target :: "db \<Rightarrow> feed \<Rightarrow> (nat \<times> string \<times> string) option" where
  "feed_target d (VMFeed u) = map_option (\<lambda>(k, v). (vm_organization v, ''vm.view'', ''vm.'' @ u)) (by_uuid (vms d) u)"
| "feed_target d (JobFeed u) = map_option (\<lambda>(k, j). (job_organization j, ''job.view'', ''job.'' @ u)) (by_uuid (jobs d) u)"
| "feed_target d (NodeFeed u) = map_option (\<lambda>(k, n). (nod_organization n, ''node.view'', ''node_status.'' @ u)) (by_uuid (nodes d) u)"
| "feed_target d (EventsFeed u) = (case u of None \<Rightarrow> None | Some x \<Rightarrow> if x = '''' then None
     else map_option (\<lambda>(k, r). (k, ''event.view'', ''events.'' @ show_nat k)) (by_uuid (organizations d) x))"

definition may_view :: "world \<Rightarrow> principal \<Rightarrow> nat \<Rightarrow> string \<Rightarrow> bool" where
  "may_view w p ok c \<longleftrightarrow> (\<exists>uk u. p = Some (uk, u) \<and> (usr_is_superuser u \<or> c \<in> set (current_codes w uk ok None)))"

lemma accepted_may_view:
  assumes "feed_connect f p w = (Inr (WsAccepted g first), w')"
  shows "\<exists>ok c. feed_target (wdb w) f = Some (ok, c, g) \<and> may_view w p ok c"
proof -
  have view: "may_view w p ok c" if "can_view p ok c w = (Inr True, w1)" for ok c w1
    using can_view_True [of p ok c w w1] that by (auto simp: may_view_def)
  show ?thesis
  proof (cases f)
    case (EventsFeed u)
    then show ?thesis using assms view
      by (auto simp: events_consumer_connect_def bindM_apply split: option.splits prod.splits sum.splits if_splits)
  qed (use assms view in \<open>auto simp: vm_consumer_connect_def job_consumer_connect_def node_consumer_connect_def bindM_apply
      split: option.splits prod.splits sum.splits if_splits\<close>)
qed

subsection \<open>Every delivery goes back to a permission check\<close>

text \<open>The session \<open>x\<close> was accepted at some moment of the run, with \<open>first\<close> as its first message.\<close>

definition was_accepted :: "feeds \<Rightarrow> feeds \<Rightarrow> feed_session \<Rightarrow> json option \<Rightarrow> bool" where
  "was_accepted s0 s x first \<longleftrightarrow> (\<exists>s1 w. feed_step\<^sup>*\<^sup>* s0 s1 \<and> feed_step\<^sup>*\<^sup>* s1 s \<and> fd_next s1 = ses_channel x \<and>
     feed_connect (ses_feed x) (ses_user x) (fd_world s1) = (Inr (WsAccepted (ses_group x) first), w))"

definition explained :: "feeds \<Rightarrow> feeds \<Rightarrow> nat \<times> json \<Rightarrow> bool" where
  "explained s0 s d \<longleftrightarrow> (\<exists>x first. was_accepted s0 s x first \<and> ses_channel x = fst d \<and>
     (first = Some (snd d) \<or> (\<exists>m. (ses_group x, m) \<in> set (fd_published s) \<and> feed_forward (ses_feed x) m = Some (snd d))))"

definition feeds_inv :: "feeds \<Rightarrow> feeds \<Rightarrow> bool" where
  "feeds_inv s0 s \<longleftrightarrow> (\<forall>x \<in> set (fd_open s). \<exists>first. was_accepted s0 s x first) \<and> (\<forall>d \<in> set (fd_sent s). explained s0 s d)"

lemma was_accepted_step: "was_accepted s0 s x first \<Longrightarrow> feed_step s s' \<Longrightarrow> was_accepted s0 s' x first"
  unfolding was_accepted_def by (meson rtranclp.rtrancl_into_rtrancl)

lemma explained_step:
  assumes "explained s0 s d" and "feed_step s s'" and "set (fd_published s) \<subseteq> set (fd_published s')"
  shows "explained s0 s' d"
proof -
  obtain x first where x: "was_accepted s0 s x first" "ses_channel x = fst d"
    "first = Some (snd d) \<or> (\<exists>m. (ses_group x, m) \<in> set (fd_published s) \<and> feed_forward (ses_feed x) m = Some (snd d))"
    using assms(1) unfolding explained_def by blast
  then have "was_accepted s0 s' x first" using assms(2) was_accepted_step by blast
  with x assms(3) show ?thesis unfolding explained_def by blast
qed

lemma was_accepted_now:
  assumes "feed_step\<^sup>*\<^sup>* s0 s" and "feed_connect f p (fd_world s) = (Inr (WsAccepted g first), w)"
  shows "was_accepted s0 (opened f p g first w s) \<lparr> ses_channel = fd_next s, ses_feed = f, ses_user = p, ses_group = g \<rparr> first"
  unfolding was_accepted_def
  by (intro exI [of _ s] exI [of _ w]) (use assms in \<open>auto intro: r_into_rtranclp Accept\<close>)

lemma delivered_explained:
  assumes "d \<in> set (deliveries_of g m (fd_open s))" and "\<forall>x \<in> set (fd_open s). \<exists>first. was_accepted s0 s x first"
  shows "explained s0 (publish_group g m s) d"
proof -
  obtain x where x: "x \<in> set (fd_open s)" "ses_group x = g" "feed_forward (ses_feed x) m = Some (snd d)" "ses_channel x = fst d"
    using assms(1) by (auto simp: deliveries_of_def split: if_splits option.splits)
  then obtain first where "was_accepted s0 s x first" using assms(2) by blast
  then have "was_accepted s0 (publish_group g m s) x first" by (rule was_accepted_step) (rule Publish)
  then show ?thesis using x unfolding explained_def
    by (intro exI [of _ x] exI [of _ first]) (auto simp: publish_group_def)
qed

lemma feeds_inv_step:
  assumes "feeds_inv s0 s" and "feed_step\<^sup>*\<^sup>* s0 s" and "feed_step s s'"
  shows "feeds_inv s0 s'"
proof -
  have acc: "\<exists>first. was_accepted s0 s' x first" if "x \<in> set (fd_open s)" for x
    using assms(1,3) that was_accepted_step unfolding feeds_inv_def by blast
  have sent: "explained s0 s' d" if "d \<in> set (fd_sent s)" "set (fd_published s) \<subseteq> set (fd_published s')" for d
    using assms(1,3) that explained_step unfolding feeds_inv_def by blast
  from assms(3) show ?thesis
  proof cases
    case (Accept f p g first w)
    note now = was_accepted_now [OF assms(2) Accept(2), folded Accept(1)]
    have "explained s0 s' (fd_next s, j)" if "first = Some j" for j
      using now that unfolding explained_def by fastforce
    then show ?thesis using now acc sent by (auto simp: Accept(1) opened_def feeds_inv_def split: option.splits)
  next
    case (Publish g m)
    then show ?thesis using acc sent delivered_explained [of _ g m s s0] assms(1) by (auto simp: publish_group_def feeds_inv_def)
  qed (use acc sent in \<open>auto simp: feed_disconnect_def feeds_inv_def\<close>)
qed

lemma feeds_inv_run: "feed_step\<^sup>*\<^sup>* s0 s \<Longrightarrow> fd_open s0 = [] \<Longrightarrow> fd_sent s0 = [] \<Longrightarrow> feeds_inv s0 s"
  by (induction rule: rtranclp_induct) (auto intro: feeds_inv_step simp: feeds_inv_def [of s0 s0])


definition ex_feeds :: feeds where
  "ex_feeds = \<lparr> fd_world = ex_acl, fd_open = [], fd_sent = [], fd_published = [], fd_next = 0 \<rparr>"

definition ex_status :: json where
  "ex_status = JObj [(''type'', JStr ''vm.status''), (''data'', JObj [(''uuid'', JStr ''v1''), (''status'', JStr ''RUNNING'')])]"

definition ex_feed_run :: feeds where
  "ex_feed_run = publish_group ''vm.v1'' ex_status (opened (VMFeed ''v1'') (Some (5, ex_user)) ''vm.v1'' None (remember 5 1 None ex_acl) ex_feeds)"

lemma ex_feed_accepts: "feed_connect (VMFeed ''v1'') (Some (5, ex_user)) ex_acl = (Inr (WsAccepted ''vm.v1'' None), remember 5 1 None ex_acl)"
proof -
  have "by_uuid (vms (wdb ex_acl)) ''v1'' = Some (20, ex_vm)" by (simp add: ex_acl_def by_uuid_def rows_where_def ex_vm_def)
  moreover have "vm_organization ex_vm = 1" by (simp add: ex_vm_def)
  moreover have "''vm.view'' \<in> set (current_codes ex_acl 5 1 None)" by (simp add: current_codes_def ex_acl_codes del: One_nat_def)
  ultimately show ?thesis by (simp add: vm_consumer_connect_def bindM_apply can_view_def has_permission_run)
qed


text \<open>
  An event reaches only the feeds of its own organization. But the permission is not looked at again: whatever happens to the world, an open feed goes on.
\<close>

lemma event_group_names_organization:
  "feed_target d (EventsFeed u) = Some (ok, c, g) \<Longrightarrow> g = ''events.'' @ show_nat (evt_organization e) \<Longrightarrow> evt_organization e = ok"
  by (auto simp: show_nat_inj split: option.splits if_splits)

lemma open_feed_not_rechecked:
  assumes "x \<in> set (fd_open s)" and "feed_forward (ses_feed x) m = Some j"
  shows "feed_step s (s\<lparr>fd_world := w\<rparr>) \<and> (ses_channel x, j) \<in> set (fd_sent (publish_group (ses_group x) m (s\<lparr>fd_world := w\<rparr>)))"
proof
  show "feed_step s (s\<lparr>fd_world := w\<rparr>)" by (rule Work)
  show "(ses_channel x, j) \<in> set (fd_sent (publish_group (ses_group x) m (s\<lparr>fd_world := w\<rparr>)))"
    using assms by (auto simp: publish_group_def deliveries_of_def intro!: bexI [of _ x])
qed

end
