(* ===== verification/Spec2Isabelle.thy ===== *)
theory Spec2Isabelle
  imports Confirmation ImageSteps Telemetry Logging Contracts Settings Resources Feeds
begin

text \<open>
  Node-Pilot manages virtual machines on a fleet of Linux/KVM hosts. This development models its Python programs and
  proves the properties that make them correct.

  \<^bold>\<open>The program and its parts.\<close> The \<^emph>\<open>controller\<close> (\<open>backend/\<close>) is a Django application: REST views check the
  caller's permissions, validate the request and call services; a service changes rows in a transaction, creates a \<open>Job\<close> and
  hands its id to a Celery worker after the commit. The worker's task takes a Redis lock, talks to the node's
  agent over the command channel, writes the outcome and ends the job. Beat tasks sweep for nodes that went silent, reconcile,
  and start scheduled backups. The \<^emph>\<open>agent\<close> (\<open>agent/\<close>) runs on each host, executes operations with libvirt, \<open>ip\<close>,
  \<open>qemu-img\<close>, LVM and ZFS, and reports heartbeats and metrics. The \<^emph>\<open>command-line client\<close> (\<open>cli/\<close>) speaks the REST API.

  \<^bold>\<open>The shape of the model.\<close> An operation is a function of type \<open>('e, 's, 'a) M\<close>: a state to an exception or a value and the
  state reached (\<open>Prelude\<close>). On the controller the state is \<open>world\<close> (\<open>Models\<close>, \<open>World\<close>): the tables and the queue of Celery calls,
  which a transaction rolls back, and Redis, the clock, broadcasts and the environment, which it does not. On the agent it is
  \<open>host\<close> (\<open>AgentHost\<close>): the trace of everything done to the host, with arbitrary answers. Definitions keep the names of the
  source; a view method \<open>f\<close> is \<open>f_view\<close>, an agent handler \<open>f_op\<close>, a CLI command \<open>cli_f\<close>.

  \<^bold>\<open>Theories and the code they model.\<close>
  \<^item> \<open>Prelude\<close>: the effect type, the locale \<open>frame\<close> of relations that every operation preserves, Hoare triples, tables and
    the locale \<open>row_store\<close>, numbers and strings. \<open>Errors\<close>: \<open>common/exceptions.py\<close>. \<open>Models\<close>: every \<open>models.py\<close>. \<open>World\<close>:
    state and primitives, settings. \<open>Samples\<close>: the concrete world of the witnesses. \<open>Json\<close>, \<open>Base64\<close>: the codecs.
  \<^item> \<open>Jobs\<close>: \<open>jobs/\<close> and the Celery base class; \<open>Locks\<close>: \<open>common/locks.py\<close>; \<open>Environment\<close>: the Lua scripts, \<open>AgentConsumer\<close>
    and sleeping; \<open>AgentClient\<close>: \<open>nodes/agent_client.py\<close>; \<open>Events\<close>: events, audit, webhook fan-out; \<open>Webhooks\<close>: delivery and
    the defence against internal targets; \<open>Metrics\<close>: \<open>metrics/store.py\<close>; \<open>Nodes\<close>: \<open>nodes/\<close>; \<open>Quota\<close>, \<open>Scheduler\<close>, \<open>VMService\<close>,
    \<open>VMTasks\<close>: \<open>organizations/services.py\<close> and \<open>virtual_machines/\<close>; \<open>Snapshots\<close>, \<open>Backups\<close>, \<open>Networks\<close>: the apps of that name, with
    \<open>storage/\<close>.
  \<^item> \<open>Policies\<close>, \<open>Access\<close>: \<open>permissions/\<close>, \<open>common/permissions.py\<close>, \<open>common/viewsets.py\<close> and the declarations of every
    viewset; \<open>Tokens\<close>: \<open>authentication/\<close> and the websocket consumers; \<open>Images\<close>, \<open>ImageSteps\<close>: \<open>images/\<close>, handlers and their
    interleavings; \<open>Middleware\<close>: \<open>common/middleware.py\<close>, \<open>idempotency.py\<close>, \<open>throttling.py\<close>; \<open>Rest\<close>: the view methods and serializers;
    \<open>Accounts\<close>, \<open>Tenancy\<close>: users, token endpoints, organizations, projects, quotas, roles, assignments and memberships; \<open>Deletion\<close>: updates of
    these rows, and deletions with the \<open>on_delete\<close> clauses of all models; \<open>Resources\<close>: the writes that need no service; \<open>Feeds\<close>: the websocket feeds over their whole life;
    \<open>Views\<close>: representations, metrics, health and audit endpoints; \<open>Actions\<close>: what all VM actions share; \<open>Logging\<close>:
    \<open>common/logging_utils.py\<close> and the access log; \<open>Settings\<close>: \<open>config/settings/\<close>.
  \<^item> \<open>AgentHost\<close>, \<open>AgentNetwork\<close>, \<open>AgentXml\<close>, \<open>AgentStorage\<close>, \<open>AgentLibvirt\<close>, \<open>AgentOps\<close>, \<open>AgentLoop\<close>, \<open>AgentMetrics\<close>: \<open>network.py\<close>,
    \<open>domain_xml.py\<close>, \<open>storage/\<close>, \<open>libvirt_client.py\<close>, \<open>operations/\<close>, \<open>console.py\<close> and \<open>transport.py\<close>, the collectors.
    \<open>Telemetry\<close>: the loops of \<open>heartbeat.py\<close> and \<open>vm_metrics.py\<close>, and the heartbeat as the controller ingests it.
    \<open>Contracts\<close> composes the two sides. \<open>Cli\<close>: \<open>cli/\<close> and \<open>common/pagination.py\<close>.
  \<^item> \<open>System\<close>: requests, beat tasks, workers and waiting as one step relation. \<open>Confirmation\<close>: runs in which no agent confirms.
    This theory: properties of every run.

  \<^bold>\<open>What is proved.\<close>
  \<^item> Jobs: in every run, each job is finished or has its call in the queue, statuses follow the transition table, a worker that
    takes a call finishes the job, and no job succeeds unless an agent confirmed it.
  \<^item> Tenancy: permissions are decided in the object's organization, lists show what is permitted, decisions are at
    most 30 seconds old, a created VM lands in the organization that was named, tickets and console sessions are gated, feeds carry only what
    the user was allowed to see when they were opened. The exceptions that the code allows are proved too: an assignment can be moved into another
    organization, or be created there by naming one's own organization in the query.
  \<^item> Rows: creations, updates and deletions leave no dangling reference; stored webhooks stay valid; deleting a project forgets its machines without removing them from the hosts.
  \<^item> Resources: creation stays within the quota, the scheduler picks the best fitting node, locks are held across waits.
  \<^item> The wire: JSON, base64, uploads, errors and listings survive their round trips; a remote call is the agent's
    handler call; every request is answered once; the idempotency store replays and does not mix callers; a log line is one record; an
    agent whose heartbeats arrive in time keeps its node online.
  \<^item> The host: volume and network commands stay inside their pool and their own interfaces, no temporary file is left,
    power operations refine libvirt's documented states, generated XML contains values as data.
  The locales \<open>frame\<close>, \<open>db_frame\<close>, \<open>plain_frame\<close>, \<open>wait_frame\<close>, \<open>job_ops\<close>, \<open>task_frame\<close>, \<open>off_jobs\<close> and \<open>off_events\<close> are contracts
  between the layers: a relation with their laws is preserved by every operation of the layer, shown once. \<open>job_safe\<close>,
  \<open>no_success\<close> and "this table is unchanged" interpret them. \<open>bound_body\<close> is the contract of a task body with the job machinery
  and \<open>lock_service\<close> that of the Redis scripts with the lock.

  \<^bold>\<open>Bounds and loops.\<close> Polling loops (\<open>acquire\<close>, \<open>poll_loop\<close>) and retry loops are total, with the distance to
  the deadline or the number of attempts as measure. \<open>loads\<close> recurses with the length of the text as fuel, which \<open>loads_dumps\<close>
  shows to be enough for everything \<open>dumps\<close> prints. \<open>paginate\<close> may run forever against a server that always gives a next link: it
  is a partial function, and its termination on finitely many pages is proved. Time is in milliseconds, sizes are unbounded integers as in Python;
  addresses are 32- and 128-bit words. Percentages and scores are exact, without the rounding of binary floats.

  \<^bold>\<open>Interleaving.\<close> A task runs to its end, with external events (agents, users, other workers) at every sleep; upload
  requests may overtake each other between reading and writing their session. Two tasks do not interleave statement by
  statement, and handlers of an agent run one after the other. A worker that dies in mid-task appears as the redelivery of its
  call, without its partial effects; Celery's \<open>revoke\<close> is not modelled.

  \<^bold>\<open>Arguments instead of definitions.\<close> SHA-256 and Python's \<open>hash\<close>, HTTP, name resolution and \<open>urlparse\<close>, YAML, the cron field validators of
  \<open>django_celery_beat\<close>, the object lookup and field conversion of the REST framework, its page links and its timestamps are
  arguments. Uuids are strings; one that is malformed matches no row. \<open>celery_body\<close>, \<open>run_celery\<close> and \<open>run_request\<close> of \<open>System\<close>,
  \<open>vm_action_view\<close> of \<open>Actions\<close>, \<open>checked_object\<close> of \<open>Accounts\<close>, \<open>checked_create\<close> of \<open>Tenancy\<close> and \<open>protected_destroy\<close> of \<open>Deletion\<close> compose
  modelled operations the way the framework does and stand for no code of their own.

  \<^bold>\<open>Not modelled.\<close> The TypeScript frontend, migrations, admin pages and routing tables; settings that only hand constants to
  third-party packages; password and JWT checks, which are code of Django and simplejwt; the agent's \<open>main\<close> and its logging set-up. The step relation of \<open>System\<close> has no administrative deletions:
  deleting an organization removes its jobs, so that a call already in the queue then finds none.
\<close>

section \<open>Properties of the whole system\<close>

lemma reach_inv: "(sys_step E hash)\<^sup>*\<^sup>* w0 w \<Longrightarrow> system_inv w0 \<Longrightarrow> system_inv w"
  by (induction rule: rtranclp_induct) (auto intro: sys_step_inv)

lemma reach_evolves: "(sys_step E hash)\<^sup>*\<^sup>* w w' \<Longrightarrow> job_evolves w w'"
  by (induction rule: rtranclp_induct) (auto intro: job_evolves_refl job_evolves_trans sys_step_evolves)

text \<open>
  C1. No job is lost. From any well-formed state, whatever sequence of requests, beat tasks, worker runs,
  redeliveries and waiting follows: job rows stay well formed (progress between 0 and 100, a finishing time
  exactly when finished), every job-bound call in the queue names an existing job, and every job in the
  table is finished or has the call that will run it in the queue.
\<close>

theorem no_job_lost:
  assumes "(sys_step E hash)\<^sup>*\<^sup>* w0 w" and "system_inv w0"
  shows "jobs_wf w \<and>
     (\<forall>c k. c \<in> set (queue (wdb w)) \<longrightarrow> celery_job c = Some k \<longrightarrow> row_get k (jobs (wdb w)) \<noteq> None) \<and>
     (\<forall>k j. row_get k (jobs (wdb w)) = Some j \<longrightarrow>
        is_terminal (job_status j) \<or> (\<exists>c \<in> set (queue (wdb w)). celery_job c = Some k))"
proof -
  have i: "system_inv w" using reach_inv [OF assms] .
  then have "is_terminal (job_status j) \<or> (\<exists>c \<in> set (queue (wdb w)). celery_job c = Some k)"
    if "row_get k (jobs (wdb w)) = Some j" for k j
    using that by (auto simp: system_inv_iff has_job_def terminal_in_def queued_job_def list_ex_iff)
  with i show ?thesis by (auto simp: system_inv_iff has_job_def)
qed

definition ex_busy :: world where
  "ex_busy = db_upd (\<lambda>d. d\<lparr>queue := [StartVm 30 20]\<rparr>) ex_world"

lemma ex_busy_inv: "system_inv ex_busy"
  by (simp add: ex_busy_def system_inv_def jobs_wf_def has_job_def queued_job_def job_wf_def ex_world_simps ex_db_simps
      ex_job_def)

theorem no_job_lost_witness:
  "jobs_wf (snd (run_request (\<lambda>s. s) None (ReqStop 20 True) ex_busy))"
  using no_job_lost [OF r_into_rtranclp ex_busy_inv, OF sys_step.Request [of ex_http "\<lambda>s. s" ex_busy None "ReqStop 20 True"]]
  by simp

text \<open>
  C3. Every queued task comes to an end: in every reachable state, a worker that takes any job-bound call
  from the queue returns with the job of that call finished, whatever agents, users and other workers do
  meanwhile.
\<close>

theorem worker_finishes_job:
  assumes "(sys_step E hash)\<^sup>*\<^sup>* w0 w" and "system_inv w0"
    and "c \<in> set (queue (wdb w))" and "celery_job c = Some k"
  shows "\<exists>w' j. run_celery E n t c w = (Inr (), w') \<and> row_get k (jobs (wdb w')) = Some j \<and> is_terminal (job_status j)"
proof -
  have i: "system_inv w" using reach_inv [OF assms(1,2)] .
  then have "has_job k w" using assms(3,4) unfolding system_inv_iff by blast
  then obtain w' where "run_celery E n t c w = (Inr (), w')" "terminal_in k w'"
    using celery_run_bound [OF assms(4), of E n t w] by blast
  then show ?thesis by (auto simp: terminal_in_def split: option.splits)
qed

theorem worker_finishes_job_witness:
  "\<exists>w' j. run_celery ex_http 0 ''t'' (StartVm 30 20) ex_busy = (Inr (), w') \<and>
     row_get 30 (jobs (wdb w')) = Some j \<and> is_terminal (job_status j)"
  by (rule worker_finishes_job [OF rtranclp.rtrancl_refl ex_busy_inv]) (simp_all add: ex_busy_def)

text \<open>
  A finished job stays finished: no sequence of steps changes the status of a job that is \<open>SUCCESS\<close>,
  \<open>FAILED\<close> or \<open>CANCELED\<close>, not even a redelivery of its task, and no step removes a job.
\<close>

theorem finished_jobs_final:
  assumes "(sys_step E hash)\<^sup>*\<^sup>* w w'" and "row_get k (jobs (wdb w)) = Some j" and "is_terminal (job_status j)"
  shows "\<exists>j'. row_get k (jobs (wdb w')) = Some j' \<and> job_status j' = job_status j \<and> job_type j' = job_type j"
  using reach_evolves [OF assms(1)] assms(2,3) terminal_stays
  unfolding job_evolves_def same_job_def by fastforce

definition ex_done :: world where
  "ex_done = db_upd (\<lambda>d. d\<lparr>jobs := [(30, ex_job\<lparr>job_status := JS_SUCCESS\<rparr>)], queue := [StartVm 30 20]\<rparr>) ex_world"

theorem finished_jobs_final_witness:
  "\<exists>j'. row_get 30 (jobs (wdb (snd (run_celery ex_http 0 ''t'' (StartVm 30 20) ex_done)))) = Some j' \<and>
     job_status j' = JS_SUCCESS \<and> job_type j' = VM_START"
proof -
  have "sys_step ex_http (\<lambda>s. s) ex_done (snd (run_celery ex_http 0 ''t'' (StartVm 30 20) ex_done))"
    by (rule sys_step.Redelivered) (simp add: ex_done_def)
  then have "(sys_step ex_http (\<lambda>s. s))\<^sup>*\<^sup>* ex_done (snd (run_celery ex_http 0 ''t'' (StartVm 30 20) ex_done))"
    by (rule r_into_rtranclp)
  from finished_jobs_final [OF this, of 30 "ex_job\<lparr>job_status := JS_SUCCESS\<rparr>"]
  show ?thesis by (simp add: ex_done_def ex_job_def)
qed

text \<open>
  C2. Nothing succeeds unconfirmed. In an environment where no reply that is stored, under way or still to
  be given by any agent reports success (agents that are silent, slow, disconnected or answer with errors
  or nonsense), running any job-bound task ends its job, and the job ends \<open>FAILED\<close> or
  \<open>CANCELED\<close> unless it had succeeded before; no other job becomes successful either.
\<close>

theorem unconfirmed_never_succeeds:
  assumes "unconfirming w" and "celery_job c = Some k" and "row_get k (jobs (wdb w)) = Some j" and "job_status j \<noteq> JS_SUCCESS"
  shows "\<exists>w' j'. run_celery E n t c w = (Inr (), w') \<and> row_get k (jobs (wdb w')) = Some j' \<and>
     job_status j' \<in> {JS_FAILED, JS_CANCELED} \<and> (\<forall>i. succeeded i w' \<longrightarrow> succeeded i w)"
proof -
  have "has_job k w" using assms(3) by (simp add: has_job_def)
  then obtain w' where w': "run_celery E n t c w = (Inr (), w')" "terminal_in k w'"
    using celery_run_bound [OF assms(2), of E n t w] by blast
  then obtain j' where j': "row_get k (jobs (wdb w')) = Some j'" "is_terminal (job_status j')"
    by (auto simp: terminal_in_def split: option.splits)
  have "quietly no_success w w'" using keepsD [OF ns.quiet_run_celery [OF assms(2)] w'(1)] .
  then have ns: "no_success w w'" using assms(1) by (simp add: quietly_def)
  then have "job_status j' \<noteq> JS_SUCCESS" using assms(3,4) j'(1) by (auto simp: no_success_def succeeded_def)
  then have "job_status j' \<in> {JS_FAILED, JS_CANCELED}" using j'(2) by (cases "job_status j'") (simp_all add: is_terminal_def)
  with w'(1) j'(1) ns show ?thesis unfolding no_success_def by blast
qed

definition ex_mute :: world where
  "ex_mute = ex_busy\<lparr>redis := [], sched := [], agent_env := \<lambda>u n x. []\<rparr>"

lemma ex_mute_unconf: "unconfirming ex_mute"
  by (simp add: ex_mute_def unconfirming_def)

theorem unconfirmed_never_succeeds_witness:
  "\<exists>w' j'. run_celery ex_http 0 ''t'' (StartVm 30 20) ex_mute = (Inr (), w') \<and> row_get 30 (jobs (wdb w')) = Some j' \<and>
     job_status j' \<in> {JS_FAILED, JS_CANCELED} \<and> (\<forall>i. succeeded i w' \<longrightarrow> succeeded i ex_mute)"
  by (rule unconfirmed_never_succeeds [OF ex_mute_unconf, where j = ex_job])
    (simp_all add: ex_mute_def ex_busy_def ex_world_simps ex_db_simps ex_job_def)

text \<open>
  A VM's status follows the agent's confirmation, never the request: in such an environment the tasks
  that start, stop, reboot, pause and resume a VM leave the status of every VM as it was.
\<close>

theorem unconfirmed_status_unchanged:
  assumes "unconfirming w" and "is_lifecycle c" and "row_get i (vms (wdb w)) = Some v"
  shows "\<exists>v'. row_get i (vms (wdb (snd (run_celery E n t c w)))) = Some v' \<and> vm_status v' = vm_status v"
proof -
  obtain r w' where w': "run_celery E n t c w = (r, w')" by fastforce
  have "quietly (same_on vm_states) w w'" using keepsD [OF st_run_celery [OF assms(2)] w'] .
  then have "vm_states (wdb w') = vm_states (wdb w)" using assms(1) by (simp add: quietly_def same_on_def)
  then have "map_option vm_status (row_get i (vms (wdb w'))) = map_option vm_status (row_get i (vms (wdb w)))"
    by (simp add: vm_states_get [symmetric])
  with assms(3) w' show ?thesis by auto
qed

theorem unconfirmed_status_unchanged_witness:
  "\<exists>v'. row_get 20 (vms (wdb (snd (run_celery ex_http 0 ''t'' (StartVm 30 20) ex_mute)))) = Some v' \<and>
     vm_status v' = vm_status ex_vm"
  by (rule unconfirmed_status_unchanged [OF ex_mute_unconf])
    (simp_all add: is_lifecycle_def ex_mute_def ex_busy_def ex_world_simps ex_db_simps)

end
